(* ===== verification/FgPrelude.thy ===== *)
theory FgPrelude
  imports Main "HOL-Library.Multiset"
begin

text \<open>
  What the component theories share: the collections their proofs draw on, the list
  operations of the dashboard's code that HOL does not have under the same name
  (\<open>findIndex\<close>, a comparator sort, the ``patch the items with this key'' idiom
  \<open>xs.map(x => x.id === id ? {...x, ...patch} : x)\<close> that the tab list, the upload
  queue and the toast store all use), and two interfaces stated as locales: a keyed
  store with a patch operation, and a machine whose every step keeps an invariant.
\<close>

named_theorems js_string \<open>facts on the string operations\<close>
named_theorems fs_simps \<open>rewriting of the file page's state functions\<close>
named_theorems upload_simps \<open>rewriting of the upload engine's steps\<close>

subsection \<open>Array methods\<close>

fun find_index :: "('a \<Rightarrow> bool) \<Rightarrow> 'a list \<Rightarrow> nat option" where
  "find_index p [] = None"
| "find_index p (x # xs) = (if p x then Some 0 else map_option Suc (find_index p xs))"

lemma find_index_None_iff: "find_index p xs = None \<longleftrightarrow> (\<forall>x\<in>set xs. \<not> p x)"
  by (induction xs) auto

lemma find_index_SomeD: "find_index p xs = Some i \<Longrightarrow> i < length xs \<and> p (xs ! i)"
  by (induction xs arbitrary: i) (auto split: if_splits)

lemma find_index_first: "find_index p xs = Some i \<Longrightarrow> j < i \<Longrightarrow> \<not> p (xs ! j)"
proof (induction xs arbitrary: i j)
  case Nil
  then show ?case by simp
next
  case (Cons x xs)
  then show ?case by (cases j) (auto split: if_splits)
qed

lemma find_Some_memD: "List.find p xs = Some x \<Longrightarrow> x \<in> set xs \<and> p x"
  by (auto simp: find_Some_iff)

lemma find_key_unique:
  "distinct (map key xs) \<Longrightarrow> x \<in> set xs \<Longrightarrow> List.find (\<lambda>y. key y = key x) xs = Some x"
proof (induction xs)
  case Nil
  then show ?case by simp
next
  case (Cons y ys)
  then show ?case by (cases "x = y") (auto simp: image_iff)
qed

subsection \<open>Sorting with a comparator\<close>

text \<open>
  \<open>Array.prototype.sort\<close> with a comparator is stable; for a consistent comparator its
  result is unique, so insertion sort computes it. \<open>cmp a b \<le> 0\<close> keeps \<open>a\<close> before
  \<open>b\<close>.
\<close>

fun insert_by :: "('a \<Rightarrow> 'a \<Rightarrow> int) \<Rightarrow> 'a \<Rightarrow> 'a list \<Rightarrow> 'a list" where
  "insert_by cmp x [] = [x]"
| "insert_by cmp x (y # ys) = (if cmp x y \<le> 0 then x # y # ys else y # insert_by cmp x ys)"

fun js_sort :: "('a \<Rightarrow> 'a \<Rightarrow> int) \<Rightarrow> 'a list \<Rightarrow> 'a list" where
  "js_sort cmp [] = []"
| "js_sort cmp (x # xs) = insert_by cmp x (js_sort cmp xs)"

definition consistent_cmp :: "('a \<Rightarrow> 'a \<Rightarrow> int) \<Rightarrow> bool" where
  "consistent_cmp cmp \<longleftrightarrow>
     (\<forall>a b. cmp a b \<le> 0 \<or> cmp b a \<le> 0) \<and>
     (\<forall>a b c. cmp a b \<le> 0 \<longrightarrow> cmp b c \<le> 0 \<longrightarrow> cmp a c \<le> 0)"

lemma mset_insert_by [simp]: "mset (insert_by cmp x xs) = {#x#} + mset xs"
  by (induction xs) auto

lemma mset_js_sort [simp]: "mset (js_sort cmp xs) = mset xs"
  by (induction xs) auto

lemma set_insert_by [simp]: "set (insert_by cmp x xs) = insert x (set xs)"
  by (induction xs) auto

lemma set_js_sort [simp]: "set (js_sort cmp xs) = set xs"
  by (induction xs) auto

lemma length_js_sort [simp]: "length (js_sort cmp xs) = length xs"
  using mset_eq_length [OF mset_js_sort] .

lemma sorted_wrt_insert_by:
  assumes "consistent_cmp cmp" and "sorted_wrt (\<lambda>a b. cmp a b \<le> 0) xs"
  shows "sorted_wrt (\<lambda>a b. cmp a b \<le> 0) (insert_by cmp x xs)"
  using assms(2)
proof (induction xs)
  case Nil
  show ?case by simp
next
  case (Cons y ys)
  show ?case
  proof (cases "cmp x y \<le> 0")
    case True
    then have "cmp x z \<le> 0" if "z \<in> set ys" for z
      using Cons.prems assms(1) that unfolding consistent_cmp_def by auto
    then show ?thesis using True Cons.prems by simp
  next
    case False
    then have "cmp y x \<le> 0" using assms(1) unfolding consistent_cmp_def by blast
    then show ?thesis using False Cons by auto
  qed
qed

lemma sorted_wrt_js_sort:
  "consistent_cmp cmp \<Longrightarrow> sorted_wrt (\<lambda>a b. cmp a b \<le> 0) (js_sort cmp xs)"
  by (induction xs) (auto intro: sorted_wrt_insert_by)

text \<open>Comparators the lists are sorted by: a key, and a flag that comes first.\<close>

lemma consistent_key: "consistent_cmp c \<Longrightarrow> consistent_cmp (\<lambda>a b. c (f a) (f b))"
  unfolding consistent_cmp_def by blast

lemma consistent_flag:
  fixes c :: "'a \<Rightarrow> 'a \<Rightarrow> int"
  assumes "consistent_cmp c"
  shows "consistent_cmp (\<lambda>a b. if k a \<noteq> k b then (if k a then -1 else 1) else c a b)"
proof -
  have tot: "c x y \<le> 0 \<or> c y x \<le> 0" for x y
    using assms unfolding consistent_cmp_def by blast
  have tr: "c x y \<le> 0 \<Longrightarrow> c y z \<le> 0 \<Longrightarrow> c x z \<le> 0" for x y z
    using assms unfolding consistent_cmp_def by blast
  show ?thesis
    unfolding consistent_cmp_def
  proof (intro conjI allI impI)
    fix a b
    show "(if k a \<noteq> k b then (if k a then -1 else 1) else c a b) \<le> (0::int) \<or>
        (if k b \<noteq> k a then (if k b then -1 else 1) else c b a) \<le> (0::int)"
      using tot [of a b] by auto
  next
    fix x y z
    assume "(if k x \<noteq> k y then (if k x then -1 else 1) else c x y) \<le> (0::int)"
      "(if k y \<noteq> k z then (if k y then -1 else 1) else c y z) \<le> (0::int)"
    then show "(if k x \<noteq> k z then (if k x then -1 else 1) else c x z) \<le> (0::int)"
      using tr [of x y z] by (simp split: if_splits)
  qed
qed

subsection \<open>Patching the items with a given key\<close>

definition patch_by :: "('a \<Rightarrow> 'k) \<Rightarrow> 'k \<Rightarrow> ('a \<Rightarrow> 'a) \<Rightarrow> 'a list \<Rightarrow> 'a list" where
  "patch_by key k f xs = map (\<lambda>x. if key x = k then f x else x) xs"

lemma length_patch_by [simp]: "length (patch_by key k f xs) = length xs"
  by (simp add: patch_by_def)

lemma patch_by_Nil [simp]: "patch_by key k f [] = []"
  by (simp add: patch_by_def)

lemma patch_by_Cons [simp]:
  "patch_by key k f (x # xs) = (if key x = k then f x else x) # patch_by key k f xs"
  by (simp add: patch_by_def)

lemma patch_by_append [simp]:
  "patch_by key k f (xs @ ys) = patch_by key k f xs @ patch_by key k f ys"
  by (simp add: patch_by_def)

lemma in_set_patch_byE:
  assumes "y \<in> set (patch_by key k f xs)"
  obtains x where "x \<in> set xs" and "y = (if key x = k then f x else x)"
  using assms by (auto simp: patch_by_def)

lemma patch_by_absent: "k \<notin> key ` set xs \<Longrightarrow> patch_by key k f xs = xs"
  by (induction xs) auto

text \<open>
  The interface of a keyed store: \<open>patch k p\<close> rewrites exactly the items whose key is
  \<open>k\<close>, and applying a patch never changes a key. The tab list, the upload queue and the
  toast store are its interpretations.
\<close>

locale keyed_store =
  fixes key :: "'a \<Rightarrow> 'k"
    and apply_patch :: "'p \<Rightarrow> 'a \<Rightarrow> 'a"
    and patch :: "'k \<Rightarrow> 'p \<Rightarrow> 'a list \<Rightarrow> 'a list"
  assumes patch_eq: "patch k p xs = patch_by key k (apply_patch p) xs"
    and key_apply: "key (apply_patch p x) = key x"
begin

lemma keys_patch: "map key (patch k p xs) = map key xs"
  by (induction xs) (auto simp: patch_eq key_apply)

lemma length_patch: "length (patch k p xs) = length xs"
  by (simp add: patch_eq)

lemma distinct_patch: "distinct (map key (patch k p xs)) = distinct (map key xs)"
  by (simp add: keys_patch)

lemma find_patch_same:
  "List.find (\<lambda>x. key x = k) (patch k p xs)
     = map_option (apply_patch p) (List.find (\<lambda>x. key x = k) xs)"
  by (induction xs) (auto simp: patch_eq key_apply)

lemma find_patch_other:
  "k' \<noteq> k \<Longrightarrow> List.find (\<lambda>x. key x = k') (patch k p xs) = List.find (\<lambda>x. key x = k') xs"
  by (induction xs) (auto simp: patch_eq key_apply)

lemma patch_commute:
  "k \<noteq> k' \<Longrightarrow> patch k p (patch k' q xs) = patch k' q (patch k p xs)"
  by (induction xs) (auto simp: patch_eq key_apply)

lemma patch_absent: "k \<notin> key ` set xs \<Longrightarrow> patch k p xs = xs"
  by (simp add: patch_eq patch_by_absent)

lemma patch_all:
  assumes "\<forall>x\<in>set xs. P x" and "\<And>x. x \<in> set xs \<Longrightarrow> key x = k \<Longrightarrow> P x \<Longrightarrow> P (apply_patch p x)"
  shows "\<forall>x\<in>set (patch k p xs). P x"
  using assms by (auto simp: patch_eq elim!: in_set_patch_byE)

end

subsection \<open>Machines with an invariant\<close>

text \<open>
  A machine that runs a list of events. A component that interprets the locale proves
  one preservation lemma per event and gets the invariant of every run.
\<close>

fun run_events :: "('s \<Rightarrow> 'e \<Rightarrow> 's) \<Rightarrow> 's \<Rightarrow> 'e list \<Rightarrow> 's" where
  "run_events step s [] = s"
| "run_events step s (e # es) = run_events step (step s e) es"

lemma run_events_append:
  "run_events step s (es @ fs) = run_events step (run_events step s es) fs"
  by (induction es arbitrary: s) auto

locale invariant_machine =
  fixes step :: "'s \<Rightarrow> 'e \<Rightarrow> 's"
    and inv :: "'s \<Rightarrow> bool"
    and start :: "'s"
  assumes inv_start: "inv start"
    and inv_step: "inv s \<Longrightarrow> inv (step s e)"
begin

lemma inv_run: "inv s \<Longrightarrow> inv (run_events step s es)"
  by (induction es arbitrary: s) (auto intro: inv_step)

lemma inv_reachable: "inv (run_events step start es)"
  by (rule inv_run [OF inv_start])

lemma inv_every_prefix: "inv (run_events step start (take n es))"
  by (rule inv_reachable)

end

end
