(* ===== verification/JsString.thy ===== *)
theory JsString
  imports FgPrelude
begin

text \<open>
  The string operations the dashboard uses. A JavaScript string is a sequence of code
  units; here it is a HOL \<open>string\<close>, whose characters are the code units below 256, and
  the operations are exact on those: \<open>trim\<close> removes the white space of ECMAScript in
  that range (tab to carriage return, space, no-break space), \<open>toLowerCase\<close> maps the
  ASCII and the Latin-1 capitals, and the case-insensitive regular expressions fold
  ASCII letters only, as the specification's canonicalisation does.
\<close>

subsection \<open>Affixes\<close>

definition starts_with :: "string \<Rightarrow> string \<Rightarrow> bool" where
  "starts_with s p \<longleftrightarrow> take (length p) s = p"

definition ends_with :: "string \<Rightarrow> string \<Rightarrow> bool" where
  "ends_with s p \<longleftrightarrow> length p \<le> length s \<and> drop (length s - length p) s = p"

lemma starts_with_iff: "starts_with s p \<longleftrightarrow> (\<exists>r. s = p @ r)"
  unfolding starts_with_def by (metis append_eq_conv_conj append_take_drop_id)

lemma ends_with_iff: "ends_with s p \<longleftrightarrow> (\<exists>r. s = r @ p)"
proof
  assume "ends_with s p"
  then have "s = take (length s - length p) s @ p"
    unfolding ends_with_def by (metis append_take_drop_id)
  then show "\<exists>r. s = r @ p" by blast
qed (auto simp: ends_with_def)

lemma starts_with_append [simp, js_string]: "starts_with (p @ r) p"
  by (auto simp: starts_with_iff)

lemma starts_with_refl [simp, js_string]: "starts_with p p"
  by (simp add: starts_with_def)

lemma starts_with_Nil [simp, js_string]: "starts_with s []"
  by (simp add: starts_with_def)

lemma starts_with_trans: "starts_with a b \<Longrightarrow> starts_with b c \<Longrightarrow> starts_with a c"
  by (auto simp: starts_with_iff)

lemma starts_with_same_append [simp, js_string]:
  "starts_with (p @ a) (p @ b) \<longleftrightarrow> starts_with a b"
  by (auto simp: starts_with_iff)

lemma starts_with_linear:
  "starts_with s a \<Longrightarrow> starts_with s b \<Longrightarrow> starts_with a b \<or> starts_with b a"
  by (auto simp: starts_with_iff append_eq_append_conv2)

subsection \<open>Case and white space\<close>

definition js_lower_char :: "char \<Rightarrow> char" where
  "js_lower_char c =
     (let n = of_char c :: nat in
      if (65 \<le> n \<and> n \<le> 90) \<or> (192 \<le> n \<and> n \<le> 222 \<and> n \<noteq> 215) then char_of (n + 32) else c)"

definition js_lower :: "string \<Rightarrow> string" where
  "js_lower s = map js_lower_char s"

definition js_space :: "char \<Rightarrow> bool" where
  "js_space c = (let n = of_char c :: nat in (9 \<le> n \<and> n \<le> 13) \<or> n = 32 \<or> n = 160)"

definition js_trim :: "string \<Rightarrow> string" where
  "js_trim s = rev (dropWhile js_space (rev (dropWhile js_space s)))"

lemma js_trim_blank_iff: "js_trim s = [] \<longleftrightarrow> (\<forall>c\<in>set s. js_space c)"
  by (auto simp: js_trim_def dropWhile_eq_Nil_conv dest: set_dropWhileD)
     (metis dropWhile_eq_Nil_conv list.set_intros(1) hd_dropWhile hd_in_set)

lemma set_js_trim: "set (js_trim s) \<subseteq> set s"
  by (auto simp: js_trim_def dest!: set_dropWhileD)

lemma of_char_less_256: "(of_char c :: nat) < 256"
  by simp

lemma js_lower_char_idem [simp]: "js_lower_char (js_lower_char c) = js_lower_char c"
proof -
  have "(of_char c :: nat) + 32 < 256"
    if "(65 \<le> (of_char c :: nat) \<and> (of_char c :: nat) \<le> 90) \<or>
        (192 \<le> (of_char c :: nat) \<and> (of_char c :: nat) \<le> 222)"
    using that by linarith
  then show ?thesis
    by (auto simp: js_lower_char_def Let_def)
qed

lemma js_lower_idem [simp, js_string]: "js_lower (js_lower s) = js_lower s"
  by (simp add: js_lower_def comp_def)

lemma length_js_lower [simp, js_string]: "length (js_lower s) = length s"
  by (simp add: js_lower_def)

text \<open>The test \<open>/\.zip$/i\<close> and the removals built on it.\<close>

definition ascii_fold :: "char \<Rightarrow> char" where
  "ascii_fold c = (let n = of_char c :: nat in if 65 \<le> n \<and> n \<le> 90 then char_of (n + 32) else c)"

definition ends_with_ci :: "string \<Rightarrow> string \<Rightarrow> bool" where
  "ends_with_ci s p \<longleftrightarrow> ends_with (map ascii_fold s) (map ascii_fold p)"

lemma ends_with_ci_append [simp, js_string]: "ends_with_ci (s @ p) p"
  by (auto simp: ends_with_ci_def ends_with_iff)

subsection \<open>Trimming\<close>

lemma js_trim_Nil [simp]: "js_trim [] = []"
  by (simp add: js_trim_def)

lemma dropWhile_twice: "dropWhile p (dropWhile p xs) = dropWhile p xs"
  by (induction xs) auto

lemma js_trim_idem [simp]: "js_trim (js_trim s) = js_trim s"
proof -
  define a where "a = dropWhile js_space s"
  define t where "t = rev (dropWhile js_space (rev a))"
  have "dropWhile js_space t = t"
  proof (cases t)
    case (Cons x xs)
    then have "a = x # xs @ rev (takeWhile js_space (rev a))"
      unfolding t_def by (metis append_Cons rev_append rev_rev_ident takeWhile_dropWhile_id)
    then have "\<not> js_space x"
      unfolding a_def by (metis hd_dropWhile list.distinct(1) list.sel(1))
    then show ?thesis using Cons by simp
  qed simp
  then show ?thesis by (simp add: js_trim_def dropWhile_twice flip: a_def) (simp add: t_def dropWhile_twice)
qed

subsection \<open>Positions\<close>

definition last_index_of :: "string \<Rightarrow> char \<Rightarrow> int" where
  "last_index_of s c =
     (case find_index (\<lambda>x. x = c) (rev s) of None \<Rightarrow> -1 | Some k \<Rightarrow> int (length s) - 1 - int k)"

text \<open>\<open>s.split(c).pop()\<close>: what follows the last separator, the whole string if none.\<close>

definition last_segment :: "(char \<Rightarrow> bool) \<Rightarrow> string \<Rightarrow> string" where
  "last_segment sep s = rev (takeWhile (\<lambda>c. \<not> sep c) (rev s))"

lemma last_segment_no_sep: "\<forall>c\<in>set (last_segment sep s). \<not> sep c"
  by (auto simp: last_segment_def dest: set_takeWhileD)

lemma last_segment_append:
  "sep c \<Longrightarrow> (\<forall>x\<in>set n. \<not> sep x) \<Longrightarrow> last_segment sep (d @ c # n) = n"
  by (simp add: last_segment_def takeWhile_append)

lemma last_index_of_absent: "c \<notin> set s \<Longrightarrow> last_index_of s c = -1"
proof -
  assume "c \<notin> set s"
  then have "find_index (\<lambda>x. x = c) (rev s) = None" by (auto simp: find_index_None_iff)
  then show ?thesis by (simp add: last_index_of_def)
qed

lemma find_index_append_found:
  "(\<forall>x\<in>set xs. \<not> p x) \<Longrightarrow> p y \<Longrightarrow> find_index p (xs @ y # ys) = Some (length xs)"
  by (induction xs) auto

lemma last_index_of_append:
  "c \<notin> set n \<Longrightarrow> last_index_of (d @ c # n) c = int (length d)"
proof -
  assume "c \<notin> set n"
  then have "find_index (\<lambda>x. x = c) (rev n @ c # rev d) = Some (length (rev n))"
    by (intro find_index_append_found) auto
  then show ?thesis by (simp add: last_index_of_def)
qed

lemma last_index_of_less:
  "last_index_of s c < int (length s)"
  by (auto simp: last_index_of_def split: option.splits)

lemma last_index_of_mono_append:
  assumes "c \<notin> set n"
  shows "last_index_of (d @ n) c = last_index_of d c"
proof (cases "c \<in> set d")
  case True
  then obtain a b where d: "d = a @ c # b" and "c \<notin> set b"
    by (metis split_list_last)
  with assms show ?thesis
    using last_index_of_append [of c "b @ n" a] last_index_of_append [of c b a] by simp
next
  case False
  with assms show ?thesis by (simp add: last_index_of_absent)
qed

lemma last_index_of_eq_minus_one_iff: "last_index_of s c = -1 \<longleftrightarrow> c \<notin> set s"
proof
  assume *: "last_index_of s c = -1"
  show "c \<notin> set s"
  proof
    assume "c \<in> set s"
    then obtain a b where "s = a @ c # b" and "c \<notin> set b" by (metis split_list_last)
    then show False using last_index_of_append [of c b a] * by simp
  qed
qed (rule last_index_of_absent)

subsection \<open>Decimal numerals\<close>

definition digit_char :: "nat \<Rightarrow> char" where
  "digit_char d = char_of (48 + d)"

fun nat_to_string :: "nat \<Rightarrow> string" where
  "nat_to_string n =
     (if n < 10 then [digit_char n] else nat_to_string (n div 10) @ [digit_char (n mod 10)])"

declare nat_to_string.simps [simp del]

definition digit_value :: "char \<Rightarrow> nat" where
  "digit_value c = of_char c - 48"

definition string_to_nat :: "string \<Rightarrow> nat" where
  "string_to_nat s = foldl (\<lambda>n c. 10 * n + digit_value c) 0 s"

lemma digit_value_char [simp]: "d < 10 \<Longrightarrow> digit_value (digit_char d) = d"
  by (simp add: digit_value_def digit_char_def)

lemma string_to_nat_snoc [simp]: "string_to_nat (s @ [c]) = 10 * string_to_nat s + digit_value c"
  by (simp add: string_to_nat_def)

lemma string_to_nat_to_string [simp, js_string]: "string_to_nat (nat_to_string n) = n"
proof (induction n rule: nat_to_string.induct)
  case (1 n)
  show ?case
  proof (cases "n < 10")
    case True
    then show ?thesis by (simp add: nat_to_string.simps [of n] string_to_nat_def)
  next
    case False
    with "1.IH" show ?thesis by (simp add: nat_to_string.simps [of n])
  qed
qed

lemma nat_to_string_inject [simp, js_string]: "nat_to_string m = nat_to_string n \<longleftrightarrow> m = n"
  by (metis string_to_nat_to_string)

end
