(* ===== verification/UrlEncoding.thy ===== *)
theory UrlEncoding
  imports JsString
begin

text \<open>
  The two escaping routines of the platform the services call: \<open>encodeURIComponent\<close> and
  the serialiser of \<open>URLSearchParams\<close>. Both write the UTF-8 bytes of a code unit that is
  not kept literally as percent escapes. The decoder is the receiver's side of the form
  encoding; it shows that no two parameter lists share a query string.
\<close>

definition is_alnum :: "char \<Rightarrow> bool" where
  "is_alnum c = (let n = of_char c :: nat in
     (48 \<le> n \<and> n \<le> 57) \<or> (65 \<le> n \<and> n \<le> 90) \<or> (97 \<le> n \<and> n \<le> 122))"

definition utf8_bytes :: "char \<Rightarrow> nat list" where
  "utf8_bytes c = (let n = of_char c in if n < 128 then [n] else [192 + n div 64, 128 + n mod 64])"

definition hex_digit :: "nat \<Rightarrow> char" where
  "hex_digit d = char_of (if d < 10 then 48 + d else 55 + d)"

definition unhex :: "char \<Rightarrow> nat" where
  "unhex c = (let n = of_char c in if n < 58 then n - 48 else n - 55)"

definition pct_escape :: "nat \<Rightarrow> string" where
  "pct_escape b = [CHR ''%'', hex_digit (b div 16), hex_digit (b mod 16)]"

subsection \<open>encodeURIComponent\<close>

definition uri_unreserved :: "char \<Rightarrow> bool" where
  "uri_unreserved c \<longleftrightarrow> is_alnum c \<or> c \<in> set ''-_.!~*()'' \<or> c = CHR 0x27"

definition encode_uri_component :: "string \<Rightarrow> string" where
  "encode_uri_component s =
     concat (map (\<lambda>c. if uri_unreserved c then [c] else concat (map pct_escape (utf8_bytes c))) s)"

subsection \<open>URLSearchParams\<close>

definition form_safe :: "char \<Rightarrow> bool" where
  "form_safe c \<longleftrightarrow> is_alnum c \<or> c \<in> set ''*-._''"

definition form_char :: "char \<Rightarrow> string" where
  "form_char c =
     (if form_safe c then [c] else if c = CHR '' '' then ''+''
      else concat (map pct_escape (utf8_bytes c)))"

definition form_encode :: "string \<Rightarrow> string" where
  "form_encode s = concat (map form_char s)"

fun join_with :: "char \<Rightarrow> string list \<Rightarrow> string" where
  "join_with c [] = []"
| "join_with c [s] = s"
| "join_with c (s # t # ts) = s @ c # join_with c (t # ts)"

definition form_pair :: "string \<times> string \<Rightarrow> string" where
  "form_pair kv = form_encode (fst kv) @ CHR ''='' # form_encode (snd kv)"

definition search_params :: "(string \<times> string) list \<Rightarrow> string" where
  "search_params ps = join_with (CHR ''&'') (map form_pair ps)"

subsection \<open>The receiver's side\<close>

fun form_bytes :: "string \<Rightarrow> nat list" where
  "form_bytes [] = []"
| "form_bytes (c # cs) =
     (if c = CHR ''+'' then 32 # form_bytes cs
      else if c = CHR ''%'' then
        (case cs of h # l # r \<Rightarrow> (16 * unhex h + unhex l) # form_bytes r | _ \<Rightarrow> [])
      else of_char c # form_bytes cs)"

fun utf8_decode :: "nat list \<Rightarrow> string" where
  "utf8_decode [] = []"
| "utf8_decode (b # bs) =
     (if b < 128 then char_of b # utf8_decode bs
      else (case bs of b2 # r \<Rightarrow> char_of ((b - 192) * 64 + (b2 - 128)) # utf8_decode r | [] \<Rightarrow> []))"

definition form_decode :: "string \<Rightarrow> string" where
  "form_decode s = utf8_decode (form_bytes s)"

fun split_on :: "char \<Rightarrow> string \<Rightarrow> string list" where
  "split_on c [] = [[]]"
| "split_on c (x # xs) =
     (if x = c then [] # split_on c xs
      else (case split_on c xs of [] \<Rightarrow> [[x]] | y # ys \<Rightarrow> (x # y) # ys))"

definition parse_pair :: "string \<Rightarrow> string \<times> string" where
  "parse_pair s =
     (form_decode (takeWhile (\<lambda>c. c \<noteq> CHR ''='') s),
      form_decode (drop 1 (dropWhile (\<lambda>c. c \<noteq> CHR ''='') s)))"

definition parse_query :: "string \<Rightarrow> (string \<times> string) list" where
  "parse_query q = map parse_pair (filter (\<lambda>s. s \<noteq> []) (split_on (CHR ''&'') q))"

subsection \<open>Laws\<close>

lemma unhex_hex_digit [simp]: "d < 16 \<Longrightarrow> unhex (hex_digit d) = d"
  by (auto simp: unhex_def hex_digit_def Let_def)

lemma utf8_bytes_less: "b \<in> set (utf8_bytes c) \<Longrightarrow> b < 256"
proof -
  have "(of_char c :: nat) < 4 * 64" by simp
  then have "(of_char c :: nat) div 64 < 4" by (rule less_mult_imp_div_less)
  moreover have "(of_char c :: nat) mod 64 < 64" by simp
  ultimately show "b \<in> set (utf8_bytes c) \<Longrightarrow> b < 256"
    unfolding utf8_bytes_def Let_def by (auto split: if_splits)
qed

lemma form_bytes_pct [simp]: "b < 256 \<Longrightarrow> form_bytes (pct_escape b @ r) = b # form_bytes r"
  by (simp add: pct_escape_def less_mult_imp_div_less)

lemma form_bytes_pcts:
  "(\<forall>b\<in>set bs. b < 256) \<Longrightarrow> form_bytes (concat (map pct_escape bs) @ r) = bs @ form_bytes r"
  by (induction bs) auto

lemma form_bytes_char [simp]: "form_bytes (form_char c @ r) = utf8_bytes c @ form_bytes r"
proof (cases "form_safe c")
  case True
  then have "c \<noteq> CHR ''+''" "c \<noteq> CHR ''%''" "(of_char c :: nat) < 128"
    by (auto simp: form_safe_def is_alnum_def Let_def)
  with True show ?thesis by (simp add: form_char_def utf8_bytes_def)
next
  case False
  then show ?thesis
    by (auto simp: form_char_def form_bytes_pcts utf8_bytes_less) (simp add: utf8_bytes_def)
qed

lemma utf8_decode_bytes [simp]: "utf8_decode (utf8_bytes c @ bs) = c # utf8_decode bs"
proof -
  define n where "n = (of_char c :: nat)"
  have c: "c = char_of n" and "n < 256" by (simp_all add: n_def)
  then show ?thesis
    by (simp add: utf8_bytes_def Let_def flip: n_def)
qed

lemma form_decode_encode [simp, js_string]: "form_decode (form_encode s) = s"
proof -
  have "form_bytes (form_encode s) = concat (map utf8_bytes s)"
    by (induction s) (simp_all add: form_encode_def)
  moreover have "utf8_decode (concat (map utf8_bytes s)) = s"
    by (induction s) simp_all
  ultimately show ?thesis by (simp add: form_decode_def)
qed

lemma hex_digit_alnum: "d < 16 \<Longrightarrow> is_alnum (hex_digit d)"
  by (auto simp: is_alnum_def hex_digit_def Let_def)

lemma set_pct_escape: "b < 256 \<Longrightarrow> x \<in> set (pct_escape b) \<Longrightarrow> x = CHR ''%'' \<or> is_alnum x"
  by (auto simp: pct_escape_def hex_digit_alnum less_mult_imp_div_less)

lemma set_form_char: "x \<in> set (form_char c) \<Longrightarrow> form_safe x \<or> x = CHR ''+'' \<or> x = CHR ''%''"
proof (cases "form_safe c \<or> c = CHR '' ''")
  case False
  assume "x \<in> set (form_char c)"
  with False obtain b where "b \<in> set (utf8_bytes c)" and "x \<in> set (pct_escape b)"
    by (auto simp: form_char_def)
  then show ?thesis
    using set_pct_escape [OF utf8_bytes_less] by (auto simp: form_safe_def)
qed (auto simp: form_char_def split: if_splits)

lemma form_encode_chars: "x \<in> set (form_encode s) \<Longrightarrow> form_safe x \<or> x = CHR ''+'' \<or> x = CHR ''%''"
  by (auto simp: form_encode_def dest: set_form_char)

lemma form_encode_no_delim:
  "CHR ''&'' \<notin> set (form_encode s)" "CHR ''='' \<notin> set (form_encode s)"
  by (auto dest!: form_encode_chars simp: form_safe_def is_alnum_def)

lemma parse_pair_form_pair [simp]: "parse_pair (form_pair kv) = kv"
proof -
  have "\<forall>x\<in>set (form_encode (fst kv)). x \<noteq> CHR ''=''"
    using form_encode_no_delim(2) by metis
  then show ?thesis by (simp add: parse_pair_def form_pair_def takeWhile_append2 dropWhile_append2)
qed

lemma split_on_nonempty [simp]: "split_on c s \<noteq> []"
  by (cases s) (auto split: list.splits)

lemma split_on_no_delim: "c \<notin> set s \<Longrightarrow> split_on c s = [s]"
  by (induction s) auto

lemma split_on_append: "c \<notin> set s \<Longrightarrow> split_on c (s @ c # t) = s # split_on c t"
  by (induction s) auto

lemma split_on_join:
  "ss \<noteq> [] \<Longrightarrow> \<forall>s\<in>set ss. c \<notin> set s \<Longrightarrow> split_on c (join_with c ss) = ss"
  by (induction c ss rule: join_with.induct) (auto simp: split_on_no_delim split_on_append)

lemma parse_query_search_params: "parse_query (search_params ps) = ps"
proof (cases "ps = []")
  case False
  have "split_on (CHR ''&'') (search_params ps) = map form_pair ps"
    unfolding search_params_def using False form_encode_no_delim(1)
    by (intro split_on_join) (auto simp: form_pair_def)
  moreover have "filter (\<lambda>s. s \<noteq> []) (map form_pair ps) = map form_pair ps"
    by (auto simp: filter_id_conv form_pair_def)
  ultimately show ?thesis by (simp add: parse_query_def comp_def)
qed (simp add: parse_query_def search_params_def)

end
