(* ===== verification/HttpClient.thy ===== *)
theory HttpClient
  imports UrlEncoding
begin

text \<open>
  The HTTP wrapper of the dashboard, \<open>web/src/utils/fetch.ts\<close>. The network is the
  environment: a call builds a request (\<open>fetch_request\<close>) and the response comes back as a
  value that \<open>fetch_result\<close> classifies. \<open>parse\<close> stands for \<open>JSON.parse\<close> (None where it
  throws) and \<open>show\<close> for the conversion of a parsed value to the text of an \<open>Error\<close>.
  \<open>token\<close> is the entry of the local storage, None where it is missing.
\<close>

subsection \<open>Requests\<close>

datatype json = JNull | JBool bool | JNum int | JStr string | JArr "json list"
  | JObj "(string \<times> json) list"

text \<open>A form part is a file or chunk, identified by its name and its bytes.\<close>

datatype body = NoBody | JsonBody json | FormBody string "nat list"

record http_options =
  o_method :: "string option"
  o_headers :: "(string \<times> string) list"
  o_body :: body

record http_request =
  rq_url :: string
  rq_method :: string
  rq_headers :: "(string \<times> string) list"
  rq_body :: body

definition no_options :: http_options where
  "no_options = \<lparr>o_method = None, o_headers = [], o_body = NoBody\<rparr>"

text \<open>\<open>url.replace(/\\/$/, "")\<close> drops one slash at the end.\<close>

definition base_url :: "string option \<Rightarrow> string" where
  "base_url cfg = (case cfg of None \<Rightarrow> []
     | Some u \<Rightarrow> if ends_with u ''/'' then butlast u else u)"

text \<open>Setting a key of a header object: an existing entry keeps its place.\<close>

fun put_header :: "string \<Rightarrow> string \<Rightarrow> (string \<times> string) list \<Rightarrow> (string \<times> string) list" where
  "put_header k v [] = [(k, v)]"
| "put_header k v ((k', v') # hs) = (if k' = k then (k, v) # hs else (k', v') # put_header k v hs)"

definition bearer :: "string option \<Rightarrow> string" where
  "bearer token = ''Bearer '' @ (case token of None \<Rightarrow> ''null'' | Some t \<Rightarrow> t)"

definition fetch_request ::
  "string option \<Rightarrow> string option \<Rightarrow> string \<Rightarrow> http_options \<Rightarrow> http_request" where
  "fetch_request cfg token url opts =
     \<lparr>rq_url = base_url cfg @ url,
      rq_method = (case o_method opts of None \<Rightarrow> ''GET'' | Some m \<Rightarrow> m),
      rq_headers = put_header ''Authorization'' (bearer token) (o_headers opts),
      rq_body = o_body opts\<rparr>"

text \<open>\<open>{ method: "GET", ...options }\<close>: a method among the options would win.\<close>

definition with_method :: "string \<Rightarrow> http_options \<Rightarrow> http_options" where
  "with_method m opts = (case o_method opts of None \<Rightarrow> opts\<lparr>o_method := Some m\<rparr> | Some _ \<Rightarrow> opts)"

definition get_opts :: "http_options \<Rightarrow> http_options" where
  "get_opts opts = with_method ''GET'' opts"

definition post_opts :: "http_options \<Rightarrow> http_options" where
  "post_opts opts = with_method ''POST'' opts"

definition put_opts :: "http_options \<Rightarrow> http_options" where
  "put_opts opts = with_method ''PUT'' opts"

definition del_opts :: "http_options \<Rightarrow> http_options" where
  "del_opts opts = with_method ''DELETE'' opts"

definition json_options :: "json \<Rightarrow> http_options" where
  "json_options data =
     \<lparr>o_method = None, o_headers = [(''Content-Type'', ''application/json'')], o_body = JsonBody data\<rparr>"

definition postJson_opts :: "json \<Rightarrow> http_options" where
  "postJson_opts data = post_opts (json_options data)"

definition putJson_opts :: "json \<Rightarrow> http_options" where
  "putJson_opts data = put_opts (json_options data)"

subsection \<open>Responses\<close>

record http_response =
  rs_status :: nat
  rs_content_type :: "string option"
  rs_text :: string

datatype 'j fetch_value = FNull | FJson 'j | FText string | FBlob string

datatype fetch_error = JsonSyntax string | ErrorText string | EmptyError

record 'j fetch_outcome =
  fo_value :: "fetch_error + 'j fetch_value"
  fo_redirect :: "string option"

fun str_includes :: "string \<Rightarrow> string \<Rightarrow> bool" where
  "str_includes [] p = (p = [])"
| "str_includes (c # cs) p = (starts_with (c # cs) p \<or> str_includes cs p)"

definition content_has :: "http_response \<Rightarrow> string \<Rightarrow> bool" where
  "content_has r p = (case rs_content_type r of None \<Rightarrow> False | Some ct \<Rightarrow> str_includes ct p)"

definition parse_or_throw :: "(string \<Rightarrow> 'j option) \<Rightarrow> string \<Rightarrow> fetch_error + 'j" where
  "parse_or_throw parse s = (case parse s of None \<Rightarrow> Inl (JsonSyntax s) | Some v \<Rightarrow> Inr v)"

definition error_of_body ::
  "(string \<Rightarrow> 'j option) \<Rightarrow> ('j \<Rightarrow> string) \<Rightarrow> http_response \<Rightarrow> fetch_error" where
  "error_of_body parse show r =
     (case parse_or_throw parse (rs_text r) of Inl e \<Rightarrow> e | Inr v \<Rightarrow> ErrorText (show v))"

definition fetch_result ::
  "(string \<Rightarrow> 'j option) \<Rightarrow> ('j \<Rightarrow> string) \<Rightarrow> http_response \<Rightarrow> 'j fetch_outcome" where
  "fetch_result parse show r =
     (if 200 \<le> rs_status r \<and> rs_status r < 300 then
        \<lparr>fo_value =
           (if content_has r ''application/json'' \<or> content_has r ''json'' then
              (if rs_text r = [] then Inr FNull
               else map_sum id FJson (parse_or_throw parse (rs_text r)))
            else if content_has r ''text/plain'' then
              (if rs_text r = [] then Inr FNull else Inr (FText (rs_text r)))
            else Inr (FBlob (rs_text r))),
         fo_redirect = None\<rparr>
      else if rs_status r = 204 then \<lparr>fo_value = Inr FNull, fo_redirect = None\<rparr>
      else
        \<lparr>fo_value = Inl
           (if rs_status r = 400 then error_of_body parse show r
            else if rs_status r = 404 then error_of_body parse show r
            else if rs_status r = 500 then error_of_body parse show r
            else EmptyError),
         fo_redirect = (if rs_status r = 401 then Some ''/login'' else None)\<rparr>)"

subsection \<open>The streaming variant\<close>

text \<open>\<open>url.replace(/([^:]\\/)\\/+/g, "$1")\<close>, scanning from the left.\<close>

function collapse_slashes :: "string \<Rightarrow> string" where
  "collapse_slashes (c # d # e # r) =
     (if c \<noteq> CHR '':'' \<and> d = CHR ''/'' \<and> e = CHR ''/''
      then c # d # collapse_slashes (dropWhile (\<lambda>x. x = CHR ''/'') r)
      else c # collapse_slashes (d # e # r))"
| "collapse_slashes [] = []"
| "collapse_slashes [c] = [c]"
| "collapse_slashes [c, d] = [c, d]"
  by pat_completeness auto
termination
  by (relation "measure length") (auto simp: le_imp_less_Suc length_dropWhile_le le_SucI)

definition fetchRaw_request ::
  "string option \<Rightarrow> string option \<Rightarrow> string \<Rightarrow> json \<Rightarrow> http_request" where
  "fetchRaw_request cfg token url data =
     \<lparr>rq_url = collapse_slashes (base_url cfg @ url),
      rq_method = ''POST'',
      rq_headers = [(''Authorization'', bearer token), (''Content-Type'', ''application/json'')],
      rq_body = JsonBody data\<rparr>"

definition fetchRaw_open :: "http_response \<Rightarrow> fetch_error + unit" where
  "fetchRaw_open r =
     (if 200 \<le> rs_status r \<and> rs_status r < 300 then Inr () else Inl (ErrorText (rs_text r)))"

fun parse_all :: "(string \<Rightarrow> 'j option) \<Rightarrow> string list \<Rightarrow> fetch_error + 'j list" where
  "parse_all parse [] = Inr []"
| "parse_all parse (l # ls) =
     (case parse_or_throw parse l of Inl e \<Rightarrow> Inl e
      | Inr v \<Rightarrow> map_sum id (\<lambda>vs. v # vs) (parse_all parse ls))"

text \<open>One call of the iterator's \<open>next\<close> on the text of one chunk.\<close>

definition data_prefix :: string where
  "data_prefix = ''data: ''"

definition stream_next :: "(string \<Rightarrow> 'j option) \<Rightarrow> string \<Rightarrow> fetch_error + 'j list" where
  "stream_next parse text =
     parse_all parse
       (map (drop (length data_prefix)) (filter (\<lambda>l. js_trim l \<noteq> []) (split_on (CHR 0x0A) text)))"

subsection \<open>Laws\<close>

lemma lookup_put_header [simp]:
  "map_of (put_header k v hs) k' = (if k' = k then Some v else map_of hs k')"
  by (induction hs) auto

lemma keys_put_header: "fst ` set (put_header k v hs) = insert k (fst ` set hs)"
  by (induction k v hs rule: put_header.induct) (simp_all add: insert_commute)

lemma distinct_put_header: "distinct (map fst hs) \<Longrightarrow> distinct (map fst (put_header k v hs))"
proof (induction hs)
  case (Cons h hs)
  then show ?case by (cases h) (auto simp: keys_put_header simp flip: image_set)
qed simp

lemma collapse_slashes_Cons: "\<exists>t. collapse_slashes (c # s) = c # t"
  by (cases "c # s" rule: collapse_slashes.cases) auto

fun has_doubled :: "string \<Rightarrow> bool" where
  "has_doubled (c # d # e # r) =
     ((c \<noteq> CHR '':'' \<and> d = CHR ''/'' \<and> e = CHR ''/'') \<or> has_doubled (d # e # r))"
| "has_doubled s = False"

lemma collapse_id: "\<not> has_doubled s \<Longrightarrow> collapse_slashes s = s"
  by (induction s rule: collapse_slashes.induct) auto

text \<open>The first two characters of the result, where nothing is dropped between them.\<close>

lemma collapse_second:
  "\<exists>t. collapse_slashes (d # e # r) = d # e # t"
proof (cases r)
  case (Cons x xs)
  then show ?thesis using collapse_slashes_Cons [of e "x # xs"] by auto
qed simp

lemma has_doubled_Cons:
  "\<not> has_doubled (d # s) \<Longrightarrow>
   \<not> (c \<noteq> CHR '':'' \<and> d = CHR ''/'' \<and> (\<exists>t. s = CHR ''/'' # t)) \<Longrightarrow> \<not> has_doubled (c # d # s)"
  by (cases s) auto

lemma collapse_no_doubled: "\<not> has_doubled (collapse_slashes s)"
proof (induction s rule: collapse_slashes.induct)
  case (1 c d e r)
  show ?case
  proof (cases "c \<noteq> CHR '':'' \<and> d = CHR ''/'' \<and> e = CHR ''/''")
    case True
    let ?r = "dropWhile (\<lambda>x. x = CHR ''/'') r"
    have ih: "\<not> has_doubled (collapse_slashes ?r)" using "1.IH"(1) True by simp
    show ?thesis
    proof (cases ?r)
      case Nil
      then show ?thesis using True by (simp only: collapse_slashes.simps if_True) simp
    next
      case (Cons x xs)
      then have "x \<noteq> CHR ''/''"
        by (metis (mono_tags, lifting) hd_dropWhile list.distinct(1) list.sel(1))
      moreover obtain t where t: "collapse_slashes ?r = x # t"
        using collapse_slashes_Cons Cons by metis
      ultimately have "\<not> has_doubled (d # x # t)"
        using ih by (intro has_doubled_Cons) auto
      then show ?thesis using True t \<open>x \<noteq> CHR ''/''\<close> by simp
    qed
  next
    case False
    obtain t where t: "collapse_slashes (d # e # r) = d # e # t" using collapse_second by metis
    have "\<not> has_doubled (d # e # t)" using "1.IH"(2) False t by simp
    then have "\<not> has_doubled (c # d # e # t)" using False by (intro has_doubled_Cons [of d]) auto
    moreover have "collapse_slashes (c # d # e # r) = c # d # e # t" using False t by auto
    ultimately show ?thesis by metis
  qed
qed auto

lemma collapse_idem: "collapse_slashes (collapse_slashes s) = collapse_slashes s"
  by (rule collapse_id [OF collapse_no_doubled])

text \<open>A chunk made of whole event lines decodes to its values.\<close>

definition event_line :: "string \<Rightarrow> string" where
  "event_line l = data_prefix @ l @ [CHR 0x0A]"

lemma newline_not_in_prefix: "CHR 0x0A \<notin> set data_prefix"
  by (simp add: data_prefix_def)

lemma split_event_lines:
  "(\<forall>l\<in>set ls. CHR 0x0A \<notin> set l) \<Longrightarrow>
   split_on (CHR 0x0A) (concat (map event_line ls)) = map (\<lambda>l. data_prefix @ l) ls @ [[]]"
proof (induction ls)
  case (Cons l ls)
  have "CHR 0x0A \<notin> set (data_prefix @ l)" using Cons.prems newline_not_in_prefix by simp
  then have "split_on (CHR 0x0A) ((data_prefix @ l) @ CHR 0x0A # concat (map event_line ls))
    = (data_prefix @ l) # split_on (CHR 0x0A) (concat (map event_line ls))"
    by (rule split_on_append)
  then show ?case using Cons by (simp add: event_line_def [of l])
qed simp

lemma trim_data_nonempty: "js_trim (data_prefix @ l) \<noteq> []"
proof -
  have "\<not> js_space (CHR ''d'')" by (simp add: js_space_def)
  then show ?thesis unfolding js_trim_blank_iff by (auto simp: data_prefix_def)
qed

lemma stream_next_lines:
  assumes "\<forall>l\<in>set ls. CHR 0x0A \<notin> set l"
  shows "stream_next parse (concat (map event_line ls)) = parse_all parse ls"
proof -
  have "js_trim [] = []" by (simp add: js_trim_def)
  then have "filter (\<lambda>l. js_trim l \<noteq> []) (map (\<lambda>l. data_prefix @ l) ls @ [[]])
    = map (\<lambda>l. data_prefix @ l) ls"
    using trim_data_nonempty by (simp add: filter_id_conv)
  then show ?thesis
    unfolding stream_next_def split_event_lines [OF assms] by (simp only:) (simp add: comp_def)
qed

lemma parse_all_ok:
  "(\<forall>l\<in>set ls. parse l \<noteq> None) \<Longrightarrow> parse_all parse ls = Inr (map (\<lambda>l. the (parse l)) ls)"
  by (induction ls) (auto simp: parse_or_throw_def)

end
