(* ===== verification/FileService.thy ===== *)
theory FileService
  imports HttpClient
begin

text \<open>
  The client of the file storage API, \<open>web/src/services/FileStorageService.ts\<close>. Each
  function checks its arguments in the code's order and then issues one request through
  the wrapper of \<open>HttpClient\<close>; a failed check is thrown before anything is sent. A call is
  therefore \<open>Inl\<close> the thrown error or \<open>Inr\<close> the request's path and options. The labels
  of \<open>requireNonEmpty\<close> and the other fixed texts are constructors.
\<close>

subsection \<open>Data\<close>

record 'a ApiResponse =
  success :: bool
  resp_message :: "string option"
  resp_data :: "'a option"

record DriveInfo =
  di_name :: string
  driveType :: string
  availableFreeSpace :: nat
  totalSize :: nat
  volumeLabel :: string
  driveFormat :: string
  isReady :: bool

record DirectoryItem =
  it_name :: string
  fullName :: string
  it_drive :: string
  it_extension :: string
  creationTime :: string
  lastAccessTime :: string
  lastWriteTime :: string
  it_length :: nat
  isHidden :: bool
  isSystem :: bool
  isDirectory :: bool
  isFile :: bool

record FileItem = DirectoryItem +
  isReadOnly :: "bool option"

record DirectoryListing =
  directories :: "DirectoryItem list"
  files :: "FileItem list"

datatype field_label = LPath | LDrives | LUploadId | LFileName | LZipName | LSourcePath
  | LTargetPath | LNewName | LFolderName

datatype service_error = FieldEmpty field_label | FileMissing | SourcePathsMissing | ItemsMissing

type_synonym service_call = "service_error + string \<times> http_options"

text \<open>A browser \<open>File\<close> or \<open>Blob\<close>: its name and its bytes.\<close>

record blob =
  blob_name :: string
  blob_bytes :: "nat list"

subsection \<open>Checks and request shapes\<close>

definition requireNonEmpty :: "field_label \<Rightarrow> string \<Rightarrow> service_error option" where
  "requireNonEmpty label value =
     (if value = [] \<or> js_trim value = [] then Some (FieldEmpty label) else None)"

fun checked :: "(field_label \<times> string) list \<Rightarrow> service_call \<Rightarrow> service_call" where
  "checked [] call = call"
| "checked ((l, v) # cs) call =
     (case requireNonEmpty l v of Some e \<Rightarrow> Inl e | None \<Rightarrow> checked cs call)"

definition api :: "string \<Rightarrow> string" where
  "api p = ''/api/v1/filestorage/'' @ p"

definition with_query :: "string \<Rightarrow> (string \<times> string) list \<Rightarrow> string" where
  "with_query p ps = api p @ ''?'' @ search_params ps"

definition form_options :: "string \<Rightarrow> nat list \<Rightarrow> http_options" where
  "form_options name bytes = \<lparr>o_method = None, o_headers = [], o_body = FormBody name bytes\<rparr>"

definition post_json_call :: "string \<Rightarrow> (string \<times> json) list \<Rightarrow> service_call" where
  "post_json_call p kvs = Inr (api p, postJson_opts (JObj kvs))"

subsection \<open>The operations\<close>

definition getDrives :: "service_call" where
  "getDrives = Inr (api ''drives'', get_opts no_options)"

definition getDirectory :: "string \<Rightarrow> string \<Rightarrow> service_call" where
  "getDirectory path drives =
     checked [(LPath, path), (LDrives, drives)]
       (Inr (with_query ''directory'' [(''path'', path), (''drives'', drives)], get_opts no_options))"

definition uploadFile :: "blob option \<Rightarrow> string \<Rightarrow> string \<Rightarrow> service_call" where
  "uploadFile file path drives =
     (case file of None \<Rightarrow> Inl FileMissing
      | Some f \<Rightarrow> checked [(LPath, path), (LDrives, drives)]
          (Inr (with_query ''upload'' [(''path'', path), (''drives'', drives)],
                post_opts (form_options (blob_name f) (blob_bytes f)))))"

definition downloadFile :: "string \<Rightarrow> string \<Rightarrow> service_call" where
  "downloadFile path drives =
     checked [(LPath, path), (LDrives, drives)]
       (Inr (with_query ''download'' [(''path'', path), (''drives'', drives)], get_opts no_options))"

definition uploadFileChunk ::
  "nat list option \<Rightarrow> string \<Rightarrow> string \<Rightarrow> string \<Rightarrow> nat \<Rightarrow> nat \<Rightarrow> service_call" where
  "uploadFileChunk chunk path drives uploadId index chunks =
     (case chunk of None \<Rightarrow> Inl FileMissing
      | Some b \<Rightarrow> checked [(LPath, path), (LDrives, drives), (LUploadId, uploadId)]
          (Inr (with_query ''upload/chunk''
                  [(''path'', path), (''drives'', drives), (''uploadId'', uploadId),
                   (''index'', nat_to_string index), (''total'', nat_to_string chunks)],
                post_opts (form_options ''chunk'' b))))"

definition mergeFileChunks ::
  "string \<Rightarrow> string \<Rightarrow> string \<Rightarrow> string \<Rightarrow> nat \<Rightarrow> service_call" where
  "mergeFileChunks path drives fileName uploadId chunks =
     checked [(LPath, path), (LDrives, drives), (LFileName, fileName), (LUploadId, uploadId)]
       (post_json_call ''upload/merge''
          [(''path'', JStr path), (''drives'', JStr drives), (''fileName'', JStr fileName),
           (''uploadId'', JStr uploadId), (''total'', JNum (int chunks))])"

definition abortUpload :: "string \<Rightarrow> string \<Rightarrow> string \<Rightarrow> service_call" where
  "abortUpload path drives uploadId =
     checked [(LPath, path), (LDrives, drives), (LUploadId, uploadId)]
       (post_json_call ''upload/abort''
          [(''path'', JStr path), (''drives'', JStr drives), (''uploadId'', JStr uploadId)])"

definition unzipFiles :: "string \<Rightarrow> string \<Rightarrow> service_call" where
  "unzipFiles path drives =
     checked [(LPath, path), (LDrives, drives)]
       (post_json_call ''unzip'' [(''path'', JStr path), (''drives'', JStr drives)])"

definition createZipFile :: "string list \<Rightarrow> string \<Rightarrow> string \<Rightarrow> service_call" where
  "createZipFile sourcePaths drives zipName =
     (if sourcePaths = [] then Inl SourcePathsMissing
      else checked [(LDrives, drives), (LZipName, zipName)]
        (post_json_call ''create-zip''
           [(''sourcePaths'', JArr (map JStr sourcePaths)), (''drives'', JStr drives),
            (''zipName'', JStr zipName)]))"

definition is_separator :: "char \<Rightarrow> bool" where
  "is_separator c \<longleftrightarrow> c = CHR ''/'' \<or> c = CHR 0x5C"

definition createZipFromPath :: "string \<Rightarrow> string \<Rightarrow> string option \<Rightarrow> service_call" where
  "createZipFromPath sourcePath drives zipName =
     checked [(LSourcePath, sourcePath), (LDrives, drives)]
       (let finalZipName =
              (case zipName of Some z \<Rightarrow> z
               | None \<Rightarrow> last_segment is_separator sourcePath @ ''.zip'')
        in post_json_call ''create-zip-from-path''
             [(''sourcePath'', JStr sourcePath), (''drives'', JStr drives),
              (''zipName'', JStr finalZipName)])"

definition deleteFile :: "string \<Rightarrow> string \<Rightarrow> service_call" where
  "deleteFile path drives =
     checked [(LPath, path), (LDrives, drives)]
       (Inr (with_query ''delete'' [(''path'', path), (''drives'', drives)], del_opts no_options))"

definition renameFile :: "string \<Rightarrow> string \<Rightarrow> string \<Rightarrow> service_call" where
  "renameFile path drives name =
     checked [(LPath, path), (LDrives, drives), (LNewName, name)]
       (Inr (with_query ''rename'' [(''path'', path), (''drives'', drives), (''name'', name)],
             put_opts no_options))"

definition createDirectory :: "string \<Rightarrow> string \<Rightarrow> string \<Rightarrow> service_call" where
  "createDirectory path drives name =
     checked [(LPath, path), (LDrives, drives), (LFolderName, name)]
       (Inr (with_query ''create-directory''
               [(''path'', path), (''drives'', drives), (''name'', name)],
             put_opts no_options))"

definition property :: "string \<Rightarrow> service_call" where
  "property path =
     checked [(LPath, path)]
       (Inr (with_query ''property'' [(''path'', path)], get_opts no_options))"

definition deleteMultipleFiles :: "(string \<times> string) list \<Rightarrow> service_call" where
  "deleteMultipleFiles items =
     (if items = [] then Inl ItemsMissing
      else post_json_call ''delete-multiple''
        [(''items'', JArr (map (\<lambda>(p, d). JObj [(''path'', JStr p), (''drives'', JStr d)]) items))])"

definition moveFile :: "string \<Rightarrow> string \<Rightarrow> string \<Rightarrow> service_call" where
  "moveFile sourcePath targetPath drives =
     checked [(LSourcePath, sourcePath), (LTargetPath, targetPath), (LDrives, drives)]
       (post_json_call ''move''
          [(''sourcePath'', JStr sourcePath), (''targetPath'', JStr targetPath),
           (''drives'', JStr drives)])"

definition copyFile :: "string \<Rightarrow> string \<Rightarrow> string \<Rightarrow> service_call" where
  "copyFile sourcePath targetPath drives =
     checked [(LSourcePath, sourcePath), (LTargetPath, targetPath), (LDrives, drives)]
       (post_json_call ''copy''
          [(''sourcePath'', JStr sourcePath), (''targetPath'', JStr targetPath),
           (''drives'', JStr drives)])"

definition createFile :: "string \<Rightarrow> string \<Rightarrow> string \<Rightarrow> string option \<Rightarrow> service_call" where
  "createFile path drives fileName content =
     checked [(LPath, path), (LDrives, drives), (LFileName, fileName)]
       (post_json_call ''create-file''
          [(''path'', JStr path), (''drives'', JStr drives), (''fileName'', JStr fileName),
           (''content'', JStr (case content of None \<Rightarrow> [] | Some c \<Rightarrow> c))])"

definition getFileContent :: "string \<Rightarrow> string \<Rightarrow> service_call" where
  "getFileContent path drives =
     checked [(LPath, path), (LDrives, drives)]
       (Inr (with_query ''content'' [(''path'', path), (''drives'', drives)], get_opts no_options))"

definition saveFileContent :: "string \<Rightarrow> string \<Rightarrow> string \<Rightarrow> service_call" where
  "saveFileContent path drives content =
     checked [(LPath, path), (LDrives, drives)]
       (post_json_call ''save-content''
          [(''path'', JStr path), (''drives'', JStr drives), (''content'', JStr content)])"

subsection \<open>Laws\<close>

definition blank :: "string \<Rightarrow> bool" where
  "blank s \<longleftrightarrow> (\<forall>c\<in>set s. js_space c)"

lemma requireNonEmpty_None_iff [simp]: "requireNonEmpty l v = None \<longleftrightarrow> \<not> blank v"
  by (auto simp: requireNonEmpty_def blank_def js_trim_blank_iff)

lemma requireNonEmpty_cases:
  "requireNonEmpty l v = (if blank v then Some (FieldEmpty l) else None)"
  using requireNonEmpty_None_iff [of l v] by (auto simp: requireNonEmpty_def blank_def)

text \<open>The first blank argument decides the error; without one the call goes out.\<close>

lemma checked_eq:
  "checked cs call =
     (case List.find (\<lambda>(l, v). blank v) cs of None \<Rightarrow> call | Some (l, v) \<Rightarrow> Inl (FieldEmpty l))"
  by (induction cs call rule: checked.induct) (auto simp: requireNonEmpty_cases split: option.splits)

lemma checked_ok: "(\<forall>(l, v)\<in>set cs. \<not> blank v) \<Longrightarrow> checked cs call = call"
  by (induction cs call rule: checked.induct) (auto simp: requireNonEmpty_cases)

lemma checked_Inr_iff:
  "checked cs call = Inr r \<longleftrightarrow> (\<forall>(l, v)\<in>set cs. \<not> blank v) \<and> call = Inr r"
  by (induction cs call rule: checked.induct) (auto simp: requireNonEmpty_cases)

definition query_of :: "string \<Rightarrow> (string \<times> string) list" where
  "query_of url = parse_query (drop 1 (dropWhile (\<lambda>c. c \<noteq> CHR ''?'') url))"

definition path_of :: "string \<Rightarrow> string" where
  "path_of url = takeWhile (\<lambda>c. c \<noteq> CHR ''?'') url"

lemma query_of_with_query:
  "CHR ''?'' \<notin> set p \<Longrightarrow> query_of (with_query p ps) = ps \<and> path_of (with_query p ps) = api p"
proof -
  assume "CHR ''?'' \<notin> set p"
  then have "\<forall>c\<in>set (api p). c \<noteq> CHR ''?''" by (auto simp: api_def)
  then show ?thesis
    by (simp add: query_of_def path_of_def with_query_def takeWhile_append2 dropWhile_append2
      parse_query_search_params)
qed

lemmas query_calls = getDirectory_def downloadFile_def deleteFile_def renameFile_def
  createDirectory_def property_def getFileContent_def

end
