(* ===== verification/FsPath.thy ===== *)
theory FsPath
  imports FileService
begin

text \<open>
  The pure helpers of the file page, \<open>web/src/pages/filestorage/page.tsx\<close>: file extensions
  and the language and icon chosen from them, and the path arithmetic (\<open>dirname\<close>,
  \<open>joinPath\<close>, \<open>isPathEqualOrUnder\<close>, \<open>replacePathPrefix\<close>) on which renaming, moving and
  uploading rest. The laws of the prefix operations are stated once as the interface
  \<open>path_relocation\<close> that the state of the page relies on.
\<close>

subsection \<open>Extensions, languages, icons\<close>

definition normalizeExtension :: "string option \<Rightarrow> string" where
  "normalizeExtension extension =
     (case extension of None \<Rightarrow> []
      | Some e \<Rightarrow>
          (if e = [] then []
           else let ext = js_lower (js_trim e) in
             if ext = [] then []
             else if starts_with ext ''.'' then ext else CHR ''.'' # ext))"

definition languageFromExtension :: "string option \<Rightarrow> string" where
  "languageFromExtension extension =
     (let ext = normalizeExtension extension in
     (if ext \<in> set [''.c'', ''.h''] then ''c''
      else if ext \<in> set [''.cc'', ''.cpp'', ''.cxx'', ''.hpp'', ''.hxx''] then ''cpp''
      else if ext = ''.go'' then ''go''
      else if ext = ''.java'' then ''java''
      else if ext \<in> set [''.kt'', ''.kts''] then ''kotlin''
      else if ext = ''.php'' then ''php''
      else if ext = ''.py'' then ''python''
      else if ext = ''.rb'' then ''ruby''
      else if ext = ''.rs'' then ''rust''
      else if ext = ''.ts'' then ''typescript''
      else if ext = ''.tsx'' then ''tsx''
      else if ext \<in> set [''.js'', ''.mjs'', ''.cjs''] then ''javascript''
      else if ext = ''.jsx'' then ''jsx''
      else if ext = ''.json'' then ''json''
      else if ext \<in> set [''.yml'', ''.yaml''] then ''yaml''
      else if ext \<in> set [''.md'', ''.markdown''] then ''markdown''
      else if ext = ''.css'' then ''css''
      else if ext = ''.scss'' then ''scss''
      else if ext \<in> set [''.html'', ''.htm''] then ''html''
      else if ext = ''.xml'' then ''xml''
      else if ext = ''.sql'' then ''sql''
      else if ext = ''.cs'' then ''csharp''
      else if ext = ''.dockerfile'' then ''docker''
      else if ext = ''.toml'' then ''toml''
      else if ext = ''.sh'' then ''bash''
      else if ext = ''.ps1'' then ''powershell''
      else if ext = ''.ini'' then ''ini''
      else if ext = ''.env'' then ''ini''
      else ''text''))"

datatype icon = IconCode | IconText | IconFile | IconJson | IconImage | IconAudio | IconVideo
  | IconArchive | IconSpreadsheet

text \<open>\<open>name.includes('.') ? `.${name.split('.').pop()}` : ''\<close>, normalised.\<close>

definition extension_of_name :: "string \<Rightarrow> string" where
  "extension_of_name name =
     normalizeExtension (Some
       (if CHR ''.'' \<in> set name then CHR ''.'' # last_segment (\<lambda>c. c = CHR ''.'') name else []))"

definition js_or :: "string \<Rightarrow> string \<Rightarrow> string" where
  "js_or a b = (if a = [] then b else a)"

definition code_extensions :: "string list" where
  "code_extensions =
     [
       ''.ts'', ''.tsx'', ''.js'', ''.jsx'', ''.mjs'', ''.cjs'', ''.vue'', ''.svelte'',
       ''.astro'', ''.go'', ''.py'', ''.java'', ''.kt'', ''.kts'', ''.rs'', ''.rb'', ''.php'',
       ''.c'', ''.h'', ''.cc'', ''.cpp'', ''.cxx'', ''.hpp'', ''.hxx'', ''.yml'', ''.yaml'',
       ''.toml'', ''.ini'', ''.env'', ''.config'', ''.conf'', ''.cfg'', ''.properties'',
       ''.gradle'', ''.csproj'', ''.sln'', ''.vbproj'', ''.fsproj'', ''.css'', ''.scss'',
       ''.less'', ''.html'', ''.htm'', ''.xml'', ''.cshtml'', ''.razor'', ''.csx'', ''.cs'',
       ''.sql'', ''.resx'', ''.props'', ''.targets'', ''.sh'', ''.ps1'', ''.bat'', ''.cmd'',
       ''.dockerfile'']"

definition iconFromFileName :: "string \<Rightarrow> string option \<Rightarrow> icon" where
  "iconFromFileName fileName extension =
     (let name = js_lower (js_trim fileName);
          ext = js_or (normalizeExtension extension) (extension_of_name name)
      in if name = ''dockerfile'' \<or> ends_with name ''.dockerfile'' then IconCode
         else if name = ''makefile'' then IconCode
         else if name = ''license'' \<or> starts_with name ''license.'' then IconText
         else if name = ''readme'' \<or> starts_with name ''readme.'' then IconText
         else if starts_with name ''.'' then IconCode
         else if ext = [] then IconFile
         else if ext = ''.json'' then IconJson
         else if ext \<in> set [''.png'', ''.jpg'', ''.jpeg'', ''.gif'', ''.bmp'', ''.webp'', ''.svg'', ''.ico'']
           then IconImage
         else if ext \<in> set [''.mp3'', ''.wav'', ''.flac'', ''.aac'', ''.m4a'', ''.ogg''] then IconAudio
         else if ext \<in> set [''.mp4'', ''.mov'', ''.mkv'', ''.webm'', ''.avi''] then IconVideo
         else if ext \<in> set [''.zip'', ''.7z'', ''.rar'', ''.tar'', ''.gz'', ''.bz2''] then IconArchive
         else if ext \<in> set [''.csv'', ''.xls'', ''.xlsx''] then IconSpreadsheet
         else if ext \<in> set [''.pdf'', ''.doc'', ''.docx'', ''.rtf'', ''.odt'', ''.ppt'', ''.pptx'', ''.key'']
           then IconText
         else if ext \<in> set code_extensions then IconCode
         else if ext \<in> set [''.md'', ''.markdown'', ''.txt'', ''.log''] then IconText
         else IconFile)"

subsection \<open>Paths\<close>

definition backslash :: char where
  "backslash = CHR 0x5C"

definition strip_trailing_seps :: "string \<Rightarrow> string" where
  "strip_trailing_seps path = rev (dropWhile is_separator (rev path))"

definition is_ascii_alpha :: "char \<Rightarrow> bool" where
  "is_ascii_alpha c = (let n = of_char c :: nat in (65 \<le> n \<and> n \<le> 90) \<or> (97 \<le> n \<and> n \<le> 122))"

text \<open>\<open>/^[a-zA-Z]:$/\<close>\<close>

fun is_drive_spec :: "string \<Rightarrow> bool" where
  "is_drive_spec [c, d] = (is_ascii_alpha c \<and> d = CHR '':'')"
| "is_drive_spec _ = False"

definition dirname :: "string \<Rightarrow> string" where
  "dirname path =
     (let trimmed = strip_trailing_seps path;
          idx = max (last_index_of trimmed (CHR ''/'')) (last_index_of trimmed backslash)
      in if idx = -1 then path
         else let dir = take (nat idx) trimmed in
           if is_drive_spec dir then dir @ [backslash]
           else js_or dir path)"

definition joinPath :: "string \<Rightarrow> string \<Rightarrow> string" where
  "joinPath directory name =
     (if directory = [] then name
      else let separator = (if backslash \<in> set directory then backslash else CHR ''/'') in
        if ends_with directory [backslash] \<or> ends_with directory ''/'' then directory @ name
        else directory @ separator # name)"

definition isPathEqualOrUnder :: "string \<Rightarrow> string \<Rightarrow> bool" where
  "isPathEqualOrUnder path pre \<longleftrightarrow>
     path = pre \<or> starts_with path (pre @ [backslash]) \<or> starts_with path (pre @ ''/'')"

definition replacePathPrefix :: "string \<Rightarrow> string \<Rightarrow> string \<Rightarrow> string" where
  "replacePathPrefix path oldPrefix newPrefix =
     (if oldPrefix = [] then path
      else if path = oldPrefix then newPrefix
      else if starts_with path (oldPrefix @ [backslash]) \<or> starts_with path (oldPrefix @ ''/'')
        then newPrefix @ drop (length oldPrefix) path
      else path)"

subsection \<open>Laws of extensions\<close>

lemma js_lower_Nil_iff [simp]: "js_lower s = [] \<longleftrightarrow> s = []"
  by (simp add: js_lower_def)

lemma normalizeExtension_shape:
  "normalizeExtension e = [] \<or> (\<exists>t. normalizeExtension e = CHR ''.'' # t)"
  by (auto simp: normalizeExtension_def Let_def starts_with_iff split: option.splits)

lemma not_space_js_lower_char: "js_space (js_lower_char c) = js_space c"
proof -
  have "(of_char c :: nat) < 256" by simp
  then show ?thesis by (auto simp: js_space_def js_lower_char_def Let_def)
qed

lemma js_trim_js_lower: "js_trim (js_lower s) = js_lower (js_trim s)"
proof -
  have lower_comp: "js_space \<circ> js_lower_char = js_space"
    by (rule ext) (simp add: not_space_js_lower_char)
  then show ?thesis
    by (simp add: js_trim_def js_lower_def dropWhile_map rev_map lower_comp)
qed

text \<open>An extension is the same whether or not it is written with capitals or blanks around it.\<close>

lemma normalizeExtension_case:
  "normalizeExtension (Some (js_lower e)) = normalizeExtension (Some e)"
  by (simp add: normalizeExtension_def js_trim_js_lower)

subsection \<open>Laws of \<open>dirname\<close> and \<open>joinPath\<close>\<close>

definition plain_name :: "string \<Rightarrow> bool" where
  "plain_name n \<longleftrightarrow> n \<noteq> [] \<and> (\<forall>c\<in>set n. \<not> is_separator c)"

lemma plain_nameD: "plain_name n \<Longrightarrow> CHR ''/'' \<notin> set n" "plain_name n \<Longrightarrow> backslash \<notin> set n"
  by (auto simp: plain_name_def is_separator_def backslash_def)

lemma is_separator_cases: "is_separator c \<longleftrightarrow> c = CHR ''/'' \<or> c = backslash"
  by (simp add: is_separator_def backslash_def)

lemma slash_neq_backslash [simp]: "CHR ''/'' \<noteq> backslash" "backslash \<noteq> CHR ''/''"
  by (simp_all add: backslash_def)

lemma strip_trailing_seps_plain:
  assumes "plain_name n"
  shows "strip_trailing_seps (d @ n) = d @ n"
proof -
  obtain c r where n: "rev n = c # r" and "\<not> is_separator c"
    using assms unfolding plain_name_def by (metis list.set_intros(1) neq_Nil_conv rev_is_Nil_conv set_rev)
  then show ?thesis by (simp add: strip_trailing_seps_def)
qed

lemma last_sep_position:
  assumes "plain_name n" and "is_separator sep"
  shows "max (last_index_of (d @ sep # n) (CHR ''/'')) (last_index_of (d @ sep # n) backslash)
         = int (length d)"
proof -
  have other: "last_index_of (d @ sep # n) c < int (length d)"
    if "c \<noteq> sep" and "c \<notin> set n" for c
    using last_index_of_mono_append [of c "sep # n" d] last_index_of_less [of d c] that by simp
  show ?thesis
  proof (cases "sep = CHR ''/''")
    case True
    then have "last_index_of (d @ sep # n) (CHR ''/'') = int (length d)"
      using plain_nameD [OF assms(1)] by (simp add: last_index_of_append)
    moreover have "last_index_of (d @ sep # n) backslash < int (length d)"
      using True plain_nameD [OF assms(1)] by (intro other) auto
    ultimately show ?thesis by linarith
  next
    case False
    then have "sep = backslash" using assms(2) by (simp add: is_separator_cases)
    then have "last_index_of (d @ sep # n) backslash = int (length d)"
      using plain_nameD [OF assms(1)] by (simp add: last_index_of_append)
    moreover have "last_index_of (d @ sep # n) (CHR ''/'') < int (length d)"
      using False plain_nameD [OF assms(1)] by (intro other) auto
    ultimately show ?thesis by linarith
  qed
qed

lemma dirname_split:
  assumes "plain_name n" and "is_separator sep"
  shows "dirname (d @ sep # n) =
    (if is_drive_spec d then d @ [backslash] else js_or d (d @ sep # n))"
proof -
  have "strip_trailing_seps (d @ sep # n) = d @ sep # n"
    using strip_trailing_seps_plain [OF assms(1), of "d @ [sep]"] by simp
  then show ?thesis
    by (simp add: dirname_def last_sep_position [OF assms])
qed

text \<open>A directory whose path ends in neither separator and is not a bare drive letter.\<close>

definition inner_dir :: "string \<Rightarrow> bool" where
  "inner_dir d \<longleftrightarrow> d \<noteq> [] \<and> \<not> is_separator (last d) \<and> \<not> is_drive_spec d"

lemma ends_with_single: "ends_with d [c] \<longleftrightarrow> d \<noteq> [] \<and> last d = c"
  by (auto simp: ends_with_iff) (metis append_butlast_last_id)

lemma joinPath_inner:
  "inner_dir d \<Longrightarrow>
   joinPath d n = d @ (if backslash \<in> set d then backslash else CHR ''/'') # n"
  by (auto simp: joinPath_def inner_dir_def ends_with_single is_separator_cases Let_def)

lemma joinPath_sep:
  "d \<noteq> [] \<Longrightarrow> is_separator (last d) \<Longrightarrow> joinPath d n = d @ n"
  by (auto simp: joinPath_def ends_with_single is_separator_cases Let_def)

lemma dirname_joinPath_inner:
  assumes "inner_dir d" and "plain_name n"
  shows "dirname (joinPath d n) = d"
  using assms dirname_split [of n "if backslash \<in> set d then backslash else CHR ''/''" d]
  by (auto simp: joinPath_inner inner_dir_def js_or_def is_separator_cases)

lemma dirname_joinPath_drive:
  assumes "is_drive_spec d" and "plain_name n"
  shows "dirname (joinPath (d @ [backslash]) n) = d @ [backslash]"
  using assms dirname_split [of n backslash d]
  by (simp add: joinPath_sep is_separator_cases)

text \<open>The directories whose entries have them as parent: all but the root slash.\<close>

definition parent_dir :: "string \<Rightarrow> bool" where
  "parent_dir d \<longleftrightarrow> inner_dir d \<or> (d \<noteq> [] \<and> last d = backslash \<and> is_drive_spec (butlast d))"

lemma parent_dir_cases:
  assumes "parent_dir d"
  obtains "inner_dir d" | e where "d = e @ [backslash]" "is_drive_spec e"
  using assms unfolding parent_dir_def by (metis append_butlast_last_id)

lemma joinPath_parent:
  assumes "parent_dir d"
  obtains u where "\<And>n. joinPath d n = u @ n" "length d \<le> length u" "u \<noteq> []"
  using assms
proof (cases rule: parent_dir_cases)
  case 1
  then have "joinPath d n = (d @ [if backslash \<in> set d then backslash else CHR ''/'']) @ n" for n
    by (simp add: joinPath_inner)
  then show ?thesis by (rule that) simp_all
next
  case (2 e)
  then have "joinPath d n = d @ n" for n by (simp add: joinPath_sep is_separator_cases)
  then show ?thesis by (rule that) (simp_all add: 2(1))
qed

lemma dirname_joinPath_parent:
  assumes "parent_dir d" and "plain_name n"
  shows "dirname (joinPath d n) = d"
  using assms(1)
proof (cases rule: parent_dir_cases)
  case 1
  then show ?thesis using dirname_joinPath_inner assms(2) by blast
next
  case (2 e)
  then show ?thesis using dirname_joinPath_drive assms(2) by blast
qed

lemma dirname_joinPath_root:
  assumes "plain_name n"
  shows "dirname (joinPath ''/'' n) = ''/'' @ n"
  using dirname_split [OF assms, of "CHR ''/''" "[]"]
  by (simp add: joinPath_sep is_separator_cases js_or_def)

subsection \<open>Laws of prefixes\<close>

lemma under_refl [simp]: "isPathEqualOrUnder p p"
  by (simp add: isPathEqualOrUnder_def)

lemma under_iff:
  "isPathEqualOrUnder path pre \<longleftrightarrow>
     (\<exists>r. path = pre @ r \<and> (r = [] \<or> is_separator (hd r)))"
proof
  assume "isPathEqualOrUnder path pre"
  then consider "path = pre" | r where "path = pre @ backslash # r" | r where "path = pre @ CHR ''/'' # r"
    by (auto simp: isPathEqualOrUnder_def starts_with_iff)
  then show "\<exists>r. path = pre @ r \<and> (r = [] \<or> is_separator (hd r))"
    by cases (auto simp: is_separator_cases)
next
  assume "\<exists>r. path = pre @ r \<and> (r = [] \<or> is_separator (hd r))"
  then obtain r where r: "path = pre @ r" "r = [] \<or> is_separator (hd r)" by blast
  then show "isPathEqualOrUnder path pre"
    by (cases r) (auto simp: isPathEqualOrUnder_def starts_with_iff is_separator_cases)
qed

lemma under_append: "is_separator c \<Longrightarrow> isPathEqualOrUnder (p @ c # r) p"
  by (auto simp: under_iff)

lemma under_trans:
  "isPathEqualOrUnder a b \<Longrightarrow> isPathEqualOrUnder b c \<Longrightarrow> isPathEqualOrUnder a c"
proof -
  assume ab: "isPathEqualOrUnder a b" and bc: "isPathEqualOrUnder b c"
  from ab obtain r where r: "a = b @ r" "r = [] \<or> is_separator (hd r)"
    unfolding under_iff by blast
  from bc obtain r' where r': "b = c @ r'" "r' = [] \<or> is_separator (hd r')"
    unfolding under_iff by blast
  show ?thesis
    unfolding under_iff using r r' by (intro exI [of _ "r' @ r"]) (auto simp: hd_append)
qed

lemma under_antisym:
  "isPathEqualOrUnder a b \<Longrightarrow> isPathEqualOrUnder b a \<Longrightarrow> a = b"
  by (auto simp: under_iff)

lemma joinPath_under:
  assumes "inner_dir d"
  shows "isPathEqualOrUnder (joinPath d n) d"
  using assms by (auto simp: joinPath_inner is_separator_cases intro!: under_append)

lemma replace_outside:
  "\<not> isPathEqualOrUnder path old \<Longrightarrow> replacePathPrefix path old new = path"
  by (auto simp: isPathEqualOrUnder_def replacePathPrefix_def)

lemma replace_append:
  assumes "old \<noteq> []" and "r = [] \<or> is_separator (hd r)"
  shows "replacePathPrefix (old @ r) old new = new @ r"
proof (cases r)
  case (Cons c r')
  with assms have "isPathEqualOrUnder (old @ r) old" by (auto simp: under_iff)
  with assms Cons show ?thesis
    by (auto simp: replacePathPrefix_def isPathEqualOrUnder_def)
qed (simp add: replacePathPrefix_def assms)

lemma replace_inside:
  assumes "old \<noteq> []" and "isPathEqualOrUnder path old"
  shows "isPathEqualOrUnder (replacePathPrefix path old new) new"
proof -
  obtain r where "path = old @ r" and r: "r = [] \<or> is_separator (hd r)"
    using assms(2) unfolding under_iff by blast
  then have "replacePathPrefix path old new = new @ r" using assms(1) by (simp add: replace_append)
  then show ?thesis unfolding under_iff using r by blast
qed

lemma replace_back:
  assumes "old \<noteq> []" and "new \<noteq> []" and "isPathEqualOrUnder path old"
  shows "replacePathPrefix (replacePathPrefix path old new) new old = path"
proof -
  obtain r where "path = old @ r" and "r = [] \<or> is_separator (hd r)"
    using assms(3) unfolding under_iff by blast
  then show ?thesis using assms(1,2) by (simp add: replace_append)
qed

lemma replace_self: "replacePathPrefix path p p = path"
  by (auto simp: replacePathPrefix_def starts_with_iff)

text \<open>
  What the page relies on when it rewrites the paths it holds after a rename or a move:
  the tabs, the expanded folders and the selection are all mapped by the same relocation.
\<close>

locale path_relocation =
  fixes under :: "'p \<Rightarrow> 'p \<Rightarrow> bool"
    and relocate :: "'p \<Rightarrow> 'p \<Rightarrow> 'p \<Rightarrow> 'p"
    and valid :: "'p \<Rightarrow> bool"
  assumes u_refl: "under p p"
    and u_trans: "under a b \<Longrightarrow> under b c \<Longrightarrow> under a c"
    and r_outside: "\<not> under p old \<Longrightarrow> relocate p old new = p"
    and r_inside: "valid old \<Longrightarrow> under p old \<Longrightarrow> under (relocate p old new) new"
    and r_back: "valid old \<Longrightarrow> valid new \<Longrightarrow> under p old \<Longrightarrow> relocate (relocate p old new) new old = p"
begin

text \<open>After a move nothing is left under the old place, if the new one is not inside it.\<close>

lemma relocated_away:
  assumes "valid old" and "\<And>q. under q new \<Longrightarrow> \<not> under q old"
  shows "\<not> under (relocate p old new) old"
proof (cases "under p old")
  case True
  then show ?thesis using assms r_inside by blast
next
  case False
  then show ?thesis by (simp add: r_outside)
qed

lemma relocate_all_away:
  assumes "valid old" and "\<And>q. under q new \<Longrightarrow> \<not> under q old"
  shows "\<forall>q\<in>set (map (\<lambda>p. relocate p old new) ps). \<not> under q old"
  using relocated_away [OF assms] by auto

text \<open>Distinct paths stay distinct, if none of them was at the new place before.\<close>

lemma relocate_inj:
  assumes v: "valid old" "valid new" and "\<not> under p new" "\<not> under q new"
    and eq: "relocate p old new = relocate q old new"
  shows "p = q"
proof (cases "under p old")
  case True
  then have "under (relocate p old new) new" using v r_inside by blast
  then have "under q old" using eq assms(4) r_outside by metis
  then show ?thesis using True eq v r_back by metis
next
  case False
  then have "\<not> under q old" using eq assms(3) v r_inside r_outside by metis
  then show ?thesis using False eq r_outside by simp
qed

lemma relocate_distinct:
  assumes "valid old" "valid new" and "distinct ps" and "\<forall>p\<in>set ps. \<not> under p new"
  shows "distinct (map (\<lambda>p. relocate p old new) ps)"
  using assms relocate_inj by (auto simp: distinct_map inj_on_def)

end

interpretation fs_paths: path_relocation isPathEqualOrUnder replacePathPrefix "\<lambda>p. p \<noteq> []"
  by unfold_locales (auto intro: under_trans replace_outside replace_inside replace_back)

end
