(* ===== verification/ServiceResult.thy ===== *)
theory ServiceResult
  imports FileService
begin

text \<open>
  How the pages consume a service call. An awaited call either rejects or resolves to the
  API's answer; a value that is not an answer object (null, text, a blob) has no
  \<open>success\<close> and no \<open>message\<close> and is represented by an answer with \<open>success = False\<close>. The
  pages' idiom \<open>if (!res?.success) throw new Error(res?.message || fallback)\<close> is
  \<open>expect_success\<close>. Message texts fixed in the code are constructors, texts that come from
  outside are carried.
\<close>

datatype fallback_text = FbLoadDir | FbReadFile | FbSave | FbRename | FbDelete | FbZip | FbUnzip
  | FbPaste | FbCreate | FbOperation | FbOverwrite | FbUpload | FbChunk nat | FbChunkGeneric | FbMerge | FbDownload

datatype err_text = ServerText string | ServiceText service_error | FetchText fetch_error
  | Fallback fallback_text | AbortText

datatype 'a settled = Rejected err_text | Resolved "'a ApiResponse"

definition message_or :: "fallback_text \<Rightarrow> 'a ApiResponse \<Rightarrow> err_text" where
  "message_or fb r =
     (case resp_message r of None \<Rightarrow> Fallback fb
      | Some m \<Rightarrow> if m = [] then Fallback fb else ServerText m)"

definition expect_success :: "fallback_text \<Rightarrow> 'a settled \<Rightarrow> err_text + 'a option" where
  "expect_success fb s =
     (case s of Rejected e \<Rightarrow> Inl e
      | Resolved r \<Rightarrow> if success r then Inr (resp_data r) else Inl (message_or fb r))"

definition ok_response :: "'a option \<Rightarrow> 'a ApiResponse" where
  "ok_response d = \<lparr>success = True, resp_message = None, resp_data = d\<rparr>"

definition fail_response :: "string \<Rightarrow> 'a ApiResponse" where
  "fail_response m = \<lparr>success = False, resp_message = Some m, resp_data = None\<rparr>"

lemma expect_success_ok [simp]: "expect_success fb (Resolved (ok_response d)) = Inr d"
  by (simp add: expect_success_def ok_response_def)

lemma expect_success_Rejected [simp]: "expect_success fb (Rejected e) = Inl e"
  by (simp add: expect_success_def)

lemma expect_success_Inr_iff:
  "expect_success fb s = Inr d \<longleftrightarrow> (\<exists>r. s = Resolved r \<and> success r \<and> resp_data r = d)"
  by (cases s) (auto simp: expect_success_def)

end
