(* ===== verification/FsTree.thy ===== *)
theory FsTree
  imports FsPath ServiceResult
begin

text \<open>
  The directory tree of the file page (\<open>web/src/pages/filestorage/page.tsx\<close>): the node
  type, lookup and update by path, and the conversion of a directory listing into child
  nodes. \<open>localeCompare\<close> depends on the browser's collation and is the parameter \<open>cmp\<close>;
  what the code relies on is that it is a consistent comparator.
\<close>

datatype NodeType = NDrive | NDirectory | NFile

datatype LoadState = LIdle | LLoading | LLoaded | LError

datatype FsNode = FsNode
  (ntype: NodeType) (nname: string) (npath: string) (ndrive: string)
  (nextension: "string option") (nsize: "nat option")
  (nload: "LoadState option") (nerror: "err_text option") (nchildren: "FsNode list option")

definition set_load :: "LoadState \<Rightarrow> err_text option \<Rightarrow> FsNode \<Rightarrow> FsNode" where
  "set_load l e n = FsNode (ntype n) (nname n) (npath n) (ndrive n) (nextension n) (nsize n)
     (Some l) e (nchildren n)"

definition set_children :: "FsNode list option \<Rightarrow> FsNode \<Rightarrow> FsNode" where
  "set_children cs n = FsNode (ntype n) (nname n) (npath n) (ndrive n) (nextension n) (nsize n)
     (nload n) (nerror n) cs"

fun updateNodeByPath :: "FsNode list \<Rightarrow> string \<Rightarrow> (FsNode \<Rightarrow> FsNode) \<Rightarrow> FsNode list" where
  "updateNodeByPath [] path updater = []"
| "updateNodeByPath (FsNode t nm p d e s l er ch # ns) path updater =
     (if p = path then updater (FsNode t nm p d e s l er ch)
      else (case ch of
        None \<Rightarrow> FsNode t nm p d e s l er ch
      | Some cs \<Rightarrow>
          if cs = [] then FsNode t nm p d e s l er ch
          else FsNode t nm p d e s l er (Some (updateNodeByPath cs path updater))))
     # updateNodeByPath ns path updater"

fun findNodeByPath :: "FsNode list \<Rightarrow> string \<Rightarrow> FsNode option" where
  "findNodeByPath [] path = None"
| "findNodeByPath (FsNode t nm p d e s l er ch # ns) path =
     (if p = path then Some (FsNode t nm p d e s l er ch)
      else (case ch of
        None \<Rightarrow> findNodeByPath ns path
      | Some cs \<Rightarrow>
          if cs = [] then findNodeByPath ns path
          else (case findNodeByPath cs path of
            Some found \<Rightarrow> Some found
          | None \<Rightarrow> findNodeByPath ns path)))"

text \<open>The nodes \<open>refreshDrives\<close> puts at the top of the tree.\<close>

definition drive_node :: "DriveInfo \<Rightarrow> FsNode" where
  "drive_node d = FsNode NDrive (di_name d) (di_name d) (di_name d) None None (Some LIdle) None None"

definition dir_node :: "'a DirectoryItem_scheme \<Rightarrow> FsNode" where
  "dir_node i = FsNode NDirectory (it_name i) (fullName i) (it_drive i) None None (Some LIdle) None None"

definition file_node :: "'a DirectoryItem_scheme \<Rightarrow> FsNode" where
  "file_node i = FsNode NFile (it_name i) (fullName i) (it_drive i) (Some (it_extension i))
     (Some (it_length i)) None None None"

definition toChildren :: "(string \<Rightarrow> string \<Rightarrow> int) \<Rightarrow> DirectoryListing \<Rightarrow> FsNode list" where
  "toChildren cmp listing =
     (let folders = map dir_node (directories listing);
          files' = map file_node (files listing);
          by_name = (\<lambda>a b. cmp (nname a) (nname b))
      in js_sort by_name folders @ js_sort by_name files')"

subsection \<open>Lookup and update\<close>

lemma node_simps [simp]:
  "ntype (set_load l e n) = ntype n" "nname (set_load l e n) = nname n"
  "npath (set_load l e n) = npath n" "ndrive (set_load l e n) = ndrive n"
  "nload (set_load l e n) = Some l" "nerror (set_load l e n) = e"
  "nchildren (set_load l e n) = nchildren n" "nsize (set_load l e n) = nsize n"
  "ntype (set_children cs n) = ntype n" "nname (set_children cs n) = nname n"
  "npath (set_children cs n) = npath n" "ndrive (set_children cs n) = ndrive n"
  "nload (set_children cs n) = nload n" "nerror (set_children cs n) = nerror n"
  "nchildren (set_children cs n) = cs" "nsize (set_children cs n) = nsize n"
  by (simp_all add: set_load_def set_children_def)

lemma find_Cons: "findNodeByPath (n # ns) path =
    (if npath n = path then Some n
     else (case nchildren n of None \<Rightarrow> findNodeByPath ns path
       | Some cs \<Rightarrow> (case findNodeByPath cs path of Some x \<Rightarrow> Some x | None \<Rightarrow> findNodeByPath ns path)))"
  by (cases n) (auto split: option.splits)

lemma update_Cons: "updateNodeByPath (n # ns) path f =
    (if npath n = path then f n
     else (case nchildren n of None \<Rightarrow> n
       | Some cs \<Rightarrow> set_children (Some (updateNodeByPath cs path f)) n)) # updateNodeByPath ns path f"
  by (cases n) (auto split: option.splits simp: set_children_def)

declare findNodeByPath.simps(2) [simp del] updateNodeByPath.simps(2) [simp del]

text \<open>Induction over a forest: the children of a node and the nodes after it.\<close>

lemma forest_induct [case_names Nil Cons]:
  assumes "P []"
    and "\<And>n ns. (\<And>cs. nchildren n = Some cs \<Longrightarrow> P cs) \<Longrightarrow> P ns \<Longrightarrow> P (n # ns)"
  shows "P ns"
proof (induction "size_list size ns" arbitrary: ns rule: less_induct)
  case less
  show ?case
  proof (cases ns)
    case Nil
    then show ?thesis using assms(1) by simp
  next
    case (Cons n ms)
    show ?thesis
      unfolding Cons
    proof (rule assms(2))
      fix cs assume "nchildren n = Some cs"
      then have "size_list size cs < size n" by (cases n) simp
      then show "P cs" using less Cons by simp
    next
      show "P ms" using less Cons by simp
    qed
  qed
qed

lemma findNode_path: "findNodeByPath ns p = Some n \<Longrightarrow> npath n = p"
  by (induction ns rule: forest_induct) (auto simp: find_Cons split: if_splits option.splits)

lemma find_update_same:
  assumes "\<And>n. npath (f n) = npath n"
  shows "findNodeByPath (updateNodeByPath ns p f) p = map_option f (findNodeByPath ns p)"
  by (induction ns rule: forest_induct)
    (auto simp: find_Cons update_Cons assms split: option.splits)

text \<open>Where the updater keeps path and children, other nodes change at most below.\<close>

lemma find_update_other:
  assumes "\<And>n. npath (f n) = npath n" "\<And>n. nchildren (f n) = nchildren n" and "q \<noteq> p"
  shows "map_option (set_children None) (findNodeByPath (updateNodeByPath ns p f) q)
       = map_option (set_children None) (findNodeByPath ns q)"
proof (induction ns rule: forest_induct)
  case (Cons n ns)
  show ?case
  proof (cases "nchildren n")
    case None
    with Cons(2) assms show ?thesis by (auto simp: find_Cons update_Cons)
  next
    case (Some cs)
    note ih = Cons(1) [OF Some] Cons(2)
    show ?thesis
      using ih Some assms
      by (cases "findNodeByPath cs q"; cases "findNodeByPath (updateNodeByPath cs p f) q")
        (auto simp: find_Cons update_Cons set_children_def)
  qed
qed simp

lemma update_absent: "findNodeByPath ns p = None \<Longrightarrow> updateNodeByPath ns p f = ns"
proof (induction ns rule: forest_induct)
  case (Cons n ns)
  then show ?case
    by (cases n) (auto simp: find_Cons update_Cons set_children_def split: option.splits if_splits)
qed simp

lemma update_update:
  assumes "\<And>n. npath (f n) = npath n"
  shows "updateNodeByPath (updateNodeByPath ns p f) p g = updateNodeByPath ns p (g \<circ> f)"
  by (induction ns rule: forest_induct)
    (auto simp: update_Cons assms set_children_def split: option.splits)

text \<open>All paths of a tree, in the order in which lookup meets them.\<close>

fun all_paths :: "FsNode list \<Rightarrow> string list" where
  "all_paths [] = []"
| "all_paths (FsNode t nm p d e s l er ch # ns) =
     p # (case ch of None \<Rightarrow> [] | Some cs \<Rightarrow> all_paths cs) @ all_paths ns"

lemma all_paths_Cons:
  "all_paths (n # ns) =
     npath n # (case nchildren n of None \<Rightarrow> [] | Some cs \<Rightarrow> all_paths cs) @ all_paths ns"
  by (cases n) simp

lemma find_None_iff_paths: "findNodeByPath ns p = None \<longleftrightarrow> p \<notin> set (all_paths ns)"
  by (induction ns rule: forest_induct) (auto simp: find_Cons all_paths_Cons split: option.splits)

lemma all_paths_update:
  assumes "\<And>n. npath (f n) = npath n" "\<And>n. nchildren (f n) = nchildren n"
  shows "all_paths (updateNodeByPath ns p f) = all_paths ns"
  by (induction ns rule: forest_induct)
    (auto simp: update_Cons all_paths_Cons assms split: option.splits)

lemma nload_update_other:
  assumes "\<And>n. npath (f n) = npath n" "\<And>n. nchildren (f n) = nchildren n" and "q \<noteq> p"
  shows "map_option (\<lambda>n. (nload n, ntype n)) (findNodeByPath (updateNodeByPath ns p f) q)
       = map_option (\<lambda>n. (nload n, ntype n)) (findNodeByPath ns q)"
  using arg_cong [OF find_update_other [of f q p ns, OF assms],
      of "map_option (\<lambda>n. (nload n, ntype n))"]
  by (simp add: option.map_comp comp_def)

subsection \<open>Listings\<close>

lemma set_toChildren:
  "set (toChildren cmp listing) = dir_node ` set (directories listing) \<union> file_node ` set (files listing)"
  by (simp add: toChildren_def Let_def)

lemma consistent_by_name:
  "consistent_cmp cmp \<Longrightarrow> consistent_cmp (\<lambda>a b. cmp (nname a) (nname b))"
  unfolding consistent_cmp_def by blast

text \<open>A comparator that exists in every browser: by code units.\<close>

fun code_unit_cmp :: "string \<Rightarrow> string \<Rightarrow> int" where
  "code_unit_cmp [] [] = 0"
| "code_unit_cmp [] (b # bs) = -1"
| "code_unit_cmp (a # as) [] = 1"
| "code_unit_cmp (a # as) (b # bs) =
     (if (of_char a :: nat) < of_char b then -1 else if (of_char b :: nat) < of_char a then 1
      else code_unit_cmp as bs)"

lemma code_unit_cmp_total: "code_unit_cmp a b \<le> 0 \<or> code_unit_cmp b a \<le> 0"
  by (induction a b rule: code_unit_cmp.induct) auto

lemma code_unit_cmp_trans:
  "code_unit_cmp a b \<le> 0 \<Longrightarrow> code_unit_cmp b c \<le> 0 \<Longrightarrow> code_unit_cmp a c \<le> 0"
proof (induction a b arbitrary: c rule: code_unit_cmp.induct)
  case (1 c)
  then show ?case by simp
next
  case (2 b bs c)
  then show ?case by (cases c) simp_all
next
  case (3 a as c)
  then show ?case by simp
next
  case (4 a as b bs c)
  show ?case
  proof (cases c)
    case Nil
    then show ?thesis using 4 by simp
  next
    case (Cons x xs)
    have ab: "(of_char a :: nat) \<le> of_char b" "(of_char a :: nat) = of_char b \<Longrightarrow> code_unit_cmp as bs \<le> 0"
      using "4.prems"(1) by (auto split: if_split_asm)
    have bx: "(of_char b :: nat) \<le> of_char x" "(of_char b :: nat) = of_char x \<Longrightarrow> code_unit_cmp bs xs \<le> 0"
      using "4.prems"(2) Cons by (auto split: if_split_asm)
    show ?thesis
    proof (cases "(of_char a :: nat) = of_char x")
      case True
      then have eq: "(of_char a :: nat) = of_char b" "(of_char b :: nat) = of_char x"
        using ab(1) bx(1) by linarith+
      then have "code_unit_cmp as xs \<le> 0" using "4.IH" [of xs] ab(2) bx(2) by simp
      then show ?thesis using Cons True by simp
    next
      case False
      then have "(of_char a :: nat) < of_char x" using ab(1) bx(1) by linarith
      then show ?thesis using Cons by simp
    qed
  qed
qed

lemma code_unit_cmp_consistent: "consistent_cmp code_unit_cmp"
  unfolding consistent_cmp_def using code_unit_cmp_total code_unit_cmp_trans by blast

end
