(* ===== verification/FsState.thy ===== *)
theory FsState
  imports FsTree
begin

text \<open>
  The state of the file page (\<open>FileStoragePage\<close> in
  \<open>web/src/pages/filestorage/page.tsx\<close>) and its vocabulary. Every \<open>useState\<close> and
  \<open>useRef\<close> of the component that carries data is a field. A handler is a function from
  the state to the next state and the effects it has: toasts, requests, uploads. An
  \<open>await\<close> splits a handler: the first part issues a \<^emph>\<open>pending\<close> call that records the
  variables the rest of the handler closes over (among them the tree of the render in which
  the handler was created), and the second part resumes with the settled call. Questions of
  \<open>window.confirm\<close> are answered by a function \<open>ask\<close>.
\<close>

subsection \<open>Tabs, clipboard, prompts, toasts\<close>

datatype TabMode = View | Edit

record OpenTab =
  tid :: string
  title :: string
  tpath :: string
  tdrive :: string
  textension :: "string option"
  language :: string
  content :: string
  draft :: string
  tload :: LoadState
  terror :: "err_text option"
  tmode :: TabMode
  isDirty :: bool
  saving :: bool

datatype ClipMode = Copy | Cut

record ClipboardEntry =
  cmode :: ClipMode
  cnode :: FsNode

datatype BusyOp = BusyZip | BusyUnzip

record Dir =
  dpath :: string
  ddrive :: string

datatype fs_prompt = AskCloseDirty | AskDelete NodeType string | AskDeleteDirty nat
  | AskZipOverwrite string | AskUnzip string | AskOverwrite NodeType string

datatype fs_text = TxDrivesFailed err_text | TxTooBigOpen | TxTooBigSave | TxSaved
  | TxSaveFailed err_text | TxNeedNewName | TxRenamed | TxRenameFailed err_text
  | TxDeleted | TxDeleteFailed err_text | TxSelectDir | TxDownloadFailed err_text
  | TxNeedZipName | TxZipping string | TxZipped string | TxZipFailed err_text
  | TxUnzipping string | TxUnzipped string | TxUnzipFailed err_text
  | TxCrossDrive | TxSameDir | TxIntoSelf | TxOverwriteFailed err_text
  | TxCopied | TxMoved | TxPasteFailed err_text | TxNoFolderDrag | TxNoTargetDir
  | TxNeedFolderName | TxFolderCreated | TxNeedFileName | TxFileCreated | TxCreateFailed err_text

datatype toast_kind = ToastError | ToastSuccess | ToastLoading

subsection \<open>Pending calls and effects\<close>

datatype fs_pending =
    PDrives
  | PDirectory FsNode
  | PContent string string string
  | PSave string string string string
  | PRename FsNode string "FsNode list"
  | PDelete FsNode "FsNode list"
  | PZipList FsNode string "FsNode list"
  | PZip FsNode string "FsNode list"
  | PUnzip FsNode "FsNode list"
  | PPasteList ClipMode FsNode Dir "FsNode list"
  | PPasteDelete ClipMode FsNode Dir "FsNode list"
  | PPaste ClipMode FsNode Dir "FsNode list"
  | PCreateFolder Dir string "FsNode list"
  | PCreateFile Dir string string "FsNode list"
  | PDownload FsNode

datatype fs_payload = DrivesData "DriveInfo list" | ListingData DirectoryListing
  | ContentData string | BlobData | NoData

datatype fs_effect =
    Issue fs_pending
  | Toast toast_kind fs_text
  | ClickFileInput
  | Enqueue "blob list" Dir
  | Unhandled err_text

record fs_state =
  tree :: "FsNode list"
  openFolders :: "string list"
  tabs :: "OpenTab list"
  activeTab :: string
  loadingDrives :: bool
  selectedPath :: string
  createFolderOpen :: bool
  createFileOpen :: bool
  creatingFolder :: bool
  creatingFile :: bool
  newFolderName :: string
  newFileName :: string
  newFileContent :: string
  renameOpen :: bool
  renaming :: bool
  renameTarget :: "FsNode option"
  renameValue :: string
  clipboard :: "ClipboardEntry option"
  pasting :: bool
  zipOpen :: bool
  zipTarget :: "FsNode option"
  zipName :: string
  busyOp :: "BusyOp option"
  dropTargetPath :: string
  pendingUploadDir :: "Dir option"

type_synonym fs_result = "fs_state \<times> fs_effect list"

definition init_fs :: fs_state where
  "init_fs = \<lparr>tree = [], openFolders = [], tabs = [], activeTab = [], loadingDrives = False,
     selectedPath = [], createFolderOpen = False, createFileOpen = False, creatingFolder = False,
     creatingFile = False, newFolderName = [], newFileName = [], newFileContent = [],
     renameOpen = False, renaming = False, renameTarget = None, renameValue = [],
     clipboard = None, pasting = False, zipOpen = False, zipTarget = None, zipName = [],
     busyOp = None, dropTargetPath = [], pendingUploadDir = None\<rparr>"

definition MAX_OPEN_BYTES :: nat where
  "MAX_OPEN_BYTES = 5 * 1024 * 1024"

text \<open>\<open>new Blob([s]).size\<close>: the UTF-8 length.\<close>

definition blob_size :: "string \<Rightarrow> nat" where
  "blob_size s = length (concat (map utf8_bytes s))"

text \<open>The request behind a pending call.\<close>

definition targetPath_of :: "Dir \<Rightarrow> FsNode \<Rightarrow> string" where
  "targetPath_of dir source = joinPath (dpath dir) (nname source)"

fun request_of :: "fs_pending \<Rightarrow> service_call" where
  "request_of PDrives = getDrives"
| "request_of (PDirectory node) = getDirectory (npath node) (ndrive node)"
| "request_of (PContent i p d) = getFileContent p d"
| "request_of (PSave i p d s) = saveFileContent p d s"
| "request_of (PRename node newName tr) = renameFile (npath node) (ndrive node) newName"
| "request_of (PDelete node tr) = deleteFile (npath node) (ndrive node)"
| "request_of (PZipList node final tr) = getDirectory (dirname (npath node)) (ndrive node)"
| "request_of (PZip node final tr) = createZipFromPath (npath node) (ndrive node) (Some final)"
| "request_of (PUnzip node tr) = unzipFiles (npath node) (ndrive node)"
| "request_of (PPasteList m source dir tr) = getDirectory (dpath dir) (ddrive dir)"
| "request_of (PPasteDelete m source dir tr) = deleteFile (targetPath_of dir source) (ddrive dir)"
| "request_of (PPaste m source dir tr) =
     (case m of Copy \<Rightarrow> copyFile (npath source) (targetPath_of dir source) (ddrive dir)
      | Cut \<Rightarrow> moveFile (npath source) (targetPath_of dir source) (ddrive dir))"
| "request_of (PCreateFolder dir name tr) = createDirectory (dpath dir) (ddrive dir) name"
| "request_of (PCreateFile dir name text tr) = createFile (dpath dir) (ddrive dir) name (Some text)"
| "request_of (PDownload node) = downloadFile (npath node) (ndrive node)"

subsection \<open>Loading drives and folders\<close>

definition refreshDrives :: "fs_state \<Rightarrow> fs_result" where
  "refreshDrives st = (st\<lparr>loadingDrives := True\<rparr>, [Issue PDrives])"

definition show_drives :: "DriveInfo list \<Rightarrow> fs_state \<Rightarrow> fs_state" where
  "show_drives drives st =
     (let driveNodes = map drive_node drives in
      st\<lparr>tree := driveNodes,
         openFolders := (case driveNodes of [] \<Rightarrow> [] | n # _ \<Rightarrow> [npath n]),
         selectedPath := (case driveNodes of [] \<Rightarrow> [] | n # _ \<Rightarrow> npath n),
         loadingDrives := False\<rparr>)"

definition refreshDrives_done :: "fs_payload settled \<Rightarrow> fs_state \<Rightarrow> fs_result" where
  "refreshDrives_done s st =
     (case s of
        Rejected e \<Rightarrow>
          (st\<lparr>tree := [], openFolders := [], selectedPath := [], loadingDrives := False\<rparr>,
           [Toast ToastError (TxDrivesFailed e)])
      | Resolved r \<Rightarrow>
          (show_drives (case resp_data r of Some (DrivesData ds) \<Rightarrow> ds | _ \<Rightarrow> []) st, []))"

definition loadFolderChildren :: "FsNode \<Rightarrow> bool \<Rightarrow> fs_state \<Rightarrow> fs_result" where
  "loadFolderChildren node force st =
     (if ntype node = NFile then (st, [])
      else if \<not> force \<and> nload node \<noteq> None \<and> nload node \<noteq> Some LIdle then (st, [])
      else (st\<lparr>tree := updateNodeByPath (tree st) (npath node) (set_load LLoading None)\<rparr>,
            [Issue (PDirectory node)]))"

definition empty_listing :: DirectoryListing where
  "empty_listing = \<lparr>directories = [], files = []\<rparr>"

definition payload_listing :: "fs_payload option \<Rightarrow> DirectoryListing" where
  "payload_listing d = (case d of Some (ListingData l) \<Rightarrow> l | _ \<Rightarrow> empty_listing)"

definition loadFolderChildren_done ::
  "(string \<Rightarrow> string \<Rightarrow> int) \<Rightarrow> FsNode \<Rightarrow> fs_payload settled \<Rightarrow> fs_state \<Rightarrow> fs_result" where
  "loadFolderChildren_done cmp node s st =
     (case expect_success FbLoadDir s of
        Inl e \<Rightarrow>
          (st\<lparr>tree := updateNodeByPath (tree st) (npath node) (set_load LError (Some e))\<rparr>, [])
      | Inr d \<Rightarrow>
          (st\<lparr>tree := updateNodeByPath (tree st) (npath node)
                (\<lambda>n. set_load LLoaded None
                  (set_children (Some (toChildren cmp (payload_listing d))) n))\<rparr>, []))"

text \<open>\<open>refreshDirectoryNode\<close>; \<open>tr\<close> is the tree of the closure it is called from.\<close>

definition add_open :: "string \<Rightarrow> string list \<Rightarrow> string list" where
  "add_open path fs = (if path \<in> set fs then fs else fs @ [path])"

definition refreshDirectoryNode :: "FsNode list \<Rightarrow> string \<Rightarrow> fs_state \<Rightarrow> fs_result" where
  "refreshDirectoryNode tr path st =
     (let st1 = st\<lparr>openFolders := add_open path (openFolders st)\<rparr> in
      case findNodeByPath tr path of
        Some node \<Rightarrow>
          if ntype node \<noteq> NFile then loadFolderChildren node True st1 else refreshDrives st1
      | None \<Rightarrow> refreshDrives st1)"

subsection \<open>The selection's target directory\<close>

definition targetDirectory :: "fs_state \<Rightarrow> Dir option" where
  "targetDirectory st =
     (let fallback = (case tree st of [] \<Rightarrow> None | n # _ \<Rightarrow> Some n);
          selected = (if selectedPath st = [] then None
                      else findNodeByPath (tree st) (selectedPath st))
      in case selected of
           None \<Rightarrow>
             (case fallback of None \<Rightarrow> None
              | Some f \<Rightarrow> Some \<lparr>dpath = npath f, ddrive = ndrive f\<rparr>)
         | Some n \<Rightarrow>
             if ntype n = NFile then
               Some \<lparr>dpath = dirname (npath n),
                     ddrive = js_or (ndrive n) (case fallback of None \<Rightarrow> [] | Some f \<Rightarrow> ndrive f)\<rparr>
             else Some \<lparr>dpath = npath n, ddrive = ndrive n\<rparr>)"

definition resolveDirectory :: "FsNode option \<Rightarrow> fs_state \<Rightarrow> Dir option" where
  "resolveDirectory node st =
     (case node of None \<Rightarrow> targetDirectory st
      | Some n \<Rightarrow>
          if ntype n = NFile then Some \<lparr>dpath = dirname (npath n), ddrive = ndrive n\<rparr>
          else Some \<lparr>dpath = npath n, ddrive = ndrive n\<rparr>)"

end
