(* ===== verification/FsTabs.thy ===== *)
theory FsTabs
  imports FsState
begin

text \<open>
  The editor tabs of the file page: opening, closing, editing, saving. All updates of one
  tab go through the code's idiom \<open>prev.map(t => t.id === id ? {...t, ...} : t)\<close>; the
  values spread into the tab are the constructors of \<open>tab_patch\<close>, and the tab list with
  \<open>patchTab\<close> interprets the keyed store of the prelude.
\<close>

datatype tab_patch = SetMode TabMode | Discard | SetDraft string | SetSaving bool | Saved
  | ContentLoaded string | ContentFailed err_text

fun apply_tab_patch :: "tab_patch \<Rightarrow> OpenTab \<Rightarrow> OpenTab" where
  "apply_tab_patch (SetMode m) t = t\<lparr>tmode := m\<rparr>"
| "apply_tab_patch Discard t = t\<lparr>draft := content t, isDirty := False, tmode := View\<rparr>"
| "apply_tab_patch (SetDraft d) t = t\<lparr>draft := d, isDirty := (d \<noteq> content t)\<rparr>"
| "apply_tab_patch (SetSaving b) t = t\<lparr>saving := b\<rparr>"
| "apply_tab_patch Saved t = t\<lparr>content := draft t, isDirty := False, saving := False\<rparr>"
| "apply_tab_patch (ContentLoaded c) t =
     t\<lparr>content := c, draft := c, tload := LLoaded, tmode := View, isDirty := False\<rparr>"
| "apply_tab_patch (ContentFailed e) t = t\<lparr>tload := LError, terror := Some e\<rparr>"

definition patchTab :: "string \<Rightarrow> tab_patch \<Rightarrow> OpenTab list \<Rightarrow> OpenTab list" where
  "patchTab i p ts = patch_by tid i (apply_tab_patch p) ts"

lemma tid_apply_tab_patch [simp]: "tid (apply_tab_patch p t) = tid t"
  and tpath_apply_tab_patch [simp]: "tpath (apply_tab_patch p t) = tpath t"
  by (cases p; simp)+

interpretation tab_store: keyed_store tid apply_tab_patch patchTab
  by unfold_locales (simp_all add: patchTab_def)

subsection \<open>Operations\<close>

definition find_tab :: "string \<Rightarrow> OpenTab list \<Rightarrow> OpenTab option" where
  "find_tab i ts = List.find (\<lambda>t. tid t = i) ts"

definition node_extension :: "FsNode \<Rightarrow> string" where
  "node_extension node = js_or (normalizeExtension (nextension node)) (extension_of_name (nname node))"

definition opt_string :: "string \<Rightarrow> string option" where
  "opt_string s = (if s = [] then None else Some s)"

definition new_tab :: "FsNode \<Rightarrow> OpenTab" where
  "new_tab node =
     (let extension = node_extension node in
      \<lparr>tid = npath node, title = nname node, tpath = npath node, tdrive = ndrive node,
       textension = opt_string extension, language = languageFromExtension (Some extension),
       content = [], draft = [], tload = LLoading, terror = None, tmode = View,
       isDirty = False, saving = False\<rparr>)"

definition too_big :: "FsNode \<Rightarrow> bool" where
  "too_big node = (case nsize node of None \<Rightarrow> False | Some n \<Rightarrow> MAX_OPEN_BYTES < n)"

definition openFile :: "FsNode \<Rightarrow> fs_state \<Rightarrow> fs_result" where
  "openFile node st =
     (if ntype node \<noteq> NFile then (st, [])
      else let st1 = st\<lparr>selectedPath := npath node\<rparr> in
        if too_big node then (st1, [Toast ToastError TxTooBigOpen])
        else case find_tab (npath node) (tabs st) of
            Some existing \<Rightarrow> (st1\<lparr>activeTab := tid existing\<rparr>, [])
          | None \<Rightarrow>
              (st1\<lparr>tabs := tabs st @ [new_tab node], activeTab := npath node\<rparr>,
               [Issue (PContent (npath node) (npath node) (ndrive node))]))"

definition payload_content :: "fs_payload option \<Rightarrow> string" where
  "payload_content d = (case d of Some (ContentData c) \<Rightarrow> c | _ \<Rightarrow> [])"

definition openFile_done :: "string \<Rightarrow> fs_payload settled \<Rightarrow> fs_state \<Rightarrow> fs_result" where
  "openFile_done i s st =
     (case expect_success FbReadFile s of
        Inl e \<Rightarrow> (st\<lparr>tabs := patchTab i (ContentFailed e) (tabs st)\<rparr>, [])
      | Inr d \<Rightarrow> (st\<lparr>tabs := patchTab i (ContentLoaded (payload_content d)) (tabs st)\<rparr>, []))"

definition neighbour_id :: "nat \<Rightarrow> OpenTab list \<Rightarrow> string" where
  "neighbour_id idx nextTabs =
     (if nextTabs = [] then [] else tid (nextTabs ! min idx (length nextTabs - 1)))"

definition closeTab :: "(fs_prompt \<Rightarrow> bool) \<Rightarrow> string \<Rightarrow> fs_state \<Rightarrow> fs_result" where
  "closeTab ask i st =
     (case find_index (\<lambda>t. tid t = i) (tabs st) of
        None \<Rightarrow> (st, [])
      | Some idx \<Rightarrow>
          if isDirty (tabs st ! idx) \<and> \<not> ask AskCloseDirty then (st, [])
          else let nextTabs = filter (\<lambda>t. tid t \<noteq> i) (tabs st) in
            (st\<lparr>tabs := nextTabs,
                activeTab := (if activeTab st \<noteq> i then activeTab st
                              else neighbour_id idx nextTabs)\<rparr>, []))"

definition setTabMode :: "string \<Rightarrow> TabMode \<Rightarrow> fs_state \<Rightarrow> fs_result" where
  "setTabMode i m st = (st\<lparr>tabs := patchTab i (SetMode m) (tabs st)\<rparr>, [])"

definition discardTabChanges :: "string \<Rightarrow> fs_state \<Rightarrow> fs_result" where
  "discardTabChanges i st = (st\<lparr>tabs := patchTab i Discard (tabs st)\<rparr>, [])"

definition updateTabDraft :: "string \<Rightarrow> string \<Rightarrow> fs_state \<Rightarrow> fs_result" where
  "updateTabDraft i d st = (st\<lparr>tabs := patchTab i (SetDraft d) (tabs st)\<rparr>, [])"

definition saveTab :: "string \<Rightarrow> fs_state \<Rightarrow> fs_result" where
  "saveTab i st =
     (case find_tab i (tabs st) of
        None \<Rightarrow> (st, [])
      | Some tab \<Rightarrow>
          if tload tab \<noteq> LLoaded then (st, [])
          else if \<not> isDirty tab then (st, [])
          else if saving tab then (st, [])
          else if MAX_OPEN_BYTES < blob_size (draft tab) then (st, [Toast ToastError TxTooBigSave])
          else (st\<lparr>tabs := patchTab i (SetSaving True) (tabs st)\<rparr>,
                [Issue (PSave i (tpath tab) (tdrive tab) (draft tab))]))"

definition saveTab_done :: "string \<Rightarrow> fs_payload settled \<Rightarrow> fs_state \<Rightarrow> fs_result" where
  "saveTab_done i s st =
     (case expect_success FbSave s of
        Inl e \<Rightarrow> (st\<lparr>tabs := patchTab i (SetSaving False) (tabs st)\<rparr>,
                  [Toast ToastError (TxSaveFailed e)])
      | Inr d \<Rightarrow> (st\<lparr>tabs := patchTab i Saved (tabs st)\<rparr>, [Toast ToastSuccess TxSaved]))"

subsection \<open>The effect that keeps a tab active\<close>

definition active_effect :: "fs_state \<Rightarrow> fs_state" where
  "active_effect st =
     (case tabs st of [] \<Rightarrow> st
      | t # _ \<Rightarrow> if \<exists>u\<in>set (tabs st). tid u = activeTab st then st
                 else st\<lparr>activeTab := tid t\<rparr>)"

subsection \<open>Well-formed tabs\<close>

text \<open>A tab is addressed by its path, and the dirty mark says exactly that draft and content differ.\<close>

definition tab_ok :: "OpenTab \<Rightarrow> bool" where
  "tab_ok t \<longleftrightarrow> tid t = tpath t \<and> isDirty t = (draft t \<noteq> content t)"

lemma tab_ok_apply [simp]: "tab_ok t \<Longrightarrow> tab_ok (apply_tab_patch p t)"
  by (cases p) (auto simp: tab_ok_def)

lemma tab_ok_new [simp]: "tab_ok (new_tab node)"
  by (simp add: tab_ok_def new_tab_def Let_def)

lemma tabs_ok_patch: "\<forall>t\<in>set ts. tab_ok t \<Longrightarrow> \<forall>t\<in>set (patchTab i p ts). tab_ok t"
  by (rule tab_store.patch_all) auto

definition tabs_ok :: "fs_state \<Rightarrow> bool" where
  "tabs_ok st \<longleftrightarrow> (\<forall>t\<in>set (tabs st). tab_ok t)"

lemma tabs_ok_same [simp]: "tabs_ok (st\<lparr>tabs := ts\<rparr>) \<longleftrightarrow> (\<forall>t\<in>set ts. tab_ok t)"
  by (simp add: tabs_ok_def)

lemma tid_new_tab [simp]: "tid (new_tab node) = npath node"
  by (simp add: new_tab_def Let_def)

lemma find_tab_Some_memD: "find_tab i ts = Some t \<Longrightarrow> t \<in> set ts \<and> tid t = i"
  by (auto simp: find_tab_def dest: find_Some_memD)

lemma find_tab_None: "find_tab i ts = None \<longleftrightarrow> i \<notin> tid ` set ts"
  by (auto simp: find_tab_def find_None_iff)

lemmas tab_ops = openFile_def openFile_done_def closeTab_def setTabMode_def
  discardTabChanges_def updateTabDraft_def saveTab_def saveTab_done_def

lemma tab_ops_ok:
  assumes "tabs_ok st"
  shows "tabs_ok (fst (openFile node st))" "tabs_ok (fst (openFile_done i s st))"
    "tabs_ok (fst (closeTab ask i st))" "tabs_ok (fst (setTabMode i m st))"
    "tabs_ok (fst (discardTabChanges i st))" "tabs_ok (fst (updateTabDraft i d st))"
    "tabs_ok (fst (saveTab i st))" "tabs_ok (fst (saveTab_done i s st))"
proof -
  note ok = assms [unfolded tabs_ok_def] tabs_ok_patch [OF assms [unfolded tabs_ok_def]]
  show "tabs_ok (fst (openFile node st))"
    using ok(1) by (auto simp: openFile_def tabs_ok_def Let_def split: option.splits)
  show "tabs_ok (fst (openFile_done i s st))"
    using ok(2) by (simp add: openFile_done_def split: sum.splits)
  show "tabs_ok (fst (closeTab ask i st))"
    using ok(1) by (auto simp: closeTab_def tabs_ok_def Let_def split: option.splits)
  show "tabs_ok (fst (setTabMode i m st))" "tabs_ok (fst (discardTabChanges i st))"
    "tabs_ok (fst (updateTabDraft i d st))"
    using ok(2) by (simp_all add: setTabMode_def discardTabChanges_def updateTabDraft_def)
  show "tabs_ok (fst (saveTab i st))"
    using ok by (auto simp: saveTab_def tabs_ok_def split: option.splits)
  show "tabs_ok (fst (saveTab_done i s st))"
    using ok(2) by (simp add: saveTab_done_def split: sum.splits)
qed

text \<open>Tab ids stay distinct under every tab operation.\<close>

definition ids_distinct :: "fs_state \<Rightarrow> bool" where
  "ids_distinct st \<longleftrightarrow> distinct (map tid (tabs st))"

lemma ids_distinct_patch:
  "ids_distinct st \<Longrightarrow> distinct (map tid (patchTab i p (tabs st)))"
  by (simp add: ids_distinct_def tab_store.distinct_patch)

lemma distinct_map_filter_tid: "distinct (map f xs) \<Longrightarrow> distinct (map f (filter P xs))"
  by (rule distinct_map_filter)

lemma tab_ops_distinct:
  assumes "ids_distinct st"
  shows "ids_distinct (fst (openFile node st))" "ids_distinct (fst (openFile_done i s st))"
    "ids_distinct (fst (closeTab ask i st))" "ids_distinct (fst (setTabMode i m st))"
    "ids_distinct (fst (discardTabChanges i st))" "ids_distinct (fst (updateTabDraft i d st))"
    "ids_distinct (fst (saveTab i st))" "ids_distinct (fst (saveTab_done i s st))"
proof -
  note dp = ids_distinct_patch [OF assms]
  have d: "distinct (map tid (tabs st))" using assms by (simp add: ids_distinct_def)
  show "ids_distinct (fst (openFile node st))"
    using d by (auto simp: openFile_def ids_distinct_def Let_def find_tab_None split: option.splits)
  show "ids_distinct (fst (closeTab ask i st))"
    using d by (auto simp: closeTab_def ids_distinct_def Let_def distinct_map_filter split: option.splits)
  show "ids_distinct (fst (openFile_done i s st))" "ids_distinct (fst (setTabMode i m st))"
    "ids_distinct (fst (discardTabChanges i st))" "ids_distinct (fst (updateTabDraft i d st))"
    "ids_distinct (fst (saveTab_done i s st))"
    using dp by (simp_all add: openFile_done_def setTabMode_def discardTabChanges_def
      updateTabDraft_def saveTab_done_def ids_distinct_def split: sum.splits)
  show "ids_distinct (fst (saveTab i st))"
    using dp d by (auto simp: saveTab_def ids_distinct_def split: option.splits)
qed

text \<open>Closing: which tab becomes active.\<close>

definition active_ok :: "fs_state \<Rightarrow> bool" where
  "active_ok st \<longleftrightarrow>
     (if tabs st = [] then activeTab st = [] else activeTab st \<in> tid ` set (tabs st))"

lemma neighbour_id_mem: "ts \<noteq> [] \<Longrightarrow> neighbour_id idx ts \<in> tid ` set ts"
proof -
  assume ne: "ts \<noteq> []"
  then have "min idx (length ts - 1) < length ts" by (cases ts) auto
  then show ?thesis using ne by (simp add: neighbour_id_def)
qed

lemma active_ok_closeTab:
  assumes "active_ok st"
  shows "active_ok (fst (closeTab ask i st))"
proof (cases "find_index (\<lambda>t. tid t = i) (tabs st)")
  case None
  then show ?thesis using assms by (simp add: closeTab_def)
next
  case (Some idx)
  let ?next = "filter (\<lambda>t. tid t \<noteq> i) (tabs st)"
  have ne: "tabs st \<noteq> []" using find_index_SomeD [OF Some] by auto
  then have a: "activeTab st \<in> tid ` set (tabs st)" using assms by (simp add: active_ok_def)
  show ?thesis
  proof (cases "activeTab st = i")
    case True
    then show ?thesis
      using Some assms neighbour_id_mem [of ?next idx]
      by (auto simp: closeTab_def active_ok_def Let_def neighbour_id_def)
  next
    case False
    then have mem: "activeTab st \<in> tid ` set ?next" using a by auto
    then have "?next \<noteq> []" by (metis empty_iff empty_set image_empty)
    then show ?thesis
      using mem False Some assms by (simp add: closeTab_def active_ok_def Let_def)
  qed
qed

lemma active_effect_ok:
  assumes "tabs st \<noteq> []"
  shows "active_ok (active_effect st)"
proof (cases "\<exists>u\<in>set (tabs st). tid u = activeTab st")
  case True
  then have "activeTab st \<in> tid ` set (tabs st)" by (metis imageI)
  moreover have "active_effect st = st"
    using True by (cases "tabs st") (auto simp: active_effect_def)
  ultimately show ?thesis using assms by (simp add: active_ok_def)
next
  case False
  then show ?thesis
    using assms by (cases "tabs st") (auto simp: active_effect_def active_ok_def)
qed

lemma active_effect_fix: "active_ok st \<Longrightarrow> active_effect st = st"
  unfolding active_effect_def active_ok_def by (cases "tabs st") (auto simp: image_iff)

lemma active_effect_frame [simp]:
  "tabs (active_effect st) = tabs st" "tree (active_effect st) = tree st"
  "openFolders (active_effect st) = openFolders st" "renaming (active_effect st) = renaming st"
  "creatingFolder (active_effect st) = creatingFolder st"
  "creatingFile (active_effect st) = creatingFile st"
  by (auto simp: active_effect_def split: list.splits)

end
