(* ===== verification/FsActions.thy ===== *)
theory FsActions
  imports FsTabs
begin

text \<open>
  The file operations of the page: renaming, deleting, zipping, unzipping, pasting,
  creating, uploading by picker or by drag, downloading, and the dialogs that start them.
  Each handler is given in full, part by part; the parts after an \<open>await\<close> end in
  \<open>_done\<close> (or \<open>_listed\<close>, \<open>_cleared\<close> for a handler with several awaits) and take
  the captured variables from the pending call.
\<close>

definition add_effects :: "fs_effect list \<Rightarrow> fs_result \<Rightarrow> fs_result" where
  "add_effects es r = (fst r, snd r @ es)"

subsection \<open>Relocating what the page remembers\<close>

definition relocate_all :: "string \<Rightarrow> string \<Rightarrow> fs_state \<Rightarrow> fs_state" where
  "relocate_all old new st =
     st\<lparr>activeTab := replacePathPrefix (activeTab st) old new,
        openFolders := map (\<lambda>p. replacePathPrefix p old new) (openFolders st),
        selectedPath := replacePathPrefix (selectedPath st) old new\<rparr>"

subsection \<open>Rename\<close>

definition openRenameForNode :: "FsNode \<Rightarrow> fs_state \<Rightarrow> fs_result" where
  "openRenameForNode node st =
     (if ntype node = NDrive then (st, [])
      else (st\<lparr>renameTarget := Some node, renameValue := nname node, renameOpen := True\<rparr>, []))"

definition handleRename :: "fs_state \<Rightarrow> fs_result" where
  "handleRename st =
     (case renameTarget st of
        None \<Rightarrow> (st, [])
      | Some target \<Rightarrow>
          if ntype target = NDrive then (st, [])
          else let newName = js_trim (renameValue st) in
            if newName = [] then (st, [Toast ToastError TxNeedNewName])
            else if renaming st then (st, [])
            else (st\<lparr>renaming := True\<rparr>, [Issue (PRename target newName (tree st))]))"

definition rename_tab :: "FsNode \<Rightarrow> string \<Rightarrow> OpenTab \<Rightarrow> OpenTab" where
  "rename_tab target newName t =
     (let oldPath = npath target;
          newPath = joinPath (dirname oldPath) newName
      in if ntype target = NFile then
           (if tpath t \<noteq> oldPath then t
            else let extension = extension_of_name newName in
              t\<lparr>tid := newPath, title := newName, tpath := newPath,
                textension := opt_string extension,
                language := languageFromExtension (Some extension)\<rparr>)
         else if \<not> isPathEqualOrUnder (tpath t) oldPath then t
         else let updatedPath = replacePathPrefix (tpath t) oldPath newPath in
           t\<lparr>tid := updatedPath, tpath := updatedPath\<rparr>)"

definition handleRename_done ::
  "FsNode \<Rightarrow> string \<Rightarrow> FsNode list \<Rightarrow> fs_payload settled \<Rightarrow> fs_state \<Rightarrow> fs_result" where
  "handleRename_done target newName tr s st =
     (case expect_success FbRename s of
        Inl e \<Rightarrow> (st\<lparr>renaming := False\<rparr>, [Toast ToastError (TxRenameFailed e)])
      | Inr d \<Rightarrow>
          let oldPath = npath target;
              parentPath = dirname oldPath;
              newPath = joinPath parentPath newName;
              st1 = relocate_all oldPath newPath
                      (st\<lparr>tabs := map (rename_tab target newName) (tabs st)\<rparr>);
              r = add_effects [Toast ToastSuccess TxRenamed] (refreshDirectoryNode tr parentPath st1)
          in ((fst r)\<lparr>renameOpen := False, renameTarget := None, renaming := False\<rparr>, snd r))"

text \<open>The dialog's \<open>onOpenChange\<close>.\<close>

definition renameDialogChange :: "bool \<Rightarrow> fs_state \<Rightarrow> fs_result" where
  "renameDialogChange opened st =
     (if opened then (st\<lparr>renameOpen := True\<rparr>, [])
      else (st\<lparr>renameOpen := False, renameTarget := None, renameValue := []\<rparr>, []))"

subsection \<open>Delete\<close>

definition handleDelete :: "(fs_prompt \<Rightarrow> bool) \<Rightarrow> FsNode \<Rightarrow> fs_state \<Rightarrow> fs_result" where
  "handleDelete ask node st =
     (if ntype node = NDrive then (st, [])
      else let affectedTabs = filter (\<lambda>t. isPathEqualOrUnder (tpath t) (npath node)) (tabs st);
               dirtyCount = length (filter isDirty affectedTabs)
        in if \<not> ask (AskDelete (ntype node) (nname node)) then (st, [])
           else if 0 < dirtyCount \<and> \<not> ask (AskDeleteDirty dirtyCount) then (st, [])
           else (st, [Issue (PDelete node (tree st))]))"

definition drop_tabs_under :: "string \<Rightarrow> fs_state \<Rightarrow> fs_state" where
  "drop_tabs_under path st =
     (let nextTabs = filter (\<lambda>t. \<not> isPathEqualOrUnder (tpath t) path) (tabs st) in
      st\<lparr>tabs := nextTabs,
         activeTab :=
           (if activeTab st = [] then []
            else if \<exists>t\<in>set nextTabs. tid t = activeTab st then activeTab st
            else (case nextTabs of [] \<Rightarrow> [] | t # _ \<Rightarrow> tid t))\<rparr>)"

definition handleDelete_done ::
  "FsNode \<Rightarrow> FsNode list \<Rightarrow> fs_payload settled \<Rightarrow> fs_state \<Rightarrow> fs_result" where
  "handleDelete_done node tr s st =
     (case expect_success FbDelete s of
        Inl e \<Rightarrow> (st, [Toast ToastError (TxDeleteFailed e)])
      | Inr d \<Rightarrow>
          let parentPath = dirname (npath node);
              st1 = (if ntype node = NDirectory then
                       st\<lparr>openFolders := filter (\<lambda>p. \<not> isPathEqualOrUnder p (npath node)) (openFolders st),
                          selectedPath := (if isPathEqualOrUnder (selectedPath st) (npath node)
                                           then parentPath else selectedPath st)\<rparr>
                     else st\<lparr>selectedPath := (if selectedPath st = npath node then parentPath
                                              else selectedPath st)\<rparr>)
          in add_effects [Toast ToastSuccess TxDeleted]
               (refreshDirectoryNode tr parentPath (drop_tabs_under (npath node) st1)))"

subsection \<open>Upload by picker, download\<close>

definition pickFilesFor :: "Dir option \<Rightarrow> fs_state \<Rightarrow> fs_result" where
  "pickFilesFor dir st =
     (case dir of
        None \<Rightarrow> (st, [Toast ToastError TxSelectDir])
      | Some d \<Rightarrow> (st\<lparr>pendingUploadDir := Some d\<rparr>, [ClickFileInput]))"

definition onFileInputChange :: "blob list \<Rightarrow> fs_state \<Rightarrow> fs_result" where
  "onFileInputChange chosen st =
     (let dir = (case pendingUploadDir st of Some d \<Rightarrow> Some d | None \<Rightarrow> targetDirectory st);
          st1 = st\<lparr>pendingUploadDir := None\<rparr>
      in case dir of
           None \<Rightarrow> (st1, [])
         | Some d \<Rightarrow> if chosen = [] then (st1, []) else (st1, [Enqueue chosen d]))"

definition handleDownload :: "FsNode \<Rightarrow> fs_state \<Rightarrow> fs_result" where
  "handleDownload node st =
     (if ntype node \<noteq> NFile then (st, []) else (st, [Issue (PDownload node)]))"

text \<open>
  \<open>downloadToDisk\<close> (\<open>web/src/pages/filestorage/utils/download.ts\<close>): anything but a blob is
  a failure, with the message of the answer if it has one.
\<close>

definition downloadToDisk :: "fs_payload settled \<Rightarrow> err_text + unit" where
  "downloadToDisk s =
     (case s of Rejected e \<Rightarrow> Inl e
      | Resolved r \<Rightarrow> if resp_data r = Some BlobData then Inr () else Inl (message_or FbDownload r))"

definition handleDownload_done :: "fs_payload settled \<Rightarrow> fs_state \<Rightarrow> fs_result" where
  "handleDownload_done s st =
     (case downloadToDisk s of
        Inl e \<Rightarrow> (st, [Toast ToastError (TxDownloadFailed e)])
      | Inr _ \<Rightarrow> (st, []))"

subsection \<open>Zip and unzip\<close>

text \<open>\<open>name.replace(/\\.[^.]+$/, "")\<close> and \<open>name.replace(/\\.zip$/i, "")\<close>.\<close>

definition strip_extension :: "string \<Rightarrow> string" where
  "strip_extension s =
     (let seg = last_segment (\<lambda>c. c = CHR ''.'') s in
      if CHR ''.'' \<in> set s \<and> seg \<noteq> [] then take (length s - length seg - 1) s else s)"

definition strip_zip :: "string \<Rightarrow> string" where
  "strip_zip s = (if ends_with_ci s ''.zip'' then take (length s - 4) s else s)"

definition openZipDialog :: "FsNode \<Rightarrow> fs_state \<Rightarrow> fs_result" where
  "openZipDialog node st =
     (if ntype node = NDrive then (st, [])
      else (st\<lparr>zipTarget := Some node,
               zipName := (if ntype node = NDirectory then nname node @ ''.zip''
                           else js_or (strip_extension (nname node)) (nname node) @ ''.zip''),
               zipOpen := True\<rparr>, []))"

definition handleCreateZip :: "fs_state \<Rightarrow> fs_result" where
  "handleCreateZip st =
     (case zipTarget st of
        None \<Rightarrow> (st, [])
      | Some target \<Rightarrow>
          if busyOp st \<noteq> None then (st, [])
          else let name = js_trim (zipName st) in
            if name = [] then (st, [Toast ToastError TxNeedZipName])
            else let finalName = (if ends_with_ci name ''.zip'' then name else name @ ''.zip'') in
              (st, [Issue (PZipList target finalName (tree st))]))"

definition listed_names :: "fs_payload settled \<Rightarrow> string list \<times> string list" where
  "listed_names s =
     (case s of Rejected e \<Rightarrow> ([], [])
      | Resolved r \<Rightarrow>
          (let l = payload_listing (resp_data r) in (map it_name (directories l), map it_name (files l))))"

definition handleCreateZip_listed ::
  "(fs_prompt \<Rightarrow> bool) \<Rightarrow> FsNode \<Rightarrow> string \<Rightarrow> FsNode list \<Rightarrow> fs_payload settled \<Rightarrow> fs_state \<Rightarrow> fs_result" where
  "handleCreateZip_listed ask target finalName tr s st =
     (if finalName \<in> set (snd (listed_names s)) \<and> \<not> ask (AskZipOverwrite finalName) then (st, [])
      else (st\<lparr>busyOp := Some BusyZip, zipOpen := False\<rparr>,
            [Toast ToastLoading (TxZipping (nname target)), Issue (PZip target finalName tr)]))"

definition handleCreateZip_done ::
  "FsNode \<Rightarrow> string \<Rightarrow> FsNode list \<Rightarrow> fs_payload settled \<Rightarrow> fs_state \<Rightarrow> fs_result" where
  "handleCreateZip_done target finalName tr s st =
     (case expect_success FbZip s of
        Inl e \<Rightarrow> (st\<lparr>busyOp := None\<rparr>, [Toast ToastError (TxZipFailed e)])
      | Inr d \<Rightarrow>
          let r = refreshDirectoryNode tr (dirname (npath target)) st in
          ((fst r)\<lparr>busyOp := None\<rparr>, Toast ToastSuccess (TxZipped finalName) # snd r))"

definition zipDialogChange :: "bool \<Rightarrow> fs_state \<Rightarrow> fs_result" where
  "zipDialogChange opened st =
     (if opened then (st\<lparr>zipOpen := True\<rparr>, [])
      else (st\<lparr>zipOpen := False, zipTarget := None, zipName := []\<rparr>, []))"

definition handleUnzip :: "(fs_prompt \<Rightarrow> bool) \<Rightarrow> FsNode \<Rightarrow> fs_state \<Rightarrow> fs_result" where
  "handleUnzip ask node st =
     (if ntype node \<noteq> NFile \<or> busyOp st \<noteq> None then (st, [])
      else if \<not> ask (AskUnzip (strip_zip (nname node))) then (st, [])
      else (st\<lparr>busyOp := Some BusyUnzip\<rparr>,
            [Toast ToastLoading (TxUnzipping (nname node)), Issue (PUnzip node (tree st))]))"

definition handleUnzip_done ::
  "FsNode \<Rightarrow> FsNode list \<Rightarrow> fs_payload settled \<Rightarrow> fs_state \<Rightarrow> fs_result" where
  "handleUnzip_done node tr s st =
     (case expect_success FbUnzip s of
        Inl e \<Rightarrow> (st\<lparr>busyOp := None\<rparr>, [Toast ToastError (TxUnzipFailed e)])
      | Inr d \<Rightarrow>
          let r = refreshDirectoryNode tr (dirname (npath node)) st in
          ((fst r)\<lparr>busyOp := None\<rparr>, Toast ToastSuccess (TxUnzipped (strip_zip (nname node))) # snd r))"

subsection \<open>Paste\<close>

definition handlePaste :: "Dir option \<Rightarrow> fs_state \<Rightarrow> fs_result" where
  "handlePaste dir st =
     (case (clipboard st, dir) of
        (Some c, Some d) \<Rightarrow>
          if pasting st then (st, [])
          else let source = cnode c; targetPath = targetPath_of d source in
            if ndrive source \<noteq> ddrive d then (st, [Toast ToastError TxCrossDrive])
            else if targetPath = npath source then
              (if cmode c = Cut then (st\<lparr>clipboard := None\<rparr>, [])
               else (st, [Toast ToastError TxSameDir]))
            else if ntype source = NDirectory \<and> isPathEqualOrUnder (dpath d) (npath source) then
              (st, [Toast ToastError TxIntoSelf])
            else (st, [Issue (PPasteList (cmode c) source d (tree st))])
      | _ \<Rightarrow> (st, []))"

definition paste_begin :: "ClipMode \<Rightarrow> FsNode \<Rightarrow> Dir \<Rightarrow> FsNode list \<Rightarrow> fs_state \<Rightarrow> fs_result" where
  "paste_begin m source d tr st = (st\<lparr>pasting := True\<rparr>, [Issue (PPaste m source d tr)])"

definition handlePaste_listed ::
  "(fs_prompt \<Rightarrow> bool) \<Rightarrow> ClipMode \<Rightarrow> FsNode \<Rightarrow> Dir \<Rightarrow> FsNode list \<Rightarrow> fs_payload settled \<Rightarrow> fs_state \<Rightarrow> fs_result" where
  "handlePaste_listed ask m source d tr s st =
     (let conflict = nname source \<in> set (fst (listed_names s)) \<union> set (snd (listed_names s)) in
      if conflict then
        (if \<not> ask (AskOverwrite (ntype source) (nname source)) then (st, [])
         else if m = Cut then (st, [Issue (PPasteDelete m source d tr)])
         else paste_begin m source d tr st)
      else paste_begin m source d tr st)"

definition handlePaste_cleared ::
  "ClipMode \<Rightarrow> FsNode \<Rightarrow> Dir \<Rightarrow> FsNode list \<Rightarrow> fs_payload settled \<Rightarrow> fs_state \<Rightarrow> fs_result" where
  "handlePaste_cleared m source d tr s st =
     (case s of Rejected e \<Rightarrow> (st, [Unhandled e])
      | Resolved r \<Rightarrow>
          if \<not> success r then (st, [Toast ToastError (TxOverwriteFailed (message_or FbOverwrite r))])
          else paste_begin m source d tr st)"

definition move_tab :: "string \<Rightarrow> string \<Rightarrow> OpenTab \<Rightarrow> OpenTab" where
  "move_tab old new t =
     (if isPathEqualOrUnder (tpath t) old
      then t\<lparr>tid := replacePathPrefix (tpath t) old new, tpath := replacePathPrefix (tpath t) old new\<rparr>
      else t)"

definition handlePaste_done ::
  "ClipMode \<Rightarrow> FsNode \<Rightarrow> Dir \<Rightarrow> FsNode list \<Rightarrow> fs_payload settled \<Rightarrow> fs_state \<Rightarrow> fs_result" where
  "handlePaste_done m source d tr s st =
     (case expect_success FbPaste s of
        Inl e \<Rightarrow> (st\<lparr>pasting := False\<rparr>, [Toast ToastError (TxPasteFailed e)])
      | Inr x \<Rightarrow>
          let targetPath = targetPath_of d source;
              r1 = (if m = Cut then
                      (let r = refreshDirectoryNode tr (dirname (npath source))
                             (relocate_all (npath source) targetPath
                               (st\<lparr>tabs := map (move_tab (npath source) targetPath) (tabs st)\<rparr>))
                       in ((fst r)\<lparr>clipboard := None\<rparr>, snd r))
                    else (st, []));
              r2 = refreshDirectoryNode tr (dpath d) (fst r1)
          in ((fst r2)\<lparr>pasting := False\<rparr>,
              snd r1 @ snd r2 @ [Toast ToastSuccess (if m = Copy then TxCopied else TxMoved)]))"

subsection \<open>Drag and drop of local files\<close>

record drop_entry =
  entry_is_file :: bool
  entry_is_dir :: bool

record drag_event =
  drag_types :: "string list"
  drag_entries :: "drop_entry option list"
  drag_files :: "blob list"
  to_inside :: bool

definition isLocalFileDrag :: "drag_event \<Rightarrow> bool" where
  "isLocalFileDrag ev \<longleftrightarrow> ''Files'' \<in> set (drag_types ev)"

definition dropFilesInto :: "drag_event \<Rightarrow> Dir option \<Rightarrow> fs_state \<Rightarrow> fs_result" where
  "dropFilesInto ev dir st =
     (let hasDirectory = list_ex (\<lambda>e. case e of None \<Rightarrow> False | Some x \<Rightarrow> entry_is_dir x) (drag_entries ev);
          uploadable =
            (if length (drag_entries ev) = length (drag_files ev) then
               map snd (filter (\<lambda>(e, f). case e of None \<Rightarrow> True | Some x \<Rightarrow> entry_is_file x)
                 (zip (drag_entries ev) (drag_files ev)))
             else drag_files ev);
          warn = (if hasDirectory then [Toast ToastError TxNoFolderDrag] else [])
      in case dir of
           None \<Rightarrow> (st, warn)
         | Some d \<Rightarrow> if uploadable = [] then (st, warn) else (st, warn @ [Enqueue uploadable d]))"

definition onNodeDragOver :: "drag_event \<Rightarrow> FsNode \<Rightarrow> fs_state \<Rightarrow> fs_result" where
  "onNodeDragOver ev node st =
     (if ntype node = NFile then (st, [])
      else if \<not> isLocalFileDrag ev then (st, [])
      else (st\<lparr>dropTargetPath := npath node\<rparr>, []))"

definition onNodeDragLeave :: "drag_event \<Rightarrow> FsNode \<Rightarrow> fs_state \<Rightarrow> fs_result" where
  "onNodeDragLeave ev node st =
     (if to_inside ev then (st, [])
      else (st\<lparr>dropTargetPath := (if dropTargetPath st = npath node then [] else dropTargetPath st)\<rparr>, []))"

definition onNodeDrop :: "drag_event \<Rightarrow> FsNode \<Rightarrow> fs_state \<Rightarrow> fs_result" where
  "onNodeDrop ev node st =
     (if ntype node = NFile then (st, [])
      else if \<not> isLocalFileDrag ev then (st, [])
      else dropFilesInto ev (Some \<lparr>dpath = npath node, ddrive = ndrive node\<rparr>)
        (st\<lparr>dropTargetPath := [], selectedPath := npath node,
            openFolders := add_open (npath node) (openFolders st)\<rparr>))"

definition onPanelDrop :: "drag_event \<Rightarrow> fs_state \<Rightarrow> fs_result" where
  "onPanelDrop ev st =
     (if \<not> isLocalFileDrag ev then (st, [])
      else dropFilesInto ev (targetDirectory st) (st\<lparr>dropTargetPath := []\<rparr>))"

subsection \<open>Create folder, create file\<close>

definition openCreateFolderForSelection :: "fs_state \<Rightarrow> fs_result" where
  "openCreateFolderForSelection st = (st\<lparr>newFolderName := [], createFolderOpen := True\<rparr>, [])"

definition openCreateFileForSelection :: "fs_state \<Rightarrow> fs_result" where
  "openCreateFileForSelection st =
     (st\<lparr>newFileName := [], newFileContent := [], createFileOpen := True\<rparr>, [])"

definition handleCreateFolder :: "fs_state \<Rightarrow> fs_result" where
  "handleCreateFolder st =
     (case targetDirectory st of
        None \<Rightarrow> (st, [Toast ToastError TxNoTargetDir])
      | Some d \<Rightarrow>
          let name = js_trim (newFolderName st) in
          if name = [] then (st, [Toast ToastError TxNeedFolderName])
          else if creatingFolder st then (st, [])
          else (st\<lparr>creatingFolder := True\<rparr>, [Issue (PCreateFolder d name (tree st))]))"

definition handleCreateFolder_done ::
  "Dir \<Rightarrow> FsNode list \<Rightarrow> fs_payload settled \<Rightarrow> fs_state \<Rightarrow> fs_result" where
  "handleCreateFolder_done d tr s st =
     (case expect_success FbCreate s of
        Inl e \<Rightarrow> (st\<lparr>creatingFolder := False\<rparr>, [Toast ToastError (TxCreateFailed e)])
      | Inr x \<Rightarrow>
          let r = refreshDirectoryNode tr (dpath d)
                    (st\<lparr>createFolderOpen := False, newFolderName := []\<rparr>)
          in ((fst r)\<lparr>creatingFolder := False\<rparr>, Toast ToastSuccess TxFolderCreated # snd r))"

definition handleCreateFile :: "fs_state \<Rightarrow> fs_result" where
  "handleCreateFile st =
     (case targetDirectory st of
        None \<Rightarrow> (st, [Toast ToastError TxNoTargetDir])
      | Some d \<Rightarrow>
          let name = js_trim (newFileName st) in
          if name = [] then (st, [Toast ToastError TxNeedFileName])
          else if creatingFile st then (st, [])
          else (st\<lparr>creatingFile := True\<rparr>, [Issue (PCreateFile d name (newFileContent st) (tree st))]))"

definition handleCreateFile_done ::
  "Dir \<Rightarrow> FsNode list \<Rightarrow> fs_payload settled \<Rightarrow> fs_state \<Rightarrow> fs_result" where
  "handleCreateFile_done d tr s st =
     (case expect_success FbCreate s of
        Inl e \<Rightarrow> (st\<lparr>creatingFile := False\<rparr>, [Toast ToastError (TxCreateFailed e)])
      | Inr x \<Rightarrow>
          let r = refreshDirectoryNode tr (dpath d)
                    (st\<lparr>createFileOpen := False, newFileName := [], newFileContent := []\<rparr>)
          in ((fst r)\<lparr>creatingFile := False\<rparr>, Toast ToastSuccess TxFileCreated # snd r))"

end
