(* ===== verification/FsSystem.thy ===== *)
theory FsSystem
  imports FsActions
begin

text \<open>
  The file page as a machine. An event is a user action on a rendered page, the end of an
  upload (\<open>onFileDone\<close>, with the upload's directory), or the answer to a pending call; after each the component's two \<open>useEffect\<close>s run (\<open>settle\<close>): one loads
  the expanded folders that were never loaded, the other keeps a tab active. The relation
  \<open>fs_step\<close> lets answers arrive in any order and with any content, and \<open>fs_reachable\<close> is
  the set of page states with their calls in flight.
\<close>

subsection \<open>Effects of a commit\<close>

text \<open>One pass over the expanded folders, each looked up in the tree of the committed render.\<close>

fun open_loop :: "FsNode list \<Rightarrow> string list \<Rightarrow> fs_result \<Rightarrow> fs_result" where
  "open_loop tr [] r = r"
| "open_loop tr (p # ps) r =
     open_loop tr ps
       (case findNodeByPath tr p of
          None \<Rightarrow> r
        | Some node \<Rightarrow>
            if ntype node = NFile then r
            else if nload node = None \<or> nload node = Some LIdle then
              (let r' = loadFolderChildren node False (fst r) in (fst r', snd r @ snd r'))
            else r)"

definition open_effect :: "fs_state \<Rightarrow> fs_result" where
  "open_effect st = open_loop (tree st) (openFolders st) (st, [])"

definition settle :: "fs_result \<Rightarrow> fs_result" where
  "settle r =
     (let r' = open_effect (fst r) in (active_effect (fst r'), snd r @ snd r'))"

subsection \<open>Events\<close>

datatype fs_event =
    EvRefreshDrives | EvOpenFile FsNode | EvCloseTab string | EvTabMode string TabMode
  | EvDiscard string | EvDraft string string | EvSave string | EvActivate string
  | EvOpenFolders "string list" | EvSelect string | EvRetryFolder FsNode | EvRefreshNode FsNode
  | EvOpenRename FsNode | EvRenameValue string | EvRename | EvRenameDialog bool
  | EvDelete FsNode | EvCopy FsNode | EvCut FsNode | EvPaste "FsNode option"
  | EvPickFiles "FsNode option" | EvFilesChosen "blob list" | EvDownload FsNode
  | EvOpenZip FsNode | EvZipName string | EvZip | EvZipDialog bool | EvUnzip FsNode
  | EvDragOver drag_event FsNode | EvDragLeave drag_event FsNode | EvDrop drag_event FsNode
  | EvPanelDrop drag_event
  | EvOpenCreateFolder | EvFolderName string | EvCreateFolder
  | EvOpenCreateFile | EvFileName string | EvFileText string | EvCreateFile
  | EvCreateFolderDialog bool | EvCreateFileDialog bool | EvRenameCancel | EvZipCancel
  | EvUploaded string

fun fs_handle :: "(fs_prompt \<Rightarrow> bool) \<Rightarrow> fs_event \<Rightarrow> fs_state \<Rightarrow> fs_result" where
  "fs_handle ask EvRefreshDrives st = refreshDrives st"
| "fs_handle ask (EvOpenFile n) st = openFile n st"
| "fs_handle ask (EvCloseTab i) st = closeTab ask i st"
| "fs_handle ask (EvTabMode i m) st = setTabMode i m st"
| "fs_handle ask (EvDiscard i) st = discardTabChanges i st"
| "fs_handle ask (EvDraft i d) st = updateTabDraft i d st"
| "fs_handle ask (EvSave i) st = saveTab i st"
| "fs_handle ask (EvActivate i) st = (if tabs st = [] then st else st\<lparr>activeTab := i\<rparr>, [])"
| "fs_handle ask (EvOpenFolders ps) st = (st\<lparr>openFolders := ps\<rparr>, [])"
| "fs_handle ask (EvSelect p) st = (st\<lparr>selectedPath := p\<rparr>, [])"
| "fs_handle ask (EvRetryFolder n) st = loadFolderChildren n True st"
| "fs_handle ask (EvRefreshNode n) st =
     (if ntype n = NFile then refreshDirectoryNode (tree st) (dirname (npath n)) st
      else refreshDirectoryNode (tree st) (npath n) st)"
| "fs_handle ask (EvOpenRename n) st = openRenameForNode n st"
| "fs_handle ask (EvRenameValue v) st = (st\<lparr>renameValue := v\<rparr>, [])"
| "fs_handle ask EvRename st = handleRename st"
| "fs_handle ask (EvRenameDialog b) st = renameDialogChange b st"
| "fs_handle ask (EvDelete n) st = handleDelete ask n st"
| "fs_handle ask (EvCopy n) st = (st\<lparr>clipboard := Some \<lparr>cmode = Copy, cnode = n\<rparr>\<rparr>, [])"
| "fs_handle ask (EvCut n) st = (st\<lparr>clipboard := Some \<lparr>cmode = Cut, cnode = n\<rparr>\<rparr>, [])"
| "fs_handle ask (EvPaste n) st = handlePaste (resolveDirectory n st) st"
| "fs_handle ask (EvPickFiles n) st = pickFilesFor (resolveDirectory n st) st"
| "fs_handle ask (EvFilesChosen bs) st = onFileInputChange bs st"
| "fs_handle ask (EvDownload n) st = handleDownload n st"
| "fs_handle ask (EvOpenZip n) st = openZipDialog n st"
| "fs_handle ask (EvZipName v) st = (st\<lparr>zipName := v\<rparr>, [])"
| "fs_handle ask EvZip st = handleCreateZip st"
| "fs_handle ask (EvZipDialog b) st = zipDialogChange b st"
| "fs_handle ask (EvUnzip n) st = handleUnzip ask n st"
| "fs_handle ask (EvDragOver ev n) st = onNodeDragOver ev n st"
| "fs_handle ask (EvDragLeave ev n) st = onNodeDragLeave ev n st"
| "fs_handle ask (EvDrop ev n) st = onNodeDrop ev n st"
| "fs_handle ask (EvPanelDrop ev) st = onPanelDrop ev st"
| "fs_handle ask EvOpenCreateFolder st = openCreateFolderForSelection st"
| "fs_handle ask (EvFolderName v) st = (st\<lparr>newFolderName := v\<rparr>, [])"
| "fs_handle ask EvCreateFolder st = handleCreateFolder st"
| "fs_handle ask EvOpenCreateFile st = openCreateFileForSelection st"
| "fs_handle ask (EvFileName v) st = (st\<lparr>newFileName := v\<rparr>, [])"
| "fs_handle ask (EvFileText v) st = (st\<lparr>newFileContent := v\<rparr>, [])"
| "fs_handle ask EvCreateFile st = handleCreateFile st"
| "fs_handle ask (EvCreateFolderDialog b) st = (st\<lparr>createFolderOpen := b\<rparr>, [])"
| "fs_handle ask (EvCreateFileDialog b) st = (st\<lparr>createFileOpen := b\<rparr>, [])"
| "fs_handle ask EvRenameCancel st = (st\<lparr>renameOpen := False\<rparr>, [])"
| "fs_handle ask EvZipCancel st = (st\<lparr>zipOpen := False\<rparr>, [])"
| "fs_handle ask (EvUploaded dir) st = refreshDirectoryNode (tree st) dir st"

fun fs_resume ::
  "(string \<Rightarrow> string \<Rightarrow> int) \<Rightarrow> (fs_prompt \<Rightarrow> bool) \<Rightarrow> fs_pending \<Rightarrow> fs_payload settled \<Rightarrow> fs_state \<Rightarrow> fs_result"
where
  "fs_resume cmp ask PDrives s st = refreshDrives_done s st"
| "fs_resume cmp ask (PDirectory n) s st = loadFolderChildren_done cmp n s st"
| "fs_resume cmp ask (PContent i p d) s st = openFile_done i s st"
| "fs_resume cmp ask (PSave i p d x) s st = saveTab_done i s st"
| "fs_resume cmp ask (PRename n nm tr) s st = handleRename_done n nm tr s st"
| "fs_resume cmp ask (PDelete n tr) s st = handleDelete_done n tr s st"
| "fs_resume cmp ask (PZipList n f tr) s st = handleCreateZip_listed ask n f tr s st"
| "fs_resume cmp ask (PZip n f tr) s st = handleCreateZip_done n f tr s st"
| "fs_resume cmp ask (PUnzip n tr) s st = handleUnzip_done n tr s st"
| "fs_resume cmp ask (PPasteList m n d tr) s st = handlePaste_listed ask m n d tr s st"
| "fs_resume cmp ask (PPasteDelete m n d tr) s st = handlePaste_cleared m n d tr s st"
| "fs_resume cmp ask (PPaste m n d tr) s st = handlePaste_done m n d tr s st"
| "fs_resume cmp ask (PCreateFolder d nm tr) s st = handleCreateFolder_done d tr s st"
| "fs_resume cmp ask (PCreateFile d nm x tr) s st = handleCreateFile_done d tr s st"
| "fs_resume cmp ask (PDownload n) s st = handleDownload_done s st"

subsection \<open>The machine\<close>

record fs_sys =
  page :: fs_state
  inflight :: "fs_pending list"

fun issued :: "fs_effect list \<Rightarrow> fs_pending list" where
  "issued [] = []"
| "issued (Issue p # es) = p # issued es"
| "issued (e # es) = issued es"

definition commit :: "fs_pending list \<Rightarrow> fs_result \<Rightarrow> fs_sys" where
  "commit calls r = (let r' = settle r in \<lparr>page = fst r', inflight = calls @ issued (snd r')\<rparr>)"

definition fs_start :: fs_sys where
  "fs_start = commit [] (refreshDrives init_fs)"

inductive fs_step :: "(string \<Rightarrow> string \<Rightarrow> int) \<Rightarrow> fs_sys \<Rightarrow> fs_sys \<Rightarrow> bool" for cmp where
  user: "fs_step cmp s (commit (inflight s) (fs_handle ask ev (page s)))"
| answer: "inflight s = ps @ p # qs \<Longrightarrow>
     fs_step cmp s (commit (ps @ qs) (fs_resume cmp ask p a (page s)))"

inductive fs_reachable :: "(string \<Rightarrow> string \<Rightarrow> int) \<Rightarrow> fs_sys \<Rightarrow> bool" for cmp where
  start: "fs_reachable cmp fs_start"
| step: "fs_reachable cmp s \<Longrightarrow> fs_step cmp s t \<Longrightarrow> fs_reachable cmp t"

inductive_cases fs_stepE: "fs_step cmp s t"

lemma issued_append [simp]: "issued (xs @ ys) = issued xs @ issued ys"
  by (induction xs rule: issued.induct) auto

text \<open>
  The reachable states of the page keep every property that the start has, that every
  handler and every continuation keeps, and that the effects keep.
\<close>

lemma fs_reachable_inv:
  assumes "fs_reachable cmp s"
    and "I (commit [] (refreshDrives init_fs))"
    and "\<And>s ask ev. I s \<Longrightarrow> I (commit (inflight s) (fs_handle ask ev (page s)))"
    and "\<And>s ps p qs ask a. I s \<Longrightarrow> inflight s = ps @ p # qs \<Longrightarrow>
           I (commit (ps @ qs) (fs_resume cmp ask p a (page s)))"
  shows "I s"
  using assms(1)
proof (induction rule: fs_reachable.induct)
  case start
  show ?case unfolding fs_start_def by (rule assms(2))
next
  case (step s t)
  from step.hyps(2) show ?case
    by (cases rule: fs_step.cases) (auto intro: assms(3,4) step.IH)
qed

subsection \<open>Frames of the loading effect\<close>

lemma loadFolderChildren_frame [simp]:
  "tabs (fst (loadFolderChildren n f st)) = tabs st"
  "activeTab (fst (loadFolderChildren n f st)) = activeTab st"
  "openFolders (fst (loadFolderChildren n f st)) = openFolders st"
  "renaming (fst (loadFolderChildren n f st)) = renaming st"
  "creatingFolder (fst (loadFolderChildren n f st)) = creatingFolder st"
  "creatingFile (fst (loadFolderChildren n f st)) = creatingFile st"
  by (simp_all add: loadFolderChildren_def)

lemma refreshDrives_frame [simp]:
  "tabs (fst (refreshDrives st)) = tabs st" "activeTab (fst (refreshDrives st)) = activeTab st"
  "openFolders (fst (refreshDrives st)) = openFolders st"
  "renaming (fst (refreshDrives st)) = renaming st"
  "creatingFolder (fst (refreshDrives st)) = creatingFolder st"
  "creatingFile (fst (refreshDrives st)) = creatingFile st"
  by (simp_all add: refreshDrives_def)

lemma refreshDirectoryNode_frame [simp]:
  "tabs (fst (refreshDirectoryNode tr p st)) = tabs st"
  "activeTab (fst (refreshDirectoryNode tr p st)) = activeTab st"
  "renaming (fst (refreshDirectoryNode tr p st)) = renaming st"
  "creatingFolder (fst (refreshDirectoryNode tr p st)) = creatingFolder st"
  "creatingFile (fst (refreshDirectoryNode tr p st)) = creatingFile st"
  "openFolders (fst (refreshDirectoryNode tr p st)) = add_open p (openFolders st)"
  by (simp_all add: refreshDirectoryNode_def Let_def split: option.splits)

lemma open_loop_frame:
  "tabs (fst (open_loop tr ps r)) = tabs (fst r)"
  "activeTab (fst (open_loop tr ps r)) = activeTab (fst r)"
  "openFolders (fst (open_loop tr ps r)) = openFolders (fst r)"
  "renaming (fst (open_loop tr ps r)) = renaming (fst r)"
  "creatingFolder (fst (open_loop tr ps r)) = creatingFolder (fst r)"
  "creatingFile (fst (open_loop tr ps r)) = creatingFile (fst r)"
  by (induction ps arbitrary: r) (simp_all add: Let_def split: option.splits)

lemma open_effect_frame [simp]:
  "tabs (fst (open_effect st)) = tabs st" "activeTab (fst (open_effect st)) = activeTab st"
  "openFolders (fst (open_effect st)) = openFolders st"
  "renaming (fst (open_effect st)) = renaming st"
  "creatingFolder (fst (open_effect st)) = creatingFolder st"
  "creatingFile (fst (open_effect st)) = creatingFile st"
  by (simp_all add: open_effect_def open_loop_frame)

lemma settle_frame [simp]:
  "tabs (fst (settle r)) = tabs (fst r)" "openFolders (fst (settle r)) = openFolders (fst r)"
  "renaming (fst (settle r)) = renaming (fst r)"
  "creatingFolder (fst (settle r)) = creatingFolder (fst r)"
  "creatingFile (fst (settle r)) = creatingFile (fst r)"
  by (simp_all add: settle_def Let_def)

lemma commit_page [simp]: "page (commit calls r) = fst (settle r)"
  by (simp add: commit_def Let_def)

lemma commit_inflight [simp]: "inflight (commit calls r) = calls @ issued (snd (settle r))"
  by (simp add: commit_def Let_def)

end
