(* ===== verification/FsInvariants.thy ===== *)
theory FsInvariants
  imports FsSystem
begin

text \<open>
  What holds in every reachable state of the file page: the tabs are well formed and one of
  them is active, no expanded folder is left unloaded, a busy mark always has its request in
  flight (so it is never stuck), and a dialog's mark is set exactly while its one request is.
  Each is an instance of \<open>fs_reachable_inv\<close> over frame lemmas of the handlers.
\<close>

subsection \<open>Frames\<close>

lemmas handler_defs = openRenameForNode_def handleRename_def renameDialogChange_def
  handleDelete_def handlePaste_def pickFilesFor_def onFileInputChange_def handleDownload_def
  openZipDialog_def handleCreateZip_def zipDialogChange_def handleUnzip_def onNodeDragOver_def
  onNodeDragLeave_def onNodeDrop_def onPanelDrop_def dropFilesInto_def
  openCreateFolderForSelection_def openCreateFileForSelection_def handleCreateFolder_def
  handleCreateFile_def

lemmas done_defs = handleRename_done_def handleDelete_done_def handleDownload_done_def
  handleCreateZip_listed_def handleCreateZip_done_def handleUnzip_done_def
  handlePaste_listed_def handlePaste_cleared_def handlePaste_done_def paste_begin_def
  handleCreateFolder_done_def handleCreateFile_done_def

lemmas fs_splits = option.splits sum.splits settled.splits

lemma add_effects_simps [simp]:
  "fst (add_effects es r) = fst r" "snd (add_effects es r) = snd r @ es"
  by (simp_all add: add_effects_def)

lemma relocate_all_frame [simp]:
  "tabs (relocate_all old new st) = tabs st" "tree (relocate_all old new st) = tree st"
  "renaming (relocate_all old new st) = renaming st"
  "creatingFolder (relocate_all old new st) = creatingFolder st"
  "creatingFile (relocate_all old new st) = creatingFile st"
  "pasting (relocate_all old new st) = pasting st" "busyOp (relocate_all old new st) = busyOp st"
  "loadingDrives (relocate_all old new st) = loadingDrives st"
  by (simp_all add: relocate_all_def)

lemma drop_tabs_under_frame [simp]:
  "tabs (drop_tabs_under p st) = filter (\<lambda>t. \<not> isPathEqualOrUnder (tpath t) p) (tabs st)"
  "tree (drop_tabs_under p st) = tree st" "openFolders (drop_tabs_under p st) = openFolders st"
  "renaming (drop_tabs_under p st) = renaming st"
  "creatingFolder (drop_tabs_under p st) = creatingFolder st"
  "creatingFile (drop_tabs_under p st) = creatingFile st"
  "pasting (drop_tabs_under p st) = pasting st" "busyOp (drop_tabs_under p st) = busyOp st"
  "loadingDrives (drop_tabs_under p st) = loadingDrives st"
  by (simp_all add: drop_tabs_under_def Let_def)

subsection \<open>Tabs\<close>

lemma tab_ok_rename [simp]: "tab_ok t \<Longrightarrow> tab_ok (rename_tab n nm t)"
  by (auto simp: tab_ok_def rename_tab_def Let_def)

lemma tab_ok_move [simp]: "tab_ok t \<Longrightarrow> tab_ok (move_tab old new t)"
  by (auto simp: tab_ok_def move_tab_def)

lemma fs_handle_tabs_ok:
  assumes "tabs_ok st"
  shows "tabs_ok (fst (fs_handle ask ev st))"
  using assms
  by (cases ev) (simp_all add: tab_ops_ok, simp_all add: tabs_ok_def handler_defs Let_def split: option.splits)

lemma fs_resume_tabs_ok:
  assumes "tabs_ok st"
  shows "tabs_ok (fst (fs_resume cmp ask p a st))"
  using assms
  by (cases p) (simp_all add: tab_ops_ok,
    auto simp: tabs_ok_def done_defs refreshDrives_done_def show_drives_def
      loadFolderChildren_done_def Let_def split: fs_splits)

lemma tabs_ok_settle [simp]: "tabs_ok (fst (settle r)) \<longleftrightarrow> tabs_ok (fst r)"
  by (simp add: tabs_ok_def)

lemma reachable_tabs_ok: "fs_reachable cmp s \<Longrightarrow> tabs_ok (page s)"
  by (erule fs_reachable_inv)
    (simp_all add: fs_handle_tabs_ok fs_resume_tabs_ok, simp add: tabs_ok_def init_fs_def)

lemma commit_active_ok: "tabs (fst r) \<noteq> [] \<Longrightarrow> active_ok (page (commit calls r))"
  by (simp add: settle_def Let_def active_effect_ok)

lemma reachable_active_ok: "fs_reachable cmp s \<Longrightarrow> tabs (page s) \<noteq> [] \<longrightarrow> active_ok (page s)"
  by (erule fs_reachable_inv) (auto intro!: commit_active_ok[unfolded commit_page])

subsection \<open>Expanded folders\<close>

definition unloaded :: "FsNode \<Rightarrow> bool" where
  "unloaded n \<longleftrightarrow> ntype n \<noteq> NFile \<and> (nload n = None \<or> nload n = Some LIdle)"

definition folders_loaded :: "fs_state \<Rightarrow> bool" where
  "folders_loaded st \<longleftrightarrow>
     (\<forall>p\<in>set (openFolders st). \<forall>n. findNodeByPath (tree st) p = Some n \<longrightarrow> \<not> unloaded n)"

text \<open>During the pass every node is as committed or has begun to load.\<close>

definition same_or_loading :: "FsNode list \<Rightarrow> FsNode list \<Rightarrow> bool" where
  "same_or_loading tr tr' \<longleftrightarrow>
     (\<forall>q. case findNodeByPath tr q of None \<Rightarrow> findNodeByPath tr' q = None
        | Some n \<Rightarrow> (\<exists>m. findNodeByPath tr' q = Some m \<and> ntype m = ntype n \<and>
            (nload m = nload n \<or> nload m = Some LLoading)))"

lemma same_or_loading_refl: "same_or_loading tr tr"
  by (auto simp: same_or_loading_def split: option.splits)

lemma same_or_loading_update:
  assumes "same_or_loading tr tr'"
  shows "same_or_loading tr (updateNodeByPath tr' p (set_load LLoading e))"
  unfolding same_or_loading_def
proof
  fix q
  let ?tr = "updateNodeByPath tr' p (set_load LLoading e)"
  note s = assms [unfolded same_or_loading_def, rule_format, of q]
  show "case findNodeByPath tr q of None \<Rightarrow> findNodeByPath ?tr q = None
        | Some n \<Rightarrow> (\<exists>m. findNodeByPath ?tr q = Some m \<and> ntype m = ntype n \<and>
            (nload m = nload n \<or> nload m = Some LLoading))"
  proof (cases "q = p")
    case True
    then show ?thesis using s by (auto simp: find_update_same split: option.splits)
  next
    case False
    have "map_option (\<lambda>n. (nload n, ntype n)) (findNodeByPath ?tr q)
        = map_option (\<lambda>n. (nload n, ntype n)) (findNodeByPath tr' q)"
      by (rule nload_update_other) (simp_all add: False)
    then show ?thesis using s by (auto split: option.splits)
  qed
qed

lemma open_loop_loads:
  assumes "same_or_loading tr (tree (fst r))"
  shows "same_or_loading tr (tree (fst (open_loop tr ps r))) \<and>
    (\<forall>q n. (q \<in> set ps \<or> (\<forall>m. findNodeByPath (tree (fst r)) q = Some m \<longrightarrow> \<not> unloaded m)) \<longrightarrow>
       findNodeByPath (tree (fst (open_loop tr ps r))) q = Some n \<longrightarrow> \<not> unloaded n)"
  using assms
proof (induction ps arbitrary: r)
  case Nil
  then show ?case by simp
next
  case (Cons p ps)
  define r2 where "r2 = (case findNodeByPath tr p of None \<Rightarrow> r
    | Some node \<Rightarrow> if ntype node = NFile then r
        else if nload node = None \<or> nload node = Some LIdle then
          (let r' = loadFolderChildren node False (fst r) in (fst r', snd r @ snd r'))
        else r)"
  have loop: "open_loop tr (p # ps) r = open_loop tr ps r2" by (simp add: r2_def)
  have step: "same_or_loading tr (tree (fst r2)) \<and> (\<forall>q m.
      (q = p \<or> (\<forall>m. findNodeByPath (tree (fst r)) q = Some m \<longrightarrow> \<not> unloaded m)) \<longrightarrow>
      findNodeByPath (tree (fst r2)) q = Some m \<longrightarrow> \<not> unloaded m)"
  proof (cases "\<exists>node. findNodeByPath tr p = Some node \<and> unloaded node")
    case True
    then obtain node where node: "findNodeByPath tr p = Some node" "unloaded node" by blast
    then have tr: "tree (fst r2) = updateNodeByPath (tree (fst r)) p (set_load LLoading None)"
      using findNode_path [OF node(1)]
      by (auto simp: r2_def unloaded_def loadFolderChildren_def Let_def)
    have "\<not> unloaded m"
      if q: "q = p \<or> (\<forall>m. findNodeByPath (tree (fst r)) q = Some m \<longrightarrow> \<not> unloaded m)"
        and m: "findNodeByPath (tree (fst r2)) q = Some m" for q m
    proof (cases "q = p")
      case True
      then show ?thesis using m unfolding tr by (auto simp: find_update_same unloaded_def)
    next
      case False
      then have "map_option (\<lambda>n. (nload n, ntype n)) (findNodeByPath (tree (fst r2)) q)
          = map_option (\<lambda>n. (nload n, ntype n)) (findNodeByPath (tree (fst r)) q)"
        unfolding tr by (intro nload_update_other) simp_all
      then show ?thesis using q m False
        by (cases "findNodeByPath (tree (fst r)) q") (auto simp: unloaded_def)
    qed
    moreover have "same_or_loading tr (tree (fst r2))"
      unfolding tr by (rule same_or_loading_update [OF Cons.prems])
    ultimately show ?thesis by blast
  next
    case False
    then have r: "r2 = r" by (auto simp: r2_def unloaded_def split: option.splits)
    have "\<not> unloaded m" if "findNodeByPath (tree (fst r)) p = Some m" for m
      using Cons.prems [unfolded same_or_loading_def, rule_format, of p] that False
      by (auto simp: unloaded_def split: option.splits)
    then show ?thesis unfolding r using Cons.prems by blast
  qed
  show ?case unfolding loop using Cons.IH [of r2] step by (metis set_ConsD)
qed

lemma open_effect_loads: "folders_loaded (fst (open_effect st))"
  using open_loop_loads [of "tree st" "(st, [])" "openFolders st"]
  by (auto simp: folders_loaded_def open_effect_def same_or_loading_refl open_loop_frame)

lemma settle_loads: "folders_loaded (fst (settle r))"
  using open_effect_loads [of "fst r"] by (simp add: settle_def Let_def folders_loaded_def)

lemma reachable_folders_loaded: "fs_reachable cmp s \<Longrightarrow> folders_loaded (page s)"
  by (erule fs_reachable_inv) (simp_all add: settle_loads)

subsection \<open>Calls in flight and busy marks\<close>

fun is_rename :: "fs_pending \<Rightarrow> bool" where
  "is_rename (PRename n nm tr) = True" | "is_rename p = False"

fun is_create_folder :: "fs_pending \<Rightarrow> bool" where
  "is_create_folder (PCreateFolder d nm tr) = True" | "is_create_folder p = False"

fun is_create_file :: "fs_pending \<Rightarrow> bool" where
  "is_create_file (PCreateFile d nm x tr) = True" | "is_create_file p = False"

fun is_paste :: "fs_pending \<Rightarrow> bool" where
  "is_paste (PPaste m n d tr) = True" | "is_paste p = False"

fun is_archive :: "fs_pending \<Rightarrow> bool" where
  "is_archive (PZip n f tr) = True" | "is_archive (PUnzip n tr) = True" | "is_archive p = False"

fun is_drives :: "fs_pending \<Rightarrow> bool" where
  "is_drives PDrives = True" | "is_drives p = False"

text \<open>The number of calls of a kind.\<close>

definition calls :: "(fs_pending \<Rightarrow> bool) \<Rightarrow> fs_pending list \<Rightarrow> nat" where
  "calls f ps = length (filter f ps)"

lemma calls_simps [simp]:
  "calls f [] = 0" "calls f (p # ps) = (if f p then Suc (calls f ps) else calls f ps)"
  "calls f (ps @ qs) = calls f ps + calls f qs"
  by (simp_all add: calls_def)

text \<open>The loading pass only asks for folders; a refresh asks for a folder or for the drives.\<close>

lemma loadFolderChildren_calls:
  "(\<And>n. \<not> f (PDirectory n)) \<Longrightarrow> calls f (issued (snd (loadFolderChildren n b st))) = 0"
  by (simp add: loadFolderChildren_def)

lemma open_loop_calls:
  "(\<And>n. \<not> f (PDirectory n)) \<Longrightarrow> calls f (issued (snd (open_loop tr ps r))) = calls f (issued (snd r))"
  by (induction ps arbitrary: r)
    (simp_all add: Let_def loadFolderChildren_calls split: option.splits)

lemma settle_calls:
  "(\<And>n. \<not> f (PDirectory n)) \<Longrightarrow> calls f (issued (snd (settle r))) = calls f (issued (snd r))"
  by (simp add: settle_def Let_def open_effect_def open_loop_calls)

lemma refreshDirectoryNode_calls:
  "(\<And>n. \<not> f (PDirectory n)) \<Longrightarrow> \<not> f PDrives \<Longrightarrow>
     calls f (issued (snd (refreshDirectoryNode tr p st))) = 0"
  by (simp add: refreshDirectoryNode_def Let_def loadFolderChildren_calls refreshDrives_def
      split: option.splits)

text \<open>
  A mark that is set exactly while one call of its kind is in flight. The two hypotheses say
  that each handler raises the mark with the call it issues, and each answer takes it down
  with the call it ends.
\<close>

lemma mark_exact:
  assumes reach: "fs_reachable cmp s"
    and frame: "\<And>r. mark (fst (settle r)) = mark (fst r)"
    and dir: "\<And>n. \<not> f (PDirectory n)"
    and first: "\<not> mark (fst (refreshDrives init_fs))" "\<not> f PDrives"
    and user: "\<And>ask ev st. of_bool (mark (fst (fs_handle ask ev st)))
        = of_bool (mark st) + calls f (issued (snd (fs_handle ask ev st)))"
    and answer: "\<And>ask p a st. mark (fst (fs_resume cmp ask p a st)) = (if f p then False else mark st)"
      "\<And>ask p a st. calls f (issued (snd (fs_resume cmp ask p a st))) = 0"
  shows "calls f (inflight s) = of_bool (mark (page s))"
  using reach
proof (rule fs_reachable_inv)
  show "calls f (inflight (commit [] (refreshDrives init_fs))) =
      of_bool (mark (page (commit [] (refreshDrives init_fs))))"
    using first by (simp add: settle_calls dir frame refreshDrives_def)
next
  fix s ask ev
  assume "calls f (inflight s) = of_bool (mark (page s))"
  then show "calls f (inflight (commit (inflight s) (fs_handle ask ev (page s)))) =
      of_bool (mark (page (commit (inflight s) (fs_handle ask ev (page s)))))"
    using user [of ask ev "page s"] by (simp add: settle_calls dir frame)
next
  fix s ps p qs ask a
  assume ih: "calls f (inflight s) = of_bool (mark (page s))" and s: "inflight s = ps @ p # qs"
  show "calls f (inflight (commit (ps @ qs) (fs_resume cmp ask p a (page s)))) =
      of_bool (mark (page (commit (ps @ qs) (fs_resume cmp ask p a (page s)))))"
    using ih answer [of ask p a "page s"] s
    by (cases "mark (page s)"; cases "f p") (auto simp: settle_calls dir frame)
qed

text \<open>A mark that is never stuck: while it is set, a call of its kind is in flight.\<close>

lemma mark_not_stuck:
  assumes reach: "fs_reachable cmp s"
    and frame: "\<And>r. mark (fst (settle r)) = mark (fst r)"
    and dir: "\<And>n. \<not> f (PDirectory n)"
    and first: "mark (fst (refreshDrives init_fs)) \<Longrightarrow> f PDrives"
    and user: "\<And>ask ev st. mark (fst (fs_handle ask ev st)) \<Longrightarrow> \<not> mark st \<Longrightarrow>
        0 < calls f (issued (snd (fs_handle ask ev st)))"
    and answer: "\<And>ask p a st. mark (fst (fs_resume cmp ask p a st)) \<Longrightarrow> f p \<or> \<not> mark st \<Longrightarrow>
        0 < calls f (issued (snd (fs_resume cmp ask p a st)))"
  shows "mark (page s) \<longrightarrow> 0 < calls f (inflight s)"
  using reach
proof (rule fs_reachable_inv)
  show "mark (page (commit [] (refreshDrives init_fs))) \<longrightarrow>
      0 < calls f (inflight (commit [] (refreshDrives init_fs)))"
    using first by (auto simp add: settle_calls dir frame refreshDrives_def)
next
  fix s ask ev
  assume "mark (page s) \<longrightarrow> 0 < calls f (inflight s)"
  then show "mark (page (commit (inflight s) (fs_handle ask ev (page s)))) \<longrightarrow>
      0 < calls f (inflight (commit (inflight s) (fs_handle ask ev (page s))))"
    using user [of ask ev "page s"] by (auto simp add: settle_calls dir frame)
next
  fix s ps p qs ask a
  assume ih: "mark (page s) \<longrightarrow> 0 < calls f (inflight s)" and s: "inflight s = ps @ p # qs"
  show "mark (page (commit (ps @ qs) (fs_resume cmp ask p a (page s)))) \<longrightarrow>
      0 < calls f (inflight (commit (ps @ qs) (fs_resume cmp ask p a (page s))))"
    using ih answer [of ask p a "page s"] s
    by (cases "mark (page s)"; cases "f p") (auto simp: settle_calls dir frame)
qed

subsection \<open>The page's marks\<close>

lemma busy_frame [simp]:
  "pasting (fst (loadFolderChildren n b st)) = pasting st"
  "busyOp (fst (loadFolderChildren n b st)) = busyOp st"
  "loadingDrives (fst (loadFolderChildren n b st)) = loadingDrives st"
  "pasting (fst (refreshDrives st)) = pasting st" "busyOp (fst (refreshDrives st)) = busyOp st"
  "pasting (active_effect st) = pasting st" "busyOp (active_effect st) = busyOp st"
  "loadingDrives (active_effect st) = loadingDrives st"
  by (simp_all add: loadFolderChildren_def refreshDrives_def active_effect_def split: list.splits)

lemma busy_frame_refresh [simp]:
  "pasting (fst (refreshDirectoryNode tr p st)) = pasting st"
  "busyOp (fst (refreshDirectoryNode tr p st)) = busyOp st"
  by (simp_all add: refreshDirectoryNode_def Let_def split: option.splits)

lemma busy_frame_loop:
  "pasting (fst (open_loop tr ps r)) = pasting (fst r)"
  "busyOp (fst (open_loop tr ps r)) = busyOp (fst r)"
  "loadingDrives (fst (open_loop tr ps r)) = loadingDrives (fst r)"
  by (induction ps arbitrary: r) (simp_all add: Let_def split: option.splits)

lemma busy_frame_settle [simp]:
  "pasting (fst (settle r)) = pasting (fst r)" "busyOp (fst (settle r)) = busyOp (fst r)"
  "loadingDrives (fst (settle r)) = loadingDrives (fst r)"
  by (simp_all add: settle_def Let_def open_effect_def busy_frame_loop)

lemma show_drives_frame [simp]:
  "renaming (show_drives ds st) = renaming st"
  "creatingFolder (show_drives ds st) = creatingFolder st"
  "creatingFile (show_drives ds st) = creatingFile st"
  "pasting (show_drives ds st) = pasting st" "busyOp (show_drives ds st) = busyOp st"
  "\<not> loadingDrives (show_drives ds st)"
  by (simp_all add: show_drives_def Let_def)

lemmas machine_defs = tab_ops handler_defs done_defs refreshDrives_done_def
  loadFolderChildren_done_def refreshDrives_def

lemma handle_renaming:
  "of_bool (renaming (fst (fs_handle ask ev st)))
     = of_bool (renaming st) + calls is_rename (issued (snd (fs_handle ask ev st)))"
  by (cases ev) (simp_all add: machine_defs Let_def loadFolderChildren_calls
      refreshDirectoryNode_calls split: option.splits)

lemma handle_creatingFolder:
  "of_bool (creatingFolder (fst (fs_handle ask ev st)))
     = of_bool (creatingFolder st) + calls is_create_folder (issued (snd (fs_handle ask ev st)))"
  by (cases ev) (simp_all add: machine_defs Let_def loadFolderChildren_calls
      refreshDirectoryNode_calls split: option.splits)

lemma handle_creatingFile:
  "of_bool (creatingFile (fst (fs_handle ask ev st)))
     = of_bool (creatingFile st) + calls is_create_file (issued (snd (fs_handle ask ev st)))"
  by (cases ev) (simp_all add: machine_defs Let_def loadFolderChildren_calls
      refreshDirectoryNode_calls split: option.splits)

lemma resume_renaming:
  "renaming (fst (fs_resume cmp ask p a st)) = (if is_rename p then False else renaming st)"
  "calls is_rename (issued (snd (fs_resume cmp ask p a st))) = 0"
  by (cases p; simp add: machine_defs Let_def refreshDirectoryNode_calls split: fs_splits)+

lemma resume_creatingFolder:
  "creatingFolder (fst (fs_resume cmp ask p a st)) = (if is_create_folder p then False else creatingFolder st)"
  "calls is_create_folder (issued (snd (fs_resume cmp ask p a st))) = 0"
  by (cases p; simp add: machine_defs Let_def refreshDirectoryNode_calls split: fs_splits)+

lemma resume_creatingFile:
  "creatingFile (fst (fs_resume cmp ask p a st)) = (if is_create_file p then False else creatingFile st)"
  "calls is_create_file (issued (snd (fs_resume cmp ask p a st))) = 0"
  by (cases p; simp add: machine_defs Let_def refreshDirectoryNode_calls split: fs_splits)+

lemma reachable_marks_exact:
  assumes "fs_reachable cmp s"
  shows "calls is_rename (inflight s) = of_bool (renaming (page s))"
    and "calls is_create_folder (inflight s) = of_bool (creatingFolder (page s))"
    and "calls is_create_file (inflight s) = of_bool (creatingFile (page s))"
proof -
  show "calls is_rename (inflight s) = of_bool (renaming (page s))"
    by (rule mark_exact [OF assms, where mark = renaming])
      (simp_all only: handle_renaming resume_renaming, simp_all add: init_fs_def)
  show "calls is_create_folder (inflight s) = of_bool (creatingFolder (page s))"
    by (rule mark_exact [OF assms, where mark = creatingFolder])
      (simp_all only: handle_creatingFolder resume_creatingFolder, simp_all add: init_fs_def)
  show "calls is_create_file (inflight s) = of_bool (creatingFile (page s))"
    by (rule mark_exact [OF assms, where mark = creatingFile])
      (simp_all only: handle_creatingFile resume_creatingFile, simp_all add: init_fs_def)
qed

lemma handle_busy:
  "pasting (fst (fs_handle ask ev st)) = pasting st"
  "busyOp (fst (fs_handle ask ev st)) \<noteq> None \<Longrightarrow> busyOp st = None \<Longrightarrow>
     0 < calls is_archive (issued (snd (fs_handle ask ev st)))"
  by (cases ev; simp add: machine_defs Let_def split: option.splits if_splits)+

lemma resume_pasting:
  "pasting (fst (fs_resume cmp ask p a st)) \<Longrightarrow> is_paste p \<or> \<not> pasting st \<Longrightarrow>
     0 < calls is_paste (issued (snd (fs_resume cmp ask p a st)))"
  by (cases p) (auto simp: machine_defs Let_def split: fs_splits if_splits)

lemma resume_busyOp:
  "busyOp (fst (fs_resume cmp ask p a st)) \<noteq> None \<Longrightarrow> is_archive p \<or> busyOp st = None \<Longrightarrow>
     0 < calls is_archive (issued (snd (fs_resume cmp ask p a st)))"
  by (cases p) (auto simp: machine_defs Let_def split: fs_splits if_splits)

lemma reachable_busy:
  assumes "fs_reachable cmp s"
  shows "pasting (page s) \<longrightarrow> 0 < calls is_paste (inflight s)"
    and "busyOp (page s) \<noteq> None \<longrightarrow> 0 < calls is_archive (inflight s)"
proof -
  show "pasting (page s) \<longrightarrow> 0 < calls is_paste (inflight s)"
    by (rule mark_not_stuck [OF assms, where mark = pasting])
      (auto simp: handle_busy init_fs_def intro: resume_pasting)
  show "busyOp (page s) \<noteq> None \<longrightarrow> 0 < calls is_archive (inflight s)"
    by (rule mark_not_stuck [OF assms, where mark = "\<lambda>st. busyOp st \<noteq> None"])
      (auto simp: init_fs_def intro: handle_busy resume_busyOp)
qed

end
