(* ===== verification/FsSafety.thy ===== *)
theory FsSafety
  imports FsInvariants
begin

text \<open>
  Safety of the file operations: which requests the page can ever have in flight, what needs
  the user's consent, what a finished delete, rename or move leaves behind in the tabs, the
  expanded folders and the selection, and that a folder shown as loading is being loaded.
\<close>

subsection \<open>Folders that are loading\<close>

text \<open>Some topmost node with path \<open>q\<close> is shown as loading.\<close>

fun spinning :: "string \<Rightarrow> FsNode list \<Rightarrow> bool" where
  "spinning q [] = False"
| "spinning q (FsNode t nm p d e s l er ch # ns) =
     ((if p = q then l = Some LLoading
       else (case ch of None \<Rightarrow> False | Some cs \<Rightarrow> spinning q cs)) \<or> spinning q ns)"

lemma spinning_Cons:
  "spinning q (n # ns) =
     ((if npath n = q then nload n = Some LLoading
       else (case nchildren n of None \<Rightarrow> False | Some cs \<Rightarrow> spinning q cs)) \<or> spinning q ns)"
  by (cases n) simp

declare spinning.simps(2) [simp del]

lemma find_loading_spinning:
  "findNodeByPath ns q = Some n \<Longrightarrow> nload n = Some LLoading \<Longrightarrow> spinning q ns"
  by (induction ns rule: forest_induct)
    (auto simp: find_Cons spinning_Cons split: if_splits option.splits)

lemma spinning_update_load:
  "spinning q (updateNodeByPath ns p (set_load LLoading e)) \<Longrightarrow> q = p \<or> spinning q ns"
  by (induction ns rule: forest_induct)
    (auto simp: update_Cons spinning_Cons split: if_splits option.splits)

lemma spinning_update_end:
  assumes "l \<noteq> LLoading" and "spinning q (updateNodeByPath ns p (set_load l e))"
  shows "q \<noteq> p \<and> spinning q ns"
  using assms
  by (induction ns rule: forest_induct)
    (auto simp: update_Cons spinning_Cons split: if_splits option.splits)

lemma spinning_update_children:
  assumes "\<And>q. \<not> spinning q cs"
    and "spinning q (updateNodeByPath ns p (\<lambda>n. set_load LLoaded None (set_children (Some cs) n)))"
  shows "q \<noteq> p \<and> spinning q ns"
  using assms(2)
  by (induction ns rule: forest_induct)
    (auto simp: update_Cons spinning_Cons assms(1) split: if_splits option.splits)

lemma spinning_none:
  "(\<And>n. n \<in> set ns \<Longrightarrow> nload n \<noteq> Some LLoading \<and> nchildren n = None) \<Longrightarrow> \<not> spinning q ns"
  by (induction ns) (auto simp: spinning_Cons split: if_splits)

lemma spinning_toChildren: "\<not> spinning q (toChildren cmp l)"
  by (rule spinning_none) (auto simp: set_toChildren dir_node_def file_node_def)

lemma spinning_drives: "\<not> spinning q (map drive_node ds)"
  by (rule spinning_none) (auto simp: drive_node_def)

definition spinners_ok :: "FsNode list \<Rightarrow> fs_pending list \<Rightarrow> bool" where
  "spinners_ok tr ps \<longleftrightarrow> (\<forall>q. spinning q tr \<longrightarrow> (\<exists>n. PDirectory n \<in> set ps \<and> npath n = q))"

lemma spinners_ok_mono:
  "spinners_ok tr ps \<Longrightarrow> set ps \<subseteq> set qs \<Longrightarrow> spinners_ok tr qs"
  by (auto simp: spinners_ok_def)

lemma spinners_ok_load:
  "spinners_ok (tree st) ps \<Longrightarrow>
   spinners_ok (tree (fst (loadFolderChildren n b st))) (ps @ issued (snd (loadFolderChildren n b st)))"
  by (auto simp: spinners_ok_def loadFolderChildren_def dest: spinning_update_load)

lemma spinners_ok_refresh:
  assumes "spinners_ok (tree st) ps"
  shows "spinners_ok (tree (fst (refreshDirectoryNode tr p st)))
    (ps @ issued (snd (refreshDirectoryNode tr p st)))"
proof -
  have drives: "spinners_ok (tree (fst (refreshDrives st'))) (ps @ issued (snd (refreshDrives st')))"
    if "tree st' = tree st" for st'
    using assms that by (auto simp: refreshDrives_def spinners_ok_def)
  show ?thesis
    using assms drives spinners_ok_load [of "st\<lparr>openFolders := add_open p (openFolders st)\<rparr>" ps]
    by (simp add: refreshDirectoryNode_def Let_def split: option.splits)
qed

lemma spinners_ok_loop:
  "spinners_ok (tree (fst r)) (ps @ issued (snd r)) \<Longrightarrow>
   spinners_ok (tree (fst (open_loop tr fs r))) (ps @ issued (snd (open_loop tr fs r)))"
proof (induction fs arbitrary: r)
  case (Cons p fs)
  then show ?case
    using spinners_ok_load [of "fst r" "ps @ issued (snd r)"]
    by (simp add: Let_def split: option.splits)
qed simp

lemma spinners_ok_settle:
  assumes "spinners_ok (tree (fst r)) (ps @ issued (snd r))"
  shows "spinners_ok (tree (fst (settle r))) (ps @ issued (snd (settle r)))"
  using spinners_ok_loop [of "(fst r, [])" "ps @ issued (snd r)" "tree (fst r)" "openFolders (fst r)"] assms
  by (simp add: settle_def Let_def open_effect_def)

lemma tree_same [simp]:
  "tree (fst (openFile n st)) = tree st" "tree (fst (closeTab ask i st)) = tree st"
  "tree (fst (setTabMode i m st)) = tree st" "tree (fst (discardTabChanges i st)) = tree st"
  "tree (fst (updateTabDraft i d st)) = tree st" "tree (fst (saveTab i st)) = tree st"
  "tree (fst (saveTab_done i s st)) = tree st" "tree (fst (openFile_done i s st)) = tree st"
  "tree (fst (refreshDrives st)) = tree st"
  by (simp_all add: tab_ops refreshDrives_def Let_def split: option.splits sum.splits)

lemma handle_spinners:
  assumes ok: "spinners_ok (tree st) ps"
  shows "spinners_ok (tree (fst (fs_handle ask ev st))) (ps @ issued (snd (fs_handle ask ev st)))"
proof -
  have same: "spinners_ok (tree (fst r)) (ps @ issued (snd r))" if "tree (fst r) = tree st" for r
    using ok that by (auto intro: spinners_ok_mono)
  show ?thesis
  proof (cases ev)
    case (EvRetryFolder n)
    then show ?thesis using spinners_ok_load [OF ok] by simp
  next
    case (EvRefreshNode n)
    then show ?thesis using spinners_ok_refresh [OF ok] by simp
  next
    case (EvUploaded d)
    then show ?thesis using spinners_ok_refresh [OF ok] by simp
  qed (rule same; simp add: handler_defs Let_def split: option.splits)+
qed

lemma spinners_ok_drop:
  "spinners_ok tr (ps @ p # qs) \<Longrightarrow> (\<And>n. p \<noteq> PDirectory n) \<Longrightarrow> spinners_ok tr (ps @ qs)"
  by (auto simp: spinners_ok_def)

lemma loaded_spinners:
  assumes ok: "spinners_ok (tree st) (ps @ PDirectory n # qs)"
  shows "spinners_ok (tree (fst (loadFolderChildren_done cmp n s st))) (ps @ qs)"
proof -
  have away: "q \<noteq> npath n \<and> spinning q (tree st)"
    if "spinning q (tree (fst (loadFolderChildren_done cmp n s st)))" for q
    using that spinning_update_end [of LError q "tree st" "npath n"]
      spinning_update_children [of "toChildren cmp l" q "tree st" "npath n" for l]
    by (auto simp: loadFolderChildren_done_def spinning_toChildren split: sum.splits)
  show ?thesis unfolding spinners_ok_def
  proof (intro allI impI)
    fix q assume "spinning q (tree (fst (loadFolderChildren_done cmp n s st)))"
    with away have q: "q \<noteq> npath n" "spinning q (tree st)" by blast+
    then obtain m where "PDirectory m \<in> set (ps @ PDirectory n # qs)" "npath m = q"
      using ok unfolding spinners_ok_def by blast
    then show "\<exists>m. PDirectory m \<in> set (ps @ qs) \<and> npath m = q" using q(1) by auto
  qed
qed

lemma spinners_ok_relocated:
  "spinners_ok (tree st) ps \<Longrightarrow> tree st' = tree st \<Longrightarrow>
   spinners_ok (tree (fst (refreshDirectoryNode tr p st'))) (ps @ issued (snd (refreshDirectoryNode tr p st')))"
  using spinners_ok_refresh [of st' ps tr p] by simp

lemma refreshDrives_done_spinners:
  "spinners_ok (tree (fst (refreshDrives_done s st))) ps"
  by (auto simp: refreshDrives_done_def show_drives_def Let_def spinners_ok_def spinning_drives
      split: settled.splits option.splits)

lemma resume_spinners:
  assumes ok: "spinners_ok (tree st) (ps @ p # qs)"
  shows "spinners_ok (tree (fst (fs_resume cmp ask p a st))) ((ps @ qs) @ issued (snd (fs_resume cmp ask p a st)))"
proof (cases p)
  case PDrives
  then show ?thesis by (simp add: refreshDrives_done_spinners)
next
  case (PDirectory n)
  then have "spinners_ok (tree (fst (loadFolderChildren_done cmp n a st))) (ps @ qs)"
    using loaded_spinners [of st ps n qs cmp a] ok by simp
  then show ?thesis using PDirectory by (auto intro: spinners_ok_mono)
next
  case (PPaste m n d tr)
  have ok': "spinners_ok (tree st) (ps @ qs)" by (rule spinners_ok_drop [OF ok]) (simp add: PPaste)
  define r1 where "r1 = (if m = Cut then
      (let r = refreshDirectoryNode tr (dirname (npath n)) (relocate_all (npath n) (targetPath_of d n)
               (st\<lparr>tabs := map (move_tab (npath n) (targetPath_of d n)) (tabs st)\<rparr>))
       in ((fst r)\<lparr>clipboard := None\<rparr>, snd r)) else (st, []))"
  have "spinners_ok (tree (fst r1)) ((ps @ qs) @ issued (snd r1))"
    using spinners_ok_relocated [OF ok'] ok' by (auto simp: r1_def Let_def)
  then have "spinners_ok (tree (fst (refreshDirectoryNode tr (dpath d) (fst r1))))
      (((ps @ qs) @ issued (snd r1)) @ issued (snd (refreshDirectoryNode tr (dpath d) (fst r1))))"
    by (rule spinners_ok_refresh)
  then show ?thesis
    using ok' PPaste by (cases m) (auto simp: handlePaste_done_def Let_def r1_def split: sum.splits)
qed (insert spinners_ok_drop [OF ok] spinners_ok_relocated [OF spinners_ok_drop [OF ok]];
     auto simp: done_defs Let_def split: fs_splits if_splits intro: spinners_ok_mono)+

lemma reachable_spinners: "fs_reachable cmp s \<Longrightarrow> spinners_ok (tree (page s)) (inflight s)"
proof (erule fs_reachable_inv)
  show "spinners_ok (tree (page (commit [] (refreshDrives init_fs)))) (inflight (commit [] (refreshDrives init_fs)))"
    using spinners_ok_settle [of "refreshDrives init_fs" "[]"]
    by (simp add: refreshDrives_def init_fs_def spinners_ok_def)
next
  fix s ask ev assume "spinners_ok (tree (page s)) (inflight s)"
  then show "spinners_ok (tree (page (commit (inflight s) (fs_handle ask ev (page s)))))
      (inflight (commit (inflight s) (fs_handle ask ev (page s))))"
    using spinners_ok_settle [OF handle_spinners] by simp
next
  fix s ps p qs ask a assume "spinners_ok (tree (page s)) (inflight s)" "inflight s = ps @ p # qs"
  then show "spinners_ok (tree (page (commit (ps @ qs) (fs_resume cmp ask p a (page s)))))
      (inflight (commit (ps @ qs) (fs_resume cmp ask p a (page s))))"
    using spinners_ok_settle [OF resume_spinners] by simp
qed

subsection \<open>Requests that can be in flight\<close>

definition paste_ok :: "FsNode \<Rightarrow> Dir \<Rightarrow> bool" where
  "paste_ok source d \<longleftrightarrow> ndrive source = ddrive d \<and> targetPath_of d source \<noteq> npath source \<and>
     (ntype source = NDirectory \<longrightarrow> \<not> isPathEqualOrUnder (dpath d) (npath source))"

definition trimmed_name :: "string \<Rightarrow> bool" where
  "trimmed_name s \<longleftrightarrow> s \<noteq> [] \<and> js_trim s = s"

fun safe_call :: "fs_pending \<Rightarrow> bool" where
  "safe_call PDrives = True"
| "safe_call (PDirectory n) = (ntype n \<noteq> NFile)"
| "safe_call (PContent i p d) = (i = p)"
| "safe_call (PSave i p d s) = (i = p \<and> blob_size s \<le> MAX_OPEN_BYTES)"
| "safe_call (PRename n nm tr) = (ntype n \<noteq> NDrive \<and> trimmed_name nm)"
| "safe_call (PDelete n tr) = (ntype n \<noteq> NDrive)"
| "safe_call (PZipList n f tr) = ends_with_ci f ''.zip''"
| "safe_call (PZip n f tr) = ends_with_ci f ''.zip''"
| "safe_call (PUnzip n tr) = (ntype n = NFile)"
| "safe_call (PPasteList m n d tr) = paste_ok n d"
| "safe_call (PPasteDelete m n d tr) = (paste_ok n d \<and> m = Cut)"
| "safe_call (PPaste m n d tr) = paste_ok n d"
| "safe_call (PCreateFolder d nm tr) = trimmed_name nm"
| "safe_call (PCreateFile d nm x tr) = trimmed_name nm"
| "safe_call (PDownload n) = (ntype n = NFile)"

lemma trimmed_name_trim: "js_trim s \<noteq> [] \<Longrightarrow> trimmed_name (js_trim s)"
  by (simp add: trimmed_name_def)

lemma ends_with_ci_zip: "ends_with_ci (s @ ''.zip'') ''.zip''"
  by (auto simp: ends_with_ci_def ends_with_iff)

lemma safe_load: "list_all safe_call (issued (snd (loadFolderChildren n b st)))"
  by (simp add: loadFolderChildren_def)

lemma safe_refresh: "list_all safe_call (issued (snd (refreshDirectoryNode tr p st)))"
  by (simp add: refreshDirectoryNode_def Let_def safe_load refreshDrives_def split: option.splits)

lemma safe_loop:
  "list_all safe_call (issued (snd (open_loop tr ps r))) = list_all safe_call (issued (snd r))"
  by (induction ps arbitrary: r) (simp_all add: Let_def safe_load split: option.splits)

lemma safe_settle:
  "list_all safe_call (issued (snd (settle r))) = list_all safe_call (issued (snd r))"
  by (simp add: settle_def Let_def open_effect_def safe_loop)

lemma handle_safe:
  assumes "tabs_ok st"
  shows "list_all safe_call (issued (snd (fs_handle ask ev st)))"
proof (cases ev)
  case (EvSave i)
  then show ?thesis
    using assms
    by (auto simp: saveTab_def tabs_ok_def tab_ok_def split: option.splits dest!: find_tab_Some_memD)
qed (simp_all add: machine_defs Let_def safe_load safe_refresh trimmed_name_trim ends_with_ci_zip
      paste_ok_def split: option.splits)

lemma resume_safe:
  "safe_call p \<Longrightarrow> list_all safe_call (issued (snd (fs_resume cmp ask p a st)))"
  by (cases p) (auto simp: machine_defs Let_def safe_load safe_refresh split: fs_splits)

lemma reachable_calls_safe: "fs_reachable cmp s \<Longrightarrow> list_all safe_call (inflight s) \<and> tabs_ok (page s)"
  by (erule fs_reachable_inv)
    (simp_all add: safe_settle handle_safe resume_safe fs_handle_tabs_ok fs_resume_tabs_ok,
      simp add: refreshDrives_def init_fs_def tabs_ok_def)

subsection \<open>Consent\<close>

text \<open>Requests that destroy something the user has on the server.\<close>

fun destructive :: "fs_pending \<Rightarrow> bool" where
  "destructive (PDelete n tr) = True"
| "destructive (PPasteDelete m n d tr) = True"
| "destructive (PUnzip n tr) = True"
| "destructive p = False"

lemma destructive_refresh: "calls destructive (issued (snd (refreshDirectoryNode tr p st))) = 0"
  by (simp add: refreshDirectoryNode_calls)

lemma handle_consent:
  "\<forall>p. \<not> ask p \<Longrightarrow> calls destructive (issued (snd (fs_handle ask ev st))) = 0"
  by (cases ev) (simp_all add: machine_defs Let_def loadFolderChildren_calls destructive_refresh
      split: option.splits)

lemma resume_consent:
  "\<forall>p. \<not> ask p \<Longrightarrow> calls destructive (issued (snd (fs_resume cmp ask p a st))) = 0"
  by (cases p) (auto simp: machine_defs Let_def destructive_refresh split: fs_splits)

subsection \<open>Moved and deleted paths\<close>

lemma not_under_parent:
  assumes "parent_dir d" and "plain_name n"
  shows "\<not> isPathEqualOrUnder d (joinPath d n)"
proof
  assume "isPathEqualOrUnder d (joinPath d n)"
  then have "length (joinPath d n) \<le> length d" unfolding under_iff by (metis le_add1 length_append)
  moreover obtain u where "joinPath d n = u @ n" "length d \<le> length u"
    using joinPath_parent [OF assms(1)] by metis
  ultimately show False using assms(2) by (cases n) (auto simp: plain_name_def)
qed

lemma joinPath_Nil_iff [simp]: "parent_dir d \<Longrightarrow> joinPath d n \<noteq> []"
  using joinPath_parent by (metis append_is_Nil_conv)

text \<open>Two siblings have nothing below them in common.\<close>

lemma siblings_apart:
  assumes d: "parent_dir d" and n: "plain_name n" and m: "plain_name m" and ne: "n \<noteq> m"
    and q: "isPathEqualOrUnder q (joinPath d n)"
  shows "\<not> isPathEqualOrUnder q (joinPath d m)"
proof
  assume "isPathEqualOrUnder q (joinPath d m)"
  then obtain r' where r': "q = joinPath d m @ r'" "r' = [] \<or> is_separator (hd r')"
    unfolding under_iff by blast
  obtain r where "q = joinPath d n @ r" and r: "r = [] \<or> is_separator (hd r)"
    using q unfolding under_iff by blast
  then have eq: "n @ r = m @ r'" using r'(1) joinPath_parent [OF d] by (metis append.assoc append_same_eq same_append_eq)
  have sep: "\<forall>c\<in>set n. \<not> is_separator c" "\<forall>c\<in>set m. \<not> is_separator c"
    using n m by (auto simp: plain_name_def)
  have tw: "takeWhile (\<lambda>c. \<not> is_separator c) (x @ y) = x"
    if "\<forall>c\<in>set x. \<not> is_separator c" "y = [] \<or> is_separator (hd y)" for x y
    using that by (cases y) (auto simp: takeWhile_append)
  have "n = m" using tw [OF sep(1) r] tw [OF sep(2) r'(2)] eq by metis
  with ne show False ..
qed

lemma refresh_adds: "set (openFolders (fst (refreshDirectoryNode tr p st))) = insert p (set (openFolders st))"
  by (auto simp: add_open_def)

lemma refresh_selected [simp]: "selectedPath (fst (refreshDirectoryNode tr p st)) = selectedPath st"
  by (simp add: refreshDirectoryNode_def loadFolderChildren_def refreshDrives_def Let_def split: option.splits)

lemma delete_clean:
  assumes d: "parent_dir d" and n: "plain_name (nname node)" and p: "npath node = joinPath d (nname node)"
    and dir: "ntype node = NDirectory" and ok: "expect_success FbDelete s = Inr x"
    and st': "st' = fst (handleDelete_done node tr s st)"
  shows "\<forall>t\<in>set (tabs st'). \<not> isPathEqualOrUnder (tpath t) (npath node)"
    and "\<forall>q\<in>set (openFolders st'). \<not> isPathEqualOrUnder q (npath node)"
    and "\<not> isPathEqualOrUnder (selectedPath st') (npath node)"
    and "d \<in> set (openFolders st')"
  using dirname_joinPath_parent [OF d n] not_under_parent [OF d n] assms
  by (auto simp: handleDelete_done_def Let_def add_open_def drop_tabs_under_def)

lemma rename_tab_path:
  assumes "npath target = joinPath d (nname target)" "parent_dir d" "plain_name (nname target)"
    and "ntype target = NDirectory"
  shows "tpath (rename_tab target nm t) = replacePathPrefix (tpath t) (npath target) (joinPath d nm)"
    and "tid (rename_tab target nm t) = (if isPathEqualOrUnder (tpath t) (npath target)
       then replacePathPrefix (tpath t) (npath target) (joinPath d nm) else tid t)"
  using dirname_joinPath_parent [OF assms(2,3)] assms
  by (auto simp: rename_tab_def Let_def replace_outside)

lemma rename_clean:
  assumes d: "parent_dir d" and n: "plain_name (nname target)" and m: "plain_name nm" and ne: "nname target \<noteq> nm"
    and p: "npath target = joinPath d (nname target)" and dir: "ntype target = NDirectory"
    and ok: "expect_success FbRename s = Inr x"
    and st': "st' = fst (handleRename_done target nm tr s st)"
  shows "map tpath (tabs st') = map (\<lambda>q. replacePathPrefix q (npath target) (joinPath d nm)) (map tpath (tabs st))"
    and "\<forall>t\<in>set (tabs st'). \<not> isPathEqualOrUnder (tpath t) (npath target)"
    and "\<forall>q\<in>set (openFolders st'). \<not> isPathEqualOrUnder q (npath target)"
    and "\<not> isPathEqualOrUnder (selectedPath st') (npath target)"
    and "map draft (tabs st') = map draft (tabs st)"
proof -
  note par = dirname_joinPath_parent [OF d n]
  have tabs: "tabs st' = map (rename_tab target nm) (tabs st)"
    and folders: "set (openFolders st') = insert d
       (set (map (\<lambda>q. replacePathPrefix q (npath target) (joinPath d nm)) (openFolders st)))"
    and sel: "selectedPath st' = replacePathPrefix (selectedPath st) (npath target) (joinPath d nm)"
    using st' ok p par by (simp_all add: handleRename_done_def Let_def relocate_all_def add_open_def insert_absorb)
  have v: "npath target \<noteq> []" using p d by simp
  have apart: "\<not> isPathEqualOrUnder q (npath target)" if "isPathEqualOrUnder q (joinPath d nm)" for q
    using siblings_apart [OF d m n ne [symmetric] that] p by simp
  note away = fs_paths.relocated_away [OF v apart]
  show map1: "map tpath (tabs st') = map (\<lambda>q. replacePathPrefix q (npath target) (joinPath d nm)) (map tpath (tabs st))"
    by (simp add: tabs rename_tab_path [OF p d n dir])
  show "\<forall>t\<in>set (tabs st'). \<not> isPathEqualOrUnder (tpath t) (npath target)"
    by (simp add: tabs rename_tab_path [OF p d n dir] away)
  show "\<forall>q\<in>set (openFolders st'). \<not> isPathEqualOrUnder q (npath target)"
    using away not_under_parent [OF d n] p by (auto simp: folders)
  show "\<not> isPathEqualOrUnder (selectedPath st') (npath target)" by (simp add: sel away)
  have "draft (rename_tab target nm t) = draft t" for t by (simp add: rename_tab_def Let_def)
  then show "map draft (tabs st') = map draft (tabs st)" by (simp add: tabs)
qed

text \<open>Tab ids stay distinct through a rename, if no tab was at the new place.\<close>

lemma rename_distinct:
  assumes d: "parent_dir d" and n: "plain_name (nname target)"
    and p: "npath target = joinPath d (nname target)" and dir: "ntype target = NDirectory"
    and ok: "expect_success FbRename s = Inr x" and tabs: "tabs_ok st" "ids_distinct st"
    and free: "\<forall>t\<in>set (tabs st). \<not> isPathEqualOrUnder (tpath t) (joinPath d nm)"
  shows "ids_distinct (fst (handleRename_done target nm tr s st))"
proof -
  have ids: "map tid ts = map tpath ts" if "\<forall>t\<in>set ts. tab_ok t" for ts :: "OpenTab list"
    using that by (auto simp: tab_ok_def)
  have "tabs (fst (handleRename_done target nm tr s st)) = map (rename_tab target nm) (tabs st)"
    using ok by (simp add: handleRename_done_def Let_def)
  moreover have "map tid (map (rename_tab target nm) (tabs st)) = map tpath (map (rename_tab target nm) (tabs st))"
    using tabs(1) by (intro ids) (auto simp: tabs_ok_def)
  moreover have "distinct (map (\<lambda>q. replacePathPrefix q (npath target) (joinPath d nm)) (map tpath (tabs st)))"
    using tabs d p free ids [of "tabs st"]
    by (intro fs_paths.relocate_distinct) (auto simp: ids_distinct_def tabs_ok_def)
  moreover have "map tpath (map (rename_tab target nm) (tabs st))
      = map (\<lambda>q. replacePathPrefix q (npath target) (joinPath d nm)) (map tpath (tabs st))"
    by (simp add: rename_tab_path(1) [OF p d n dir])
  ultimately show ?thesis unfolding ids_distinct_def by metis
qed

end
