(* ===== verification/FsView.thy ===== *)
theory FsView
  imports FsSafety
begin

text \<open>
  What the file page shows, from its state: the rows of the tree (\<open>treeBody\<close>), the panel
  buttons, the tab strip and the editor, the context menu with the predicates that hide or
  disable its items, and the four dialogs; and which event each control fires. Styling is
  left out, texts fixed in the code are constructors.
\<close>

subsection \<open>The tree\<close>

datatype folder_status = ShowLoading | ShowError "err_text option" | ShowEmpty

datatype tree_row =
    FileRow FsNode icon bool bool
  | FolderRow FsNode bool bool bool "folder_status list" "tree_row list"

datatype tree_view = TreeSkeleton | TreeNoDrives | TreeRows "string list" "tree_row list"

definition isCutSource :: "fs_state \<Rightarrow> string \<Rightarrow> bool" where
  "isCutSource st path =
     (case clipboard st of None \<Rightarrow> False
      | Some c \<Rightarrow> cmode c = Cut \<and> isPathEqualOrUnder path (npath (cnode c)))"

definition folder_statuses :: "LoadState option \<Rightarrow> err_text option \<Rightarrow> FsNode list option \<Rightarrow> folder_status list" where
  "folder_statuses load err ch =
     (if load = Some LLoading then [ShowLoading] else []) @
     (if load = Some LError then [ShowError err] else []) @
     (if load = Some LLoaded \<and> (ch = None \<or> ch = Some []) then [ShowEmpty] else [])"

fun renderNodes :: "fs_state \<Rightarrow> FsNode list \<Rightarrow> tree_row list" where
  "renderNodes st [] = []"
| "renderNodes st (FsNode t nm p d e s l er ch # ns) =
     (if t = NFile then
        FileRow (FsNode t nm p d e s l er ch) (iconFromFileName nm e)
          (selectedPath st = p) (isCutSource st p)
      else
        FolderRow (FsNode t nm p d e s l er ch) (selectedPath st = p) (dropTargetPath st = p)
          (isCutSource st p) (folder_statuses l er ch)
          (case ch of None \<Rightarrow> [] | Some cs \<Rightarrow> if cs = [] then [] else renderNodes st cs))
     # renderNodes st ns"

definition treeBody :: "fs_state \<Rightarrow> tree_view" where
  "treeBody st =
     (if loadingDrives st then TreeSkeleton
      else if tree st = [] then TreeNoDrives
      else TreeRows (openFolders st) (renderNodes st (tree st)))"

text \<open>The events of a row: a click on a file, on a folder's header, on ``retry''.\<close>

fun row_clicks :: "tree_row \<Rightarrow> fs_event list" where
  "row_clicks (FileRow n icn sel cutsrc) = [EvOpenFile n]"
| "row_clicks (FolderRow n sel drp cutsrc sts rows) =
     EvSelect (npath n) # concat (map (\<lambda>s. case s of ShowError e \<Rightarrow> [EvRetryFolder n] | _ \<Rightarrow> []) sts)"

subsection \<open>Panel buttons\<close>

record panel_buttons =
  upload_disabled :: bool
  upload_hint :: "string option"
  refresh_disabled :: bool

definition panelButtons :: "fs_state \<Rightarrow> panel_buttons" where
  "panelButtons st =
     \<lparr>upload_disabled = (targetDirectory st = None),
      upload_hint = map_option dpath (targetDirectory st),
      refresh_disabled = loadingDrives st\<rparr>"

subsection \<open>Tabs\<close>

record editor_view =
  save_disabled :: bool
  save_busy :: bool
  discard_disabled :: bool
  mode_disabled :: bool
  mode_target :: TabMode
  editing :: bool
  shown_text :: string
  highlight :: string

datatype tab_body = BodyNone | BodyLoading | BodyError "err_text option" | BodyEditor editor_view

definition tabBody :: "OpenTab \<Rightarrow> tab_body" where
  "tabBody tab =
     (case tload tab of
        LLoading \<Rightarrow> BodyLoading
      | LError \<Rightarrow> BodyError (terror tab)
      | LLoaded \<Rightarrow> BodyEditor
          \<lparr>save_disabled = (\<not> isDirty tab \<or> saving tab), save_busy = saving tab,
           discard_disabled = (\<not> isDirty tab \<or> saving tab), mode_disabled = saving tab,
           mode_target = (if tmode tab = Edit then View else Edit), editing = (tmode tab = Edit),
           shown_text = draft tab, highlight = language tab\<rparr>
      | LIdle \<Rightarrow> BodyNone)"

definition tab_strip :: "fs_state \<Rightarrow> (string \<times> string \<times> bool \<times> tab_body) list" where
  "tab_strip st = map (\<lambda>t. (tid t, title t, isDirty t, tabBody t)) (tabs st)"

text \<open>A key in the editor: Ctrl or Cmd with S saves.\<close>

definition editor_key :: "string \<Rightarrow> bool \<Rightarrow> bool \<Rightarrow> string \<Rightarrow> fs_event option" where
  "editor_key i ctrl meta key =
     (if (ctrl \<or> meta) \<and> js_lower key = ''s'' then Some (EvSave i) else None)"

subsection \<open>The context menu\<close>

datatype menu_item = MOpen | MDownload | MNew | MCopy | MCut | MPaste | MZip | MUnzip
  | MRename | MDelete | MRefresh

datatype submenu_item = MNewFolder | MNewFile | MUpload

definition menu_items :: "menu_item list" where
  "menu_items = [MOpen, MDownload, MNew, MCopy, MCut, MPaste, MZip, MUnzip, MRename, MDelete, MRefresh]"

definition isZipNode :: "FsNode option \<Rightarrow> bool" where
  "isZipNode node = (case node of None \<Rightarrow> False | Some n \<Rightarrow> ntype n = NFile \<and> ends_with_ci (nname n) ''.zip'')"

definition hiddenUnlessFile :: "FsNode option \<Rightarrow> bool" where
  "hiddenUnlessFile node = (case node of None \<Rightarrow> True | Some n \<Rightarrow> ntype n \<noteq> NFile)"

definition hiddenForDriveOrBlank :: "FsNode option \<Rightarrow> bool" where
  "hiddenForDriveOrBlank node = (case node of None \<Rightarrow> True | Some n \<Rightarrow> ntype n = NDrive)"

fun menu_hidden :: "FsNode option \<Rightarrow> menu_item \<Rightarrow> bool" where
  "menu_hidden node MOpen = hiddenUnlessFile node"
| "menu_hidden node MDownload = hiddenUnlessFile node"
| "menu_hidden node MNew = False"
| "menu_hidden node MCopy = hiddenForDriveOrBlank node"
| "menu_hidden node MCut = hiddenForDriveOrBlank node"
| "menu_hidden node MPaste = False"
| "menu_hidden node MZip = hiddenForDriveOrBlank node"
| "menu_hidden node MUnzip = (\<not> isZipNode node)"
| "menu_hidden node MRename = hiddenForDriveOrBlank node"
| "menu_hidden node MDelete = hiddenForDriveOrBlank node"
| "menu_hidden node MRefresh = False"

fun menu_disabled :: "fs_state \<Rightarrow> FsNode option \<Rightarrow> menu_item \<Rightarrow> bool" where
  "menu_disabled st node MNew = (targetDirectory st = None)"
| "menu_disabled st node MPaste =
     (case clipboard st of None \<Rightarrow> True
      | Some c \<Rightarrow> pasting st \<or>
          (case resolveDirectory node st of None \<Rightarrow> True | Some d \<Rightarrow> ddrive d \<noteq> ndrive (cnode c)))"
| "menu_disabled st node MZip = (busyOp st \<noteq> None)"
| "menu_disabled st node MUnzip = (busyOp st \<noteq> None)"
| "menu_disabled st node item = False"

fun menu_click :: "menu_item \<Rightarrow> FsNode option \<Rightarrow> fs_event option" where
  "menu_click MOpen node =
     (case node of None \<Rightarrow> None | Some n \<Rightarrow> if ntype n = NFile then Some (EvOpenFile n) else None)"
| "menu_click MDownload node =
     (case node of None \<Rightarrow> None | Some n \<Rightarrow> if ntype n = NFile then Some (EvDownload n) else None)"
| "menu_click MNew node = None"
| "menu_click MCopy node = map_option EvCopy node"
| "menu_click MCut node = map_option EvCut node"
| "menu_click MPaste node = Some (EvPaste node)"
| "menu_click MZip node = map_option EvOpenZip node"
| "menu_click MUnzip node = map_option EvUnzip node"
| "menu_click MRename node = map_option EvOpenRename node"
| "menu_click MDelete node = map_option EvDelete node"
| "menu_click MRefresh node =
     (case node of None \<Rightarrow> Some EvRefreshDrives | Some n \<Rightarrow> Some (EvRefreshNode n))"

fun submenu_click :: "submenu_item \<Rightarrow> FsNode option \<Rightarrow> fs_event" where
  "submenu_click MNewFolder node = EvOpenCreateFolder"
| "submenu_click MNewFile node = EvOpenCreateFile"
| "submenu_click MUpload node = EvPickFiles node"

definition visible_items :: "FsNode option \<Rightarrow> menu_item list" where
  "visible_items node = filter (\<lambda>m. \<not> menu_hidden node m) menu_items"

definition paste_label :: "fs_state \<Rightarrow> string option" where
  "paste_label st = map_option (\<lambda>c. nname (cnode c)) (clipboard st)"

subsection \<open>Dialogs\<close>

datatype dialog = DlgCreateFolder | DlgRename | DlgZip | DlgCreateFile

record dialog_view =
  dlg_open :: bool
  dlg_path :: "string option"
  dlg_output :: "string option"
  dlg_input :: string
  dlg_text :: "string option"
  submit_disabled :: bool
  submit_busy :: bool

fun dialogView :: "fs_state \<Rightarrow> dialog \<Rightarrow> dialog_view" where
  "dialogView st DlgCreateFolder =
     \<lparr>dlg_open = createFolderOpen st, dlg_path = map_option dpath (targetDirectory st),
      dlg_output = None, dlg_input = newFolderName st, dlg_text = None,
      submit_disabled = creatingFolder st, submit_busy = creatingFolder st\<rparr>"
| "dialogView st DlgRename =
     \<lparr>dlg_open = renameOpen st, dlg_path = map_option npath (renameTarget st),
      dlg_output = None, dlg_input = renameValue st, dlg_text = None,
      submit_disabled = renaming st, submit_busy = renaming st\<rparr>"
| "dialogView st DlgZip =
     \<lparr>dlg_open = zipOpen st, dlg_path = map_option npath (zipTarget st),
      dlg_output = map_option (\<lambda>n. dirname (npath n)) (zipTarget st),
      dlg_input = zipName st, dlg_text = None,
      submit_disabled = (busyOp st \<noteq> None), submit_busy = (busyOp st = Some BusyZip)\<rparr>"
| "dialogView st DlgCreateFile =
     \<lparr>dlg_open = createFileOpen st, dlg_path = map_option dpath (targetDirectory st),
      dlg_output = None, dlg_input = newFileName st, dlg_text = Some (newFileContent st),
      submit_disabled = creatingFile st, submit_busy = creatingFile st\<rparr>"

fun dialog_submit :: "dialog \<Rightarrow> fs_event" where
  "dialog_submit DlgCreateFolder = EvCreateFolder"
| "dialog_submit DlgRename = EvRename"
| "dialog_submit DlgZip = EvZip"
| "dialog_submit DlgCreateFile = EvCreateFile"

subsection \<open>Laws\<close>

lemma render_Cons:
  "renderNodes st (n # ns) =
     (if ntype n = NFile then
        FileRow n (iconFromFileName (nname n) (nextension n)) (selectedPath st = npath n) (isCutSource st (npath n))
      else FolderRow n (selectedPath st = npath n) (dropTargetPath st = npath n) (isCutSource st (npath n))
          (folder_statuses (nload n) (nerror n) (nchildren n))
          (case nchildren n of None \<Rightarrow> [] | Some cs \<Rightarrow> renderNodes st cs))
     # renderNodes st ns"
  by (cases n) (auto split: option.splits)

declare renderNodes.simps(2) [simp del]

fun row_paths :: "tree_row list \<Rightarrow> string list" where
  "row_paths [] = []"
| "row_paths (FileRow n icn sel cutsrc # rs) = npath n # row_paths rs"
| "row_paths (FolderRow n sel drp cutsrc sts rows # rs) = npath n # row_paths rows @ row_paths rs"

text \<open>Files have no children: the page shows every node of the tree once, in order.\<close>

fun files_are_leaves :: "FsNode list \<Rightarrow> bool" where
  "files_are_leaves [] = True"
| "files_are_leaves (FsNode t nm p d e s l er ch # ns) =
     ((if t = NFile then ch = None else (case ch of None \<Rightarrow> True | Some cs \<Rightarrow> files_are_leaves cs))
      \<and> files_are_leaves ns)"

lemma leaves_Cons:
  "files_are_leaves (n # ns) =
     ((if ntype n = NFile then nchildren n = None
       else (case nchildren n of None \<Rightarrow> True | Some cs \<Rightarrow> files_are_leaves cs)) \<and> files_are_leaves ns)"
  by (cases n) simp

declare files_are_leaves.simps(2) [simp del]

lemma row_paths_render:
  "files_are_leaves ns \<Longrightarrow> row_paths (renderNodes st ns) = all_paths ns"
  by (induction ns rule: forest_induct)
    (auto simp: render_Cons leaves_Cons all_paths_Cons split: option.splits if_splits)

lemma folder_statuses_le_1: "length (folder_statuses l er ch) \<le> 1"
  by (auto simp: folder_statuses_def)

lemma visible_items_cases:
  "visible_items None = [MNew, MPaste, MRefresh]"
  "ntype n = NDrive \<Longrightarrow> visible_items (Some n) = [MNew, MPaste, MRefresh]"
  "ntype n = NDirectory \<Longrightarrow>
     visible_items (Some n) = [MNew, MCopy, MCut, MPaste, MZip, MRename, MDelete, MRefresh]"
  "ntype n = NFile \<Longrightarrow> visible_items (Some n) =
     [MOpen, MDownload, MNew, MCopy, MCut, MPaste, MZip] @
     (if ends_with_ci (nname n) ''.zip'' then [MUnzip] else []) @ [MRename, MDelete, MRefresh]"
  by (simp_all add: visible_items_def menu_items_def hiddenUnlessFile_def hiddenForDriveOrBlank_def isZipNode_def)

lemma save_button:
  assumes "tload tab = LLoaded" and "tabBody tab = BodyEditor v" and "find_tab i (tabs st) = Some tab"
    and small: "blob_size (draft tab) \<le> MAX_OPEN_BYTES"
  shows "save_disabled v \<longleftrightarrow> snd (saveTab i st) = []"
  using assms by (auto simp: tabBody_def saveTab_def)

lemma paste_enabled:
  assumes "\<not> menu_disabled st node MPaste"
  shows "\<exists>c d. clipboard st = Some c \<and> resolveDirectory node st = Some d \<and> ddrive d = ndrive (cnode c) \<and>
    Toast ToastError TxCrossDrive \<notin> set (snd (fs_handle ask (EvPaste node) st))"
  using assms by (auto simp: handlePaste_def Let_def split: option.splits)

end
