(* ===== verification/FsRun.thy ===== *)
theory FsRun
  imports FsView "HOL-Library.Code_Target_Nat"
begin

text \<open>
  Executable runs of the file page. A move is what \<open>fs_step\<close> allows, with its choice made
  explicit: a user event with the answers to its prompts, or the settling of one of the calls
  in flight. The states of the runs are the reachable states, so a property of reachable
  states can be evaluated on a concrete run. The last part is one such run.
\<close>

datatype fs_move =
    Does "fs_prompt \<Rightarrow> bool" fs_event
  | Answers nat "fs_prompt \<Rightarrow> bool" "fs_payload settled"

fun fs_move_step :: "(string \<Rightarrow> string \<Rightarrow> int) \<Rightarrow> fs_sys \<Rightarrow> fs_move \<Rightarrow> fs_sys" where
  "fs_move_step cmp s (Does ask ev) = commit (inflight s) (fs_handle ask ev (page s))"
| "fs_move_step cmp s (Answers k ask a) =
     (if k < length (inflight s) then
        commit (take k (inflight s) @ drop (Suc k) (inflight s))
          (fs_resume cmp ask (inflight s ! k) a (page s))
      else s)"

definition fs_run :: "(string \<Rightarrow> string \<Rightarrow> int) \<Rightarrow> fs_move list \<Rightarrow> fs_sys" where
  "fs_run cmp ms = run_events (fs_move_step cmp) fs_start ms"

lemma fs_run_snoc: "fs_run cmp (ms @ [m]) = fs_move_step cmp (fs_run cmp ms) m"
  by (simp add: fs_run_def run_events_append)

lemma move_is_step: "fs_move_step cmp s m = s \<or> fs_step cmp s (fs_move_step cmp s m)"
proof (cases m)
  case (Does ask ev)
  then show ?thesis by (simp add: fs_step.user)
next
  case (Answers k ask a)
  show ?thesis
  proof (cases "k < length (inflight s)")
    case True
    have "fs_step cmp s (commit (take k (inflight s) @ drop (Suc k) (inflight s))
        (fs_resume cmp ask (inflight s ! k) a (page s)))"
      by (rule fs_step.answer) (rule id_take_nth_drop [OF True])
    then show ?thesis using Answers True by simp
  qed (simp add: Answers)
qed

lemma fs_run_reachable: "fs_reachable cmp (fs_run cmp ms)"
proof (induction ms rule: rev_induct)
  case Nil
  then show ?case by (simp add: fs_run_def fs_reachable.start)
next
  case (snoc m ms)
  then show ?case
    using move_is_step [of cmp "fs_run cmp ms" m] fs_reachable.step by (auto simp: fs_run_snoc)
qed

lemma reachable_has_run: "fs_reachable cmp s \<Longrightarrow> \<exists>ms. s = fs_run cmp ms"
proof (induction rule: fs_reachable.induct)
  case start
  have "fs_start = fs_run cmp []" by (simp add: fs_run_def)
  then show ?case by blast
next
  case (step s t)
  then obtain ms where ms: "s = fs_run cmp ms" by blast
  from step.hyps(2) show ?case
  proof (cases rule: fs_step.cases)
    case (user ask ev)
    then have "t = fs_run cmp (ms @ [Does ask ev])" using ms by (simp add: fs_run_snoc)
    then show ?thesis by blast
  next
    case (answer ps p qs ask a)
    then have "t = fs_run cmp (ms @ [Answers (length ps) ask a])" using ms by (simp add: fs_run_snoc)
    then show ?thesis by blast
  qed
qed

subsection \<open>Runs in which every prompt is refused\<close>

definition yes :: "fs_prompt \<Rightarrow> bool" where "yes p = True"

definition no :: "fs_prompt \<Rightarrow> bool" where "no p = False"

fun refuses :: "fs_move \<Rightarrow> bool" where
  "refuses (Does ask ev) = (ask = no)"
| "refuses (Answers k ask a) = (ask = no)"

lemma calls_remove: "calls f ps = 0 \<Longrightarrow> calls f (take k ps @ drop n ps) = 0"
  by (auto simp: calls_def filter_empty_conv dest: in_set_takeD in_set_dropD)

lemma refusing_run:
  "list_all refuses ms \<Longrightarrow> calls destructive (inflight (fs_run cmp ms)) = 0"
proof (induction ms rule: rev_induct)
  case Nil
  then show ?case by (simp add: fs_run_def fs_start_def settle_calls refreshDrives_def)
next
  case (snoc m ms)
  then have ih: "calls destructive (inflight (fs_run cmp ms)) = 0" by simp
  show ?case
    using snoc.prems ih calls_remove [OF ih]
    by (cases m) (simp_all add: fs_run_snoc settle_calls handle_consent resume_consent no_def)
qed

subsection \<open>A run\<close>

text \<open>
  The drives arrive and show one drive; its folder is loaded and shows a folder and two files;
  the user opens a file, its text arrives, the user edits it.
\<close>

definition by_length :: "string \<Rightarrow> string \<Rightarrow> int" where
  "by_length a b = int (length a) - int (length b)"

definition demo_drive :: DriveInfo where
  "demo_drive = \<lparr>di_name = ''/srv'', driveType = [], availableFreeSpace = 0, totalSize = 0,
     volumeLabel = [], driveFormat = [], isReady = True\<rparr>"

definition demo_item :: "bool \<Rightarrow> string \<Rightarrow> string \<Rightarrow> nat \<Rightarrow> DirectoryItem" where
  "demo_item isdir nm x n = \<lparr>it_name = nm, fullName = ''/srv/'' @ nm, it_drive = ''/srv'', it_extension = x,
     creationTime = [], lastAccessTime = [], lastWriteTime = [], it_length = n, isHidden = False,
     isSystem = False, isDirectory = isdir, isFile = \<not> isdir\<rparr>"

definition demo_file :: "string \<Rightarrow> string \<Rightarrow> nat \<Rightarrow> FileItem" where
  "demo_file nm x n = DirectoryItem.extend (demo_item False nm x n) (FileItem.fields None)"

definition demo_listing :: DirectoryListing where
  "demo_listing = \<lparr>directories = [demo_item True ''logs'' [] 0],
     files = [demo_file ''site.json'' ''.json'' 10, demo_file ''b.zip'' ''.zip'' 20]\<rparr>"

definition demo_node :: FsNode where
  "demo_node = file_node (demo_file ''site.json'' ''.json'' 10)"

definition demo_dir :: FsNode where
  "demo_dir = dir_node (demo_item True ''logs'' [] 0)"

definition demo_loaded :: "fs_move list" where
  "demo_loaded =
     [Answers 0 no (Resolved (ok_response (Some (DrivesData [demo_drive])))),
      Answers 0 no (Resolved (ok_response (Some (ListingData demo_listing))))]"

definition demo_edited :: "fs_move list" where
  "demo_edited = demo_loaded @
     [Does no (EvOpenFile demo_node),
      Answers 0 no (Resolved (ok_response (Some (ContentData ''{}'')))),
      Does no (EvDraft ''/srv/site.json'' ''{a}'')]"

lemmas demo_defs = demo_drive_def demo_item_def demo_file_def demo_listing_def demo_node_def
  demo_dir_def demo_loaded_def demo_edited_def

end
