(* ===== verification/FsRefine.thy ===== *)
theory FsRefine
  imports FsTabs
begin

text \<open>
  What the editor promises, and that the tabs keep it. The specification is a set of buffers by
  path: how far a buffer is loaded, the text on disk and the text being edited. It knows nothing
  of tab order, the active tab, modes, titles, the dirty mark or requests. \<open>editor_of\<close> is the
  specification's view of the page and \<open>run_editor\<close> performs operations of the page; the two
  commute with \<open>run_spec\<close>.
\<close>

type_synonym buffer = "LoadState \<times> string \<times> string"

type_synonym editor = "string \<Rightarrow> buffer option"

datatype editor_op = OpOpen FsNode | OpText string "fs_payload settled" | OpClose "fs_prompt \<Rightarrow> bool" string
  | OpEdit string string | OpDiscard string | OpMode string TabMode | OpSave string
  | OpSaved string "fs_payload settled"

fun editor_step :: "fs_state \<Rightarrow> editor_op \<Rightarrow> fs_state" where
  "editor_step st (OpOpen node) = fst (openFile node st)"
| "editor_step st (OpText i s) = fst (openFile_done i s st)"
| "editor_step st (OpClose ask i) = fst (closeTab ask i st)"
| "editor_step st (OpEdit i d) = fst (updateTabDraft i d st)"
| "editor_step st (OpDiscard i) = fst (discardTabChanges i st)"
| "editor_step st (OpMode i m) = fst (setTabMode i m st)"
| "editor_step st (OpSave i) = fst (saveTab i st)"
| "editor_step st (OpSaved i s) = fst (saveTab_done i s st)"

definition on_buffer :: "string \<Rightarrow> (buffer \<Rightarrow> buffer) \<Rightarrow> editor \<Rightarrow> editor" where
  "on_buffer i f e = e(i := map_option f (e i))"

text \<open>The specification: each operation touches at most the buffer it names.\<close>

fun spec_step :: "editor \<Rightarrow> editor_op \<Rightarrow> editor" where
  "spec_step e (OpOpen node) =
     (if ntype node = NFile \<and> \<not> too_big node \<and> e (npath node) = None
      then e(npath node \<mapsto> (LLoading, [], [])) else e)"
| "spec_step e (OpText i s) =
     on_buffer i (\<lambda>(l, c, d). case expect_success FbReadFile s of
        Inl err \<Rightarrow> (LError, c, d)
      | Inr x \<Rightarrow> (LLoaded, payload_content x, payload_content x)) e"
| "spec_step e (OpClose ask i) =
     (case e i of None \<Rightarrow> e
      | Some (l, c, d) \<Rightarrow> if d \<noteq> c \<and> \<not> ask AskCloseDirty then e else e(i := None))"
| "spec_step e (OpEdit i t) = on_buffer i (\<lambda>(l, c, d). (l, c, t)) e"
| "spec_step e (OpDiscard i) = on_buffer i (\<lambda>(l, c, d). (l, c, c)) e"
| "spec_step e (OpMode i m) = e"
| "spec_step e (OpSave i) = e"
| "spec_step e (OpSaved i s) =
     on_buffer i (\<lambda>(l, c, d). case expect_success FbSave s of Inl err \<Rightarrow> (l, c, d) | Inr x \<Rightarrow> (l, d, d)) e"

definition run_editor :: "fs_state \<Rightarrow> editor_op list \<Rightarrow> fs_state" where
  "run_editor st ops = run_events editor_step st ops"

definition run_spec :: "editor \<Rightarrow> editor_op list \<Rightarrow> editor" where
  "run_spec e ops = run_events spec_step e ops"

definition buffer_of :: "OpenTab \<Rightarrow> buffer" where
  "buffer_of t = (tload t, content t, draft t)"

definition editor_of :: "fs_state \<Rightarrow> editor" where
  "editor_of st i = map_option buffer_of (find_tab i (tabs st))"

subsection \<open>One operation\<close>

lemma find_tab_patch:
  "find_tab j (patchTab i p ts)
     = (if j = i then map_option (apply_tab_patch p) (find_tab i ts) else find_tab j ts)"
  using tab_store.find_patch_same [of i p ts] tab_store.find_patch_other [of j i p ts]
  by (cases "j = i") (simp_all add: find_tab_def)

lemma editor_patch:
  assumes "\<And>t. buffer_of (apply_tab_patch p t) = f (buffer_of t)"
  shows "editor_of (st\<lparr>tabs := patchTab i p (tabs st)\<rparr>) = on_buffer i f (editor_of st)"
  by (rule ext) (auto simp: editor_of_def on_buffer_def find_tab_patch assms option.map_comp comp_def)

lemma on_buffer_id: "on_buffer i (\<lambda>b. b) e = e"
  by (rule ext) (simp add: on_buffer_def option.map_ident)

lemma find_tab_append:
  "find_tab j (ts @ [t]) = (case find_tab j ts of None \<Rightarrow> if tid t = j then Some t else None | Some u \<Rightarrow> Some u)"
  by (induction ts) (auto simp: find_tab_def)

lemma find_tab_filter: "find_tab j (filter (\<lambda>t. tid t \<noteq> i) ts) = (if j = i then None else find_tab j ts)"
  by (induction ts) (auto simp: find_tab_def)

lemma find_tab_index: "find_index (\<lambda>t. tid t = i) ts = Some k \<Longrightarrow> find_tab i ts = Some (ts ! k)"
proof (induction ts arbitrary: k)
  case (Cons t ts)
  then show ?case by (auto simp: find_tab_def split: if_splits)
qed simp

lemma open_refines: "editor_of (fst (openFile node st)) = spec_step (editor_of st) (OpOpen node)"
proof (rule ext)
  fix j
  show "editor_of (fst (openFile node st)) j = spec_step (editor_of st) (OpOpen node) j"
    by (cases "find_tab (npath node) (tabs st)"; cases "find_tab j (tabs st)")
       (auto simp: openFile_def Let_def editor_of_def find_tab_append buffer_of_def new_tab_def)
qed

lemma close_refines:
  assumes "tabs_ok st"
  shows "editor_of (fst (closeTab ask i st)) = spec_step (editor_of st) (OpClose ask i)"
proof (cases "find_index (\<lambda>t. tid t = i) (tabs st)")
  case None
  then have "find_tab i (tabs st) = None" by (auto simp: find_tab_None find_index_None_iff)
  then show ?thesis using None by (simp add: closeTab_def editor_of_def)
next
  case (Some k)
  let ?t = "tabs st ! k"
  have t: "find_tab i (tabs st) = Some ?t" by (rule find_tab_index [OF Some])
  have "?t \<in> set (tabs st)" using find_index_SomeD [OF Some] by simp
  then have dirty: "isDirty ?t \<longleftrightarrow> draft ?t \<noteq> content ?t"
    using assms by (simp add: tabs_ok_def tab_ok_def)
  show ?thesis
  proof (cases "isDirty ?t \<and> \<not> ask AskCloseDirty")
    case True
    then show ?thesis using Some t dirty by (simp add: closeTab_def editor_of_def buffer_of_def)
  next
    case False
    have "editor_of (fst (closeTab ask i st)) = (editor_of st)(i := None)"
      using Some False by (intro ext) (auto simp: closeTab_def editor_of_def find_tab_filter Let_def)
    moreover have "spec_step (editor_of st) (OpClose ask i) = (editor_of st)(i := None)"
      using False dirty t by (auto simp: editor_of_def buffer_of_def)
    ultimately show ?thesis by simp
  qed
qed

lemma saving_invisible: "editor_of (st\<lparr>tabs := patchTab i (SetSaving b) (tabs st)\<rparr>) = editor_of st"
  by (subst editor_patch [where f = "\<lambda>b. b"]) (simp_all add: buffer_of_def on_buffer_id)

lemma step_refines:
  assumes "tabs_ok st"
  shows "editor_of (editor_step st op) = spec_step (editor_of st) op"
proof (cases op)
  case (OpOpen node)
  then show ?thesis using open_refines by simp
next
  case (OpText i s)
  show ?thesis
  proof (cases "expect_success FbReadFile s")
    case (Inl e)
    then show ?thesis unfolding OpText
      by (simp add: openFile_done_def) (rule editor_patch, simp add: buffer_of_def)
  next
    case (Inr x)
    then show ?thesis unfolding OpText
      by (simp add: openFile_done_def) (rule editor_patch, simp add: buffer_of_def)
  qed
next
  case (OpClose ask i)
  then show ?thesis using close_refines [OF assms] by simp
next
  case (OpEdit i d)
  then show ?thesis by (simp add: updateTabDraft_def) (rule editor_patch, simp add: buffer_of_def)
next
  case (OpDiscard i)
  then show ?thesis by (simp add: discardTabChanges_def) (rule editor_patch, simp add: buffer_of_def)
next
  case (OpMode i m)
  have "editor_of (st\<lparr>tabs := patchTab i (SetMode m) (tabs st)\<rparr>) = on_buffer i (\<lambda>b. b) (editor_of st)"
    by (rule editor_patch) (simp add: buffer_of_def)
  then show ?thesis using OpMode by (simp add: setTabMode_def on_buffer_id)
next
  case (OpSave i)
  then show ?thesis by (auto simp: saveTab_def saving_invisible split: option.splits)
next
  case (OpSaved i s)
  show ?thesis
  proof (cases "expect_success FbSave s")
    case (Inl e)
    have "on_buffer i id (editor_of st) = editor_of st" using on_buffer_id by (simp add: id_def)
    then show ?thesis using Inl unfolding OpSaved
      by (simp add: saveTab_done_def saving_invisible)
  next
    case (Inr x)
    then show ?thesis unfolding OpSaved
      by (simp add: saveTab_done_def) (rule editor_patch, simp add: buffer_of_def)
  qed
qed

lemma editor_step_ok: "tabs_ok st \<Longrightarrow> tabs_ok (editor_step st op)"
  by (cases op) (simp_all add: tab_ops_ok)

lemma editor_refines: "tabs_ok st \<Longrightarrow> editor_of (run_editor st ops) = run_spec (editor_of st) ops"
  unfolding run_editor_def run_spec_def
  by (induction ops arbitrary: st) (simp_all add: step_refines editor_step_ok)

end
