(* ===== verification/FsProperties.thy ===== *)
theory FsProperties
  imports FsRun FsRefine
begin

text \<open>
  The properties of the file page. Those of every run quantify over the moves of the run, so
  over every order of user actions and answers and every content of the answers. The others
  are about one handler with its continuation, or about a pure helper.
\<close>

subsection \<open>Every run\<close>

text \<open>
  C1. In every state the page can reach, each tab is addressed by its own path, its dirty mark
  says exactly that the draft differs from the content, and while tabs exist one of them is active.
\<close>

theorem file_tabs_well_formed:
  "list_all (\<lambda>t. tid t = tpath t \<and> (isDirty t \<longleftrightarrow> draft t \<noteq> content t)) (tabs (page (fs_run cmp ms))) \<and>
   (tabs (page (fs_run cmp ms)) = [] \<or>
    activeTab (page (fs_run cmp ms)) \<in> tid ` set (tabs (page (fs_run cmp ms))))"
  using reachable_tabs_ok [OF fs_run_reachable, of cmp ms] reachable_active_ok [OF fs_run_reachable, of cmp ms]
  by (cases "tabs (page (fs_run cmp ms))") (auto simp: tabs_ok_def tab_ok_def list_all_iff active_ok_def)

text \<open>
  C10. The tabs implement a plain editor: in every state of a run, whatever the user and the answers
  do to the tabs next, the buffers behind them are those that the specification computes, where each
  operation touches at most the one buffer it names and knows of no marks, modes or tab order.
\<close>

theorem file_editor_refines:
  "editor_of (run_editor (page (fs_run cmp ms)) ops) = run_spec (editor_of (page (fs_run cmp ms))) ops"
  by (rule editor_refines [OF reachable_tabs_ok [OF fs_run_reachable]])

text \<open>
  C18. No expanded folder is left waiting: a path among the expanded ones that names a drive or
  a folder of the tree names one that is loading, loaded or failed.
\<close>

theorem file_expanded_folders_loaded:
  "list_all (\<lambda>p. case findNodeByPath (tree (page (fs_run cmp ms))) p of None \<Rightarrow> True
      | Some n \<Rightarrow> ntype n = NFile \<or> nload n \<in> {Some LLoading, Some LLoaded, Some LError})
     (openFolders (page (fs_run cmp ms)))"
  unfolding list_all_iff
proof
  fix p assume p: "p \<in> set (openFolders (page (fs_run cmp ms)))"
  have "\<not> unloaded n" if "findNodeByPath (tree (page (fs_run cmp ms))) p = Some n" for n
    using reachable_folders_loaded [OF fs_run_reachable, of cmp ms] p that
    by (simp add: folders_loaded_def)
  moreover have "ntype n = NFile \<or> nload n \<in> {Some LLoading, Some LLoaded, Some LError}"
    if "\<not> unloaded n" for n
    using that by (cases "nload n"; cases "the (nload n)") (auto simp: unloaded_def)
  ultimately show "case findNodeByPath (tree (page (fs_run cmp ms))) p of None \<Rightarrow> True
      | Some n \<Rightarrow> ntype n = NFile \<or> nload n \<in> {Some LLoading, Some LLoaded, Some LError}"
    by (auto split: option.splits)
qed

text \<open>
  C17. A folder never spins forever: wherever the tree shows a node as loading, the directory
  request for its path is in flight.
\<close>

theorem file_spinner_has_call:
  assumes "fs_reachable cmp s" and "findNodeByPath (tree (page s)) q = Some n" and "nload n = Some LLoading"
  shows "q \<in> {npath m | m. PDirectory m \<in> set (inflight s)}"
  using reachable_spinners [OF assms(1)] find_loading_spinning [OF assms(2,3)]
  by (auto simp: spinners_ok_def)

theorem file_spinner_has_call_witness:
  "''/srv'' \<in> {npath m | m. PDirectory m \<in> set (inflight (fs_run by_length (take 1 demo_loaded)))}"
proof -
  have "map_option nload (findNodeByPath (tree (page (fs_run by_length (take 1 demo_loaded)))) ''/srv'')
      = Some (Some LLoading)" by code_simp
  then obtain n where "findNodeByPath (tree (page (fs_run by_length (take 1 demo_loaded)))) ''/srv'' = Some n"
    and "nload n = Some LLoading" by auto
  then show ?thesis by (rule file_spinner_has_call [OF fs_run_reachable])
qed

text \<open>
  C16. The marks that disable the rename and create dialogs are exact: each is set while one
  request of its kind is in flight, and there are never two.
\<close>

theorem file_dialog_marks_exact:
  "calls is_rename (inflight (fs_run cmp ms)) = of_bool (renaming (page (fs_run cmp ms))) \<and>
   calls is_create_folder (inflight (fs_run cmp ms)) = of_bool (creatingFolder (page (fs_run cmp ms))) \<and>
   calls is_create_file (inflight (fs_run cmp ms)) = of_bool (creatingFile (page (fs_run cmp ms)))"
  by (simp add: reachable_marks_exact [OF fs_run_reachable])

text \<open>
  The page is never stuck busy: while it is marked as pasting a paste is in flight, while
  it is marked as zipping or unzipping one of those is.
\<close>

theorem file_busy_marks_live:
  "of_bool (pasting (page (fs_run cmp ms))) \<le> calls is_paste (inflight (fs_run cmp ms)) \<and>
   of_bool (busyOp (page (fs_run cmp ms)) \<noteq> None) \<le> calls is_archive (inflight (fs_run cmp ms))"
  using reachable_busy [OF fs_run_reachable, of cmp ms] by auto

text \<open>
  C2. What can be in flight is what the guards allow: no drive is renamed or deleted, new names
  are trimmed and not empty, saved texts are at most 5 MB and go to the path of their tab, no
  folder is pasted below itself, onto itself or to another drive, archives end in \<open>.zip\<close>,
  only cutting deletes a paste target first.
\<close>

theorem file_calls_safe: "list_all safe_call (inflight (fs_run cmp ms))"
  using reachable_calls_safe [OF fs_run_reachable] by blast

text \<open>
  C11. Nothing of the user's is destroyed without consent: in a run in which every prompt is
  refused, no delete, no unzip over existing files and no clearing of a paste target is ever sent.
\<close>

theorem file_refusal_protects:
  assumes "list_all refuses ms"
  shows "calls destructive (inflight (fs_run cmp ms)) = 0"
  by (rule refusing_run [OF assms])

text \<open>The witness: a delete of a loaded folder, refused; with consent it is sent.\<close>

theorem file_refusal_protects_witness:
  "calls destructive (inflight (fs_run by_length (demo_loaded @ [Does no (EvDelete demo_dir)]))) = 0 \<and>
   calls destructive (inflight (fs_run by_length (demo_loaded @ [Does yes (EvDelete demo_dir)]))) = 1"
proof
  have "list_all refuses (demo_loaded @ [Does no (EvDelete demo_dir)])" by (simp add: demo_loaded_def)
  then show "calls destructive (inflight (fs_run by_length (demo_loaded @ [Does no (EvDelete demo_dir)]))) = 0"
    by (rule file_refusal_protects)
  show "calls destructive (inflight (fs_run by_length (demo_loaded @ [Does yes (EvDelete demo_dir)]))) = 1"
    by code_simp
qed

subsection \<open>Deleting, renaming, moving\<close>

text \<open>
  C19. After a folder with a name without separators is deleted, that lies in a drive root such as
  \<open>C:\\<close> or below any directory other than the root slash (\<open>parent_dir\<close>), the page keeps nothing of
  it: no tab, no expanded folder and no selection at or below it; its parent is expanded. Directly
  below the root slash it fails: the deleted folder itself is selected and expanded.
\<close>

theorem file_delete_leaves_nothing:
  assumes "parent_dir d" and "plain_name (nname node)" and "npath node = joinPath d (nname node)"
    and "ntype node = NDirectory" and "expect_success FbDelete s = Inr x"
  shows "list_all (\<lambda>p. \<not> isPathEqualOrUnder p (npath node))
      (selectedPath (fst (handleDelete_done node tr s st)) #
       map tpath (tabs (fst (handleDelete_done node tr s st))) @ openFolders (fst (handleDelete_done node tr s st)))
    \<and> d \<in> set (openFolders (fst (handleDelete_done node tr s st)))"
  using delete_clean [OF assms refl] by (auto simp: list_all_iff)

definition demo_deep :: fs_state where
  "demo_deep = init_fs\<lparr>tabs := [(new_tab demo_node)\<lparr>tid := ''/srv/logs/x.txt'', tpath := ''/srv/logs/x.txt''\<rparr>,
       new_tab demo_node], activeTab := ''/srv/logs/x.txt'',
     openFolders := [''/srv'', ''/srv/logs''], selectedPath := ''/srv/logs/old''\<rparr>"

theorem file_delete_leaves_nothing_witness:
  "list_all (\<lambda>p. \<not> isPathEqualOrUnder p ''/srv/logs'')
      (selectedPath (fst (handleDelete_done demo_dir [] (Resolved (ok_response None)) demo_deep)) #
       map tpath (tabs (fst (handleDelete_done demo_dir [] (Resolved (ok_response None)) demo_deep))) @
       openFolders (fst (handleDelete_done demo_dir [] (Resolved (ok_response None)) demo_deep)))
    \<and> ''/srv'' \<in> set (openFolders (fst (handleDelete_done demo_dir [] (Resolved (ok_response None)) demo_deep)))"
proof -
  have "parent_dir ''/srv''" "plain_name (nname demo_dir)" "npath demo_dir = joinPath ''/srv'' (nname demo_dir)"
    "ntype demo_dir = NDirectory" "npath demo_dir = ''/srv/logs''"
    by code_simp+
  then show ?thesis
    using file_delete_leaves_nothing [of "''/srv''" demo_dir "Resolved (ok_response None)" None "[]" demo_deep] by simp
qed

text \<open>
  C20. Renaming a folder that lies in a drive root or below any directory other than the root slash
  (\<open>parent_dir\<close>), from one name without separators to another, moves everything below it: the tabs
  keep their order and their drafts, their paths are the relocated ones, and no tab, expanded
  folder or selection stays at the old place. Directly below the root slash it fails: the tabs move
  to a place below the old one.
\<close>

theorem file_rename_relocates:
  assumes "parent_dir d" and "plain_name (nname target)" and "plain_name nm" and "nname target \<noteq> nm"
    and "npath target = joinPath d (nname target)" and "ntype target = NDirectory"
    and "expect_success FbRename s = Inr x"
  shows "map (\<lambda>t. (tpath t, draft t)) (tabs (fst (handleRename_done target nm tr s st)))
      = map (\<lambda>t. (replacePathPrefix (tpath t) (npath target) (joinPath d nm), draft t)) (tabs st)
    \<and> list_all (\<lambda>p. \<not> isPathEqualOrUnder p (npath target))
      (selectedPath (fst (handleRename_done target nm tr s st)) #
       map tpath (tabs (fst (handleRename_done target nm tr s st))) @ openFolders (fst (handleRename_done target nm tr s st)))"
proof -
  let ?st' = "fst (handleRename_done target nm tr s st)"
  note c = rename_clean [OF assms refl, of tr st]
  have zip: "map (\<lambda>t. (f t, g t)) xs = zip (map f xs) (map g xs)"
    for f :: "OpenTab \<Rightarrow> string" and g :: "OpenTab \<Rightarrow> string" and xs
    by (induction xs) simp_all
  have "map (\<lambda>t. (tpath t, draft t)) (tabs ?st')
      = map (\<lambda>t. (replacePathPrefix (tpath t) (npath target) (joinPath d nm), draft t)) (tabs st)"
    unfolding zip c(1) c(5) by (simp add: comp_def)
  moreover have "list_all (\<lambda>p. \<not> isPathEqualOrUnder p (npath target))
      (selectedPath ?st' # map tpath (tabs ?st') @ openFolders ?st')"
    unfolding list_all_append list.pred_inject using c(2-4) by (simp add: list_all_iff)
  ultimately show ?thesis by (rule conjI)
qed

theorem file_rename_relocates_witness:
  "map (\<lambda>t. (tpath t, draft t)) (tabs (fst (handleRename_done demo_dir ''log2'' [] (Resolved (ok_response None)) demo_deep)))
      = [(''/srv/log2/x.txt'', []), (''/srv/site.json'', [])]"
proof -
  have h: "parent_dir ''/srv''" "plain_name (nname demo_dir)" "plain_name ''log2''" "nname demo_dir \<noteq> ''log2''"
    "npath demo_dir = joinPath ''/srv'' (nname demo_dir)" "ntype demo_dir = NDirectory"
    by code_simp+
  have "map (\<lambda>t. (replacePathPrefix (tpath t) (npath demo_dir) (joinPath ''/srv'' ''log2''), draft t)) (tabs demo_deep)
      = [(''/srv/log2/x.txt'', []), (''/srv/site.json'', [])]" by code_simp
  then show ?thesis
    using file_rename_relocates [OF h, of "Resolved (ok_response None)" None "[]" demo_deep] by simp
qed

text \<open>
  The root slash is left out for a reason: \<open>dirname\<close> of an entry directly below it is the entry
  itself, so that a deleted folder is selected and expanded, and tabs move below the old place.
\<close>

definition demo_top :: FsNode where
  "demo_top = FsNode NDirectory ''a'' ''/a'' ''/'' None None (Some LIdle) None None"

definition demo_top_tabs :: fs_state where
  "demo_top_tabs = init_fs\<lparr>tabs := [(new_tab demo_node)\<lparr>tid := ''/a/x'', tpath := ''/a/x''\<rparr>], selectedPath := ''/a/x''\<rparr>"

lemma file_delete_below_root_slash:
  "selectedPath (fst (handleDelete_done demo_top [] (Resolved (ok_response None)) demo_top_tabs)) = npath demo_top"
  "npath demo_top \<in> set (openFolders (fst (handleDelete_done demo_top [] (Resolved (ok_response None)) demo_top_tabs)))"
  by code_simp+

lemma file_rename_below_root_slash:
  "map tpath (tabs (fst (handleRename_done demo_top ''b'' [] (Resolved (ok_response None)) demo_top_tabs))) = [''/a/b/x'']"
  by code_simp

text \<open>A folder rename keeps the tab ids distinct, unless a tab was already at the new place.\<close>

theorem file_rename_ids_distinct:
  assumes "parent_dir d" and "plain_name (nname target)" and "npath target = joinPath d (nname target)"
    and "ntype target = NDirectory" and "expect_success FbRename s = Inr x"
    and "tabs_ok st" and "distinct (map tid (tabs st))"
    and "\<forall>t\<in>set (tabs st). \<not> isPathEqualOrUnder (tpath t) (joinPath d nm)"
  shows "distinct (map tid (tabs (fst (handleRename_done target nm tr s st))))"
  using rename_distinct [OF assms(1-6)] assms(7,8) by (simp add: ids_distinct_def)

theorem file_rename_ids_distinct_witness:
  "distinct (map tid (tabs (fst (handleRename_done demo_dir ''log2'' [] (Resolved (ok_response None)) demo_deep))))"
proof (rule file_rename_ids_distinct [where d = "''/srv''" and x = None])
  show "parent_dir ''/srv''" "plain_name (nname demo_dir)" "npath demo_dir = joinPath ''/srv'' (nname demo_dir)"
    "ntype demo_dir = NDirectory" "distinct (map tid (tabs demo_deep))"
    by code_simp+
  show "expect_success FbRename (Resolved (ok_response None)) = Inr None" by simp
  show "tabs_ok demo_deep" by code_simp
  show "\<forall>t\<in>set (tabs demo_deep). \<not> isPathEqualOrUnder (tpath t) (joinPath ''/srv'' ''log2'')" by code_simp
qed

text \<open>
  C34. Cutting a node and pasting it over the folder that contains it, which has the same name,
  passes every guard: with consent to the overwrite the page deletes the target folder, and
  with it the node that was to be moved. The guard of the code only looks at the other direction.
\<close>

theorem file_paste_deletes_its_source:
  assumes "clipboard st = Some \<lparr>cmode = Cut, cnode = n\<rparr>" and "\<not> pasting st"
    and "inner_dir (dpath d)" and "plain_name (nname n)" and "ndrive n = ddrive d"
    and "npath n = joinPath (joinPath (dpath d) (nname n)) (nname n)"
    and "nname n \<in> set (fst (listed_names s))"
  shows "snd (handlePaste (Some d) st) = [Issue (PPasteList Cut n d (tree st))] \<and>
    snd (handlePaste_listed yes Cut n d (tree st) s st) = [Issue (PPasteDelete Cut n d (tree st))] \<and>
    request_of (PPasteDelete Cut n d (tree st)) = deleteFile (targetPath_of d n) (ddrive d) \<and>
    npath n \<noteq> targetPath_of d n \<and> isPathEqualOrUnder (npath n) (targetPath_of d n)"
proof -
  let ?t = "joinPath (dpath d) (nname n)"
  have t: "targetPath_of d n = ?t" by (simp add: targetPath_of_def)
  have l: "?t = dpath d @ (if backslash \<in> set (dpath d) then backslash else CHR ''/'') # nname n"
    by (rule joinPath_inner [OF assms(3)])
  have "\<not> is_separator (last ?t)" "?t \<noteq> []" using assms(4) by (auto simp: l plain_name_def)
  moreover have "\<not> is_drive_spec ?t"
  proof
    assume "is_drive_spec ?t"
    then have "length ?t = 2" by (cases ?t rule: is_drive_spec.cases) simp_all
    moreover have "0 < length (dpath d)" "0 < length (nname n)"
      using assms(3,4) by (simp_all add: inner_dir_def plain_name_def)
    ultimately show False by (simp add: l)
  qed
  ultimately have i: "inner_dir ?t" by (simp add: inner_dir_def)
  then have n: "npath n = ?t @ (if backslash \<in> set ?t then backslash else CHR ''/'') # nname n"
    using assms(6) joinPath_inner by simp
  then have ne: "npath n \<noteq> ?t" by simp
  have above: "\<not> isPathEqualOrUnder (dpath d) (npath n)"
    using n l by (auto simp: under_iff)
  show ?thesis
    using assms(1,2,5,7) ne above joinPath_under [OF i, of "nname n"] assms(6)
    by (auto simp: handlePaste_def handlePaste_listed_def Let_def t yes_def)
qed

definition demo_nested :: FsNode where
  "demo_nested = FsNode NDirectory ''x'' ''/srv/x/x'' ''/srv'' None None (Some LIdle) None None"

definition demo_cut :: fs_state where
  "demo_cut = init_fs\<lparr>clipboard := Some \<lparr>cmode = Cut, cnode = demo_nested\<rparr>\<rparr>"

definition demo_x_listing :: "fs_payload settled" where
  "demo_x_listing = Resolved (ok_response (Some (ListingData
     \<lparr>directories = [demo_item True ''x'' [] 0], files = []\<rparr>)))"

theorem file_paste_deletes_its_source_witness:
  "snd (handlePaste_listed yes Cut demo_nested \<lparr>dpath = ''/srv'', ddrive = ''/srv''\<rparr> [] demo_x_listing demo_cut)
     = [Issue (PPasteDelete Cut demo_nested \<lparr>dpath = ''/srv'', ddrive = ''/srv''\<rparr> [])] \<and>
   isPathEqualOrUnder (npath demo_nested) (targetPath_of \<lparr>dpath = ''/srv'', ddrive = ''/srv''\<rparr> demo_nested)"
proof -
  let ?d = "\<lparr>dpath = ''/srv'', ddrive = ''/srv''\<rparr>"
  have "clipboard demo_cut = Some \<lparr>cmode = Cut, cnode = demo_nested\<rparr>" by (simp add: demo_cut_def)
  moreover have "\<not> pasting demo_cut" "inner_dir (dpath ?d)" "plain_name (nname demo_nested)"
    "ndrive demo_nested = ddrive ?d" "tree demo_cut = []"
    "npath demo_nested = joinPath (joinPath (dpath ?d) (nname demo_nested)) (nname demo_nested)"
    "nname demo_nested \<in> set (fst (listed_names demo_x_listing))"
    by code_simp+
  ultimately show ?thesis
    using file_paste_deletes_its_source [of demo_cut demo_nested ?d demo_x_listing] by simp
qed

subsection \<open>Saving, and renaming under an open request\<close>

text \<open>
  C35. What is typed while a save is in flight is marked as saved when it returns, though the
  request carried the earlier draft.
\<close>

theorem file_save_race:
  assumes "find_tab i (tabs st) = Some t" and "tload t = LLoaded" and "isDirty t" and "\<not> saving t"
    and "blob_size (draft t) \<le> MAX_OPEN_BYTES" and "later \<noteq> draft t"
    and "st3 = fst (saveTab_done i (Resolved (ok_response x)) (fst (updateTabDraft i later (fst (saveTab i st)))))"
  shows "snd (saveTab i st) = [Issue (PSave i (tpath t) (tdrive t) (draft t))] \<and>
    map_option (\<lambda>u. (draft u, content u, isDirty u, saving u)) (find_tab i (tabs st3))
      = Some (later, later, False, False)"
  using assms tab_store.find_patch_same
  by (simp add: saveTab_def saveTab_done_def updateTabDraft_def find_tab_def)

theorem file_save_race_witness:
  "map_option (\<lambda>u. (content u, isDirty u))
     (find_tab ''/srv/site.json'' (tabs (fst (saveTab_done ''/srv/site.json'' (Resolved (ok_response None))
       (fst (updateTabDraft ''/srv/site.json'' ''late''
         (fst (saveTab ''/srv/site.json'' (page (fs_run by_length demo_edited))))))))))
   = Some (''late'', False)"
proof -
  let ?st = "page (fs_run by_length demo_edited)"
  have "map_option (\<lambda>t. (tload t, isDirty t, saving t, draft t)) (find_tab ''/srv/site.json'' (tabs ?st))
      = Some (LLoaded, True, False, ''{a}'')" by code_simp
  then obtain t where t: "find_tab ''/srv/site.json'' (tabs ?st) = Some t" "tload t = LLoaded" "isDirty t"
    "\<not> saving t" "draft t = ''{a}''" by auto
  have "blob_size ''{a}'' \<le> MAX_OPEN_BYTES" by code_simp
  then show ?thesis
    using file_save_race [OF t(1-4), of "''late''" _ None] t(5) by (auto simp: option.map_comp comp_def)
qed

text \<open>
  A file renamed while its text is being read leaves its tab loading for good: the answer
  is addressed to the old path, which no tab has any more.
\<close>

theorem file_rename_strands_tab:
  assumes "inner_dir d" and "plain_name (nname n)" and "nm \<noteq> nname n"
    and "npath n = joinPath d (nname n)" and "ntype n = NFile"
    and "tabs_ok st" and "t \<in> set (tabs st)" and "tpath t = npath n" and "tload t = LLoading"
    and "st2 = fst (openFile_done (npath n) s (fst (handleRename_done n nm tr (Resolved (ok_response x)) st)))"
  shows "\<exists>u\<in>set (tabs st2). tid u = joinPath d nm \<and> tload u = LLoading"
proof -
  let ?st1 = "fst (handleRename_done n nm tr (Resolved (ok_response x)) st)"
  have par: "dirname (npath n) = d" using dirname_joinPath_inner [OF assms(1,2)] assms(4) by simp
  have tabs1: "tabs ?st1 = map (rename_tab n nm) (tabs st)"
    by (simp add: handleRename_done_def Let_def)
  have new: "joinPath d nm \<noteq> npath n"
    using assms(3,4) by (simp add: joinPath_inner [OF assms(1)])
  have "tid (rename_tab n nm u) \<noteq> npath n" if "u \<in> set (tabs st)" for u
    using assms(5,6) new that by (auto simp: rename_tab_def Let_def par tabs_ok_def tab_ok_def)
  then have "npath n \<notin> tid ` set (tabs ?st1)" unfolding tabs1 by (simp add: image_iff) (metis)
  then have tabs2: "tabs st2 = tabs ?st1"
    unfolding assms(10) using tab_store.patch_absent
    by (auto simp: openFile_done_def split: sum.splits)
  have "tid (rename_tab n nm t) = joinPath d nm" "tload (rename_tab n nm t) = LLoading"
    using assms(5,8,9) by (simp_all add: rename_tab_def Let_def par)
  then show ?thesis unfolding tabs2 tabs1 using assms(7) by auto
qed

definition demo_opening :: fs_state where
  "demo_opening = fst (openFile demo_node init_fs)"

theorem file_rename_strands_tab_witness:
  "\<exists>u\<in>set (tabs (fst (openFile_done ''/srv/site.json'' (Resolved (ok_response (Some (ContentData ''{}''))))
      (fst (handleRename_done demo_node ''s.json'' [] (Resolved (ok_response None)) demo_opening))))).
     tid u = ''/srv/s.json'' \<and> tload u = LLoading"
proof -
  have "\<exists>u\<in>set (tabs (fst (openFile_done (npath demo_node) (Resolved (ok_response (Some (ContentData ''{}''))))
      (fst (handleRename_done demo_node ''s.json'' [] (Resolved (ok_response None)) demo_opening))))).
     tid u = joinPath ''/srv'' ''s.json'' \<and> tload u = LLoading"
  proof (rule file_rename_strands_tab [where t = "new_tab demo_node"])
    show "inner_dir ''/srv''" "plain_name (nname demo_node)" "''s.json'' \<noteq> nname demo_node"
      "npath demo_node = joinPath ''/srv'' (nname demo_node)" "ntype demo_node = NFile"
      "tabs_ok demo_opening" "tpath (new_tab demo_node) = npath demo_node" "tload (new_tab demo_node) = LLoading"
      by code_simp+
    show "new_tab demo_node \<in> set (tabs demo_opening)" by code_simp
  qed (rule refl)
  moreover have "npath demo_node = ''/srv/site.json''" "joinPath ''/srv'' ''s.json'' = ''/srv/s.json''" by code_simp+
  ultimately show ?thesis by simp
qed

subsection \<open>Paths, listings, menu and tree\<close>

text \<open>
  C33. Below a proper directory \<open>dirname\<close> undoes \<open>joinPath\<close>, and so it does below a drive's
  root; below the root \<open>/\<close> it does not: the parent of \<open>/name\<close> comes out as \<open>/name\<close> itself.
\<close>

theorem path_parent_of_join:
  assumes "plain_name n" and "inner_dir d" and "is_drive_spec v"
  shows "dirname (joinPath d n) = d \<and> dirname (joinPath (v @ [backslash]) n) = v @ [backslash] \<and>
    dirname (joinPath ''/'' n) = ''/'' @ n"
  using dirname_joinPath_inner [OF assms(2,1)] dirname_joinPath_drive [OF assms(3,1)]
    dirname_joinPath_root [OF assms(1)] by blast

theorem path_parent_of_join_witness:
  "dirname (joinPath ''/srv'' ''logs'') = ''/srv'' \<and> dirname (joinPath (''C:'' @ [backslash]) ''logs'') = ''C:'' @ [backslash] \<and>
   dirname (joinPath ''/'' ''logs'') = ''/'' @ ''logs''"
  by (rule path_parent_of_join; code_simp)

text \<open>
  Relocating a path from one place to another moves it below the new place, keeps what
  follows the prefix, and can be undone; a path outside the old place is left alone.
\<close>

theorem path_relocation_reversible:
  assumes "old \<noteq> []" and "new \<noteq> []"
  shows "if isPathEqualOrUnder q old
    then isPathEqualOrUnder (replacePathPrefix q old new) new \<and>
      drop (length new) (replacePathPrefix q old new) = drop (length old) q \<and>
      replacePathPrefix (replacePathPrefix q old new) new old = q
    else replacePathPrefix q old new = q"
proof (cases "isPathEqualOrUnder q old")
  case True
  then obtain r where r: "q = old @ r" "r = [] \<or> is_separator (hd r)" unfolding under_iff by blast
  then have "replacePathPrefix q old new = new @ r" using replace_append [OF assms(1) r(2)] by simp
  then show ?thesis
    using True r(1) replace_inside [OF assms(1) True, of new] replace_back [OF assms True] by simp
qed (simp add: replace_outside)

theorem path_relocation_reversible_witness:
  "drop (length ''/x/y'') (replacePathPrefix ''/a/b/c'' ''/a/b'' ''/x/y'') = ''/c''"
proof -
  have "isPathEqualOrUnder ''/a/b/c'' ''/a/b''" by code_simp
  then show ?thesis using path_relocation_reversible [of "''/a/b''" "''/x/y''" "''/a/b/c''"] by simp
qed

text \<open>
  A listing becomes the children of a folder with nothing lost or added: first the
  folders, then the files, each part sorted by name.
\<close>

theorem listing_children_sorted:
  assumes "consistent_cmp cmp"
  shows "\<exists>ds fs. toChildren cmp l = ds @ fs \<and> mset ds = mset (map dir_node (directories l)) \<and>
    mset fs = mset (map file_node (files l)) \<and> sorted_wrt (\<lambda>a b. cmp (nname a) (nname b) \<le> 0) ds \<and>
    sorted_wrt (\<lambda>a b. cmp (nname a) (nname b) \<le> 0) fs"
proof (intro exI conjI)
  let ?by = "js_sort (\<lambda>a b. cmp (nname a) (nname b))"
  show "toChildren cmp l = ?by (map dir_node (directories l)) @ ?by (map file_node (files l))"
    by (simp add: toChildren_def Let_def)
qed (simp_all only: mset_js_sort sorted_wrt_js_sort [OF consistent_by_name [OF assms]])

theorem listing_children_sorted_witness:
  "\<exists>ds fs. toChildren by_length demo_listing = ds @ fs \<and> mset ds = mset (map dir_node (directories demo_listing)) \<and>
    mset fs = mset (map file_node (files demo_listing)) \<and>
    sorted_wrt (\<lambda>a b. by_length (nname a) (nname b) \<le> 0) ds \<and>
    sorted_wrt (\<lambda>a b. by_length (nname a) (nname b) \<le> 0) fs"
  by (rule listing_children_sorted) (auto simp: consistent_cmp_def by_length_def)

text \<open>
  The tree shows every node once: where files have no children, the paths of the
  rows are the paths of the nodes, in the order of the tree.
\<close>

theorem tree_rows_complete:
  assumes "files_are_leaves ns"
  shows "row_paths (renderNodes st ns) = all_paths ns"
  by (rule row_paths_render [OF assms])

theorem tree_rows_complete_witness:
  "row_paths (renderNodes init_fs (tree (page (fs_run by_length demo_loaded))))
     = [''/srv'', ''/srv/logs'', ''/srv/b.zip'', ''/srv/site.json'']"
proof -
  have "files_are_leaves (tree (page (fs_run by_length demo_loaded)))" by code_simp
  moreover have "all_paths (tree (page (fs_run by_length demo_loaded)))
     = [''/srv'', ''/srv/logs'', ''/srv/b.zip'', ''/srv/site.json'']" by code_simp
  ultimately show ?thesis by (simp add: tree_rows_complete)
qed

text \<open>
  The context menu has three rows on the empty panel and on a drive, eight on a folder, ten
  on a file and eleven on a zip archive; a comment in the code says nine, eleven and twelve.
\<close>

theorem menu_row_counts:
  "length (visible_items node) =
     (case node of None \<Rightarrow> 3
      | Some n \<Rightarrow> (case ntype n of NDrive \<Rightarrow> 3 | NDirectory \<Rightarrow> 8
          | NFile \<Rightarrow> if ends_with_ci (nname n) ''.zip'' then 11 else 10))"
proof (cases node)
  case (Some n)
  then show ?thesis using visible_items_cases(2-4) [of n] by (cases "ntype n") auto
qed (simp add: visible_items_cases(1))

end
