(* ===== verification/JsNumber.thy ===== *)
theory JsNumber
  imports Complex_Main JsString
begin

text \<open>
  The numbers the dashboard computes with. Counts and sizes are non-negative safe
  integers (below $2^{53}$), modelled as \<open>nat\<close>; where the code divides or multiplies, the
  result is the IEEE 754 double nearest to the exact rational, ties to even. \<open>dbl\<close>
  performs that rounding for the range in which the code uses it, \<open>0 \<le> q < 2^53\<close>
  (subnormal numbers, below $2^{-1022}$, are not reached: the smallest quotient is one over
  a safe integer). \<open>math_round\<close> is \<open>Math.round\<close> and \<open>to_fixed\<close> is
  \<open>Number.prototype.toFixed\<close> on such values.
\<close>

subsection \<open>Rounding to a double\<close>

definition round_half_even :: "rat \<Rightarrow> int" where
  "round_half_even x =
     (let f = \<lfloor>x\<rfloor>; d = x - of_int f in
      if d < 1/2 then f else if 1/2 < d then f + 1 else if even f then f else f + 1)"

text \<open>How often \<open>q\<close> is doubled to bring it into the range of 53-bit significands.\<close>

function scale_of :: "rat \<Rightarrow> nat" where
  "scale_of q = (if q \<le> 0 \<or> 2^52 \<le> q then 0 else Suc (scale_of (2 * q)))"
  by pat_completeness auto
termination
proof (relation "measure (\<lambda>q. nat \<lceil>2^52 / q\<rceil>)")
  fix q :: rat
  assume q: "\<not> (q \<le> 0 \<or> 2^52 \<le> q)"
  define x :: rat where "x = 2^52 / q"
  have x1: "1 < x" using q by (simp add: x_def divide_simps)
  have eq: "(2^52 :: rat) / (2 * q) = x / 2" by (simp add: x_def)
  have "2 \<le> \<lceil>x\<rceil>" using x1 by (simp add: le_ceiling_iff)
  then have two: "(2::rat) \<le> of_int \<lceil>x\<rceil>" by linarith
  have "x \<le> of_int \<lceil>x\<rceil>" by linarith
  with two have "x / 2 \<le> of_int (\<lceil>x\<rceil> - 1)" unfolding of_int_diff of_int_1 by linarith
  then have "\<lceil>x / 2\<rceil> \<le> \<lceil>x\<rceil> - 1" by (rule ceiling_le)
  then have "\<lceil>x / 2\<rceil> < \<lceil>x\<rceil>" by linarith
  moreover have "0 < \<lceil>x\<rceil>" using x1 by linarith
  ultimately have "nat \<lceil>x / 2\<rceil> < nat \<lceil>x\<rceil>" by linarith
  then show "(2 * q, q) \<in> measure (\<lambda>q. nat \<lceil>2^52 / q\<rceil>)"
    unfolding in_measure eq by (simp add: x_def)
qed simp

declare scale_of.simps [simp del]

definition dbl :: "rat \<Rightarrow> rat" where
  "dbl q = (if q \<le> 0 then 0
            else of_int (round_half_even (q * 2 ^ scale_of q)) / 2 ^ scale_of q)"

lemma round_half_even_of_int [simp]: "round_half_even (of_int n) = n"
  by (simp add: round_half_even_def)

lemma round_half_even_near: "\<bar>of_int (round_half_even x) - x\<bar> \<le> 1/2"
proof -
  have "of_int \<lfloor>x\<rfloor> \<le> x" "x < of_int \<lfloor>x\<rfloor> + 1" by linarith+
  then show ?thesis unfolding round_half_even_def Let_def abs_le_iff
    by (auto split: if_splits; linarith)
qed

lemma round_half_even_mono:
  assumes "x \<le> y"
  shows "round_half_even x \<le> round_half_even y"
proof (cases "\<lfloor>x\<rfloor> = \<lfloor>y\<rfloor>")
  case True
  with assms show ?thesis by (auto simp: round_half_even_def Let_def)
next
  case False
  with assms have less: "\<lfloor>x\<rfloor> + 1 \<le> \<lfloor>y\<rfloor>" using floor_mono [OF assms] by linarith
  have "round_half_even x \<le> \<lfloor>x\<rfloor> + 1" and "\<lfloor>y\<rfloor> \<le> round_half_even y"
    by (auto simp: round_half_even_def Let_def)
  with less show ?thesis by linarith
qed

lemma scale_of_big: "2^52 \<le> q \<Longrightarrow> scale_of q = 0"
  by (simp add: scale_of.simps [of q])

lemma scale_of_lower: "0 < q \<Longrightarrow> 2^52 \<le> q * 2 ^ scale_of q"
proof (induction q rule: scale_of.induct)
  case (1 q)
  show ?case
  proof (cases "2^52 \<le> q")
    case True
    then show ?thesis by (simp add: scale_of_big)
  next
    case False
    with 1 have "2^52 \<le> 2 * q * 2 ^ scale_of (2 * q)" by simp
    with False 1 show ?thesis by (simp add: scale_of.simps [of q] mult.assoc mult.left_commute)
  qed
qed

lemma scale_of_upper: "0 < q \<Longrightarrow> q < 2^53 \<Longrightarrow> q * 2 ^ scale_of q < 2^53"
proof (induction q rule: scale_of.induct)
  case (1 q)
  show ?case
  proof (cases "2^52 \<le> q")
    case True
    with 1 show ?thesis by (simp add: scale_of_big)
  next
    case False
    then have "2 * q < 2^53" by simp
    with 1 False have "2 * q * 2 ^ scale_of (2 * q) < 2^53" by simp
    with False 1 show ?thesis by (simp add: scale_of.simps [of q] mult.assoc mult.left_commute)
  qed
qed

lemma scale_of_antimono: "0 < p \<Longrightarrow> p \<le> q \<Longrightarrow> scale_of q \<le> scale_of p"
proof (induction p arbitrary: q rule: scale_of.induct)
  case (1 p)
  show ?case
  proof (cases "2^52 \<le> q")
    case True
    then show ?thesis by (simp add: scale_of_big)
  next
    case False
    with 1 have "scale_of (2 * q) \<le> scale_of (2 * p)" by simp
    with False 1 show ?thesis by (simp add: scale_of.simps [of p] scale_of.simps [of q])
  qed
qed

lemma dbl_nonneg: "0 \<le> dbl q"
proof (cases "0 < q")
  case True
  have "round_half_even 0 \<le> round_half_even (q * 2 ^ scale_of q)"
    using True by (intro round_half_even_mono) simp
  then show ?thesis
    using True round_half_even_of_int [of 0] by (simp add: dbl_def)
qed (simp add: dbl_def)

lemma rhe_bounds:
  assumes "0 < q" and "q < 2^53"
  shows "2^52 \<le> round_half_even (q * 2 ^ scale_of q)"
    and "round_half_even (q * 2 ^ scale_of q) \<le> 2^53"
proof -
  have "round_half_even (of_int (2^52)) \<le> round_half_even (q * 2 ^ scale_of q)"
    using scale_of_lower [OF assms(1)] by (intro round_half_even_mono) simp
  then show "2^52 \<le> round_half_even (q * 2 ^ scale_of q)"
    unfolding round_half_even_of_int .
  have "round_half_even (q * 2 ^ scale_of q) \<le> round_half_even (of_int (2^53))"
    using scale_of_upper [OF assms] by (intro round_half_even_mono) simp
  then show "round_half_even (q * 2 ^ scale_of q) \<le> 2^53"
    unfolding round_half_even_of_int .
qed

lemma dbl_mono_scaled:
  assumes "0 < p" and "p \<le> q" and "q < 2^53" and "scale_of q < scale_of p"
  shows "dbl p \<le> dbl q"
proof -
  let ?s = "scale_of p" and ?t = "scale_of q"
  let ?m = "round_half_even (p * 2 ^ ?s)" and ?n = "round_half_even (q * 2 ^ ?t)"
  have p: "?m \<le> 2^53" and q: "2^52 \<le> ?n" using assms rhe_bounds [of p] rhe_bounds [of q] by simp_all
  have "(2::rat) ^ Suc ?t \<le> 2 ^ ?s" using assms(4) by (intro power_increasing) auto
  then have "of_int ?m * 2 ^ ?t \<le> (of_int (2^53) :: rat) * 2 ^ ?t"
    and "(of_int (2^53) :: rat) * 2 ^ ?t \<le> of_int (2^52) * 2 ^ ?s"
    and "(of_int (2^52) :: rat) * 2 ^ ?s \<le> of_int ?n * 2 ^ ?s"
    using p q by (simp_all add: mult_right_mono)
  then have "of_int ?m * 2 ^ ?t \<le> (of_int ?n :: rat) * 2 ^ ?s" by linarith
  then have "(of_int ?m :: rat) / 2 ^ ?s \<le> of_int ?n / 2 ^ ?t"
    by (simp add: divide_simps mult.commute)
  then show ?thesis using assms by (simp add: dbl_def)
qed

lemma dbl_mono:
  assumes "p \<le> q" and "q < 2^53"
  shows "dbl p \<le> dbl q"
proof (cases "0 < p")
  case False
  then have "dbl p = 0" by (simp add: dbl_def)
  then show ?thesis by (simp add: dbl_nonneg)
next
  case True
  show ?thesis
  proof (cases "scale_of q = scale_of p")
    case eq: True
    have "round_half_even (p * 2 ^ scale_of p) \<le> round_half_even (q * 2 ^ scale_of p)"
      using assms True by (intro round_half_even_mono mult_right_mono) auto
    then show ?thesis using True assms eq by (simp add: dbl_def divide_right_mono)
  next
    case False
    with scale_of_antimono [OF True assms(1)] have "scale_of q < scale_of p" by simp
    then show ?thesis using dbl_mono_scaled [OF True assms] by simp
  qed
qed

text \<open>A rational with a denominator a power of two and few bits is its own double.\<close>

lemma dbl_dyadic:
  assumes "q * 2 ^ scale_of q = of_int k" and "0 \<le> q"
  shows "dbl q = q"
proof (cases "q = 0")
  case False
  have "dbl q = of_int k / 2 ^ scale_of q"
    using assms False by (simp add: dbl_def)
  also have "\<dots> = q" using assms(1) by (simp add: field_simps)
  finally show ?thesis .
qed (simp add: dbl_def)

lemma dbl_of_nat [simp]: "dbl (of_nat n) = of_nat n"
proof (rule dbl_dyadic [where k = "int n * 2 ^ scale_of (of_nat n)"])
  show "(of_nat n :: rat) * 2 ^ scale_of (of_nat n) = of_int (int n * 2 ^ scale_of (of_nat n))"
    by simp
qed simp

lemma dbl_0 [simp]: "dbl 0 = 0" and dbl_1 [simp]: "dbl 1 = 1"
  using dbl_of_nat [of 0] dbl_of_nat [of 1] by simp_all

lemma dbl_numeral [simp]: "dbl (numeral k) = numeral k"
  using dbl_of_nat [of "numeral k"] by simp

text \<open>Dividing an integer below $2^{53}$ by $2^k$ loses nothing.\<close>

lemma scale_of_halves:
  "0 < q \<Longrightarrow> q < 2^53 \<Longrightarrow> scale_of (q / 2) = Suc (scale_of q)"
  by (simp add: scale_of.simps [of "q / 2"])

lemma scale_of_ge_needed:
  assumes "0 < q" and "q < 2^53"
  shows "k \<le> scale_of (q / 2 ^ k)"
proof (induction k)
  case 0
  show ?case by simp
next
  case (Suc k)
  have "q / 2 ^ k \<le> q / 1" using assms by (intro divide_left_mono) auto
  then have "scale_of (q / 2 ^ k / 2) = Suc (scale_of (q / 2 ^ k))"
    using assms by (intro scale_of_halves) auto
  with Suc show ?case by (simp add: mult.commute)
qed

lemma dbl_div_power2:
  assumes "n < 2^53"
  shows "dbl (of_nat n / 2 ^ k) = of_nat n / 2 ^ k"
proof (cases "n = 0")
  case False
  have "of_nat n < (2::rat) ^ 53"
    using assms by (metis of_nat_less_iff of_nat_numeral of_nat_power)
  with False have "k \<le> scale_of (of_nat n / 2 ^ k)" by (intro scale_of_ge_needed) auto
  then obtain j where j: "scale_of (of_nat n / 2 ^ k) = k + j" using le_Suc_ex by blast
  show ?thesis
    by (rule dbl_dyadic [where k = "int n * 2 ^ j"]) (simp_all add: j power_add)
qed simp

subsection \<open>\<open>Math.round\<close>, \<open>toFixed\<close>\<close>

definition math_round :: "rat \<Rightarrow> int" where
  "math_round x = \<lfloor>x + 1/2\<rfloor>"

lemma math_round_mono: "x \<le> y \<Longrightarrow> math_round x \<le> math_round y"
  unfolding math_round_def by (rule floor_mono) simp

lemma math_round_of_int [simp]: "math_round (of_int n) = n"
  unfolding math_round_def by linarith

text \<open>
  \<open>x.toFixed(d)\<close> for \<open>0 \<le> x\<close>: the integer nearest to \<open>x * 10^d\<close>, the larger one on a tie,
  printed with \<open>d\<close> digits after the point.
\<close>

definition fixed_units :: "nat \<Rightarrow> rat \<Rightarrow> nat" where
  "fixed_units d x = nat \<lfloor>x * 10 ^ d + 1/2\<rfloor>"

definition pad_zeros :: "nat \<Rightarrow> string \<Rightarrow> string" where
  "pad_zeros k s = replicate (k - length s) (CHR ''0'') @ s"

definition to_fixed :: "nat \<Rightarrow> rat \<Rightarrow> string" where
  "to_fixed d x =
     (let n = fixed_units d x in
      if d = 0 then nat_to_string n
      else nat_to_string (n div 10 ^ d) @ ''.'' @ pad_zeros d (nat_to_string (n mod 10 ^ d)))"

lemma fixed_units_error:
  assumes "0 \<le> x"
  shows "\<bar>of_nat (fixed_units d x) / 10 ^ d - x\<bar> \<le> 1 / (2 * 10 ^ d)"
proof -
  let ?n = "\<lfloor>x * 10 ^ d + 1/2\<rfloor>"
  have "0 \<le> x * 10 ^ d" using assms by simp
  then have "0 \<le> ?n" by linarith
  then have n: "(of_nat (fixed_units d x) :: rat) = of_int ?n" by (simp add: fixed_units_def)
  have "\<bar>of_int ?n - x * 10 ^ d\<bar> \<le> 1/2" by linarith
  then have "\<bar>of_int ?n - x * 10 ^ d\<bar> / 10 ^ d \<le> (1/2) / 10 ^ d"
    by (intro divide_right_mono) auto
  moreover have "\<bar>of_int ?n - x * 10 ^ d\<bar> / 10 ^ d = \<bar>(of_int ?n - x * 10 ^ d) / 10 ^ d\<bar>"
    by simp
  moreover have "(of_int ?n - x * 10 ^ d) / 10 ^ d = of_int ?n / 10 ^ d - x"
    by (simp add: diff_divide_distrib)
  ultimately show ?thesis by (simp add: n)
qed

lemma fixed_units_mono: "x \<le> y \<Longrightarrow> fixed_units d x \<le> fixed_units d y"
  unfolding fixed_units_def by (intro nat_mono floor_mono add_right_mono mult_right_mono) auto

end
