(* ===== verification/UploadEngine.thy ===== *)
theory UploadEngine
  imports ServiceResult JsNumber
begin

text \<open>
  The upload engine of the file page, the hook \<open>useUpload\<close> of
  \<open>web/src/pages/filestorage/hooks/useUpload.ts\<close>. Its refs and its task list are the
  fields of a state; the single \<open>drain\<close> loop that may be running is represented by the
  place where it waits (\<open>upload_pc\<close>): for a whole-file request, for one attempt at a
  chunk, for the back-off timer, or for the merge. An event is a call of one of the hook's
  functions, the settling of the request in flight, or the timer; its result is the next
  state and the effects in the code's order. Ids made by \<open>createUploadId\<close> come with the
  event.
\<close>

definition CHUNK_SIZE :: nat where "CHUNK_SIZE = 5 * 1024 * 1024"
definition CHUNK_THRESHOLD :: nat where "CHUNK_THRESHOLD = 5 * 1024 * 1024"
definition MAX_CHUNK_RETRIES :: nat where "MAX_CHUNK_RETRIES = 3"

datatype UploadStatus = Pending | Uploading | Merging | Success | Failed | Canceled

record UploadTask =
  up_id :: string
  up_file :: blob
  up_fileName :: string
  up_target :: string
  up_drives :: string
  up_size :: nat
  totalChunks :: nat
  uploadedChunks :: nat
  progress :: int
  status :: UploadStatus
  up_error :: "err_text option"

subsection \<open>Patches of the task list\<close>

datatype task_patch = PatchStart | PatchSingleDone | PatchUploaded nat int | PatchMerging
  | PatchDone | PatchEnd bool err_text | PatchSkipped

fun apply_task_patch :: "task_patch \<Rightarrow> UploadTask \<Rightarrow> UploadTask" where
  "apply_task_patch PatchStart t =
     t\<lparr>status := Uploading, progress := 0, uploadedChunks := 0, up_error := None\<rparr>"
| "apply_task_patch PatchSingleDone t = t\<lparr>progress := 100, uploadedChunks := 1, status := Success\<rparr>"
| "apply_task_patch (PatchUploaded u p) t = t\<lparr>uploadedChunks := u, progress := p\<rparr>"
| "apply_task_patch PatchMerging t = t\<lparr>status := Merging, progress := 99\<rparr>"
| "apply_task_patch PatchDone t = t\<lparr>status := Success, progress := 100\<rparr>"
| "apply_task_patch (PatchEnd c e) t =
     t\<lparr>status := (if c then Canceled else Failed), up_error := (if c then None else Some e)\<rparr>"
| "apply_task_patch PatchSkipped t = t\<lparr>status := Canceled\<rparr>"

definition patchTask :: "string \<Rightarrow> task_patch \<Rightarrow> UploadTask list \<Rightarrow> UploadTask list" where
  "patchTask i p ts = patch_by up_id i (apply_task_patch p) ts"

lemma up_id_apply [simp]: "up_id (apply_task_patch p t) = up_id t"
  by (cases p) simp_all

interpretation task_store: keyed_store up_id apply_task_patch patchTask
  by unfold_locales (simp_all add: patchTask_def)

subsection \<open>State and effects\<close>

datatype upload_pc = AtIdle | AtSingle UploadTask | AtChunk UploadTask nat nat
  | AtBackoff UploadTask nat nat | AtMerge UploadTask

record upload_state =
  up_tasks :: "UploadTask list"
  queue :: "UploadTask list"
  running :: bool
  canceled :: "string list"
  controllers :: "string list"
  pc :: upload_pc

datatype upload_effect = SendUpload UploadTask | SendChunk UploadTask nat "nat list"
  | SendMerge UploadTask | SendAbort UploadTask | StartTimer nat | AbortFetch string
  | FileDone UploadTask | UploadToast string err_text | UnhandledUpload err_text

type_synonym upload_result = "upload_state \<times> upload_effect list"

definition init_upload :: upload_state where
  "init_upload = \<lparr>up_tasks = [], queue = [], running = False, canceled = [], controllers = [],
     pc = AtIdle\<rparr>"

definition patch_state :: "string \<Rightarrow> task_patch \<Rightarrow> upload_state \<Rightarrow> upload_state" where
  "patch_state i p st = st\<lparr>up_tasks := patchTask i p (up_tasks st)\<rparr>"

definition add_first :: "upload_effect list \<Rightarrow> upload_result \<Rightarrow> upload_result" where
  "add_first es r = (fst r, es @ snd r)"

subsection \<open>Chunks and progress\<close>

definition total_chunks :: "nat \<Rightarrow> nat" where
  "total_chunks n =
     (if CHUNK_THRESHOLD < n then nat \<lceil>dbl (of_nat n / of_nat CHUNK_SIZE)\<rceil> else 1)"

definition chunk_slice :: "UploadTask \<Rightarrow> nat \<Rightarrow> nat list" where
  "chunk_slice t index =
     (let start = index * CHUNK_SIZE in
      take (min (start + CHUNK_SIZE) (up_size t) - start) (drop start (blob_bytes (up_file t))))"

definition chunk_progress :: "nat \<Rightarrow> nat \<Rightarrow> int" where
  "chunk_progress uploaded n = math_round (dbl (dbl (of_nat uploaded / of_nat n) * 98))"

definition create_task :: "string \<Rightarrow> string \<Rightarrow> string \<Rightarrow> blob \<Rightarrow> UploadTask" where
  "create_task targetPath drives i f =
     \<lparr>up_id = i, up_file = f, up_fileName = blob_name f, up_target = targetPath,
      up_drives = drives, up_size = length (blob_bytes f),
      totalChunks = total_chunks (length (blob_bytes f)), uploadedChunks = 0, progress = 0,
      status = Pending, up_error = None\<rparr>"

subsection \<open>One task: \<open>uploadOne\<close>\<close>

text \<open>
  The exceptions that reach the outer \<open>catch\<close>: \<open>None\<close> is \<open>UploadCanceled\<close>. The clean-up
  request is built inside the \<open>catch\<close>, so a check that fails there escapes: \<open>drain\<close> ends
  in its \<open>finally\<close> and nothing is patched.
\<close>

definition task_failed :: "UploadTask \<Rightarrow> err_text option \<Rightarrow> upload_state \<Rightarrow> upload_result" where
  "task_failed t exn st =
     (let cancel = (exn = None \<or> up_id t \<in> set (canceled st));
          message = (case exn of None \<Rightarrow> AbortText | Some e \<Rightarrow> e);
          ended = (patch_state (up_id t) (PatchEnd cancel message) st)\<lparr>pc := AtIdle\<rparr>;
          told = (if cancel then [] else [UploadToast (up_fileName t) message])
      in if 1 < totalChunks t then
           (case abortUpload (up_target t) (up_drives t) (up_id t) of
              Inl e \<Rightarrow> (st\<lparr>pc := AtIdle, running := False\<rparr>, [UnhandledUpload (ServiceText e)])
            | Inr req \<Rightarrow> (ended, SendAbort t # told))
         else (ended, told))"

definition drop_controller :: "UploadTask \<Rightarrow> upload_state \<Rightarrow> upload_state" where
  "drop_controller t st = st\<lparr>controllers := removeAll (up_id t) (controllers st)\<rparr>"

definition attempt_failed :: "UploadTask \<Rightarrow> nat \<Rightarrow> nat \<Rightarrow> err_text \<Rightarrow> upload_state \<Rightarrow> upload_result" where
  "attempt_failed t index attempt e st =
     (if up_id t \<in> set (canceled st) then task_failed t None (drop_controller t st)
      else if attempt < MAX_CHUNK_RETRIES then
        (st\<lparr>pc := AtBackoff t index attempt\<rparr>, [StartTimer (500 * 2 ^ attempt)])
      else task_failed t (Some e) (drop_controller t st))"

definition begin_attempt :: "UploadTask \<Rightarrow> nat \<Rightarrow> nat \<Rightarrow> upload_state \<Rightarrow> upload_result" where
  "begin_attempt t index attempt st =
     (let st1 = st\<lparr>controllers := List.insert (up_id t) (controllers st)\<rparr> in
      case uploadFileChunk (Some (chunk_slice t index)) (up_target t) (up_drives t) (up_id t)
             index (totalChunks t) of
        Inl e \<Rightarrow> attempt_failed t index attempt (ServiceText e) st1
      | Inr req \<Rightarrow> (st1\<lparr>pc := AtChunk t index attempt\<rparr>, [SendChunk t index (chunk_slice t index)]))"

definition begin_merge :: "UploadTask \<Rightarrow> upload_state \<Rightarrow> upload_result" where
  "begin_merge t st =
     (let st1 = patch_state (up_id t) PatchMerging st in
      case mergeFileChunks (up_target t) (up_drives t) (up_fileName t) (up_id t) (totalChunks t) of
        Inl e \<Rightarrow> task_failed t (Some (ServiceText e)) st1
      | Inr req \<Rightarrow> (st1\<lparr>pc := AtMerge t\<rparr>, [SendMerge t]))"

text \<open>The head of the chunk loop at \<open>index\<close>.\<close>

definition begin_chunk :: "UploadTask \<Rightarrow> nat \<Rightarrow> upload_state \<Rightarrow> upload_result" where
  "begin_chunk t index st =
     (if \<not> index < totalChunks t then begin_merge t st
      else if up_id t \<in> set (canceled st) then task_failed t None st
      else begin_attempt t index 0 st)"

definition uploadOne :: "UploadTask \<Rightarrow> upload_state \<Rightarrow> upload_result" where
  "uploadOne t st =
     (let st1 = patch_state (up_id t) PatchStart st in
      if totalChunks t \<le> 1 then
        (case uploadFile (Some (up_file t)) (up_target t) (up_drives t) of
           Inl e \<Rightarrow> task_failed t (Some (ServiceText e)) st1
         | Inr req \<Rightarrow> (st1\<lparr>pc := AtSingle t\<rparr>, [SendUpload t]))
      else begin_chunk t 0 st1)"

subsection \<open>The queue: \<open>drain\<close>\<close>

text \<open>\<open>uploadOne\<close> has returned exactly if the loop is at no wait and has not been left.\<close>

fun drain_loop :: "UploadTask list \<Rightarrow> upload_state \<Rightarrow> upload_result" where
  "drain_loop [] st = (st\<lparr>queue := [], running := False\<rparr>, [])"
| "drain_loop (t # ts) st =
     (let st1 = st\<lparr>queue := ts\<rparr> in
      if up_id t \<in> set (canceled st) then drain_loop ts (patch_state (up_id t) PatchSkipped st1)
      else let r = uploadOne t st1 in
        if pc (fst r) = AtIdle \<and> running (fst r) then add_first (snd r) (drain_loop ts (fst r)) else r)"

definition drain :: "upload_state \<Rightarrow> upload_result" where
  "drain st = (if running st then (st, []) else drain_loop (queue st) (st\<lparr>running := True\<rparr>))"

text \<open>Back in \<open>drain\<close> after a wait: the rest of \<open>uploadOne\<close>, then the loop.\<close>

definition continue_drain :: "upload_result \<Rightarrow> upload_result" where
  "continue_drain r =
     (if pc (fst r) = AtIdle \<and> running (fst r)
      then add_first (snd r) (drain_loop (queue (fst r)) (fst r)) else r)"

subsection \<open>The hook's functions\<close>

definition enqueue :: "string list \<Rightarrow> blob list \<Rightarrow> string \<Rightarrow> string \<Rightarrow> upload_state \<Rightarrow> upload_result" where
  "enqueue ids fs targetPath drives st =
     (let created = map2 (create_task targetPath drives) ids fs in
      drain (st\<lparr>up_tasks := up_tasks st @ created, queue := queue st @ created\<rparr>))"

definition cancelTask :: "string \<Rightarrow> upload_state \<Rightarrow> upload_result" where
  "cancelTask i st =
     (st\<lparr>canceled := List.insert i (canceled st)\<rparr>,
      if i \<in> set (controllers st) then [AbortFetch i] else [])"

definition find_task :: "string \<Rightarrow> UploadTask list \<Rightarrow> UploadTask option" where
  "find_task i ts = List.find (\<lambda>t. up_id t = i) ts"

definition renew :: "string \<Rightarrow> UploadTask \<Rightarrow> UploadTask" where
  "renew i t = t\<lparr>up_id := i, uploadedChunks := 0, progress := 0, status := Pending, up_error := None\<rparr>"

definition retryTask :: "string \<Rightarrow> string \<Rightarrow> upload_state \<Rightarrow> upload_result" where
  "retryTask i fresh st =
     (case find_task i (up_tasks st) of
        None \<Rightarrow> (st, [])
      | Some old \<Rightarrow>
          let next' = renew fresh old in
          drain (st\<lparr>up_tasks := filter (\<lambda>t. up_id t \<noteq> i) (up_tasks st) @ [next'],
                    queue := queue st @ [next']\<rparr>))"

definition clearFinished :: "upload_state \<Rightarrow> upload_result" where
  "clearFinished st =
     (st\<lparr>up_tasks := filter (\<lambda>t. status t \<noteq> Success \<and> status t \<noteq> Canceled) (up_tasks st)\<rparr>, [])"

definition activeCount :: "upload_state \<Rightarrow> nat" where
  "activeCount st = length (filter (\<lambda>t. status t \<in> {Pending, Uploading, Merging}) (up_tasks st))"

subsection \<open>Answers and timers\<close>

definition settled_upload :: "unit settled \<Rightarrow> upload_state \<Rightarrow> upload_result" where
  "settled_upload s st =
     (case pc st of
        AtSingle t \<Rightarrow>
          continue_drain (case expect_success FbUpload s of
             Inl e \<Rightarrow> task_failed t (Some e) st
           | Inr _ \<Rightarrow> ((patch_state (up_id t) PatchSingleDone st)\<lparr>pc := AtIdle\<rparr>, [FileDone t]))
      | AtChunk t index attempt \<Rightarrow>
          continue_drain (case expect_success (FbChunk (index + 1)) s of
             Inl e \<Rightarrow> attempt_failed t index attempt e st
           | Inr _ \<Rightarrow>
               begin_chunk t (index + 1)
                 (patch_state (up_id t)
                    (PatchUploaded (index + 1) (chunk_progress (index + 1) (totalChunks t)))
                    (drop_controller t st)))
      | AtMerge t \<Rightarrow>
          continue_drain (case expect_success FbMerge s of
             Inl e \<Rightarrow> task_failed t (Some e) st
           | Inr _ \<Rightarrow> ((patch_state (up_id t) PatchDone st)\<lparr>pc := AtIdle\<rparr>, [FileDone t]))
      | _ \<Rightarrow> (st, []))"

definition timer_fired :: "upload_state \<Rightarrow> upload_result" where
  "timer_fired st =
     (case pc st of
        AtBackoff t index attempt \<Rightarrow>
          continue_drain (begin_attempt t index (attempt + 1) (drop_controller t st))
      | _ \<Rightarrow> (st, []))"

datatype upload_event = UEnqueue "string list" "blob list" string string | UCancel string
  | URetry string string | UClear | USettle "unit settled" | UTimer

fun upload_handle :: "upload_event \<Rightarrow> upload_state \<Rightarrow> upload_result" where
  "upload_handle (UEnqueue ids fs p d) st = enqueue ids fs p d st"
| "upload_handle (UCancel i) st = cancelTask i st"
| "upload_handle (URetry i fresh) st = retryTask i fresh st"
| "upload_handle UClear st = clearFinished st"
| "upload_handle (USettle s) st = settled_upload s st"
| "upload_handle UTimer st = timer_fired st"

end
