(* ===== verification/UploadChunks.thy ===== *)
theory UploadChunks
  imports UploadEngine
begin

text \<open>
  The arithmetic of the upload engine: how many chunks a file has, that the slices are the
  file cut into consecutive non-empty pieces of at most \<open>CHUNK_SIZE\<close> bytes, and that the
  percentage shown is monotone, at most 98 before the merge, and 0 at the start.
\<close>

subsection \<open>The number of chunks\<close>

text \<open>
  The quotient is a double, but for a file below \<open>2^52\<close> bytes the ceiling is that of the
  exact quotient.
\<close>

lemma ceiling_dbl_exact:
  assumes "0 < n" and "n < 2^52"
  shows "nat \<lceil>dbl (of_nat n / of_nat CHUNK_SIZE)\<rceil> = (n + CHUNK_SIZE - 1) div CHUNK_SIZE"
proof -
  define k where "k = (n - 1) div CHUNK_SIZE"
  have C: "CHUNK_SIZE = 5242880" by (simp add: CHUNK_SIZE_def)
  have split: "n - 1 = k * 5242880 + (n - 1) mod 5242880" "(n - 1) mod 5242880 < 5242880"
    by (simp_all add: k_def C)
  have lo: "k * CHUNK_SIZE < n" and hi: "n \<le> (k + 1) * CHUNK_SIZE"
    using assms(1) split unfolding C by simp_all
  have k: "k < 2^30" using lo assms(2) unfolding C by simp
  have up: "dbl (of_nat n / of_nat CHUNK_SIZE) \<le> of_nat (k + 1)"
  proof -
    have "(of_nat n :: rat) / of_nat CHUNK_SIZE \<le> of_nat (k + 1)"
    proof -
      have "(of_nat n :: rat) \<le> of_nat ((k + 1) * CHUNK_SIZE)" using hi by (simp only: of_nat_le_iff)
      then show ?thesis by (simp add: C field_simps)
    qed
    moreover have "(of_nat (k + 1) :: rat) < 2^53"
    proof -
      have "k + 1 < 2^53" using k by simp
      then have "of_nat (k + 1) < (of_nat (2^53) :: rat)" by (simp only: of_nat_less_iff)
      then show ?thesis by simp
    qed
    ultimately have "dbl (of_nat n / of_nat CHUNK_SIZE) \<le> dbl (of_nat (k + 1))" by (rule dbl_mono)
    then show ?thesis by (simp only: dbl_of_nat)
  qed
  have down: "of_nat k < dbl (of_nat n / of_nat CHUNK_SIZE)"
  proof -
    let ?m = "k * 2^23 + 1"
    have m: "?m < 2^53" using k by simp
    have "(of_nat ?m :: rat) * of_nat CHUNK_SIZE \<le> of_nat n * 2^23"
    proof -
      have "?m * CHUNK_SIZE \<le> n * 2^23" using lo unfolding C by simp
      then have "(of_nat (?m * CHUNK_SIZE) :: rat) \<le> of_nat (n * 2^23)" by (simp only: of_nat_le_iff)
      then show ?thesis by (simp add: algebra_simps)
    qed
    then have le: "(of_nat ?m :: rat) / 2^23 \<le> of_nat n / of_nat CHUNK_SIZE"
      by (simp add: C field_simps)
    have lt: "(of_nat n :: rat) / of_nat CHUNK_SIZE < 2^53"
    proof -
      have "(of_nat n :: rat) < of_nat (2^52)" using assms(2) by (simp only: of_nat_less_iff)
      then show ?thesis by (simp add: C field_simps)
    qed
    have "(of_nat k :: rat) < of_nat ?m / 2^23" by (simp add: field_simps)
    also have "\<dots> = dbl (of_nat ?m / 2^23)" by (rule dbl_div_power2 [symmetric, OF m])
    also have "\<dots> \<le> dbl (of_nat n / of_nat CHUNK_SIZE)" by (rule dbl_mono [OF le lt])
    finally show ?thesis .
  qed
  have "\<lceil>dbl (of_nat n / of_nat CHUNK_SIZE)\<rceil> = int (k + 1)"
    by (rule ceiling_unique) (use up down in simp_all)
  moreover have "(n + CHUNK_SIZE - 1) div CHUNK_SIZE = k + 1"
    using assms(1) split unfolding C by simp
  ultimately show ?thesis by simp
qed

lemma total_chunks_eq:
  assumes "n < 2^52"
  shows "total_chunks n = (if CHUNK_THRESHOLD < n then (n + CHUNK_SIZE - 1) div CHUNK_SIZE else 1)"
  using assms ceiling_dbl_exact [of n] by (simp add: total_chunks_def)

lemma total_chunks_bounds:
  assumes "n < 2^52" and "1 < total_chunks n"
  shows "n \<le> total_chunks n * CHUNK_SIZE" and "(total_chunks n - 1) * CHUNK_SIZE < n"
proof -
  have big: "CHUNK_THRESHOLD < n" using assms(2) by (auto simp: total_chunks_def split: if_splits)
  have C: "CHUNK_SIZE = 5242880" by (simp add: CHUNK_SIZE_def)
  have "total_chunks n = (n + 5242879) div 5242880"
    using total_chunks_eq [OF assms(1)] big by (simp add: C)
  then show "n \<le> total_chunks n * CHUNK_SIZE" "(total_chunks n - 1) * CHUNK_SIZE < n"
    using big unfolding C CHUNK_THRESHOLD_def by linarith+
qed

subsection \<open>Slices\<close>

definition sized :: "UploadTask \<Rightarrow> bool" where
  "sized t \<longleftrightarrow> up_size t = length (blob_bytes (up_file t)) \<and> totalChunks t = total_chunks (up_size t)"

lemma chunk_slice_take:
  assumes "up_size t = length (blob_bytes (up_file t))"
  shows "chunk_slice t i = take CHUNK_SIZE (drop (i * CHUNK_SIZE) (blob_bytes (up_file t)))"
  using assms by (auto simp: chunk_slice_def Let_def min_def)

lemma slices_take:
  assumes "up_size t = length (blob_bytes (up_file t))"
  shows "concat (map (chunk_slice t) [0..<n]) = take (n * CHUNK_SIZE) (blob_bytes (up_file t))"
proof (induction n)
  case (Suc n)
  have "take (Suc n * CHUNK_SIZE) (blob_bytes (up_file t))
      = take (n * CHUNK_SIZE) (blob_bytes (up_file t))
        @ take CHUNK_SIZE (drop (n * CHUNK_SIZE) (blob_bytes (up_file t)))"
    using take_add [of "n * CHUNK_SIZE" CHUNK_SIZE "blob_bytes (up_file t)"]
    by (simp only: mult_Suc add.commute [of CHUNK_SIZE])
  then show ?case using Suc by (simp add: chunk_slice_take [OF assms])
qed simp

lemma slices_concat:
  assumes "sized t" and "up_size t < 2^52" and "1 < totalChunks t"
  shows "concat (map (chunk_slice t) [0..<totalChunks t]) = blob_bytes (up_file t)"
  using assms total_chunks_bounds(1) [of "up_size t"]
  by (simp add: slices_take sized_def)

lemma slice_length:
  assumes "sized t" and "up_size t < 2^52" and "1 < totalChunks t" and "i < totalChunks t"
  shows "0 < length (chunk_slice t i)" and "length (chunk_slice t i) \<le> CHUNK_SIZE"
proof -
  have s: "up_size t = length (blob_bytes (up_file t))" using assms(1) by (simp add: sized_def)
  have "i * CHUNK_SIZE \<le> (totalChunks t - 1) * CHUNK_SIZE" using assms(4) by (intro mult_le_mono1) simp
  also have "\<dots> < up_size t"
    using total_chunks_bounds(2) [of "up_size t"] assms by (simp add: sized_def)
  finally have "i * CHUNK_SIZE < up_size t" .
  then show "0 < length (chunk_slice t i)" "length (chunk_slice t i) \<le> CHUNK_SIZE"
    using s by (auto simp: chunk_slice_take CHUNK_SIZE_def)
qed

subsection \<open>Progress\<close>

lemma fraction_le: "u \<le> v \<Longrightarrow> (of_nat u :: rat) / of_nat n \<le> of_nat v / of_nat n"
  by (rule divide_right_mono) simp_all

lemma fraction_le_1: "u \<le> n \<Longrightarrow> (of_nat u :: rat) / of_nat n \<le> 1"
  by (cases "n = 0") (simp_all add: divide_le_eq)

lemma chunk_progress_mono:
  assumes "u \<le> v" and "v \<le> n"
  shows "chunk_progress u n \<le> chunk_progress v n"
proof -
  have v1: "(of_nat v :: rat) / of_nat n \<le> 1" by (rule fraction_le_1 [OF assms(2)])
  then have "dbl (of_nat u / of_nat n) \<le> dbl (of_nat v / of_nat n)"
    by (intro dbl_mono fraction_le assms(1)) simp
  moreover have "dbl (of_nat v / of_nat n) \<le> 1"
    using dbl_mono [OF v1] by simp
  ultimately have "dbl (dbl (of_nat u / of_nat n) * 98) \<le> dbl (dbl (of_nat v / of_nat n) * 98)"
    by (intro dbl_mono) simp_all
  then show ?thesis unfolding chunk_progress_def by (rule math_round_mono)
qed

lemma chunk_progress_0 [simp]: "chunk_progress 0 n = 0"
  using math_round_of_int [of 0] by (simp add: chunk_progress_def)

lemma chunk_progress_all: "0 < n \<Longrightarrow> chunk_progress n n = 98"
  using math_round_of_int [of 98] by (simp add: chunk_progress_def)

lemma chunk_progress_bounds: "0 < n \<Longrightarrow> u \<le> n \<Longrightarrow> 0 \<le> chunk_progress u n \<and> chunk_progress u n \<le> 98"
  using chunk_progress_mono [of u n n] chunk_progress_mono [of 0 u n]
  by (simp add: chunk_progress_all)

end
