(* ===== verification/UploadInvariant.thy ===== *)
theory UploadInvariant
  imports UploadChunks
begin

text \<open>
  The invariant of the upload engine. A run is observed with what the state does not keep:
  the ids handed out, the effects so far and the chunks the server has acknowledged. The
  invariant ties the rows of the queue shown to the user to the place where the drain loop
  waits, and the requests sent to the chunks acknowledged. It is proved first for the
  pieces of \<open>uploadOne\<close>, over the phase the current task is in, then for the loop, then for
  every event; the engine is an interpretation of the machine of the prelude.
\<close>

subsection \<open>Phases\<close>

text \<open>\<open>PhLoop t i n\<close>: in the chunk loop at index \<open>i\<close>, \<open>n\<close> attempts at that chunk sent.\<close>

datatype phase = PhNone | PhSingle UploadTask | PhLoop UploadTask nat nat | PhMerge UploadTask

fun phase_of :: "upload_pc \<Rightarrow> phase" where
  "phase_of AtIdle = PhNone"
| "phase_of (AtSingle t) = PhSingle t"
| "phase_of (AtChunk t i a) = PhLoop t i (Suc a)"
| "phase_of (AtBackoff t i a) = PhLoop t i (Suc a)"
| "phase_of (AtMerge t) = PhMerge t"

fun phase_tasks :: "phase \<Rightarrow> UploadTask list" where
  "phase_tasks PhNone = []"
| "phase_tasks (PhSingle t) = [t]"
| "phase_tasks (PhLoop t i n) = [t]"
| "phase_tasks (PhMerge t) = [t]"

definition good_task :: "UploadTask \<Rightarrow> bool" where
  "good_task t \<longleftrightarrow> \<not> blank (up_target t) \<and> \<not> blank (up_drives t) \<and> \<not> blank (up_id t) \<and> sized t"

text \<open>What a row of the list shows, given the phase and the ids still queued.\<close>

definition row_finished :: "UploadTask \<Rightarrow> bool" where
  "row_finished r \<longleftrightarrow> status r \<in> {Success, Failed, Canceled} \<and> 0 \<le> progress r \<and> progress r \<le> 100 \<and>
     (status r = Success \<longrightarrow> progress r = 100)"

fun row_current :: "phase \<Rightarrow> UploadTask \<Rightarrow> bool" where
  "row_current PhNone r = True"
| "row_current (PhSingle t) r = (status r = Uploading \<and> progress r = 0)"
| "row_current (PhLoop t i n) r =
     (status r = Uploading \<and> uploadedChunks r = i \<and> progress r = chunk_progress i (totalChunks t))"
| "row_current (PhMerge t) r =
     (status r = Merging \<and> uploadedChunks r = totalChunks t \<and> progress r = 99)"

definition row_ok :: "phase \<Rightarrow> UploadTask list \<Rightarrow> UploadTask \<Rightarrow> bool" where
  "row_ok ph q r \<longleftrightarrow>
     (if up_id r \<in> up_id ` set (phase_tasks ph) then row_current ph r
      else if up_id r \<in> up_id ` set q then status r = Pending \<and> progress r = 0 \<and> uploadedChunks r = 0
      else row_finished r)"

definition rows_ok :: "phase \<Rightarrow> UploadTask list \<Rightarrow> UploadTask list \<Rightarrow> bool" where
  "rows_ok ph q rows \<longleftrightarrow> distinct (map up_id rows) \<and> (\<forall>r\<in>set rows. good_task r \<and> row_ok ph q r)"

fun phase_ok :: "phase \<Rightarrow> bool" where
  "phase_ok PhNone = True"
| "phase_ok (PhSingle t) = (totalChunks t \<le> 1)"
| "phase_ok (PhLoop t i n) = (1 < totalChunks t \<and> i \<le> totalChunks t \<and> n \<le> Suc MAX_CHUNK_RETRIES)"
| "phase_ok (PhMerge t) = (1 < totalChunks t)"

text \<open>The tasks still to be done, and the ids that exist.\<close>

definition work_ok :: "phase \<Rightarrow> UploadTask list \<Rightarrow> bool" where
  "work_ok ph q \<longleftrightarrow> distinct (map up_id (phase_tasks ph @ q)) \<and>
     (\<forall>t\<in>set (phase_tasks ph @ q). good_task t) \<and> phase_ok ph"

subsection \<open>The observed run\<close>

fun is_chunk_send :: "string \<Rightarrow> nat \<Rightarrow> upload_effect \<Rightarrow> bool" where
  "is_chunk_send i j (SendChunk t k b) = (up_id t = i \<and> k = j)"
| "is_chunk_send i j e = False"

definition attempts :: "upload_effect list \<Rightarrow> string \<Rightarrow> nat \<Rightarrow> nat" where
  "attempts sent i j = length (filter (is_chunk_send i j) sent)"

definition acked :: "(string \<times> nat) list \<Rightarrow> string \<Rightarrow> nat list" where
  "acked acks i = map snd (filter (\<lambda>a. fst a = i) acks)"

lemma attempts_simps [simp]:
  "attempts [] i j = 0"
  "attempts (e # es) i j = (if is_chunk_send i j e then Suc (attempts es i j) else attempts es i j)"
  "attempts (es @ fs) i j = attempts es i j + attempts fs i j"
  by (simp_all add: attempts_def)

lemma acked_simps [simp]:
  "acked [] i = []" "acked (acks @ [(k, j)]) i = acked acks i @ (if k = i then [j] else [])"
  by (simp_all add: acked_def)

fun phase_log :: "phase \<Rightarrow> upload_effect list \<Rightarrow> (string \<times> nat) list \<Rightarrow> bool" where
  "phase_log (PhLoop t i n) sent acks =
     (acked acks (up_id t) = [0..<i] \<and> attempts sent (up_id t) i = n \<and>
      (\<forall>j>i. attempts sent (up_id t) j = 0))"
| "phase_log (PhMerge t) sent acks = (acked acks (up_id t) = [0..<totalChunks t])"
| "phase_log ph sent acks = True"

definition untouched :: "upload_effect list \<Rightarrow> (string \<times> nat) list \<Rightarrow> string \<Rightarrow> bool" where
  "untouched sent acks i \<longleftrightarrow> acked acks i = [] \<and> (\<forall>j. attempts sent i j = 0) \<and>
     (\<forall>t. SendMerge t \<in> set sent \<longrightarrow> up_id t \<noteq> i)"

text \<open>
  A merge is asked for when exactly the chunks \<open>0, 1, \<dots>\<close> of its task have been
  acknowledged, in this order, and its task is no longer in the chunk loop.
\<close>

definition merges_ok :: "phase \<Rightarrow> upload_effect list \<Rightarrow> (string \<times> nat) list \<Rightarrow> bool" where
  "merges_ok ph sent acks \<longleftrightarrow> (\<forall>t. SendMerge t \<in> set sent \<longrightarrow>
     good_task t \<and> 1 < totalChunks t \<and> acked acks (up_id t) = [0..<totalChunks t] \<and>
     (\<forall>u i n. ph = PhLoop u i n \<longrightarrow> up_id u \<noteq> up_id t))"

definition log_ok :: "phase \<Rightarrow> UploadTask list \<Rightarrow> upload_effect list \<Rightarrow> (string \<times> nat) list \<Rightarrow> bool" where
  "log_ok ph q sent acks \<longleftrightarrow> phase_log ph sent acks \<and> merges_ok ph sent acks \<and>
     (\<forall>t\<in>set q. untouched sent acks (up_id t)) \<and>
     (\<forall>i j. attempts sent i j \<le> Suc MAX_CHUNK_RETRIES) \<and>
     (\<forall>t j b. SendChunk t j b \<in> set sent \<longrightarrow> b = chunk_slice t j)"

definition core :: "phase \<Rightarrow> upload_state \<Rightarrow> upload_effect list \<Rightarrow> (string \<times> nat) list \<Rightarrow> bool" where
  "core ph st sent acks \<longleftrightarrow>
     work_ok ph (queue st) \<and> rows_ok ph (queue st) (up_tasks st) \<and> log_ok ph (queue st) sent acks"

subsection \<open>Pieces of \<open>uploadOne\<close>\<close>

lemma good_task_apply [simp]: "good_task (apply_task_patch p r) = good_task r"
  by (cases p) (simp_all add: good_task_def sized_def)

lemma calls_valid:
  assumes "good_task t"
  shows "\<exists>req. abortUpload (up_target t) (up_drives t) (up_id t) = Inr req"
    and "\<exists>req. uploadFileChunk (Some b) (up_target t) (up_drives t) (up_id t) i n = Inr req"
    and "\<exists>req. uploadFile (Some f) (up_target t) (up_drives t) = Inr req"
  using assms
  by (auto simp: good_task_def abortUpload_def uploadFileChunk_def uploadFile_def checked_eq
      post_json_call_def requireNonEmpty_def)

text \<open>The row of the current task moves to another phase; the other rows do not change.\<close>

lemma rows_ok_patch:
  assumes "rows_ok ph q rows" and "phase_tasks ph = [t]"
    and "\<And>r. row_current ph r \<Longrightarrow> good_task r \<Longrightarrow> up_id r = up_id t \<Longrightarrow> row_ok ph' q (apply_task_patch p r)"
    and "phase_tasks ph' = [t] \<or> phase_tasks ph' = []"
  shows "rows_ok ph' q (patchTask (up_id t) p rows)"
  unfolding rows_ok_def
proof (intro conjI ballI)
  show "distinct (map up_id (patchTask (up_id t) p rows))"
    using assms(1) by (simp add: rows_ok_def task_store.distinct_patch)
next
  fix y assume "y \<in> set (patchTask (up_id t) p rows)"
  then obtain r where r: "r \<in> set rows" "y = (if up_id r = up_id t then apply_task_patch p r else r)"
    unfolding patchTask_def by (rule in_set_patch_byE)
  then show "good_task y" using assms(1) by (auto simp: rows_ok_def)
  show "row_ok ph' q y"
  proof (cases "up_id r = up_id t")
    case True
    then show ?thesis using r assms(1,2,3) by (auto simp: rows_ok_def row_ok_def)
  next
    case False
    then have "row_ok ph' q r" using r assms(1,2,4) by (auto simp: rows_ok_def row_ok_def)
    then show ?thesis using r False by simp
  qed
qed

lemma work_ok_leave: "work_ok ph q \<Longrightarrow> work_ok PhNone q"
  by (auto simp: work_ok_def)

lemma log_ok_leave: "log_ok ph q sent acks \<Longrightarrow> log_ok PhNone q sent acks"
  by (auto simp: log_ok_def merges_ok_def)

text \<open>Effects that are neither a chunk nor a merge do not matter to the log.\<close>

fun silent :: "upload_effect \<Rightarrow> bool" where
  "silent (SendChunk t j b) = False" | "silent (SendMerge t) = False" | "silent e = True"

lemma silent_attempts: "list_all silent es \<Longrightarrow> attempts es i j = 0"
proof (induction es)
  case (Cons e es)
  then show ?case by (cases e) auto
qed simp

lemma silent_no_send:
  "list_all silent es \<Longrightarrow> SendMerge t \<notin> set es \<and> SendChunk t j b \<notin> set es"
  by (auto simp: list_all_iff)

lemma log_ok_silent:
  assumes "list_all silent es"
  shows "log_ok ph q (sent @ es) acks = log_ok ph q sent acks"
proof -
  note s = silent_attempts [OF assms] silent_no_send [OF assms]
  have "phase_log ph (sent @ es) acks = phase_log ph sent acks" by (cases ph) (simp_all add: s)
  then show ?thesis by (simp add: log_ok_def merges_ok_def untouched_def s)
qed

lemma core_silent: "list_all silent es \<Longrightarrow> core ph st (sent @ es) acks = core ph st sent acks"
  by (simp add: core_def log_ok_silent)

text \<open>The current row ends; its progress is one that a running row can show.\<close>

lemma row_current_progress:
  assumes "row_current ph r" and "phase_ok ph" and "ph \<noteq> PhNone"
  shows "0 \<le> progress r \<and> progress r \<le> 100"
proof (cases ph)
  case (PhLoop t i n)
  then have "0 \<le> chunk_progress i (totalChunks t) \<and> chunk_progress i (totalChunks t) \<le> 98"
    using assms(2) by (intro chunk_progress_bounds) auto
  then show ?thesis using assms(1) PhLoop by simp
qed (use assms in simp_all)

lemma row_ends:
  assumes "work_ok ph q" and "phase_tasks ph = [t]" and "up_id r = up_id t" and "row_finished r"
  shows "row_ok PhNone q r"
  using assms by (auto simp: row_ok_def work_ok_def)

lemma row_finished_end:
  "0 \<le> progress r \<Longrightarrow> progress r \<le> 100 \<Longrightarrow> row_finished (apply_task_patch (PatchEnd c e) r)"
  "row_finished (apply_task_patch PatchSingleDone r)" "row_finished (apply_task_patch PatchDone r)"
  by (simp_all add: row_finished_def)

lemma core_end:
  assumes "core ph st sent acks" and t: "phase_tasks ph = [t]" and "list_all silent es"
    and fin: "\<And>r. 0 \<le> progress r \<Longrightarrow> progress r \<le> 100 \<Longrightarrow> row_finished (apply_task_patch p r)"
  shows "core PhNone ((patch_state (up_id t) p st)\<lparr>pc := AtIdle\<rparr>) (sent @ es) acks"
proof -
  have w: "work_ok ph (queue st)" and r: "rows_ok ph (queue st) (up_tasks st)"
    and l: "log_ok ph (queue st) sent acks" using assms(1) by (simp_all add: core_def)
  have "ph \<noteq> PhNone" using t by auto
  then have "rows_ok PhNone (queue st) (patchTask (up_id t) p (up_tasks st))"
    using row_current_progress w fin
    by (intro rows_ok_patch [OF r t]) (auto simp: work_ok_def intro!: row_ends [OF w t])
  then show ?thesis
    using work_ok_leave [OF w] log_ok_leave [OF l] assms(3)
    by (simp add: core_def patch_state_def log_ok_silent)
qed

lemma task_failed_core:
  assumes c: "core ph st sent acks" and t: "phase_tasks ph = [t]"
  shows "core PhNone (fst (task_failed t exn st)) (sent @ snd (task_failed t exn st)) acks"
    and "pc (fst (task_failed t exn st)) = AtIdle"
    and "running (fst (task_failed t exn st)) = running st"
    and "queue (fst (task_failed t exn st)) = queue st"
proof -
  have g: "good_task t" using c t by (auto simp: core_def work_ok_def)
  then obtain req where req: "abortUpload (up_target t) (up_drives t) (up_id t) = Inr req"
    using calls_valid(1) by blast
  define p where "p = PatchEnd (exn = None \<or> up_id t \<in> set (canceled st))
    (case exn of None \<Rightarrow> AbortText | Some e \<Rightarrow> e)"
  have f: "fst (task_failed t exn st) = (patch_state (up_id t) p st)\<lparr>pc := AtIdle\<rparr>"
    by (simp add: task_failed_def Let_def req p_def)
  have s: "list_all silent (snd (task_failed t exn st))"
    by (simp add: task_failed_def Let_def req)
  show "core PhNone (fst (task_failed t exn st)) (sent @ snd (task_failed t exn st)) acks"
    unfolding f by (rule core_end [OF c t s]) (simp add: p_def row_finished_end del: apply_task_patch.simps)
  show "pc (fst (task_failed t exn st)) = AtIdle" "queue (fst (task_failed t exn st)) = queue st"
    "running (fst (task_failed t exn st)) = running st"
    by (simp_all add: f patch_state_def)
qed

text \<open>A chunk attempt: the request is logged, and the phase counts it.\<close>

lemma core_pc [simp]: "core ph (st\<lparr>pc := x\<rparr>) sent acks = core ph st sent acks"
  "core ph (st\<lparr>controllers := cs\<rparr>) sent acks = core ph st sent acks"
  "core ph (st\<lparr>running := b\<rparr>) sent acks = core ph st sent acks"
  "core ph (st\<lparr>canceled := cs\<rparr>) sent acks = core ph st sent acks"
  by (simp_all add: core_def)

lemma rows_ok_attempt:
  "rows_ok (PhLoop t i n) q rows = rows_ok (PhLoop t i m) q rows"
  by (simp add: rows_ok_def row_ok_def)

lemma core_send_chunk:
  assumes c: "core (PhLoop t i n) st sent acks" and "n \<le> MAX_CHUNK_RETRIES"
  shows "core (PhLoop t i (Suc n)) st (sent @ [SendChunk t i (chunk_slice t i)]) acks"
proof -
  have w: "work_ok (PhLoop t i n) (queue st)" and r: "rows_ok (PhLoop t i n) (queue st) (up_tasks st)"
    and l: "log_ok (PhLoop t i n) (queue st) sent acks" using c by (simp_all add: core_def)
  have "up_id t \<notin> up_id ` set (queue st)" using w by (auto simp: work_ok_def)
  then have "log_ok (PhLoop t i (Suc n)) (queue st) (sent @ [SendChunk t i (chunk_slice t i)]) acks"
    using l assms(2) by (auto simp: log_ok_def merges_ok_def untouched_def)
  moreover have "work_ok (PhLoop t i (Suc n)) (queue st)" using w assms(2) by (simp add: work_ok_def)
  ultimately show ?thesis using r by (simp add: core_def rows_ok_attempt [of t i "Suc n" _ _ n])
qed

lemma begin_attempt_core:
  assumes c: "core (PhLoop t i n) st sent acks" and "n \<le> MAX_CHUNK_RETRIES"
  shows "core (phase_of (pc (fst (begin_attempt t i n st)))) (fst (begin_attempt t i n st))
           (sent @ snd (begin_attempt t i n st)) acks"
    and "pc (fst (begin_attempt t i n st)) = AtChunk t i n"
    and "running (fst (begin_attempt t i n st)) = running st"
    and "queue (fst (begin_attempt t i n st)) = queue st"
proof -
  have "good_task t" using c by (simp add: core_def work_ok_def)
  then obtain req where "uploadFileChunk (Some (chunk_slice t i)) (up_target t) (up_drives t) (up_id t)
      i (totalChunks t) = Inr req" using calls_valid(2) by blast
  then have b: "begin_attempt t i n st =
      (st\<lparr>controllers := List.insert (up_id t) (controllers st), pc := AtChunk t i n\<rparr>,
       [SendChunk t i (chunk_slice t i)])"
    by (simp add: begin_attempt_def Let_def)
  show "core (phase_of (pc (fst (begin_attempt t i n st)))) (fst (begin_attempt t i n st))
      (sent @ snd (begin_attempt t i n st)) acks"
    using core_send_chunk [OF assms] by (simp add: b)
  show "pc (fst (begin_attempt t i n st)) = AtChunk t i n"
    "running (fst (begin_attempt t i n st)) = running st"
    "queue (fst (begin_attempt t i n st)) = queue st"
    by (simp_all add: b)
qed

text \<open>The merge, entered after the last chunk.\<close>

lemma core_merging:
  assumes c: "core (PhLoop t (totalChunks t) 0) st sent acks"
  shows "core (PhMerge t) (patch_state (up_id t) PatchMerging st) sent acks"
    and "core (PhMerge t) (patch_state (up_id t) PatchMerging st) (sent @ [SendMerge t]) acks"
proof -
  have w: "work_ok (PhLoop t (totalChunks t) 0) (queue st)"
    and r: "rows_ok (PhLoop t (totalChunks t) 0) (queue st) (up_tasks st)"
    and l: "log_ok (PhLoop t (totalChunks t) 0) (queue st) sent acks"
    using c by (simp_all add: core_def)
  have rows: "rows_ok (PhMerge t) (queue st) (patchTask (up_id t) PatchMerging (up_tasks st))"
    by (rule rows_ok_patch [OF r]) (auto simp: row_ok_def)
  have w': "work_ok (PhMerge t) (queue st)" using w by (simp add: work_ok_def)
  have "up_id t \<notin> up_id ` set (queue st)" using w by (auto simp: work_ok_def)
  then have "log_ok (PhMerge t) (queue st) sent acks"
    "log_ok (PhMerge t) (queue st) (sent @ [SendMerge t]) acks"
    using l w by (auto simp: log_ok_def merges_ok_def untouched_def work_ok_def)
  then show "core (PhMerge t) (patch_state (up_id t) PatchMerging st) sent acks"
    "core (PhMerge t) (patch_state (up_id t) PatchMerging st) (sent @ [SendMerge t]) acks"
    using rows w' by (simp_all add: core_def patch_state_def)
qed

text \<open>
  What the pieces of \<open>uploadOne\<close> promise: the invariant in the phase they leave the loop in,
  and the queue and the running mark untouched.
\<close>

definition piece_ok :: "upload_state \<Rightarrow> upload_effect list \<Rightarrow> (string \<times> nat) list \<Rightarrow> upload_result \<Rightarrow> bool" where
  "piece_ok st sent acks r \<longleftrightarrow> core (phase_of (pc (fst r))) (fst r) (sent @ snd r) acks \<and>
     running (fst r) = running st \<and> queue (fst r) = queue st \<and>
     (case pc (fst r) of AtChunk t i a \<Rightarrow> i < totalChunks t
        | AtBackoff t i a \<Rightarrow> i < totalChunks t \<and> a < MAX_CHUNK_RETRIES | _ \<Rightarrow> True)"

lemma piece_failed:
  "core ph st sent acks \<Longrightarrow> phase_tasks ph = [t] \<Longrightarrow> piece_ok st sent acks (task_failed t exn st)"
  using task_failed_core [of ph st sent acks t exn] by (simp add: piece_ok_def)

lemma piece_attempt:
  "core (PhLoop t i n) st sent acks \<Longrightarrow> n \<le> MAX_CHUNK_RETRIES \<Longrightarrow> i < totalChunks t \<Longrightarrow>
     piece_ok st sent acks (begin_attempt t i n st)"
  using begin_attempt_core [of t i n st sent acks] by (simp add: piece_ok_def)

lemma piece_merge:
  assumes "core (PhLoop t (totalChunks t) 0) st sent acks"
  shows "piece_ok st sent acks (begin_merge t st)"
proof (cases "mergeFileChunks (up_target t) (up_drives t) (up_fileName t) (up_id t) (totalChunks t)")
  case (Inl e)
  have "piece_ok (patch_state (up_id t) PatchMerging st) sent acks
      (task_failed t (Some (ServiceText e)) (patch_state (up_id t) PatchMerging st))"
    by (rule piece_failed [OF core_merging(1) [OF assms]]) simp
  then show ?thesis by (simp add: begin_merge_def Inl piece_ok_def patch_state_def)
next
  case (Inr req)
  then show ?thesis using core_merging(2) [OF assms]
    by (simp add: begin_merge_def piece_ok_def patch_state_def)
qed

lemma piece_chunk:
  assumes "core (PhLoop t i 0) st sent acks"
  shows "piece_ok st sent acks (begin_chunk t i st)"
proof (cases "i < totalChunks t")
  case True
  then show ?thesis using piece_failed [OF assms] piece_attempt [OF assms] by (simp add: begin_chunk_def)
next
  case False
  moreover have "i \<le> totalChunks t" using assms by (simp add: core_def work_ok_def)
  ultimately show ?thesis using piece_merge assms by (simp add: begin_chunk_def)
qed

lemma piece_attempt_failed:
  assumes "core (PhLoop t i (Suc a)) st sent acks" and "i < totalChunks t"
  shows "piece_ok st sent acks (attempt_failed t i a e st)"
proof -
  have f: "piece_ok (drop_controller t st) sent acks (task_failed t exn (drop_controller t st))" for exn
    using piece_failed [of "PhLoop t i (Suc a)" "drop_controller t st" sent acks t exn] assms(1)
    by (simp add: drop_controller_def)
  then show ?thesis using assms
    by (auto simp: attempt_failed_def piece_ok_def drop_controller_def core_silent)
qed

text \<open>A task leaves the queue and starts.\<close>

lemma core_start:
  assumes c: "core PhNone st sent acks" and q: "queue st = t # ts"
  defines "ph \<equiv> (if totalChunks t \<le> 1 then PhSingle t else PhLoop t 0 0)"
  shows "core ph (patch_state (up_id t) PatchStart (st\<lparr>queue := ts\<rparr>)) sent acks"
proof -
  have w: "work_ok PhNone (t # ts)" and r: "rows_ok PhNone (t # ts) (up_tasks st)"
    and l: "log_ok PhNone (t # ts) sent acks" using c q by (simp_all add: core_def)
  have pt: "phase_tasks ph = [t]" by (simp add: ph_def)
  have "work_ok ph ts" using w by (auto simp: work_ok_def ph_def)
  moreover have "log_ok ph ts sent acks"
    using l w by (auto simp: log_ok_def merges_ok_def untouched_def ph_def work_ok_def)
  moreover have "rows_ok ph ts (patchTask (up_id t) PatchStart (up_tasks st))"
    unfolding rows_ok_def
  proof (intro conjI ballI)
    show "distinct (map up_id (patchTask (up_id t) PatchStart (up_tasks st)))"
      using r by (simp add: rows_ok_def task_store.distinct_patch)
  next
    fix y assume "y \<in> set (patchTask (up_id t) PatchStart (up_tasks st))"
    then obtain x where x: "x \<in> set (up_tasks st)"
        "y = (if up_id x = up_id t then apply_task_patch PatchStart x else x)"
      unfolding patchTask_def by (rule in_set_patch_byE)
    then have "row_ok PhNone (t # ts) x" "good_task x" using r by (auto simp: rows_ok_def)
    then show "good_task y" "row_ok ph ts y"
      using x(2) pt by (auto simp: row_ok_def ph_def good_task_def sized_def)
  qed
  ultimately show ?thesis by (simp add: core_def patch_state_def)
qed

lemma piece_upload:
  assumes c: "core PhNone st sent acks" and q: "queue st = t # ts"
  shows "piece_ok (st\<lparr>queue := ts\<rparr>) sent acks (uploadOne t (st\<lparr>queue := ts\<rparr>))"
proof (cases "totalChunks t \<le> 1")
  case True
  have "good_task t" using c q by (simp add: core_def work_ok_def)
  then obtain req where "uploadFile (Some (up_file t)) (up_target t) (up_drives t) = Inr req"
    using calls_valid(3) by blast
  then show ?thesis using core_start [OF c q] True
    by (simp add: uploadOne_def Let_def piece_ok_def patch_state_def core_silent)
next
  case False
  then have "piece_ok (patch_state (up_id t) PatchStart (st\<lparr>queue := ts\<rparr>)) sent acks
      (begin_chunk t 0 (patch_state (up_id t) PatchStart (st\<lparr>queue := ts\<rparr>)))"
    using core_start [OF c q] by (intro piece_chunk) simp
  then show ?thesis using False
    by (simp add: uploadOne_def Let_def piece_ok_def patch_state_def)
qed

subsection \<open>The loop\<close>

definition wait_ok :: "upload_state \<Rightarrow> bool" where
  "wait_ok st \<longleftrightarrow> running st = (pc st \<noteq> AtIdle) \<and> (pc st = AtIdle \<longrightarrow> queue st = []) \<and>
     (case pc st of AtChunk t i a \<Rightarrow> i < totalChunks t
        | AtBackoff t i a \<Rightarrow> i < totalChunks t \<and> a < MAX_CHUNK_RETRIES | _ \<Rightarrow> True)"

definition settled_ok :: "upload_effect list \<Rightarrow> (string \<times> nat) list \<Rightarrow> upload_result \<Rightarrow> bool" where
  "settled_ok sent acks r \<longleftrightarrow>
     core (phase_of (pc (fst r))) (fst r) (sent @ snd r) acks \<and> wait_ok (fst r)"

lemma core_skip:
  assumes c: "core PhNone st sent acks" and q: "queue st = t # ts"
  shows "core PhNone (patch_state (up_id t) PatchSkipped (st\<lparr>queue := ts\<rparr>)) sent acks"
proof -
  have w: "work_ok PhNone (t # ts)" and r: "rows_ok PhNone (t # ts) (up_tasks st)"
    and l: "log_ok PhNone (t # ts) sent acks" using c q by (simp_all add: core_def)
  have "rows_ok PhNone ts (patchTask (up_id t) PatchSkipped (up_tasks st))"
    unfolding rows_ok_def
  proof (intro conjI ballI)
    show "distinct (map up_id (patchTask (up_id t) PatchSkipped (up_tasks st)))"
      using r by (simp add: rows_ok_def task_store.distinct_patch)
  next
    fix y assume "y \<in> set (patchTask (up_id t) PatchSkipped (up_tasks st))"
    then obtain x where x: "x \<in> set (up_tasks st)"
        "y = (if up_id x = up_id t then apply_task_patch PatchSkipped x else x)"
      unfolding patchTask_def by (rule in_set_patch_byE)
    then have "row_ok PhNone (t # ts) x" "good_task x" using r by (auto simp: rows_ok_def)
    then show "good_task y" "row_ok PhNone ts y"
      using x(2) w by (auto simp: row_ok_def row_finished_def good_task_def sized_def work_ok_def)
  qed
  moreover have "work_ok PhNone ts" using w by (simp add: work_ok_def)
  moreover have "log_ok PhNone ts sent acks" using l by (simp add: log_ok_def)
  ultimately show ?thesis by (simp add: core_def patch_state_def)
qed

lemma patch_state_same [simp]:
  "pc (patch_state i p st) = pc st" "running (patch_state i p st) = running st"
  "queue (patch_state i p st) = queue st" "canceled (patch_state i p st) = canceled st"
  "controllers (patch_state i p st) = controllers st"
  by (simp_all add: patch_state_def)

lemma drain_loop_ok:
  "core PhNone st sent acks \<Longrightarrow> queue st = ts \<Longrightarrow> running st \<Longrightarrow> pc st = AtIdle \<Longrightarrow>
   settled_ok sent acks (drain_loop ts st)"
proof (induction ts arbitrary: st sent)
  case Nil
  then show ?case by (simp add: settled_ok_def wait_ok_def core_def)
next
  case (Cons t ts)
  show ?case
  proof (cases "up_id t \<in> set (canceled st)")
    case True
    then show ?thesis
      using Cons.IH [of "patch_state (up_id t) PatchSkipped (st\<lparr>queue := ts\<rparr>)" sent]
        core_skip [OF Cons.prems(1,2)] Cons.prems(3,4) by simp
  next
    case False
    define r where "r = uploadOne t (st\<lparr>queue := ts\<rparr>)"
    have p: "piece_ok (st\<lparr>queue := ts\<rparr>) sent acks r"
      unfolding r_def by (rule piece_upload [OF Cons.prems(1,2)])
    have loop: "drain_loop (t # ts) st =
        (if pc (fst r) = AtIdle \<and> running (fst r) then add_first (snd r) (drain_loop ts (fst r)) else r)"
      using False by (simp add: r_def Let_def)
    show ?thesis
    proof (cases "pc (fst r) = AtIdle")
      case True
      then have "settled_ok (sent @ snd r) acks (drain_loop ts (fst r))"
        using p Cons.prems(3) by (intro Cons.IH) (simp_all add: piece_ok_def)
      then show ?thesis
        using True p Cons.prems(3)
        by (simp add: loop settled_ok_def add_first_def piece_ok_def del: drain_loop.simps)
    next
      case False
      then show ?thesis
        using p Cons.prems(3) unfolding loop by (simp add: settled_ok_def piece_ok_def wait_ok_def)
    qed
  qed
qed

lemma continue_drain_ok:
  assumes p: "piece_ok st sent acks r" and "running st"
  shows "settled_ok sent acks (continue_drain r)"
proof (cases "pc (fst r) = AtIdle")
  case True
  then have "settled_ok (sent @ snd r) acks (drain_loop (queue (fst r)) (fst r))"
    using p assms(2) by (intro drain_loop_ok) (simp_all add: piece_ok_def)
  then show ?thesis
    using True p assms(2) by (simp add: continue_drain_def settled_ok_def add_first_def piece_ok_def)
next
  case False
  then show ?thesis
    using p assms(2) by (simp add: continue_drain_def settled_ok_def piece_ok_def wait_ok_def)
qed

text \<open>New tasks behind the queue, and the drain that follows.\<close>

lemma core_add:
  assumes c: "core ph st sent acks"
    and d: "distinct (map up_id new)" and g: "\<forall>t\<in>set new. good_task t"
    and p: "\<forall>t\<in>set new. status t = Pending \<and> progress t = 0 \<and> uploadedChunks t = 0"
    and rows: "set rows \<subseteq> set (up_tasks st)" "distinct (map up_id rows)"
    and fresh: "set (map up_id (phase_tasks ph @ queue st @ rows)) \<inter> set (map up_id new) = {}"
      "\<forall>t\<in>set new. untouched sent acks (up_id t)"
  shows "core ph (st\<lparr>up_tasks := rows @ new, queue := queue st @ new\<rparr>) sent acks"
proof -
  have w: "work_ok ph (queue st)" and r: "rows_ok ph (queue st) (up_tasks st)"
    and l: "log_ok ph (queue st) sent acks" using c by (simp_all add: core_def)
  have apart: "set (map up_id (phase_tasks ph @ queue st)) \<inter> set (map up_id new) = {}"
    using fresh(1) by auto
  have "work_ok ph (queue st @ new)"
    unfolding work_ok_def
  proof (intro conjI)
    have "distinct (map up_id (phase_tasks ph @ queue st) @ map up_id new)"
      using w d apart unfolding work_ok_def distinct_append by blast
    then show "distinct (map up_id (phase_tasks ph @ queue st @ new))" by simp
    show "\<forall>t\<in>set (phase_tasks ph @ queue st @ new). good_task t" using w g by (auto simp: work_ok_def)
    show "phase_ok ph" using w by (simp add: work_ok_def)
  qed
  moreover have "log_ok ph (queue st @ new) sent acks" using l fresh by (auto simp: log_ok_def)
  moreover have "rows_ok ph (queue st @ new) (rows @ new)"
    unfolding rows_ok_def
  proof (intro conjI ballI)
    have "set (map up_id rows) \<inter> set (map up_id new) = {}" using fresh(1) by auto
    then show "distinct (map up_id (rows @ new))" using rows(2) d by simp
  next
    fix y assume y: "y \<in> set (rows @ new)"
    show "good_task y" using y rows r g by (auto simp: rows_ok_def)
    show "row_ok ph (queue st @ new) y"
    proof (cases "y \<in> set new")
      case True
      then have "up_id y \<notin> up_id ` set (phase_tasks ph)" using fresh(1) by (auto simp: disjoint_iff)
      then show ?thesis using True p by (auto simp: row_ok_def)
    next
      case False
      then have "y \<in> set rows" using y by simp
      then have "row_ok ph (queue st) y" "up_id y \<notin> up_id ` set new"
        using rows(1) r fresh(1) by (auto simp: rows_ok_def)
      then show ?thesis by (auto simp: row_ok_def image_Un)
    qed
  qed
  ultimately show ?thesis by (simp add: core_def)
qed

lemma drain_ok:
  assumes "core (phase_of (pc st)) st sent acks" and "running st = (pc st \<noteq> AtIdle)"
    and "case pc st of AtChunk t i a \<Rightarrow> i < totalChunks t
        | AtBackoff t i a \<Rightarrow> i < totalChunks t \<and> a < MAX_CHUNK_RETRIES | _ \<Rightarrow> True"
  shows "settled_ok sent acks (drain st)"
proof (cases "running st")
  case True
  then show ?thesis using assms by (simp add: drain_def settled_ok_def wait_ok_def)
next
  case False
  then show ?thesis using assms drain_loop_ok [of "st\<lparr>running := True\<rparr>" sent acks "queue st"]
    by (simp add: drain_def)
qed

subsection \<open>The machine\<close>

record upload_world =
  eng :: upload_state
  wlog :: "upload_effect list"
  wacks :: "(string \<times> nat) list"

definition start_world :: upload_world where
  "start_world = \<lparr>eng = init_upload, wlog = [], wacks = []\<rparr>"

fun effect_ids :: "upload_effect \<Rightarrow> string list" where
  "effect_ids (SendChunk t j b) = [up_id t]"
| "effect_ids (SendMerge t) = [up_id t]"
| "effect_ids e = []"

text \<open>Every id the engine, its requests or the acknowledgements mention.\<close>

definition seen_ids :: "upload_world \<Rightarrow> string list" where
  "seen_ids w = map up_id (phase_tasks (phase_of (pc (eng w))) @ queue (eng w) @ up_tasks (eng w))
     @ concat (map effect_ids (wlog w)) @ map fst (wacks w)"

text \<open>
  The event is one the page can produce: ids made by \<open>createUploadId\<close> are new and not
  blank, and files go to a directory and a drive that have a name.
\<close>

fun admissible :: "upload_event \<Rightarrow> upload_world \<Rightarrow> bool" where
  "admissible (UEnqueue ids fs p d) w =
     (length ids = length fs \<and> distinct ids \<and> \<not> blank p \<and> \<not> blank d \<and>
      list_all (\<lambda>i. \<not> blank i \<and> i \<notin> set (seen_ids w)) ids)"
| "admissible (URetry i fresh) w = (\<not> blank fresh \<and> fresh \<notin> set (seen_ids w))"
| "admissible ev w = True"

fun ack_of :: "upload_event \<Rightarrow> upload_state \<Rightarrow> (string \<times> nat) list" where
  "ack_of (USettle (Resolved r)) st =
     (case pc st of AtChunk t i a \<Rightarrow> if success r then [(up_id t, i)] else [] | _ \<Rightarrow> [])"
| "ack_of ev st = []"

definition upload_step :: "upload_world \<Rightarrow> upload_event \<Rightarrow> upload_world" where
  "upload_step w ev =
     (if admissible ev w then
        (let r = upload_handle ev (eng w) in
         \<lparr>eng = fst r, wlog = wlog w @ snd r, wacks = wacks w @ ack_of ev (eng w)\<rparr>)
      else w)"

definition upload_inv :: "upload_world \<Rightarrow> bool" where
  "upload_inv w \<longleftrightarrow> core (phase_of (pc (eng w))) (eng w) (wlog w) (wacks w) \<and> wait_ok (eng w)"

lemma untouched_unseen: "i \<notin> set (seen_ids w) \<Longrightarrow> untouched (wlog w) (wacks w) i"
proof -
  assume i: "i \<notin> set (seen_ids w)"
  have "\<not> is_chunk_send i j e" if "e \<in> set (wlog w)" for e j
    using i that by (cases e) (auto simp: seen_ids_def)
  then have "attempts (wlog w) i j = 0" for j by (simp add: attempts_def filter_empty_conv)
  moreover have "filter (\<lambda>a. fst a = i) (wacks w) = []"
    using i by (auto simp: filter_empty_conv seen_ids_def)
  moreover have "up_id t \<noteq> i" if "SendMerge t \<in> set (wlog w)" for t
    using i that by (auto simp: seen_ids_def)
  ultimately show ?thesis by (auto simp: untouched_def acked_def)
qed

lemma create_task_simps [simp]:
  "up_id (create_task p d i f) = i" "status (create_task p d i f) = Pending"
  "progress (create_task p d i f) = 0" "uploadedChunks (create_task p d i f) = 0"
  "good_task (create_task p d i f) = (\<not> blank p \<and> \<not> blank d \<and> \<not> blank i)"
  by (simp_all add: create_task_def good_task_def sized_def)

lemma map_id_created:
  "length ids = length fs \<Longrightarrow> map up_id (map2 (create_task p d) ids fs) = ids"
  by (induction ids fs rule: list_induct2) simp_all

lemma in_created:
  "t \<in> set (map2 (create_task p d) ids fs) \<Longrightarrow> \<exists>i f. i \<in> set ids \<and> t = create_task p d i f"
  by (auto dest: set_zip_leftD)

lemma wait_ok_case:
  "wait_ok st \<Longrightarrow> case pc st of AtChunk t i a \<Rightarrow> i < totalChunks t
        | AtBackoff t i a \<Rightarrow> i < totalChunks t \<and> a < MAX_CHUNK_RETRIES | _ \<Rightarrow> True"
  by (simp add: wait_ok_def)

lemma enqueue_ok:
  assumes inv: "upload_inv w" and a: "admissible (UEnqueue ids fs p d) w"
  shows "settled_ok (wlog w) (wacks w) (enqueue ids fs p d (eng w))"
proof -
  define new where "new = map2 (create_task p d) ids fs"
  have ids: "map up_id new = ids" unfolding new_def using a by (intro map_id_created) simp
  have mem: "\<exists>i f. i \<in> set ids \<and> t = create_task p d i f" if "t \<in> set new" for t
    using that unfolding new_def by (rule in_created)
  have fresh: "set ids \<inter> set (seen_ids w) = {}" using a by (auto simp: list_all_iff)
  have c: "core (phase_of (pc (eng w))) (eng w) (wlog w) (wacks w)" and o: "wait_ok (eng w)"
    using inv by (simp_all add: upload_inv_def)
  have "core (phase_of (pc (eng w)))
      ((eng w)\<lparr>up_tasks := up_tasks (eng w) @ new, queue := queue (eng w) @ new\<rparr>) (wlog w) (wacks w)"
  proof (rule core_add [OF c])
    show "distinct (map up_id new)" using a ids by simp
    show "\<forall>t\<in>set new. good_task t" using a by (auto simp: list_all_iff dest!: mem)
    show "\<forall>t\<in>set new. status t = Pending \<and> progress t = 0 \<and> uploadedChunks t = 0"
      by (auto dest!: mem)
    show "distinct (map up_id (up_tasks (eng w)))" using c by (simp add: core_def rows_ok_def)
    show "set (map up_id (phase_tasks (phase_of (pc (eng w))) @ queue (eng w) @ up_tasks (eng w)))
        \<inter> set (map up_id new) = {}"
      using fresh unfolding ids by (auto simp: seen_ids_def)
    show "\<forall>t\<in>set new. untouched (wlog w) (wacks w) (up_id t)"
      using fresh by (auto dest!: mem intro!: untouched_unseen)
  qed simp
  then show ?thesis
    unfolding enqueue_def Let_def new_def [symmetric]
    using o by (intro drain_ok) (simp_all add: wait_ok_def)
qed

lemma renew_simps [simp]:
  "up_id (renew i t) = i" "status (renew i t) = Pending" "progress (renew i t) = 0"
  "uploadedChunks (renew i t) = 0" "good_task t \<Longrightarrow> good_task (renew i t) = (\<not> blank i)"
  by (simp_all add: renew_def good_task_def sized_def)

lemma retryTask_ok:
  assumes inv: "upload_inv w" and a: "admissible (URetry i fresh) w"
  shows "settled_ok (wlog w) (wacks w) (retryTask i fresh (eng w))"
proof (cases "find_task i (up_tasks (eng w))")
  case None
  then show ?thesis using inv by (simp add: retryTask_def settled_ok_def upload_inv_def)
next
  case (Some old)
  have c: "core (phase_of (pc (eng w))) (eng w) (wlog w) (wacks w)" and o: "wait_ok (eng w)"
    using inv by (simp_all add: upload_inv_def)
  have g: "good_task old" using find_Some_memD [OF Some [unfolded find_task_def]] c
    by (simp add: core_def rows_ok_def)
  have "core (phase_of (pc (eng w)))
      ((eng w)\<lparr>up_tasks := filter (\<lambda>t. up_id t \<noteq> i) (up_tasks (eng w)) @ [renew fresh old],
              queue := queue (eng w) @ [renew fresh old]\<rparr>) (wlog w) (wacks w)"
  proof (rule core_add [OF c])
    show "distinct (map up_id (filter (\<lambda>t. up_id t \<noteq> i) (up_tasks (eng w))))"
      using c by (auto simp: core_def rows_ok_def intro: distinct_map_filter)
    show "set (map up_id (phase_tasks (phase_of (pc (eng w))) @ queue (eng w) @
        filter (\<lambda>t. up_id t \<noteq> i) (up_tasks (eng w)))) \<inter> set (map up_id [renew fresh old]) = {}"
      using a by (auto simp: seen_ids_def)
    show "\<forall>t\<in>set [renew fresh old]. untouched (wlog w) (wacks w) (up_id t)"
      using a untouched_unseen [of fresh w] by simp
  qed (use g a in auto)
  then show ?thesis
    using o unfolding retryTask_def Some Let_def option.case
    by (intro drain_ok) (simp_all add: wait_ok_def)
qed

lemma clearFinished_ok:
  assumes "upload_inv w"
  shows "settled_ok (wlog w) (wacks w) (clearFinished (eng w))"
  using assms
  by (auto simp: upload_inv_def settled_ok_def clearFinished_def core_def rows_ok_def wait_ok_def
      intro: distinct_map_filter)

lemma cancelTask_ok:
  assumes "upload_inv w"
  shows "settled_ok (wlog w) (wacks w) (cancelTask i (eng w))"
  using assms by (simp add: upload_inv_def settled_ok_def cancelTask_def wait_ok_def core_silent)

text \<open>The acknowledgement of chunk \<open>i\<close> and the step of the row that goes with it.\<close>

lemma core_ack:
  assumes c: "core (PhLoop t i n) st sent acks" and i: "i < totalChunks t"
  shows "core (PhLoop t (Suc i) 0)
    (patch_state (up_id t) (PatchUploaded (Suc i) (chunk_progress (Suc i) (totalChunks t))) st)
    sent (acks @ [(up_id t, i)])"
proof -
  have w: "work_ok (PhLoop t i n) (queue st)" and r: "rows_ok (PhLoop t i n) (queue st) (up_tasks st)"
    and l: "log_ok (PhLoop t i n) (queue st) sent acks" using c by (simp_all add: core_def)
  have "up_id t \<notin> set (map up_id (queue st))" using w by (simp add: work_ok_def)
  then have nq: "\<forall>u\<in>set (queue st). up_id u \<noteq> up_id t" by (metis imageI set_map)
  have "rows_ok (PhLoop t (Suc i) 0) (queue st) (patchTask (up_id t)
      (PatchUploaded (Suc i) (chunk_progress (Suc i) (totalChunks t))) (up_tasks st))"
    by (rule rows_ok_patch [OF r]) (auto simp: row_ok_def)
  moreover have "work_ok (PhLoop t (Suc i) 0) (queue st)" using w i by (simp add: work_ok_def)
  moreover have "log_ok (PhLoop t (Suc i) 0) (queue st) sent (acks @ [(up_id t, i)])"
    using l nq by (auto simp: log_ok_def merges_ok_def untouched_def)
  ultimately show ?thesis by (simp add: core_def patch_state_def)
qed

lemma settled_upload_ok:
  assumes inv: "upload_inv w"
  shows "settled_ok (wlog w) (wacks w @ ack_of (USettle s) (eng w)) (settled_upload s (eng w))"
proof -
  have c: "core (phase_of (pc (eng w))) (eng w) (wlog w) (wacks w)" and o: "wait_ok (eng w)"
    using inv by (simp_all add: upload_inv_def)
  have run: "running (eng w)" if "pc (eng w) \<noteq> AtIdle" using o that by (simp add: wait_ok_def)
  have whole: "settled_ok (wlog w) (wacks w) (continue_drain (case expect_success fb s of
      Inl e \<Rightarrow> task_failed t (Some e) (eng w)
    | Inr _ \<Rightarrow> ((patch_state (up_id t) p (eng w))\<lparr>pc := AtIdle\<rparr>, [FileDone t])))"
    if ph: "phase_tasks (phase_of (pc (eng w))) = [t]" and p: "p = PatchSingleDone \<or> p = PatchDone" for t p fb
  proof (rule continue_drain_ok [of "eng w"])
    have fin: "row_finished (apply_task_patch p r)" for r using p row_finished_end by auto
    show "piece_ok (eng w) (wlog w) (wacks w) (case expect_success fb s of
        Inl e \<Rightarrow> task_failed t (Some e) (eng w)
      | Inr _ \<Rightarrow> ((patch_state (up_id t) p (eng w))\<lparr>pc := AtIdle\<rparr>, [FileDone t]))"
      using piece_failed [OF c ph] core_end [OF c ph, where p = p and es = "[FileDone t]"] fin
      by (simp add: piece_ok_def split: sum.splits)
    show "running (eng w)" using ph by (intro run) auto
  qed
  show ?thesis
  proof (cases "pc (eng w)")
    case AtIdle
    then show ?thesis using c o by (cases s) (simp_all add: settled_upload_def settled_ok_def)
  next
    case (AtSingle t)
    then show ?thesis using whole [of t PatchSingleDone FbUpload]
      by (cases s) (simp_all add: settled_upload_def)
  next
    case (AtChunk t i a)
    have i: "i < totalChunks t" using o AtChunk by (simp add: wait_ok_def)
    have cl: "core (PhLoop t i (Suc a)) (eng w) (wlog w) (wacks w)" using c AtChunk by simp
    have run: "running (eng w)" by (rule run) (simp add: AtChunk)
    show ?thesis
    proof (cases "expect_success (FbChunk (i + 1)) s")
      case (Inl e)
      then have "ack_of (USettle s) (eng w) = []"
        by (cases s) (auto simp: AtChunk expect_success_def split: if_splits)
      then show ?thesis
        using continue_drain_ok [OF piece_attempt_failed [OF cl i] run] Inl
        by (simp add: settled_upload_def AtChunk)
    next
      case (Inr x)
      let ?acks = "wacks w @ [(up_id t, i)]"
      let ?st = "patch_state (up_id t) (PatchUploaded (Suc i) (chunk_progress (Suc i) (totalChunks t)))
        (drop_controller t (eng w))"
      have "core (PhLoop t i (Suc a)) (drop_controller t (eng w)) (wlog w) (wacks w)"
        using cl by (simp add: drop_controller_def)
      then have "piece_ok ?st (wlog w) ?acks (begin_chunk t (Suc i) ?st)"
        by (intro piece_chunk core_ack [OF _ i])
      moreover have "running ?st" using run by (simp add: drop_controller_def)
      ultimately have "settled_ok (wlog w) ?acks (continue_drain (begin_chunk t (Suc i) ?st))"
        by (rule continue_drain_ok)
      moreover have "ack_of (USettle s) (eng w) = [(up_id t, i)]"
        using Inr by (cases s) (auto simp: AtChunk expect_success_def split: if_splits)
      ultimately show ?thesis using Inr by (simp add: settled_upload_def AtChunk)
    qed
  next
    case (AtBackoff t i a)
    then show ?thesis using c o by (cases s) (simp_all add: settled_upload_def settled_ok_def)
  next
    case (AtMerge t)
    then show ?thesis using whole [of t PatchDone FbMerge]
      by (cases s) (simp_all add: settled_upload_def)
  qed
qed

lemma timer_fired_ok:
  assumes inv: "upload_inv w"
  shows "settled_ok (wlog w) (wacks w) (timer_fired (eng w))"
proof (cases "pc (eng w)")
  case (AtBackoff t i a)
  have c: "core (PhLoop t i (Suc a)) (eng w) (wlog w) (wacks w)" and o: "wait_ok (eng w)"
    using inv AtBackoff by (simp_all add: upload_inv_def)
  have "piece_ok (drop_controller t (eng w)) (wlog w) (wacks w)
      (begin_attempt t i (Suc a) (drop_controller t (eng w)))"
    using c o AtBackoff by (intro piece_attempt) (simp_all add: drop_controller_def wait_ok_def)
  then show ?thesis using o AtBackoff
    by (simp add: timer_fired_def)
      (rule continue_drain_ok, assumption, simp add: drop_controller_def wait_ok_def)
qed (use inv in \<open>simp_all add: timer_fired_def settled_ok_def upload_inv_def\<close>)

lemma upload_inv_start: "upload_inv start_world"
  by (simp add: upload_inv_def start_world_def init_upload_def core_def work_ok_def rows_ok_def
      log_ok_def merges_ok_def wait_ok_def)

lemma upload_inv_step: "upload_inv w \<Longrightarrow> upload_inv (upload_step w ev)"
proof (cases "admissible ev w")
  case True
  assume inv: "upload_inv w"
  have "settled_ok (wlog w) (wacks w @ ack_of ev (eng w)) (upload_handle ev (eng w))"
  proof (cases ev)
    case (UEnqueue ids fs p d)
    then show ?thesis using enqueue_ok [OF inv] True by (simp del: admissible.simps)
  next
    case (URetry i fresh)
    then show ?thesis using retryTask_ok [OF inv] True by (simp del: admissible.simps)
  qed (use cancelTask_ok [OF inv] clearFinished_ok [OF inv] settled_upload_ok [OF inv]
        timer_fired_ok [OF inv] in simp_all)
  then show ?thesis using True by (simp add: upload_step_def Let_def settled_ok_def upload_inv_def)
qed (simp add: upload_step_def)

interpretation upload: invariant_machine upload_step upload_inv start_world
  by unfold_locales (rule upload_inv_start, rule upload_inv_step)

end
