(* ===== verification/UploadProgress.thy ===== *)
theory UploadProgress
  imports UploadInvariant
begin

text \<open>
  The upload engine ends: every answer to the request it waits for, and every back-off
  timer, makes a measure of the work left smaller, whatever the answer is. The measure
  counts, for each chunk still to come, the attempts and pauses that may be needed.
\<close>

definition work_task :: "UploadTask \<Rightarrow> nat" where
  "work_task t = (if totalChunks t \<le> 1 then 1 else 8 * totalChunks t + 1)"

fun work_pc :: "upload_pc \<Rightarrow> nat" where
  "work_pc AtIdle = 0"
| "work_pc (AtSingle t) = 1"
| "work_pc (AtChunk t i a) = 8 * (totalChunks t - Suc i) + 2 * (4 - a) + 1"
| "work_pc (AtBackoff t i a) = 8 * (totalChunks t - Suc i) + 2 * (4 - a)"
| "work_pc (AtMerge t) = 1"

definition work :: "upload_state \<Rightarrow> nat" where
  "work st = work_pc (pc st) + sum_list (map work_task (queue st))"

text \<open>What a piece of \<open>uploadOne\<close> leaves to do for its task.\<close>

definition leaves :: "nat \<Rightarrow> upload_state \<Rightarrow> upload_result \<Rightarrow> bool" where
  "leaves k st r \<longleftrightarrow> work_pc (pc (fst r)) \<le> k \<and> queue (fst r) = queue st"

lemma leaves_failed: "good_task t \<Longrightarrow> leaves k st (task_failed t exn st)"
  using calls_valid(1) [of t] by (auto simp: leaves_def task_failed_def Let_def)

lemma leaves_attempt:
  assumes "good_task t"
  shows "leaves (8 * (totalChunks t - Suc i) + 2 * (4 - a) + 1) st (begin_attempt t i a st)"
  using calls_valid(2) [OF assms, of "chunk_slice t i" i "totalChunks t"]
  by (auto simp: leaves_def begin_attempt_def Let_def)

lemma leaves_merge: "good_task t \<Longrightarrow> leaves 1 st (begin_merge t st)"
  using leaves_failed [of t 1 "patch_state (up_id t) PatchMerging st"]
  by (auto simp: leaves_def begin_merge_def Let_def split: sum.splits)

lemma leaves_mono: "leaves k st r \<Longrightarrow> k \<le> m \<Longrightarrow> leaves m st r"
  by (simp add: leaves_def)

lemma leaves_chunk:
  assumes "good_task t"
  shows "leaves (8 * (totalChunks t - i) + 1) st (begin_chunk t i st)"
proof (cases "i < totalChunks t")
  case True
  then have "8 * (totalChunks t - Suc i) + 2 * (4 - 0) + 1 = 8 * (totalChunks t - i) + 1" by simp
  then show ?thesis
    using True leaves_failed [OF assms] leaves_attempt [OF assms, of i 0 st]
    by (simp only: begin_chunk_def) simp
next
  case False
  then show ?thesis using leaves_merge [OF assms] by (simp add: begin_chunk_def leaves_mono)
qed

lemma leaves_attempt_failed:
  assumes "good_task t"
  shows "leaves (8 * (totalChunks t - Suc i) + 2 * (4 - a)) st (attempt_failed t i a e st)"
  using leaves_failed [OF assms, of _ "drop_controller t st"]
  by (auto simp: attempt_failed_def leaves_def drop_controller_def)

lemma leaves_upload: "good_task t \<Longrightarrow> leaves (work_task t) st (uploadOne t st)"
  using calls_valid(3) [of t "up_file t"] leaves_chunk [of t 0 "patch_state (up_id t) PatchStart st"]
  by (auto simp: uploadOne_def Let_def leaves_def work_task_def)

lemma drain_loop_work:
  "\<forall>t\<in>set ts. good_task t \<Longrightarrow> pc st = AtIdle \<Longrightarrow>
   work (fst (drain_loop ts st)) \<le> sum_list (map work_task ts)"
proof (induction ts arbitrary: st)
  case Nil
  then show ?case by (simp add: work_def)
next
  case (Cons t ts)
  define r where "r = uploadOne t (st\<lparr>queue := ts\<rparr>)"
  have l: "leaves (work_task t) (st\<lparr>queue := ts\<rparr>) r"
    unfolding r_def using Cons.prems(1) by (intro leaves_upload) simp
  show ?case
  proof (cases "up_id t \<in> set (canceled st)")
    case True
    then show ?thesis
      using Cons.IH [of "patch_state (up_id t) PatchSkipped (st\<lparr>queue := ts\<rparr>)"] Cons.prems by simp
  next
    case False
    then have loop: "drain_loop (t # ts) st =
        (if pc (fst r) = AtIdle \<and> running (fst r) then add_first (snd r) (drain_loop ts (fst r)) else r)"
      by (simp add: r_def Let_def)
    show ?thesis
      using Cons.IH [of "fst r"] Cons.prems l unfolding loop
      by (auto simp: leaves_def work_def add_first_def)
  qed
qed

lemma continue_drain_work:
  assumes "leaves k st r" and "\<forall>t\<in>set (queue st). good_task t"
  shows "work (fst (continue_drain r)) \<le> k + sum_list (map work_task (queue st))"
  using assms drain_loop_work [of "queue (fst r)" "fst r"]
  by (auto simp: continue_drain_def leaves_def work_def add_first_def)

text \<open>The event the engine waits for: the timer in a back-off, an answer otherwise.\<close>

fun due :: "upload_state \<Rightarrow> unit settled \<Rightarrow> upload_event" where
  "due st s = (case pc st of AtBackoff t i a \<Rightarrow> UTimer | _ \<Rightarrow> USettle s)"

lemma due_decreases:
  assumes inv: "upload_inv w" and busy: "pc (eng w) \<noteq> AtIdle"
  shows "work (fst (upload_handle (due (eng w) s) (eng w))) < work (eng w)"
proof -
  have c: "core (phase_of (pc (eng w))) (eng w) (wlog w) (wacks w)" and o: "wait_ok (eng w)"
    using inv by (simp_all add: upload_inv_def)
  have q: "\<forall>t\<in>set (queue (eng w)). good_task t"
    and g: "\<forall>t\<in>set (phase_tasks (phase_of (pc (eng w)))). good_task t"
    using c by (auto simp: core_def work_ok_def)
  show ?thesis
  proof (cases "pc (eng w)")
    case (AtSingle t)
    have "leaves 0 (eng w) (case expect_success FbUpload s of
        Inl e \<Rightarrow> task_failed t (Some e) (eng w)
      | Inr _ \<Rightarrow> ((patch_state (up_id t) PatchSingleDone (eng w))\<lparr>pc := AtIdle\<rparr>, [FileDone t]))"
      using g leaves_failed [of t 0 "eng w"] AtSingle by (simp add: leaves_def split: sum.splits)
    from continue_drain_work [OF this q] show ?thesis
      by (simp add: AtSingle settled_upload_def work_def)
  next
    case (AtMerge t)
    have "leaves 0 (eng w) (case expect_success FbMerge s of
        Inl e \<Rightarrow> task_failed t (Some e) (eng w)
      | Inr _ \<Rightarrow> ((patch_state (up_id t) PatchDone (eng w))\<lparr>pc := AtIdle\<rparr>, [FileDone t]))"
      using g leaves_failed [of t 0 "eng w"] AtMerge by (simp add: leaves_def split: sum.splits)
    from continue_drain_work [OF this q] show ?thesis
      by (simp add: AtMerge settled_upload_def work_def)
  next
    case (AtChunk t i a)
    have gt: "good_task t" using g AtChunk by simp
    have a: "a \<le> 3" using c AtChunk by (simp add: core_def work_ok_def MAX_CHUNK_RETRIES_def)
    define r where "r = (case expect_success (FbChunk (i + 1)) s of
        Inl e \<Rightarrow> attempt_failed t i a e (eng w)
      | Inr _ \<Rightarrow> begin_chunk t (i + 1) (patch_state (up_id t)
           (PatchUploaded (i + 1) (chunk_progress (i + 1) (totalChunks t))) (drop_controller t (eng w))))"
    have l: "leaves (8 * (totalChunks t - Suc i) + 2 * (4 - a)) (eng w) r"
    proof (cases "expect_success (FbChunk (i + 1)) s")
      case (Inl e)
      then show ?thesis using leaves_attempt_failed [OF gt] by (simp add: r_def)
    next
      case (Inr x)
      then have "leaves (8 * (totalChunks t - Suc i) + 1) (eng w) r"
        using leaves_chunk [OF gt, of "i + 1"] by (simp add: r_def leaves_def drop_controller_def)
      then show ?thesis by (rule leaves_mono) (use a in linarith)
    qed
    have "upload_handle (due (eng w) s) (eng w) = continue_drain r"
      by (simp add: AtChunk settled_upload_def r_def)
    moreover have "work (eng w) = 8 * (totalChunks t - Suc i) + 2 * (4 - a) + 1 +
        sum_list (map work_task (queue (eng w)))" by (simp add: work_def AtChunk)
    ultimately show ?thesis using continue_drain_work [OF l q] by simp
  next
    case (AtBackoff t i a)
    have gt: "good_task t" using g AtBackoff by simp
    have a: "a < 3" using o AtBackoff by (simp add: wait_ok_def MAX_CHUNK_RETRIES_def)
    have l: "leaves (8 * (totalChunks t - Suc i) + 2 * (4 - Suc a) + 1) (eng w)
        (begin_attempt t i (a + 1) (drop_controller t (eng w)))"
      using leaves_attempt [OF gt, of i "Suc a" "drop_controller t (eng w)"]
      by (simp add: leaves_def drop_controller_def)
    have "upload_handle (due (eng w) s) (eng w) =
        continue_drain (begin_attempt t i (a + 1) (drop_controller t (eng w)))"
      by (simp add: AtBackoff timer_fired_def)
    moreover have "work (eng w) = 8 * (totalChunks t - Suc i) + 2 * (4 - a) +
        sum_list (map work_task (queue (eng w)))" by (simp add: work_def AtBackoff)
    ultimately show ?thesis using continue_drain_work [OF l q] a by simp
  qed (use busy in simp)
qed

text \<open>The engine driven by the answers \<open>ss\<close>.\<close>

fun drive :: "upload_world \<Rightarrow> unit settled list \<Rightarrow> upload_world" where
  "drive w [] = w"
| "drive w (s # ss) = drive (upload_step w (due (eng w) s)) ss"

lemma due_admissible: "admissible (due st s) w"
  by (simp split: upload_pc.splits)

lemma idle_due: "pc (eng w) = AtIdle \<Longrightarrow> eng (upload_step w (due (eng w) s)) = eng w"
  by (simp add: upload_step_def Let_def settled_upload_def)

lemma drive_ends:
  "upload_inv w \<Longrightarrow> work (eng w) \<le> length ss \<Longrightarrow> pc (eng (drive w ss)) = AtIdle"
proof (induction ss arbitrary: w)
  case Nil
  then have "work_pc (pc (eng w)) = 0" by (simp add: work_def)
  moreover have "pc (eng w) = AtIdle \<or> 0 < work_pc (pc (eng w))"
    using Nil.prems(1) by (cases "pc (eng w)") (auto simp: upload_inv_def wait_ok_def MAX_CHUNK_RETRIES_def)
  ultimately show ?case by simp
next
  case (Cons s ss)
  let ?w = "upload_step w (due (eng w) s)"
  have inv: "upload_inv ?w" by (rule upload_inv_step [OF Cons.prems(1)])
  have "work (eng ?w) \<le> length ss"
  proof (cases "pc (eng w) = AtIdle")
    case True
    then have "work (eng w) = 0" using Cons.prems(1) by (simp add: upload_inv_def wait_ok_def work_def)
    then show ?thesis using idle_due [OF True] by simp
  next
    case False
    have "eng ?w = fst (upload_handle (due (eng w) s) (eng w))"
      using due_admissible by (simp add: upload_step_def Let_def del: due.simps)
    then show ?thesis using due_decreases [OF Cons.prems(1) False, of s] Cons.prems(2) by simp
  qed
  then show ?case using Cons.IH [OF inv] by simp
qed

lemma upload_inv_drive: "upload_inv w \<Longrightarrow> upload_inv (drive w ss)"
  by (induction ss arbitrary: w) (simp_all add: upload_inv_step)

subsection \<open>Cancelling\<close>

lemma find_task_patch:
  "find_task i (patchTask i p ts) = map_option (apply_task_patch p) (find_task i ts)"
  unfolding find_task_def by (rule task_store.find_patch_same)

text \<open>
  Cancelling while a chunk is in flight: the request is aborted, its rejection ends the task
  as canceled and the server is told to drop the chunks.
\<close>

lemma cancel_in_flight:
  assumes pc: "pc st = AtChunk t i a" and g: "good_task t" and "1 < totalChunks t"
    and cancel: "up_id t \<in> set (canceled st)" and q: "queue st = []" and run: "running st"
    and row: "find_task (up_id t) (up_tasks st) = Some r"
    and res: "res = settled_upload (Rejected e) st"
  shows "map_option status (find_task (up_id t) (up_tasks (fst res))) = Some Canceled"
    and "snd res = [SendAbort t]" and "pc (fst res) = AtIdle" and "\<not> running (fst res)"
  using assms calls_valid(1) [OF g]
  by (auto simp: settled_upload_def attempt_failed_def task_failed_def Let_def
      continue_drain_def add_first_def patch_state_def drop_controller_def find_task_patch)

text \<open>
  Cancelling during the pause before the last attempt at the last chunk is not noticed: the
  file is uploaded and merged, and shown as done.
\<close>

lemma cancel_in_backoff_lost:
  assumes pc: "pc st = AtBackoff t i a" and g: "good_task t" and final: "Suc i = totalChunks t"
    and multi: "1 < totalChunks t"
    and name: "\<not> blank (up_fileName t)" and q: "queue st = []" and run: "running st"
    and row: "find_task (up_id t) (up_tasks st) = Some r"
  defines "s1 \<equiv> fst (cancelTask (up_id t) st)"
  defines "s2 \<equiv> fst (timer_fired s1)"
  defines "s3 \<equiv> fst (settled_upload (Resolved (ok_response None)) s2)"
  defines "s4 \<equiv> fst (settled_upload (Resolved (ok_response None)) s3)"
  shows "map_option status (find_task (up_id t) (up_tasks s4)) = Some Success"
proof -
  obtain req where req: "uploadFileChunk (Some (chunk_slice t i)) (up_target t) (up_drives t) (up_id t)
      i (totalChunks t) = Inr req"
    using calls_valid(2) [OF g] by blast
  obtain req2 where req2: "mergeFileChunks (up_target t) (up_drives t) (up_fileName t) (up_id t) (totalChunks t) = Inr req2"
    using g name by (auto simp: good_task_def mergeFileChunks_def checked_eq post_json_call_def)
  have s2: "pc s2 = AtChunk t i (a + 1)" "up_tasks s2 = up_tasks st" "queue s2 = []" "running s2"
    using pc q run
    by (simp_all add: s2_def s1_def timer_fired_def cancelTask_def begin_attempt_def Let_def req
        continue_drain_def drop_controller_def)
  have s3: "pc s3 = AtMerge t" "queue s3 = []" "running s3"
    "up_tasks s3 = patchTask (up_id t) PatchMerging (patchTask (up_id t)
       (PatchUploaded (i + 1) (chunk_progress (i + 1) (totalChunks t))) (up_tasks st))"
    using s2 final
    by (simp_all add: s3_def settled_upload_def begin_chunk_def begin_merge_def Let_def req2
        continue_drain_def drop_controller_def patch_state_def)
  show ?thesis using s3 row
    by (simp add: s4_def settled_upload_def continue_drain_def add_first_def patch_state_def
        find_task_patch)
qed

text \<open>
  With a drive that has no name the clean-up request cannot even be built: the loop is left,
  the row stays ``uploading'' and the rest of the queue is not looked at.
\<close>

lemma unnamed_drive_stalls:
  assumes "pc st = AtBackoff t i 2" and "blank (up_drives t)"
    and "\<not> blank (up_target t)" and "1 < totalChunks t" and "up_id t \<notin> set (canceled st)" and "running st"
  shows "pc (fst (timer_fired st)) = AtIdle" and "\<not> running (fst (timer_fired st))"
    and "queue (fst (timer_fired st)) = queue st" and "up_tasks (fst (timer_fired st)) = up_tasks st"
  using assms
  by (auto simp: timer_fired_def begin_attempt_def Let_def uploadFileChunk_def abortUpload_def
      checked_eq requireNonEmpty_def attempt_failed_def MAX_CHUNK_RETRIES_def task_failed_def
      continue_drain_def drop_controller_def split: sum.splits option.splits if_splits)

end
