(* ===== verification/UploadSuccess.thy ===== *)
theory UploadSuccess
  imports UploadProgress
begin

text \<open>
  The normal course of the upload queue, in full: any list of files is enqueued on an idle engine
  and every request is answered with success. The requests that go out, their order and their
  payloads are computed for every list of files and every file size.
\<close>

fun ok_answers :: "nat \<Rightarrow> upload_state \<Rightarrow> upload_result" where
  "ok_answers 0 st = (st, [])"
| "ok_answers (Suc n) st =
     (let r = settled_upload (Resolved (ok_response None)) st in add_first (snd r) (ok_answers n (fst r)))"

definition uploadable :: "UploadTask \<Rightarrow> bool" where
  "uploadable t \<longleftrightarrow> good_task t \<and> \<not> blank (up_fileName t)"

lemma uploadable_calls:
  assumes "uploadable t"
  obtains a b c where "uploadFileChunk (Some s) (up_target t) (up_drives t) (up_id t) k n = Inr a"
    and "mergeFileChunks (up_target t) (up_drives t) (up_fileName t) (up_id t) (totalChunks t) = Inr b"
    and "uploadFile (Some (up_file t)) (up_target t) (up_drives t) = Inr c"
proof -
  have "\<exists>b. mergeFileChunks (up_target t) (up_drives t) (up_fileName t) (up_id t) (totalChunks t) = Inr b"
    using assms by (auto simp: uploadable_def good_task_def mergeFileChunks_def checked_eq post_json_call_def)
  then show ?thesis using that calls_valid(2,3) [of t] assms unfolding uploadable_def by metis
qed

text \<open>
  The rows of a task may change, its id and all the other rows may not.
\<close>

definition same_row :: "string set \<Rightarrow> UploadTask \<Rightarrow> UploadTask \<Rightarrow> bool" where
  "same_row D r r' \<longleftrightarrow> up_id r' = up_id r \<and> (up_id r \<notin> D \<longrightarrow> r' = r)"

definition rows_kept :: "string set \<Rightarrow> UploadTask list \<Rightarrow> UploadTask list \<Rightarrow> bool" where
  "rows_kept D = list_all2 (same_row D)"

definition rows_done :: "string set \<Rightarrow> UploadTask list \<Rightarrow> bool" where
  "rows_done D rows \<longleftrightarrow> (\<forall>r\<in>set rows. up_id r \<in> D \<longrightarrow> status r = Success \<and> progress r = 100)"

lemma rows_kept_refl [simp]: "rows_kept D rows rows"
  by (simp add: rows_kept_def same_row_def list_all2_same)

lemma rows_kept_trans:
  assumes "rows_kept D rows rows'" and "rows_kept E rows' rows''"
  shows "rows_kept (D \<union> E) rows rows''"
proof -
  have "same_row (D \<union> E) r r''" if "same_row D r r'" "same_row E r' r''" for r r' r''
    using that by (auto simp: same_row_def)
  then show ?thesis
    using list_all2_trans [of "same_row D" "same_row E" "same_row (D \<union> E)"] assms unfolding rows_kept_def by blast
qed

lemma rows_kept_patch: "rows_kept {i} rows (patchTask i p rows)"
  by (simp add: rows_kept_def patchTask_def patch_by_def list_all2_conv_all_nth same_row_def)

lemma rows_done_kept:
  assumes "rows_kept E rows rows'" and "rows_done D rows" and "rows_done E rows'"
  shows "rows_done (D \<union> E) rows'"
  unfolding rows_done_def
proof (intro ballI impI)
  fix r' assume r': "r' \<in> set rows'" "up_id r' \<in> D \<union> E"
  then obtain r where r: "r \<in> set rows" "same_row E r r'"
    using assms(1) unfolding rows_kept_def by (metis list_all2_conv_all_nth in_set_conv_nth)
  then show "status r' = Success \<and> progress r' = 100"
    using assms(2,3) r' unfolding rows_done_def same_row_def by (cases "up_id r \<in> E") auto
qed

lemma rows_kept_new:
  assumes "rows_kept (set (map up_id created)) (rows @ created) rows'"
    and "\<forall>r\<in>set rows. up_id r \<notin> set (map up_id created)"
    and "rows_done (set (map up_id created)) rows'"
  shows "\<exists>fresh. rows' = rows @ fresh \<and> map up_id fresh = map up_id created \<and>
    (\<forall>r\<in>set fresh. status r = Success \<and> progress r = 100)"
proof -
  let ?D = "set (map up_id created)"
  obtain old fresh where r: "rows' = old @ fresh" "list_all2 (same_row ?D) rows old"
      "list_all2 (same_row ?D) created fresh"
    using assms(1) unfolding rows_kept_def list_all2_append1 by blast
  have "old = rows"
    using r(2) assms(2) by (auto simp: list_all2_conv_all_nth same_row_def intro!: nth_equalityI)
  moreover have ids: "map up_id fresh = map up_id created"
    using r(3) by (auto simp: list_all2_conv_all_nth same_row_def intro!: nth_equalityI)
  moreover have "up_id r \<in> ?D" if "r \<in> set fresh" for r
    using that arg_cong [OF ids, of set] by auto
  ultimately show ?thesis using r(1) assms(3) by (auto simp: rows_done_def)
qed

text \<open>
  The engine serves \<open>t\<close>: since \<open>s\<close> only the row of \<open>t\<close> has changed. Then \<open>t\<close> is done.
\<close>

definition serving :: "upload_state \<Rightarrow> UploadTask \<Rightarrow> upload_state \<Rightarrow> bool" where
  "serving s t st \<longleftrightarrow> running st \<and> queue st = queue s \<and> canceled st = canceled s \<and>
     up_id t \<notin> set (canceled s) \<and> rows_kept {up_id t} (up_tasks s) (up_tasks st)"

definition served :: "upload_state \<Rightarrow> UploadTask \<Rightarrow> upload_state \<Rightarrow> bool" where
  "served s t st \<longleftrightarrow> serving s t st \<and> pc st = AtIdle \<and> rows_done {up_id t} (up_tasks st)"

lemma serving_patch [simp]:
  "serving s t st \<Longrightarrow> serving s t (patch_state (up_id t) p st)"
  using rows_kept_trans [OF _ rows_kept_patch, of "{up_id t}" "up_tasks s" "up_tasks st" "up_id t" p]
  by (simp add: serving_def patch_state_def)

lemma serving_other [simp]:
  "serving s t (drop_controller u st) = serving s t st"
  "serving s t (st\<lparr>pc := c\<rparr>) = serving s t st" "serving s t (st\<lparr>controllers := cs\<rparr>) = serving s t st"
  by (simp_all add: serving_def drop_controller_def)

lemma serving_open: "serving s t st \<Longrightarrow> up_id t \<notin> set (canceled st)"
  by (simp add: serving_def)

lemma begin_chunk_more:
  assumes "uploadable t" and "serving s t st" and "k < totalChunks t"
  shows "\<exists>st'. begin_chunk t k st = (st', [SendChunk t k (chunk_slice t k)]) \<and> serving s t st' \<and> pc st' = AtChunk t k 0"
proof -
  obtain a b c where "uploadFileChunk (Some (chunk_slice t k)) (up_target t) (up_drives t) (up_id t)
      k (totalChunks t) = Inr a"
    using uploadable_calls [OF assms(1)] by metis
  then show ?thesis
    using assms(2,3) serving_open [OF assms(2)] by (simp add: begin_chunk_def begin_attempt_def Let_def)
qed

lemma begin_chunk_last:
  assumes "uploadable t" and "serving s t st"
  shows "\<exists>st'. begin_chunk t (totalChunks t) st = (st', [SendMerge t]) \<and> serving s t st' \<and> pc st' = AtMerge t"
proof -
  obtain a b c where "mergeFileChunks (up_target t) (up_drives t) (up_fileName t) (up_id t) (totalChunks t) = Inr b"
    using uploadable_calls [OF assms(1)] by metis
  then show ?thesis using assms(2) by (simp add: begin_chunk_def begin_merge_def Let_def)
qed

lemma settle_chunk:
  assumes "serving s t st" and "pc st = AtChunk t k a"
  shows "\<exists>st1. serving s t st1 \<and> settled_upload (Resolved (ok_response None)) st = continue_drain (begin_chunk t (Suc k) st1)"
  using assms by (simp add: settled_upload_def) (metis serving_patch serving_other(1))

lemma continue_busy: "pc (fst r) \<noteq> AtIdle \<Longrightarrow> continue_drain r = r"
  by (simp add: continue_drain_def)

lemma ok_chunks:
  assumes "uploadable t" and "k < totalChunks t" and "serving s t st" and "pc st = AtChunk t k a"
  shows "\<exists>st'. ok_answers (totalChunks t - k) st =
      (st', map (\<lambda>j. SendChunk t j (chunk_slice t j)) [Suc k..<totalChunks t] @ [SendMerge t])
    \<and> serving s t st' \<and> pc st' = AtMerge t"
  using assms(2-4)
proof (induction "totalChunks t - k" arbitrary: k st a)
  case (Suc n)
  obtain st1 where st1: "serving s t st1"
      "settled_upload (Resolved (ok_response None)) st = continue_drain (begin_chunk t (Suc k) st1)"
    using settle_chunk Suc.prems by blast
  have n: "totalChunks t - Suc k = n" "totalChunks t - k = Suc n" using Suc.hyps(2) by simp_all
  show ?case
  proof (cases "Suc k < totalChunks t")
    case True
    obtain st2 where st2: "begin_chunk t (Suc k) st1 = (st2, [SendChunk t (Suc k) (chunk_slice t (Suc k))])"
        "serving s t st2" "pc st2 = AtChunk t (Suc k) 0"
      using begin_chunk_more [OF assms(1) st1(1) True] by blast
    moreover have "[Suc k..<totalChunks t] = Suc k # [Suc (Suc k)..<totalChunks t]"
      using True by (simp add: upt_rec)
    ultimately show ?thesis
      using Suc.hyps(1) [of "Suc k" st2 0] True
      by (auto simp: n st1(2) continue_busy add_first_def simp del: upt_Suc)
  next
    case False
    then have k: "Suc k = totalChunks t" and "n = 0" using Suc.prems(1) n by simp_all
    obtain st2 where "begin_chunk t (Suc k) st1 = (st2, [SendMerge t])" "serving s t st2" "pc st2 = AtMerge t"
      using begin_chunk_last [OF assms(1) st1(1)] k by metis
    then show ?thesis
      using \<open>n = 0\<close> k by (simp add: n st1(2) continue_busy add_first_def)
  qed
qed simp

lemma ok_answers_add:
  "ok_answers (m + n) st = add_first (snd (ok_answers m st)) (ok_answers n (fst (ok_answers m st)))"
  by (induction m arbitrary: st) (simp_all add: Let_def add_first_def)

text \<open>The last answer: the row is done, the directory is reported, and the loop takes the next task.\<close>

lemma rows_done_patch:
  assumes "\<And>r. status (apply_task_patch p r) = Success \<and> progress (apply_task_patch p r) = 100"
  shows "rows_done {i} (patchTask i p rows)"
  using assms by (auto simp: rows_done_def patchTask_def patch_by_def)

lemma settle_last:
  assumes "serving s t st" and "pc st = AtMerge t \<or> pc st = AtSingle t"
  shows "\<exists>st'. settled_upload (Resolved (ok_response None)) st = continue_drain (st', [FileDone t]) \<and> served s t st'"
proof -
  have "served s t ((patch_state (up_id t) p st)\<lparr>pc := AtIdle\<rparr>)" if "p = PatchDone \<or> p = PatchSingleDone" for p
    using assms(1) that by (auto simp: served_def) (simp_all add: patch_state_def rows_done_patch)
  then show ?thesis using assms(2) by (auto simp: settled_upload_def)
qed

text \<open>How many answers a task needs, and what is sent for it.\<close>

definition answers_needed :: "UploadTask \<Rightarrow> nat" where
  "answers_needed t = (if totalChunks t \<le> 1 then 1 else totalChunks t + 1)"

definition upload_sends :: "UploadTask \<Rightarrow> upload_effect list" where
  "upload_sends t =
     (if totalChunks t \<le> 1 then [SendUpload t]
      else map (\<lambda>j. SendChunk t j (chunk_slice t j)) [0..<totalChunks t] @ [SendMerge t])"

lemma upload_one_ok:
  assumes t: "uploadable t" and st: "serving s t st"
  shows "\<exists>st1 st2 es fs. uploadOne t st = (st1, es) \<and> pc st1 \<noteq> AtIdle \<and>
    ok_answers (answers_needed t) st1 = add_first fs (continue_drain (st2, [FileDone t])) \<and>
    es @ fs = upload_sends t \<and> served s t st2"
proof (cases "totalChunks t \<le> 1")
  case True
  obtain a b c where "uploadFile (Some (up_file t)) (up_target t) (up_drives t) = Inr c"
    using uploadable_calls [OF t] by metis
  then obtain st1 where st1: "uploadOne t st = (st1, [SendUpload t])" "serving s t st1" "pc st1 = AtSingle t"
    using True st by (simp add: uploadOne_def Let_def)
  then show ?thesis
    using True settle_last [of s t st1] by (auto simp: answers_needed_def upload_sends_def Let_def add_first_def)
next
  case False
  then have n: "0 < totalChunks t" "[0..<totalChunks t] = 0 # [Suc 0..<totalChunks t]"
    by (simp_all add: upt_conv_Cons)
  obtain st1 where st1: "uploadOne t st = (st1, [SendChunk t 0 (chunk_slice t 0)])" "serving s t st1"
      "pc st1 = AtChunk t 0 0"
    using begin_chunk_more [OF t _ n(1), of s "patch_state (up_id t) PatchStart st"] False st
    by (auto simp: uploadOne_def Let_def)
  obtain st2 where st2: "ok_answers (totalChunks t) st1 =
      (st2, map (\<lambda>j. SendChunk t j (chunk_slice t j)) [Suc 0..<totalChunks t] @ [SendMerge t])"
      "serving s t st2" "pc st2 = AtMerge t"
    using ok_chunks [OF t n(1) st1(2,3)] by auto
  obtain st3 where "settled_upload (Resolved (ok_response None)) st2 = continue_drain (st3, [FileDone t])"
      "served s t st3"
    using settle_last [OF st2(2)] st2(3) by blast
  then show ?thesis
    using False st1 st2(1) ok_answers_add [of "totalChunks t" 1 st1]
    by (auto simp: answers_needed_def upload_sends_def n(2) add_first_def Let_def simp del: upt_Suc)
qed

text \<open>The whole queue.\<close>

definition queue_answers :: "UploadTask list \<Rightarrow> nat" where
  "queue_answers ts = sum_list (map answers_needed ts)"

definition queue_effects :: "UploadTask list \<Rightarrow> upload_effect list" where
  "queue_effects ts = concat (map (\<lambda>t. upload_sends t @ [FileDone t]) ts)"

definition engine_idle :: "upload_state \<Rightarrow> bool" where
  "engine_idle st \<longleftrightarrow> pc st = AtIdle \<and> \<not> running st \<and> queue st = []"

lemma queue_ok:
  assumes "\<forall>t\<in>set ts. uploadable t" and "\<forall>t\<in>set ts. up_id t \<notin> set (canceled st)"
    and "running st" and "pc st = AtIdle"
  shows "\<exists>st1 es st2 fs. drain_loop ts st = (st1, es) \<and> ok_answers (queue_answers ts) st1 = (st2, fs) \<and>
    es @ fs = queue_effects ts \<and> engine_idle st2 \<and>
    rows_kept (up_id ` set ts) (up_tasks st) (up_tasks st2) \<and> rows_done (up_id ` set ts) (up_tasks st2)"
  using assms
proof (induction ts arbitrary: st)
  case Nil
  then show ?case by (simp add: queue_answers_def queue_effects_def engine_idle_def rows_done_def)
next
  case (Cons t ts)
  let ?s = "st\<lparr>queue := ts\<rparr>"
  have "serving ?s t ?s" using Cons.prems by (simp add: serving_def)
  then obtain st1 st2 es fs where one: "uploadOne t ?s = (st1, es)" "pc st1 \<noteq> AtIdle"
      "ok_answers (answers_needed t) st1 = add_first fs (continue_drain (st2, [FileDone t]))"
      "es @ fs = upload_sends t" and fin: "served ?s t st2"
    using upload_one_ok [of t ?s ?s] Cons.prems(1) by auto
  have st2: "running st2" "queue st2 = ts" "canceled st2 = canceled st" "pc st2 = AtIdle"
      "rows_kept {up_id t} (up_tasks st) (up_tasks st2)" "rows_done {up_id t} (up_tasks st2)"
    using fin by (simp_all add: served_def serving_def)
  obtain st3 gs st4 hs where rest: "drain_loop ts st2 = (st3, gs)" "ok_answers (queue_answers ts) st3 = (st4, hs)"
      "gs @ hs = queue_effects ts" "engine_idle st4" "rows_kept (up_id ` set ts) (up_tasks st2) (up_tasks st4)"
      "rows_done (up_id ` set ts) (up_tasks st4)"
    using Cons.IH [of st2] Cons.prems(1,2) st2 by auto
  have loop: "drain_loop (t # ts) st = (st1, es)" using Cons.prems(2) one(1,2) by (simp add: Let_def)
  have answers: "ok_answers (queue_answers (t # ts)) st1 = (st4, fs @ FileDone t # gs @ hs)"
    using one(3) st2 rest(1,2) by (simp add: queue_answers_def ok_answers_add continue_drain_def add_first_def)
  have "es @ fs @ FileDone t # gs @ hs = (es @ fs) @ FileDone t # (gs @ hs)" by simp
  also have "\<dots> = queue_effects (t # ts)" unfolding one(4) rest(3) by (simp add: queue_effects_def)
  finally have "es @ fs @ FileDone t # gs @ hs = queue_effects (t # ts)" .
  moreover have "rows_kept (up_id ` set (t # ts)) (up_tasks st) (up_tasks st4)"
    using rows_kept_trans [OF st2(5) rest(5)] by simp
  moreover have "rows_done (up_id ` set (t # ts)) (up_tasks st4)"
    using rows_done_kept [OF rest(5) st2(6) rest(6)] by simp
  ultimately show ?case using loop answers rest(4) by (intro exI conjI) simp_all
qed

text \<open>Files put on an idle queue, all with success.\<close>

lemma created_tasks:
  assumes "length ids = length fs"
  shows "map up_id (map2 (create_task p d) ids fs) = ids"
  using assms by (simp add: create_task_def comp_def case_prod_beta' map_fst_zip)

lemma created_uploadable:
  assumes "\<forall>i\<in>set ids. \<not> blank i" and "\<not> blank p" and "\<not> blank d" and "\<forall>f\<in>set fs. \<not> blank (blob_name f)"
    and "t \<in> set (map2 (create_task p d) ids fs)"
  shows "uploadable t"
proof -
  obtain i f where "t = create_task p d i f" "i \<in> set ids" "f \<in> set fs"
    using assms(5) by (auto dest: set_zip_leftD set_zip_rightD)
  then show ?thesis using assms(1-4) by (simp add: uploadable_def) (simp add: create_task_def)
qed

lemma uploads_succeed:
  assumes idle: "engine_idle st" and n: "length ids = length fs" and ts: "ts = map2 (create_task p d) ids fs"
    and ids: "\<forall>i\<in>set ids. \<not> blank i \<and> i \<notin> set (canceled st) \<and> i \<notin> up_id ` set (up_tasks st)"
    and names: "\<not> blank p" "\<not> blank d" "\<forall>f\<in>set fs. \<not> blank (blob_name f)"
  shows "\<exists>st1 es st2 fs' fresh. enqueue ids fs p d st = (st1, es) \<and> ok_answers (queue_answers ts) st1 = (st2, fs') \<and>
    es @ fs' = queue_effects ts \<and> engine_idle st2 \<and> up_tasks st2 = up_tasks st @ fresh \<and>
    map up_id fresh = ids \<and> (\<forall>r\<in>set fresh. status r = Success \<and> progress r = 100)"
proof -
  let ?st = "st\<lparr>up_tasks := up_tasks st @ ts, queue := ts, running := True\<rparr>"
  have m: "map up_id ts = ids" using created_tasks [OF n] ts by simp
  have set_ids: "up_id ` set ts = set ids" unfolding m [symmetric] by simp
  have "\<forall>t\<in>set ts. uploadable t" using created_uploadable ids names ts by blast
  moreover have "\<forall>t\<in>set ts. up_id t \<notin> set (canceled ?st)" using set_ids ids by fastforce
  moreover have "running ?st" "pc ?st = AtIdle" using idle by (simp_all add: engine_idle_def)
  ultimately obtain st1 es st2 gs where r: "drain_loop ts ?st = (st1, es)" "ok_answers (queue_answers ts) st1 = (st2, gs)"
      "es @ gs = queue_effects ts" "engine_idle st2"
      "rows_kept (up_id ` set ts) (up_tasks st @ ts) (up_tasks st2)" "rows_done (up_id ` set ts) (up_tasks st2)"
    using queue_ok [of ts ?st] by auto
  have "\<forall>r\<in>set (up_tasks st). up_id r \<notin> set (map up_id ts)" using ids m by auto
  then obtain fresh where "up_tasks st2 = up_tasks st @ fresh" "map up_id fresh = ids"
      "\<forall>r\<in>set fresh. status r = Success \<and> progress r = 100"
    using rows_kept_new [of ts "up_tasks st" "up_tasks st2"] r(5,6) m by auto
  moreover have "enqueue ids fs p d st = (st1, es)"
    using idle r(1) by (simp add: enqueue_def drain_def engine_idle_def Let_def ts [symmetric])
  ultimately show ?thesis using r by blast
qed

end
