(* ===== verification/UploadView.thy ===== *)
theory UploadView
  imports UploadProgress
begin

text \<open>
  The upload queue at the foot of the tree panel
  (\<open>web/src/pages/filestorage/features/UploadQueue.tsx\<close>): the size and status texts and
  the controls of each row. \<open>None\<close> among the status texts is a text fixed in the code.
\<close>

definition formatSize :: "nat \<Rightarrow> string" where
  "formatSize bytes =
     (if bytes < 1024 then nat_to_string bytes @ '' B''
      else if bytes < 1024 * 1024 then to_fixed 1 (dbl (of_nat bytes / 1024)) @ '' KB''
      else if bytes < 1024 * 1024 * 1024 then
        to_fixed 1 (dbl (dbl (of_nat bytes / 1024) / 1024)) @ '' MB''
      else to_fixed 2 (dbl (dbl (dbl (of_nat bytes / 1024) / 1024) / 1024)) @ '' GB'')"

datatype status_text = TxQueued | TxChunks nat nat int | TxSize string | TxMerging | TxCanceled | TxFailed

definition statusText :: "UploadTask \<Rightarrow> status_text" where
  "statusText task =
     (case status task of
        Pending \<Rightarrow> TxQueued
      | Uploading \<Rightarrow>
          if 1 < totalChunks task then TxChunks (uploadedChunks task) (totalChunks task) (progress task)
          else TxSize (formatSize (up_size task))
      | Merging \<Rightarrow> TxMerging
      | Success \<Rightarrow> TxSize (formatSize (up_size task))
      | Canceled \<Rightarrow> TxCanceled
      | Failed \<Rightarrow> TxFailed)"

definition active :: "UploadTask \<Rightarrow> bool" where
  "active task \<longleftrightarrow> status task = Pending \<or> status task = Uploading \<or> status task = Merging"

datatype upload_button = BtnCancel string | BtnRetry string

record upload_row =
  row_name :: string
  row_meta :: status_text
  row_buttons :: "upload_button list"
  row_bar :: "int option"
  row_error :: "err_text option"

definition upload_row_of :: "UploadTask \<Rightarrow> upload_row" where
  "upload_row_of task =
     \<lparr>row_name = up_fileName task, row_meta = statusText task,
      row_buttons = (if active task then [BtnCancel (up_id task)] else []) @
        (if status task = Failed \<or> status task = Canceled then [BtnRetry (up_id task)] else []),
      row_bar = (if active task then Some (progress task) else None),
      row_error = up_error task\<rparr>"

record upload_view =
  view_count :: nat
  view_clear :: bool
  view_rows :: "upload_row list"

definition UploadQueue :: "UploadTask list \<Rightarrow> upload_view option" where
  "UploadQueue ts =
     (if ts = [] then None
      else Some \<lparr>view_count = length ts,
        view_clear = (0 < length (filter (\<lambda>t. status t = Success \<or> status t = Canceled) ts)),
        view_rows = map upload_row_of ts\<rparr>)"

fun button_event :: "string \<Rightarrow> upload_button \<Rightarrow> upload_event" where
  "button_event fresh (BtnCancel i) = UCancel i"
| "button_event fresh (BtnRetry i) = URetry i fresh"

subsection \<open>Laws\<close>

text \<open>Each row has at most one button; it has none exactly when the upload is done.\<close>

lemma row_one_button:
  "length (row_buttons (upload_row_of t)) = (if status t = Success then 0 else 1)"
  by (cases "status t") (auto simp: upload_row_of_def active_def)

text \<open>The size shown is the size: the unit's double quotient is exact below \<open>2^53\<close>.\<close>

lemma dbl_div_1024: "n < 2^53 \<Longrightarrow> dbl (of_nat n / 1024) = of_nat n / 1024"
  using dbl_div_power2 [of n 10] by simp

lemma dbl_div_1048576: "n < 2^53 \<Longrightarrow> dbl (of_nat n / 1024 / 1024) = of_nat n / 1048576"
  using dbl_div_power2 [of n 20] by simp

lemma dbl_div_1073741824: "n < 2^53 \<Longrightarrow> dbl (of_nat n / 1048576 / 1024) = of_nat n / 1073741824"
  using dbl_div_power2 [of n 30] by simp

lemma formatSize_exact:
  assumes "n < 2^53"
  shows "formatSize n =
     (if n < 1024 then nat_to_string n @ '' B''
      else if n < 1024 * 1024 then to_fixed 1 (of_nat n / 1024) @ '' KB''
      else if n < 1024 * 1024 * 1024 then to_fixed 1 (of_nat n / 1048576) @ '' MB''
      else to_fixed 2 (of_nat n / 1073741824) @ '' GB'')"
  unfolding formatSize_def dbl_div_1024 [OF assms] dbl_div_1048576 [OF assms]
    dbl_div_1073741824 [OF assms] by (rule refl)

text \<open>The bar of a running row is at most 99, so 100 is only ever shown for a finished upload.\<close>

lemma running_bar:
  assumes inv: "upload_inv w" and t: "t \<in> set (up_tasks (eng w))" and a: "active t"
  shows "0 \<le> progress t \<and> progress t \<le> 99"
proof -
  let ?ph = "phase_of (pc (eng w))"
  have r: "row_ok ?ph (queue (eng w)) t" and p: "phase_ok ?ph"
    using inv t by (auto simp: upload_inv_def core_def rows_ok_def work_ok_def)
  show ?thesis
  proof (cases "up_id t \<in> up_id ` set (phase_tasks ?ph)")
    case True
    then have c: "row_current ?ph t" using r by (simp add: row_ok_def)
    show ?thesis
    proof (cases ?ph)
      case (PhLoop u i n)
      then have "0 \<le> chunk_progress i (totalChunks u) \<and> chunk_progress i (totalChunks u) \<le> 98"
        using p by (intro chunk_progress_bounds) auto
      then show ?thesis using c PhLoop by simp
    qed (use c True in simp_all)
  next
    case False
    then show ?thesis using r a by (auto simp: row_ok_def row_finished_def active_def split: if_splits)
  qed
qed

end
