(* ===== verification/UploadProperties.thy ===== *)
theory UploadProperties
  imports UploadSuccess UploadView "HOL-Library.Code_Target_Nat"
begin

text \<open>
  The properties of the upload queue. A run is any list of events, each taken in the state
  the previous ones led to; events the page cannot produce (a reused id, a target without a
  name) change nothing. The demonstration file has six million bytes: two chunks.
\<close>

definition upload_run :: "upload_event list \<Rightarrow> upload_world" where
  "upload_run es = run_events upload_step start_world es"

lemma upload_run_inv: "upload_inv (upload_run es)"
  unfolding upload_run_def by (rule upload.inv_reachable)

lemma upload_run_log: "log_ok (phase_of (pc (eng (upload_run es)))) (queue (eng (upload_run es)))
    (wlog (upload_run es)) (wacks (upload_run es))"
  using upload_run_inv [of es] by (simp add: upload_inv_def core_def)

definition demo_bytes :: "nat list" where
  "demo_bytes = replicate 6000000 0"

lemma length_demo_bytes [simp]: "length demo_bytes = 6000000"
  unfolding demo_bytes_def by (rule length_replicate)

definition demo_blob :: blob where
  "demo_blob = \<lparr>blob_name = ''dump.sql'', blob_bytes = demo_bytes\<rparr>"

definition demo_upload :: UploadTask where
  "demo_upload = create_task ''/srv/logs'' ''/srv'' ''u1'' demo_blob"

lemma demo_chunks: "total_chunks 6000000 = 2"
  by (simp add: total_chunks_eq CHUNK_SIZE_def CHUNK_THRESHOLD_def)

lemma demo_upload_simps [simp]:
  "up_id demo_upload = ''u1''" "totalChunks demo_upload = 2" "up_size demo_upload = 6000000"
  "up_fileName demo_upload = ''dump.sql''" "up_file demo_upload = demo_blob"
  by (simp_all add: demo_upload_def create_task_def demo_blob_def demo_chunks)

lemma demo_not_blank: "\<not> blank ''u1''" "\<not> blank ''/srv/logs''" "\<not> blank ''/srv''" "\<not> blank ''dump.sql''"
  by code_simp+

lemma demo_good: "good_task demo_upload"
  by (simp add: demo_upload_def demo_not_blank)

text \<open>
  C3. In every run, whenever the queue has come to rest, any list of named files with new ids is
  uploaded completely if every request is answered by success: file after file in the order they
  were chosen, a small one by one request, a large one by its chunks \<open>0, 1, \<dots>\<close>, each sent once and
  in order with its own bytes, then one merge; after each file its directory is reported. Nothing
  else is sent. In the end the queue is at rest again, each file has a row that shows success at
  100, in order behind the rows that were there, and those rows are unchanged.
\<close>

theorem upload_delivers:
  assumes "st = eng (upload_run es)" and "pc st = AtIdle" and "length ids = length fs"
    and "\<forall>i\<in>set ids. \<not> blank i \<and> i \<notin> set (canceled st) \<and> i \<notin> up_id ` set (up_tasks st)"
    and "\<not> blank p" and "\<not> blank d" and "\<forall>f\<in>set fs. \<not> blank (blob_name f)"
    and "ts = map2 (create_task p d) ids fs"
  shows "\<exists>st1 sent st2 sent' fresh. enqueue ids fs p d st = (st1, sent) \<and>
    ok_answers (queue_answers ts) st1 = (st2, sent') \<and>
    sent @ sent' = concat (map (\<lambda>t. upload_sends t @ [FileDone t]) ts) \<and> engine_idle st2 \<and>
    up_tasks st2 = up_tasks st @ fresh \<and> map up_id fresh = ids \<and>
    (\<forall>r\<in>set fresh. status r = Success \<and> progress r = 100)"
proof -
  have "engine_idle st"
    using upload_run_inv [of es] assms(1,2) by (simp add: upload_inv_def wait_ok_def engine_idle_def)
  then show ?thesis using uploads_succeed assms(3-8) unfolding queue_effects_def by blast
qed

definition demo_note :: blob where
  "demo_note = \<lparr>blob_name = ''dump.sql'', blob_bytes = [72, 105]\<rparr>"

definition demo_second :: UploadTask where
  "demo_second = create_task ''/srv/logs'' ''/srv'' ''u2'' demo_note"

lemma demo_second_chunks: "totalChunks demo_second = 1" "\<not> blank ''u2''"
  by (simp add: demo_second_def create_task_def demo_note_def total_chunks_def CHUNK_THRESHOLD_def) code_simp

theorem upload_delivers_witness:
  "\<exists>st1 sent st2 sent' fresh.
    enqueue [''u1'', ''u2''] [demo_blob, demo_note] ''/srv/logs'' ''/srv'' init_upload = (st1, sent) \<and>
    ok_answers 4 st1 = (st2, sent') \<and>
    sent @ sent' = [SendChunk demo_upload 0 (chunk_slice demo_upload 0),
      SendChunk demo_upload 1 (chunk_slice demo_upload 1), SendMerge demo_upload, FileDone demo_upload,
      SendUpload demo_second, FileDone demo_second] \<and> engine_idle st2 \<and>
    up_tasks st2 = fresh \<and> map up_id fresh = [''u1'', ''u2''] \<and>
    (\<forall>r\<in>set fresh. status r = Success \<and> progress r = 100)"
proof -
  have run: "init_upload = eng (upload_run [])" by (simp add: upload_run_def start_world_def)
  have names: "\<forall>f\<in>set [demo_blob, demo_note]. \<not> blank (blob_name f)"
    by (simp add: demo_blob_def demo_note_def demo_not_blank)
  have ts: "[demo_upload, demo_second] =
      map2 (create_task ''/srv/logs'' ''/srv'') [''u1'', ''u2''] [demo_blob, demo_note]"
    by (simp add: demo_upload_def demo_second_def)
  have "queue_answers [demo_upload, demo_second] = 4"
    by (simp add: queue_answers_def answers_needed_def demo_second_chunks)
  moreover have "upload_sends demo_upload = [SendChunk demo_upload 0 (chunk_slice demo_upload 0),
      SendChunk demo_upload 1 (chunk_slice demo_upload 1), SendMerge demo_upload]"
    by (simp add: upload_sends_def upt_rec)
  moreover have "upload_sends demo_second = [SendUpload demo_second]"
    by (simp add: upload_sends_def demo_second_chunks)
  ultimately show ?thesis
    using upload_delivers [OF run _ _ _ demo_not_blank(2,3) names ts] demo_not_blank(1) demo_second_chunks(2)
    by (simp add: init_upload_def)
qed

text \<open>
  C12. The rows tell the truth in every run: a waiting upload shows 0, a running one at most
  99, a finished one exactly 100, and no row ever leaves the range from 0 to 100.
\<close>

theorem upload_rows_honest:
  "list_all (\<lambda>t. case status t of Pending \<Rightarrow> progress t = 0 | Success \<Rightarrow> progress t = 100
      | Uploading \<Rightarrow> 0 \<le> progress t \<and> progress t \<le> 99 | Merging \<Rightarrow> progress t = 99
      | _ \<Rightarrow> 0 \<le> progress t \<and> progress t \<le> 100) (up_tasks (eng (upload_run es)))"
  unfolding list_all_iff
proof
  let ?w = "upload_run es"
  let ?ph = "phase_of (pc (eng ?w))"
  fix t assume t: "t \<in> set (up_tasks (eng ?w))"
  have r: "row_ok ?ph (queue (eng ?w)) t" and p: "phase_ok ?ph"
    using upload_run_inv [of es] t by (auto simp: upload_inv_def core_def rows_ok_def work_ok_def)
  have bar: "active t \<Longrightarrow> 0 \<le> progress t \<and> progress t \<le> 99"
    by (rule running_bar [OF upload_run_inv t])
  have exact: "(status t = Pending \<longrightarrow> progress t = 0) \<and> (status t = Merging \<longrightarrow> progress t = 99)"
    using r by (cases ?ph) (auto simp: row_ok_def row_finished_def split: if_splits)
  have fin: "status t \<in> {Success, Failed, Canceled} \<Longrightarrow> 0 \<le> progress t \<and> progress t \<le> 100 \<and>
      (status t = Success \<longrightarrow> progress t = 100)"
    using r by (cases ?ph) (auto simp: row_ok_def row_finished_def split: if_splits)
  show "case status t of Pending \<Rightarrow> progress t = 0 | Success \<Rightarrow> progress t = 100
      | Uploading \<Rightarrow> 0 \<le> progress t \<and> progress t \<le> 99 | Merging \<Rightarrow> progress t = 99
      | _ \<Rightarrow> 0 \<le> progress t \<and> progress t \<le> 100"
    using bar exact fin by (cases "status t") (auto simp: active_def)
qed

text \<open>
  C13. In every run, a merge is only ever requested for a chunked upload all of whose chunks the
  server has acknowledged, each exactly once and in order.
\<close>

theorem upload_merge_after_all_chunks:
  "list_all (\<lambda>e. case e of SendMerge t \<Rightarrow> 1 < totalChunks t \<and>
       acked (wacks (upload_run es)) (up_id t) = [0..<totalChunks t] | _ \<Rightarrow> True) (wlog (upload_run es))"
  using upload_run_log [of es]
  by (auto simp: log_ok_def merges_ok_def list_all_iff split: upload_effect.splits)

text \<open>
  C14. In every run, a chunk is sent at most four times, and always with the bytes of its
  place in the file.
\<close>

theorem upload_attempts_bounded:
  "attempts (wlog (upload_run es)) i j \<le> 4 \<and>
   list_all (\<lambda>e. case e of SendChunk t k b \<Rightarrow> b = chunk_slice t k | _ \<Rightarrow> True) (wlog (upload_run es))"
  using upload_run_log [of es]
  by (auto simp: log_ok_def list_all_iff MAX_CHUNK_RETRIES_def split: upload_effect.splits)

text \<open>
  C15. The queue always comes to rest: from any state of any run, after at most \<open>work\<close> answers
  or timer ticks, whatever they say, the drain loop has returned.
\<close>

theorem upload_queue_ends:
  assumes "work (eng (upload_run es)) \<le> length ss"
  shows "pc (eng (drive (upload_run es) ss)) = AtIdle"
  using drive_ends [OF upload_run_inv assms] .

definition demo_small :: blob where
  "demo_small = \<lparr>blob_name = ''a.txt'', blob_bytes = [104, 105]\<rparr>"

theorem upload_queue_ends_witness:
  "pc (eng (drive (upload_run [UEnqueue [''u1'', ''u2''] [demo_small, demo_small] ''/srv'' ''/srv''])
     [Rejected AbortText, Resolved (ok_response None)])) = AtIdle"
proof (rule upload_queue_ends)
  have "work (eng (upload_run [UEnqueue [''u1'', ''u2''] [demo_small, demo_small] ''/srv'' ''/srv''])) = 2"
    by code_simp
  then show "work (eng (upload_run [UEnqueue [''u1'', ''u2''] [demo_small, demo_small] ''/srv'' ''/srv'']))
      \<le> length [Rejected AbortText, Resolved (ok_response None)]" by simp
qed

text \<open>
  C32. The chunks partition the file: put together in order they are its bytes, and each is
  neither empty nor longer than the chunk size, although their number comes from a division
  rounded to a double.
\<close>

theorem upload_chunks_partition:
  assumes "t = create_task p d i f" and "length (blob_bytes f) < 2^52" and "1 < totalChunks t"
  shows "concat (map (chunk_slice t) [0..<totalChunks t]) = blob_bytes f \<and>
    (\<forall>k<totalChunks t. chunk_slice t k \<noteq> [] \<and> length (chunk_slice t k) \<le> CHUNK_SIZE)"
proof -
  have s: "sized t" "up_size t < 2^52" and f: "up_file t = f"
    using assms(1,2) by (simp_all add: sized_def create_task_def)
  have "chunk_slice t k \<noteq> [] \<and> length (chunk_slice t k) \<le> CHUNK_SIZE" if "k < totalChunks t" for k
    using slice_length [OF s assms(3) that] by simp
  then show ?thesis using slices_concat [OF s assms(3)] f by simp
qed

theorem upload_chunks_partition_witness:
  "chunk_slice demo_upload 0 @ chunk_slice demo_upload 1 = demo_bytes"
  using upload_chunks_partition [OF demo_upload_def] by (simp add: demo_blob_def upt_rec)

text \<open>
  Cancelling while a chunk is in flight works: when the aborted request settles the
  upload ends as canceled, the server is told to drop its chunks and nothing else is sent.
\<close>

theorem upload_cancel_in_flight:
  assumes "pc st = AtChunk t k a" and "good_task t" and "1 < totalChunks t" and "queue st = []"
    and "running st" and "find_task (up_id t) (up_tasks st) = Some r"
    and "res = settled_upload (Rejected e) (fst (cancelTask (up_id t) st))"
  shows "map_option status (find_task (up_id t) (up_tasks (fst res))) = Some Canceled \<and>
    snd res = [SendAbort t] \<and> pc (fst res) = AtIdle \<and> \<not> running (fst res)"
  using cancel_in_flight [of "fst (cancelTask (up_id t) st)" t k a r res e] assms
  by (simp add: cancelTask_def)

definition demo_sending :: upload_state where
  "demo_sending = \<lparr>up_tasks = [demo_upload], queue = [], running = True, canceled = [],
     controllers = [''u1''], pc = AtChunk demo_upload 0 0\<rparr>"

theorem upload_cancel_in_flight_witness:
  "snd (settled_upload (Rejected AbortText) (fst (cancelTask ''u1'' demo_sending))) = [SendAbort demo_upload]"
  using upload_cancel_in_flight [of demo_sending demo_upload 0 0 demo_upload _ AbortText] demo_good
  by (simp add: demo_sending_def find_task_def)

text \<open>
  C36. Cancelling during the pause before another attempt at the last chunk is ignored: when
  the attempt and the merge succeed the file is there and its row shows success.
\<close>

theorem upload_cancel_lost_in_backoff:
  assumes "pc st = AtBackoff t k a" and "good_task t" and "Suc k = totalChunks t" and "1 < totalChunks t"
    and "\<not> blank (up_fileName t)" and "queue st = []" and "running st"
    and "find_task (up_id t) (up_tasks st) = Some r"
  shows "map_option status (find_task (up_id t) (up_tasks (fst (ok_answers 2
    (fst (timer_fired (fst (cancelTask (up_id t) st)))))))) = Some Success"
  using cancel_in_backoff_lost [OF assms] by (simp add: numeral_2_eq_2 Let_def add_first_def)

definition demo_pause :: upload_state where
  "demo_pause = demo_sending\<lparr>pc := AtBackoff demo_upload 1 0\<rparr>"

theorem upload_cancel_lost_in_backoff_witness:
  "map_option status (find_task ''u1'' (up_tasks (fst (ok_answers 2
    (fst (timer_fired (fst (cancelTask ''u1'' demo_pause)))))))) = Some Success"
  using upload_cancel_lost_in_backoff [of demo_pause demo_upload 1 0 demo_upload] demo_good demo_not_blank
  by (simp add: demo_pause_def demo_sending_def find_task_def)

text \<open>
  A chunked upload to a drive without a name stalls the queue: after the last attempt the
  clean-up request fails its own check inside the handler, the loop is left, the row keeps
  its old state and the uploads behind it stay queued.
\<close>

theorem upload_unnamed_drive_stalls:
  assumes "pc st = AtBackoff t k 2" and "blank (up_drives t)" and "\<not> blank (up_target t)"
    and "1 < totalChunks t" and "up_id t \<notin> set (canceled st)" and "running st"
  shows "pc (fst (timer_fired st)) = AtIdle \<and> \<not> running (fst (timer_fired st)) \<and>
    queue (fst (timer_fired st)) = queue st \<and> up_tasks (fst (timer_fired st)) = up_tasks st"
  using unnamed_drive_stalls [OF assms] by blast

theorem upload_unnamed_drive_stalls_witness:
  "queue (fst (timer_fired (demo_pause\<lparr>pc := AtBackoff (demo_upload\<lparr>up_drives := []\<rparr>) 1 2, queue := [demo_upload]\<rparr>)))
     = [demo_upload]"
  using upload_unnamed_drive_stalls [of "demo_pause\<lparr>pc := AtBackoff (demo_upload\<lparr>up_drives := []\<rparr>) 1 2, queue := [demo_upload]\<rparr>"
      "demo_upload\<lparr>up_drives := []\<rparr>" 1] demo_good
  by (simp add: demo_pause_def demo_sending_def good_task_def blank_def)

end
