(* ===== verification/ToastStore.thy ===== *)
theory ToastStore
  imports JsString
begin

text \<open>
  The toast store (\<open>web/src/hooks/use-toast.ts\<close>) and the message functions built on it
  (\<open>web/src/utils/toast.ts\<close>): the reducer, the removal timers it starts, the listeners
  \<open>dispatch\<close> notifies, and the ids. A component that uses the store reads the list when it is
  rendered, is added to the listeners by an effect some time later, and is taken out and added
  again by the clean-up and the effect of each later render with a new state.
\<close>

definition TOAST_LIMIT :: nat where "TOAST_LIMIT = 1"
definition TOAST_REMOVE_DELAY :: nat where "TOAST_REMOVE_DELAY = 1000000"
definition MAX_SAFE_INTEGER :: nat where "MAX_SAFE_INTEGER = 9007199254740991"

datatype toast_variant = VariantDefault | VariantDestructive

record toaster_toast =
  toast_id :: string
  toast_title :: "string option"
  toast_description :: "string option"
  toast_variant :: "toast_variant option"
  toast_open :: bool

text \<open>A partial toast: the fields present in the object that is spread over the toast.\<close>

record partial_toast =
  new_title :: "string option option"
  new_description :: "string option option"
  new_variant :: "toast_variant option option"
  new_open :: "bool option"

definition spread :: "partial_toast \<Rightarrow> toaster_toast \<Rightarrow> toaster_toast" where
  "spread p t =
     t\<lparr>toast_title := (case new_title p of None \<Rightarrow> toast_title t | Some x \<Rightarrow> x),
       toast_description := (case new_description p of None \<Rightarrow> toast_description t | Some x \<Rightarrow> x),
       toast_variant := (case new_variant p of None \<Rightarrow> toast_variant t | Some x \<Rightarrow> x),
       toast_open := (case new_open p of None \<Rightarrow> toast_open t | Some x \<Rightarrow> x)\<rparr>"

datatype action = ADD_TOAST toaster_toast | UPDATE_TOAST string partial_toast
  | DISMISS_TOAST "string option" | REMOVE_TOAST "string option"

definition update_toast :: "string \<Rightarrow> partial_toast \<Rightarrow> toaster_toast list \<Rightarrow> toaster_toast list" where
  "update_toast i p ts = patch_by toast_id i (spread p) ts"

interpretation toast_store: keyed_store toast_id spread update_toast
  by unfold_locales (simp_all add: update_toast_def spread_def)

subsection \<open>The reducer and its timers\<close>

definition addToRemoveQueue :: "string \<Rightarrow> string list \<Rightarrow> string list" where
  "addToRemoveQueue i timers = (if i \<in> set timers then timers else timers @ [i])"

fun reducer :: "toaster_toast list \<Rightarrow> action \<Rightarrow> toaster_toast list" where
  "reducer ts (ADD_TOAST t) = take TOAST_LIMIT (t # ts)"
| "reducer ts (UPDATE_TOAST i p) = update_toast i p ts"
| "reducer ts (DISMISS_TOAST i) =
     map (\<lambda>t. if i = Some (toast_id t) \<or> i = None then t\<lparr>toast_open := False\<rparr> else t) ts"
| "reducer ts (REMOVE_TOAST None) = []"
| "reducer ts (REMOVE_TOAST (Some i)) = filter (\<lambda>t. toast_id t \<noteq> i) ts"

text \<open>The side effect of the DISMISS branch; an empty id counts as none.\<close>

fun reducer_timers :: "toaster_toast list \<Rightarrow> action \<Rightarrow> string list \<Rightarrow> string list" where
  "reducer_timers ts (DISMISS_TOAST i) timers =
     (case i of
        Some k \<Rightarrow> if k \<noteq> [] then addToRemoveQueue k timers
                  else fold (\<lambda>t. addToRemoveQueue (toast_id t)) ts timers
      | None \<Rightarrow> fold (\<lambda>t. addToRemoveQueue (toast_id t)) ts timers)"
| "reducer_timers ts a timers = timers"

text \<open>
  A mounted component that uses the store: the list it shows, whether its \<open>setState\<close> is among the
  listeners, and whether a dispatch has gone by without it since it last read the list or was told.
\<close>

record toast_user =
  tu_id :: nat
  tu_seen :: "toaster_toast list"
  tu_listening :: bool
  tu_missed :: bool

definition tell_user :: "toaster_toast list \<Rightarrow> toast_user \<Rightarrow> toast_user" where
  "tell_user ts u =
     (if tu_listening u then u\<lparr>tu_seen := ts, tu_missed := False\<rparr> else u\<lparr>tu_missed := True\<rparr>)"

record toast_state =
  toasts :: "toaster_toast list"
  timers :: "string list"
  next_id :: nat
  users :: "toast_user list"

definition init_toasts :: toast_state where
  "init_toasts = \<lparr>toasts = [], timers = [], next_id = 0, users = []\<rparr>"

definition dispatch :: "action \<Rightarrow> toast_state \<Rightarrow> toast_state" where
  "dispatch a st =
     (let ts = reducer (toasts st) a in
      st\<lparr>toasts := ts, timers := reducer_timers (toasts st) a (timers st),
         users := map (tell_user ts) (users st)\<rparr>)"

subsection \<open>The store's functions\<close>

definition genId :: "toast_state \<Rightarrow> nat" where
  "genId st = (next_id st + 1) mod MAX_SAFE_INTEGER"

definition toast :: "string option \<Rightarrow> string option \<Rightarrow> toast_variant option \<Rightarrow> toast_state \<Rightarrow> string \<times> toast_state" where
  "toast ttl dsc var st =
     (let n = genId st; i = nat_to_string n in
      (i, dispatch (ADD_TOAST \<lparr>toast_id = i, toast_title = ttl, toast_description = dsc,
             toast_variant = var, toast_open = True\<rparr>) (st\<lparr>next_id := n\<rparr>)))"

text \<open>
  The hook: \<open>useState(memoryState)\<close> at the first render, and the effect on the state with its
  clean-up. Between these the page may dispatch.
\<close>

definition render_user :: "nat \<Rightarrow> toast_state \<Rightarrow> toast_state" where
  "render_user l st =
     (if l \<in> tu_id ` set (users st) then st
      else st\<lparr>users := users st @ [\<lparr>tu_id = l, tu_seen = toasts st, tu_listening = False, tu_missed = False\<rparr>]\<rparr>)"

definition set_listening :: "nat \<Rightarrow> bool \<Rightarrow> toast_state \<Rightarrow> toast_state" where
  "set_listening l b st = st\<lparr>users := patch_by tu_id l (\<lambda>u. u\<lparr>tu_listening := b\<rparr>) (users st)\<rparr>"

definition unmount_user :: "nat \<Rightarrow> toast_state \<Rightarrow> toast_state" where
  "unmount_user l st = st\<lparr>users := filter (\<lambda>u. tu_id u \<noteq> l) (users st)\<rparr>"

text \<open>The removal timer of an id fires.\<close>

definition timer_due :: "string \<Rightarrow> toast_state \<Rightarrow> toast_state" where
  "timer_due i st =
     (if i \<in> set (timers st) then
        dispatch (REMOVE_TOAST (Some i)) (st\<lparr>timers := removeAll i (timers st)\<rparr>)
      else st)"

datatype message_kind = MsgSuccess | MsgError | MsgWarning | MsgInfo | MsgLoading

definition message_variant :: "message_kind \<Rightarrow> toast_variant" where
  "message_variant k = (if k = MsgError then VariantDestructive else VariantDefault)"

text \<open>The titles are fixed Chinese words; \<open>word\<close> gives them.\<close>

definition message :: "(message_kind \<Rightarrow> string) \<Rightarrow> message_kind \<Rightarrow> string \<Rightarrow> toast_state \<Rightarrow> string \<times> toast_state" where
  "message word k text st = toast (Some (word k)) (Some text) (Some (message_variant k)) st"

datatype toast_event = TToast "string option" "string option" "toast_variant option"
  | TUpdate string partial_toast | TDismiss "string option" | TTimer string
  | TRender nat | TListen nat | TCleanup nat | TUnmount nat

fun toast_step :: "toast_state \<Rightarrow> toast_event \<Rightarrow> toast_state" where
  "toast_step st (TToast ttl dsc var) = snd (toast ttl dsc var st)"
| "toast_step st (TUpdate i p) = dispatch (UPDATE_TOAST i p) st"
| "toast_step st (TDismiss i) = dispatch (DISMISS_TOAST i) st"
| "toast_step st (TTimer i) = timer_due i st"
| "toast_step st (TRender l) = render_user l st"
| "toast_step st (TListen l) = set_listening l True st"
| "toast_step st (TCleanup l) = set_listening l False st"
| "toast_step st (TUnmount l) = unmount_user l st"

subsection \<open>The invariant\<close>

definition toast_inv :: "toast_state \<Rightarrow> bool" where
  "toast_inv st \<longleftrightarrow> length (toasts st) \<le> TOAST_LIMIT \<and> distinct (timers st) \<and>
     (\<forall>u\<in>set (users st). tu_missed u \<or> tu_seen u = toasts st) \<and>
     next_id st < MAX_SAFE_INTEGER \<and> (\<forall>t\<in>set (toasts st). toast_id t \<noteq> [])"

lemma distinct_addToRemoveQueue: "distinct ts \<Longrightarrow> distinct (addToRemoveQueue i ts)"
  by (simp add: addToRemoveQueue_def)

lemma distinct_fold_queue:
  "distinct tms \<Longrightarrow> distinct (fold (\<lambda>t. addToRemoveQueue (toast_id t)) ts tms)"
  by (induction ts arbitrary: tms) (simp_all add: distinct_addToRemoveQueue)

lemma distinct_reducer_timers: "distinct tms \<Longrightarrow> distinct (reducer_timers ts a tms)"
  by (cases a) (auto simp: distinct_addToRemoveQueue distinct_fold_queue split: option.splits)

lemma length_reducer: "length ts \<le> TOAST_LIMIT \<Longrightarrow> length (reducer ts a) \<le> TOAST_LIMIT"
  by (induction ts a rule: reducer.induct)
    (simp_all add: update_toast_def le_trans [OF length_filter_le])

lemma ids_reducer:
  "\<forall>t\<in>set ts. P (toast_id t) \<Longrightarrow> (\<And>t. a = ADD_TOAST t \<Longrightarrow> P (toast_id t)) \<Longrightarrow>
   \<forall>t\<in>set (reducer ts a). P (toast_id t)"
proof (induction ts a rule: reducer.induct)
  case (1 ts t)
  then show ?case by (auto simp: TOAST_LIMIT_def)
next
  case (2 ts i p)
  have "map toast_id (update_toast i p ts) = map toast_id ts" by (rule toast_store.keys_patch)
  then have "toast_id ` set (update_toast i p ts) = toast_id ` set ts" by (metis set_map)
  then show ?case using 2 by (simp only: reducer.simps) (metis imageE imageI)
qed auto

lemma dispatch_inv:
  assumes inv: "toast_inv st" and new: "\<And>t. a = ADD_TOAST t \<Longrightarrow> toast_id t \<noteq> []"
  shows "toast_inv (dispatch a st)"
  using assms ids_reducer [of "toasts st" "\<lambda>i. i \<noteq> []" a]
  by (auto simp: dispatch_def toast_inv_def Let_def length_reducer distinct_reducer_timers tell_user_def)

text \<open>Whoever listens is told.\<close>

lemma dispatch_tells:
  "u \<in> set (users (dispatch a st)) \<Longrightarrow> tu_listening u \<Longrightarrow> tu_seen u = toasts (dispatch a st) \<and> \<not> tu_missed u"
  by (auto simp: dispatch_def Let_def tell_user_def split: if_splits)

lemma nat_to_string_not_Nil [simp]: "nat_to_string n \<noteq> []"
  by (subst nat_to_string.simps) simp

lemma toast_inv_step: "toast_inv st \<Longrightarrow> toast_inv (toast_step st ev)"
proof (cases ev)
  case (TToast ttl dsc var)
  assume inv: "toast_inv st"
  have "toast_inv (st\<lparr>next_id := genId st\<rparr>)"
    using inv by (simp add: toast_inv_def genId_def MAX_SAFE_INTEGER_def)
  then have "toast_inv (dispatch (ADD_TOAST t) (st\<lparr>next_id := genId st\<rparr>))"
    if "toast_id t \<noteq> []" for t
    by (rule dispatch_inv) (use that in simp)
  then show ?thesis by (simp add: TToast toast_def Let_def)
next
  case (TUpdate i p)
  assume "toast_inv st"
  then show ?thesis unfolding TUpdate toast_step.simps by (rule dispatch_inv) simp
next
  case (TDismiss i)
  assume "toast_inv st"
  then show ?thesis unfolding TDismiss toast_step.simps by (rule dispatch_inv) simp
next
  case (TTimer i)
  assume inv: "toast_inv st"
  then have "toast_inv (st\<lparr>timers := removeAll i (timers st)\<rparr>)"
    by (simp add: toast_inv_def distinct_removeAll)
  then have "toast_inv (dispatch (REMOVE_TOAST (Some i)) (st\<lparr>timers := removeAll i (timers st)\<rparr>))"
    by (rule dispatch_inv) simp
  then show ?thesis using inv by (simp add: TTimer timer_due_def)
next
  case (TRender l)
  assume "toast_inv st"
  then show ?thesis by (auto simp: TRender toast_inv_def render_user_def)
next
  case (TListen l)
  assume "toast_inv st"
  then show ?thesis by (auto simp: TListen toast_inv_def set_listening_def patch_by_def)
next
  case (TCleanup l)
  assume "toast_inv st"
  then show ?thesis by (auto simp: TCleanup toast_inv_def set_listening_def patch_by_def)
next
  case (TUnmount l)
  assume "toast_inv st"
  then show ?thesis by (auto simp: TUnmount toast_inv_def unmount_user_def)
qed

lemma toast_inv_start: "toast_inv init_toasts"
  by (simp add: toast_inv_def init_toasts_def MAX_SAFE_INTEGER_def)

interpretation toast_machine: invariant_machine toast_step toast_inv init_toasts
  by unfold_locales (rule toast_inv_start, rule toast_inv_step)

subsection \<open>Laws\<close>

lemma toast_newest:
  "map toast_id (toasts (snd (toast ttl dsc var st))) = [fst (toast ttl dsc var st)]"
  by (simp add: toast_def Let_def dispatch_def TOAST_LIMIT_def)

lemma genId_fresh: "next_id st < MAX_SAFE_INTEGER \<Longrightarrow> genId st \<noteq> next_id st"
proof -
  assume "next_id st < MAX_SAFE_INTEGER"
  then show ?thesis
    by (cases "next_id st + 1 = MAX_SAFE_INTEGER") (auto simp: genId_def MAX_SAFE_INTEGER_def)
qed

lemma dismiss_then_timer:
  assumes "i \<noteq> []" and st1_def: "st1 = toast_step st (TDismiss (Some i))"
  shows "\<forall>t\<in>set (toasts st1). toast_id t = i \<longrightarrow> \<not> toast_open t" and "i \<in> set (timers st1)"
    and "\<forall>t\<in>set (toasts (toast_step st1 (TTimer i))). toast_id t \<noteq> i"
    and "i \<notin> set (timers (toast_step st1 (TTimer i)))"
  using assms(1)
  by (auto simp: st1_def dispatch_def Let_def addToRemoveQueue_def timer_due_def)

end
