(* ===== verification/HealthModel.thy ===== *)
theory HealthModel
  imports JsString
begin

text \<open>
  The health of upstream nodes as the route pages compute and show it:
  \<open>web/src/pages/server/info/health.ts\<close>, the summary of \<open>page.tsx\<close>, the node badge and the
  cluster summary of \<open>features/UpstreamNodeStatus.tsx\<close>, and the cluster block of
  \<open>features/DomainNamesList.tsx\<close>. A health value from the server is a text, a number or
  something else.
\<close>

datatype DestinationHealth = Unknown | Healthy | Unhealthy

datatype health_value = HText string | HNumber int | HOther

definition parseDestinationHealth :: "health_value \<Rightarrow> DestinationHealth" where
  "parseDestinationHealth v =
     (if v = HText ''Healthy'' \<or> v = HNumber 1 then Healthy
      else if v = HText ''Unhealthy'' \<or> v = HNumber 2 then Unhealthy
      else Unknown)"

definition computeEffectiveHealth :: "DestinationHealth \<Rightarrow> DestinationHealth \<Rightarrow> DestinationHealth" where
  "computeEffectiveHealth act pas =
     (if act = Unhealthy \<or> pas = Unhealthy then Unhealthy
      else if act = Healthy \<or> pas = Healthy then Healthy
      else Unknown)"

datatype probe_label = NotChecked | ProbeOk | ProbeFailed | Probing | GatewayOffline

definition getProbeLabel :: "bool \<Rightarrow> DestinationHealth \<Rightarrow> probe_label" where
  "getProbeLabel healthCheckEnabled probe =
     (if \<not> healthCheckEnabled then NotChecked
      else if probe = Healthy then ProbeOk
      else if probe = Unhealthy then ProbeFailed
      else Probing)"

datatype proxy_label = ProxyBad | ProxyOk | ProxyDash | ProxyNotWatched

definition getProxyLabel :: "DestinationHealth \<Rightarrow> proxy_label" where
  "getProxyLabel proxy = (if proxy = Unhealthy then ProxyBad else ProxyOk)"

subsection \<open>Matching nodes to destinations\<close>

record DestinationHealthInfo =
  destinationId :: string
  address :: "string option"
  dh_active :: health_value
  dh_passive :: health_value

record ClusterHealth =
  clusterId :: string
  hc_enabled :: bool
  hc_path :: "string option"
  destinations :: "DestinationHealthInfo list"

record ServerHealthSnapshot =
  online :: bool
  clusters :: "ClusterHealth list"

definition address_or_id :: "DestinationHealthInfo \<Rightarrow> string" where
  "address_or_id d = (case address d of None \<Rightarrow> destinationId d
     | Some a \<Rightarrow> if a = [] then destinationId d else a)"

definition serves :: "string \<Rightarrow> DestinationHealthInfo \<Rightarrow> bool" where
  "serves service d \<longleftrightarrow> address_or_id d = service \<or> destinationId d = service \<or>
     starts_with (destinationId d) (service @ ''#'')"

text \<open>\<open>used\<close> is the caller's set; the result is the destination and the set afterwards.\<close>

definition takeDestination ::
  "ClusterHealth option \<Rightarrow> string \<Rightarrow> string list \<Rightarrow> DestinationHealthInfo option \<times> string list" where
  "takeDestination cluster service used =
     (case cluster of None \<Rightarrow> (None, used)
      | Some c \<Rightarrow>
          if service = [] then (None, used)
          else case List.find (\<lambda>d. destinationId d \<notin> set used \<and> serves service d) (destinations c) of
              None \<Rightarrow> (None, used)
            | Some d \<Rightarrow> (Some d, List.insert (destinationId d) used))"

text \<open>\<open>Map.set\<close> in order: the last cluster with an id is the one found.\<close>

definition getClusterHealthMap :: "ServerHealthSnapshot option \<Rightarrow> string \<Rightarrow> ClusterHealth option" where
  "getClusterHealthMap health =
     (case health of None \<Rightarrow> Map.empty
      | Some h \<Rightarrow> fold (\<lambda>c m. m(clusterId c \<mapsto> c)) (clusters h) Map.empty)"

definition node_health :: "DestinationHealthInfo option \<Rightarrow> DestinationHealth \<times> DestinationHealth \<times> DestinationHealth" where
  "node_health d =
     (let probe = (case d of None \<Rightarrow> Unknown | Some x \<Rightarrow> parseDestinationHealth (dh_active x));
          proxy = (case d of None \<Rightarrow> Unknown | Some x \<Rightarrow> parseDestinationHealth (dh_passive x))
      in (probe, proxy, computeEffectiveHealth probe proxy))"

text \<open>The nodes of \<open>ClusterNodesBlock\<close>: one per upstream, taking destinations in order.\<close>

fun cluster_nodes ::
  "ClusterHealth option \<Rightarrow> string list \<Rightarrow> string list \<Rightarrow> (string \<times> DestinationHealthInfo option) list" where
  "cluster_nodes cluster [] used = []"
| "cluster_nodes cluster (s # ss) used =
     (case takeDestination cluster s used of
        (d, used') \<Rightarrow> (s, d) # cluster_nodes cluster ss used')"

definition effective_of :: "string \<times> DestinationHealthInfo option \<Rightarrow> DestinationHealth" where
  "effective_of n = snd (snd (node_health (snd n)))"

record health_counts =
  hc_total :: nat
  hc_healthy :: nat
  hc_unhealthy :: nat
  hc_unknown :: nat

definition cluster_counts :: "ClusterHealth option \<Rightarrow> string list \<Rightarrow> health_counts" where
  "cluster_counts cluster services =
     (let nodes = cluster_nodes cluster services [];
          healthy = length (filter (\<lambda>n. effective_of n = Healthy) nodes);
          unhealthy = length (filter (\<lambda>n. effective_of n = Unhealthy) nodes)
      in \<lparr>hc_total = length nodes, hc_healthy = healthy, hc_unhealthy = unhealthy,
          hc_unknown = length nodes - healthy - unhealthy\<rparr>)"

subsection \<open>What is shown\<close>

datatype NodeTone = ToneHealthy | ToneUnhealthy | ToneUnknown | ToneIdle

definition resolveTone :: "bool \<Rightarrow> bool \<Rightarrow> DestinationHealth \<Rightarrow> bool \<Rightarrow> NodeTone" where
  "resolveTone gatewayOnline healthCheckEnabled effective loading =
     (if \<not> gatewayOnline \<or> loading then ToneUnknown
      else if \<not> healthCheckEnabled then ToneIdle
      else if effective = Healthy then ToneHealthy
      else if effective = Unhealthy then ToneUnhealthy
      else ToneUnknown)"

datatype node_tooltip = TipOffline | TipNotChecked | TipLabels probe_label proxy_label

record node_badge =
  nb_address :: string
  nb_tone :: NodeTone
  nb_probe :: probe_label
  nb_proxy :: proxy_label
  nb_tooltip :: node_tooltip
  nb_ping :: bool
  nb_alert :: bool

definition UpstreamNodeStatus ::
  "string \<Rightarrow> DestinationHealthInfo option \<Rightarrow> bool \<Rightarrow> bool \<Rightarrow> bool \<Rightarrow> node_badge" where
  "UpstreamNodeStatus addr destination healthCheckEnabled gatewayOnline loading =
     (case node_health destination of (probe, proxy, effective) \<Rightarrow>
      let tone = resolveTone gatewayOnline healthCheckEnabled effective loading;
          probeLabel = (if \<not> gatewayOnline then GatewayOffline else if loading then Probing
                        else getProbeLabel healthCheckEnabled probe);
          proxyLabel = (if \<not> gatewayOnline then ProxyDash else if loading then ProxyDash
                        else if \<not> healthCheckEnabled then ProxyNotWatched
                        else getProxyLabel proxy)
      in \<lparr>nb_address = addr, nb_tone = tone, nb_probe = probeLabel, nb_proxy = proxyLabel,
          nb_tooltip = (if \<not> gatewayOnline then TipOffline
                        else if \<not> healthCheckEnabled then TipNotChecked
                        else TipLabels probeLabel proxyLabel),
          nb_ping = (tone = ToneHealthy \<or> tone = ToneUnknown),
          nb_alert = (proxy = Unhealthy \<and> gatewayOnline)\<rparr>)"

datatype check_badge = BadgeChecked "string option" | BadgeNotChecked
datatype state_badge = BadgeOffline | BadgeUnhealthy nat | BadgeProbing | BadgeAllHealthy

definition ClusterHealthSummary ::
  "health_counts \<Rightarrow> bool \<Rightarrow> string option \<Rightarrow> bool \<Rightarrow> check_badge \<times> state_badge option" where
  "ClusterHealthSummary n healthCheckEnabled healthCheckPath gatewayOnline =
     (if healthCheckEnabled
      then BadgeChecked (case healthCheckPath of None \<Rightarrow> None | Some p \<Rightarrow> if p = [] then None else Some p)
      else BadgeNotChecked,
      if \<not> gatewayOnline then Some BadgeOffline
      else if healthCheckEnabled \<and> 0 < hc_total n then
        (if 0 < hc_unhealthy n then Some (BadgeUnhealthy (hc_unhealthy n))
         else if 0 < hc_unknown n \<and> hc_healthy n = 0 then Some BadgeProbing
         else Some BadgeAllHealthy)
      else None)"

text \<open>The summary of the route page, over all destinations of all clusters.\<close>

record health_overview =
  hs_counts :: health_counts
  hs_targets :: "DestinationHealthInfo list"
  hs_enabled :: nat
  hs_clusters :: nat
  hs_paths :: "string list"

definition dest_effective :: "DestinationHealthInfo \<Rightarrow> DestinationHealth" where
  "dest_effective d = snd (snd (node_health (Some d)))"

fun count_health :: "DestinationHealth list \<Rightarrow> nat \<times> nat \<times> nat \<Rightarrow> nat \<times> nat \<times> nat" where
  "count_health [] acc = acc"
| "count_health (e # es) (h, u, k) =
     count_health es (if e = Healthy then (h + 1, u, k) else if e = Unhealthy then (h, u + 1, k)
                      else (h, u, k + 1))"

definition health_summary :: "ServerHealthSnapshot option \<Rightarrow> health_overview" where
  "health_summary health =
     (let cs = (case health of None \<Rightarrow> [] | Some h \<Rightarrow> clusters h);
          enabledClusters = filter hc_enabled cs;
          ds = concat (map destinations cs)
      in case count_health (map dest_effective ds) (0, 0, 0) of (h, u, k) \<Rightarrow>
         \<lparr>hs_counts = \<lparr>hc_total = length ds, hc_healthy = h, hc_unhealthy = u, hc_unknown = k\<rparr>,
          hs_targets = take 6 (filter (\<lambda>d. dest_effective d = Unhealthy) ds),
          hs_enabled = length enabledClusters, hs_clusters = length cs,
          hs_paths = rev (remdups (rev (filter (\<lambda>p. p \<noteq> [])
            (List.map_filter hc_path enabledClusters))))\<rparr>)"

subsection \<open>Laws\<close>

lemma effective_comm: "computeEffectiveHealth a b = computeEffectiveHealth b a"
  by (auto simp: computeEffectiveHealth_def)

lemma effective_assoc:
  "computeEffectiveHealth (computeEffectiveHealth a b) c = computeEffectiveHealth a (computeEffectiveHealth b c)"
  by (cases a; cases b; cases c) (simp_all add: computeEffectiveHealth_def)

lemma effective_unhealthy_iff:
  "computeEffectiveHealth a b = Unhealthy \<longleftrightarrow> a = Unhealthy \<or> b = Unhealthy"
  by (auto simp: computeEffectiveHealth_def)

lemma takeDestination_Some:
  assumes "takeDestination c s used = (Some d, used')"
  shows "destinationId d \<notin> set used" and "set used' = insert (destinationId d) (set used)" and "serves s d"
proof -
  obtain c' where c: "c = Some c'" using assms by (cases c) (auto simp: takeDestination_def)
  have "List.find (\<lambda>d. destinationId d \<notin> set used \<and> serves s d) (destinations c') = Some d"
      "used' = List.insert (destinationId d) used"
    using assms by (auto simp: c takeDestination_def split: option.splits if_splits)
  then show "destinationId d \<notin> set used" "set used' = insert (destinationId d) (set used)" "serves s d"
    by (auto simp: find_Some_iff)
qed

lemma takeDestination_None: "takeDestination c s used = (None, used') \<Longrightarrow> used' = used"
  by (auto simp: takeDestination_def split: option.splits if_splits)

lemma length_cluster_nodes [simp]: "length (cluster_nodes c ss used) = length ss"
  by (induction ss arbitrary: used) (simp_all split: prod.splits)

lemma services_cluster_nodes: "map fst (cluster_nodes c ss used) = ss"
  by (induction ss arbitrary: used) (simp_all split: prod.splits)

text \<open>No destination is shown for two nodes.\<close>

definition shown_ids :: "(string \<times> DestinationHealthInfo option) list \<Rightarrow> string list" where
  "shown_ids ns = map destinationId (List.map_filter snd ns)"

lemma shown_ids_simps [simp]:
  "shown_ids [] = []" "shown_ids ((s, None) # ns) = shown_ids ns"
  "shown_ids ((s, Some d) # ns) = destinationId d # shown_ids ns"
  by (simp_all add: shown_ids_def List.map_filter_simps)

lemma shown_once: "distinct (shown_ids (cluster_nodes c ss used)) \<and>
    set (shown_ids (cluster_nodes c ss used)) \<inter> set used = {}"
proof (induction ss arbitrary: used)
  case (Cons s ss)
  obtain d used' where td: "takeDestination c s used = (d, used')" by fastforce
  show ?case
  proof (cases d)
    case None
    then show ?thesis using td takeDestination_None [of c s used used'] Cons.IH [of used'] by simp
  next
    case (Some x)
    then show ?thesis using td takeDestination_Some [of c s used x used'] Cons.IH [of used'] by auto
  qed
qed simp

lemma count_health_eq:
  "count_health es (h, u, k) =
     (h + length (filter (\<lambda>e. e = Healthy) es), u + length (filter (\<lambda>e. e = Unhealthy) es),
      k + length (filter (\<lambda>e. e = Unknown) es))"
proof (induction es arbitrary: h u k)
  case (Cons e es)
  then show ?case by (cases e) auto
qed simp

lemma counts_split:
  "length (filter (\<lambda>e. e = Healthy) es) + length (filter (\<lambda>e. e = Unhealthy) es) +
   length (filter (\<lambda>e. e = Unknown) es) = length es"
proof (induction es)
  case (Cons e es)
  then show ?case by (cases e) auto
qed simp

lemma cluster_counts_add:
  "hc_healthy (cluster_counts c ss) + hc_unhealthy (cluster_counts c ss) + hc_unknown (cluster_counts c ss)
     = length ss"
proof -
  let ?es = "map effective_of (cluster_nodes c ss [])"
  have "length (filter (\<lambda>e. e = Healthy) ?es) + length (filter (\<lambda>e. e = Unhealthy) ?es) \<le> length ss"
    using counts_split [of ?es] by (simp del: filter_map)
  then show ?thesis by (simp add: cluster_counts_def Let_def filter_map comp_def)
qed

end
