(* ===== verification/ApiServices.thy ===== *)
theory ApiServices
  imports ServiceResult
begin

text \<open>
  The other API clients of \<open>web/src/services/\<close>: one definition per exported function, the
  request's path and options as handed to the wrapper of \<open>HttpClient\<close>; the query builder of
  the statistics client; and \<open>unwrap\<close> of the cluster client. Values the code passes on
  unseen (\<open>any\<close>) are \<open>json\<close> arguments.
\<close>

type_synonym api_call = "string \<times> http_options"

definition bool_text :: "bool \<Rightarrow> string" where
  "bool_text b = (if b then ''true'' else ''false'')"

definition tunnelUrl :: string where "tunnelUrl = ''/api/v1/tunnel''"
definition abnormalIpUrl :: string where "abnormalIpUrl = ''/api/v1/abnormal-ip''"
definition blackWhiteUrl :: string where "blackWhiteUrl = ''/api/v1/black-and-white''"
definition certUrl :: string where "certUrl = ''/api/v1/cert''"
definition domainUrl :: string where "domainUrl = ''/api/v1/domain''"
definition rateLimitUrl :: string where "rateLimitUrl = ''/api/v1/rate-limit''"
definition serverUrl :: string where "serverUrl = ''/api/v1/server''"
definition streamUrl :: string where "streamUrl = ''/api/v1/stream-forward''"


text \<open>\<open>TunnelService.ts\<close>\<close>

definition getTunnelList :: "api_call" where
  "getTunnelList =
     (tunnelUrl, get_opts no_options)"

definition getTunnelDetail :: "string \<Rightarrow> api_call" where
  "getTunnelDetail node =
     (tunnelUrl @ ''/'' @ encode_uri_component node, get_opts no_options)"

definition createTunnelNode :: "json \<Rightarrow> api_call" where
  "createTunnelNode input =
     (tunnelUrl, postJson_opts input)"

definition updateTunnelNode :: "string \<Rightarrow> json \<Rightarrow> api_call" where
  "updateTunnelNode node input =
     (tunnelUrl @ ''/'' @ encode_uri_component node, putJson_opts input)"

definition deleteTunnel :: "string \<Rightarrow> api_call" where
  "deleteTunnel node =
     (tunnelUrl @ ''/'' @ encode_uri_component node, del_opts no_options)"

definition regenerateTunnelNodeKey :: "string \<Rightarrow> api_call" where
  "regenerateTunnelNodeKey node =
     (tunnelUrl @ ''/'' @ encode_uri_component node @ ''/regenerate-key'', postJson_opts (JObj []))"

definition getTunnelClientConfig :: "string \<Rightarrow> api_call" where
  "getTunnelClientConfig node =
     (tunnelUrl @ ''/'' @ encode_uri_component node @ ''/client-config'', get_opts no_options)"


text \<open>\<open>ClusterService.ts\<close>\<close>

definition getClusterState :: "api_call" where
  "getClusterState =
     (''/api/v1/cluster/state'', get_opts no_options)"

definition generateInvite :: "string \<Rightarrow> api_call" where
  "generateInvite endpoint =
     (''/api/v1/cluster/invite'', postJson_opts (JObj [(''endpoint'', JStr endpoint)]))"

definition joinCluster :: "string \<Rightarrow> string \<Rightarrow> api_call" where
  "joinCluster code nodeName =
     (''/api/v1/cluster/join'', postJson_opts (JObj [(''code'', JStr code), (''nodeName'', JStr nodeName)]))"

definition leaveCluster :: "api_call" where
  "leaveCluster =
     (''/api/v1/cluster/leave'', post_opts no_options)"

definition removeNode :: "string \<Rightarrow> api_call" where
  "removeNode i =
     (''/api/v1/cluster/nodes/'' @ encode_uri_component i, del_opts no_options)"

definition pushConfig :: "api_call" where
  "pushConfig =
     (''/api/v1/cluster/push'', post_opts no_options)"

definition dissolveCluster :: "api_call" where
  "dissolveCluster =
     (''/api/v1/cluster/dissolve'', post_opts no_options)"


text \<open>\<open>AbnormalIpService.ts\<close>\<close>

definition GetAbnormalIps :: "nat \<Rightarrow> nat \<Rightarrow> api_call" where
  "GetAbnormalIps pageNo pageSize =
     (abnormalIpUrl @ ''?page='' @ nat_to_string pageNo @ ''&pageSize='' @ nat_to_string pageSize, get_opts no_options)"

definition AddAbnormalIpToBlacklist :: "string \<Rightarrow> api_call" where
  "AddAbnormalIpToBlacklist ip =
     (abnormalIpUrl @ ''/blacklist'', postJson_opts (JObj [(''ip'', JStr ip)]))"

definition RemoveAbnormalIpFromBlacklist :: "string \<Rightarrow> api_call" where
  "RemoveAbnormalIpFromBlacklist ip =
     (abnormalIpUrl @ ''/blacklist?ip='' @ encode_uri_component ip, del_opts no_options)"


text \<open>\<open>ApplicationLoggerService.ts\<close>\<close>

definition getApplicationLogger :: "nat \<Rightarrow> nat \<Rightarrow> api_call" where
  "getApplicationLogger pageNo pageSize =
     (''/api/v1/applicationLogger'' @ ''?page='' @ nat_to_string pageNo @ ''&pageSize='' @ nat_to_string pageSize, get_opts no_options)"


text \<open>\<open>AuthorizationService.ts\<close>\<close>

definition getAdminChallengeConfig :: "api_call" where
  "getAdminChallengeConfig =
     (''/api/v1/authorization/challenge-config'', get_opts no_options)"

definition Auth :: "string \<Rightarrow> string option \<Rightarrow> api_call" where
  "Auth password turnstileToken =
     (''/api/v1/authorization'', postJson_opts (JObj [(''password'', JStr password), (''turnstileToken'', case turnstileToken of None \<Rightarrow> JNull | Some t \<Rightarrow> JStr t)]))"


text \<open>\<open>BlacklistAndWhitelistService.ts\<close>\<close>

definition CreateBlacklist :: "json \<Rightarrow> api_call" where
  "CreateBlacklist v =
     (blackWhiteUrl, postJson_opts v)"

definition GetBlacklist :: "bool \<Rightarrow> nat \<Rightarrow> nat \<Rightarrow> api_call" where
  "GetBlacklist isBlackList pageNo pageSize =
     (blackWhiteUrl @ ''?isBlackList='' @ bool_text isBlackList @ ''&page='' @ nat_to_string pageNo @ ''&pageSize='' @ nat_to_string pageSize, get_opts no_options)"

definition DeleteBlacklist :: "string \<Rightarrow> api_call" where
  "DeleteBlacklist i =
     (blackWhiteUrl @ ''/'' @ i, del_opts no_options)"

definition UpdateBlacklist :: "string \<Rightarrow> json \<Rightarrow> api_call" where
  "UpdateBlacklist i v =
     (blackWhiteUrl @ ''/'' @ i, putJson_opts v)"

definition GetRegions :: "api_call" where
  "GetRegions =
     (blackWhiteUrl @ ''/regions'', get_opts no_options)"


text \<open>\<open>CertService.ts\<close>\<close>

definition CreateCert :: "json \<Rightarrow> api_call" where
  "CreateCert v =
     (certUrl, postJson_opts v)"

definition GetCert :: "nat \<Rightarrow> nat \<Rightarrow> api_call" where
  "GetCert pageNo pageSize =
     (certUrl @ ''?page='' @ nat_to_string pageNo @ ''&pageSize='' @ nat_to_string pageSize, get_opts no_options)"

definition DeleteCert :: "string \<Rightarrow> api_call" where
  "DeleteCert i =
     (certUrl @ ''/'' @ i, del_opts no_options)"

definition UpdateCert :: "string \<Rightarrow> json \<Rightarrow> api_call" where
  "UpdateCert i v =
     (certUrl @ ''/'' @ i, putJson_opts v)"

definition ApplyCert :: "string \<Rightarrow> api_call" where
  "ApplyCert i =
     (certUrl @ ''/'' @ i @ ''/apply'', post_opts no_options)"

definition UploadCert :: "string \<Rightarrow> nat list \<Rightarrow> api_call" where
  "UploadCert formName formBytes =
     (certUrl @ ''/upload'', post_opts (no_options\<lparr>o_body := FormBody formName formBytes\<rparr>))"

definition PrepareCertDns :: "string \<Rightarrow> api_call" where
  "PrepareCertDns i =
     (certUrl @ ''/'' @ i @ ''/dns/prepare'', post_opts no_options)"

definition ValidateCertDns :: "string \<Rightarrow> api_call" where
  "ValidateCertDns i =
     (certUrl @ ''/'' @ i @ ''/dns/validate'', post_opts no_options)"


text \<open>\<open>DomainNameService.ts\<close>\<close>

definition createDomain :: "json \<Rightarrow> api_call" where
  "createDomain v =
     (domainUrl, postJson_opts v)"

definition getDomains :: "string \<Rightarrow> api_call" where
  "getDomains serviceId =
     (domainUrl @ ''/'' @ serviceId, get_opts no_options)"

definition deleteDomain :: "string \<Rightarrow> api_call" where
  "deleteDomain i =
     (domainUrl @ ''/'' @ i, del_opts no_options)"

definition updateDomain :: "string \<Rightarrow> json \<Rightarrow> api_call" where
  "updateDomain i v =
     (domainUrl @ ''/'' @ i, putJson_opts v)"

definition check :: "json \<Rightarrow> api_call" where
  "check v =
     (domainUrl @ ''/check'', postJson_opts v)"

definition checkSrvcie :: "json \<Rightarrow> api_call" where
  "checkSrvcie v =
     (domainUrl @ ''/check/service'', postJson_opts v)"

definition enableService :: "string \<Rightarrow> api_call" where
  "enableService i =
     (domainUrl @ ''/'' @ i @ ''/enable'', put_opts no_options)"


text \<open>\<open>GatewayService.ts\<close>\<close>

definition onLine :: "string \<Rightarrow> api_call" where
  "onLine i =
     (''/api/v1/gateway/'' @ i @ ''/online'', put_opts no_options)"


text \<open>\<open>QpsService.ts\<close>\<close>

definition getQpsData :: "api_call" where
  "getQpsData =
     (''/api/v1/qps'', get_opts no_options)"


text \<open>\<open>RateLimitService.ts\<close>\<close>

definition CreateRateLimit :: "json \<Rightarrow> api_call" where
  "CreateRateLimit v =
     (rateLimitUrl, postJson_opts v)"

definition GetRateLimit :: "nat \<Rightarrow> nat \<Rightarrow> api_call" where
  "GetRateLimit pageNo pageSize =
     (rateLimitUrl @ ''?page='' @ nat_to_string pageNo @ ''&pageSize='' @ nat_to_string pageSize, get_opts no_options)"

definition DeleteRateLimit :: "string \<Rightarrow> api_call" where
  "DeleteRateLimit i =
     (rateLimitUrl @ ''/'' @ i, del_opts no_options)"

definition UpdateRateLimit :: "string \<Rightarrow> json \<Rightarrow> api_call" where
  "UpdateRateLimit i v =
     (rateLimitUrl @ ''/'' @ i, postJson_opts v)"


text \<open>\<open>ServerService.ts\<close>\<close>

definition createServer :: "json \<Rightarrow> api_call" where
  "createServer v =
     (serverUrl, postJson_opts v)"

definition updateServer :: "string \<Rightarrow> json \<Rightarrow> api_call" where
  "updateServer i v =
     (serverUrl @ ''/'' @ i, putJson_opts v)"

definition deleteServer :: "string \<Rightarrow> api_call" where
  "deleteServer i =
     (serverUrl @ ''/'' @ i, del_opts no_options)"

definition getServers :: "api_call" where
  "getServers =
     (serverUrl, get_opts no_options)"

definition enableServer :: "string \<Rightarrow> api_call" where
  "enableServer i =
     (serverUrl @ ''/'' @ i @ ''/enable'', put_opts no_options)"

definition onlineServer :: "string \<Rightarrow> api_call" where
  "onlineServer i =
     (serverUrl @ ''/'' @ i @ ''/online'', put_opts no_options)"

definition reloadServer :: "string \<Rightarrow> api_call" where
  "reloadServer i =
     (serverUrl @ ''/'' @ i @ ''/reload'', put_opts no_options)"

definition getServerHealth :: "string \<Rightarrow> api_call" where
  "getServerHealth i =
     (serverUrl @ ''/'' @ i @ ''/health'', get_opts no_options)"


text \<open>\<open>SettingService.ts\<close>\<close>

definition getSetting :: "string \<Rightarrow> api_call" where
  "getSetting key =
     (''/api/v1/setting/'' @ encode_uri_component key, get_opts no_options)"

definition setSetting :: "string \<Rightarrow> string \<Rightarrow> api_call" where
  "setSetting key v =
     (''/api/v1/setting/'' @ encode_uri_component key, postJson_opts (JObj [(''key'', JStr key), (''value'', JStr v)]))"


text \<open>\<open>StreamForwardService.ts\<close>\<close>

definition createStreamForward :: "json \<Rightarrow> api_call" where
  "createStreamForward v =
     (streamUrl, postJson_opts v)"

definition updateStreamForward :: "string \<Rightarrow> json \<Rightarrow> api_call" where
  "updateStreamForward i v =
     (streamUrl @ ''/'' @ i, putJson_opts v)"

definition deleteStreamForward :: "string \<Rightarrow> api_call" where
  "deleteStreamForward i =
     (streamUrl @ ''/'' @ i, del_opts no_options)"

definition getStreamForwards :: "api_call" where
  "getStreamForwards =
     (streamUrl, get_opts no_options)"

definition getStreamForwardStats :: "string \<Rightarrow> api_call" where
  "getStreamForwardStats i =
     (streamUrl @ ''/'' @ i @ ''/stats'', get_opts no_options)"

definition enableStreamForward :: "string \<Rightarrow> api_call" where
  "enableStreamForward i =
     (streamUrl @ ''/'' @ i @ ''/enable'', put_opts no_options)"

definition onlineStreamForward :: "string \<Rightarrow> api_call" where
  "onlineStreamForward i =
     (streamUrl @ ''/'' @ i @ ''/online'', put_opts no_options)"

definition reloadStreamForward :: "string \<Rightarrow> api_call" where
  "reloadStreamForward i =
     (streamUrl @ ''/'' @ i @ ''/reload'', put_opts no_options)"


text \<open>\<open>SystemService.ts\<close>\<close>

definition getVersion :: "api_call" where
  "getVersion =
     (''/api/v1/system/version'', get_opts no_options)"

definition getGatewayInfo :: "api_call" where
  "getGatewayInfo =
     (''/api/v1/system/info'', get_opts no_options)"

subsection \<open>Statistics\<close>

datatype StatRange = R1h | R24h | R7d | R30d

definition range_text :: "StatRange \<Rightarrow> string" where
  "range_text r = (case r of R1h \<Rightarrow> ''1h'' | R24h \<Rightarrow> ''24h'' | R7d \<Rightarrow> ''7d'' | R30d \<Rightarrow> ''30d'')"

datatype qs_value = QStr string | QNum nat | QBool bool | QUndef

fun qs_text :: "qs_value \<Rightarrow> string" where
  "qs_text (QStr s) = s"
| "qs_text (QNum n) = nat_to_string n"
| "qs_text (QBool b) = bool_text b"
| "qs_text QUndef = ''undefined''"

definition qs_present :: "qs_value \<Rightarrow> bool" where
  "qs_present v \<longleftrightarrow> v \<noteq> QUndef \<and> v \<noteq> QStr []"

definition qs :: "(string \<times> qs_value) list \<Rightarrow> string" where
  "qs params =
     join_with (CHR ''&'')
       (map (\<lambda>(k, v). k @ ''='' @ encode_uri_component (qs_text v))
         (filter (\<lambda>(k, v). qs_present v) params))"

definition opt_str :: "string option \<Rightarrow> qs_value" where
  "opt_str s = (case s of None \<Rightarrow> QUndef | Some t \<Rightarrow> QStr t)"

definition statsUrl :: string where "statsUrl = ''/api/v1/statistics''"

definition getStatisticsOverview :: "StatRange \<Rightarrow> string option \<Rightarrow> http_options \<Rightarrow> api_call" where
  "getStatisticsOverview rng host opts =
     (statsUrl @ ''/overview?'' @ qs [(''range'', QStr (range_text rng)), (''host'', opt_str host)],
      get_opts opts)"

definition getStatisticsTimeseries :: "StatRange \<Rightarrow> string option \<Rightarrow> http_options \<Rightarrow> api_call" where
  "getStatisticsTimeseries rng host opts =
     (statsUrl @ ''/timeseries?'' @ qs [(''range'', QStr (range_text rng)), (''host'', opt_str host)],
      get_opts opts)"

definition getStatisticsGeo ::
  "StatRange \<Rightarrow> string \<Rightarrow> string \<Rightarrow> string option \<Rightarrow> nat option \<Rightarrow> http_options \<Rightarrow> api_call" where
  "getStatisticsGeo rng scope mode host top_n opts =
     (statsUrl @ ''/geo?'' @ qs [(''range'', QStr (range_text rng)), (''scope'', QStr scope),
        (''mode'', QStr mode), (''host'', opt_str host),
        (''top'', QNum (case top_n of None \<Rightarrow> 20 | Some n \<Rightarrow> n))],
      get_opts opts)"

definition getStatisticsRankings ::
  "StatRange \<Rightarrow> string \<Rightarrow> string option \<Rightarrow> nat option \<Rightarrow> string option \<Rightarrow> http_options \<Rightarrow> api_call" where
  "getStatisticsRankings rng kind host top_n mode opts =
     (statsUrl @ ''/rankings?'' @ qs [(''range'', QStr (range_text rng)), (''type'', QStr kind),
        (''host'', opt_str host), (''top'', QNum (case top_n of None \<Rightarrow> 10 | Some n \<Rightarrow> n)),
        (''mode'', QStr (case mode of None \<Rightarrow> ''all'' | Some m \<Rightarrow> m))],
      get_opts opts)"

definition getStatisticsRankingsPaged ::
  "StatRange \<Rightarrow> string \<Rightarrow> nat \<Rightarrow> nat \<Rightarrow> string option \<Rightarrow> http_options \<Rightarrow> api_call" where
  "getStatisticsRankingsPaged rng kind pageNo pageSize host opts =
     (statsUrl @ ''/rankings?'' @ qs [(''range'', QStr (range_text rng)), (''type'', QStr kind),
        (''page'', QNum pageNo), (''pageSize'', QNum pageSize), (''host'', opt_str host)],
      get_opts opts)"

definition getStatisticsRequests ::
  "StatRange \<Rightarrow> (string \<times> qs_value) list \<Rightarrow> http_options \<Rightarrow> api_call" where
  "getStatisticsRequests rng params opts =
     (statsUrl @ ''/requests?'' @ qs ((''range'', QStr (range_text rng)) # params), get_opts opts)"

text \<open>\<open>deleteOldLogs\<close> calls \<open>fetch\<close> itself, without the base address of the wrapper.\<close>

definition deleteOldLogs :: "string option \<Rightarrow> http_request" where
  "deleteOldLogs token =
     \<lparr>rq_url = ''/api/v1/applicationLogger/deleteOldLogs'', rq_method = ''DELETE'',
      rq_headers = [(''Content-Type'', ''application/json''), (''Authorization'', bearer token)],
      rq_body = NoBody\<rparr>"

subsection \<open>Unwrapping\<close>

text \<open>
  What a cluster call resolves to: nothing or no answer object is \<open>None\<close>. Only an answer
  that says \<open>success: false\<close> is an error.
\<close>

definition unwrap :: "err_text + 'a ApiResponse option \<Rightarrow> err_text + 'a option" where
  "unwrap r =
     (case r of Inl e \<Rightarrow> Inl e
      | Inr None \<Rightarrow> Inr None
      | Inr (Some res) \<Rightarrow>
          if \<not> success res then Inl (message_or FbOperation res) else Inr (resp_data res))"

subsection \<open>Laws\<close>

fun uri_bytes :: "string \<Rightarrow> nat list" where
  "uri_bytes [] = []"
| "uri_bytes (c # cs) =
     (if c = CHR ''%'' then
        (case cs of h # l # r \<Rightarrow> (16 * unhex h + unhex l) # uri_bytes r | _ \<Rightarrow> [])
      else of_char c # uri_bytes cs)"

definition uri_decode :: "string \<Rightarrow> string" where
  "uri_decode s = utf8_decode (uri_bytes s)"

definition uri_char :: "char \<Rightarrow> string" where
  "uri_char c = (if uri_unreserved c then [c] else concat (map pct_escape (utf8_bytes c)))"

lemma encode_uri_chars: "encode_uri_component s = concat (map uri_char s)"
  by (simp add: encode_uri_component_def uri_char_def [abs_def])

lemma uri_bytes_pct [simp]: "b < 256 \<Longrightarrow> uri_bytes (pct_escape b @ r) = b # uri_bytes r"
  by (simp add: pct_escape_def less_mult_imp_div_less)

lemma uri_bytes_pcts:
  "(\<forall>b\<in>set bs. b < 256) \<Longrightarrow> uri_bytes (concat (map pct_escape bs) @ r) = bs @ uri_bytes r"
  by (induction bs) auto

lemma unreserved_ascii: "uri_unreserved c \<Longrightarrow> c \<noteq> CHR ''%'' \<and> (of_char c :: nat) < 128"
  by (auto simp: uri_unreserved_def is_alnum_def Let_def)

lemma uri_bytes_char [simp]: "uri_bytes (uri_char c @ r) = utf8_bytes c @ uri_bytes r"
proof (cases "uri_unreserved c")
  case True
  then show ?thesis using unreserved_ascii by (simp add: uri_char_def utf8_bytes_def)
next
  case False
  then show ?thesis by (auto simp: uri_char_def uri_bytes_pcts utf8_bytes_less)
qed

lemma uri_decode_encode: "uri_decode (encode_uri_component s) = s"
proof -
  have "uri_bytes (concat (map uri_char s)) = concat (map utf8_bytes s)"
    by (induction s) simp_all
  moreover have "utf8_decode (concat (map utf8_bytes s)) = s" by (induction s) simp_all
  ultimately show ?thesis by (simp add: uri_decode_def encode_uri_chars)
qed

lemma set_uri_char: "x \<in> set (uri_char c) \<Longrightarrow> uri_unreserved x \<or> x = CHR ''%''"
proof (cases "uri_unreserved c")
  case False
  assume "x \<in> set (uri_char c)"
  with False obtain b where "b \<in> set (utf8_bytes c)" and "x \<in> set (pct_escape b)"
    by (auto simp: uri_char_def)
  then show ?thesis using set_pct_escape [OF utf8_bytes_less, of b c x]
    unfolding uri_unreserved_def by blast
qed (simp add: uri_char_def)

lemma encode_no_delim:
  assumes "d \<in> set ''/?#&=+''"
  shows "d \<notin> set (encode_uri_component s)"
proof
  assume "d \<in> set (encode_uri_component s)"
  then obtain c where "d \<in> set (uri_char c)" by (auto simp: encode_uri_chars)
  then have "uri_unreserved d \<or> d = CHR ''%''" by (rule set_uri_char)
  then show False using assms by (auto simp: uri_unreserved_def is_alnum_def)
qed

text \<open>The segments of a path below the tunnel nodes.\<close>

lemma split_tunnel:
  assumes "CHR ''/'' \<notin> set s"
  shows "split_on (CHR ''/'') (tunnelUrl @ ''/'' @ s) = [[], ''api'', ''v1'', ''tunnel'', s]"
  using split_on_no_delim [OF assms] by (simp add: tunnelUrl_def)

text \<open>The receiver reads the query of the statistics client as the parameters that are set.\<close>

lemma form_bytes_uri: "CHR ''+'' \<notin> set s \<Longrightarrow> form_bytes s = uri_bytes s"
proof (induction s rule: length_induct)
  case (1 s)
  show ?case
  proof (cases s)
    case (Cons c cs)
    have ih: "form_bytes r = uri_bytes r" if "length r < length s" and "CHR ''+'' \<notin> set r" for r
      using 1 that by blast
    have c: "c \<noteq> CHR ''+''" and cs: "CHR ''+'' \<notin> set cs" using 1(2) Cons by auto
    show ?thesis
    proof (cases "c = CHR ''%''")
      case True
      have "form_bytes (tl (tl cs)) = uri_bytes (tl (tl cs))"

        by (rule ih) (use Cons cs in \<open>simp, metis list.sel(2) list.set_sel(2)\<close>)
      then show ?thesis using True Cons by (auto split: list.splits)
    next
      case False
      have "form_bytes cs = uri_bytes cs" by (rule ih) (use Cons cs in simp_all)
      then show ?thesis using False Cons c by simp
    qed
  qed simp
qed

lemma form_decode_uri: "form_decode (encode_uri_component s) = s"
  using uri_decode_encode [of s] form_bytes_uri [of "encode_uri_component s"] encode_no_delim [of "CHR ''+''" s]
  by (simp add: form_decode_def uri_decode_def)

definition plain_key :: "string \<Rightarrow> bool" where
  "plain_key k \<longleftrightarrow> k \<noteq> [] \<and> list_all is_alnum k"

lemma plain_key_encode: "plain_key k \<Longrightarrow> encode_uri_component k = k"
proof -
  have "list_all is_alnum k \<Longrightarrow> concat (map uri_char k) = k"
    by (induction k) (simp_all add: uri_char_def uri_unreserved_def)
  then show "plain_key k \<Longrightarrow> encode_uri_component k = k" by (simp add: plain_key_def encode_uri_chars)
qed

lemma plain_key_decode: "plain_key k \<Longrightarrow> form_decode k = k"
  using form_decode_uri [of k] by (simp add: plain_key_encode)

lemma parse_query_qs:
  assumes "\<forall>(k, v)\<in>set ps. plain_key k"
  shows "parse_query (qs ps) = map (\<lambda>(k, v). (k, qs_text v)) (filter (\<lambda>(k, v). qs_present v) ps)"
proof -
  let ?ps = "filter (\<lambda>(k, v). qs_present v) ps"
  let ?f = "\<lambda>(k, v). k @ ''='' @ encode_uri_component (qs_text v)"
  have plain: "plain_key k" if "(k, v) \<in> set ?ps" for k v using assms that by auto
  have amp: "CHR ''&'' \<notin> set (?f (k, v))" if "(k, v) \<in> set ?ps" for k v
    using plain [OF that] encode_no_delim [of "CHR ''&''"]
    by (auto simp: plain_key_def list_all_iff is_alnum_def)
  have pair: "parse_pair (?f (k, v)) = (k, qs_text v)" if "(k, v) \<in> set ?ps" for k v
  proof -
    have "\<forall>x\<in>set k. x \<noteq> CHR ''=''"
      using plain [OF that] by (auto simp: plain_key_def list_all_iff is_alnum_def)
    then show ?thesis
      using plain_key_decode [OF plain [OF that]]
      by (simp add: parse_pair_def takeWhile_append2 dropWhile_append2 form_decode_uri)
  qed
  show ?thesis
  proof (cases "?ps = []")
    case True
    then show ?thesis by (simp only: qs_def parse_query_def) simp
  next
    case False
    have "split_on (CHR ''&'') (qs ps) = map ?f ?ps"
      unfolding qs_def
    proof (rule split_on_join)
      show "\<forall>s\<in>set (map ?f ?ps). CHR ''&'' \<notin> set s" using amp by fastforce
    qed (use False in simp)
    moreover have "filter (\<lambda>s. s \<noteq> []) (map ?f ?ps) = map ?f ?ps"
      by (auto simp: filter_id_conv)
    moreover have "map (parse_pair \<circ> ?f) ?ps = map (\<lambda>(k, v). (k, qs_text v)) ?ps"
      using pair by (intro map_cong refl) fastforce
    ultimately show ?thesis by (simp add: parse_query_def)
  qed
qed

end
