(* ===== verification/RouteForm.thy ===== *)
theory RouteForm
  imports ServiceResult JsNumber
begin

text \<open>
  The dialogs that create and edit a route
  (\<open>web/src/pages/server/info/features/CreateDomain.tsx\<close>, \<open>UpdateDomain.tsx\<close>): the form's
  value and the operations on its lists, the checks \<open>save\<close> makes in order, the value it
  sends, and what it does with the outcome. Seconds are JavaScript numbers; \<open>None\<close> is a
  value that is no number (undefined in an edited route, or NaN). Also the node selector of the
  form, \<open>AccessNodeSelect.tsx\<close>. The fields of the form are in \<open>RoutePage\<close>.
\<close>

datatype ServiceType = SvService | SvCluster | SvStatic

record HeadersView =
  h_key :: string
  h_value :: string

record UpStream =
  us_service :: string
  us_weight :: nat

record DomainName =
  dn_id :: "string option"
  dn_path :: string
  dn_serverId :: string
  dn_domains :: "string list"
  dn_serviceType :: ServiceType
  dn_headers :: "HeadersView list"
  dn_tryFiles :: "string list"
  dn_enable :: bool
  dn_enableBotProtection :: bool
  dn_service :: "string option"
  dn_upStreams :: "UpStream list"
  dn_enableHealthCheck :: bool
  dn_healthCheckPath :: "string option"
  dn_interval :: "rat option"
  dn_timeout :: "rat option"
  dn_root :: "string option"
  dn_accessNodeId :: "string option"

datatype form_tab = TabBasic | TabTarget | TabHeaders

record route_form =
  rf_tab :: form_tab
  rf_saving :: bool
  rf_value :: DomainName

definition fallbackValue :: "string option \<Rightarrow> DomainName" where
  "fallbackValue i =
     \<lparr>dn_id = None, dn_path = ''/'', dn_serverId = (case i of None \<Rightarrow> [] | Some s \<Rightarrow> s),
      dn_domains = [], dn_serviceType = SvService, dn_headers = [], dn_tryFiles = [],
      dn_enable = True, dn_enableBotProtection = False, dn_service = Some [], dn_upStreams = [],
      dn_enableHealthCheck = False, dn_healthCheckPath = Some ''/health'',
      dn_interval = Some 10, dn_timeout = Some 3, dn_root = Some [], dn_accessNodeId = None\<rparr>"

text \<open>The effect that runs when a dialog is opened.\<close>

definition open_create :: "string option \<Rightarrow> route_form" where
  "open_create i = \<lparr>rf_tab = TabBasic, rf_saving = False, rf_value = fallbackValue i\<rparr>"

definition open_update :: "string option \<Rightarrow> DomainName option \<Rightarrow> route_form" where
  "open_update i d =
     \<lparr>rf_tab = TabBasic, rf_saving = False,
      rf_value = (case d of None \<Rightarrow> fallbackValue i
        | Some v \<Rightarrow> v\<lparr>dn_serverId := (case i of None \<Rightarrow> dn_serverId v | Some s \<Rightarrow> s)\<rparr>)\<rparr>"

subsection \<open>Lists edited by index\<close>

definition remove_at :: "nat \<Rightarrow> 'a list \<Rightarrow> 'a list" where
  "remove_at k xs = map snd (filter (\<lambda>(i, x). i \<noteq> k) (enumerate 0 xs))"

definition update_at :: "nat \<Rightarrow> ('a \<Rightarrow> 'a) \<Rightarrow> 'a list \<Rightarrow> 'a list" where
  "update_at k f xs = map (\<lambda>(i, x). if i = k then f x else x) (enumerate 0 xs)"

definition addUpstream :: "DomainName \<Rightarrow> DomainName" where
  "addUpstream v = v\<lparr>dn_upStreams := dn_upStreams v @ [\<lparr>us_service = [], us_weight = 1\<rparr>]\<rparr>"

definition removeUpstream :: "nat \<Rightarrow> DomainName \<Rightarrow> DomainName" where
  "removeUpstream k v = v\<lparr>dn_upStreams := remove_at k (dn_upStreams v)\<rparr>"

definition updateUpstreamService :: "nat \<Rightarrow> string \<Rightarrow> DomainName \<Rightarrow> DomainName" where
  "updateUpstreamService k s v =
     v\<lparr>dn_upStreams := update_at k (\<lambda>u. u\<lparr>us_service := s\<rparr>) (dn_upStreams v)\<rparr>"

definition addHeader :: "DomainName \<Rightarrow> DomainName" where
  "addHeader v = v\<lparr>dn_headers := dn_headers v @ [\<lparr>h_key = [], h_value = []\<rparr>]\<rparr>"

definition removeHeader :: "nat \<Rightarrow> DomainName \<Rightarrow> DomainName" where
  "removeHeader k v = v\<lparr>dn_headers := remove_at k (dn_headers v)\<rparr>"

definition updateHeader :: "nat \<Rightarrow> string option \<Rightarrow> string option \<Rightarrow> DomainName \<Rightarrow> DomainName" where
  "updateHeader k key val v =
     v\<lparr>dn_headers := update_at k (\<lambda>h.
        \<lparr>h_key = (case key of None \<Rightarrow> h_key h | Some s \<Rightarrow> s),
         h_value = (case val of None \<Rightarrow> h_value h | Some s \<Rightarrow> s)\<rparr>) (dn_headers v)\<rparr>"

subsection \<open>The checks of \<open>save\<close>\<close>

datatype form_error = ErrId | ErrPathEmpty | ErrPathSlash | ErrServiceEmpty | ErrRootEmpty
  | ErrNoUpstream | ErrUpstreamEmpty | ErrHealthPathEmpty | ErrHealthPathSlash
  | ErrInterval | ErrTimeout | ErrTimeoutTooLong

definition js_falsy_text :: "string option \<Rightarrow> bool" where
  "js_falsy_text s = (case s of None \<Rightarrow> True | Some t \<Rightarrow> js_trim t = [])"

definition trimmed_or_empty :: "string option \<Rightarrow> string" where
  "trimmed_or_empty s = (case s of None \<Rightarrow> [] | Some t \<Rightarrow> js_trim t)"

text \<open>\<open>!x || x <= 0\<close>\<close>

definition not_positive :: "rat option \<Rightarrow> bool" where
  "not_positive x = (case x of None \<Rightarrow> True | Some q \<Rightarrow> q = 0 \<or> q \<le> 0)"

definition greater :: "rat option \<Rightarrow> rat option \<Rightarrow> bool" where
  "greater a b = (case (a, b) of (Some x, Some y) \<Rightarrow> y < x | _ \<Rightarrow> False)"

definition health_wanted :: "DomainName \<Rightarrow> bool" where
  "health_wanted v \<longleftrightarrow> dn_enableHealthCheck v \<and>
     (dn_serviceType v = SvService \<or> dn_serviceType v = SvCluster)"

definition health_error :: "DomainName \<Rightarrow> form_error option" where
  "health_error v =
     (let healthCheckPath = trimmed_or_empty (dn_healthCheckPath v) in
      if \<not> health_wanted v then None
      else if healthCheckPath = [] then Some ErrHealthPathEmpty
      else if \<not> starts_with healthCheckPath ''/'' then Some ErrHealthPathSlash
      else if not_positive (dn_interval v) then Some ErrInterval
      else if not_positive (dn_timeout v) then Some ErrTimeout
      else if greater (dn_timeout v) (dn_interval v) then Some ErrTimeoutTooLong
      else None)"

definition route_error :: "DomainName \<Rightarrow> (form_error \<times> form_tab) option" where
  "route_error v =
     (let path = js_trim (dn_path v) in
      if path = [] then Some (ErrPathEmpty, TabBasic)
      else if \<not> starts_with path ''/'' then Some (ErrPathSlash, TabBasic)
      else if dn_serviceType v = SvService \<and> js_falsy_text (dn_service v) then Some (ErrServiceEmpty, TabTarget)
      else if dn_serviceType v = SvStatic \<and> js_falsy_text (dn_root v) then Some (ErrRootEmpty, TabTarget)
      else if dn_serviceType v = SvCluster \<and> dn_upStreams v = [] then Some (ErrNoUpstream, TabTarget)
      else if dn_serviceType v = SvCluster \<and> list_ex (\<lambda>u. js_trim (us_service u) = []) (dn_upStreams v)
        then Some (ErrUpstreamEmpty, TabTarget)
      else map_option (\<lambda>e. (e, TabTarget)) (health_error v))"

subsection \<open>Saving\<close>

datatype form_effect = FormError form_error | RequestCreate DomainName
  | RequestUpdate string DomainName | FormSaved | FormSaveFailed | CallOnOk | ToggleLoadingDomains

type_synonym form_result = "route_form \<times> form_effect list"

text \<open>\<open>Array.from(new Set(xs))\<close>: the first of equal elements stays.\<close>

definition js_unique :: "'a list \<Rightarrow> 'a list" where
  "js_unique xs = rev (remdups (rev xs))"

definition clean_list :: "string list \<Rightarrow> string list" where
  "clean_list xs = js_unique (filter (\<lambda>s. s \<noteq> []) (map js_trim xs))"

definition update_payload :: "DomainName \<Rightarrow> DomainName" where
  "update_payload v =
     v\<lparr>dn_path := js_trim (dn_path v), dn_enableHealthCheck := health_wanted v,
       dn_healthCheckPath := (if health_wanted v then Some (trimmed_or_empty (dn_healthCheckPath v)) else None)\<rparr>"

definition create_payload :: "string \<Rightarrow> DomainName \<Rightarrow> DomainName" where
  "create_payload i v =
     v\<lparr>dn_serverId := i, dn_path := js_trim (dn_path v),
       dn_domains := clean_list (dn_domains v), dn_tryFiles := clean_list (dn_tryFiles v),
       dn_headers := filter (\<lambda>h. h_key h \<noteq> [])
         (map (\<lambda>h. \<lparr>h_key = js_trim (h_key h), h_value = js_trim (h_value h)\<rparr>) (dn_headers v)),
       dn_upStreams := map (\<lambda>u. u\<lparr>us_service := js_trim (us_service u)\<rparr>) (dn_upStreams v),
       dn_service := Some (trimmed_or_empty (dn_service v)),
       dn_root := Some (trimmed_or_empty (dn_root v)),
       dn_enableHealthCheck := health_wanted v,
       dn_healthCheckPath := (if health_wanted v then Some (trimmed_or_empty (dn_healthCheckPath v)) else None)\<rparr>"

definition update_save :: "route_form \<Rightarrow> form_result" where
  "update_save st =
     (case dn_id (rf_value st) of
        None \<Rightarrow> (st, [FormError ErrId])
      | Some i \<Rightarrow>
          if i = [] then (st, [FormError ErrId])
          else case route_error (rf_value st) of
              Some (e, t) \<Rightarrow> (st\<lparr>rf_tab := t\<rparr>, [FormError e])
            | None \<Rightarrow> (st\<lparr>rf_saving := True\<rparr>, [RequestUpdate i (update_payload (rf_value st))]))"

definition create_save :: "string option \<Rightarrow> route_form \<Rightarrow> form_result" where
  "create_save serverId st =
     (case serverId of
        None \<Rightarrow> (st, [FormError ErrId])
      | Some i \<Rightarrow>
          if i = [] then (st, [FormError ErrId])
          else case route_error (rf_value st) of
              Some (e, t) \<Rightarrow> (st\<lparr>rf_tab := t\<rparr>, [FormError e])
            | None \<Rightarrow> (st\<lparr>rf_saving := True\<rparr>, [RequestCreate (create_payload i (rf_value st))]))"

text \<open>After the \<open>await\<close>: any answer counts as saved, whatever its \<open>success\<close> says.\<close>

definition save_done :: "'a settled \<Rightarrow> route_form \<Rightarrow> form_result" where
  "save_done s st =
     (case s of
        Resolved r \<Rightarrow> (st\<lparr>rf_saving := False\<rparr>, [FormSaved, CallOnOk, ToggleLoadingDomains])
      | Rejected e \<Rightarrow> (st\<lparr>rf_saving := False\<rparr>, [FormSaveFailed]))"

subsection \<open>The node selector\<close>

datatype ClusterRole = Standalone | Master | Worker

record ClusterNode =
  cn_id :: string
  cn_name :: string
  cn_online :: bool
  cn_lastSeen :: "string option"
  cn_syncedVersion :: nat
  cn_registeredAt :: string

record ClusterState =
  cs_role :: ClusterRole
  cs_nodeName :: "string option"
  cs_masterEndpoint :: "string option"
  cs_syncedVersion :: nat
  cs_lastSyncTime :: "string option"
  cs_connected :: bool
  cs_nodes :: "ClusterNode list"

definition DIRECT :: string where "DIRECT = ''__direct__''"

datatype option_label = LblDirect | LblMaster | LblNode string bool

record select_view =
  sel_value :: string
  sel_options :: "(string \<times> option_label) list"

definition AccessNodeSelect :: "ClusterState option \<Rightarrow> string option \<Rightarrow> select_view option" where
  "AccessNodeSelect state v =
     (case state of None \<Rightarrow> None
      | Some s \<Rightarrow>
          if cs_role s \<noteq> Master \<or> cs_nodes s = [] then None
          else Some \<lparr>sel_value = (case v of None \<Rightarrow> DIRECT | Some x \<Rightarrow> if x = [] then DIRECT else x),
            sel_options = (DIRECT, LblDirect) # (''master'', LblMaster) #
              map (\<lambda>n. (cn_id n, LblNode (cn_name n) (cn_online n))) (cs_nodes s)\<rparr>)"

definition access_choice :: "string \<Rightarrow> string option" where
  "access_choice nxt = (if nxt = DIRECT then None else Some nxt)"

subsection \<open>Laws\<close>

lemma enumerate_from: "enumerate n (x # xs) = (n, x) # enumerate (Suc n) xs"
  by simp

lemma remove_at_eq: "remove_at k xs = take k xs @ drop (Suc k) xs"
proof -
  have "map snd (filter (\<lambda>(i, x). i \<noteq> n + k) (enumerate n xs)) = take k xs @ drop (Suc k) xs" for n
  proof (induction xs arbitrary: n k)
    case (Cons x xs)
    show ?case
    proof (cases k)
      case 0
      have "filter (\<lambda>(i, x). i \<noteq> n) (enumerate (Suc n) xs) = enumerate (Suc n) xs"
        by (auto simp: filter_id_conv in_set_enumerate_eq)
      then show ?thesis using 0 by simp
    next
      case (Suc k')
      then show ?thesis using Cons.IH [of "Suc n" k'] by simp
    qed
  qed simp
  from this [of 0] show ?thesis by (simp add: remove_at_def)
qed

lemma update_at_eq: "update_at k f xs = (if k < length xs then xs[k := f (xs ! k)] else xs)"
proof -
  have "map (\<lambda>(i, x). if i = n + k then f x else x) (enumerate n xs)
      = (if k < length xs then xs[k := f (xs ! k)] else xs)" for n
  proof (induction xs arbitrary: n k)
    case (Cons x xs)
    show ?case
    proof (cases k)
      case 0
      have "map (\<lambda>(i, x). if i = n then f x else x) (enumerate (Suc n) xs) = map snd (enumerate (Suc n) xs)"
        by (rule map_cong) (auto simp: in_set_enumerate_eq)
      then show ?thesis using 0 by simp
    next
      case (Suc k')
      then show ?thesis using Cons.IH [of "Suc n" k'] by simp
    qed
  qed simp
  from this [of 0] show ?thesis by (simp add: update_at_def)
qed

lemma distinct_js_unique [simp]: "distinct (js_unique xs)" and set_js_unique [simp]: "set (js_unique xs) = set xs"
  by (simp_all add: js_unique_def)

lemma js_unique_distinct: "distinct xs \<Longrightarrow> js_unique xs = xs"
  by (simp add: js_unique_def distinct_remdups_id)

text \<open>What the server is sent, when something is sent.\<close>

definition health_ok :: "DomainName \<Rightarrow> bool" where
  "health_ok v \<longleftrightarrow> (dn_enableHealthCheck v \<longrightarrow> dn_serviceType v \<noteq> SvStatic \<and>
     (\<exists>p i t. dn_healthCheckPath v = Some p \<and> starts_with p ''/'' \<and>
        dn_interval v = Some i \<and> dn_timeout v = Some t \<and> 0 < t \<and> t \<le> i))"

definition target_ok :: "DomainName \<Rightarrow> bool" where
  "target_ok v \<longleftrightarrow>
     (case dn_serviceType v of
        SvService \<Rightarrow> \<not> js_falsy_text (dn_service v)
      | SvStatic \<Rightarrow> \<not> js_falsy_text (dn_root v)
      | SvCluster \<Rightarrow> dn_upStreams v \<noteq> [] \<and> list_all (\<lambda>u. js_trim (us_service u) \<noteq> []) (dn_upStreams v))"

definition route_ok :: "DomainName \<Rightarrow> bool" where
  "route_ok v \<longleftrightarrow> starts_with (dn_path v) ''/'' \<and> target_ok v \<and> health_ok v"

lemma health_errorNone:
  "health_error v = None \<Longrightarrow> health_wanted v \<Longrightarrow>
     \<exists>i t. starts_with (trimmed_or_empty (dn_healthCheckPath v)) ''/'' \<and>
       dn_interval v = Some i \<and> dn_timeout v = Some t \<and> 0 < t \<and> t \<le> i"
  by (auto simp: health_error_def Let_def not_positive_def greater_def not_less
      split: if_splits option.splits)

lemma route_errorNone:
  assumes "route_error v = None"
  shows "starts_with (js_trim (dn_path v)) ''/''" and "target_ok v" and "health_error v = None"
proof -
  show "starts_with (js_trim (dn_path v)) ''/''" and "health_error v = None"
    using assms by (auto simp: route_error_def Let_def split: if_splits)
  show "target_ok v" using assms
    by (cases "dn_serviceType v")
      (auto simp: route_error_def Let_def target_ok_def list_all_iff list_ex_iff split: if_splits)
qed

lemma health_not_static: "health_wanted v \<Longrightarrow> dn_serviceType v \<noteq> SvStatic"
  by (auto simp: health_wanted_def)

lemma update_payload_ok: "route_error v = None \<Longrightarrow> route_ok (update_payload v)"
  using route_errorNone [of v] health_errorNone [of v] health_not_static [of v]
  by (auto simp: route_ok_def update_payload_def target_ok_def health_ok_def cong: ServiceType.case_cong)

lemma js_falsy_trimmed: "js_falsy_text (Some (trimmed_or_empty s)) = js_falsy_text s"
  by (cases s) (simp_all add: js_falsy_text_def trimmed_or_empty_def)

lemma create_target_ok: "target_ok v \<Longrightarrow> target_ok (create_payload i v)"
  by (cases "dn_serviceType v")
    (auto simp: target_ok_def create_payload_def js_falsy_trimmed list_all_iff)

lemma create_payload_ok: "route_error v = None \<Longrightarrow> route_ok (create_payload i v)"
  using route_errorNone [of v] health_errorNone [of v] health_not_static [of v] create_target_ok [of v i]
  by (auto simp: route_ok_def health_ok_def) (auto simp: create_payload_def)

text \<open>A created route is in a normal form: creating it again would send the same.\<close>

lemma clean_list_idem [simp]: "clean_list (clean_list xs) = clean_list xs"
proof -
  have "\<forall>s\<in>set (clean_list xs). s \<noteq> [] \<and> js_trim s = s" by (auto simp: clean_list_def)
  then have "filter (\<lambda>s. s \<noteq> []) (map js_trim (clean_list xs)) = clean_list xs"
    by (simp add: filter_id_conv map_idI)
  moreover have "distinct (clean_list xs)" by (simp add: clean_list_def)
  ultimately show ?thesis by (simp add: clean_list_def [of "clean_list xs"] js_unique_distinct)
qed

lemma trimmed_or_empty_idem [simp]: "trimmed_or_empty (Some (trimmed_or_empty s)) = trimmed_or_empty s"
  by (cases s) (simp_all add: trimmed_or_empty_def)

lemma clean_headers_idem:
  "filter (\<lambda>h. h_key h \<noteq> []) (map f (filter (\<lambda>h. h_key h \<noteq> []) (map f hs))) =
   filter (\<lambda>h. h_key h \<noteq> []) (map f hs)" if "\<And>h. f (f h) = f h"
proof -
  have "map f (filter (\<lambda>h. h_key h \<noteq> []) (map f hs)) = filter (\<lambda>h. h_key h \<noteq> []) (map f hs)"
    by (rule map_idI) (auto simp: that)
  then show ?thesis by simp
qed

lemma health_wanted_payload: "health_wanted (create_payload i v) = health_wanted v"
  by (auto simp: health_wanted_def create_payload_def)

lemma create_payload_idem: "create_payload i (create_payload i v) = create_payload i v"
proof -
  let ?f = "\<lambda>h :: HeadersView. \<lparr>h_key = js_trim (h_key h), h_value = js_trim (h_value h)\<rparr>"
  have "filter (\<lambda>h. h_key h \<noteq> []) (map ?f (filter (\<lambda>h. h_key h \<noteq> []) (map ?f hs))) =
      filter (\<lambda>h. h_key h \<noteq> []) (map ?f hs)" for hs
    by (rule clean_headers_idem) simp
  then show ?thesis
    using health_wanted_payload [of i v]
    by (simp add: create_payload_def [of i "create_payload i v"])
      (simp add: create_payload_def comp_def)
qed

end
