(* ===== verification/BatchSelection.thy ===== *)
theory BatchSelection
  imports JsString
begin

text \<open>
  The selection that the list of routes and the list of servers share: ids are kept in a list
  that is toggled by row, narrowed to the shown items after a commit, and handed to an action
  that calls the server for one id after the other. The interface is the locale
  \<open>batch_selection\<close>; \<open>RouteList\<close> and \<open>ServerList\<close> interpret it on their own states.
\<close>

fun join_space :: "string list \<Rightarrow> string" where
  "join_space [] = []"
| "join_space [s] = s"
| "join_space (s # ss) = s @ '' '' @ join_space ss"

definition toggle :: "string \<Rightarrow> string list \<Rightarrow> string list" where
  "toggle i xs = (if i \<in> set xs then filter (\<lambda>x. x \<noteq> i) xs else xs @ [i])"

text \<open>The loop \<open>for (const id of ids) try await \<dots>\<close>: the calls made, the successes, the failures.\<close>

fun call_each :: "(nat \<Rightarrow> bool) \<Rightarrow> nat \<Rightarrow> string list \<Rightarrow> nat \<times> nat \<Rightarrow> string list \<times> nat \<times> nat" where
  "call_each outcome n [] (s, f) = ([], s, f)"
| "call_each outcome n (i # ids) (s, f) =
     (let r = call_each outcome (n + 1) ids (if outcome n then (s + 1, f) else (s, f + 1))
      in (i # fst r, snd r))"

datatype check_state = Checked | Indeterminate | Unchecked

subsection \<open>Laws\<close>

lemma map_filter_Some_mem: "y \<in> set (List.map_filter f xs) \<longleftrightarrow> (\<exists>x\<in>set xs. f x = Some y)"
  by (force simp: List.map_filter_def image_iff)

lemma map_filter_unique:
  "distinct (List.map_filter f xs) \<Longrightarrow> x \<in> set xs \<Longrightarrow> y \<in> set xs \<Longrightarrow> f x = Some i \<Longrightarrow>
   f y = Some i \<Longrightarrow> x = y"
proof (induction xs)
  case (Cons z zs)
  have no: "False" if "f z = Some i" "w \<in> set zs" "f w = Some i" for w
    using Cons.prems(1) that by (auto simp: List.map_filter_simps map_filter_Some_mem)
  have "distinct (List.map_filter f zs)"
    using Cons.prems(1) by (auto simp: List.map_filter_simps split: option.splits)
  then show ?case using Cons.IH Cons.prems(2-5) no by auto
qed simp

lemma map_filter_sub_distinct:
  "distinct (List.map_filter f xs) \<Longrightarrow> distinct (List.map_filter f (filter p xs))"
proof (induction xs)
  case (Cons x xs)
  then show ?case
    by (cases "f x") (auto simp: List.map_filter_simps map_filter_Some_mem)
qed (simp add: List.map_filter_simps)

lemma call_each_eq:
  "fst (call_each outcome n ids (s, f)) = ids \<and>
   fst (snd (call_each outcome n ids (s, f))) = s + length (filter outcome [n..<n + length ids]) \<and>
   snd (snd (call_each outcome n ids (s, f))) = f + length (filter (\<lambda>k. \<not> outcome k) [n..<n + length ids])"
proof (induction ids arbitrary: n s f)
  case (Cons i ids)
  have u: "[n..<n + length (i # ids)] = n # [Suc n..<Suc n + length ids]"
    by (simp add: upt_conv_Cons del: upt_Suc)
  show ?case
    unfolding u using Cons.IH [of "Suc n" "Suc s" f] Cons.IH [of "Suc n" s "Suc f"]
    by (simp add: Let_def del: upt_Suc)
qed simp

lemma call_each_total:
  "fst (snd (call_each outcome n ids (s, f))) + snd (snd (call_each outcome n ids (s, f)))
     = s + f + length ids"
proof -
  have "length (filter outcome [n..<n + length ids]) + length (filter (\<lambda>k. \<not> outcome k) [n..<n + length ids])
      = length ids"
    using sum_length_filter_compl [of outcome "[n..<n + length ids]"] by simp
  then show ?thesis using call_each_eq [of outcome n ids s f] by linarith
qed

lemma toggle_twice: "set (toggle i (toggle i xs)) = set xs"
  by (auto simp: toggle_def)

lemma set_toggle: "set (toggle i xs) = (if i \<in> set xs then set xs - {i} else insert i (set xs))"
  by (auto simp: toggle_def)

subsection \<open>The interface\<close>

text \<open>
  \<open>items\<close> are the loaded rows, \<open>shown\<close> those the filters let through, \<open>selected\<close> the ids,
  \<open>chosen\<close> the rows of the selection; \<open>settle\<close> is the effect that runs after a commit and
  \<open>active\<close> says that the batch mode is on.
\<close>

locale batch_selection =
  fixes items :: "'s \<Rightarrow> 'a list"
    and item_id :: "'a \<Rightarrow> string option"
    and visible :: "'s \<Rightarrow> 'a \<Rightarrow> bool"
    and selectable :: "'s \<Rightarrow> string list"
    and selected :: "'s \<Rightarrow> string list"
    and chosen :: "'s \<Rightarrow> 'a list"
    and active :: "'s \<Rightarrow> bool"
    and settle :: "'s \<Rightarrow> 's"
  assumes selectable_set: "i \<in> set (selectable s) \<longleftrightarrow> (\<exists>d\<in>set (items s). visible s d \<and> item_id d = Some i)"
    and settle_items: "items (settle s) = items s"
    and settle_selected: "active s \<Longrightarrow>
      selected (settle s) = filter (\<lambda>i. i \<in> set (selectable s)) (selected s)"
    and chosen_eq: "chosen s = filter (\<lambda>d. \<exists>i\<in>set (selected s). item_id d = Some i) (items s)"
begin

lemma settled_selected: "active s \<Longrightarrow> set (selected (settle s)) \<subseteq> set (selectable s)"
  by (auto simp: settle_selected)

text \<open>After the effect the selection is a part of what is shown.\<close>

lemma chosen_shown:
  assumes act: "active s" and distinct: "distinct (List.map_filter item_id (items s))"
    and d: "d \<in> set (chosen (settle s))"
  shows "visible s d"
proof -
  obtain i where i: "item_id d = Some i" "i \<in> set (selected (settle s))" and mem: "d \<in> set (items s)"
    using d by (auto simp: chosen_eq settle_items)
  then have "i \<in> set (selectable s)" using settled_selected [OF act] by blast
  then obtain e where e: "e \<in> set (items s)" "visible s e" "item_id e = Some i"
    by (auto simp: selectable_set)
  have "d = e" by (rule map_filter_unique [OF distinct mem e(1) i(1) e(3)])
  with e show ?thesis by simp
qed

text \<open>The ids of the chosen rows are the selected ids that are loaded, each once.\<close>

lemma chosen_ids: "set (List.map_filter item_id (chosen s)) =
    set (selected s) \<inter> set (List.map_filter item_id (items s))"
proof (rule set_eqI)
  fix i
  show "i \<in> set (List.map_filter item_id (chosen s)) \<longleftrightarrow>
      i \<in> set (selected s) \<inter> set (List.map_filter item_id (items s))"
    unfolding map_filter_Some_mem Int_iff chosen_eq set_filter by force
qed

lemma distinct_chosen_ids:
  "distinct (List.map_filter item_id (items s)) \<Longrightarrow> distinct (List.map_filter item_id (filter p (chosen s)))"
  by (simp add: chosen_eq map_filter_sub_distinct)

end

end
