(* ===== verification/RouteList.thy ===== *)
theory RouteList
  imports RouteForm HealthModel BatchSelection
begin

text \<open>
  The list of a server's routes
  (\<open>web/src/pages/server/info/features/DomainNamesList.tsx\<close>): loading, filtering and
  sorting, the batch selection, the batch actions and the deletion, which call the server for
  one route after the other, and what the rows and the controls show. \<open>cmp\<close> is
  \<open>localeCompare\<close> for \<open>zh-CN\<close>. The parts of a handler after its awaits end in \<open>_done\<close>;
  \<open>outcome n\<close> says whether the \<open>n\<close>-th awaited call resolved.
\<close>

record route_list =
  rl_domains :: "DomainName list"
  rl_loading :: bool
  rl_query :: string
  rl_enabledOnly :: bool
  rl_tags :: "string list"
  rl_batch :: bool
  rl_selected :: "string list"
  rl_acting :: bool
  rl_deleteOpen :: bool
  rl_deleteItems :: "DomainName list"
  rl_deleting :: bool
  rl_updateVisible :: bool
  rl_updateDomain :: "DomainName option"

datatype batch_label = LblEnable | LblDisable

datatype list_effect = RequestDomains string | LoadFailed | SelectFirst | NothingToDo batch_label
  | BatchOk batch_label nat | BatchSome batch_label nat nat | InvalidId
  | DeletedAll nat | DeletedSome nat nat

type_synonym list_result = "route_list \<times> list_effect list"

subsection \<open>Loading\<close>

definition loadDomainName :: "string option \<Rightarrow> route_list \<Rightarrow> list_result" where
  "loadDomainName serverId st =
     (case serverId of None \<Rightarrow> (st, [])
      | Some i \<Rightarrow> if i = [] then (st, []) else (st\<lparr>rl_loading := True\<rparr>, [RequestDomains i]))"

text \<open>An answer without data puts \<open>undefined\<close> into the store, on which the next render throws.\<close>

definition loadDomainName_done :: "DomainName list settled \<Rightarrow> route_list \<Rightarrow> list_result option" where
  "loadDomainName_done s st =
     (case s of
        Rejected e \<Rightarrow> Some (st\<lparr>rl_loading := False\<rparr>, [LoadFailed])
      | Resolved r \<Rightarrow>
          (case resp_data r of
             None \<Rightarrow> None
           | Some ds \<Rightarrow> Some (st\<lparr>rl_domains := ds, rl_loading := False\<rparr>, [])))"

subsection \<open>Filtering\<close>

definition tags :: "(string \<Rightarrow> string \<Rightarrow> int) \<Rightarrow> route_list \<Rightarrow> string list" where
  "tags cmp st = js_sort cmp (js_unique (concat (map dn_domains (rl_domains st))))"

definition haystack :: "DomainName \<Rightarrow> string" where
  "haystack item =
     js_lower (join_space
       [dn_path item, (case dn_service item of None \<Rightarrow> [] | Some s \<Rightarrow> s),
        (case dn_root item of None \<Rightarrow> [] | Some s \<Rightarrow> s), join_space (dn_domains item),
        join_space (map us_service (dn_upStreams item))])"

definition shows_route :: "route_list \<Rightarrow> DomainName \<Rightarrow> bool" where
  "shows_route st item =
     (let q = js_lower (js_trim (rl_query st)) in
      if rl_enabledOnly st \<and> \<not> dn_enable item then False
      else if rl_tags st \<noteq> [] \<and> \<not> list_ex (\<lambda>d. d \<in> set (rl_tags st)) (dn_domains item) then False
      else if q = [] then True
      else str_includes (haystack item) q)"

definition route_order :: "(string \<Rightarrow> string \<Rightarrow> int) \<Rightarrow> DomainName \<Rightarrow> DomainName \<Rightarrow> int" where
  "route_order cmp a b =
     (if dn_enable a \<noteq> dn_enable b then (if dn_enable a then -1 else 1)
      else cmp (dn_path a) (dn_path b))"

definition filteredDomains :: "(string \<Rightarrow> string \<Rightarrow> int) \<Rightarrow> route_list \<Rightarrow> DomainName list" where
  "filteredDomains cmp st = js_sort (route_order cmp) (filter (shows_route st) (rl_domains st))"

definition route_id :: "DomainName \<Rightarrow> string option" where
  "route_id d = (case dn_id d of None \<Rightarrow> None | Some i \<Rightarrow> if i = [] then None else Some i)"

definition selectableIds :: "(string \<Rightarrow> string \<Rightarrow> int) \<Rightarrow> route_list \<Rightarrow> string list" where
  "selectableIds cmp st = List.map_filter route_id (filteredDomains cmp st)"

definition is_selected :: "route_list \<Rightarrow> DomainName \<Rightarrow> bool" where
  "is_selected st d = (case route_id d of None \<Rightarrow> False | Some i \<Rightarrow> i \<in> set (rl_selected st))"

definition selectedDomains :: "route_list \<Rightarrow> DomainName list" where
  "selectedDomains st = filter (is_selected st) (rl_domains st)"

definition allSelected :: "(string \<Rightarrow> string \<Rightarrow> int) \<Rightarrow> route_list \<Rightarrow> bool" where
  "allSelected cmp st \<longleftrightarrow> selectableIds cmp st \<noteq> [] \<and>
     list_all (\<lambda>i. i \<in> set (rl_selected st)) (selectableIds cmp st)"

definition someSelected :: "(string \<Rightarrow> string \<Rightarrow> int) \<Rightarrow> route_list \<Rightarrow> bool" where
  "someSelected cmp st \<longleftrightarrow> list_ex (\<lambda>i. i \<in> set (rl_selected st)) (selectableIds cmp st)
     \<and> \<not> allSelected cmp st"

text \<open>The effect that runs after a commit in batch mode.\<close>

definition batch_effect :: "(string \<Rightarrow> string \<Rightarrow> int) \<Rightarrow> route_list \<Rightarrow> route_list" where
  "batch_effect cmp st =
     (if \<not> rl_batch st then st
      else st\<lparr>rl_selected := filter (\<lambda>i. i \<in> set (selectableIds cmp st)) (rl_selected st)\<rparr>)"

definition clearFilters :: "route_list \<Rightarrow> route_list" where
  "clearFilters st = st\<lparr>rl_query := [], rl_enabledOnly := False, rl_tags := []\<rparr>"

definition toggleBatchMode :: "route_list \<Rightarrow> route_list" where
  "toggleBatchMode st =
     (let nxt = \<not> rl_batch st in
      st\<lparr>rl_batch := nxt, rl_selected := (if nxt then rl_selected st else [])\<rparr>)"

definition toggleSelected :: "string \<Rightarrow> route_list \<Rightarrow> route_list" where
  "toggleSelected i st = st\<lparr>rl_selected := toggle i (rl_selected st)\<rparr>"

definition toggleTag :: "string \<Rightarrow> route_list \<Rightarrow> route_list" where
  "toggleTag tag st = st\<lparr>rl_tags := toggle tag (rl_tags st)\<rparr>"

definition selectAll :: "(string \<Rightarrow> string \<Rightarrow> int) \<Rightarrow> bool \<Rightarrow> route_list \<Rightarrow> route_list" where
  "selectAll cmp chk st = st\<lparr>rl_selected := (if chk then selectableIds cmp st else [])\<rparr>"

subsection \<open>Batch actions and deletion\<close>

text \<open>The targets: the routes of the selection that are not yet as wanted.\<close>

definition batch_targets :: "batch_label \<Rightarrow> route_list \<Rightarrow> DomainName list" where
  "batch_targets l st =
     (case l of LblEnable \<Rightarrow> filter (\<lambda>d. \<not> dn_enable d) (selectedDomains st)
      | LblDisable \<Rightarrow> filter dn_enable (selectedDomains st))"

definition runBatchAction :: "batch_label \<Rightarrow> DomainName list \<Rightarrow> route_list \<Rightarrow> list_result \<times> string list" where
  "runBatchAction l targets st =
     (if rl_selected st = [] then ((st, [SelectFirst]), [])
      else let ids = List.map_filter route_id targets in
        if ids = [] then ((st, [NothingToDo l]), [])
        else ((st\<lparr>rl_acting := True\<rparr>, []), ids))"

definition runBatchAction_done ::
  "string option \<Rightarrow> batch_label \<Rightarrow> nat \<times> nat \<Rightarrow> route_list \<Rightarrow> list_result" where
  "runBatchAction_done serverId l counts st =
     (let r = loadDomainName serverId (st\<lparr>rl_acting := False, rl_selected := []\<rparr>)
      in (fst r, snd r @ [if snd counts = 0 then BatchOk l (fst counts)
                          else BatchSome l (fst counts) (snd counts)]))"

definition askDelete :: "route_list \<Rightarrow> list_result" where
  "askDelete st =
     (if selectedDomains st = [] then (st, [SelectFirst])
      else (st\<lparr>rl_deleteOpen := True, rl_deleteItems := selectedDomains st\<rparr>, []))"

definition close_delete :: "route_list \<Rightarrow> route_list" where
  "close_delete st = st\<lparr>rl_deleteOpen := False, rl_deleteItems := []\<rparr>"

definition handleConfirmDelete :: "route_list \<Rightarrow> list_result \<times> string list" where
  "handleConfirmDelete st =
     (let ids = List.map_filter route_id (rl_deleteItems st) in
      if ids = [] then ((close_delete st, [InvalidId]), [])
      else ((st\<lparr>rl_deleting := True\<rparr>, []), ids))"

definition handleConfirmDelete_done ::
  "string option \<Rightarrow> string list \<Rightarrow> nat \<times> nat \<Rightarrow> route_list \<Rightarrow> list_result" where
  "handleConfirmDelete_done serverId ids counts st =
     (let st1 = close_delete (st\<lparr>rl_deleting := False\<rparr>);
          r = loadDomainName serverId
                (st1\<lparr>rl_selected := filter (\<lambda>i. i \<notin> set ids) (rl_selected st1)\<rparr>)
      in (fst r, snd r @ [if snd counts = 0 then DeletedAll (fst counts)
                          else DeletedSome (snd counts) (fst counts)]))"

subsection \<open>Rows and controls\<close>

datatype service_view =
    ViewService "node_badge option"
  | ViewStatic "string option"
  | ViewCluster "(string \<times> node_badge) list" "check_badge \<times> state_badge option"

record route_row =
  rr_path :: string
  rr_enabled :: bool
  rr_checked :: "bool option"
  rr_check_disabled :: bool
  rr_health :: bool
  rr_view :: service_view
  rr_domains :: "string list"
  rr_hidden :: nat
  rr_headers :: nat
  rr_tryFiles :: nat
  rr_actions :: bool

definition text_or_none :: "string option \<Rightarrow> string option" where
  "text_or_none s = (case s of None \<Rightarrow> None | Some t \<Rightarrow> if t = [] then None else Some t)"

definition cluster_of :: "ServerHealthSnapshot option \<Rightarrow> DomainName \<Rightarrow> ClusterHealth option" where
  "cluster_of health item =
     (case route_id item of None \<Rightarrow> None | Some i \<Rightarrow> getClusterHealthMap health i)"

definition gateway_online :: "ServerHealthSnapshot option \<Rightarrow> bool" where
  "gateway_online health = (case health of None \<Rightarrow> True | Some h \<Rightarrow> online h)"

definition check_enabled :: "ServerHealthSnapshot option \<Rightarrow> DomainName \<Rightarrow> bool" where
  "check_enabled health item =
     (dn_enableHealthCheck item \<or>
      (case cluster_of health item of None \<Rightarrow> False | Some c \<Rightarrow> hc_enabled c))"

text \<open>\<open>ClusterNodesBlock\<close>\<close>

definition cluster_block ::
  "ServerHealthSnapshot option \<Rightarrow> bool \<Rightarrow> DomainName \<Rightarrow> (string \<times> node_badge) list \<times> (check_badge \<times> state_badge option)" where
  "cluster_block health healthLoading item =
     (let cluster = cluster_of health item;
          services = map us_service (dn_upStreams item);
          enabled = check_enabled health item;
          path = (case cluster of None \<Rightarrow> dn_healthCheckPath item
                  | Some c \<Rightarrow> (case hc_path c of None \<Rightarrow> dn_healthCheckPath item | Some p \<Rightarrow> Some p))
      in (map (\<lambda>(s, d). (s, UpstreamNodeStatus s d enabled (gateway_online health)
                              (healthLoading \<and> health = None)))
            (cluster_nodes cluster services []),
          ClusterHealthSummary (cluster_counts cluster services) enabled path (gateway_online health)))"

definition service_view_of :: "ServerHealthSnapshot option \<Rightarrow> bool \<Rightarrow> DomainName \<Rightarrow> service_view" where
  "service_view_of health healthLoading item =
     (case dn_serviceType item of
        SvService \<Rightarrow>
          ViewService (case text_or_none (dn_service item) of None \<Rightarrow> None
            | Some s \<Rightarrow> Some (UpstreamNodeStatus s
                (fst (takeDestination (cluster_of health item) s []))
                (check_enabled health item) (gateway_online health) (healthLoading \<and> health = None)))
      | SvStatic \<Rightarrow> ViewStatic (text_or_none (dn_root item))
      | SvCluster \<Rightarrow> (case cluster_block health healthLoading item of (ns, b) \<Rightarrow> ViewCluster ns b))"

definition renderRow :: "ServerHealthSnapshot option \<Rightarrow> bool \<Rightarrow> route_list \<Rightarrow> DomainName \<Rightarrow> route_row" where
  "renderRow health healthLoading st item =
     \<lparr>rr_path = dn_path item, rr_enabled = dn_enable item,
      rr_checked = (if rl_batch st then Some (is_selected st item) else None),
      rr_check_disabled = (route_id item = None \<or> rl_acting st),
      rr_health = dn_enableHealthCheck item,
      rr_view = service_view_of health healthLoading item,
      rr_domains = take 4 (dn_domains item), rr_hidden = length (dn_domains item) - 4,
      rr_headers = length (dn_headers item), rr_tryFiles = length (dn_tryFiles item),
      rr_actions = (\<not> rl_batch st)\<rparr>"

datatype list_view = RowsLoading | NoRoutes | NoMatch | Rows "route_row list"

definition list_body :: "(string \<Rightarrow> string \<Rightarrow> int) \<Rightarrow> ServerHealthSnapshot option \<Rightarrow> bool \<Rightarrow> route_list \<Rightarrow> list_view" where
  "list_body cmp health healthLoading st =
     (if rl_loading st then RowsLoading
      else if rl_domains st = [] then NoRoutes
      else if filteredDomains cmp st = [] then NoMatch
      else Rows (map (renderRow health healthLoading st) (filteredDomains cmp st)))"

record batch_bar =
  bb_check :: check_state
  bb_check_disabled :: bool
  bb_count :: "nat \<times> nat"
  bb_clear :: bool
  bb_action_disabled :: bool
  bb_delete_disabled :: bool

definition batchBar :: "(string \<Rightarrow> string \<Rightarrow> int) \<Rightarrow> route_list \<Rightarrow> batch_bar option" where
  "batchBar cmp st =
     (if \<not> rl_batch st then None
      else Some
        \<lparr>bb_check = (if allSelected cmp st then Checked else if someSelected cmp st then Indeterminate else Unchecked),
         bb_check_disabled = (rl_acting st \<or> selectableIds cmp st = []),
         bb_count = (length (rl_selected st), length (selectableIds cmp st)),
         bb_clear = (0 < length (rl_selected st)),
         bb_action_disabled = (rl_selected st = [] \<or> rl_acting st),
         bb_delete_disabled = (rl_selected st = [] \<or> rl_deleting st \<or> rl_acting st)\<rparr>)"

subsection \<open>Laws\<close>

lemma set_filteredDomains [simp]:
  "set (filteredDomains cmp st) = {d \<in> set (rl_domains st). shows_route st d}"
  by (simp add: filteredDomains_def)

lemma consistent_route_order:
  assumes "consistent_cmp cmp"
  shows "consistent_cmp (route_order cmp)"
proof -
  have "route_order cmp = (\<lambda>a b. if dn_enable a \<noteq> dn_enable b then (if dn_enable a then -1 else 1)
      else cmp (dn_path a) (dn_path b))"
    by (intro ext) (simp add: route_order_def)
  then show ?thesis using consistent_flag [OF consistent_key [OF assms, of dn_path], of dn_enable] by simp
qed

lemma enabled_first:
  assumes "consistent_cmp cmp"
  shows "sorted_wrt (\<lambda>a b. (dn_enable b \<longrightarrow> dn_enable a) \<and>
      (dn_enable a = dn_enable b \<longrightarrow> cmp (dn_path a) (dn_path b) \<le> 0)) (filteredDomains cmp st)"
proof -
  have "sorted_wrt (\<lambda>a b. route_order cmp a b \<le> 0) (filteredDomains cmp st)"
    unfolding filteredDomains_def
    by (rule sorted_wrt_js_sort [OF consistent_route_order [OF assms]])
  then show ?thesis
    by (rule sorted_wrt_mono_rel [rotated]) (auto simp: route_order_def split: if_splits)
qed

lemma selectable_batch [simp]: "selectableIds cmp (batch_effect cmp st) = selectableIds cmp st"
proof -
  have "shows_route (batch_effect cmp st) = shows_route st"
    by (rule ext) (simp add: shows_route_def batch_effect_def)
  moreover have "rl_domains (batch_effect cmp st) = rl_domains st" by (simp add: batch_effect_def)
  ultimately show ?thesis by (simp add: selectableIds_def filteredDomains_def)
qed

lemma loadDomainName_frame [simp]:
  "rl_selected (fst (loadDomainName i st)) = rl_selected st"
  "rl_acting (fst (loadDomainName i st)) = rl_acting st"
  "rl_deleteOpen (fst (loadDomainName i st)) = rl_deleteOpen st"
  "rl_deleting (fst (loadDomainName i st)) = rl_deleting st"
  by (simp_all add: loadDomainName_def split: option.splits)

lemma is_selected_iff: "is_selected st d \<longleftrightarrow> (\<exists>i\<in>set (rl_selected st). route_id d = Some i)"
  by (auto simp: is_selected_def split: option.splits)

text \<open>The list is an instance of the shared selection.\<close>

interpretation routes: batch_selection rl_domains route_id shows_route "selectableIds cmp" rl_selected
    selectedDomains rl_batch "batch_effect cmp"
  for cmp
proof
  show "i \<in> set (selectableIds cmp s) \<longleftrightarrow>
      (\<exists>d\<in>set (rl_domains s). shows_route s d \<and> route_id d = Some i)" for i s
    unfolding selectableIds_def map_filter_Some_mem by simp blast
  show "rl_domains (batch_effect cmp s) = rl_domains s" for s by (simp add: batch_effect_def)
  show "rl_batch s \<Longrightarrow> rl_selected (batch_effect cmp s)
      = filter (\<lambda>i. i \<in> set (selectableIds cmp s)) (rl_selected s)" for s
    by (simp add: batch_effect_def)
  show "selectedDomains s = filter (\<lambda>d. \<exists>i\<in>set (rl_selected s). route_id d = Some i) (rl_domains s)" for s
    unfolding selectedDomains_def by (rule filter_cong [OF refl]) (rule is_selected_iff)
qed

end
