(* ===== verification/WebProperties.thy ===== *)
theory WebProperties
  imports ToastStore HealthModel ApiServices RouteList "HOL-Library.Code_Target_Nat"
begin

text \<open>
  The properties of the service clients, the toast store and the route pages.
\<close>

subsection \<open>Requests\<close>

text \<open>
  A file operation sent by query either names its first blank argument or sends a request
  from whose address the server reads back exactly the arguments, whatever characters they
  contain.
\<close>

theorem file_query_round_trip:
  "if blank p then renameFile p d n = Inl (FieldEmpty LPath) \<and> createDirectory p d n = Inl (FieldEmpty LPath)
   else if blank d then renameFile p d n = Inl (FieldEmpty LDrives) \<and> createDirectory p d n = Inl (FieldEmpty LDrives)
   else if blank n then renameFile p d n = Inl (FieldEmpty LNewName) \<and> createDirectory p d n = Inl (FieldEmpty LFolderName)
   else \<exists>u v. renameFile p d n = Inr (u, put_opts no_options) \<and> path_of u = api ''rename'' \<and>
     query_of u = [(''path'', p), (''drives'', d), (''name'', n)] \<and>
     createDirectory p d n = Inr (v, put_opts no_options) \<and> path_of v = api ''create-directory'' \<and>
     query_of v = [(''path'', p), (''drives'', d), (''name'', n)]"
  using query_of_with_query [of "''rename''"] query_of_with_query [of "''create-directory''"]
  by (auto simp: renameFile_def createDirectory_def checked_eq)

text \<open>
  The server reads from a statistics request the parameters that are set, in order and
  unchanged; a parameter that is undefined or empty is not sent.
\<close>

theorem statistics_query_round_trip:
  assumes "list_all (\<lambda>(k, v). plain_key k) params"
  shows "query_of (fst (getStatisticsRequests rng params opts)) =
    (''range'', range_text rng) # map (\<lambda>(k, v). (k, qs_text v)) (filter (\<lambda>(k, v). qs_present v) params)"
proof -
  have "plain_key ''range''" by code_simp
  then have "parse_query (qs ((''range'', QStr (range_text rng)) # params)) =
      map (\<lambda>(k, v). (k, qs_text v)) (filter (\<lambda>(k, v). qs_present v) ((''range'', QStr (range_text rng)) # params))"
    using assms by (intro parse_query_qs) (auto simp: list_all_iff)
  moreover have "qs_present (QStr (range_text rng))"
    by (cases rng) (simp_all add: qs_present_def range_text_def)
  moreover have "drop 1 (dropWhile (\<lambda>c. c \<noteq> CHR ''?'') (statsUrl @ ''/requests?'' @ s)) = s" for s
    by (simp add: statsUrl_def)
  ultimately show ?thesis by (simp add: getStatisticsRequests_def query_of_def)
qed

theorem statistics_query_round_trip_witness:
  "query_of (fst (getStatisticsRequests R24h [(''host'', QStr ''a&b=c d''), (''page'', QNum 2), (''ip'', QUndef)] no_options))
   = [(''range'', ''24h''), (''host'', ''a&b=c d''), (''page'', ''2'')]"
proof -
  have "list_all (\<lambda>(k, v). plain_key k) [(''host'', QStr ''a&b=c d''), (''page'', QNum 2), (''ip'', QUndef)]"
    by code_simp
  moreover have "map (\<lambda>(k, v). (k, qs_text v)) (filter (\<lambda>(k, v). qs_present v)
      [(''host'', QStr ''a&b=c d''), (''page'', QNum 2), (''ip'', QUndef)]) = [(''host'', ''a&b=c d''), (''page'', ''2'')]"
    by code_simp
  ultimately show ?thesis by (simp add: statistics_query_round_trip range_text_def)
qed

text \<open>
  A tunnel node is addressed by one path segment, even when its name contains slashes or
  other reserved characters, and the segment decodes to the name.
\<close>

theorem tunnel_node_one_segment:
  "\<exists>seg. split_on (CHR ''/'') (fst (getTunnelDetail node)) = [[], ''api'', ''v1'', ''tunnel'', seg] \<and>
    uri_decode seg = node"
proof -
  have "CHR ''/'' \<notin> set (encode_uri_component node)" by (rule encode_no_delim) simp
  from split_tunnel [OF this] show ?thesis
    by (intro exI [of _ "encode_uri_component node"]) (simp add: getTunnelDetail_def uri_decode_encode)
qed

text \<open>
  The address of a streaming request has no doubled slash outside its scheme, and an address
  without one is not changed.
\<close>

theorem stream_url_clean:
  "if has_doubled (base_url cfg @ url) then \<not> has_doubled (rq_url (fetchRaw_request cfg token url data))
   else rq_url (fetchRaw_request cfg token url data) = base_url cfg @ url"
  by (simp add: fetchRaw_request_def collapse_no_doubled collapse_id)

subsection \<open>Toasts\<close>

definition toast_run :: "toast_event list \<Rightarrow> toast_state" where
  "toast_run es = run_events toast_step init_toasts es"

text \<open>
  C30. In every run of the toast store, with components rendered, added to the listeners later,
  taken out and added again, at most one toast is shown and no toast has two removal timers; every
  mounted component shows the current list, unless a dispatch has gone by while it was not among
  the listeners and none since it is; and after any further dispatch all that listen show the new list.
\<close>

theorem toast_store_consistent:
  "length (toasts (toast_run es)) \<le> 1 \<and> distinct (timers (toast_run es)) \<and>
   list_all (\<lambda>u. tu_missed u \<or> tu_seen u = toasts (toast_run es)) (users (toast_run es)) \<and>
   list_all (\<lambda>u. tu_seen u = toasts (dispatch a (toast_run es)) \<and> \<not> tu_missed u)
     (filter tu_listening (users (dispatch a (toast_run es))))"
  using toast_machine.inv_reachable [of es] dispatch_tells [of _ a "toast_run es"]
  by (auto simp: toast_run_def toast_inv_def TOAST_LIMIT_def list_all_iff)

text \<open>A toast between the first render of a component and its effect is not shown by it, until the next dispatch.\<close>

lemma toast_missed_at_mount:
  "map (\<lambda>u. (tu_seen u, tu_listening u)) (users (toast_run [TRender 0, TToast None None None, TListen 0])) = [([], True)]"
  "map toast_id (toasts (toast_run [TRender 0, TToast None None None, TListen 0])) = [''1'']"
  by code_simp+

text \<open>
  Dismissing a toast closes it at once and schedules its removal; when the timer fires the
  toast and its timer are gone.
\<close>

theorem toast_dismiss_removes:
  assumes "i \<noteq> []"
  shows "list_all (\<lambda>t. toast_id t \<noteq> i) (filter toast_open (toasts (toast_step st (TDismiss (Some i))))) \<and>
    i \<in> set (timers (toast_step st (TDismiss (Some i)))) \<and>
    i \<notin> toast_id ` set (toasts (toast_step (toast_step st (TDismiss (Some i))) (TTimer i))) \<and>
    i \<notin> set (timers (toast_step (toast_step st (TDismiss (Some i))) (TTimer i)))"
  using dismiss_then_timer [OF assms refl, of st] by (auto simp: list_all_iff)

theorem toast_dismiss_removes_witness:
  "''1'' \<in> set (timers (toast_run [TToast None None None, TDismiss (Some ''1'')]))"
  using toast_dismiss_removes [of "''1''" "toast_step init_toasts (TToast None None None)"] by (simp add: toast_run_def)

subsection \<open>Health\<close>

text \<open>C31. No destination is shown for two upstreams of a cluster, and every upstream is shown once, in order.\<close>

theorem health_destination_shown_once:
  "distinct (shown_ids (cluster_nodes c services [])) \<and> map fst (cluster_nodes c services []) = services"
  using shown_once [of c services "[]"] services_cluster_nodes [of c services "[]"] by blast

text \<open>
  The counters of a cluster add up to its number of upstreams, and those of the page's
  summary to the number of destinations.
\<close>

theorem health_counts_add_up:
  "hc_healthy (cluster_counts c services) + hc_unhealthy (cluster_counts c services)
     + hc_unknown (cluster_counts c services) = length services \<and>
   hc_healthy (hs_counts (health_summary h)) + hc_unhealthy (hs_counts (health_summary h))
     + hc_unknown (hs_counts (health_summary h)) = hc_total (hs_counts (health_summary h))"
proof -
  let ?ds = "concat (map destinations (case h of None \<Rightarrow> [] | Some h \<Rightarrow> clusters h))"
  show ?thesis
    using counts_split [of "map dest_effective ?ds"]
    by (simp add: cluster_counts_add health_summary_def Let_def count_health_eq del: map_concat)
qed

text \<open>
  With the check on and the gateway online, a cluster is called entirely healthy exactly when
  none of its upstreams is unhealthy and at least one is healthy: upstreams whose health is
  unknown do not count against it.
\<close>

theorem health_all_healthy_badge:
  assumes "services \<noteq> []"
  shows "snd (ClusterHealthSummary (cluster_counts c services) True path True) = Some BadgeAllHealthy \<longleftrightarrow>
    hc_unhealthy (cluster_counts c services) = 0 \<and> 0 < hc_healthy (cluster_counts c services)"
proof -
  have "hc_total (cluster_counts c services) = length services" by (simp add: cluster_counts_def Let_def)
  then show ?thesis
    using assms cluster_counts_add [of c services] by (auto simp: ClusterHealthSummary_def)
qed

definition demo_cluster :: ClusterHealth where
  "demo_cluster = \<lparr>clusterId = ''r'', hc_enabled = True, hc_path = None, destinations =
     [\<lparr>destinationId = ''http://a'', address = None, dh_active = HText ''Healthy'', dh_passive = HOther\<rparr>]\<rparr>"

theorem health_all_healthy_badge_witness:
  "snd (ClusterHealthSummary (cluster_counts (Some demo_cluster) [''http://a'', ''http://b'']) True None True)
     = Some BadgeAllHealthy \<and>
   hc_unknown (cluster_counts (Some demo_cluster) [''http://a'', ''http://b'']) = 1"
proof -
  let ?n = "cluster_counts (Some demo_cluster) [''http://a'', ''http://b'']"
  have "hc_unhealthy ?n = 0" "0 < hc_healthy ?n" "hc_unknown ?n = 1" by code_simp+
  then show ?thesis
    using health_all_healthy_badge [of "[''http://a'', ''http://b'']" "Some demo_cluster" None] by simp
qed

subsection \<open>Routes\<close>

text \<open>
  Whatever the form holds, a route that is sent is well formed: its path starts with a
  slash, it has a target of its kind, and a wanted health check has a path with a slash, a positive
  timeout and an interval that is not shorter.
\<close>

theorem route_sent_is_valid:
  "list_all (\<lambda>e. case e of RequestCreate v \<Rightarrow> route_ok v | RequestUpdate i v \<Rightarrow> route_ok v | _ \<Rightarrow> True)
     (snd (create_save serverId st) @ snd (update_save st'))"
  using create_payload_ok update_payload_ok
  by (auto simp: create_save_def update_save_def split: option.splits)

text \<open>
  A created route is in normal form: passing the payload through the dialog again sends
  the same, in particular its domains are trimmed, not empty and distinct.
\<close>

theorem route_payload_normal:
  "create_payload i (create_payload i v) = create_payload i v \<and> distinct (dn_domains (create_payload i v)) \<and>
   list_all (\<lambda>d. d \<noteq> [] \<and> js_trim d = d) (dn_domains (create_payload i v))"
  using create_payload_idem [of i v]
  by (auto simp: create_payload_def clean_list_def list_all_iff)

text \<open>
  In batch mode an action never reaches a route that the filters hide: after the effect
  that follows a change, the targets of enabling and disabling are among the shown routes.
\<close>

theorem route_batch_reaches_shown:
  assumes "rl_batch st" and "distinct (List.map_filter route_id (rl_domains st))"
  shows "list_all (shows_route st) (batch_targets l (batch_effect cmp st))"
proof -
  have "set (batch_targets l (batch_effect cmp st)) \<subseteq> set (selectedDomains (batch_effect cmp st))"
    by (cases l) (auto simp: batch_targets_def)
  then show ?thesis using routes.chosen_shown [OF assms] by (auto simp: list_all_iff)
qed

definition demo_routes :: route_list where
  "demo_routes = \<lparr>rl_domains =
       [(fallbackValue None)\<lparr>dn_id := Some ''1'', dn_path := ''/api'', dn_enable := False\<rparr>,
        (fallbackValue None)\<lparr>dn_id := Some ''2'', dn_path := ''/web'', dn_enable := False\<rparr>],
     rl_loading = False, rl_query = ''API'', rl_enabledOnly = False, rl_tags = [], rl_batch = True,
     rl_selected = [''1'', ''2''], rl_acting = False, rl_deleteOpen = False, rl_deleteItems = [],
     rl_deleting = False, rl_updateVisible = False, rl_updateDomain = None\<rparr>"

definition same_order :: "string \<Rightarrow> string \<Rightarrow> int" where "same_order a b = 0"

theorem route_batch_reaches_shown_witness:
  "list_all (shows_route demo_routes) (batch_targets LblEnable (batch_effect same_order demo_routes)) \<and>
   map dn_path (batch_targets LblEnable (batch_effect same_order demo_routes)) = [''/api'']"
proof
  have "rl_batch demo_routes" "distinct (List.map_filter route_id (rl_domains demo_routes))" by code_simp+
  then show "list_all (shows_route demo_routes) (batch_targets LblEnable (batch_effect same_order demo_routes))"
    by (rule route_batch_reaches_shown)
  show "map dn_path (batch_targets LblEnable (batch_effect same_order demo_routes)) = [''/api'']" by code_simp
qed

end
