(* ===== verification/ServerForm.thy ===== *)
theory ServerForm
  imports ServiceResult JsNumber
begin

text \<open>
  The dialogs that create and edit a gateway server
  (\<open>web/src/pages/server/features/CreateServer.tsx\<close>, \<open>UpdateServer.tsx\<close>) and the type they
  edit (\<open>types/index.ts\<close>). A number is the rational it denotes; the text of a number field is
  \<open>None\<close> when the field is empty, which \<open>Number\<close> turns into 0 and the fields with a blank
  meaning into \<open>null\<close>.
\<close>

datatype ClientIpSource = Default | XForwardedFor | XRealIp | CfConnectingIp

datatype ip_short_label = ShortDirect | ShortXff | ShortXRealIp | ShortCf

definition clientIpSourceOptions :: "(ClientIpSource \<times> ip_short_label) list" where
  "clientIpSourceOptions =
     [(Default, ShortDirect), (XForwardedFor, ShortXff), (XRealIp, ShortXRealIp), (CfConnectingIp, ShortCf)]"

definition getClientIpSourceShortLabel :: "ClientIpSource option \<Rightarrow> ip_short_label" where
  "getClientIpSourceShortLabel source =
     (case List.find (\<lambda>p. Some (fst p) = source) clientIpSourceOptions of
        Some p \<Rightarrow> snd p
      | None \<Rightarrow> snd (hd clientIpSourceOptions))"

record Server =
  sv_id :: "string option"
  sv_listen :: rat
  sv_name :: string
  sv_description :: "string option"
  sv_redirectHttps :: bool
  sv_enable :: bool
  sv_staticCompress :: bool
  sv_isHttps :: bool
  sv_enableTunnel :: bool
  sv_enableBlacklist :: bool
  sv_enableWhitelist :: bool
  sv_clientIpSource :: ClientIpSource
  sv_onLine :: bool
  sv_copyRequestHost :: bool
  sv_maxRequestBodySize :: "rat option"
  sv_timeout :: rat
  sv_enableRequestFailover :: bool
  sv_failoverConnectTimeoutMs :: rat
  sv_failoverBudgetMs :: rat
  sv_maxConcurrentConnections :: "rat option"
  sv_maxConcurrentUpgradedConnections :: "rat option"

definition initialValue :: Server where
  "initialValue =
     \<lparr>sv_id = None, sv_listen = 80, sv_name = [], sv_description = Some [], sv_redirectHttps = False,
      sv_enable = True, sv_staticCompress = False, sv_isHttps = False, sv_enableTunnel = False,
      sv_enableBlacklist = True, sv_enableWhitelist = False, sv_clientIpSource = Default,
      sv_onLine = False, sv_copyRequestHost = True, sv_maxRequestBodySize = None, sv_timeout = 900,
      sv_enableRequestFailover = False, sv_failoverConnectTimeoutMs = 150, sv_failoverBudgetMs = 500,
      sv_maxConcurrentConnections = Some 4096, sv_maxConcurrentUpgradedConnections = Some 1024\<rparr>"

datatype server_tab = SvBasic | SvLimits | SvFeatures

record server_form =
  sf_tab :: server_tab
  sf_saving :: bool
  sf_value :: Server

text \<open>The effects that run when a dialog is opened.\<close>

definition open_create_server :: server_form where
  "open_create_server = \<lparr>sf_tab = SvBasic, sf_saving = False, sf_value = initialValue\<rparr>"

definition open_update_server :: "Server option \<Rightarrow> server_form" where
  "open_update_server s =
     \<lparr>sf_tab = SvBasic, sf_saving = False,
      sf_value = (case s of None \<Rightarrow> initialValue | Some v \<Rightarrow> v)\<rparr>"

subsection \<open>Fields\<close>

definition js_Number :: "rat option \<Rightarrow> rat" where
  "js_Number t = (case t of None \<Rightarrow> 0 | Some q \<Rightarrow> q)"

text \<open>\<open>text.trim() === "" ? null : Number(text)\<close>\<close>

definition number_or_null :: "rat option \<Rightarrow> rat option" where
  "number_or_null t = (case t of None \<Rightarrow> None | Some q \<Rightarrow> Some (js_Number (Some q)))"

datatype basic_edit = EdListen "rat option" | EdName string | EdDescription string

fun edit_basic :: "basic_edit \<Rightarrow> Server \<Rightarrow> Server" where
  "edit_basic (EdListen t) v = v\<lparr>sv_listen := js_Number t\<rparr>"
| "edit_basic (EdName t) v = v\<lparr>sv_name := t\<rparr>"
| "edit_basic (EdDescription t) v = v\<lparr>sv_description := Some t\<rparr>"

datatype limit_edit = EdMaxBody "rat option" | EdTimeout "rat option" | EdConnections "rat option"
  | EdUpgraded "rat option" | EdFailoverConnect "rat option" | EdFailoverBudget "rat option"

fun edit_limits :: "limit_edit \<Rightarrow> Server \<Rightarrow> Server" where
  "edit_limits (EdMaxBody t) v = v\<lparr>sv_maxRequestBodySize := number_or_null t\<rparr>"
| "edit_limits (EdTimeout t) v = v\<lparr>sv_timeout := js_Number t\<rparr>"
| "edit_limits (EdConnections t) v = v\<lparr>sv_maxConcurrentConnections := number_or_null t\<rparr>"
| "edit_limits (EdUpgraded t) v = v\<lparr>sv_maxConcurrentUpgradedConnections := number_or_null t\<rparr>"
| "edit_limits (EdFailoverConnect t) v =
     (if \<not> sv_enableRequestFailover v then v else v\<lparr>sv_failoverConnectTimeoutMs := js_Number t\<rparr>)"
| "edit_limits (EdFailoverBudget t) v =
     (if \<not> sv_enableRequestFailover v then v else v\<lparr>sv_failoverBudgetMs := js_Number t\<rparr>)"

datatype feature_edit = EdIpSource ClientIpSource | EdEnable bool | EdStaticCompress bool | EdBlacklist bool
  | EdWhitelist bool | EdTunnel bool | EdCopyHost bool | EdFailover bool | EdHttps bool | EdRedirect bool

fun edit_features :: "feature_edit \<Rightarrow> Server \<Rightarrow> Server" where
  "edit_features (EdIpSource s) v = v\<lparr>sv_clientIpSource := s\<rparr>"
| "edit_features (EdEnable b) v = v\<lparr>sv_enable := b\<rparr>"
| "edit_features (EdStaticCompress b) v = v\<lparr>sv_staticCompress := b\<rparr>"
| "edit_features (EdBlacklist b) v = v\<lparr>sv_enableBlacklist := b\<rparr>"
| "edit_features (EdWhitelist b) v = v\<lparr>sv_enableWhitelist := b\<rparr>"
| "edit_features (EdTunnel b) v = v\<lparr>sv_enableTunnel := b\<rparr>"
| "edit_features (EdCopyHost b) v = v\<lparr>sv_copyRequestHost := b\<rparr>"
| "edit_features (EdFailover b) v = v\<lparr>sv_enableRequestFailover := b\<rparr>"
| "edit_features (EdHttps b) v =
     v\<lparr>sv_isHttps := b, sv_redirectHttps := (if b then sv_redirectHttps v else False)\<rparr>"
| "edit_features (EdRedirect b) v =
     v\<lparr>sv_redirectHttps := b, sv_isHttps := (if b then True else sv_isHttps v)\<rparr>"

subsection \<open>Saving\<close>

datatype server_error = ErrName | ErrPort | ErrServerTimeout | ErrConnectTimeout | ErrBudget
  | ErrConnections | ErrUpgraded | ErrRedirect | ErrServerId

definition limit_reached :: "rat option \<Rightarrow> bool" where
  "limit_reached m = (case m of None \<Rightarrow> False | Some q \<Rightarrow> q \<le> 0)"

definition server_checks :: "Server \<Rightarrow> (server_error \<times> server_tab) option" where
  "server_checks v =
     (if js_trim (sv_name v) = [] then Some (ErrName, SvBasic)
      else if sv_listen v = 0 \<or> sv_listen v < 0 \<or> 65535 < sv_listen v then Some (ErrPort, SvBasic)
      else if sv_timeout v \<le> 0 then Some (ErrServerTimeout, SvLimits)
      else if sv_enableRequestFailover v \<and> sv_failoverConnectTimeoutMs v \<le> 0 then Some (ErrConnectTimeout, SvLimits)
      else if sv_enableRequestFailover v \<and> sv_failoverBudgetMs v < sv_failoverConnectTimeoutMs v
        then Some (ErrBudget, SvLimits)
      else if limit_reached (sv_maxConcurrentConnections v) then Some (ErrConnections, SvLimits)
      else if limit_reached (sv_maxConcurrentUpgradedConnections v) then Some (ErrUpgraded, SvLimits)
      else if sv_redirectHttps v \<and> \<not> sv_isHttps v then Some (ErrRedirect, SvFeatures)
      else None)"

datatype server_effect = ServerError server_error | PostServer Server | PutServer string Server
  | ServerSaved | ServerSaveFailed | ServerOnOk

type_synonym server_result = "server_form \<times> server_effect list"

definition server_payload :: "Server \<Rightarrow> Server" where
  "server_payload v = v\<lparr>sv_name := js_trim (sv_name v)\<rparr>"

definition create_server_save :: "server_form \<Rightarrow> server_result" where
  "create_server_save st =
     (case server_checks (sf_value st) of
        Some (e, t) \<Rightarrow> (st\<lparr>sf_tab := t\<rparr>, [ServerError e])
      | None \<Rightarrow> (st\<lparr>sf_saving := True\<rparr>, [PostServer (server_payload (sf_value st))]))"

definition update_server_save :: "server_form \<Rightarrow> server_result" where
  "update_server_save st =
     (case server_checks (sf_value st) of
        Some (e, t) \<Rightarrow> (st\<lparr>sf_tab := t\<rparr>, [ServerError e])
      | None \<Rightarrow>
          (case sv_id (sf_value st) of
             None \<Rightarrow> (st, [ServerError ErrServerId])
           | Some i \<Rightarrow> if i = [] then (st, [ServerError ErrServerId])
               else (st\<lparr>sf_saving := True\<rparr>, [PutServer i (server_payload (sf_value st))])))"

definition create_server_done :: "'a settled \<Rightarrow> server_form \<Rightarrow> server_result" where
  "create_server_done s st =
     (case s of
        Resolved r \<Rightarrow> (st\<lparr>sf_saving := False\<rparr>, [ServerSaved, ServerOnOk])
      | Rejected e \<Rightarrow> (st\<lparr>sf_saving := False\<rparr>, [ServerSaveFailed]))"

subsection \<open>Laws\<close>

text \<open>What the gateway may rely on of a server it is sent.\<close>

definition server_ok :: "Server \<Rightarrow> bool" where
  "server_ok v \<longleftrightarrow> js_trim (sv_name v) = sv_name v \<and> sv_name v \<noteq> [] \<and> 0 < sv_listen v \<and> sv_listen v \<le> 65535 \<and>
     0 < sv_timeout v \<and>
     (sv_enableRequestFailover v \<longrightarrow>
        0 < sv_failoverConnectTimeoutMs v \<and> sv_failoverConnectTimeoutMs v \<le> sv_failoverBudgetMs v) \<and>
     (\<forall>q \<in> set_option (sv_maxConcurrentConnections v). 0 < q) \<and>
     (\<forall>q \<in> set_option (sv_maxConcurrentUpgradedConnections v). 0 < q) \<and>
     (sv_redirectHttps v \<longrightarrow> sv_isHttps v)"

lemma limit_reached_iff: "limit_reached m \<longleftrightarrow> \<not> (\<forall>q\<in>set_option m. 0 < q)"
  by (cases m) (auto simp: limit_reached_def)

lemma server_checks_ok: "server_checks v = None \<longleftrightarrow> server_ok (server_payload v)"
  by (auto simp: server_checks_def server_ok_def server_payload_def limit_reached_iff)

text \<open>The switches keep the redirection below HTTPS: an edit of the form is one of these.\<close>

datatype server_edit = EdB basic_edit | EdL limit_edit | EdF feature_edit

fun edit_server :: "Server \<Rightarrow> server_edit \<Rightarrow> Server" where
  "edit_server v (EdB e) = edit_basic e v"
| "edit_server v (EdL e) = edit_limits e v"
| "edit_server v (EdF e) = edit_features e v"

definition redirect_inv :: "Server \<Rightarrow> bool" where
  "redirect_inv v \<longleftrightarrow> sv_id v = None \<and> (sv_redirectHttps v \<longrightarrow> sv_isHttps v)"

lemma redirect_inv_step: "redirect_inv v \<Longrightarrow> redirect_inv (edit_server v e)"
proof (cases e)
  case (EdB b) then show "redirect_inv v \<Longrightarrow> ?thesis" by (cases b) (simp_all add: redirect_inv_def)
next
  case (EdL l) then show "redirect_inv v \<Longrightarrow> ?thesis" by (cases l) (simp_all add: redirect_inv_def)
next
  case (EdF f) then show "redirect_inv v \<Longrightarrow> ?thesis" by (cases f) (simp_all add: redirect_inv_def)
qed

interpretation create_form: invariant_machine edit_server redirect_inv initialValue
proof
  show "redirect_inv initialValue" by (simp add: redirect_inv_def initialValue_def)
  show "redirect_inv v \<Longrightarrow> redirect_inv (edit_server v e)" for v e by (rule redirect_inv_step)
qed

lemma no_redirect_error: "redirect_inv v \<Longrightarrow> server_checks v \<noteq> Some (ErrRedirect, t)"
  by (auto simp: server_checks_def redirect_inv_def)

text \<open>Only the id is checked besides, by the update dialog alone.\<close>

lemma create_sends:
  "snd (create_server_save st) = [PostServer v] \<longleftrightarrow> v = server_payload (sf_value st) \<and> server_ok v"
  by (auto simp: create_server_save_def server_checks_ok [symmetric] split: option.splits)

end
