(* ===== verification/ServerList.thy ===== *)
theory ServerList
  imports ServerForm BatchSelection
begin

text \<open>
  The list of gateway servers (\<open>web/src/pages/server/features/ProxyList.tsx\<close>): loading,
  filters and order, batch selection and actions, the buttons of a row, deletion, what is
  drawn; the statistics and the two buttons of \<open>Header.tsx\<close>; and the store the two share
  (\<open>store/server/index.tsx\<close>). \<open>cmp\<close> is \<open>localeCompare\<close> for \<open>zh-CN\<close>. The part of a handler after
  its awaits ends in \<open>_done\<close>. The port of a listed server is an integer (the gateway sends an
  unsigned 16-bit number), so \<open>port_text\<close> is its decimal numeral.
\<close>

record server_store =
  ss_servers :: "Server list"
  ss_loadingServers :: bool

definition init_server_store :: server_store where
  "init_server_store = \<lparr>ss_servers = [], ss_loadingServers = False\<rparr>"

definition setServers :: "Server list \<Rightarrow> server_store \<Rightarrow> server_store" where
  "setServers servers s = s\<lparr>ss_servers := servers\<rparr>"

definition setLoadingServers :: "bool \<Rightarrow> server_store \<Rightarrow> server_store" where
  "setLoadingServers b s = s\<lparr>ss_loadingServers := b\<rparr>"

datatype status_filter = StAll | StOnline | StOffline

record server_list =
  sl_store :: server_store
  sl_editVisible :: bool
  sl_serverToEdit :: "Server option"
  sl_isLoading :: bool
  sl_query :: string
  sl_status :: status_filter
  sl_enabledOnly :: bool
  sl_batch :: bool
  sl_selected :: "string list"
  sl_acting :: bool
  sl_deleteOpen :: bool
  sl_deleteItems :: "Server list"
  sl_deleting :: bool

datatype server_action = ActEnable | ActDisable | ActStart | ActStop | ActReload

datatype sl_effect = RequestServers | ServersFailed | PickFirst | NothingFor server_action
  | BatchDone server_action nat | BatchPartly server_action nat nat | BadId
  | Deleted nat | DeletedPartly nat nat | PutEnable string | PutOnline string | PutReload string
  | Reloaded | ReloadFailed | GoTo string

type_synonym sl_result = "server_list \<times> sl_effect list"

definition init_server_list :: "server_store \<Rightarrow> server_list" where
  "init_server_list store =
     \<lparr>sl_store = store, sl_editVisible = False, sl_serverToEdit = None, sl_isLoading = False,
      sl_query = [], sl_status = StAll, sl_enabledOnly = False, sl_batch = False, sl_selected = [],
      sl_acting = False, sl_deleteOpen = False, sl_deleteItems = [], sl_deleting = False\<rparr>"

definition sl_servers :: "server_list \<Rightarrow> Server list" where
  "sl_servers st = ss_servers (sl_store st)"

subsection \<open>Loading\<close>

definition loadServers :: "server_list \<Rightarrow> sl_result" where
  "loadServers st = (st\<lparr>sl_isLoading := True\<rparr>, [RequestServers])"

text \<open>An answer without data sets the list to undefined, which the next render cannot filter: \<open>None\<close>.\<close>

definition loadServers_done :: "Server list settled \<Rightarrow> server_list \<Rightarrow> sl_result option" where
  "loadServers_done s st =
     (case s of
        Rejected e \<Rightarrow> Some (st\<lparr>sl_isLoading := False\<rparr>, [ServersFailed])
      | Resolved r \<Rightarrow>
          (case resp_data r of
             None \<Rightarrow> None
           | Some d \<Rightarrow> Some (st\<lparr>sl_store := setServers d (sl_store st), sl_isLoading := False\<rparr>, [])))"

subsection \<open>Filtering\<close>

definition port_text :: "rat \<Rightarrow> string" where
  "port_text q = nat_to_string (nat \<lfloor>q\<rfloor>)"

definition or_empty :: "string option \<Rightarrow> string" where
  "or_empty s = (case s of None \<Rightarrow> [] | Some t \<Rightarrow> t)"

definition shows_server :: "server_list \<Rightarrow> Server \<Rightarrow> bool" where
  "shows_server st server =
     (let q = js_lower (js_trim (sl_query st)) in
      if sl_status st = StOnline \<and> \<not> sv_onLine server then False
      else if sl_status st = StOffline \<and> sv_onLine server then False
      else if sl_enabledOnly st \<and> \<not> sv_enable server then False
      else if q = [] then True
      else str_includes (js_lower (join_space
             [sv_name server, or_empty (sv_description server), port_text (sv_listen server)])) q)"

definition server_order :: "(string \<Rightarrow> string \<Rightarrow> int) \<Rightarrow> Server \<Rightarrow> Server \<Rightarrow> int" where
  "server_order cmp a b =
     (if sv_onLine a \<noteq> sv_onLine b then (if sv_onLine a then -1 else 1)
      else if sv_enable a \<noteq> sv_enable b then (if sv_enable a then -1 else 1)
      else cmp (sv_name a) (sv_name b))"

definition filteredServers :: "(string \<Rightarrow> string \<Rightarrow> int) \<Rightarrow> server_list \<Rightarrow> Server list" where
  "filteredServers cmp st = js_sort (server_order cmp) (filter (shows_server st) (sl_servers st))"

definition server_id :: "Server \<Rightarrow> string option" where
  "server_id s = (case sv_id s of None \<Rightarrow> None | Some i \<Rightarrow> if i = [] then None else Some i)"

definition sl_selectableIds :: "(string \<Rightarrow> string \<Rightarrow> int) \<Rightarrow> server_list \<Rightarrow> string list" where
  "sl_selectableIds cmp st = List.map_filter server_id (filteredServers cmp st)"

definition server_selected :: "server_list \<Rightarrow> Server \<Rightarrow> bool" where
  "server_selected st s = (case server_id s of None \<Rightarrow> False | Some i \<Rightarrow> i \<in> set (sl_selected st))"

definition selectedServers :: "server_list \<Rightarrow> Server list" where
  "selectedServers st = filter (server_selected st) (sl_servers st)"

definition sl_allSelected :: "(string \<Rightarrow> string \<Rightarrow> int) \<Rightarrow> server_list \<Rightarrow> bool" where
  "sl_allSelected cmp st \<longleftrightarrow> sl_selectableIds cmp st \<noteq> [] \<and>
     list_all (\<lambda>i. i \<in> set (sl_selected st)) (sl_selectableIds cmp st)"

definition sl_someSelected :: "(string \<Rightarrow> string \<Rightarrow> int) \<Rightarrow> server_list \<Rightarrow> bool" where
  "sl_someSelected cmp st \<longleftrightarrow> list_ex (\<lambda>i. i \<in> set (sl_selected st)) (sl_selectableIds cmp st)
     \<and> \<not> sl_allSelected cmp st"

definition sl_batch_effect :: "(string \<Rightarrow> string \<Rightarrow> int) \<Rightarrow> server_list \<Rightarrow> server_list" where
  "sl_batch_effect cmp st =
     (if \<not> sl_batch st then st
      else st\<lparr>sl_selected := filter (\<lambda>i. i \<in> set (sl_selectableIds cmp st)) (sl_selected st)\<rparr>)"

definition sl_clearFilters :: "server_list \<Rightarrow> server_list" where
  "sl_clearFilters st = st\<lparr>sl_query := [], sl_status := StAll, sl_enabledOnly := False\<rparr>"

definition sl_toggleBatchMode :: "server_list \<Rightarrow> server_list" where
  "sl_toggleBatchMode st =
     (let nxt = \<not> sl_batch st in
      st\<lparr>sl_batch := nxt, sl_selected := (if nxt then sl_selected st else [])\<rparr>)"

definition sl_toggleSelected :: "string \<Rightarrow> server_list \<Rightarrow> server_list" where
  "sl_toggleSelected i st = st\<lparr>sl_selected := toggle i (sl_selected st)\<rparr>"

definition sl_selectAll :: "(string \<Rightarrow> string \<Rightarrow> int) \<Rightarrow> bool \<Rightarrow> server_list \<Rightarrow> server_list" where
  "sl_selectAll cmp chk st = st\<lparr>sl_selected := (if chk then sl_selectableIds cmp st else [])\<rparr>"

subsection \<open>Batch actions\<close>

definition server_targets :: "server_action \<Rightarrow> server_list \<Rightarrow> Server list" where
  "server_targets a st =
     (case a of
        ActEnable \<Rightarrow> filter (\<lambda>s. \<not> sv_enable s) (selectedServers st)
      | ActDisable \<Rightarrow> filter sv_enable (selectedServers st)
      | ActStart \<Rightarrow> filter (\<lambda>s. \<not> sv_onLine s) (selectedServers st)
      | ActStop \<Rightarrow> filter sv_onLine (selectedServers st)
      | ActReload \<Rightarrow> selectedServers st)"

text \<open>The call made for each id; enabling and disabling use the same one, and so do starting and stopping.\<close>

definition server_call :: "server_action \<Rightarrow> string \<Rightarrow> sl_effect" where
  "server_call a i =
     (case a of ActEnable \<Rightarrow> PutEnable i | ActDisable \<Rightarrow> PutEnable i
      | ActStart \<Rightarrow> PutOnline i | ActStop \<Rightarrow> PutOnline i | ActReload \<Rightarrow> PutReload i)"

definition sl_runBatchAction :: "server_action \<Rightarrow> Server list \<Rightarrow> server_list \<Rightarrow> sl_result \<times> sl_effect list" where
  "sl_runBatchAction a targets st =
     (if sl_selected st = [] then ((st, [PickFirst]), [])
      else let ids = List.map_filter server_id targets in
        if ids = [] then ((st, [NothingFor a]), [])
        else ((st\<lparr>sl_acting := True\<rparr>, []), map (server_call a) ids))"

definition sl_runBatchAction_done :: "server_action \<Rightarrow> nat \<times> nat \<Rightarrow> server_list \<Rightarrow> sl_result" where
  "sl_runBatchAction_done a counts st =
     (let r = loadServers (st\<lparr>sl_acting := False, sl_selected := []\<rparr>)
      in (fst r, snd r @ [if snd counts = 0 then BatchDone a (fst counts)
                          else BatchPartly a (fst counts) (snd counts)]))"

subsection \<open>Deletion\<close>

definition sl_askDelete :: "server_list \<Rightarrow> sl_result" where
  "sl_askDelete st =
     (if selectedServers st = [] then (st, [PickFirst])
      else (st\<lparr>sl_deleteOpen := True, sl_deleteItems := selectedServers st\<rparr>, []))"

definition sl_close_delete :: "server_list \<Rightarrow> server_list" where
  "sl_close_delete st = st\<lparr>sl_deleteOpen := False, sl_deleteItems := []\<rparr>"

definition sl_handleConfirmDelete :: "server_list \<Rightarrow> sl_result \<times> string list" where
  "sl_handleConfirmDelete st =
     (let ids = List.map_filter server_id (sl_deleteItems st) in
      if ids = [] then ((sl_close_delete st, [BadId]), [])
      else ((st\<lparr>sl_deleting := True\<rparr>, []), ids))"

definition sl_handleConfirmDelete_done :: "string list \<Rightarrow> nat \<times> nat \<Rightarrow> server_list \<Rightarrow> sl_result" where
  "sl_handleConfirmDelete_done ids counts st =
     (let st1 = sl_close_delete (st\<lparr>sl_deleting := False\<rparr>);
          r = loadServers (st1\<lparr>sl_selected := filter (\<lambda>i. i \<notin> set ids) (sl_selected st1)\<rparr>)
      in (fst r, snd r @ [if snd counts = 0 then Deleted (fst counts)
                          else DeletedPartly (snd counts) (fst counts)]))"

text \<open>The first three servers of the deletion dialog and the number of those left out.\<close>

definition delete_preview :: "server_list \<Rightarrow> (string \<times> string \<times> bool) list \<times> nat" where
  "delete_preview st =
     (map (\<lambda>s. (sv_name s, port_text (sv_listen s), sv_enable s)) (take 3 (sl_deleteItems st)),
      if 3 < length (sl_deleteItems st) then length (sl_deleteItems st) - 3 else 0)"

subsection \<open>Rows\<close>

datatype feature_badge = BHttps | BBlacklist | BWhitelist | BTunnel | BRedirect | BCompress

definition feature_badges :: "Server \<Rightarrow> feature_badge list" where
  "feature_badges s =
     (if sv_isHttps s then [BHttps] else []) @ (if sv_enableBlacklist s then [BBlacklist] else []) @
     (if sv_enableWhitelist s then [BWhitelist] else []) @ (if sv_enableTunnel s then [BTunnel] else []) @
     (if sv_redirectHttps s then [BRedirect] else []) @ (if sv_staticCompress s then [BCompress] else [])"

definition hasFeatures :: "Server \<Rightarrow> bool" where
  "hasFeatures s \<longleftrightarrow> sv_isHttps s \<or> sv_enableBlacklist s \<or> sv_enableWhitelist s \<or> sv_enableTunnel s \<or>
     sv_redirectHttps s \<or> sv_staticCompress s"

record server_row =
  sr_name :: string
  sr_online :: bool
  sr_enabled :: bool
  sr_checkbox :: "(bool \<times> bool) option"
  sr_description :: "string option"
  sr_open_disabled :: bool
  sr_copy :: string
  sr_ip :: ip_short_label
  sr_badges :: "feature_badge list option"
  sr_buttons :: "bool option"

definition server_description :: "Server \<Rightarrow> string option" where
  "server_description s = (case sv_description s of None \<Rightarrow> None | Some t \<Rightarrow> if t = [] then None else Some t)"

text \<open>The checkbox shows the selection and whether it is disabled; the buttons exist outside the batch mode.\<close>

definition renderServerRow :: "server_list \<Rightarrow> Server \<Rightarrow> server_row" where
  "renderServerRow st s =
     \<lparr>sr_name = sv_name s, sr_online = sv_onLine s, sr_enabled = sv_enable s,
      sr_checkbox = (if sl_batch st then Some (server_selected st s, server_id s = None \<or> sl_acting st) else None),
      sr_description = server_description s,
      sr_open_disabled = (server_id s = None \<or> sl_batch st),
      sr_copy = ''http'' @ (if sv_isHttps s then ''s'' else []) @ ''://localhost:'' @ port_text (sv_listen s),
      sr_ip = getClientIpSourceShortLabel (Some (sv_clientIpSource s)),
      sr_badges = (if hasFeatures s then Some (feature_badges s) else None),
      sr_buttons = (if sl_batch st then None else Some (server_id s = None))\<rparr>"

datatype row_click = RowOpen | RowOnline | RowEdit | RowEnable | RowReload | RowDelete

fun click_row :: "row_click \<Rightarrow> Server \<Rightarrow> server_list \<Rightarrow> sl_result" where
  "click_row RowOpen s st = (st, case server_id s of None \<Rightarrow> [] | Some i \<Rightarrow> [GoTo (''/server/'' @ i)])"
| "click_row RowOnline s st = (st, case server_id s of None \<Rightarrow> [] | Some i \<Rightarrow> [PutOnline i])"
| "click_row RowEdit s st = (st\<lparr>sl_serverToEdit := Some s, sl_editVisible := True\<rparr>, [])"
| "click_row RowEnable s st = (st, case server_id s of None \<Rightarrow> [] | Some i \<Rightarrow> [PutEnable i])"
| "click_row RowReload s st = (st, case server_id s of None \<Rightarrow> [] | Some i \<Rightarrow> [PutReload i])"
| "click_row RowDelete s st =
     (case server_id s of None \<Rightarrow> (st, [])
      | Some i \<Rightarrow> (st\<lparr>sl_deleteOpen := True, sl_deleteItems := [s]\<rparr>, []))"

text \<open>
  When the call of a button settles. Starting and enabling load the list again and have no
  handler for a failure; reloading tells the outcome and does not load.
\<close>

definition row_done :: "row_click \<Rightarrow> 'a settled \<Rightarrow> server_list \<Rightarrow> sl_result" where
  "row_done c s st =
     (case (c, s) of
        (RowOnline, Resolved r) \<Rightarrow> loadServers st
      | (RowEnable, Resolved r) \<Rightarrow> loadServers st
      | (RowReload, Resolved r) \<Rightarrow> (st, [Reloaded])
      | (RowReload, Rejected e) \<Rightarrow> (st, [ReloadFailed])
      | _ \<Rightarrow> (st, []))"

definition edit_ok :: "server_list \<Rightarrow> sl_result" where
  "edit_ok st = loadServers (st\<lparr>sl_editVisible := False\<rparr>)"

subsection \<open>Controls and body\<close>

record list_toolbar =
  tb_counts :: "nat \<times> nat"
  tb_clear :: bool
  tb_batch :: bool

definition server_toolbar :: "(string \<Rightarrow> string \<Rightarrow> int) \<Rightarrow> server_list \<Rightarrow> list_toolbar" where
  "server_toolbar cmp st =
     \<lparr>tb_counts = (length (filteredServers cmp st), length (sl_servers st)),
      tb_clear = (sl_query st \<noteq> [] \<or> sl_status st \<noteq> StAll \<or> sl_enabledOnly st),
      tb_batch = sl_batch st\<rparr>"

record server_batch_bar =
  sb_check :: check_state
  sb_check_disabled :: bool
  sb_count :: "nat \<times> nat"
  sb_clear :: "bool option"
  sb_action_disabled :: bool
  sb_delete_disabled :: bool

definition server_batchBar :: "(string \<Rightarrow> string \<Rightarrow> int) \<Rightarrow> server_list \<Rightarrow> server_batch_bar option" where
  "server_batchBar cmp st =
     (if \<not> sl_batch st then None
      else Some
        \<lparr>sb_check = (if sl_allSelected cmp st then Checked
                    else if sl_someSelected cmp st then Indeterminate else Unchecked),
         sb_check_disabled = (sl_acting st \<or> sl_selectableIds cmp st = []),
         sb_count = (length (sl_selected st), length (sl_selectableIds cmp st)),
         sb_clear = (if 0 < length (sl_selected st) then Some (sl_acting st) else None),
         sb_action_disabled = (sl_selected st = [] \<or> sl_acting st),
         sb_delete_disabled = (sl_selected st = [] \<or> sl_deleting st \<or> sl_acting st)\<rparr>)"

datatype server_list_body = SkeletonRows | NoServers | NoServerMatch | ServerRows "server_row list"

definition server_body :: "(string \<Rightarrow> string \<Rightarrow> int) \<Rightarrow> server_list \<Rightarrow> server_list_body" where
  "server_body cmp st =
     (if sl_isLoading st then SkeletonRows
      else if sl_servers st = [] then NoServers
      else if filteredServers cmp st = [] then NoServerMatch
      else ServerRows (map (renderServerRow st) (filteredServers cmp st)))"

text \<open>The controls that only set state: the search field, the two filters and closing the edit dialog.\<close>

datatype sl_control = SlQuery string | SlStatus status_filter | SlEnabledOnly bool | SlClear | SlCloseEdit

fun sl_change :: "sl_control \<Rightarrow> server_list \<Rightarrow> server_list" where
  "sl_change (SlQuery t) st = st\<lparr>sl_query := t\<rparr>"
| "sl_change (SlStatus f) st = st\<lparr>sl_status := f\<rparr>"
| "sl_change (SlEnabledOnly b) st = st\<lparr>sl_enabledOnly := b\<rparr>"
| "sl_change SlClear st = st\<lparr>sl_selected := []\<rparr>"
| "sl_change SlCloseEdit st = st\<lparr>sl_editVisible := False\<rparr>"

subsection \<open>The page header\<close>

datatype stat_item = StatTotal nat nat | StatOnline nat int nat | StatHttps nat bool | StatTunnel nat bool

definition onlinePercent :: "nat \<Rightarrow> nat \<Rightarrow> int" where
  "onlinePercent n m = (if m \<noteq> 0 then math_round (dbl (dbl (of_nat n / of_nat m) * 100)) else 0)"

definition server_stats :: "server_store \<Rightarrow> stat_item list" where
  "server_stats store =
     (let servers = ss_servers store;
          m = length servers;
          onln = length (filter sv_onLine servers);
          enabled = length (filter sv_enable servers);
          httpsCount = length (filter sv_isHttps servers);
          tunnelCount = length (filter sv_enableTunnel servers)
      in [StatTotal m enabled, StatOnline onln (onlinePercent onln m) (m - onln),
          StatHttps httpsCount (httpsCount \<noteq> 0), StatTunnel tunnelCount (tunnelCount \<noteq> 0)])"

text \<open>The refresh button and a created server flip the flag whose change loads the list.\<close>

definition refresh_list :: "server_store \<Rightarrow> server_store" where
  "refresh_list store = setLoadingServers (\<not> ss_loadingServers store) store"

definition store_effect :: "server_store \<Rightarrow> server_list \<Rightarrow> sl_result" where
  "store_effect before st =
     (if ss_loadingServers before \<noteq> ss_loadingServers (sl_store st) then loadServers st else (st, []))"

subsection \<open>Laws\<close>

lemma set_filteredServers [simp]:
  "set (filteredServers cmp st) = {s \<in> set (sl_servers st). shows_server st s}"
  by (simp add: filteredServers_def)

lemma consistent_server_order:
  assumes "consistent_cmp cmp"
  shows "consistent_cmp (server_order cmp)"
proof -
  have "server_order cmp = (\<lambda>a b. if sv_onLine a \<noteq> sv_onLine b then (if sv_onLine a then -1 else 1)
      else if sv_enable a \<noteq> sv_enable b then (if sv_enable a then -1 else 1) else cmp (sv_name a) (sv_name b))"
    by (intro ext) (simp add: server_order_def)
  then show ?thesis
    using consistent_flag [OF consistent_flag [OF consistent_key [OF assms, of sv_name], of sv_enable], of sv_onLine]
    by simp
qed

lemma online_first:
  assumes "consistent_cmp cmp"
  shows "sorted_wrt (\<lambda>a b. (sv_onLine b \<longrightarrow> sv_onLine a) \<and>
      (sv_onLine a = sv_onLine b \<longrightarrow> sv_enable b \<longrightarrow> sv_enable a) \<and>
      (sv_onLine a = sv_onLine b \<longrightarrow> sv_enable a = sv_enable b \<longrightarrow> cmp (sv_name a) (sv_name b) \<le> 0))
    (filteredServers cmp st)"
proof -
  have "sorted_wrt (\<lambda>a b. server_order cmp a b \<le> 0) (filteredServers cmp st)"
    unfolding filteredServers_def by (rule sorted_wrt_js_sort [OF consistent_server_order [OF assms]])
  then show ?thesis
    by (rule sorted_wrt_mono_rel [rotated]) (auto simp: server_order_def split: if_splits)
qed

lemma server_selected_iff: "server_selected st s \<longleftrightarrow> (\<exists>i\<in>set (sl_selected st). server_id s = Some i)"
  by (auto simp: server_selected_def split: option.splits)

interpretation srvs: batch_selection sl_servers server_id shows_server "sl_selectableIds cmp" sl_selected
    selectedServers sl_batch "sl_batch_effect cmp"
  for cmp
proof
  show "i \<in> set (sl_selectableIds cmp s) \<longleftrightarrow>
      (\<exists>d\<in>set (sl_servers s). shows_server s d \<and> server_id d = Some i)" for i s
    unfolding sl_selectableIds_def map_filter_Some_mem by simp blast
  show "sl_servers (sl_batch_effect cmp s) = sl_servers s" for s
    by (simp add: sl_batch_effect_def sl_servers_def)
  show "sl_batch s \<Longrightarrow> sl_selected (sl_batch_effect cmp s)
      = filter (\<lambda>i. i \<in> set (sl_selectableIds cmp s)) (sl_selected s)" for s
    by (simp add: sl_batch_effect_def)
  show "selectedServers s = filter (\<lambda>d. \<exists>i\<in>set (sl_selected s). server_id d = Some i) (sl_servers s)" for s
    unfolding selectedServers_def by (rule filter_cong [OF refl]) (rule server_selected_iff)
qed

lemma set_server_targets: "set (server_targets a st) \<subseteq> set (selectedServers st)"
  by (cases a) (auto simp: server_targets_def)

lemma badges_iff: "hasFeatures s \<longleftrightarrow> feature_badges s \<noteq> []"
  by (auto simp: hasFeatures_def feature_badges_def)

text \<open>
  What the calls do to the gateway: \<open>/enable\<close> and \<open>/online\<close> flip the switch of one server. \<open>flip_all\<close>
  is the switch of every server after the calls for a list of ids.
\<close>

fun flip_all :: "string list \<Rightarrow> (string \<Rightarrow> bool) \<Rightarrow> string \<Rightarrow> bool" where
  "flip_all [] b = b"
| "flip_all (i # ids) b = flip_all ids (b(i := \<not> b i))"

lemma flip_all_eq: "distinct ids \<Longrightarrow> flip_all ids b i = (if i \<in> set ids then \<not> b i else b i)"
  by (induction ids arbitrary: b) auto

lemma flip_targets:
  assumes distinct: "distinct (List.map_filter server_id (sl_servers st))"
    and fresh: "\<forall>s\<in>set (sl_servers st). \<forall>i. server_id s = Some i \<longrightarrow> b i = switch s"
    and i: "i \<in> set (sl_selected st) \<inter> set (List.map_filter server_id (sl_servers st))"
  shows "flip_all (List.map_filter server_id (filter (\<lambda>s. switch s \<noteq> want) (selectedServers st))) b i = want"
proof -
  let ?ids = "List.map_filter server_id (filter (\<lambda>s. switch s \<noteq> want) (selectedServers st))"
  have d: "distinct ?ids" by (rule srvs.distinct_chosen_ids [OF distinct])
  have "i \<in> set (List.map_filter server_id (selectedServers st))" using i by (simp add: srvs.chosen_ids)
  then obtain s where s: "s \<in> set (selectedServers st)" "server_id s = Some i"
    by (auto simp: map_filter_Some_mem)
  then have mem: "s \<in> set (sl_servers st)" by (simp add: selectedServers_def)
  have sw: "b i = switch s" using fresh mem s(2) by blast
  have only: "s' = s" if "s' \<in> set (selectedServers st)" "server_id s' = Some i" for s'
    using map_filter_unique [OF distinct _ mem that(2) s(2)] that(1) by (simp add: selectedServers_def)
  have "i \<in> set ?ids \<longleftrightarrow> switch s \<noteq> want"
  proof
    assume "i \<in> set ?ids"
    then obtain s' where "s' \<in> set (selectedServers st)" "switch s' \<noteq> want" "server_id s' = Some i"
      unfolding map_filter_Some_mem by auto
    then show "switch s \<noteq> want" using only by blast
  next
    assume "switch s \<noteq> want"
    then show "i \<in> set ?ids" using s unfolding map_filter_Some_mem by auto
  qed
  then show ?thesis using flip_all_eq [OF d, of b i] sw by auto
qed

end
