(* ===== verification/StreamPage.thy ===== *)
theory StreamPage
  imports ServerList RouteForm
begin

text \<open>
  Port forwarding (\<open>web/src/pages/stream-forward/\<close>): the dialog that creates and edits a rule
  (\<open>features/StreamForwardDialog.tsx\<close>), the list with its filter, buttons and deletion
  (\<open>features/StreamForwardList.tsx\<close>) and the page that joins them (\<open>page.tsx\<close>,
  \<open>features/Header.tsx\<close>). Ports and limits are the rationals a number field denotes.
\<close>

datatype StreamProtocol = Tcp | Udp | Both

datatype StreamLoadBalancing = RoundRobin | LeastConnections | Random

record StreamUpStream =
  up_host :: string
  up_port :: rat
  up_weight :: rat

record StreamForward =
  st_id :: "string option"
  st_name :: string
  st_description :: "string option"
  st_enable :: bool
  st_protocol :: StreamProtocol
  st_listenPort :: rat
  st_listenAddress :: string
  st_upStreams :: "StreamUpStream list"
  st_loadBalancing :: StreamLoadBalancing
  st_connectTimeoutMs :: rat
  st_idleTimeoutSeconds :: rat
  st_maxTcpConnections :: rat
  st_maxUdpSessions :: rat
  st_enableBlacklist :: bool
  st_enableWhitelist :: bool
  st_onLine :: bool
  st_activeConnections :: nat
  st_udpSessions :: nat

definition blank_upstream :: StreamUpStream where
  "blank_upstream = \<lparr>up_host = [], up_port = 0, up_weight = 1\<rparr>"

definition createDefault :: StreamForward where
  "createDefault =
     \<lparr>st_id = None, st_name = [], st_description = Some [], st_enable = True, st_protocol = Tcp,
      st_listenPort = 9000, st_listenAddress = ''0.0.0.0'', st_upStreams = [blank_upstream],
      st_loadBalancing = RoundRobin, st_connectTimeoutMs = 5000, st_idleTimeoutSeconds = 300,
      st_maxTcpConnections = 4096, st_maxUdpSessions = 4096, st_enableBlacklist = True,
      st_enableWhitelist = False, st_onLine = False, st_activeConnections = 0, st_udpSessions = 0\<rparr>"

datatype stream_tab = StBasic | StUpstream | StAdvanced

record stream_form =
  tf_isEdit :: bool
  tf_tab :: stream_tab
  tf_saving :: bool
  tf_value :: StreamForward

definition open_stream :: "StreamForward option \<Rightarrow> stream_form" where
  "open_stream streamForward =
     (let initial = (case streamForward of None \<Rightarrow> createDefault | Some s \<Rightarrow> s) in
      \<lparr>tf_isEdit = (streamForward \<noteq> None), tf_tab = StBasic, tf_saving = False,
       tf_value = initial\<lparr>st_upStreams :=
         (if st_upStreams initial \<noteq> [] then st_upStreams initial else [blank_upstream])\<rparr>\<rparr>)"

subsection \<open>Fields\<close>

datatype upstream_patch = PatchHost string | PatchPort "rat option" | PatchWeight "rat option"

fun patch_upstream :: "upstream_patch \<Rightarrow> StreamUpStream \<Rightarrow> StreamUpStream" where
  "patch_upstream (PatchHost h) u = u\<lparr>up_host := h\<rparr>"
| "patch_upstream (PatchPort t) u = u\<lparr>up_port := js_Number t\<rparr>"
| "patch_upstream (PatchWeight t) u = u\<lparr>up_weight := js_Number t\<rparr>"

definition st_updateUpstream :: "nat \<Rightarrow> upstream_patch \<Rightarrow> StreamForward \<Rightarrow> StreamForward" where
  "st_updateUpstream k p v = v\<lparr>st_upStreams := update_at k (patch_upstream p) (st_upStreams v)\<rparr>"

definition st_addUpstream :: "StreamForward \<Rightarrow> StreamForward" where
  "st_addUpstream v = v\<lparr>st_upStreams := st_upStreams v @ [blank_upstream]\<rparr>"

definition st_removeUpstream :: "nat \<Rightarrow> StreamForward \<Rightarrow> StreamForward" where
  "st_removeUpstream k v = v\<lparr>st_upStreams := remove_at k (st_upStreams v)\<rparr>"

datatype stream_edit = SeName string | SeProtocol StreamProtocol | SeAddress string | SePort "rat option"
  | SeDescription string

fun edit_stream_basic :: "stream_edit \<Rightarrow> StreamForward \<Rightarrow> StreamForward" where
  "edit_stream_basic (SeName t) v = v\<lparr>st_name := t\<rparr>"
| "edit_stream_basic (SeProtocol p) v = v\<lparr>st_protocol := p\<rparr>"
| "edit_stream_basic (SeAddress t) v = v\<lparr>st_listenAddress := t\<rparr>"
| "edit_stream_basic (SePort t) v = v\<lparr>st_listenPort := js_Number t\<rparr>"
| "edit_stream_basic (SeDescription t) v = v\<lparr>st_description := Some t\<rparr>"

text \<open>The upstream tab: the remove buttons are disabled while there is only one row.\<close>

datatype stream_up_edit = UeBalancing StreamLoadBalancing | UeAdd | UePatch nat upstream_patch | UeRemove nat

fun edit_stream_upstream :: "stream_up_edit \<Rightarrow> StreamForward \<Rightarrow> StreamForward" where
  "edit_stream_upstream (UeBalancing l) v = v\<lparr>st_loadBalancing := l\<rparr>"
| "edit_stream_upstream UeAdd v = st_addUpstream v"
| "edit_stream_upstream (UePatch k p) v = st_updateUpstream k p v"
| "edit_stream_upstream (UeRemove k) v =
     (if length (st_upStreams v) \<le> 1 then v else st_removeUpstream k v)"

datatype stream_adv_edit = AeConnect "rat option" | AeIdle "rat option" | AeTcp "rat option"
  | AeUdp "rat option" | AeEnable bool | AeBlacklist bool | AeWhitelist bool

fun edit_stream_advanced :: "stream_adv_edit \<Rightarrow> StreamForward \<Rightarrow> StreamForward" where
  "edit_stream_advanced (AeConnect t) v = v\<lparr>st_connectTimeoutMs := js_Number t\<rparr>"
| "edit_stream_advanced (AeIdle t) v = v\<lparr>st_idleTimeoutSeconds := js_Number t\<rparr>"
| "edit_stream_advanced (AeTcp t) v = v\<lparr>st_maxTcpConnections := js_Number t\<rparr>"
| "edit_stream_advanced (AeUdp t) v = v\<lparr>st_maxUdpSessions := js_Number t\<rparr>"
| "edit_stream_advanced (AeEnable b) v = v\<lparr>st_enable := b\<rparr>"
| "edit_stream_advanced (AeBlacklist b) v = v\<lparr>st_enableBlacklist := b\<rparr>"
| "edit_stream_advanced (AeWhitelist b) v = v\<lparr>st_enableWhitelist := b\<rparr>"

subsection \<open>Saving\<close>

datatype stream_error = StErrName | StErrPort | StErrNoUpstream | StErrUpPort | StErrLimits

definition bad_port :: "rat \<Rightarrow> bool" where
  "bad_port p \<longleftrightarrow> p = 0 \<or> p < 1 \<or> 65535 < p"

definition sent_upstreams :: "StreamForward \<Rightarrow> StreamUpStream list" where
  "sent_upstreams v =
     filter (\<lambda>u. up_host u \<noteq> []) (map (\<lambda>u. u\<lparr>up_host := js_trim (up_host u)\<rparr>) (st_upStreams v))"

definition stream_checks :: "StreamForward \<Rightarrow> (stream_error \<times> stream_tab) option" where
  "stream_checks v =
     (if js_trim (st_name v) = [] then Some (StErrName, StBasic)
      else if bad_port (st_listenPort v) then Some (StErrPort, StBasic)
      else if sent_upstreams v = [] then Some (StErrNoUpstream, StUpstream)
      else if list_ex (\<lambda>u. bad_port (up_port u)) (sent_upstreams v) then Some (StErrUpPort, StUpstream)
      else if st_maxTcpConnections v \<le> 0 \<or> st_maxUdpSessions v \<le> 0 then Some (StErrLimits, StAdvanced)
      else None)"

datatype stream_effect = StreamError stream_error | PostStream StreamForward
  | PutStream string StreamForward | StreamSaved bool | StreamSaveFailed bool | StreamOnOk

type_synonym stream_result = "stream_form \<times> stream_effect list"

definition stream_payload :: "StreamForward \<Rightarrow> StreamForward" where
  "stream_payload v = v\<lparr>st_name := js_trim (st_name v), st_upStreams := sent_upstreams v\<rparr>"

text \<open>The id under which an edited rule is updated; without one a rule is created.\<close>

definition update_target :: "stream_form \<Rightarrow> string option" where
  "update_target st =
     (if tf_isEdit st then case st_id (tf_value st) of None \<Rightarrow> None | Some i \<Rightarrow> if i = [] then None else Some i
      else None)"

definition stream_save :: "stream_form \<Rightarrow> stream_result" where
  "stream_save st =
     (case stream_checks (tf_value st) of
        Some (e, t) \<Rightarrow> (st\<lparr>tf_tab := t\<rparr>, [StreamError e])
      | None \<Rightarrow>
          (st\<lparr>tf_saving := True\<rparr>,
           [case update_target st of None \<Rightarrow> PostStream (stream_payload (tf_value st))
            | Some i \<Rightarrow> PutStream i (stream_payload (tf_value st))]))"

definition stream_save_done :: "'a settled \<Rightarrow> bool \<Rightarrow> stream_form \<Rightarrow> stream_result" where
  "stream_save_done s updated st =
     (case s of
        Resolved r \<Rightarrow> (st\<lparr>tf_saving := False\<rparr>, [StreamSaved updated, StreamOnOk])
      | Rejected e \<Rightarrow> (st\<lparr>tf_saving := False\<rparr>, [StreamSaveFailed (tf_isEdit st)]))"

subsection \<open>The list\<close>

definition protocolLabel :: "StreamProtocol \<Rightarrow> string" where
  "protocolLabel p = (case p of Udp \<Rightarrow> ''UDP'' | Both \<Rightarrow> ''TCP+UDP'' | Tcp \<Rightarrow> ''TCP'')"

datatype lb_text = TextLeast | TextRandom | TextRoundRobin

definition lbLabel :: "StreamLoadBalancing \<Rightarrow> lb_text" where
  "lbLabel lb = (case lb of LeastConnections \<Rightarrow> TextLeast | Random \<Rightarrow> TextRandom | RoundRobin \<Rightarrow> TextRoundRobin)"

record stream_list =
  tl_items :: "StreamForward list"
  tl_isLoading :: bool
  tl_query :: string
  tl_editVisible :: bool
  tl_editing :: "StreamForward option"
  tl_deleteTarget :: "StreamForward option"
  tl_deleting :: bool

datatype tl_effect = RequestStreams | StreamsFailed | DeleteStream string | StreamDeleted | StreamDeleteFailed
  | PutStreamOnline string | PutStreamEnable string | PutStreamReload string | StreamReloaded | StreamReloadFailed

type_synonym tl_result = "stream_list \<times> tl_effect list"

definition init_stream_list :: stream_list where
  "init_stream_list =
     \<lparr>tl_items = [], tl_isLoading = False, tl_query = [], tl_editVisible = False, tl_editing = None,
      tl_deleteTarget = None, tl_deleting = False\<rparr>"

definition load_streams :: "stream_list \<Rightarrow> tl_result" where
  "load_streams st = (st\<lparr>tl_isLoading := True\<rparr>, [RequestStreams])"

definition load_streams_done :: "StreamForward list settled \<Rightarrow> stream_list \<Rightarrow> tl_result" where
  "load_streams_done s st =
     (case s of
        Resolved r \<Rightarrow>
          (st\<lparr>tl_items := (case resp_data r of None \<Rightarrow> [] | Some d \<Rightarrow> d), tl_isLoading := False\<rparr>, [])
      | Rejected e \<Rightarrow> (st\<lparr>tl_isLoading := False\<rparr>, [StreamsFailed]))"

definition shows_stream :: "stream_list \<Rightarrow> StreamForward \<Rightarrow> bool" where
  "shows_stream st item =
     (let q = js_lower (js_trim (tl_query st)) in
      if q = [] then True
      else str_includes (js_lower (join_space
             [st_name item, or_empty (st_description item), port_text (st_listenPort item)])) q)"

definition stream_order :: "(string \<Rightarrow> string \<Rightarrow> int) \<Rightarrow> StreamForward \<Rightarrow> StreamForward \<Rightarrow> int" where
  "stream_order cmp a b =
     (if st_onLine a \<noteq> st_onLine b then (if st_onLine a then -1 else 1) else cmp (st_name a) (st_name b))"

definition filtered_streams :: "(string \<Rightarrow> string \<Rightarrow> int) \<Rightarrow> stream_list \<Rightarrow> StreamForward list" where
  "filtered_streams cmp st = js_sort (stream_order cmp) (filter (shows_stream st) (tl_items st))"

definition stream_id :: "StreamForward \<Rightarrow> string option" where
  "stream_id s = (case st_id s of None \<Rightarrow> None | Some i \<Rightarrow> if i = [] then None else Some i)"

definition confirmDelete :: "stream_list \<Rightarrow> tl_result" where
  "confirmDelete st =
     (case tl_deleteTarget st of None \<Rightarrow> (st, [])
      | Some t \<Rightarrow> (case stream_id t of None \<Rightarrow> (st, [])
          | Some i \<Rightarrow> (st\<lparr>tl_deleting := True\<rparr>, [DeleteStream i])))"

text \<open>The list is loaded again whether the deletion succeeded or not.\<close>

definition confirmDelete_done :: "'a settled \<Rightarrow> stream_list \<Rightarrow> tl_result" where
  "confirmDelete_done s st =
     (let r = load_streams (st\<lparr>tl_deleting := False, tl_deleteTarget := None\<rparr>)
      in (fst r, (case s of Resolved a \<Rightarrow> StreamDeleted | Rejected e \<Rightarrow> StreamDeleteFailed) # snd r))"

record stream_row =
  tr_name :: string
  tr_online :: bool
  tr_enabled :: bool
  tr_load :: "(nat \<times> nat) option"
  tr_description :: "string option"
  tr_listen :: string
  tr_copy :: string
  tr_upstreams :: "nat \<times> lb_text"
  tr_disabled :: bool

definition stream_row_of :: "StreamForward \<Rightarrow> stream_row" where
  "stream_row_of item =
     \<lparr>tr_name = st_name item, tr_online = st_onLine item, tr_enabled = st_enable item,
      tr_load = (if st_onLine item then Some (st_activeConnections item, st_udpSessions item) else None),
      tr_description = (case st_description item of None \<Rightarrow> None | Some t \<Rightarrow> if t = [] then None else Some t),
      tr_listen = protocolLabel (st_protocol item) @ '' '' @ st_listenAddress item @ '':'' @ port_text (st_listenPort item),
      tr_copy = st_listenAddress item @ '':'' @ port_text (st_listenPort item),
      tr_upstreams = (length (st_upStreams item), lbLabel (st_loadBalancing item)),
      tr_disabled = (stream_id item = None)\<rparr>"

datatype stream_click = ClickOnline | ClickEdit | ClickEnable | ClickReload | ClickDelete

fun click_stream :: "stream_click \<Rightarrow> StreamForward \<Rightarrow> stream_list \<Rightarrow> tl_result" where
  "click_stream ClickOnline item st = (st, case stream_id item of None \<Rightarrow> [] | Some i \<Rightarrow> [PutStreamOnline i])"
| "click_stream ClickEdit item st = (st\<lparr>tl_editing := Some item, tl_editVisible := True\<rparr>, [])"
| "click_stream ClickEnable item st = (st, case stream_id item of None \<Rightarrow> [] | Some i \<Rightarrow> [PutStreamEnable i])"
| "click_stream ClickReload item st = (st, case stream_id item of None \<Rightarrow> [] | Some i \<Rightarrow> [PutStreamReload i])"
| "click_stream ClickDelete item st =
     (if stream_id item = None then (st, []) else (st\<lparr>tl_deleteTarget := Some item\<rparr>, []))"

definition click_stream_done :: "stream_click \<Rightarrow> 'a settled \<Rightarrow> stream_list \<Rightarrow> tl_result" where
  "click_stream_done c s st =
     (case (c, s) of
        (ClickOnline, Resolved r) \<Rightarrow> load_streams st
      | (ClickEnable, Resolved r) \<Rightarrow> load_streams st
      | (ClickReload, Resolved r) \<Rightarrow> (case load_streams st of (st', es) \<Rightarrow> (st', StreamReloaded # es))
      | (ClickReload, Rejected e) \<Rightarrow> (st, [StreamReloadFailed])
      | _ \<Rightarrow> (st, []))"

datatype stream_body = StreamSkeleton | NoStreams | NoStreamMatch | StreamRows "stream_row list"

definition stream_list_body :: "(string \<Rightarrow> string \<Rightarrow> int) \<Rightarrow> stream_list \<Rightarrow> stream_body" where
  "stream_list_body cmp st =
     (if tl_isLoading st then StreamSkeleton
      else if tl_items st = [] then NoStreams
      else if filtered_streams cmp st = [] then NoStreamMatch
      else StreamRows (map stream_row_of (filtered_streams cmp st)))"

definition edit_stream_ok :: "stream_list \<Rightarrow> tl_result" where
  "edit_stream_ok st = load_streams (st\<lparr>tl_editVisible := False\<rparr>)"

definition delete_dialog :: "stream_list \<Rightarrow> (string \<times> string) option" where
  "delete_dialog st = map_option
     (\<lambda>t. (st_name t, protocolLabel (st_protocol t) @ '' :'' @ port_text (st_listenPort t))) (tl_deleteTarget st)"

text \<open>The controls that only set state: the search field and closing a dialog.\<close>

datatype tl_control = TlQuery string | TlCloseEdit | TlCloseDelete

fun tl_change :: "tl_control \<Rightarrow> stream_list \<Rightarrow> stream_list" where
  "tl_change (TlQuery t) st = st\<lparr>tl_query := t\<rparr>"
| "tl_change TlCloseEdit st = st\<lparr>tl_editVisible := False\<rparr>"
| "tl_change TlCloseDelete st = st\<lparr>tl_deleteTarget := None\<rparr>"

text \<open>The page: a created rule moves the flag that the list's effect depends on.\<close>

record stream_page =
  pg_reloadFlag :: nat
  pg_createVisible :: bool
  pg_list :: stream_list

definition show_create_stream :: "bool \<Rightarrow> stream_page \<Rightarrow> stream_page" where
  "show_create_stream b p = p\<lparr>pg_createVisible := b\<rparr>"

definition created_stream :: "stream_page \<Rightarrow> stream_page" where
  "created_stream p = p\<lparr>pg_createVisible := False, pg_reloadFlag := pg_reloadFlag p + 1\<rparr>"

definition reload_effect :: "nat \<Rightarrow> stream_page \<Rightarrow> stream_page \<times> tl_effect list" where
  "reload_effect before p =
     (if before = pg_reloadFlag p then (p, [])
      else case load_streams (pg_list p) of (l, es) \<Rightarrow> (p\<lparr>pg_list := l\<rparr>, es))"

subsection \<open>Laws\<close>

definition stream_ok :: "StreamForward \<Rightarrow> bool" where
  "stream_ok v \<longleftrightarrow> js_trim (st_name v) = st_name v \<and> st_name v \<noteq> [] \<and>
     1 \<le> st_listenPort v \<and> st_listenPort v \<le> 65535 \<and> st_upStreams v \<noteq> [] \<and>
     list_all (\<lambda>u. js_trim (up_host u) = up_host u \<and> up_host u \<noteq> [] \<and> 1 \<le> up_port u \<and> up_port u \<le> 65535)
       (st_upStreams v) \<and>
     0 < st_maxTcpConnections v \<and> 0 < st_maxUdpSessions v"

lemma bad_port_iff: "bad_port p \<longleftrightarrow> \<not> (1 \<le> p \<and> p \<le> 65535)"
  by (auto simp: bad_port_def)

lemma sent_upstreams_trimmed: "u \<in> set (sent_upstreams v) \<Longrightarrow> js_trim (up_host u) = up_host u \<and> up_host u \<noteq> []"
  by (auto simp: sent_upstreams_def)

lemma stream_checks_ok: "stream_checks v = None \<longleftrightarrow> stream_ok (stream_payload v)"
  using sent_upstreams_trimmed [of _ v]
  by (auto simp: stream_checks_def stream_ok_def stream_payload_def bad_port_iff list_all_iff list_ex_iff)

lemma length_remove_at: "length (remove_at k xs) = (if k < length xs then length xs - 1 else length xs)"
  by (simp add: remove_at_eq)

lemma length_update_at [simp]: "length (update_at k f xs) = length xs"
  by (simp add: update_at_def)

lemma upstream_rows_kept:
  assumes "st_upStreams v \<noteq> []"
  shows "st_upStreams (edit_stream_upstream e v) \<noteq> []"
proof -
  have "0 < length (st_upStreams (edit_stream_upstream e v))"
  proof (cases e)
    case (UeRemove k)
    show ?thesis
    proof (cases "length (st_upStreams v) \<le> 1")
      case False
      then show ?thesis using assms unfolding UeRemove by (simp add: st_removeUpstream_def length_remove_at)
    qed (use UeRemove assms in simp)
  qed (use assms in \<open>simp_all add: st_addUpstream_def st_updateUpstream_def\<close>)
  then show ?thesis by simp
qed

lemma set_filtered_streams [simp]:
  "set (filtered_streams cmp st) = {s \<in> set (tl_items st). shows_stream st s}"
  by (simp add: filtered_streams_def)

lemma running_first:
  assumes "consistent_cmp cmp"
  shows "sorted_wrt (\<lambda>a b. (st_onLine b \<longrightarrow> st_onLine a) \<and>
      (st_onLine a = st_onLine b \<longrightarrow> cmp (st_name a) (st_name b) \<le> 0)) (filtered_streams cmp st)"
proof -
  have "stream_order cmp = (\<lambda>a b. if st_onLine a \<noteq> st_onLine b then (if st_onLine a then -1 else 1)
      else cmp (st_name a) (st_name b))"
    by (intro ext) (simp add: stream_order_def)
  then have "consistent_cmp (stream_order cmp)"
    using consistent_flag [OF consistent_key [OF assms, of st_name], of st_onLine] by simp
  then have "sorted_wrt (\<lambda>a b. stream_order cmp a b \<le> 0) (filtered_streams cmp st)"
    unfolding filtered_streams_def by (rule sorted_wrt_js_sort)
  then show ?thesis
    by (rule sorted_wrt_mono_rel [rotated]) (auto simp: stream_order_def split: if_splits)
qed

end
