(* ===== verification/JsRegex.thy ===== *)
theory JsRegex
  imports JsString
begin

text \<open>
  The regular expressions the forms test their fields with. \<open>rx_in\<close> is the meaning of an
  anchored expression as an inductive predicate, \<open>rx_test\<close> decides it with derivatives; both are
  shown equal. \<open>\w\<close> and \<open>\d\<close> are the ASCII classes of ECMAScript.
\<close>

datatype rx = RNone | REmpty | RSet "char \<Rightarrow> bool" | RSeq rx rx | RAlt rx rx | RStar rx

inductive rx_in :: "rx \<Rightarrow> string \<Rightarrow> bool" where
  in_empty: "rx_in REmpty []"
| in_set: "p c \<Longrightarrow> rx_in (RSet p) [c]"
| in_seq: "rx_in r s \<Longrightarrow> rx_in q t \<Longrightarrow> rx_in (RSeq r q) (s @ t)"
| in_left: "rx_in r s \<Longrightarrow> rx_in (RAlt r q) s"
| in_right: "rx_in q s \<Longrightarrow> rx_in (RAlt r q) s"
| in_nil: "rx_in (RStar r) []"
| in_star: "rx_in r s \<Longrightarrow> rx_in (RStar r) t \<Longrightarrow> rx_in (RStar r) (s @ t)"

inductive_simps rx_in_simps [simp]:
  "rx_in RNone s" "rx_in REmpty s" "rx_in (RSet p) s" "rx_in (RSeq r q) s" "rx_in (RAlt r q) s"

inductive_cases rx_in_starE: "rx_in (RStar r) s"

fun nullable :: "rx \<Rightarrow> bool" where
  "nullable RNone = False"
| "nullable REmpty = True"
| "nullable (RSet p) = False"
| "nullable (RSeq r q) = (nullable r \<and> nullable q)"
| "nullable (RAlt r q) = (nullable r \<or> nullable q)"
| "nullable (RStar r) = True"

fun deriv :: "char \<Rightarrow> rx \<Rightarrow> rx" where
  "deriv c RNone = RNone"
| "deriv c REmpty = RNone"
| "deriv c (RSet p) = (if p c then REmpty else RNone)"
| "deriv c (RSeq r q) =
     (if nullable r then RAlt (RSeq (deriv c r) q) (deriv c q) else RSeq (deriv c r) q)"
| "deriv c (RAlt r q) = RAlt (deriv c r) (deriv c q)"
| "deriv c (RStar r) = RSeq (deriv c r) (RStar r)"

fun rx_test :: "rx \<Rightarrow> string \<Rightarrow> bool" where
  "rx_test r [] = nullable r"
| "rx_test r (c # s) = rx_test (deriv c r) s"

subsection \<open>The decision procedure is right\<close>

lemma nullable_iff: "nullable r \<longleftrightarrow> rx_in r []"
  by (induction r) (auto intro: in_nil)

lemma star_Cons_split:
  "rx_in (RStar r) s \<Longrightarrow> s = c # t \<Longrightarrow> \<exists>u v. t = u @ v \<and> rx_in r (c # u) \<and> rx_in (RStar r) v"
proof (induction "RStar r" s arbitrary: t rule: rx_in.induct)
  case (in_star s t')
  show ?case
  proof (cases s)
    case Nil
    then show ?thesis using in_star.hyps(4) in_star.prems by simp
  next
    case (Cons a u)
    then show ?thesis using in_star.hyps(1,3) in_star.prems by auto
  qed
qed simp

lemma deriv_iff: "rx_in (deriv c r) s \<longleftrightarrow> rx_in r (c # s)"
proof (induction r arbitrary: s)
  case (RSeq r q)
  have "(\<exists>u v. c # s = u @ v \<and> rx_in r u \<and> rx_in q v) \<longleftrightarrow>
      (\<exists>u v. s = u @ v \<and> rx_in r (c # u) \<and> rx_in q v) \<or> (rx_in r [] \<and> rx_in q (c # s))"
    by (auto simp: Cons_eq_append_conv)
  then show ?case using RSeq by (auto simp: nullable_iff)
next
  case (RStar r)
  show ?case
  proof
    assume "rx_in (deriv c (RStar r)) s"
    then obtain u v where "s = u @ v" "rx_in r (c # u)" "rx_in (RStar r) v" using RStar by auto
    then show "rx_in (RStar r) (c # s)" using in_star [of r "c # u" v] by simp
  next
    assume "rx_in (RStar r) (c # s)"
    then show "rx_in (deriv c (RStar r)) s" using star_Cons_split [OF _ refl] RStar by force
  qed
qed auto

lemma rx_test_iff: "rx_test r s \<longleftrightarrow> rx_in r s"
  by (induction s arbitrary: r) (simp_all add: nullable_iff deriv_iff)

subsection \<open>Abbreviations of the notation\<close>

definition rx_char :: "char \<Rightarrow> rx" where "rx_char c = RSet (\<lambda>x. x = c)"

definition rx_plus :: "rx \<Rightarrow> rx" where "rx_plus r = RSeq r (RStar r)"

definition rx_opt :: "rx \<Rightarrow> rx" where "rx_opt r = RAlt REmpty r"

fun rx_times :: "nat \<Rightarrow> rx \<Rightarrow> rx" where
  "rx_times 0 r = REmpty"
| "rx_times (Suc n) r = RSeq r (rx_times n r)"

text \<open>\<open>r{m,m+k}\<close>\<close>

fun rx_upto :: "nat \<Rightarrow> rx \<Rightarrow> rx" where
  "rx_upto 0 r = REmpty"
| "rx_upto (Suc k) r = rx_opt (RSeq r (rx_upto k r))"

definition rx_between :: "nat \<Rightarrow> nat \<Rightarrow> rx \<Rightarrow> rx" where
  "rx_between m k r = RSeq (rx_times m r) (rx_upto k r)"

definition js_digit :: "char \<Rightarrow> bool" where
  "js_digit c = (let n = of_char c :: nat in 48 \<le> n \<and> n \<le> 57)"

definition js_word :: "char \<Rightarrow> bool" where
  "js_word c = (let n = of_char c :: nat in
     (48 \<le> n \<and> n \<le> 57) \<or> (65 \<le> n \<and> n \<le> 90) \<or> n = 95 \<or> (97 \<le> n \<and> n \<le> 122))"

lemma in_rx_char [simp]: "rx_in (rx_char c) s \<longleftrightarrow> s = [c]"
  by (auto simp: rx_char_def)

lemma in_rx_opt [simp]: "rx_in (rx_opt r) s \<longleftrightarrow> s = [] \<or> rx_in r s"
  by (auto simp: rx_opt_def)

lemma in_star_set: "rx_in (RStar (RSet p)) s \<longleftrightarrow> list_all p s"
proof
  show "rx_in (RStar (RSet p)) s \<Longrightarrow> list_all p s"
    by (induction "RStar (RSet p)" s rule: rx_in.induct) auto
  show "list_all p s \<Longrightarrow> rx_in (RStar (RSet p)) s"
  proof (induction s)
    case (Cons c s)
    then have "rx_in (RStar (RSet p)) ([c] @ s)" by (intro in_star) auto
    then show ?case by simp
  qed (rule in_nil)
qed

lemma in_seq_set: "rx_in (RSeq (RSet p) q) s \<longleftrightarrow> (\<exists>c t. s = c # t \<and> p c \<and> rx_in q t)"
proof
  assume "\<exists>c t. s = c # t \<and> p c \<and> rx_in q t"
  then obtain c t where "s = [c] @ t" "p c" "rx_in q t" by auto
  then show "rx_in (RSeq (RSet p) q) s" by (metis in_seq in_set)
qed auto

lemma in_plus_set [simp]: "rx_in (rx_plus (RSet p)) s \<longleftrightarrow> s \<noteq> [] \<and> list_all p s"
  unfolding rx_plus_def in_seq_set in_star_set by (cases s) simp_all

lemma in_times_set [simp]: "rx_in (rx_times n (RSet p)) s \<longleftrightarrow> length s = n \<and> list_all p s"
proof (induction n arbitrary: s)
  case (Suc n)
  show ?case unfolding rx_times.simps in_seq_set Suc by (cases s) auto
qed auto

lemma in_upto_set [simp]: "rx_in (rx_upto k (RSet p)) s \<longleftrightarrow> length s \<le> k \<and> list_all p s"
proof (induction k arbitrary: s)
  case (Suc k)
  show ?case unfolding rx_upto.simps in_rx_opt in_seq_set Suc by (cases s) auto
qed auto

lemma in_between_set:
  "rx_in (rx_between m k (RSet p)) s \<longleftrightarrow> m \<le> length s \<and> length s \<le> m + k \<and> list_all p s"
proof
  assume *: "m \<le> length s \<and> length s \<le> m + k \<and> list_all p s"
  then have "list_all p (take m s) \<and> list_all p (drop m s)"
    by (metis append_take_drop_id list_all_append)
  with * have "rx_in (rx_between m k (RSet p)) (take m s @ drop m s)"
    unfolding rx_between_def by (intro in_seq) auto
  then show "rx_in (rx_between m k (RSet p)) s" by simp
qed (auto simp: rx_between_def)

subsection \<open>Words with single separators\<close>

text \<open>\<open>\w+([q]\w+)*\<close>: it starts and ends with a word character and has no two separators in a row.\<close>

definition words_rx :: "(char \<Rightarrow> bool) \<Rightarrow> rx" where
  "words_rx q = RSeq (rx_plus (RSet js_word)) (RStar (RSeq (RSet q) (rx_plus (RSet js_word))))"

definition words :: "(char \<Rightarrow> bool) \<Rightarrow> string \<Rightarrow> bool" where
  "words q s \<longleftrightarrow> s \<noteq> [] \<and> js_word (hd s) \<and> js_word (last s) \<and> list_all (\<lambda>c. js_word c \<or> q c) s \<and>
     successively (\<lambda>a b. js_word a \<or> js_word b) s"

lemma words_append: "words q s \<Longrightarrow> q c \<Longrightarrow> words q t \<Longrightarrow> words q (s @ c # t)"
  by (auto simp: words_def successively_append_iff successively_Cons)

lemma words_plain: "s \<noteq> [] \<Longrightarrow> list_all js_word s \<Longrightarrow> words q s"
proof (induction s)
  case (Cons c s)
  then show ?case by (cases "s = []") (auto simp: words_def successively_Cons)
qed simp

lemma words_star:
  "rx_in (RStar (RSeq (RSet q) (rx_plus (RSet js_word)))) v \<Longrightarrow> words q u \<Longrightarrow> words q (u @ v)"
proof (induction "RStar (RSeq (RSet q) (rx_plus (RSet js_word)))" v arbitrary: u rule: rx_in.induct)
  case (in_star s t)
  then obtain c w where s: "s = c # w" "q c" "w \<noteq> []" "list_all js_word w"
    unfolding in_seq_set in_plus_set by auto
  have "words q (u @ c # w)" by (rule words_append [OF in_star.prems s(2) words_plain [OF s(3,4)]])
  then show ?case using in_star.hyps(3) [of "u @ s"] s(1) by simp
qed simp

lemma words_split:
  assumes "words q s" and "dropWhile js_word s = c # t"
  shows "q c \<and> words q t"
proof -
  let ?u = "takeWhile js_word s"
  have s: "s = ?u @ c # t" using assms(2) by (metis takeWhile_dropWhile_id)
  have nc: "\<not> js_word c" using assms(2) by (metis hd_dropWhile list.distinct(1) list.sel(1))
  have "t \<noteq> []"
  proof
    assume "t = []"
    then have "last s = c" using s by (metis last_snoc)
    then show False using assms(1) nc by (simp add: words_def)
  qed
  have all: "list_all (\<lambda>c. js_word c \<or> q c) (?u @ c # t)" "successively (\<lambda>a b. js_word a \<or> js_word b) (?u @ c # t)"
    "js_word (last (?u @ c # t))"
    using assms(1) s unfolding words_def by metis+
  then show ?thesis
    using nc \<open>t \<noteq> []\<close> by (auto simp: words_def successively_append_iff successively_Cons)
qed

lemma in_words_rx: "rx_in (words_rx q) s \<longleftrightarrow> words q s"
proof
  assume "rx_in (words_rx q) s"
  then obtain u v where "s = u @ v" "u \<noteq> []" "list_all js_word u"
    "rx_in (RStar (RSeq (RSet q) (rx_plus (RSet js_word)))) v"
    unfolding words_rx_def rx_in_simps(4) in_plus_set by auto
  then show "words q s" using words_star [OF _ words_plain] by blast
next
  show "words q s \<Longrightarrow> rx_in (words_rx q) s"
  proof (induction "length s" arbitrary: s rule: less_induct)
    case less
    let ?u = "takeWhile js_word s"
    have u: "?u \<noteq> []" using less.prems by (cases s) (simp_all add: words_def)
    have pu: "rx_in (rx_plus (RSet js_word)) ?u"
      using u by (simp add: list_all_iff) (blast dest: set_takeWhileD)
    show ?case
    proof (cases "dropWhile js_word s")
      case Nil
      then have "s = ?u @ []" by (metis takeWhile_dropWhile_id)
      then show ?thesis unfolding words_rx_def using in_seq [OF pu in_nil] by metis
    next
      case (Cons c t)
      have len: "length t < length s" using Cons by (metis Suc_le_eq length_Cons length_dropWhile_le)
      have q: "q c" "words q t" using words_split [OF less.prems Cons] by auto
      obtain w v where t: "t = w @ v" "rx_in (rx_plus (RSet js_word)) w"
        "rx_in (RStar (RSeq (RSet q) (rx_plus (RSet js_word)))) v"
        using less.hyps [OF len q(2)] unfolding words_rx_def rx_in_simps(4) by blast
      have "rx_in (RSeq (RSet q) (rx_plus (RSet js_word))) (c # w)"
        using t(2) q(1) unfolding in_seq_set by blast
      from in_star [OF this t(3)]
      have "rx_in (RStar (RSeq (RSet q) (rx_plus (RSet js_word)))) (c # t)" by (simp add: t(1))
      from in_seq [OF pu this] show ?thesis
        unfolding words_rx_def by (metis Cons takeWhile_dropWhile_id)
    qed
  qed
qed

lemma words_at_separator:
  assumes "words q (s @ c # t)" and "\<not> js_word c"
  shows "words q s \<and> words q t"
proof -
  have s: "s \<noteq> []" using assms by (cases s) (auto simp: words_def)
  have t: "t \<noteq> []" using assms by (cases t) (auto simp: words_def)
  show ?thesis
    using assms s t by (auto simp: words_def successively_append_iff successively_Cons)
qed

end
