(* ===== verification/CertForms.thy ===== *)
theory CertForms
  imports JsRegex ServiceResult
begin

text \<open>
  The three dialogs of the certificate page (\<open>web/src/pages/cert/features/\<close>): a new
  certificate (\<open>CreateCert.tsx\<close>), the upload of one (\<open>UploadCert.tsx\<close>) and the DNS challenge
  (\<open>DnsChallenge.tsx\<close>). The last two fail on an answer whose \<open>success\<close> is the value false and
  on no other; \<open>cert_answer\<close> keeps that distinction.
\<close>

datatype 'a cert_answer = Threw "string option" | Failed "string option" | Passed "'a option"

text \<open>\<open>text || fallback\<close>: \<open>None\<close> is the fallback.\<close>

definition or_fallback :: "string option \<Rightarrow> string option" where
  "or_fallback m = (case m of None \<Rightarrow> None | Some t \<Rightarrow> if t = [] then None else Some t)"

subsection \<open>A new certificate\<close>

record cert_value =
  cv_domain :: string
  cv_autoRenew :: bool
  cv_email :: string

record create_cert =
  cc_value :: cert_value
  cc_submitting :: bool

definition DEFAULT_VALUE :: cert_value where
  "DEFAULT_VALUE = \<lparr>cv_domain = [], cv_autoRenew = True, cv_email = []\<rparr>"

definition open_create_cert :: create_cert where
  "open_create_cert = \<lparr>cc_value = DEFAULT_VALUE, cc_submitting = False\<rparr>"

definition dash_plus_dot :: "char \<Rightarrow> bool" where
  "dash_plus_dot c \<longleftrightarrow> c = CHR ''-'' \<or> c = CHR ''+'' \<or> c = CHR ''.''"

definition dash_dot :: "char \<Rightarrow> bool" where
  "dash_dot c \<longleftrightarrow> c = CHR ''-'' \<or> c = CHR ''.''"

text \<open>\<open>/^\w+([-+.]\w+)*@\w+([-.]\w+)*\.\w+([-.]\w+)*$/\<close>\<close>

definition email_rx :: rx where
  "email_rx = RSeq (words_rx dash_plus_dot) (RSeq (rx_char (CHR ''@''))
     (RSeq (words_rx dash_dot) (RSeq (rx_char (CHR ''.'')) (words_rx dash_dot))))"

datatype create_cert_error = NeedDomain | NeedEmail | BadEmail

datatype create_cert_effect = CreateCertError create_cert_error | PostCert cert_value
  | CertCreated | CertCreateFailed | CertOnOk

type_synonym create_cert_result = "create_cert \<times> create_cert_effect list"

definition create_cert_check :: "cert_value \<Rightarrow> create_cert_error option" where
  "create_cert_check v =
     (if cv_domain v = [] then Some NeedDomain
      else if cv_email v = [] then Some NeedEmail
      else if \<not> rx_test email_rx (cv_email v) then Some BadEmail
      else None)"

definition create_cert_ok :: "create_cert \<Rightarrow> create_cert_result" where
  "create_cert_ok st =
     (if cc_submitting st then (st, [])
      else case create_cert_check (cc_value st) of
        Some e \<Rightarrow> (st, [CreateCertError e])
      | None \<Rightarrow> (st\<lparr>cc_submitting := True\<rparr>, [PostCert (cc_value st)]))"

definition create_cert_done :: "'a settled \<Rightarrow> create_cert \<Rightarrow> create_cert_result" where
  "create_cert_done s st =
     (case s of
        Resolved r \<Rightarrow> (st\<lparr>cc_submitting := False\<rparr>, [CertCreated, CertOnOk])
      | Rejected e \<Rightarrow> (st\<lparr>cc_submitting := False\<rparr>, [CertCreateFailed]))"

datatype cert_edit = CeDomain string | CeEmail string | CeRenew bool

fun edit_cert :: "cert_edit \<Rightarrow> cert_value \<Rightarrow> cert_value" where
  "edit_cert (CeDomain t) v = v\<lparr>cv_domain := t\<rparr>"
| "edit_cert (CeEmail t) v = v\<lparr>cv_email := t\<rparr>"
| "edit_cert (CeRenew b) v = v\<lparr>cv_autoRenew := b\<rparr>"

subsection \<open>The upload\<close>

datatype CertType = Pfx | Pem

record local_file =
  lf_name :: string
  lf_bytes :: "nat list"

record upload_cert =
  uc_domain :: string
  uc_certType :: CertType
  uc_password :: string
  uc_certFile :: "local_file option"
  uc_keyFile :: "local_file option"
  uc_submitting :: bool

text \<open>The certificate that is replaced: its id and domain.\<close>

type_synonym edit_item = "(string \<times> string) option"

definition open_upload_cert :: "edit_item \<Rightarrow> upload_cert" where
  "open_upload_cert editItem =
     \<lparr>uc_domain = (case editItem of None \<Rightarrow> [] | Some (i, d) \<Rightarrow> d), uc_certType = Pfx, uc_password = [],
      uc_certFile = None, uc_keyFile = None, uc_submitting = False\<rparr>"

datatype form_part = PartText string | PartFile local_file

definition cert_type_text :: "CertType \<Rightarrow> string" where
  "cert_type_text t = (case t of Pfx \<Rightarrow> ''pfx'' | Pem \<Rightarrow> ''pem'')"

definition upload_form :: "edit_item \<Rightarrow> upload_cert \<Rightarrow> local_file \<Rightarrow> (string \<times> form_part) list" where
  "upload_form editItem st file =
     (case editItem of None \<Rightarrow> [] | Some (i, d) \<Rightarrow> if i = [] then [] else [(''id'', PartText i)]) @
     [(''domain'', PartText (js_trim (uc_domain st))), (''certType'', PartText (cert_type_text (uc_certType st))),
      (''file'', PartFile file)] @
     (case (uc_certType st, uc_keyFile st) of (Pem, Some k) \<Rightarrow> [(''keyFile'', PartFile k)] | _ \<Rightarrow> []) @
     (if uc_certType st = Pfx then [(''password'', PartText (uc_password st))] else [])"

datatype upload_error = UpNeedDomain | UpNeedCert CertType | UpNeedKey

datatype upload_cert_effect = UploadCertError upload_error | PostUpload "(string \<times> form_part) list"
  | CertUploaded | CertUploadFailed "string option" | UploadOnOk

type_synonym upload_cert_result = "upload_cert \<times> upload_cert_effect list"

definition upload_cert_ok :: "edit_item \<Rightarrow> upload_cert \<Rightarrow> upload_cert_result" where
  "upload_cert_ok editItem st =
     (if uc_submitting st then (st, [])
      else if js_trim (uc_domain st) = [] then (st, [UploadCertError UpNeedDomain])
      else case uc_certFile st of
        None \<Rightarrow> (st, [UploadCertError (UpNeedCert (uc_certType st))])
      | Some file \<Rightarrow>
          if uc_certType st = Pem \<and> uc_keyFile st = None then (st, [UploadCertError UpNeedKey])
          else (st\<lparr>uc_submitting := True\<rparr>, [PostUpload (upload_form editItem st file)]))"

definition upload_cert_done :: "'a cert_answer \<Rightarrow> upload_cert \<Rightarrow> upload_cert_result" where
  "upload_cert_done s st =
     (st\<lparr>uc_submitting := False\<rparr>,
      case s of
        Threw m \<Rightarrow> [CertUploadFailed (or_fallback m)]
      | Failed m \<Rightarrow> [CertUploadFailed (or_fallback m)]
      | Passed d \<Rightarrow> [CertUploaded, UploadOnOk])"

text \<open>
  The fields. The domain of a certificate that is replaced cannot be edited; the key field is
  there for PEM, the password for PFX, and a change of the format clears neither.
\<close>

datatype upload_edit = UeDomain string | UeType CertType | UeCert "local_file option"
  | UeKey "local_file option" | UePassword string

fun edit_upload :: "edit_item \<Rightarrow> upload_edit \<Rightarrow> upload_cert \<Rightarrow> upload_cert" where
  "edit_upload item (UeDomain t) st = (if item \<noteq> None then st else st\<lparr>uc_domain := t\<rparr>)"
| "edit_upload item (UeType t) st = st\<lparr>uc_certType := t\<rparr>"
| "edit_upload item (UeCert f) st = st\<lparr>uc_certFile := f\<rparr>"
| "edit_upload item (UeKey f) st = (if uc_certType st = Pem then st\<lparr>uc_keyFile := f\<rparr> else st)"
| "edit_upload item (UePassword t) st = (if uc_certType st = Pem then st else st\<lparr>uc_password := t\<rparr>)"

subsection \<open>The DNS challenge\<close>

record DnsRecord =
  recordName :: string
  recordType :: string
  recordValue :: string

record dns_dialog =
  dc_preparing :: bool
  dc_validating :: bool
  dc_record :: "DnsRecord option"

datatype dns_call = RequestPrepare string | PrepareFailed "string option" | RequestValidate string
  | ValidateFailed "string option" | CertIssued | DnsOnOk

type_synonym dns_result = "dns_dialog \<times> dns_call list"

definition init_dns :: dns_dialog where
  "init_dns = \<lparr>dc_preparing = False, dc_validating = False, dc_record = None\<rparr>"

definition prepare :: "edit_item \<Rightarrow> dns_dialog \<Rightarrow> dns_result" where
  "prepare item st =
     (case item of None \<Rightarrow> (st, [])
      | Some (i, d) \<Rightarrow> (st\<lparr>dc_preparing := True, dc_record := None\<rparr>, [RequestPrepare i]))"

definition prepare_done :: "DnsRecord cert_answer \<Rightarrow> dns_dialog \<Rightarrow> dns_result" where
  "prepare_done s st =
     (case s of
        Threw m \<Rightarrow> (st\<lparr>dc_preparing := False\<rparr>, [PrepareFailed (or_fallback m)])
      | Failed m \<Rightarrow> (st\<lparr>dc_preparing := False\<rparr>, [PrepareFailed (or_fallback m)])
      | Passed d \<Rightarrow> (st\<lparr>dc_record := d, dc_preparing := False\<rparr>, []))"

definition dns_effect :: "bool \<Rightarrow> edit_item \<Rightarrow> dns_dialog \<Rightarrow> dns_result" where
  "dns_effect visible item st =
     (if visible \<and> item \<noteq> None then prepare item (st\<lparr>dc_record := None, dc_validating := False\<rparr>)
      else (st, []))"

definition handleValidate :: "edit_item \<Rightarrow> dns_dialog \<Rightarrow> dns_result" where
  "handleValidate item st =
     (case item of None \<Rightarrow> (st, [])
      | Some (i, d) \<Rightarrow> if dc_validating st then (st, [])
          else (st\<lparr>dc_validating := True\<rparr>, [RequestValidate i]))"

definition handleValidate_done :: "'a cert_answer \<Rightarrow> dns_dialog \<Rightarrow> dns_result" where
  "handleValidate_done s st =
     (st\<lparr>dc_validating := False\<rparr>,
      case s of
        Threw m \<Rightarrow> [ValidateFailed (or_fallback m)]
      | Failed m \<Rightarrow> [ValidateFailed (or_fallback m)]
      | Passed d \<Rightarrow> [CertIssued, DnsOnOk])"

datatype record_label = LblType | LblHost | LblValue

datatype dns_body = DnsPreparing | DnsRecords "(record_label \<times> string) list" | DnsRetry

record dns_view =
  dv_domain :: "string option"
  dv_body :: dns_body
  dv_cancel_disabled :: bool
  dv_ok_disabled :: bool

definition dns_view_of :: "edit_item \<Rightarrow> dns_dialog \<Rightarrow> dns_view" where
  "dns_view_of item st =
     \<lparr>dv_domain = map_option snd item,
      dv_body = (if dc_preparing st then DnsPreparing
        else case dc_record st of
          Some r \<Rightarrow> DnsRecords [(LblType, recordType r), (LblHost, recordName r), (LblValue, recordValue r)]
        | None \<Rightarrow> DnsRetry),
      dv_cancel_disabled = dc_validating st,
      dv_ok_disabled = (dc_validating st \<or> dc_preparing st \<or> dc_record st = None)\<rparr>"

subsection \<open>Laws\<close>

lemma email_iff: "rx_test email_rx s \<longleftrightarrow>
    (\<exists>u d. s = u @ CHR ''@'' # d \<and> words dash_plus_dot u \<and> words dash_dot d \<and> CHR ''.'' \<in> set d)"
proof -
  have dom: "rx_in (RSeq (words_rx dash_dot) (RSeq (rx_char (CHR ''.'')) (words_rx dash_dot))) d \<longleftrightarrow>
      words dash_dot d \<and> CHR ''.'' \<in> set d" for d
  proof
    assume "words dash_dot d \<and> CHR ''.'' \<in> set d"
    then obtain a b where d: "d = a @ CHR ''.'' # b" "words dash_dot d" by (metis split_list)
    have "words dash_dot a \<and> words dash_dot b"
      by (rule words_at_separator [of _ _ "CHR ''.''"]) (use d in \<open>simp_all add: js_word_def\<close>)
    then have "rx_in (RSeq (words_rx dash_dot) (RSeq (rx_char (CHR ''.'')) (words_rx dash_dot))) (a @ [CHR ''.''] @ b)"
      by (intro in_seq) (simp_all add: in_words_rx)
    then show "rx_in (RSeq (words_rx dash_dot) (RSeq (rx_char (CHR ''.'')) (words_rx dash_dot))) d"
      by (simp add: d(1))
  qed (auto simp: in_words_rx dash_dot_def intro: words_append)
  show ?thesis
    unfolding rx_test_iff email_rx_def rx_in_simps(4) [of "words_rx dash_plus_dot"]
      rx_in_simps(4) [of "rx_char (CHR ''@'')"] dom in_words_rx in_rx_char
    by fastforce
qed

lemma words_chars: "words q s \<Longrightarrow> c \<in> set s \<Longrightarrow> js_word c \<or> q c"
  by (auto simp: words_def list_all_iff)

text \<open>What is sent with an upload.\<close>

lemma upload_sent:
  assumes "upload_cert_ok editItem st = (st', [PostUpload parts])"
  obtains f where "uc_certFile st = Some f" and "parts = upload_form editItem st f"
    and "js_trim (uc_domain st) \<noteq> []" and "uc_certType st = Pem \<Longrightarrow> uc_keyFile st \<noteq> None"
  using assms by (auto simp: upload_cert_ok_def split: if_splits option.splits)

end
