(* ===== verification/TablePager.thy ===== *)
theory TablePager
  imports Complex_Main JsString
begin

text \<open>
  The paged tables: that of the certificates (\<open>web/src/pages/cert/features/TableList.tsx\<close>) and the one
  of the security pages (\<open>web/src/components/ui/data-table.tsx\<close>): the number of pages, the range
  of rows shown, the window of at most five page buttons and the two arrows. The quotient under
  \<open>Math.ceil\<close> is taken exactly; for integers below $2^{53}$ and page sizes of at most 50 the
  double does not cross an integer.
\<close>

definition totalPages :: "nat \<Rightarrow> nat \<Rightarrow> nat" where
  "totalPages total_n pageSize = nat \<lceil>(of_nat total_n :: rat) / of_nat pageSize\<rceil>"

definition startItem :: "nat \<Rightarrow> nat \<Rightarrow> int" where
  "startItem current pageSize = (int current - 1) * int pageSize + 1"

definition endItem :: "nat \<Rightarrow> nat \<Rightarrow> nat \<Rightarrow> int" where
  "endItem current pageSize total_n = min (int current * int pageSize) (int total_n)"

definition pageNum :: "int \<Rightarrow> int \<Rightarrow> int \<Rightarrow> int" where
  "pageNum pages current i =
     (if pages \<le> 5 then i + 1
      else if current \<le> 3 then i + 1
      else if current \<ge> pages - 2 then pages - 4 + i
      else current - 2 + i)"

definition page_buttons :: "nat \<Rightarrow> nat \<Rightarrow> int list" where
  "page_buttons pages current = map (\<lambda>i. pageNum (int pages) (int current) (int i)) [0..<min 5 pages]"

datatype 'a cells = EmptyCell nat | CellRows "(string \<times> 'a list) list"

record pager =
  pg_range :: "int \<times> int \<times> nat"
  pg_prev_disabled :: bool
  pg_buttons :: "(int \<times> bool) list"
  pg_next_disabled :: bool

datatype 'a table_view = TableLoading | Table "'a cells" "pager option"

definition table_list ::
  "('row \<Rightarrow> string option) \<Rightarrow> ('row \<Rightarrow> 'a) list \<Rightarrow> 'row list \<Rightarrow> nat \<Rightarrow> nat \<Rightarrow> nat \<Rightarrow> bool \<Rightarrow> 'a table_view"
where
  "table_list row_id columns dataSources total_n pageSize current loading =
     (if loading then TableLoading
      else Table
        (if dataSources = [] then EmptyCell (length columns)
         else CellRows (map (\<lambda>(i, r). (case row_id r of Some k \<Rightarrow> k | None \<Rightarrow> nat_to_string i, map (\<lambda>c. c r) columns))
                (enumerate 0 dataSources)))
        (if 0 < total_n
         then Some \<lparr>pg_range = (startItem current pageSize, endItem current pageSize total_n, total_n),
                pg_prev_disabled = (current \<le> 1),
                pg_buttons = map (\<lambda>p. (p, int current = p)) (page_buttons (totalPages total_n pageSize) current),
                pg_next_disabled = (totalPages total_n pageSize \<le> current)\<rparr>
         else None))"

subsection \<open>The paged table of the security pages\<close>

text \<open>
  \<open>web/src/components/ui/data-table.tsx\<close>: the table library shows the rows it is given, since the
  paging is manual; the arrows ask for the page before and after, with the size of the page.
\<close>

datatype 'a table_body = BodyLoading nat | BodyEmpty nat | BodyRows "'a list list"

record data_pager =
  dp_range :: "int \<times> int \<times> nat"
  dp_prev :: "(int \<times> nat) option"
  dp_next :: "(int \<times> nat) option"

definition DataTable ::
  "('row \<Rightarrow> 'a) list \<Rightarrow> 'row list \<Rightarrow> bool \<Rightarrow> nat \<Rightarrow> nat \<Rightarrow> nat \<Rightarrow> 'a table_body \<times> data_pager option" where
  "DataTable columns rows loading pageSize total_n current =
     (if loading then BodyLoading (length columns)
      else if rows = [] then BodyEmpty (length columns) else BodyRows (map (\<lambda>r. map (\<lambda>c. c r) columns) rows),
      if 0 < total_n
      then Some \<lparr>dp_range = (startItem current pageSize, endItem current pageSize total_n, total_n),
             dp_prev = (if current \<le> 1 then None else Some (int current - 1, pageSize)),
             dp_next = (if totalPages total_n pageSize \<le> current then None else Some (int current + 1, pageSize))\<rparr>
      else None)"

subsection \<open>Laws\<close>

lemma page_buttons_window:
  "page_buttons pages current = map (\<lambda>i. pageNum (int pages) (int current) 0 + int i) [0..<min 5 pages]"
  by (simp add: page_buttons_def pageNum_def)

lemma first_button:
  assumes "1 \<le> pages"
  shows "1 \<le> pageNum (int pages) (int current) 0" "pageNum (int pages) (int current) 0 + int (min 5 pages) - 1 \<le> int pages"
  using assms by (auto simp: pageNum_def min_def)

lemma current_button:
  assumes "1 \<le> current" and "current \<le> pages"
  shows "pageNum (int pages) (int current) 0 \<le> int current \<and>
    int current < pageNum (int pages) (int current) 0 + int (min 5 pages)"
  using assms by (auto simp: pageNum_def min_def)

lemma in_window: "p \<in> set (page_buttons pages current) \<longleftrightarrow>
    pageNum (int pages) (int current) 0 \<le> p \<and> p < pageNum (int pages) (int current) 0 + int (min 5 pages)"
proof -
  let ?a = "pageNum (int pages) (int current) 0"
  have "(\<exists>i<min 5 pages. p = ?a + int i) \<longleftrightarrow> ?a \<le> p \<and> p < ?a + int (min 5 pages)"
  proof
    assume "?a \<le> p \<and> p < ?a + int (min 5 pages)"
    then have "nat (p - ?a) < min 5 pages" "p = ?a + int (nat (p - ?a))" by linarith+
    then show "\<exists>i<min 5 pages. p = ?a + int i" by blast
  qed auto
  then show ?thesis unfolding page_buttons_window by auto
qed

lemma pages_bounds:
  assumes "0 < pageSize" and "0 < total_n"
  shows "1 \<le> totalPages total_n pageSize"
    and "(totalPages total_n pageSize - 1) * pageSize < total_n"
    and "total_n \<le> totalPages total_n pageSize * pageSize"
proof -
  let ?q = "(of_nat total_n :: rat) / of_nat pageSize"
  have pos: "0 < ?q" using assms by simp
  then have c: "1 \<le> \<lceil>?q\<rceil>" by linarith
  then show one: "1 \<le> totalPages total_n pageSize" unfolding totalPages_def by linarith
  have k: "of_nat (totalPages total_n pageSize) = (of_int \<lceil>?q\<rceil> :: rat)" using c by (simp add: totalPages_def)
  have up: "?q \<le> of_nat (totalPages total_n pageSize)" unfolding k by (rule le_of_int_ceiling)
  have low: "of_nat (totalPages total_n pageSize) - 1 < ?q" unfolding k by linarith
  have "(of_nat total_n :: rat) \<le> of_nat (totalPages total_n pageSize * pageSize)"
    using up assms by (simp add: divide_simps)
  then show "total_n \<le> totalPages total_n pageSize * pageSize" by (simp only: of_nat_le_iff)
  have "(of_nat (totalPages total_n pageSize) - 1) * of_nat pageSize < (of_nat total_n :: rat)"
    using low assms by (simp add: divide_simps)
  then have "(of_nat ((totalPages total_n pageSize - 1) * pageSize) :: rat) < of_nat total_n"
    using one by (simp add: of_nat_diff)
  then show "(totalPages total_n pageSize - 1) * pageSize < total_n" by (simp only: of_nat_less_iff)
qed

text \<open>From a page of the table the arrows lead to pages of the table, and the range holds a row.\<close>

lemma arrows_in_table:
  assumes "0 < pageSize" and "0 < total_n" and "1 \<le> current" and "current \<le> totalPages total_n pageSize"
    and "snd (DataTable columns rows loading pageSize total_n current) = Some p"
  shows "dp_prev p = Some (n, k) \<Longrightarrow> 1 \<le> n \<and> n \<le> int (totalPages total_n pageSize) \<and> k = pageSize"
    and "dp_next p = Some (n, k) \<Longrightarrow> 1 \<le> n \<and> n \<le> int (totalPages total_n pageSize) \<and> k = pageSize"
    and "fst (dp_range p) \<le> fst (snd (dp_range p))"
proof -
  show "dp_prev p = Some (n, k) \<Longrightarrow> 1 \<le> n \<and> n \<le> int (totalPages total_n pageSize) \<and> k = pageSize"
    using assms by (auto simp: DataTable_def split: if_splits)
  show "dp_next p = Some (n, k) \<Longrightarrow> 1 \<le> n \<and> n \<le> int (totalPages total_n pageSize) \<and> k = pageSize"
    using assms by (auto simp: DataTable_def split: if_splits)
  have "(current - 1) * pageSize \<le> (totalPages total_n pageSize - 1) * pageSize"
    using assms(4) by (intro mult_le_mono1) simp
  also have "\<dots> < total_n" by (rule pages_bounds(2) [OF assms(1,2)])
  finally have "int ((current - 1) * pageSize) < int total_n" by (simp only: of_nat_less_iff)
  then have "(int current - 1) * int pageSize < int total_n" using assms(3) by (simp add: of_nat_diff del: of_nat_less_iff)
  moreover have "(int current - 1) * int pageSize + 1 \<le> int current * int pageSize"
    using assms(1) by (simp add: algebra_simps)
  ultimately show "fst (dp_range p) \<le> fst (snd (dp_range p))"
    using assms(2,5) by (auto simp: DataTable_def startItem_def endItem_def)
qed

end
