(* ===== verification/CertPage.thy ===== *)
theory CertPage
  imports CertForms TablePager BatchSelection
begin

text \<open>
  The certificate page (\<open>web/src/pages/cert/page.tsx\<close>): loading by page, filter and order,
  the statistics, applying for a certificate, deletion, the cells of the table and the dialogs.
  Parameters: \<open>cmp\<close> is \<open>localeCompare\<close>, \<open>parse\<close> is the time of \<open>new Date(text)\<close> (\<open>None\<close> for an
  invalid date), \<open>days\<close> and \<open>fmt\<close> are \<open>differenceInCalendarDays\<close> and \<open>format\<close> of date-fns, and
  \<open>now\<close> is the clock. A handler keeps the page and size of the render it was created in; its
  continuation takes them as \<open>captured\<close>.
\<close>

datatype RenewStats = NotRenewed | Renewed | RenewFailed

record CertItem =
  ci_id :: string
  ci_domain :: string
  ci_email :: string
  ci_autoRenew :: bool
  ci_renewStats :: RenewStats
  ci_renewTime :: "string option"
  ci_notAfter :: "string option"
  ci_custom :: bool

datatype renew_filter = FAll | FNone | FSuccess | FFailed

record cert_page =
  cp_create :: bool
  cp_upload :: bool
  cp_uploadItem :: "CertItem option"
  cp_dns :: "bool \<times> CertItem option"
  cp_page :: nat
  cp_pageSize :: nat
  cp_total :: nat
  cp_data :: "CertItem list"
  cp_loading :: bool
  cp_query :: string
  cp_filter :: renew_filter
  cp_autoOnly :: bool
  cp_applying :: "string \<Rightarrow> bool"
  cp_delete :: "bool \<times> CertItem option"
  cp_deleting :: bool

definition init_cert_page :: cert_page where
  "init_cert_page =
     \<lparr>cp_create = False, cp_upload = False, cp_uploadItem = None, cp_dns = (False, None), cp_page = 1,
      cp_pageSize = 10, cp_total = 0, cp_data = [], cp_loading = False, cp_query = [], cp_filter = FAll,
      cp_autoOnly = False, cp_applying = (\<lambda>i. False), cp_delete = (False, None), cp_deleting = False\<rparr>"

definition safeParseDate :: "(string \<Rightarrow> int option) \<Rightarrow> string option \<Rightarrow> int option" where
  "safeParseDate parse v = (case v of None \<Rightarrow> None | Some t \<Rightarrow> if t = [] then None else parse t)"

definition formatMaybeDate :: "(string \<Rightarrow> int option) \<Rightarrow> (int \<Rightarrow> string) \<Rightarrow> string option \<Rightarrow> string" where
  "formatMaybeDate parse fmt v = (case safeParseDate parse v of None \<Rightarrow> ''-'' | Some d \<Rightarrow> fmt d)"

subsection \<open>Loading\<close>

datatype cp_effect = RequestCerts nat nat | CertsFailed | RequestApply string | Applied
  | ApplyFailed "string option" | RequestDelete string | CertDeleted | CertDeleteFailed

type_synonym cp_result = "cert_page \<times> cp_effect list"

record cert_answer_page =
  ca_items :: "CertItem list option"
  ca_total :: "nat option"

definition loadData :: "nat \<times> nat \<Rightarrow> cert_page \<Rightarrow> cp_result" where
  "loadData captured st = (st\<lparr>cp_loading := True\<rparr>, [RequestCerts (fst captured) (snd captured)])"

definition loadData_done :: "cert_answer_page settled \<Rightarrow> cert_page \<Rightarrow> cp_result" where
  "loadData_done s st =
     (case s of
        Rejected e \<Rightarrow> (st\<lparr>cp_loading := False\<rparr>, [CertsFailed])
      | Resolved r \<Rightarrow>
          (let result = (case resp_data r of None \<Rightarrow> \<lparr>ca_items = None, ca_total = None\<rparr> | Some p \<Rightarrow> p) in
           (st\<lparr>cp_data := (case ca_items result of None \<Rightarrow> [] | Some d \<Rightarrow> d),
               cp_total := (case ca_total result of None \<Rightarrow> 0 | Some n \<Rightarrow> n), cp_loading := False\<rparr>, [])))"

definition paging :: "cert_page \<Rightarrow> nat \<times> nat" where
  "paging st = (cp_page st, cp_pageSize st)"

text \<open>The effect that follows a commit: it loads when the page or the size is another one.\<close>

definition page_effect :: "nat \<times> nat \<Rightarrow> cert_page \<Rightarrow> cp_result" where
  "page_effect before st = (if before = paging st then (st, []) else loadData (paging st) st)"

definition set_page :: "nat \<Rightarrow> nat \<Rightarrow> cert_page \<Rightarrow> cert_page" where
  "set_page p s st = st\<lparr>cp_page := p, cp_pageSize := s\<rparr>"

definition set_page_size :: "nat \<Rightarrow> cert_page \<Rightarrow> cert_page" where
  "set_page_size s st = st\<lparr>cp_page := 1, cp_pageSize := s\<rparr>"

subsection \<open>Filter, order and statistics\<close>

definition shows_cert :: "cert_page \<Rightarrow> CertItem \<Rightarrow> bool" where
  "shows_cert st item =
     (let q = js_lower (js_trim (cp_query st)) in
      if cp_autoOnly st \<and> \<not> ci_autoRenew item then False
      else if cp_filter st = FNone \<and> ci_renewStats item \<noteq> NotRenewed then False
      else if cp_filter st = FSuccess \<and> ci_renewStats item \<noteq> Renewed then False
      else if cp_filter st = FFailed \<and> ci_renewStats item \<noteq> RenewFailed then False
      else if q = [] then True
      else str_includes (js_lower (join_space [ci_domain item, ci_email item])) q)"

text \<open>Without dates the code compares the domain of \<open>a\<close> with the domain of \<open>a\<close>.\<close>

definition cert_order :: "(string \<Rightarrow> string \<Rightarrow> int) \<Rightarrow> (string \<Rightarrow> int option) \<Rightarrow> CertItem \<Rightarrow> CertItem \<Rightarrow> int" where
  "cert_order cmp parse a b =
     (case (safeParseDate parse (ci_notAfter a), safeParseDate parse (ci_notAfter b)) of
        (Some x, Some y) \<Rightarrow> x - y
      | (Some x, None) \<Rightarrow> -1
      | (None, Some y) \<Rightarrow> 1
      | (None, None) \<Rightarrow> cmp (ci_domain a) (ci_domain a))"

definition filteredData :: "(string \<Rightarrow> string \<Rightarrow> int) \<Rightarrow> (string \<Rightarrow> int option) \<Rightarrow> cert_page \<Rightarrow> CertItem list" where
  "filteredData cmp parse st = js_sort (cert_order cmp parse) (filter (shows_cert st) (cp_data st))"

record cert_stats =
  cs_pageTotal :: nat
  cs_autoRenewCount :: nat
  cs_failedCount :: nat
  cs_expiringSoon :: nat

definition expiring_soon :: "(int \<Rightarrow> int \<Rightarrow> int) \<Rightarrow> int \<Rightarrow> int option \<Rightarrow> bool" where
  "expiring_soon days now d =
     (case d of None \<Rightarrow> False | Some t \<Rightarrow> let daysLeft = days t now in 0 \<le> daysLeft \<and> daysLeft \<le> 15)"

definition cert_stats_of :: "(string \<Rightarrow> int option) \<Rightarrow> (int \<Rightarrow> int \<Rightarrow> int) \<Rightarrow> int \<Rightarrow> cert_page \<Rightarrow> cert_stats" where
  "cert_stats_of parse days now st =
     \<lparr>cs_pageTotal = length (cp_data st),
      cs_autoRenewCount = length (filter ci_autoRenew (cp_data st)),
      cs_failedCount = length (filter (\<lambda>i. ci_renewStats i = RenewFailed) (cp_data st)),
      cs_expiringSoon = length (filter (\<lambda>i. expiring_soon days now (safeParseDate parse (ci_notAfter i))) (cp_data st))\<rparr>"

definition cp_clearFilters :: "cert_page \<Rightarrow> cert_page" where
  "cp_clearFilters st = st\<lparr>cp_query := [], cp_filter := FAll, cp_autoOnly := False\<rparr>"

definition shows_clear :: "cert_page \<Rightarrow> bool" where
  "shows_clear st \<longleftrightarrow> cp_query st \<noteq> [] \<or> cp_filter st \<noteq> FAll \<or> cp_autoOnly st"

subsection \<open>Applying and deleting\<close>

definition handleApply :: "CertItem \<Rightarrow> cert_page \<Rightarrow> cp_result" where
  "handleApply item st =
     (st\<lparr>cp_applying := (cp_applying st)(ci_id item := True)\<rparr>, [RequestApply (ci_id item)])"

definition handleApply_done ::
  "nat \<times> nat \<Rightarrow> CertItem \<Rightarrow> 'a settled \<Rightarrow> cert_page \<Rightarrow> cp_result" where
  "handleApply_done captured item s st =
     (let st' = st\<lparr>cp_applying := (cp_applying st)(ci_id item := False)\<rparr> in
      case s of
        Rejected e \<Rightarrow> (st', [ApplyFailed None])
      | Resolved r \<Rightarrow>
          if success r then (case loadData captured st' of (st2, es) \<Rightarrow> (st2, Applied # es))
          else (st', [ApplyFailed (resp_message r)]))"

definition ask_delete :: "CertItem \<Rightarrow> cert_page \<Rightarrow> cert_page" where
  "ask_delete item st = st\<lparr>cp_delete := (True, Some item)\<rparr>"

definition close_cert_delete :: "cert_page \<Rightarrow> cert_page" where
  "close_cert_delete st = st\<lparr>cp_delete := (False, None)\<rparr>"

definition confirm_cert_delete :: "cert_page \<Rightarrow> cp_result" where
  "confirm_cert_delete st =
     (case snd (cp_delete st) of None \<Rightarrow> (st, [])
      | Some item \<Rightarrow> (st\<lparr>cp_deleting := True\<rparr>, [RequestDelete (ci_id item)]))"

text \<open>
  After the deletion: \<open>len\<close> is the number of rows in the render of the handler. When the last row
  of a later page is gone the page is moved back, and the effect of the move loads it.
\<close>

definition confirm_cert_delete_done ::
  "nat \<Rightarrow> nat \<times> nat \<Rightarrow> 'a settled \<Rightarrow> cert_page \<Rightarrow> cp_result" where
  "confirm_cert_delete_done len captured s st =
     (case s of
        Rejected e \<Rightarrow> (st\<lparr>cp_deleting := False\<rparr>, [CertDeleteFailed])
      | Resolved r \<Rightarrow>
          (let st' = st\<lparr>cp_delete := (False, None), cp_deleting := False\<rparr> in
           if len \<le> 1 \<and> 1 < fst captured
           then (st'\<lparr>cp_page := max 1 (cp_page st' - 1)\<rparr>, [CertDeleted])
           else (case loadData captured st' of (st2, es) \<Rightarrow> (st2, CertDeleted # es))))"

subsection \<open>The table\<close>

datatype renew_badge = BadgeNotRenewed | BadgeRenewed | BadgeRenewFailed

definition renew_badge_of :: "RenewStats \<Rightarrow> renew_badge" where
  "renew_badge_of s =
     (case s of NotRenewed \<Rightarrow> BadgeNotRenewed | Renewed \<Rightarrow> BadgeRenewed | RenewFailed \<Rightarrow> BadgeRenewFailed)"

datatype expiry_cell = NoExpiry | Expired string | DaysLeft string int bool

definition expiry_of :: "(string \<Rightarrow> int option) \<Rightarrow> (int \<Rightarrow> string) \<Rightarrow> (int \<Rightarrow> int \<Rightarrow> int) \<Rightarrow> int \<Rightarrow> string option \<Rightarrow> expiry_cell" where
  "expiry_of parse fmt days now v =
     (case safeParseDate parse v of None \<Rightarrow> NoExpiry
      | Some d \<Rightarrow>
          (let daysLeft = days d now; isSoon = (0 \<le> daysLeft \<and> daysLeft \<le> 15) in
           if daysLeft < 0 then Expired (fmt d) else DaysLeft (fmt d) daysLeft isSoon))"

datatype cert_button = Reupload bool | DnsVerify bool | Apply bool bool

text \<open>The first button of a row with whether it is disabled (and, for applying, whether it runs).\<close>

definition action_button :: "cert_page \<Rightarrow> CertItem \<Rightarrow> cert_button" where
  "action_button st item =
     (let applying = cp_applying st (ci_id item) in
      if ci_custom item then Reupload (cp_loading st)
      else if str_includes (ci_domain item) ''*'' then DnsVerify (cp_loading st)
      else Apply (applying \<or> cp_loading st) applying)"

datatype cert_cell = CellDomain string bool "string option" | CellEmail string | CellAuto bool
  | CellRenew renew_badge | CellTime string | CellExpiry expiry_cell | CellActions cert_button bool

definition cert_columns ::
  "(string \<Rightarrow> int option) \<Rightarrow> (int \<Rightarrow> string) \<Rightarrow> (int \<Rightarrow> int \<Rightarrow> int) \<Rightarrow> int \<Rightarrow> cert_page \<Rightarrow> (CertItem \<Rightarrow> cert_cell) list" where
  "cert_columns parse fmt days now st =
     [\<lambda>i. CellDomain (if ci_domain i = [] then ''-'' else ci_domain i) (ci_custom i)
            (if ci_domain i = [] then None else Some (ci_domain i)),
      \<lambda>i. CellEmail (if ci_email i = [] then ''-'' else ci_email i),
      \<lambda>i. CellAuto (ci_autoRenew i),
      \<lambda>i. CellRenew (renew_badge_of (ci_renewStats i)),
      \<lambda>i. CellTime (formatMaybeDate parse fmt (ci_renewTime i)),
      \<lambda>i. CellExpiry (expiry_of parse fmt days now (ci_notAfter i)),
      \<lambda>i. CellActions (action_button st i) (cp_loading st)]"

definition cert_table ::
  "(string \<Rightarrow> string \<Rightarrow> int) \<Rightarrow> (string \<Rightarrow> int option) \<Rightarrow> (int \<Rightarrow> string) \<Rightarrow> (int \<Rightarrow> int \<Rightarrow> int) \<Rightarrow> int \<Rightarrow> cert_page \<Rightarrow> cert_cell table_view" where
  "cert_table cmp parse fmt days now st =
     table_list (\<lambda>i. Some (ci_id i)) (cert_columns parse fmt days now st) (filteredData cmp parse st)
       (cp_total st) (cp_pageSize st) (cp_page st) (cp_loading st)"

subsection \<open>The dialogs\<close>

datatype cert_click = ClickNew | ClickUpload | ClickReupload CertItem | ClickDns CertItem

fun cert_dialogs :: "cert_click \<Rightarrow> cert_page \<Rightarrow> cert_page" where
  "cert_dialogs ClickNew st = st\<lparr>cp_create := True\<rparr>"
| "cert_dialogs ClickUpload st = st\<lparr>cp_uploadItem := None, cp_upload := True\<rparr>"
| "cert_dialogs (ClickReupload i) st = st\<lparr>cp_uploadItem := Some i, cp_upload := True\<rparr>"
| "cert_dialogs (ClickDns i) st = st\<lparr>cp_dns := (True, Some i)\<rparr>"

datatype cert_dialog = DlgCreate | DlgUpload | DlgDns

definition dialog_ok :: "nat \<times> nat \<Rightarrow> cert_dialog \<Rightarrow> cert_page \<Rightarrow> cp_result" where
  "dialog_ok captured d st =
     loadData captured (case d of DlgCreate \<Rightarrow> st\<lparr>cp_create := False\<rparr> | DlgUpload \<Rightarrow> st\<lparr>cp_upload := False\<rparr>
       | DlgDns \<Rightarrow> st\<lparr>cp_dns := (False, None)\<rparr>)"

text \<open>The controls that only set state: the search field, the two filters and closing a dialog.\<close>

datatype cp_control = CpQuery string | CpFilter renew_filter | CpAutoOnly bool | CpClose cert_dialog

fun cp_change :: "cp_control \<Rightarrow> cert_page \<Rightarrow> cert_page" where
  "cp_change (CpQuery t) st = st\<lparr>cp_query := t\<rparr>"
| "cp_change (CpFilter f) st = st\<lparr>cp_filter := f\<rparr>"
| "cp_change (CpAutoOnly b) st = st\<lparr>cp_autoOnly := b\<rparr>"
| "cp_change (CpClose DlgCreate) st = st\<lparr>cp_create := False\<rparr>"
| "cp_change (CpClose DlgUpload) st = st\<lparr>cp_upload := False\<rparr>"
| "cp_change (CpClose DlgDns) st = st\<lparr>cp_dns := (False, None)\<rparr>"

subsection \<open>Laws\<close>

lemma set_filteredData [simp]:
  "set (filteredData cmp parse st) = {i \<in> set (cp_data st). shows_cert st i}"
  by (simp add: filteredData_def)

definition expiry_le :: "(string \<Rightarrow> int option) \<Rightarrow> CertItem \<Rightarrow> CertItem \<Rightarrow> bool" where
  "expiry_le parse a b =
     (case (safeParseDate parse (ci_notAfter a), safeParseDate parse (ci_notAfter b)) of
        (Some x, Some y) \<Rightarrow> x \<le> y | (None, Some y) \<Rightarrow> False | _ \<Rightarrow> True)"

lemma cert_order_le:
  "(\<And>s. cmp s s = 0) \<Longrightarrow> cert_order cmp parse a b \<le> 0 \<longleftrightarrow> expiry_le parse a b"
  by (auto simp: cert_order_def expiry_le_def split: option.splits)

lemma consistent_cert_order:
  assumes "\<And>s. cmp s s = 0"
  shows "consistent_cmp (cert_order cmp parse)"
  unfolding consistent_cmp_def cert_order_le [of cmp, OF assms]
  by (auto simp: expiry_le_def split: option.splits)

lemma expiry_sorted:
  assumes "\<And>s. cmp s s = 0"
  shows "sorted_wrt (expiry_le parse) (filteredData cmp parse st)"
  using sorted_wrt_js_sort [OF consistent_cert_order [of cmp parse, OF assms], of "filter (shows_cert st) (cp_data st)"]
  unfolding filteredData_def cert_order_le [of cmp, OF assms] .

text \<open>A list already in order is not changed by the sort.\<close>

lemma insert_by_first: "\<forall>y\<in>set ys. cmp x y \<le> 0 \<Longrightarrow> insert_by cmp x ys = x # ys"
  by (cases ys) auto

lemma js_sort_sorted: "sorted_wrt (\<lambda>a b. cmp a b \<le> 0) xs \<Longrightarrow> js_sort cmp xs = xs"
  by (induction xs) (auto simp: insert_by_first)

lemma sorted_wrt_all: "\<forall>a\<in>set xs. \<forall>b\<in>set xs. P a b \<Longrightarrow> sorted_wrt P xs"
  by (induction xs) auto

lemma undated_kept:
  assumes "\<And>s. cmp s s = 0" and "\<forall>i\<in>set (cp_data st). safeParseDate parse (ci_notAfter i) = None"
  shows "filteredData cmp parse st = filter (shows_cert st) (cp_data st)"
proof -
  have "sorted_wrt (\<lambda>a b. cert_order cmp parse a b \<le> 0) (filter (shows_cert st) (cp_data st))"
    unfolding cert_order_le [of cmp, OF assms(1)]
    by (rule sorted_wrt_all) (simp add: expiry_le_def assms(2))
  then show ?thesis unfolding filteredData_def by (rule js_sort_sorted)
qed

lemma soon_cell: "expiring_soon days now (safeParseDate parse v) \<longleftrightarrow>
    (\<exists>t n. expiry_of parse fmt days now v = DaysLeft t n True)"
  by (auto simp: expiring_soon_def expiry_of_def Let_def split: option.splits)

end
