(* ===== verification/TunnelPage.thy ===== *)
theory TunnelPage
  imports JsRegex ServiceResult
begin

text \<open>
  The tunnel pages: the list of nodes (\<open>web/src/pages/tunnel/page.tsx\<close>), the wizard that creates
  one (\<open>components/CreateNodeWizard.tsx\<close>) and the sheet with a node's keys and proxies
  (\<open>components/NodeDetailSheet.tsx\<close>). A handler with two awaits is split at each; reading a field
  of an answer without data throws, which is the error \<open>None\<close> of the failure messages. The
  download of \<open>tunnel.json\<close> is an effect with the text to be saved.
\<close>

record TunnelProxy =
  px_id :: string
  px_route :: string
  px_localRemote :: string
  px_description :: string
  px_domains :: "string list"
  px_reported :: bool
  px_effective :: bool
  px_overridden :: bool

record TunnelNode =
  tn_name :: string
  tn_description :: string
  tn_enabled :: bool
  tn_autoRegistered :: bool
  tn_isOnline :: bool
  tn_createdAt :: string
  tn_lastConnectTime :: "string option"
  tn_heartbeat :: nat
  tn_proxyCount :: nat
  tn_proxies :: "TunnelProxy list"

record TunnelNodeKey =
  nk_name :: string
  nk_nodeKey :: string

record TunnelClientConfig =
  tc_hasTunnelServer :: bool
  tc_command :: string
  tc_tunnelJson :: string

subsection \<open>The list\<close>

record tunnel_list =
  tu_nodes :: "TunnelNode list"
  tu_initialLoading :: bool
  tu_refreshing :: bool
  tu_search :: string
  tu_createOpen :: bool
  tu_detailNode :: "string option"
  tu_deleteTarget :: "TunnelNode option"
  tu_deleting :: bool

definition init_tunnel :: tunnel_list where
  "init_tunnel =
     \<lparr>tu_nodes = [], tu_initialLoading = True, tu_refreshing = False, tu_search = [], tu_createOpen = False,
      tu_detailNode = None, tu_deleteTarget = None, tu_deleting = False\<rparr>"

datatype tunnel_effect = RequestNodes bool | NodesFailed err_text | RequestDeleteNode string
  | NodeDeleted string | NodeDeleteFailed err_text

type_synonym tunnel_result = "tunnel_list \<times> tunnel_effect list"

definition loadNodes :: "bool \<Rightarrow> tunnel_list \<Rightarrow> tunnel_result" where
  "loadNodes silent st = ((if silent then st else st\<lparr>tu_refreshing := True\<rparr>), [RequestNodes silent])"

definition loadNodes_done :: "bool \<Rightarrow> TunnelNode list settled \<Rightarrow> tunnel_list \<Rightarrow> tunnel_result" where
  "loadNodes_done silent s st =
     (let st' = (case s of
          Resolved r \<Rightarrow> st\<lparr>tu_nodes := (case resp_data r of None \<Rightarrow> [] | Some d \<Rightarrow> d)\<rparr>
        | Rejected e \<Rightarrow> st);
          es = (case s of Resolved r \<Rightarrow> [] | Rejected e \<Rightarrow> if silent then [] else [NodesFailed e])
      in ((if silent then st'\<lparr>tu_initialLoading := False\<rparr>
           else st'\<lparr>tu_initialLoading := False, tu_refreshing := False\<rparr>), es))"

definition filteredNodes :: "tunnel_list \<Rightarrow> TunnelNode list" where
  "filteredNodes st =
     (let keyword = js_lower (js_trim (tu_search st)) in
      if keyword = [] then tu_nodes st
      else filter (\<lambda>n. str_includes (js_lower (tn_name n)) keyword \<or>
             str_includes (js_lower (tn_description n)) keyword) (tu_nodes st))"

definition handleDeleteNode :: "tunnel_list \<Rightarrow> tunnel_result" where
  "handleDeleteNode st =
     (case tu_deleteTarget st of None \<Rightarrow> (st, [])
      | Some n \<Rightarrow> (st\<lparr>tu_deleting := True\<rparr>, [RequestDeleteNode (tn_name n)]))"

definition handleDeleteNode_done :: "TunnelNode \<Rightarrow> 'a settled \<Rightarrow> tunnel_list \<Rightarrow> tunnel_result" where
  "handleDeleteNode_done target s st =
     (case s of
        Resolved r \<Rightarrow>
          (case loadNodes True (st\<lparr>tu_deleteTarget := None, tu_deleting := False\<rparr>) of
             (st', es) \<Rightarrow> (st', NodeDeleted (tn_name target) # es))
      | Rejected e \<Rightarrow> (st\<lparr>tu_deleting := False\<rparr>, [NodeDeleteFailed e]))"

record node_card =
  nc_name :: string
  nc_online :: bool
  nc_description :: "string option"
  nc_time :: "string option"
  nc_proxies :: nat
  nc_disabled_badge :: bool
  nc_auto_badge :: bool

datatype tunnel_body = TunnelLoading | NoNodes | NoNodeMatch string | NodeCards "node_card list"

definition non_empty :: "string option \<Rightarrow> string option" where
  "non_empty s = (case s of None \<Rightarrow> None | Some t \<Rightarrow> if t = [] then None else Some t)"

definition node_card_of :: "(string \<Rightarrow> string) \<Rightarrow> TunnelNode \<Rightarrow> node_card" where
  "node_card_of fmt n =
     \<lparr>nc_name = tn_name n, nc_online = tn_isOnline n, nc_description = non_empty (Some (tn_description n)),
      nc_time = map_option fmt (non_empty (tn_lastConnectTime n)), nc_proxies = tn_proxyCount n,
      nc_disabled_badge = (\<not> tn_enabled n), nc_auto_badge = tn_autoRegistered n\<rparr>"

definition tunnel_body_of :: "(string \<Rightarrow> string) \<Rightarrow> tunnel_list \<Rightarrow> tunnel_body" where
  "tunnel_body_of fmt st =
     (if tu_initialLoading st then TunnelLoading
      else if tu_nodes st = [] then NoNodes
      else if filteredNodes st = [] then NoNodeMatch (tu_search st)
      else NodeCards (map (node_card_of fmt) (filteredNodes st)))"

text \<open>The controls that only set state: the search field and the dialogs.\<close>

datatype tu_control = TuSearch string | TuCreate bool | TuDetail "string option" | TuDelete "TunnelNode option"

fun tu_change :: "tu_control \<Rightarrow> tunnel_list \<Rightarrow> tunnel_list" where
  "tu_change (TuSearch t) st = st\<lparr>tu_search := t\<rparr>"
| "tu_change (TuCreate b) st = st\<lparr>tu_createOpen := b\<rparr>"
| "tu_change (TuDetail n) st = st\<lparr>tu_detailNode := n\<rparr>"
| "tu_change (TuDelete n) st = st\<lparr>tu_deleteTarget := n\<rparr>"

subsection \<open>The wizard\<close>

record wizard =
  wz_open :: bool
  wz_step :: nat
  wz_name :: string
  wz_description :: string
  wz_submitting :: bool
  wz_nodeKey :: string
  wz_config :: "TunnelClientConfig option"
  wz_online :: bool

definition init_wizard :: wizard where
  "init_wizard =
     \<lparr>wz_open = False, wz_step = 1, wz_name = [], wz_description = [], wz_submitting = False,
      wz_nodeKey = [], wz_config = None, wz_online = False\<rparr>"

datatype wizard_effect = AskName | BadName | RequestCreateNode string string | RequestConfig string
  | NodeCreated | CreateNodeFailed "err_text option" | RequestDetail string | SaveJson string

type_synonym wizard_result = "wizard \<times> wizard_effect list"

text \<open>The effect on \<open>open\<close>: closing resets everything but the mark of a running creation.\<close>

definition set_wizard_open :: "bool \<Rightarrow> wizard \<Rightarrow> wizard" where
  "set_wizard_open b st =
     (if b then st\<lparr>wz_open := True\<rparr>
      else st\<lparr>wz_open := False, wz_step := 1, wz_name := [], wz_description := [], wz_nodeKey := [],
              wz_config := None, wz_online := False\<rparr>)"

text \<open>The timer of the second step runs while this holds.\<close>

definition wizard_polls :: "wizard \<Rightarrow> bool" where
  "wizard_polls st \<longleftrightarrow> wz_step st = 2 \<and> \<not> wz_online st \<and> wz_name st \<noteq> []"

definition wizard_tick :: "wizard \<Rightarrow> wizard_result" where
  "wizard_tick st = (st, if wizard_polls st then [RequestDetail (wz_name st)] else [])"

definition wizard_tick_done :: "TunnelNode settled \<Rightarrow> wizard \<Rightarrow> wizard_result" where
  "wizard_tick_done s st =
     (case s of
        Rejected e \<Rightarrow> (st, [])
      | Resolved r \<Rightarrow> (case resp_data r of None \<Rightarrow> (st, [])
          | Some n \<Rightarrow> if tn_isOnline n then (st\<lparr>wz_online := True\<rparr>, []) else (st, [])))"

definition node_char :: "char \<Rightarrow> bool" where
  "node_char c \<longleftrightarrow> (let n = of_char c :: nat in (48 \<le> n \<and> n \<le> 57) \<or> (65 \<le> n \<and> n \<le> 90) \<or>
     n = 95 \<or> (97 \<le> n \<and> n \<le> 122)) \<or> c = CHR ''-''"

text \<open>\<open>/^[a-zA-Z0-9_-]{1,64}$/\<close>\<close>

definition node_name_rx :: rx where
  "node_name_rx = rx_between 1 63 (RSet node_char)"

definition handleCreate :: "wizard \<Rightarrow> wizard_result" where
  "handleCreate st =
     (let trimmedName = js_trim (wz_name st) in
      if trimmedName = [] then (st, [AskName])
      else if \<not> rx_test node_name_rx trimmedName then (st, [BadName])
      else (st\<lparr>wz_submitting := True\<rparr>, [RequestCreateNode trimmedName (js_trim (wz_description st))]))"

definition handleCreate_created :: "TunnelNodeKey settled \<Rightarrow> wizard \<Rightarrow> wizard_result" where
  "handleCreate_created s st =
     (case s of
        Rejected e \<Rightarrow> (st\<lparr>wz_submitting := False\<rparr>, [CreateNodeFailed (Some e)])
      | Resolved r \<Rightarrow>
          (case resp_data r of
             None \<Rightarrow> (st\<lparr>wz_submitting := False\<rparr>, [CreateNodeFailed None])
           | Some k \<Rightarrow> (st\<lparr>wz_name := nk_name k, wz_nodeKey := nk_nodeKey k\<rparr>, [RequestConfig (nk_name k)])))"

definition handleCreate_config :: "TunnelClientConfig settled \<Rightarrow> wizard \<Rightarrow> wizard_result" where
  "handleCreate_config s st =
     (case s of
        Rejected e \<Rightarrow> (st\<lparr>wz_submitting := False\<rparr>, [CreateNodeFailed (Some e)])
      | Resolved r \<Rightarrow> (st\<lparr>wz_config := resp_data r, wz_step := 2, wz_submitting := False\<rparr>, [NodeCreated]))"

definition download_json :: "wizard \<Rightarrow> wizard_result" where
  "download_json st =
     (st, case wz_config st of None \<Rightarrow> [] | Some c \<Rightarrow> [SaveJson (tc_tunnelJson c)])"

datatype wizard_view = StepOne bool
  | StepTwo string bool string bool string string

text \<open>Step two: name, online, key, the warning about a missing tunnel server, command and file.\<close>

definition wizard_view_of :: "wizard \<Rightarrow> wizard_view" where
  "wizard_view_of st =
     (if wz_step st = 1 then StepOne (wz_submitting st)
      else StepTwo (wz_name st) (wz_online st) (wz_nodeKey st)
        (case wz_config st of None \<Rightarrow> False | Some c \<Rightarrow> \<not> tc_hasTunnelServer c)
        (case wz_config st of None \<Rightarrow> [] | Some c \<Rightarrow> tc_command c)
        (case wz_config st of None \<Rightarrow> [] | Some c \<Rightarrow> tc_tunnelJson c))"

text \<open>The two fields of the first step.\<close>

datatype wz_field = WzName string | WzDescription string

fun wz_change :: "wz_field \<Rightarrow> wizard \<Rightarrow> wizard" where
  "wz_change (WzName t) st = st\<lparr>wz_name := t\<rparr>"
| "wz_change (WzDescription t) st = st\<lparr>wz_description := t\<rparr>"

subsection \<open>The detail sheet\<close>

record sheet =
  sh_node :: "TunnelNode option"
  sh_loading :: bool
  sh_command :: string
  sh_tunnelJson :: string
  sh_newKey :: string
  sh_confirm :: bool
  sh_regenerating :: bool

definition init_sheet :: sheet where
  "init_sheet = \<lparr>sh_node = None, sh_loading = False, sh_command = [], sh_tunnelJson = [], sh_newKey = [],
     sh_confirm = False, sh_regenerating = False\<rparr>"

datatype sheet_effect = SheetDetail string | SheetConfig string | DetailFailed err_text
  | PutEnabled string bool | PutOverrides string "(string \<times> bool) list" | UpdateFailed err_text
  | EnabledChanged bool | ProxyChanged | PostRegenerate string | KeyReset | RegenerateFailed "err_text option"
  | SheetChanged | SheetSaveJson string

type_synonym sheet_result = "sheet \<times> sheet_effect list"

definition sheet_open_effect :: "bool \<Rightarrow> string option \<Rightarrow> sheet \<Rightarrow> sheet_result" where
  "sheet_open_effect opn nodeName st =
     (case (opn, non_empty nodeName) of
        (True, Some n) \<Rightarrow> (st\<lparr>sh_loading := True\<rparr>, [SheetDetail n, SheetConfig n])
      | _ \<Rightarrow> (st\<lparr>sh_node := None, sh_command := [], sh_tunnelJson := [], sh_newKey := [], sh_confirm := False\<rparr>, []))"

definition loadDetail_done :: "TunnelNode settled \<Rightarrow> sheet \<Rightarrow> sheet_result" where
  "loadDetail_done s st =
     (case s of Resolved r \<Rightarrow> (st\<lparr>sh_node := resp_data r\<rparr>, []) | Rejected e \<Rightarrow> (st, [DetailFailed e]))"

definition sheet_config_done :: "TunnelClientConfig settled \<Rightarrow> sheet \<Rightarrow> sheet" where
  "sheet_config_done s st =
     (case s of
        Resolved r \<Rightarrow> (case resp_data r of None \<Rightarrow> st
          | Some c \<Rightarrow> st\<lparr>sh_command := tc_command c, sh_tunnelJson := tc_tunnelJson c\<rparr>)
      | Rejected e \<Rightarrow> st)"

text \<open>When both requests of the opening have settled.\<close>

definition sheet_settled :: "sheet \<Rightarrow> sheet" where
  "sheet_settled st = st\<lparr>sh_loading := False\<rparr>"

definition handleToggleEnabled :: "bool \<Rightarrow> sheet \<Rightarrow> sheet_result" where
  "handleToggleEnabled enabled st =
     (st, case sh_node st of None \<Rightarrow> [] | Some n \<Rightarrow> [PutEnabled (tn_name n) enabled])"

definition handleToggleEnabled_done :: "string option \<Rightarrow> bool \<Rightarrow> 'a settled \<Rightarrow> sheet \<Rightarrow> sheet_result" where
  "handleToggleEnabled_done nodeName enabled s st =
     (st, case s of
        Rejected e \<Rightarrow> [UpdateFailed e]
      | Resolved r \<Rightarrow> EnabledChanged enabled # (case non_empty nodeName of None \<Rightarrow> [SheetChanged] | Some n \<Rightarrow> [SheetDetail n]))"

text \<open>The overrides that are sent: those that differ from what the client reported.\<close>

definition proxy_overrides :: "string \<Rightarrow> bool \<Rightarrow> TunnelProxy list \<Rightarrow> (string \<times> bool) list" where
  "proxy_overrides proxyId enabled proxies =
     map (\<lambda>(p, nxt). (px_id p, nxt))
       (filter (\<lambda>(p, nxt). nxt \<noteq> px_reported p)
          (map (\<lambda>p. (p, if px_id p = proxyId then enabled else px_effective p)) proxies))"

definition handleToggleProxy :: "string \<Rightarrow> bool \<Rightarrow> sheet \<Rightarrow> sheet_result" where
  "handleToggleProxy proxyId enabled st =
     (st, case sh_node st of None \<Rightarrow> []
        | Some n \<Rightarrow> [PutOverrides (tn_name n) (proxy_overrides proxyId enabled (tn_proxies n))])"

definition handleToggleProxy_done :: "string option \<Rightarrow> 'a settled \<Rightarrow> sheet \<Rightarrow> sheet_result" where
  "handleToggleProxy_done nodeName s st =
     (st, case s of
        Rejected e \<Rightarrow> [UpdateFailed e]
      | Resolved r \<Rightarrow> ProxyChanged # (case non_empty nodeName of None \<Rightarrow> [SheetChanged] | Some n \<Rightarrow> [SheetDetail n]))"

text \<open>What follows the second await of both: the list is told.\<close>

definition toggle_reloaded :: "TunnelNode settled \<Rightarrow> sheet \<Rightarrow> sheet_result" where
  "toggle_reloaded s st = (case loadDetail_done s st of (st', es) \<Rightarrow> (st', es @ [SheetChanged]))"

definition handleRegenerateKey :: "sheet \<Rightarrow> sheet_result" where
  "handleRegenerateKey st =
     (case sh_node st of None \<Rightarrow> (st, [])
      | Some n \<Rightarrow> (st\<lparr>sh_regenerating := True\<rparr>, [PostRegenerate (tn_name n)]))"

definition handleRegenerateKey_done :: "string \<Rightarrow> TunnelNodeKey settled \<Rightarrow> sheet \<Rightarrow> sheet_result" where
  "handleRegenerateKey_done name s st =
     (case s of
        Rejected e \<Rightarrow> (st\<lparr>sh_regenerating := False\<rparr>, [RegenerateFailed (Some e)])
      | Resolved r \<Rightarrow>
          (case resp_data r of
             None \<Rightarrow> (st\<lparr>sh_regenerating := False\<rparr>, [RegenerateFailed None])
           | Some k \<Rightarrow> (st\<lparr>sh_newKey := nk_nodeKey k, sh_confirm := False\<rparr>, [KeyReset, SheetConfig name])))"

definition handleRegenerateKey_config :: "TunnelClientConfig settled \<Rightarrow> sheet \<Rightarrow> sheet_result" where
  "handleRegenerateKey_config s st =
     (case s of
        Rejected e \<Rightarrow> (st\<lparr>sh_regenerating := False\<rparr>, [RegenerateFailed (Some e)])
      | Resolved r \<Rightarrow>
          (case resp_data r of
             None \<Rightarrow> (st\<lparr>sh_regenerating := False\<rparr>, [RegenerateFailed None])
           | Some c \<Rightarrow> (st\<lparr>sh_command := tc_command c, sh_tunnelJson := tc_tunnelJson c, sh_regenerating := False\<rparr>,
               [SheetChanged])))"

definition sheet_download :: "sheet \<Rightarrow> sheet_result" where
  "sheet_download st = (st, if sh_tunnelJson st = [] then [] else [SheetSaveJson (sh_tunnelJson st)])"

definition ask_regenerate :: "bool \<Rightarrow> sheet \<Rightarrow> sheet" where
  "ask_regenerate b st = st\<lparr>sh_confirm := b\<rparr>"

record proxy_row =
  pr_route :: string
  pr_remote :: string
  pr_overridden :: bool
  pr_domains :: "string list option"
  pr_description :: "string option"
  pr_switch :: bool

definition proxy_row_of :: "TunnelProxy \<Rightarrow> proxy_row" where
  "proxy_row_of p =
     \<lparr>pr_route = (if px_route p = [] then ''/'' else px_route p), pr_remote = px_localRemote p,
      pr_overridden = px_overridden p,
      pr_domains = (if px_domains p = [] then None else Some (px_domains p)),
      pr_description = non_empty (Some (px_description p)), pr_switch = px_effective p\<rparr>"

record sheet_content =
  sc_enabled :: bool
  sc_lastConnect :: "string option"
  sc_createdAt :: "string option"
  sc_heartbeat :: "nat option"
  sc_key :: "string option"
  sc_confirm :: "bool option"
  sc_command :: "string option"
  sc_download_disabled :: bool
  sc_rows :: "proxy_row list"

datatype sheet_view = SheetLoading | SheetContent sheet_content

definition sheet_view_of :: "(string \<Rightarrow> string) \<Rightarrow> sheet \<Rightarrow> sheet_view" where
  "sheet_view_of fmt st =
     (case sh_node st of
        None \<Rightarrow> SheetLoading
      | Some n \<Rightarrow>
          if sh_loading st then SheetLoading
          else SheetContent
            \<lparr>sc_enabled = tn_enabled n,
             sc_lastConnect = map_option fmt (non_empty (tn_lastConnectTime n)),
             sc_createdAt = map_option fmt (non_empty (Some (tn_createdAt n))),
             sc_heartbeat = (if 0 < tn_heartbeat n then Some (tn_heartbeat n) else None),
             sc_key = non_empty (Some (sh_newKey st)),
             sc_confirm = (if sh_confirm st then Some (sh_regenerating st) else None),
             sc_command = non_empty (Some (sh_command st)),
             sc_download_disabled = (sh_tunnelJson st = []),
             sc_rows = map proxy_row_of (tn_proxies n)\<rparr>)"

subsection \<open>Laws\<close>

text \<open>What the gateway makes of a full set of overrides.\<close>

definition effective :: "(string \<times> bool) list \<Rightarrow> TunnelProxy \<Rightarrow> bool" where
  "effective overrides p = (case map_of overrides (px_id p) of None \<Rightarrow> px_reported p | Some b \<Rightarrow> b)"

lemma map_of_overrides:
  assumes "distinct (map px_id proxies)" and "p \<in> set proxies"
  shows "map_of (proxy_overrides i enabled proxies) (px_id p) =
    (let nxt = (if px_id p = i then enabled else px_effective p)
     in if nxt = px_reported p then None else Some nxt)"
  using assms
proof (induction proxies)
  case (Cons q qs)
  have skip: "map_of (proxy_overrides i enabled qs) (px_id q) = None" if "px_id q \<notin> px_id ` set qs"
    using that by (auto simp: proxy_overrides_def map_of_eq_None_iff)
  show ?case
  proof (cases "p = q")
    case True
    then show ?thesis using skip Cons.prems(1)
      by (cases "(if px_id q = i then enabled else px_effective q) = px_reported q")
         (simp_all add: proxy_overrides_def Let_def split: if_splits)
  next
    case False
    then have mem: "p \<in> set qs" using Cons.prems(2) by simp
    then have "px_id p \<in> px_id ` set qs" by simp
    then have other: "px_id p \<noteq> px_id q" using Cons.prems(1) by auto
    have "map_of (proxy_overrides i enabled (q # qs)) (px_id p) = map_of (proxy_overrides i enabled qs) (px_id p)"
      using other by (simp add: proxy_overrides_def)
    then show ?thesis using Cons.IH Cons.prems(1) mem by simp
  qed
qed simp

lemma effective_overrides:
  assumes "distinct (map px_id proxies)" and "p \<in> set proxies"
  shows "effective (proxy_overrides i enabled proxies) p = (if px_id p = i then enabled else px_effective p)"
  unfolding effective_def map_of_overrides [OF assms] by (auto simp: Let_def)

lemma node_name_iff: "rx_test node_name_rx s \<longleftrightarrow> s \<noteq> [] \<and> length s \<le> 64 \<and> list_all node_char s"
  unfolding rx_test_iff node_name_rx_def in_between_set by (cases s) auto

end
