(* ===== verification/ProtectForms.thy ===== *)
theory ProtectForms
  imports JsRegex RouteForm
begin

text \<open>
  The forms of the protection pages: a new entry of the black or white list
  (\<open>web/src/pages/protect-config/features/CreateBlacklistAndWhitelist.tsx\<close>) and a new rate limit
  (\<open>rate-limit/feautres/CreateRateLimit.tsx\<close>). Neither resets its value when it is opened. A
  region is a country or a province of China; the code writes the latter with a prefix.
\<close>

subsection \<open>Black and white list entries\<close>

datatype region = Country string | Province string

record RegionCatalog =
  rc_countries :: "string list option"
  rc_chinaProvinces :: "string list option"

record access_value =
  av_ips :: "string list"
  av_regions :: "region list"
  av_name :: string
  av_description :: string
  av_enable :: bool
  av_isBlacklist :: bool

record access_form =
  af_value :: access_value
  af_ipInput :: string
  af_catalog :: "RegionCatalog option"

text \<open>The initial state is made when the dialog is mounted, not when it is opened.\<close>

definition mount_access :: "bool \<Rightarrow> access_form" where
  "mount_access isBlacklist =
     \<lparr>af_value = \<lparr>av_ips = [], av_regions = [], av_name = [], av_description = [], av_enable = True,
        av_isBlacklist = isBlacklist\<rparr>, af_ipInput = [], af_catalog = None\<rparr>"

datatype access_error = NeedName | NeedIpOrRegion | NeedIp | BadIp

datatype access_effect = AccessError access_error | RequestRegions
  | PostAccess access_value "region list option" | AccessCreated | AccessOnOk | AccessFailed

type_synonym access_result = "access_form \<times> access_effect list"

text \<open>The effect on the visibility, the kind and the catalog.\<close>

definition catalog_effect :: "bool \<Rightarrow> bool \<Rightarrow> access_form \<Rightarrow> access_result" where
  "catalog_effect visible isBlacklist st =
     (st, if \<not> visible \<or> \<not> isBlacklist \<or> af_catalog st \<noteq> None then [] else [RequestRegions])"

definition catalog_done :: "RegionCatalog option settled \<Rightarrow> access_form \<Rightarrow> access_form" where
  "catalog_done s st =
     (case s of
        Resolved r \<Rightarrow> st\<lparr>af_catalog := (case resp_data r of None \<Rightarrow> None | Some c \<Rightarrow> c)\<rparr>
      | Rejected e \<Rightarrow> st\<lparr>af_catalog := Some \<lparr>rc_countries = Some [], rc_chinaProvinces = Some []\<rparr>\<rparr>)"

definition regionOptions :: "access_form \<Rightarrow> region list" where
  "regionOptions st =
     (case af_catalog st of None \<Rightarrow> []
      | Some c \<Rightarrow> map Country (case rc_countries c of None \<Rightarrow> [] | Some cs \<Rightarrow> cs) @
          map Province (case rc_chinaProvinces c of None \<Rightarrow> [] | Some ps \<Rightarrow> ps))"

text \<open>\<open>/^(\d{1,3}\.){3}\d{1,3}$/\<close>\<close>

definition ip_rx :: rx where
  "ip_rx = RSeq (rx_times 3 (RSeq (rx_between 1 2 (RSet js_digit)) (rx_char (CHR ''.''))))
     (rx_between 1 2 (RSet js_digit))"

definition add_ip :: "access_form \<Rightarrow> access_result" where
  "add_ip st =
     (let ip = js_trim (af_ipInput st) in
      if \<not> rx_test ip_rx ip then (st, [AccessError BadIp])
      else (st\<lparr>af_value := (if ip \<in> set (av_ips (af_value st)) then af_value st
                 else (af_value st)\<lparr>av_ips := av_ips (af_value st) @ [ip]\<rparr>),
               af_ipInput := []\<rparr>, []))"

definition remove_ip :: "nat \<Rightarrow> access_form \<Rightarrow> access_form" where
  "remove_ip k st = st\<lparr>af_value := (af_value st)\<lparr>av_ips := remove_at k (av_ips (af_value st))\<rparr>\<rparr>"

datatype access_edit = AxName string | AxDescription string | AxInput string | AxAddIp | AxRemoveIp nat
  | AxRegions "region list" | AxEnable bool

text \<open>The regions are offered for a black list, the switch for a white list.\<close>

fun edit_access :: "bool \<Rightarrow> access_edit \<Rightarrow> access_form \<Rightarrow> access_form" where
  "edit_access bl (AxName t) st = st\<lparr>af_value := (af_value st)\<lparr>av_name := t\<rparr>\<rparr>"
| "edit_access bl (AxDescription t) st = st\<lparr>af_value := (af_value st)\<lparr>av_description := t\<rparr>\<rparr>"
| "edit_access bl (AxInput t) st = st\<lparr>af_ipInput := t\<rparr>"
| "edit_access bl AxAddIp st = fst (add_ip st)"
| "edit_access bl (AxRemoveIp k) st = remove_ip k st"
| "edit_access bl (AxRegions rs) st =
     (if bl then st\<lparr>af_value := (af_value st)\<lparr>av_regions := rs\<rparr>\<rparr> else st)"
| "edit_access bl (AxEnable b) st =
     (if bl then st else st\<lparr>af_value := (af_value st)\<lparr>av_enable := b\<rparr>\<rparr>)"

definition save_access :: "bool \<Rightarrow> access_form \<Rightarrow> access_result" where
  "save_access isBlacklist st =
     (let v = af_value st in
      (st,
       if av_name v = [] then [AccessError NeedName]
       else if isBlacklist \<and> av_ips v = [] \<and> av_regions v = [] then [AccessError NeedIpOrRegion]
       else if \<not> isBlacklist \<and> av_ips v = [] then [AccessError NeedIp]
       else [PostAccess v (if isBlacklist then Some (av_regions v) else None)]))"

definition save_access_done :: "'a settled \<Rightarrow> access_form \<Rightarrow> access_result" where
  "save_access_done s st =
     (st, case s of Resolved r \<Rightarrow> [AccessCreated, AccessOnOk] | Rejected e \<Rightarrow> [AccessFailed])"

subsection \<open>Rate limits\<close>

record RateLimit =
  rt_id :: "string option"
  rt_name :: string
  rt_enable :: bool
  rt_endpoint :: string
  rt_period :: string
  rt_limit :: int
  rt_endpointWhitelist :: "string list"
  rt_ipWhitelist :: "string list"

definition init_rate_limit :: RateLimit where
  "init_rate_limit =
     \<lparr>rt_id = None, rt_name = [], rt_enable = True, rt_endpoint = [], rt_period = [], rt_limit = 1,
      rt_endpointWhitelist = [], rt_ipWhitelist = []\<rparr>"

definition periodOptions :: "string list" where
  "periodOptions = [''1s'', ''1m'', ''1h'', ''1d'', ''1w'', ''1M'']"

fun digits_value :: "int \<Rightarrow> string \<Rightarrow> int" where
  "digits_value acc [] = acc"
| "digits_value acc (c # s) = digits_value (10 * acc + (of_char c - 48)) s"

text \<open>\<open>parseInt\<close> on the text of a number field (which has no hexadecimal prefix).\<close>

definition parse_int :: "string \<Rightarrow> int option" where
  "parse_int s =
     (let t = dropWhile js_space s;
          neg = starts_with t ''-'';
          r = (if neg \<or> starts_with t ''+'' then tl t else t);
          ds = takeWhile js_digit r
      in if ds = [] then None else Some (if neg then - digits_value 0 ds else digits_value 0 ds))"

definition newline :: char where "newline = CHR 10"

definition join_lines :: "string list \<Rightarrow> string" where
  "join_lines ls = join_with newline ls"

definition whitelist_of :: "string \<Rightarrow> string list" where
  "whitelist_of text_area = filter (\<lambda>v. js_trim v \<noteq> []) (split_on newline text_area)"

datatype rate_edit = RtName string | RtEnable bool | RtEndpoint string | RtLimit string | RtPeriod string
  | RtEndpoints string | RtIps string

fun edit_rate :: "RateLimit \<Rightarrow> rate_edit \<Rightarrow> RateLimit" where
  "edit_rate v (RtName t) = v\<lparr>rt_name := t\<rparr>"
| "edit_rate v (RtEnable b) = v\<lparr>rt_enable := b\<rparr>"
| "edit_rate v (RtEndpoint t) = v\<lparr>rt_endpoint := t\<rparr>"
| "edit_rate v (RtLimit t) =
     v\<lparr>rt_limit := (case parse_int t of None \<Rightarrow> 1 | Some n \<Rightarrow> if n = 0 then 1 else n)\<rparr>"
| "edit_rate v (RtPeriod p) = (if p \<in> set periodOptions then v\<lparr>rt_period := p\<rparr> else v)"
| "edit_rate v (RtEndpoints t) = v\<lparr>rt_endpointWhitelist := whitelist_of t\<rparr>"
| "edit_rate v (RtIps t) = v\<lparr>rt_ipWhitelist := whitelist_of t\<rparr>"

datatype rate_error = RtNeedName | RtNeedEndpoint | RtNeedLimit | RtNeedPeriod | RtLimitLow

datatype rate_effect = RateError rate_error | PostRate RateLimit | RateCreated | RateOnOk | RateFailed

definition save_rate :: "RateLimit \<Rightarrow> rate_effect list" where
  "save_rate v =
     (if rt_name v = [] then [RateError RtNeedName]
      else if rt_endpoint v = [] then [RateError RtNeedEndpoint]
      else if rt_limit v = 0 then [RateError RtNeedLimit]
      else if rt_period v = [] then [RateError RtNeedPeriod]
      else if rt_limit v < 1 then [RateError RtLimitLow]
      else [PostRate v])"

definition save_rate_done :: "'a settled \<Rightarrow> rate_effect list" where
  "save_rate_done s = (case s of Resolved r \<Rightarrow> [RateCreated, RateOnOk] | Rejected e \<Rightarrow> [RateFailed])"

subsection \<open>Laws\<close>

definition octets :: "string \<Rightarrow> bool" where
  "octets d \<longleftrightarrow> d \<noteq> [] \<and> length d \<le> 3 \<and> list_all js_digit d"

lemma in_group: "rx_in (rx_between 1 2 (RSet js_digit)) d \<longleftrightarrow> octets d"
  unfolding in_between_set octets_def by (cases d) auto

lemma ip_iff: "rx_test ip_rx s \<longleftrightarrow> (\<exists>a b c d. s = a @ ''.'' @ b @ ''.'' @ c @ ''.'' @ d \<and>
    octets a \<and> octets b \<and> octets c \<and> octets d)"
proof
  assume "rx_test ip_rx s"
  then show "\<exists>a b c d. s = a @ ''.'' @ b @ ''.'' @ c @ ''.'' @ d \<and> octets a \<and> octets b \<and> octets c \<and> octets d"
    unfolding rx_test_iff ip_rx_def numeral_3_eq_3 rx_times.simps rx_in_simps(4) in_group in_rx_char rx_in_simps(2)
    by fastforce
next
  assume "\<exists>a b c d. s = a @ ''.'' @ b @ ''.'' @ c @ ''.'' @ d \<and> octets a \<and> octets b \<and> octets c \<and> octets d"
  then obtain a b c d where s: "s = ((a @ ''.'') @ (b @ ''.'') @ (c @ ''.'') @ []) @ d"
    and o: "octets a" "octets b" "octets c" "octets d" by auto
  show "rx_test ip_rx s"
    unfolding rx_test_iff ip_rx_def numeral_3_eq_3 rx_times.simps s
    by (intro in_seq in_empty) (simp_all only: in_group in_rx_char o)
qed

text \<open>The addresses of the form are distinct and match the pattern, whatever is edited.\<close>

definition access_inv :: "access_form \<Rightarrow> bool" where
  "access_inv st \<longleftrightarrow> distinct (av_ips (af_value st)) \<and> list_all (rx_test ip_rx) (av_ips (af_value st))"

lemma distinct_remove_at: "distinct xs \<Longrightarrow> distinct (remove_at k xs)"
proof -
  assume dist: "distinct xs"
  then have d: "distinct (take k xs @ drop k xs)" by simp
  have "set (drop (Suc k) xs) \<subseteq> set (drop k xs)" by (rule set_drop_subset_set_drop) simp
  then show "distinct (remove_at k xs)"
    using d distinct_drop [OF dist, of "Suc k"] unfolding remove_at_eq distinct_append by auto
qed

lemma set_remove_at: "set (remove_at k xs) \<subseteq> set xs"
  unfolding remove_at_eq using set_take_subset set_drop_subset by fastforce

lemma access_inv_step: "access_inv st \<Longrightarrow> access_inv (edit_access bl e st)"
proof (cases e)
  case AxAddIp
  then show "access_inv st \<Longrightarrow> ?thesis" by (auto simp: access_inv_def add_ip_def Let_def)
next
  case (AxRemoveIp k)
  then show "access_inv st \<Longrightarrow> ?thesis"
    using set_remove_at [of k "av_ips (af_value st)"] distinct_remove_at
    by (auto simp: access_inv_def remove_ip_def list_all_iff)
qed (auto simp: access_inv_def)

interpretation access_machine: invariant_machine "\<lambda>st e. edit_access bl e st" access_inv "mount_access bl0"
  for bl bl0
proof
  show "access_inv (mount_access bl0)" by (simp add: access_inv_def mount_access_def)
  show "access_inv s \<Longrightarrow> access_inv (edit_access bl e s)" for s e by (rule access_inv_step)
qed

text \<open>The mark of the kind is never edited.\<close>

lemma kind_kept: "av_isBlacklist (af_value (edit_access bl e st)) = av_isBlacklist (af_value st)"
  by (cases e) (simp_all add: add_ip_def remove_ip_def Let_def)

lemma kind_kept_run:
  "av_isBlacklist (af_value (run_events (\<lambda>st e. edit_access bl e st) st es)) = av_isBlacklist (af_value st)"
  by (induction es arbitrary: st) (simp_all add: kind_kept)

text \<open>Lines.\<close>

lemma split_join:
  "ls \<noteq> [] \<Longrightarrow> list_all (\<lambda>l. newline \<notin> set l) ls \<Longrightarrow>
   split_on newline (join_lines ls @ newline # s) = ls @ split_on newline s"
proof (induction newline ls rule: join_with.induct)
  case (3 l m ms)
  then show ?case by (simp add: split_on_append join_lines_def)
qed (simp_all add: split_on_append join_lines_def)

lemma split_no_newline: "list_all (\<lambda>l. newline \<notin> set l) (split_on newline s)"
  by (induction s) (auto split: list.splits)

definition lines_ok :: "string list \<Rightarrow> bool" where
  "lines_ok ls \<longleftrightarrow> list_all (\<lambda>l. newline \<notin> set l \<and> js_trim l \<noteq> []) ls"

lemma lines_ok_whitelist: "lines_ok (whitelist_of t)"
  using split_no_newline [of t] by (auto simp: lines_ok_def whitelist_of_def list_all_iff)

lemma newline_lost: "lines_ok ls \<Longrightarrow> ls \<noteq> [] \<Longrightarrow> whitelist_of (join_lines ls @ [newline]) = ls"
  using split_join [of ls "[]"] by (auto simp: lines_ok_def whitelist_of_def list_all_iff filter_id_conv)

definition rate_inv :: "RateLimit \<Rightarrow> bool" where
  "rate_inv v \<longleftrightarrow> lines_ok (rt_endpointWhitelist v) \<and> lines_ok (rt_ipWhitelist v) \<and> rt_limit v \<noteq> 0 \<and>
     (rt_period v = [] \<or> rt_period v \<in> set periodOptions)"

interpretation rate_machine: invariant_machine edit_rate rate_inv init_rate_limit
proof
  show "rate_inv init_rate_limit" by (simp add: rate_inv_def init_rate_limit_def lines_ok_def)
  show "rate_inv s \<Longrightarrow> rate_inv (edit_rate s e)" for s e
    by (cases e) (auto simp: rate_inv_def lines_ok_whitelist split: option.splits)
qed

end
