(* ===== verification/SecurityPages.thy ===== *)
theory SecurityPages
  imports ProtectForms JsNumber "HOL-Library.List_Lexorder" "HOL-Library.Char_ord"
begin

text \<open>
  The paged lists of the security pages: access control
  (\<open>web/src/pages/security/access/index.tsx\<close>), threats (\<open>threats/index.tsx\<close>), the log of blocked
  requests (\<open>logs/index.tsx\<close>) with the filter bar (\<open>shared/FilterBar.tsx\<close>) and the store it
  sets (\<open>dashboard/store.ts\<close>), and the rate limits (\<open>protect-config/rate-limit/index.tsx\<close>). A
  handler keeps the paging of the render it was created in; its continuation takes it as
  \<open>captured\<close>. These pages have no handler for a failed load: \<open>Unhandled\<close>.
\<close>

record 'r paged =
  pd_page :: nat
  pd_pageSize :: nat
  pd_total :: nat
  pd_data :: "'r list"
  pd_loading :: bool

definition init_paged :: "'r paged" where
  "init_paged = \<lparr>pd_page = 1, pd_pageSize = 10, pd_total = 0, pd_data = [], pd_loading = False\<rparr>"

definition pd_paging :: "'r paged \<Rightarrow> nat \<times> nat" where
  "pd_paging p = (pd_page p, pd_pageSize p)"

record 'r page_answer =
  pa_items :: "'r list"
  pa_total :: nat

subsection \<open>Access control\<close>

datatype AccessKind = Deny | Allow

record access_row =
  ar_id :: string
  ar_name :: string
  ar_enable :: bool
  ar_ips :: "string list option"
  ar_regions :: "string list option"
  ar_description :: string
  ar_createdAt :: string

record access_page =
  ac_kind :: AccessKind
  ac_list :: "access_row paged"
  ac_createVisible :: bool
  ac_columns :: "bool \<times> nat \<times> nat"
  ac_dialog :: access_form

text \<open>
  \<open>ac_columns\<close> is the kind and the paging captured by the delete buttons: the columns are made
  again only when the kind changes. \<open>ac_dialog\<close> is the state of the dialog, mounted with the page.
\<close>

definition isBlacklist :: "access_page \<Rightarrow> bool" where
  "isBlacklist st \<longleftrightarrow> ac_kind st = Deny"

definition init_access_page :: access_page where
  "init_access_page =
     \<lparr>ac_kind = Deny, ac_list = init_paged, ac_createVisible = False, ac_columns = (True, 1, 10),
      ac_dialog = mount_access True\<rparr>"

datatype page_effect = RequestAccess bool nat nat | Unhandled | RequestDelete string | EntryDeleted
  | EntryDeleteFailed

type_synonym access_page_result = "access_page \<times> page_effect list"

text \<open>What a load reads of the render it is created in: the kind, the page and its size.\<close>

definition access_args :: "access_page \<Rightarrow> bool \<times> nat \<times> nat" where
  "access_args st = (isBlacklist st, pd_paging (ac_list st))"

definition loadAccess :: "bool \<times> nat \<times> nat \<Rightarrow> access_page \<Rightarrow> access_page_result" where
  "loadAccess captured st =
     (st\<lparr>ac_list := (ac_list st)\<lparr>pd_loading := True\<rparr>\<rparr>,
      [RequestAccess (fst captured) (fst (snd captured)) (snd (snd captured))])"

definition loadAccess_done :: "access_row page_answer settled \<Rightarrow> access_page \<Rightarrow> access_page_result" where
  "loadAccess_done s st =
     (case s of
        Rejected e \<Rightarrow> (st\<lparr>ac_list := (ac_list st)\<lparr>pd_loading := False\<rparr>\<rparr>, [Unhandled])
      | Resolved r \<Rightarrow>
          (case resp_data r of
             None \<Rightarrow> (st\<lparr>ac_list := (ac_list st)\<lparr>pd_loading := False\<rparr>\<rparr>, [Unhandled])
           | Some d \<Rightarrow>
               (st\<lparr>ac_list := (ac_list st)\<lparr>pd_data := pa_items d, pd_total := pa_total d, pd_loading := False\<rparr>\<rparr>, [])))"

definition access_load_effect :: "access_page \<Rightarrow> access_page \<Rightarrow> access_page_result" where
  "access_load_effect before st =
     (if ac_kind before = ac_kind st \<and> pd_paging (ac_list before) = pd_paging (ac_list st) then (st, [])
      else loadAccess (access_args st) st)"

definition handleDeleteEntry :: "string \<Rightarrow> access_page \<Rightarrow> access_page_result" where
  "handleDeleteEntry i st = (st, [RequestDelete i])"

definition handleDeleteEntry_done :: "bool \<times> nat \<times> nat \<Rightarrow> 'a settled \<Rightarrow> access_page \<Rightarrow> access_page_result" where
  "handleDeleteEntry_done captured s st =
     (case s of
        Rejected e \<Rightarrow> (st, [EntryDeleteFailed])
      | Resolved r \<Rightarrow> (case loadAccess captured st of (st', es) \<Rightarrow> (st', EntryDeleted # es)))"

definition switchKind :: "AccessKind \<Rightarrow> access_page \<Rightarrow> access_page" where
  "switchKind nxt st =
     (if nxt = ac_kind st then st
      else let l = (ac_list st)\<lparr>pd_page := 1\<rparr> in
        st\<lparr>ac_kind := nxt, ac_list := l, ac_columns := (nxt = Deny, pd_paging l)\<rparr>)"

definition set_access_page :: "nat \<Rightarrow> nat \<Rightarrow> access_page \<Rightarrow> access_page" where
  "set_access_page p s st = st\<lparr>ac_list := (ac_list st)\<lparr>pd_page := p, pd_pageSize := s\<rparr>\<rparr>"

definition open_access_dialog :: "access_page \<Rightarrow> access_page" where
  "open_access_dialog st = st\<lparr>ac_createVisible := True\<rparr>"

definition close_access_dialog :: "access_page \<Rightarrow> access_page" where
  "close_access_dialog st = st\<lparr>ac_createVisible := False\<rparr>"

definition edit_access_dialog :: "access_edit \<Rightarrow> access_page \<Rightarrow> access_page" where
  "edit_access_dialog e st = st\<lparr>ac_dialog := edit_access (isBlacklist st) e (ac_dialog st)\<rparr>"

definition save_access_dialog :: "access_page \<Rightarrow> access_effect list" where
  "save_access_dialog st = snd (save_access (isBlacklist st) (ac_dialog st))"

definition access_dialog_ok :: "bool \<times> nat \<times> nat \<Rightarrow> access_page \<Rightarrow> access_page_result" where
  "access_dialog_ok captured st = loadAccess captured (st\<lparr>ac_createVisible := False\<rparr>)"

datatype access_cell = CellForced | CellEnabled bool

definition access_cells ::
  "bool \<Rightarrow> access_row \<Rightarrow> string \<times> access_cell \<times> nat \<times> (string list \<times> nat) option \<times> string" where
  "access_cells bl r =
     (ar_name r, (if bl then CellForced else CellEnabled (ar_enable r)),
      (case ar_ips r of None \<Rightarrow> 0 | Some is \<Rightarrow> length is),
      (let regions = (case ar_regions r of None \<Rightarrow> [] | Some rs \<Rightarrow> rs) in
       if \<not> bl \<or> regions = [] then None else Some (take 3 regions, length regions - 3)),
      (if ar_description r = [] then ''-'' else ar_description r))"

text \<open>A run of the page: what the user does and what arrives.\<close>

datatype access_event = EvSwitch AccessKind | EvPage nat nat | EvOpen | EvEdit access_edit
  | EvLoad "bool \<times> nat \<times> nat" | EvAnswer "access_row page_answer settled" | EvClose
  | EvSaved "bool \<times> nat \<times> nat" | EvDeleted "bool \<times> nat \<times> nat" "unit settled"

fun access_step :: "access_page \<Rightarrow> access_event \<Rightarrow> access_page" where
  "access_step st (EvSwitch k) = switchKind k st"
| "access_step st (EvPage p s) = set_access_page p s st"
| "access_step st EvOpen = open_access_dialog st"
| "access_step st (EvEdit e) = edit_access_dialog e st"
| "access_step st (EvLoad k) = fst (loadAccess k st)"
| "access_step st (EvAnswer s) = fst (loadAccess_done s st)"
| "access_step st EvClose = close_access_dialog st"
| "access_step st (EvSaved k) = fst (access_dialog_ok k st)"
| "access_step st (EvDeleted k s) = fst (handleDeleteEntry_done k s st)"

subsection \<open>Threats\<close>

definition ABNORMAL_THRESHOLD :: nat where "ABNORMAL_THRESHOLD = 20"

record AbnormalIp =
  ab_ip :: string
  ab_windowErrorCount :: nat
  ab_totalErrorCount :: nat
  ab_firstSeen :: string
  ab_lastSeen :: string
  ab_lastError :: "string option"
  ab_topError :: "string option"
  ab_lastPath :: "string option"
  ab_lastMethod :: "string option"
  ab_lastStatusCode :: "nat option"
  ab_lastServerId :: "string option"

record threat_page =
  th_list :: "AbnormalIp paged"
  th_blacklisting :: "string option"
  th_unblacklisting :: "string option"

datatype threat_effect = RequestThreats nat nat | ThreatUnhandled | PostBlock string | Blocked | BlockFailed
  | DeleteBlock string | Unblocked "string option" | UnblockFailed

type_synonym threat_result = "threat_page \<times> threat_effect list"

definition loadThreats :: "nat \<times> nat \<Rightarrow> threat_page \<Rightarrow> threat_result" where
  "loadThreats captured st =
     (st\<lparr>th_list := (th_list st)\<lparr>pd_loading := True\<rparr>\<rparr>, [RequestThreats (fst captured) (snd captured)])"

definition loadThreats_done :: "AbnormalIp page_answer settled \<Rightarrow> threat_page \<Rightarrow> threat_result" where
  "loadThreats_done s st =
     (case s of
        Rejected e \<Rightarrow> (st\<lparr>th_list := (th_list st)\<lparr>pd_loading := False\<rparr>\<rparr>, [ThreatUnhandled])
      | Resolved r \<Rightarrow>
          (case resp_data r of
             None \<Rightarrow> (st\<lparr>th_list := (th_list st)\<lparr>pd_loading := False\<rparr>\<rparr>, [ThreatUnhandled])
           | Some d \<Rightarrow>
               (st\<lparr>th_list := (th_list st)\<lparr>pd_data := pa_items d, pd_total := pa_total d, pd_loading := False\<rparr>\<rparr>, [])))"

definition handleAddToBlacklist :: "string \<Rightarrow> threat_page \<Rightarrow> threat_result" where
  "handleAddToBlacklist ip st = (st\<lparr>th_blacklisting := Some ip\<rparr>, [PostBlock ip])"

definition handleAddToBlacklist_done :: "nat \<times> nat \<Rightarrow> 'a settled \<Rightarrow> threat_page \<Rightarrow> threat_result" where
  "handleAddToBlacklist_done captured s st =
     (case s of
        Rejected e \<Rightarrow> (st\<lparr>th_blacklisting := None\<rparr>, [BlockFailed])
      | Resolved r \<Rightarrow>
          (case loadThreats captured (st\<lparr>th_blacklisting := None\<rparr>) of (st', es) \<Rightarrow> (st', Blocked # es)))"

definition handleRemoveFromBlacklist :: "string \<Rightarrow> threat_page \<Rightarrow> threat_result" where
  "handleRemoveFromBlacklist ip st = (st\<lparr>th_unblacklisting := Some ip\<rparr>, [DeleteBlock ip])"

definition handleRemoveFromBlacklist_done :: "nat \<times> nat \<Rightarrow> 'a settled \<Rightarrow> threat_page \<Rightarrow> threat_result" where
  "handleRemoveFromBlacklist_done captured s st =
     (case s of
        Rejected e \<Rightarrow> (st\<lparr>th_unblacklisting := None\<rparr>, [UnblockFailed])
      | Resolved r \<Rightarrow>
          (case loadThreats captured (st\<lparr>th_unblacklisting := None\<rparr>) of
             (st', es) \<Rightarrow> (st', Unblocked (case resp_message r of None \<Rightarrow> None | Some m \<Rightarrow> if m = [] then None else Some m) # es)))"

definition text_of :: "string option \<Rightarrow> string option" where
  "text_of s = (case s of None \<Rightarrow> None | Some t \<Rightarrow> if t = [] then None else Some t)"

text \<open>The method in capitals (HTTP methods are ASCII).\<close>

definition ascii_upper :: "string \<Rightarrow> string" where
  "ascii_upper = map (\<lambda>c. let n = of_char c :: nat in if 97 \<le> n \<and> n \<le> 122 then char_of (n - 32) else c)"

definition error_cell :: "AbnormalIp \<Rightarrow> string \<times> string option \<times> string" where
  "error_cell item =
     (let t = text_of (ab_topError item); l = text_of (ab_lastError item);
          primary = (case t of Some x \<Rightarrow> x | None \<Rightarrow> (case l of Some y \<Rightarrow> y | None \<Rightarrow> ''-''));
          secondary = (case (t, l) of (Some x, Some y) \<Rightarrow> if x \<noteq> y then Some y else None | _ \<Rightarrow> None);
          parts = (case text_of (ab_lastMethod item) of None \<Rightarrow> [] | Some m \<Rightarrow> [ascii_upper m]) @
            (case text_of (ab_lastPath item) of None \<Rightarrow> [] | Some p \<Rightarrow> [p]) @
            (case ab_lastStatusCode item of None \<Rightarrow> []
             | Some c \<Rightarrow> if c = 0 then [] else [''('' @ nat_to_string c @ '')''])
      in (primary, secondary, if parts = [] then ''-'' else join_with (CHR '' '') parts))"

text \<open>The two buttons of a row: disabled, and which one runs.\<close>

definition threat_buttons :: "threat_page \<Rightarrow> AbnormalIp \<Rightarrow> bool \<times> bool \<times> bool" where
  "threat_buttons st item =
     (let busyAdd = (th_blacklisting st = Some (ab_ip item));
          busyRemove = (th_unblacklisting st = Some (ab_ip item))
      in (busyAdd \<or> busyRemove, busyAdd, busyRemove))"

definition abnormal :: "AbnormalIp \<Rightarrow> bool" where
  "abnormal item \<longleftrightarrow> ABNORMAL_THRESHOLD \<le> ab_windowErrorCount item"

subsection \<open>The dashboard store\<close>

record dashboard_store =
  ds_range :: string
  ds_host :: "string option"

definition init_dashboard :: dashboard_store where
  "init_dashboard = \<lparr>ds_range = ''24h'', ds_host = None\<rparr>"

subsection \<open>The log of blocked requests\<close>

record log_item =
  lg_id :: nat
  lg_ts :: nat
  lg_host :: string
  lg_path :: string
  lg_method :: string
  lg_status :: nat
  lg_elapsedMs :: nat
  lg_ip :: string
  lg_country :: string
  lg_province :: string
  lg_os :: string
  lg_browser :: string
  lg_refererUrl :: string
  lg_blocked :: nat

datatype block_label = LabBlacklist | LabRate | LabWhitelist | LabRegion | LabBot | LabBlocked

definition BLOCK_LABELS :: "nat \<Rightarrow> block_label" where
  "BLOCK_LABELS code =
     (if code = 1 then LabBlacklist else if code = 2 then LabRate else if code = 3 then LabWhitelist
      else if code = 4 then LabRegion else if code = 5 then LabBot else LabBlocked)"

datatype log_effect = RequestLogs string "string option" nat nat | LogsUnhandled

definition loadLogs :: "dashboard_store \<Rightarrow> nat \<times> nat \<Rightarrow> log_item paged \<Rightarrow> log_item paged \<times> log_effect list" where
  "loadLogs store k st =
     (st\<lparr>pd_loading := True\<rparr>, [RequestLogs (ds_range store) (ds_host store) (fst k) (snd k)])"

text \<open>The effect on the filter: another range or host loads the first page again.\<close>

definition logs_effect ::
  "dashboard_store \<Rightarrow> dashboard_store \<Rightarrow> log_item paged \<Rightarrow> log_item paged \<times> log_effect list" where
  "logs_effect before store st =
     (if before = store then (st, []) else loadLogs store (1, pd_pageSize st) st)"

text \<open>The answer sets the paging it was asked for together with the rows.\<close>

definition loadLogs_done ::
  "nat \<times> nat \<Rightarrow> log_item page_answer settled \<Rightarrow> log_item paged \<Rightarrow> log_item paged \<times> log_effect list" where
  "loadLogs_done k s st =
     (case s of
        Rejected e \<Rightarrow> (st\<lparr>pd_loading := False\<rparr>, [LogsUnhandled])
      | Resolved r \<Rightarrow>
          (st\<lparr>pd_data := (case resp_data r of None \<Rightarrow> [] | Some d \<Rightarrow> pa_items d), pd_page := fst k,
              pd_pageSize := snd k, pd_total := (case resp_data r of None \<Rightarrow> 0 | Some d \<Rightarrow> pa_total d),
              pd_loading := False\<rparr>, []))"

definition geo_cell :: "log_item \<Rightarrow> string list" where
  "geo_cell item = filter (\<lambda>s. s \<noteq> []) [lg_country item, lg_province item]"

subsection \<open>The filter bar\<close>

definition setRange :: "string \<Rightarrow> dashboard_store \<Rightarrow> dashboard_store" where
  "setRange r s = s\<lparr>ds_range := r\<rparr>"

definition setHost :: "string option \<Rightarrow> dashboard_store \<Rightarrow> dashboard_store" where
  "setHost h s = s\<lparr>ds_host := h\<rparr>"

definition ALL_HOSTS :: string where "ALL_HOSTS = ''__all__''"

text \<open>The hosts on offer, from the routes' domains of every server that has an id.\<close>

definition domain_options :: "string list list \<Rightarrow> string list" where
  "domain_options results = sort (js_unique (filter (\<lambda>d. d \<noteq> [] \<and> d \<noteq> ''*'') (concat results)))"

definition choose_host :: "string \<Rightarrow> dashboard_store \<Rightarrow> dashboard_store" where
  "choose_host v s = setHost (if v = ALL_HOSTS then None else Some v) s"

definition shown_host :: "dashboard_store \<Rightarrow> string" where
  "shown_host s = (case ds_host s of None \<Rightarrow> ALL_HOSTS | Some h \<Rightarrow> h)"

text \<open>The range group ignores the empty value it gives when the chosen one is pressed again.\<close>

definition toggle_range :: "string \<Rightarrow> dashboard_store \<Rightarrow> dashboard_store" where
  "toggle_range v s = (if v = [] then s else setRange v s)"

subsection \<open>Rate limits\<close>

record rate_page =
  rp_list :: "RateLimit paged"
  rp_createVisible :: bool

datatype rate_page_effect = RequestRates nat nat | RatesUnhandled

definition loadRates :: "nat \<times> nat \<Rightarrow> rate_page \<Rightarrow> rate_page \<times> rate_page_effect list" where
  "loadRates captured st =
     (st\<lparr>rp_list := (rp_list st)\<lparr>pd_loading := True\<rparr>\<rparr>, [RequestRates (fst captured) (snd captured)])"

text \<open>The answer sets the whole paging to the one captured when the load began, with the new total.\<close>

definition loadRates_done ::
  "nat \<times> nat \<Rightarrow> RateLimit page_answer settled \<Rightarrow> rate_page \<Rightarrow> rate_page \<times> rate_page_effect list" where
  "loadRates_done captured s st =
     (case s of
        Rejected e \<Rightarrow> (st\<lparr>rp_list := (rp_list st)\<lparr>pd_loading := False\<rparr>\<rparr>, [RatesUnhandled])
      | Resolved r \<Rightarrow>
          (case resp_data r of
             None \<Rightarrow> (st\<lparr>rp_list := (rp_list st)\<lparr>pd_loading := False\<rparr>\<rparr>, [RatesUnhandled])
           | Some d \<Rightarrow>
               (st\<lparr>rp_list := (rp_list st)\<lparr>pd_data := pa_items d, pd_page := fst captured,
                   pd_pageSize := snd captured, pd_total := pa_total d, pd_loading := False\<rparr>\<rparr>, [])))"

definition set_rate_page :: "nat \<Rightarrow> nat \<Rightarrow> rate_page \<Rightarrow> rate_page" where
  "set_rate_page p s st = st\<lparr>rp_list := (rp_list st)\<lparr>pd_page := p, pd_pageSize := s\<rparr>\<rparr>"

definition rate_counts :: "rate_page \<Rightarrow> nat \<times> nat \<times> nat" where
  "rate_counts st =
     (pd_total (rp_list st), length (filter rt_enable (pd_data (rp_list st))),
      length (filter (\<lambda>r. \<not> rt_enable r) (pd_data (rp_list st))))"

datatype period_label = PerSecond | PerMinute | PerHour | PerDay | PerWeek | PerMonth | PerOther string

definition formatPeriod :: "string \<Rightarrow> period_label" where
  "formatPeriod p =
     (if p = ''1s'' then PerSecond else if p = ''1m'' then PerMinute else if p = ''1h'' then PerHour
      else if p = ''1d'' then PerDay else if p = ''1w'' then PerWeek else if p = ''1M'' then PerMonth
      else PerOther p)"

definition rate_created :: "nat \<times> nat \<Rightarrow> rate_page \<Rightarrow> rate_page \<times> rate_page_effect list" where
  "rate_created captured st =
     (case loadRates captured st of (st', es) \<Rightarrow> (st'\<lparr>rp_createVisible := False\<rparr>, es))"

subsection \<open>Laws\<close>

definition access_page_inv :: "access_page \<Rightarrow> bool" where
  "access_page_inv st \<longleftrightarrow> fst (ac_columns st) = isBlacklist st \<and> fst (snd (ac_columns st)) = 1 \<and> av_isBlacklist (af_value (ac_dialog st)) \<and>
     access_inv (ac_dialog st)"

interpretation access_pages: invariant_machine access_step access_page_inv init_access_page
proof
  show "access_page_inv init_access_page"
    by (simp add: access_page_inv_def isBlacklist_def init_access_page_def mount_access_def access_inv_def)
  show "access_page_inv s \<Longrightarrow> access_page_inv (access_step s e)" for s e
  proof (cases e)
    case (EvEdit x)
    then show "access_page_inv s \<Longrightarrow> ?thesis"
      by (simp add: access_page_inv_def isBlacklist_def edit_access_dialog_def kind_kept access_inv_step)
  next
    case (EvAnswer a)
    then show "access_page_inv s \<Longrightarrow> ?thesis"
      by (cases a) (simp_all add: access_page_inv_def isBlacklist_def loadAccess_done_def split: option.splits)
  next
    case (EvDeleted k a)
    then show "access_page_inv s \<Longrightarrow> ?thesis"
      by (cases a) (simp_all add: access_page_inv_def isBlacklist_def handleDeleteEntry_done_def loadAccess_def)
  qed (simp_all add: access_page_inv_def isBlacklist_def switchKind_def set_access_page_def open_access_dialog_def
      close_access_dialog_def access_dialog_ok_def loadAccess_def pd_paging_def Let_def)
qed

lemma set_js_unique [simp]: "set (js_unique xs) = set xs"
  by (simp add: js_unique_def)

lemma domain_options_props:
  "sorted (domain_options rs) \<and> distinct (domain_options rs) \<and>
   set (domain_options rs) = {d. \<exists>r\<in>set rs. d \<in> set r \<and> d \<noteq> [] \<and> d \<noteq> ''*''}"
  by (auto simp: domain_options_def js_unique_def)

lemma shown_choice: "shown_host (choose_host v s) = v"
  by (simp add: shown_host_def choose_host_def setHost_def)

end
