(* ===== verification/ClusterPage.thy ===== *)
theory ClusterPage
  imports RouteForm ApiServices
begin

text \<open>
  The cluster page (\<open>web/src/pages/cluster/page.tsx\<close>): the polled state, the invitation of nodes,
  joining, leaving, removing a node, pushing the configuration and dissolving, and the view for
  each role. A call of the cluster client either throws or gives its data (\<open>unwrap\<close>), so the
  outcome of a request is \<open>err_text + 'a option\<close>. \<open>fmt\<close> is \<open>toLocaleString\<close> of a time.
\<close>

record InviteResult =
  iv_code :: string
  iv_endpoint :: string
  iv_expiresAt :: string

record cluster_page =
  cl_state :: "ClusterState option"
  cl_loading :: bool
  cl_endpoint :: string
  cl_inviteCode :: string
  cl_inviteExpiresAt :: string
  cl_generating :: bool
  cl_joinCode :: string
  cl_nodeName :: string
  cl_joining :: bool

definition init_cluster :: "string \<Rightarrow> string option \<Rightarrow> cluster_page" where
  "init_cluster origin code =
     \<lparr>cl_state = None, cl_loading = False, cl_endpoint = origin, cl_inviteCode = [], cl_inviteExpiresAt = [],
      cl_generating = False, cl_joinCode = (case code of None \<Rightarrow> [] | Some c \<Rightarrow> c), cl_nodeName = [],
      cl_joining = False\<rparr>"

datatype cluster_text = TxLoad | TxInvite | TxJoin | TxLeave | TxRemove | TxPush | TxDissolve

datatype cluster_effect = CallState | CallInvite string | CallJoin string string | CallLeave
  | CallRemove string | CallPush | CallDissolve | AskJoinCode | Succeeded cluster_text
  | ClusterFailed cluster_text "err_text option"

type_synonym cluster_result = "cluster_page \<times> cluster_effect list"

definition loadState :: "cluster_page \<Rightarrow> cluster_result" where
  "loadState st = (st, [CallState])"

text \<open>An answer without data makes the state undefined, which the page shows as loading.\<close>

definition loadState_done :: "err_text + ClusterState option \<Rightarrow> cluster_page \<Rightarrow> cluster_result" where
  "loadState_done s st =
     (case s of
        Inl e \<Rightarrow> (st, [ClusterFailed TxLoad (Some e)])
      | Inr d \<Rightarrow> (st\<lparr>cl_state := d\<rparr>, []))"

definition mount_cluster :: "cluster_page \<Rightarrow> cluster_result" where
  "mount_cluster st = loadState (st\<lparr>cl_loading := True\<rparr>)"

definition first_load_done :: "err_text + ClusterState option \<Rightarrow> cluster_page \<Rightarrow> cluster_result" where
  "first_load_done s st = (case loadState_done s st of (st', es) \<Rightarrow> (st'\<lparr>cl_loading := False\<rparr>, es))"

definition handleGenerateInvite :: "cluster_page \<Rightarrow> cluster_result" where
  "handleGenerateInvite st = (st\<lparr>cl_generating := True\<rparr>, [CallInvite (cl_endpoint st)])"

definition handleGenerateInvite_done :: "err_text + InviteResult option \<Rightarrow> cluster_page \<Rightarrow> cluster_result" where
  "handleGenerateInvite_done s st =
     (let st' = st\<lparr>cl_generating := False\<rparr> in
      case s of
        Inl e \<Rightarrow> (st', [ClusterFailed TxInvite (Some e)])
      | Inr None \<Rightarrow> (st', [ClusterFailed TxInvite None])
      | Inr (Some i) \<Rightarrow>
          (st'\<lparr>cl_inviteCode := iv_code i, cl_inviteExpiresAt := iv_expiresAt i\<rparr>,
           [Succeeded TxInvite, CallState]))"

definition handleJoin :: "cluster_page \<Rightarrow> cluster_result" where
  "handleJoin st =
     (if js_trim (cl_joinCode st) = [] then (st, [AskJoinCode])
      else (st\<lparr>cl_joining := True\<rparr>, [CallJoin (js_trim (cl_joinCode st)) (js_trim (cl_nodeName st))]))"

definition handleJoin_done :: "err_text + 'a option \<Rightarrow> cluster_page \<Rightarrow> cluster_result" where
  "handleJoin_done s st =
     (let st' = st\<lparr>cl_joining := False\<rparr> in
      case s of
        Inl e \<Rightarrow> (st', [ClusterFailed TxJoin (Some e)])
      | Inr d \<Rightarrow> (st'\<lparr>cl_joinCode := []\<rparr>, [Succeeded TxJoin, CallState]))"

datatype cluster_action = DoLeave | DoRemove string | DoPush | DoDissolve

definition action_text :: "cluster_action \<Rightarrow> cluster_text" where
  "action_text a = (case a of DoLeave \<Rightarrow> TxLeave | DoRemove i \<Rightarrow> TxRemove | DoPush \<Rightarrow> TxPush | DoDissolve \<Rightarrow> TxDissolve)"

definition cluster_call :: "cluster_action \<Rightarrow> cluster_page \<Rightarrow> cluster_result" where
  "cluster_call a st =
     (st, [case a of DoLeave \<Rightarrow> CallLeave | DoRemove i \<Rightarrow> CallRemove i | DoPush \<Rightarrow> CallPush | DoDissolve \<Rightarrow> CallDissolve])"

text \<open>After a push the state is not loaded again.\<close>

definition cluster_call_done :: "cluster_action \<Rightarrow> err_text + 'a option \<Rightarrow> cluster_page \<Rightarrow> cluster_result" where
  "cluster_call_done a s st =
     (st, case s of
        Inl e \<Rightarrow> [ClusterFailed (action_text a) (Some e)]
      | Inr d \<Rightarrow> Succeeded (action_text a) # (if a = DoPush then [] else [CallState]))"

text \<open>The three fields.\<close>

datatype cluster_field = ClEndpoint string | ClJoinCode string | ClNodeName string

fun cl_change :: "cluster_field \<Rightarrow> cluster_page \<Rightarrow> cluster_page" where
  "cl_change (ClEndpoint t) st = st\<lparr>cl_endpoint := t\<rparr>"
| "cl_change (ClJoinCode t) st = st\<lparr>cl_joinCode := t\<rparr>"
| "cl_change (ClNodeName t) st = st\<lparr>cl_nodeName := t\<rparr>"

subsection \<open>The view\<close>

datatype role_badge = BadgeMaster | BadgeWorker | BadgeStandalone

definition roleBadge :: "cluster_page \<Rightarrow> role_badge option" where
  "roleBadge st =
     (case cl_state st of None \<Rightarrow> None
      | Some s \<Rightarrow> Some (case cs_role s of Master \<Rightarrow> BadgeMaster | Worker \<Rightarrow> BadgeWorker | Standalone \<Rightarrow> BadgeStandalone))"

record worker_view =
  wv_connected :: bool
  wv_name :: string
  wv_endpoint :: "string option"
  wv_version :: "nat option"
  wv_time :: string

record invite_view =
  vi_code :: string
  vi_expires :: string
  vi_link :: string

record node_row =
  nr_id :: string
  nr_name :: string
  nr_online :: bool
  nr_version :: "nat option"
  nr_seen :: string
  nr_registered :: string

datatype cluster_view = ClusterLoading | WorkerView worker_view
  | ManagerView "invite_view option" bool "node_row list option"

definition cluster_time :: "(string \<Rightarrow> string) \<Rightarrow> string option \<Rightarrow> string" where
  "cluster_time fmt v = (case v of None \<Rightarrow> ''-'' | Some t \<Rightarrow> if t = [] then ''-'' else fmt t)"

definition node_row_of :: "(string \<Rightarrow> string) \<Rightarrow> ClusterNode \<Rightarrow> node_row" where
  "node_row_of fmt n =
     \<lparr>nr_id = cn_id n, nr_name = cn_name n, nr_online = cn_online n,
      nr_version = (if cn_online n then Some (cn_syncedVersion n) else None),
      nr_seen = (if cn_online n then cluster_time fmt (cn_lastSeen n) else ''-''),
      nr_registered = cluster_time fmt (Some (cn_registeredAt n))\<rparr>"

definition invite_view_of :: "(string \<Rightarrow> string) \<Rightarrow> cluster_page \<Rightarrow> invite_view option" where
  "invite_view_of fmt st =
     (if cl_inviteCode st = [] then None
      else Some \<lparr>vi_code = cl_inviteCode st, vi_expires = cluster_time fmt (Some (cl_inviteExpiresAt st)),
             vi_link = ''/cluster?code='' @ cl_inviteCode st\<rparr>)"

text \<open>The invitation is offered unless the gateway is a worker; joining is offered alone, nodes to a master.\<close>

definition cluster_view_of :: "(string \<Rightarrow> string) \<Rightarrow> cluster_page \<Rightarrow> cluster_view" where
  "cluster_view_of fmt st =
     (case cl_state st of None \<Rightarrow> ClusterLoading
      | Some s \<Rightarrow>
          if cs_role s = Worker
          then WorkerView \<lparr>wv_connected = cs_connected s,
             wv_name = (case cs_nodeName s of None \<Rightarrow> ''-'' | Some n \<Rightarrow> if n = [] then ''-'' else n),
             wv_endpoint = cs_masterEndpoint s,
             wv_version = (if cs_syncedVersion s = 0 then None else Some (cs_syncedVersion s)),
             wv_time = cluster_time fmt (cs_lastSyncTime s)\<rparr>
          else ManagerView (invite_view_of fmt st) (cs_role s = Standalone)
             (if cs_role s = Master then Some (map (node_row_of fmt) (cs_nodes s)) else None))"

subsection \<open>Laws\<close>

text \<open>The links: what the page copies is what it reads back when the code has only URL-safe characters.\<close>

definition code_char :: "char \<Rightarrow> bool" where
  "code_char c \<longleftrightarrow> (let n = of_char c :: nat in (48 \<le> n \<and> n \<le> 57) \<or> (65 \<le> n \<and> n \<le> 90) \<or> (97 \<le> n \<and> n \<le> 122))
     \<or> c = CHR ''-'' \<or> c = CHR ''_''"

lemma form_bytes_code: "list_all code_char s \<Longrightarrow> form_bytes s = map of_char s"
proof (induction s)
  case (Cons c s)
  have "c \<noteq> CHR ''+''" "c \<noteq> CHR ''%''" using Cons.prems by (auto simp: code_char_def)
  then show ?case using Cons by simp
qed simp

lemma utf8_decode_code: "list_all code_char s \<Longrightarrow> utf8_decode (map of_char s) = s"
proof (induction s)
  case (Cons c s)
  have "(of_char c :: nat) < 128" using Cons.prems by (auto simp: code_char_def Let_def)
  then show ?case using Cons by simp
qed simp

lemma invite_link_query:
  assumes "list_all code_char code"
  shows "query_of (''/cluster?code='' @ code) = [(''code'', code)]"
proof -
  have amp: "CHR ''&'' \<notin> set code" using assms by (auto simp: list_all_iff code_char_def)
  have "split_on (CHR ''&'') (''code='' @ code) = [''code='' @ code]"
    by (rule split_on_no_delim) (simp add: amp)
  moreover have "parse_pair (''code='' @ code) = (''code'', code)"
  proof -
    have "form_decode ''code'' = ''code''" by code_simp
    moreover have "form_decode code = code"
      using form_bytes_code [OF assms] utf8_decode_code [OF assms] by (simp add: form_decode_def)
    ultimately show ?thesis by (simp add: parse_pair_def)
  qed
  ultimately show ?thesis by (simp add: query_of_def parse_query_def)
qed

end
