(* ===== verification/LoginPages.thy ===== *)
theory LoginPages
  imports CertForms
begin

text \<open>
  The login page with the challenge widget (\<open>web/src/pages/login/index.tsx\<close>,
  \<open>components/TurnstileWidget.tsx\<close>), the page of the log retention
  (\<open>pages/system-setting/page.tsx\<close>, \<open>services/SettingService.ts\<close>) and the theme store
  (\<open>store/user/index.ts\<close>). The challenge service is outside: its callbacks are events.
\<close>

subsection \<open>Login\<close>

record BotChallengeConfig =
  bc_enabled :: bool
  bc_configured :: bool
  bc_siteKey :: string

record login =
  lo_loading :: bool
  lo_password :: string
  lo_showPassword :: bool
  lo_config :: "BotChallengeConfig option"
  lo_configLoading :: bool
  lo_token :: "string option"
  lo_disposed :: bool

definition init_login :: login where
  "init_login =
     \<lparr>lo_loading = False, lo_password = [], lo_showPassword = False, lo_config = None,
      lo_configLoading = True, lo_token = None, lo_disposed = False\<rparr>"

datatype login_effect = NeedPassword | NeedChallenge | PostAuth string "string option" | StoreToken string
  | GoDashboard | LoggedIn | LoginRefused "string option" | LoginFailed | WidgetError

type_synonym login_result = "login \<times> login_effect list"

definition config_done :: "BotChallengeConfig settled \<Rightarrow> login \<Rightarrow> login" where
  "config_done s st =
     (if lo_disposed st then st
      else st\<lparr>lo_config := (case s of Resolved r \<Rightarrow> if success r then resp_data r else None | Rejected e \<Rightarrow> None),
              lo_configLoading := False\<rparr>)"

text \<open>\<open>!turnstileToken\<close>\<close>

definition no_token :: "login \<Rightarrow> bool" where
  "no_token st \<longleftrightarrow> (case lo_token st of None \<Rightarrow> True | Some t \<Rightarrow> t = [])"

definition challenge_on :: "login \<Rightarrow> bool" where
  "challenge_on st \<longleftrightarrow> (case lo_config st of None \<Rightarrow> False | Some c \<Rightarrow> bc_enabled c)"

definition submit_disabled :: "login \<Rightarrow> bool" where
  "submit_disabled st \<longleftrightarrow> lo_loading st \<or> lo_configLoading st \<or>
     (case lo_config st of None \<Rightarrow> False | Some c \<Rightarrow> bc_enabled c \<and> (\<not> bc_configured c \<or> bc_siteKey c = []))"

definition handleLogin :: "login \<Rightarrow> login_result" where
  "handleLogin st =
     (if lo_password st = [] then (st, [NeedPassword])
      else if challenge_on st \<and> no_token st then (st, [NeedChallenge])
      else (st\<lparr>lo_loading := True\<rparr>, [PostAuth (lo_password st) (lo_token st)]))"

definition handleLogin_done :: "string settled \<Rightarrow> login \<Rightarrow> login_result" where
  "handleLogin_done s st =
     (case s of
        Rejected e \<Rightarrow> (st\<lparr>lo_token := None, lo_loading := False\<rparr>, [LoginFailed])
      | Resolved r \<Rightarrow>
          if success r
          then (st\<lparr>lo_loading := False\<rparr>,
            [StoreToken (case resp_data r of None \<Rightarrow> ''undefined'' | Some t \<Rightarrow> t), GoDashboard, LoggedIn])
          else (st\<lparr>lo_token := None, lo_loading := False\<rparr>, [LoginRefused (resp_message r)]))"

datatype challenge_view = ChallengeLoading | ChallengeWidget string | NoChallenge

definition challenge_view_of :: "login \<Rightarrow> challenge_view" where
  "challenge_view_of st =
     (if lo_configLoading st then ChallengeLoading
      else case lo_config st of None \<Rightarrow> NoChallenge
        | Some c \<Rightarrow> if bc_enabled c \<and> bc_configured c \<and> bc_siteKey c \<noteq> [] then ChallengeWidget (bc_siteKey c)
            else NoChallenge)"

text \<open>
  The widget is rendered when its site key or action changes; from then on the service calls back
  with a token, when a token expires, or on an error. A failed script counts as an error.
\<close>

datatype widget_callback = GotToken string | Expired | WidgetFailed

definition widget_event :: "widget_callback \<Rightarrow> login \<Rightarrow> login_result" where
  "widget_event c st =
     (case c of
        GotToken t \<Rightarrow> (st\<lparr>lo_token := Some t\<rparr>, [])
      | Expired \<Rightarrow> (st\<lparr>lo_token := None\<rparr>, [])
      | WidgetFailed \<Rightarrow> (st\<lparr>lo_token := None\<rparr>, [WidgetError]))"

datatype widget_action = RenderWidget string | RemoveWidget

definition widget_effect :: "challenge_view \<Rightarrow> challenge_view \<Rightarrow> widget_action list" where
  "widget_effect before after =
     (if before = after then []
      else (case before of ChallengeWidget k \<Rightarrow> [RemoveWidget] | _ \<Rightarrow> []) @
           (case after of ChallengeWidget k \<Rightarrow> [RenderWidget k] | _ \<Rightarrow> []))"

datatype login_event = EvPassword string | EvShow | EvConfig "BotChallengeConfig settled" | EvSubmit
  | EvAuth "string settled" | EvWidget widget_callback

text \<open>A submission reaches the handler only while the button is enabled; the fields are disabled while one runs.\<close>

fun login_step :: "login \<Rightarrow> login_event \<Rightarrow> login_result" where
  "login_step st (EvPassword p) = (if lo_loading st then st else st\<lparr>lo_password := p\<rparr>, [])"
| "login_step st EvShow = (if lo_loading st then st else st\<lparr>lo_showPassword := \<not> lo_showPassword st\<rparr>, [])"
| "login_step st (EvConfig s) = (config_done s st, [])"
| "login_step st EvSubmit = (if submit_disabled st then (st, []) else handleLogin st)"
| "login_step st (EvAuth s) = handleLogin_done s st"
| "login_step st (EvWidget c) = widget_event c st"

subsection \<open>Log retention\<close>

definition LOG_RETENTION_OPTIONS :: "string list" where
  "LOG_RETENTION_OPTIONS = [''1'', ''7'', ''15'', ''30'']"

definition DEFAULT_RETENTION :: string where "DEFAULT_RETENTION = ''7''"

record setting =
  se_loading :: bool
  se_saving :: bool
  se_retention :: string
  se_saved :: string

definition init_setting :: setting where
  "init_setting =
     \<lparr>se_loading = True, se_saving = False, se_retention = DEFAULT_RETENTION, se_saved = DEFAULT_RETENTION\<rparr>"

definition setting_loaded :: "string settled \<Rightarrow> setting \<Rightarrow> setting" where
  "setting_loaded s st =
     (case s of
        Rejected e \<Rightarrow> st\<lparr>se_loading := False\<rparr>
      | Resolved r \<Rightarrow>
          (let v = (case resp_data r of None \<Rightarrow> [] | Some t \<Rightarrow> t);
               current = (if v \<in> set LOG_RETENTION_OPTIONS then v else DEFAULT_RETENTION)
           in st\<lparr>se_retention := current, se_saved := current, se_loading := False\<rparr>))"

definition choose_retention :: "string \<Rightarrow> setting \<Rightarrow> setting" where
  "choose_retention v st =
     (if se_loading st \<or> v \<notin> set LOG_RETENTION_OPTIONS then st else st\<lparr>se_retention := v\<rparr>)"

definition save_disabled :: "setting \<Rightarrow> bool" where
  "save_disabled st \<longleftrightarrow> se_loading st \<or> se_saving st \<or> se_retention st = se_saved st"

definition save_setting :: "setting \<Rightarrow> setting \<times> string option" where
  "save_setting st = (if save_disabled st then (st, None) else (st\<lparr>se_saving := True\<rparr>, Some (se_retention st)))"

text \<open>\<open>sent\<close> is the choice in the render of the handler, the one that was sent.\<close>

definition save_setting_done :: "string \<Rightarrow> 'a cert_answer \<Rightarrow> setting \<Rightarrow> setting" where
  "save_setting_done sent s st =
     (case s of
        Passed d \<Rightarrow> st\<lparr>se_saved := sent, se_saving := False\<rparr>
      | _ \<Rightarrow> st\<lparr>se_saving := False\<rparr>)"

definition unsaved_hint :: "setting \<Rightarrow> bool" where
  "unsaved_hint st \<longleftrightarrow> \<not> se_loading st \<and> se_retention st \<noteq> se_saved st"

subsection \<open>The theme\<close>

datatype Theme = Light | Dark | Auto

record user_store =
  us_theme :: Theme
  us_stored :: "Theme option"
  us_hideGuide :: bool

definition init_user_store :: "Theme option \<Rightarrow> user_store" where
  "init_user_store stored =
     \<lparr>us_theme = (case stored of None \<Rightarrow> Auto | Some t \<Rightarrow> t), us_stored = stored, us_hideGuide = False\<rparr>"

definition setTheme :: "Theme \<Rightarrow> user_store \<Rightarrow> user_store" where
  "setTheme t s = s\<lparr>us_stored := Some t, us_theme := t\<rparr>"

definition setHideSettingsMoveGuide :: "bool \<Rightarrow> user_store \<Rightarrow> user_store" where
  "setHideSettingsMoveGuide b s = s\<lparr>us_hideGuide := b\<rparr>"

subsection \<open>Laws\<close>

lemma auth_guarded:
  "PostAuth p t \<in> set (snd (login_step st e)) \<Longrightarrow>
   p = lo_password st \<and> p \<noteq> [] \<and> t = lo_token st \<and> \<not> lo_loading st \<and> \<not> lo_configLoading st \<and>
   (challenge_on st \<longrightarrow> \<not> no_token st)"
  by (cases e)
     (auto simp: handleLogin_def submit_disabled_def handleLogin_done_def widget_event_def
        split: if_splits settled.splits widget_callback.splits)

text \<open>After a refusal nothing is sent until the widget calls back.\<close>

definition is_widget :: "login_event \<Rightarrow> bool" where
  "is_widget e = (case e of EvWidget c \<Rightarrow> True | EvConfig s \<Rightarrow> True | _ \<Rightarrow> False)"

lemma blocked_step:
  assumes "challenge_on st" and "no_token st" and "\<not> is_widget e"
  shows "challenge_on (fst (login_step st e)) \<and> no_token (fst (login_step st e)) \<and>
    lo_config (fst (login_step st e)) = lo_config st \<and> lo_configLoading (fst (login_step st e)) = lo_configLoading st \<and>
    (\<forall>p t. PostAuth p t \<notin> set (snd (login_step st e)))"
  using assms
  by (cases e)
     (auto simp: is_widget_def handleLogin_def handleLogin_done_def challenge_on_def no_token_def
        split: if_splits settled.splits)

fun login_run :: "login \<Rightarrow> login_event list \<Rightarrow> login_result" where
  "login_run st [] = (st, [])"
| "login_run st (e # es) =
     (let r = login_step st e; q = login_run (fst r) es in (fst q, snd r @ snd q))"

lemma blocked_run:
  assumes "challenge_on st" and "no_token st" and "list_all (\<lambda>e. \<not> is_widget e) es"
  shows "(\<forall>p t. PostAuth p t \<notin> set (snd (login_run st es))) \<and>
    challenge_view_of (fst (login_run st es)) = challenge_view_of st"
  using assms
proof (induction es arbitrary: st)
  case (Cons e es)
  have s: "challenge_on (fst (login_step st e))" "no_token (fst (login_step st e))"
    "lo_config (fst (login_step st e)) = lo_config st" "lo_configLoading (fst (login_step st e)) = lo_configLoading st"
    "\<forall>p t. PostAuth p t \<notin> set (snd (login_step st e))"
    using blocked_step [OF Cons.prems(1,2), of e] Cons.prems(3) by auto
  have "challenge_view_of (fst (login_step st e)) = challenge_view_of st"
    using s(3,4) by (simp add: challenge_view_of_def)
  then show ?case using Cons.IH [OF s(1,2)] Cons.prems(3) s(5) by (simp add: Let_def)
qed simp

text \<open>
  The page with its requests: those that are out, with the password of each. An answer belongs to
  a request that is out; without one there is no answer.
\<close>

record login_world =
  lw_page :: login
  lw_out :: "string list"

definition init_login_world :: login_world where
  "init_login_world = \<lparr>lw_page = init_login, lw_out = []\<rparr>"

definition sent_passwords :: "login_effect list \<Rightarrow> string list" where
  "sent_passwords es = List.map_filter (\<lambda>x. case x of PostAuth p t \<Rightarrow> Some p | _ \<Rightarrow> None) es"

definition login_world_step :: "login_world \<Rightarrow> login_event \<Rightarrow> login_world" where
  "login_world_step w e =
     (case (e, lw_out w) of
        (EvAuth s, []) \<Rightarrow> w
      | _ \<Rightarrow>
         (let r = login_step (lw_page w) e;
              left = (case e of EvAuth s \<Rightarrow> tl (lw_out w) | _ \<Rightarrow> lw_out w)
          in \<lparr>lw_page = fst r, lw_out = left @ sent_passwords (snd r)\<rparr>))"

definition login_world_inv :: "login_world \<Rightarrow> bool" where
  "login_world_inv w \<longleftrightarrow>
     lw_out w = (if lo_loading (lw_page w) then [lo_password (lw_page w)] else []) \<and>
     (lo_loading (lw_page w) \<longrightarrow> lo_password (lw_page w) \<noteq> [])"

lemma login_world_keeps:
  assumes "login_world_inv w"
  shows "login_world_inv (login_world_step w e)"
proof (cases e)
  case (EvConfig s)
  then show ?thesis
    using assms by (auto simp: login_world_inv_def login_world_step_def config_done_def sent_passwords_def List.map_filter_simps)
next
  case EvSubmit
  then show ?thesis
    using assms
    by (auto simp: login_world_inv_def login_world_step_def handleLogin_def submit_disabled_def sent_passwords_def
        List.map_filter_simps split: list.splits)
next
  case (EvAuth s)
  then show ?thesis
    using assms
    by (auto simp: login_world_inv_def login_world_step_def handleLogin_done_def sent_passwords_def
        List.map_filter_simps Let_def split: list.splits settled.splits)
next
  case (EvWidget c)
  then show ?thesis
    using assms
    by (cases c) (auto simp: login_world_inv_def login_world_step_def widget_event_def sent_passwords_def List.map_filter_simps)
qed (use assms in \<open>auto simp: login_world_inv_def login_world_step_def sent_passwords_def List.map_filter_simps\<close>)

interpretation login_machine: invariant_machine login_world_step login_world_inv init_login_world
  by unfold_locales (simp_all add: login_world_keeps, simp add: login_world_inv_def init_login_world_def init_login_def)

definition setting_inv :: "setting \<Rightarrow> bool" where
  "setting_inv st \<longleftrightarrow> se_retention st \<in> set LOG_RETENTION_OPTIONS \<and>
     (se_loading st \<longrightarrow> se_retention st = se_saved st)"

end
