(* ===== verification/Hooks.thy ===== *)
theory Hooks
  imports FgPrelude
begin

text \<open>
  The polling hook of the dashboard (\<open>web/src/pages/dashboard/hooks/usePolling.ts\<close>) as a state
  machine over its timer, the visibility of the page, the requests in flight with their abort
  signals and the cleanup; and the controlled state of the UI primitives
  (\<open>web/src/hooks/use-controlled-state.tsx\<close>).
\<close>

subsection \<open>Polling\<close>

text \<open>Runs are numbered; a run in flight carries whether its signal is aborted.\<close>

record polling =
  pl_hidden :: bool
  pl_disposed :: bool
  pl_controller :: "nat option"
  pl_running :: "(nat \<times> bool) list"
  pl_next :: nat

definition abort :: "nat option \<Rightarrow> (nat \<times> bool) list \<Rightarrow> (nat \<times> bool) list" where
  "abort c rs = (case c of None \<Rightarrow> rs | Some k \<Rightarrow> map (\<lambda>(n, a). (n, a \<or> n = k)) rs)"

definition tick :: "polling \<Rightarrow> polling" where
  "tick st =
     (if pl_hidden st then st
      else st\<lparr>pl_running := abort (pl_controller st) (pl_running st) @ [(pl_next st, False)],
              pl_controller := Some (pl_next st), pl_next := pl_next st + 1\<rparr>)"

definition mount_polling :: "bool \<Rightarrow> polling" where
  "mount_polling hidden =
     tick \<lparr>pl_hidden = hidden, pl_disposed = False, pl_controller = None, pl_running = [], pl_next = 0\<rparr>"

datatype polling_event = PTimer | PVisibility bool | PSettled nat | PDispose

text \<open>After the cleanup the timer and the listener are gone.\<close>

fun polling_step :: "polling \<Rightarrow> polling_event \<Rightarrow> polling" where
  "polling_step st PTimer = (if pl_disposed st then st else tick st)"
| "polling_step st (PVisibility visible) =
     (let st' = st\<lparr>pl_hidden := \<not> visible\<rparr> in
      if pl_disposed st then st' else if visible then tick st' else st')"
| "polling_step st (PSettled k) = st\<lparr>pl_running := filter (\<lambda>(n, a). n \<noteq> k) (pl_running st)\<rparr>"
| "polling_step st PDispose =
     st\<lparr>pl_disposed := True, pl_running := abort (pl_controller st) (pl_running st)\<rparr>"

definition live_runs :: "polling \<Rightarrow> nat list" where
  "live_runs st = map fst (filter (\<lambda>(n, a). \<not> a) (pl_running st))"

definition polling_inv :: "polling \<Rightarrow> bool" where
  "polling_inv st \<longleftrightarrow> distinct (map fst (pl_running st)) \<and> (\<forall>(n, a)\<in>set (pl_running st). n < pl_next st) \<and>
     (\<forall>(n, a)\<in>set (pl_running st). \<not> a \<longrightarrow> pl_controller st = Some n \<and> \<not> pl_disposed st)"

lemma fst_abort [simp]: "map fst (abort c rs) = map fst rs"
  by (cases c) (auto simp: abort_def)

lemma abort_mem: "(n, a) \<in> set (abort c rs) \<Longrightarrow> \<exists>b. (n, b) \<in> set rs \<and> (a \<longleftrightarrow> b \<or> c = Some n)"
  by (cases c) (auto simp: abort_def)

lemma polling_inv_tick:
  assumes "polling_inv st" and "\<not> pl_disposed st"
  shows "polling_inv (tick st)"
proof (cases "pl_hidden st")
  case False
  let ?rs = "abort (pl_controller st) (pl_running st)"
  have below: "n < pl_next st" if "(n, a) \<in> set ?rs" for n a
    using abort_mem [OF that] assms(1) by (auto simp: polling_inv_def)
  have dead: "(n, False) \<notin> set ?rs" for n
  proof
    assume "(n, False) \<in> set ?rs"
    then obtain b where "(n, b) \<in> set (pl_running st)" "\<not> b" "pl_controller st \<noteq> Some n"
      using abort_mem by blast
    with assms(1) show False unfolding polling_inv_def by fastforce
  qed
  have "distinct (map fst ?rs)" using assms(1) by (simp add: polling_inv_def)
  moreover have "(pl_next st, b) \<notin> set (pl_running st)" for b
    using assms(1) by (auto simp: polling_inv_def)
  ultimately show ?thesis
    using False assms(2) below dead
    by (auto simp: polling_inv_def tick_def less_Suc_eq)
qed (use assms in \<open>simp add: tick_def\<close>)

lemma polling_inv_step: "polling_inv st \<Longrightarrow> polling_inv (polling_step st e)"
proof (cases e)
  case PTimer
  then show "polling_inv st \<Longrightarrow> ?thesis" by (simp add: polling_inv_tick)
next
  case (PVisibility v)
  have "polling_inv st \<Longrightarrow> polling_inv (st\<lparr>pl_hidden := \<not> v\<rparr>)" by (simp add: polling_inv_def)
  then show "polling_inv st \<Longrightarrow> ?thesis" using PVisibility by (cases v) (simp_all add: Let_def polling_inv_tick)
next
  case (PSettled k)
  then show "polling_inv st \<Longrightarrow> ?thesis"
    by (auto simp: polling_inv_def distinct_map_filter)
next
  case PDispose
  assume inv: "polling_inv st"
  have "n < pl_next st" if "(n, a) \<in> set (abort (pl_controller st) (pl_running st))" for n a
    using abort_mem [OF that] inv by (auto simp: polling_inv_def)
  moreover have "a" if "(n, a) \<in> set (abort (pl_controller st) (pl_running st))" for n a
    using abort_mem [OF that] inv by (auto simp: polling_inv_def)
  ultimately show ?thesis using inv PDispose by (auto simp: polling_inv_def)
qed

lemma polling_inv_mount: "polling_inv (mount_polling hidden)"
  by (auto simp: polling_inv_def mount_polling_def tick_def abort_def)

interpretation polling_machine: invariant_machine polling_step polling_inv "mount_polling hidden" for hidden
  by unfold_locales (rule polling_inv_mount, rule polling_inv_step)

lemma live_le_one:
  assumes "polling_inv st"
  shows "length (live_runs st) \<le> 1"
proof -
  have d: "distinct (live_runs st)"
    using assms unfolding polling_inv_def live_runs_def by (simp add: distinct_map_filter)
  have "set (live_runs st) \<subseteq> set_option (pl_controller st)"
    using assms by (auto simp: polling_inv_def live_runs_def)
  then have "card (set (live_runs st)) \<le> 1"
    by (cases "pl_controller st") (auto dest: subset_singletonD)
  then show ?thesis using distinct_card [OF d] by simp
qed

lemma live_disposed: "polling_inv st \<Longrightarrow> pl_disposed st \<Longrightarrow> live_runs st = []"
  by (auto simp: polling_inv_def live_runs_def filter_empty_conv)

subsection \<open>Controlled state\<close>

record 'a controlled =
  ct_prop :: "'a option"
  ct_state :: 'a

definition init_controlled :: "'a option \<Rightarrow> 'a \<Rightarrow> 'a controlled" where
  "init_controlled v d = \<lparr>ct_prop = v, ct_state = (case v of None \<Rightarrow> d | Some x \<Rightarrow> x)\<rparr>"

text \<open>A render with a new value, and the effect that follows it when the value is another one.\<close>

definition render_controlled :: "'a option \<Rightarrow> 'a controlled \<Rightarrow> 'a controlled" where
  "render_controlled v st =
     (if v = ct_prop st then st
      else st\<lparr>ct_prop := v, ct_state := (case v of None \<Rightarrow> ct_state st | Some x \<Rightarrow> x)\<rparr>)"

text \<open>\<open>setState\<close>: the internal state changes at once and \<open>onChange\<close> is called with the value.\<close>

definition set_controlled :: "'a \<Rightarrow> 'a controlled \<Rightarrow> 'a controlled \<times> 'a" where
  "set_controlled nxt st = (st\<lparr>ct_state := nxt\<rparr>, nxt)"

lemma controlled_follows: "v \<noteq> ct_prop st \<Longrightarrow> v = Some x \<Longrightarrow> ct_state (render_controlled v st) = x"
  by (simp add: render_controlled_def)

end
