(* ===== verification/AdminProperties.thy ===== *)
theory AdminProperties
  imports StreamPage CertPage TunnelPage SecurityPages ClusterPage LoginPages Hooks "HOL-Library.Code_Target_Nat"
begin

text \<open>
  The properties of the administration pages: servers, port forwarding, certificates, tunnel
  nodes, the security pages, the login and the polling of the dashboard.
\<close>

subsection \<open>Servers and port forwarding\<close>

text \<open>
  C21. The server dialogs send exactly the valid servers: a request carries the form's value with
  its name trimmed, and it is sent if and only if that value has a name, a port from 1 to 65535,
  positive limits, a failover budget that covers the connect timeout, and HTTPS where it redirects
  to HTTPS; the update needs an id besides.
\<close>

theorem server_sent_is_valid:
  "(snd (create_server_save st) = [PostServer v] \<longleftrightarrow> v = server_payload (sf_value st) \<and> server_ok v) \<and>
   (snd (update_server_save st) = [PutServer i v] \<longleftrightarrow>
      v = server_payload (sf_value st) \<and> server_ok v \<and> sv_id (sf_value st) = Some i \<and> i \<noteq> [])"
proof
  show "snd (create_server_save st) = [PostServer v] \<longleftrightarrow> v = server_payload (sf_value st) \<and> server_ok v"
    by (rule create_sends)
  show "snd (update_server_save st) = [PutServer i v] \<longleftrightarrow>
      v = server_payload (sf_value st) \<and> server_ok v \<and> sv_id (sf_value st) = Some i \<and> i \<noteq> []"
    by (auto simp: update_server_save_def server_checks_ok [symmetric] split: option.splits)
qed

text \<open>
  The batch buttons reach the state they name although the calls only flip a switch: when the
  list is up to date, after the calls for enabling (starting) the switch of a server is on if it
  was on or the server is selected, and after those for disabling (stopping) it is on if it was on
  and the server is not selected.
\<close>

theorem server_batch_reaches_wanted:
  assumes "distinct (List.map_filter server_id (sl_servers st))"
    and "\<forall>s\<in>set (sl_servers st). \<forall>i. server_id s = Some i \<longrightarrow> en i = sv_enable s \<and> onl i = sv_onLine s"
    and S: "S = set (sl_selected st) \<inter> set (List.map_filter server_id (sl_servers st))"
  shows "flip_all (List.map_filter server_id (server_targets ActEnable st)) en j = (en j \<or> j \<in> S) \<and>
    flip_all (List.map_filter server_id (server_targets ActDisable st)) en j = (en j \<and> j \<notin> S) \<and>
    flip_all (List.map_filter server_id (server_targets ActStart st)) onl j = (onl j \<or> j \<in> S) \<and>
    flip_all (List.map_filter server_id (server_targets ActStop st)) onl j = (onl j \<and> j \<notin> S)"
proof -
  have one: "flip_all (List.map_filter server_id (filter (\<lambda>s. switch s \<noteq> want) (selectedServers st))) b j
      = (if j \<in> S then want else b j)"
    if "\<forall>s\<in>set (sl_servers st). \<forall>i. server_id s = Some i \<longrightarrow> b i = switch s" for switch want b
  proof (cases "j \<in> S")
    case True
    then show ?thesis using flip_targets [OF assms(1) that, of j want] S by simp
  next
    case False
    let ?ids = "List.map_filter server_id (filter (\<lambda>s. switch s \<noteq> want) (selectedServers st))"
    have "set ?ids \<subseteq> set (List.map_filter server_id (selectedServers st))"
      by (auto simp: map_filter_Some_mem)
    then have "j \<notin> set ?ids" using False S srvs.chosen_ids [of st] by auto
    then show ?thesis
      using False flip_all_eq [OF srvs.distinct_chosen_ids [OF assms(1), of "\<lambda>s. switch s \<noteq> want"], of b j] by simp
  qed
  have en: "\<forall>s\<in>set (sl_servers st). \<forall>i. server_id s = Some i \<longrightarrow> en i = sv_enable s"
    and onl: "\<forall>s\<in>set (sl_servers st). \<forall>i. server_id s = Some i \<longrightarrow> onl i = sv_onLine s"
    using assms(2) by blast+
  show ?thesis
    using one [OF en, of True] one [OF en, of False] one [OF onl, of True] one [OF onl, of False]
    by (auto simp: server_targets_def split: if_splits)
qed

definition demo_server :: "string \<Rightarrow> bool \<Rightarrow> Server" where
  "demo_server i b = initialValue\<lparr>sv_id := Some i, sv_name := i, sv_enable := b, sv_onLine := b\<rparr>"

definition demo_servers :: server_list where
  "demo_servers = (init_server_list (setServers [demo_server ''a'' True, demo_server ''b'' False, demo_server ''c'' False]
     init_server_store))\<lparr>sl_batch := True, sl_selected := [''b'', ''a'']\<rparr>"

theorem server_batch_reaches_wanted_witness:
  "flip_all (List.map_filter server_id (server_targets ActEnable demo_servers)) (\<lambda>i. i = ''a'') ''b'' \<and>
   \<not> flip_all (List.map_filter server_id (server_targets ActEnable demo_servers)) (\<lambda>i. i = ''a'') ''c''"
proof -
  have d: "distinct (List.map_filter server_id (sl_servers demo_servers))" by code_simp
  have f: "\<forall>s\<in>set (sl_servers demo_servers). \<forall>i. server_id s = Some i \<longrightarrow>
      (i = ''a'') = sv_enable s \<and> (i = ''a'') = sv_onLine s"
    by (auto simp: demo_servers_def demo_server_def init_server_list_def setServers_def init_server_store_def
        sl_servers_def server_id_def initialValue_def split: option.splits)
  have "''b'' \<in> set (sl_selected demo_servers) \<inter> set (List.map_filter server_id (sl_servers demo_servers))"
    "''c'' \<notin> set (sl_selected demo_servers) \<inter> set (List.map_filter server_id (sl_servers demo_servers))"
    by code_simp+
  then show ?thesis
    using server_batch_reaches_wanted [OF d f refl, of "''b''"]
      server_batch_reaches_wanted [OF d f refl, of "''c''"] by blast
qed

text \<open>
  The port forwarding dialog sends exactly the valid rules: a trimmed name, a port and upstream
  ports from 1 to 65535, at least one upstream, no blank host, positive limits. An edited rule that
  has an id is updated; every other one, also an edited rule without an id, is created.
\<close>

theorem stream_sent_is_valid:
  "(snd (stream_save st) = [PutStream i v] \<longleftrightarrow>
      v = stream_payload (tf_value st) \<and> stream_ok v \<and> update_target st = Some i) \<and>
   (snd (stream_save st) = [PostStream v] \<longleftrightarrow>
      v = stream_payload (tf_value st) \<and> stream_ok v \<and> update_target st = None)"
  by (auto simp: stream_save_def stream_checks_ok [symmetric] split: option.splits)

subsection \<open>Certificates\<close>

text \<open>
  C24. The pager offers an ascending window of at most five pages that lie between the first and the
  last and include the current one, and the range it shows is not empty and within the total.
\<close>

theorem cert_pager_window:
  assumes "0 < pageSize" and "0 < total_n" and "1 \<le> current" and "current \<le> totalPages total_n pageSize"
  shows "sorted_wrt (<) (page_buttons (totalPages total_n pageSize) current) \<and>
    list_all (\<lambda>p. 1 \<le> p \<and> p \<le> int (totalPages total_n pageSize)) (page_buttons (totalPages total_n pageSize) current) \<and>
    length (page_buttons (totalPages total_n pageSize) current) = min 5 (totalPages total_n pageSize) \<and>
    int current \<in> set (page_buttons (totalPages total_n pageSize) current) \<and>
    1 \<le> startItem current pageSize \<and> startItem current pageSize \<le> endItem current pageSize total_n \<and>
    endItem current pageSize total_n \<le> int total_n"
proof (intro conjI)
  let ?p = "totalPages total_n pageSize"
  have p: "1 \<le> ?p" using assms(3,4) by simp
  show "sorted_wrt (<) (page_buttons ?p current)"
    unfolding page_buttons_window by (simp add: sorted_wrt_map)
  show "list_all (\<lambda>q. 1 \<le> q \<and> q \<le> int ?p) (page_buttons ?p current)"
    using first_button [OF p, of current] by (auto simp: list_all_iff in_window)
  show "length (page_buttons ?p current) = min 5 ?p" by (simp add: page_buttons_def)
  show "int current \<in> set (page_buttons ?p current)"
    using current_button [OF assms(3,4)] by (simp add: in_window)
  have low: "(current - 1) * pageSize < total_n"
  proof -
    have "(current - 1) * pageSize \<le> (?p - 1) * pageSize" using assms(4) by (intro mult_right_mono) auto
    then show ?thesis using pages_bounds(2) [OF assms(1,2)] by linarith
  qed
  have s: "startItem current pageSize = int ((current - 1) * pageSize) + 1"
    using assms(3) by (simp add: startItem_def of_nat_diff)
  show "1 \<le> startItem current pageSize" by (simp add: s)
  have "int ((current - 1) * pageSize) + int pageSize = int current * int pageSize"
    using assms(3) by (simp add: of_nat_diff algebra_simps)
  then show "startItem current pageSize \<le> endItem current pageSize total_n"
    using low assms(1) unfolding s endItem_def by linarith
  show "endItem current pageSize total_n \<le> int total_n" by (simp add: endItem_def)
qed

theorem cert_pager_window_witness:
  "int 9 \<in> set (page_buttons (totalPages 95 10) 9) \<and> startItem 9 10 \<le> endItem 9 10 95"
proof -
  have "totalPages 95 10 = 10" by code_simp
  then show ?thesis using cert_pager_window [of 10 95 9] by simp
qed

text \<open>
  C25. A new certificate is accepted exactly when it has a domain and its address is of the shape
  the regular expression means: one \<open>@\<close>, on both sides words joined by single separators, and a
  dot among those after it.
\<close>

theorem cert_email_accepted:
  "create_cert_check v = None \<longleftrightarrow> cv_domain v \<noteq> [] \<and>
     (\<exists>u d. cv_email v = u @ CHR ''@'' # d \<and> words dash_plus_dot u \<and> words dash_dot d \<and> CHR ''.'' \<in> set d)"
  unfolding create_cert_check_def email_iff by auto

text \<open>
  An application that ends after the user has turned the page loads the page it was started
  on: with the answers in the order of the requests the table ends up with the rows of the old page
  while the pager shows the new one.
\<close>

theorem cert_apply_reloads_old_page:
  assumes "(p, s) \<noteq> paging st"
    and st2: "st2 = set_page p s (fst (handleApply item st))"
    and st3: "st3 = fst (loadData_done (Resolved (ok_response (Some new))) (fst (page_effect (paging st) st2)))"
    and r4: "r4 = handleApply_done (paging st) item (Resolved (ok_response None)) st3"
    and st5: "st5 = fst (loadData_done (Resolved (ok_response (Some old))) (fst r4))"
  shows "snd (page_effect (paging st) st2) = [RequestCerts p s] \<and>
    snd r4 = [Applied, RequestCerts (cp_page st) (cp_pageSize st)] \<and>
    (cp_page st5, cp_pageSize st5) = (p, s) \<and> Some (cp_data st5) = Some (case ca_items old of None \<Rightarrow> [] | Some d \<Rightarrow> d)"
  using assms(1) assms(1) [symmetric]
  by (simp add: st2 st3 r4 st5 set_page_def handleApply_def page_effect_def paging_def loadData_def
      loadData_done_def handleApply_done_def ok_response_def)

definition demo_cert :: "string \<Rightarrow> CertItem" where
  "demo_cert i = \<lparr>ci_id = i, ci_domain = i, ci_email = [], ci_autoRenew = False, ci_renewStats = NotRenewed,
     ci_renewTime = None, ci_notAfter = None, ci_custom = False\<rparr>"

theorem cert_apply_reloads_old_page_witness:
  "\<exists>r. snd r = [Applied, RequestCerts 1 10] \<and>
     cp_data (fst (loadData_done (Resolved (ok_response (Some \<lparr>ca_items = Some [demo_cert ''old''], ca_total = Some 11\<rparr>))) (fst r)))
       = [demo_cert ''old''] \<and>
     cp_page (fst (loadData_done (Resolved (ok_response (Some \<lparr>ca_items = Some [demo_cert ''old''], ca_total = Some 11\<rparr>))) (fst r))) = 2"
proof -
  let ?old = "\<lparr>ca_items = Some [demo_cert ''old''], ca_total = Some 11\<rparr>"
  have "(2, 10) \<noteq> paging init_cert_page" by (simp add: paging_def init_cert_page_def)
  from cert_apply_reloads_old_page [OF this refl refl refl refl, of "demo_cert ''old''" ?old ?old]
  show ?thesis by (intro exI) (auto simp: init_cert_page_def)
qed

subsection \<open>Tunnel nodes\<close>

text \<open>
  C22. Switching one proxy changes that one and no other: with the overrides that are sent each proxy
  is in the state shown before, the switched one in the state chosen, and no override repeats
  what the client reports.
\<close>

theorem tunnel_overrides_exact:
  assumes "distinct (map px_id proxies)"
  shows "list_all (\<lambda>p. effective (proxy_overrides i enabled proxies) p = (if px_id p = i then enabled else px_effective p)) proxies \<and>
    list_all (\<lambda>(k, b). list_ex (\<lambda>p. px_id p = k \<and> px_reported p \<noteq> b) proxies) (proxy_overrides i enabled proxies)"
proof
  show "list_all (\<lambda>p. effective (proxy_overrides i enabled proxies) p = (if px_id p = i then enabled else px_effective p)) proxies"
    using effective_overrides [OF assms] by (simp add: list_all_iff)
  show "list_all (\<lambda>(k, b). list_ex (\<lambda>p. px_id p = k \<and> px_reported p \<noteq> b) proxies) (proxy_overrides i enabled proxies)"
    by (auto simp: list_all_iff list_ex_iff proxy_overrides_def)
qed

definition demo_proxy :: "string \<Rightarrow> bool \<Rightarrow> bool \<Rightarrow> TunnelProxy" where
  "demo_proxy i rep eff = \<lparr>px_id = i, px_route = [], px_localRemote = [], px_description = [], px_domains = [],
     px_reported = rep, px_effective = eff, px_overridden = (rep \<noteq> eff)\<rparr>"

theorem tunnel_overrides_exact_witness:
  "effective (proxy_overrides ''a'' False [demo_proxy ''a'' True True, demo_proxy ''b'' True False]) (demo_proxy ''b'' True False) = False \<and>
   proxy_overrides ''a'' False [demo_proxy ''a'' True True, demo_proxy ''b'' True False] = [(''a'', False), (''b'', False)]"
proof
  have "distinct (map px_id [demo_proxy ''a'' True True, demo_proxy ''b'' True False])" by (simp add: demo_proxy_def)
  from tunnel_overrides_exact [OF this, of "''a''" False]
  show "effective (proxy_overrides ''a'' False [demo_proxy ''a'' True True, demo_proxy ''b'' True False]) (demo_proxy ''b'' True False) = False"
    by (simp add: demo_proxy_def)
  show "proxy_overrides ''a'' False [demo_proxy ''a'' True True, demo_proxy ''b'' True False] = [(''a'', False), (''b'', False)]"
    by code_simp
qed

text \<open>
  When the node is created but the request for its client configuration fails, the wizard
  reports that the creation failed, stays at its first step and never shows the key, which is
  shown only once; closing the wizard erases it.
\<close>

theorem tunnel_wizard_loses_key:
  assumes "wz_step st = 1"
    and r: "r = handleCreate_config (Rejected e) (fst (handleCreate_created (Resolved (ok_response (Some k))) st))"
  shows "snd r = [CreateNodeFailed (Some e)] \<and> wz_nodeKey (fst r) = nk_nodeKey k \<and>
    wizard_view_of (fst r) = StepOne False \<and> wz_nodeKey (set_wizard_open False (fst r)) = []"
  using assms(1)
  by (simp add: r handleCreate_config_def handleCreate_created_def ok_response_def wizard_view_of_def set_wizard_open_def)

theorem tunnel_wizard_loses_key_witness:
  "wizard_view_of (fst (handleCreate_config (Rejected AbortText)
     (fst (handleCreate_created (Resolved (ok_response (Some \<lparr>nk_name = ''n'', nk_nodeKey = ''fgk_1''\<rparr>))) init_wizard)))) = StepOne False"
proof -
  have "wz_step init_wizard = 1" by (simp add: init_wizard_def)
  then show ?thesis using tunnel_wizard_loses_key [OF _ refl] by blast
qed

subsection \<open>Security pages\<close>

text \<open>
  C26. A white list entry is created as a black list entry: the dialog keeps the kind the page had
  when it was mounted, so whatever the user does, every entry that is sent is marked as belonging to
  the black list, also when the page shows the white list.
\<close>

theorem access_allow_created_as_deny:
  "list_all (\<lambda>e. case e of PostAccess v rs \<Rightarrow> av_isBlacklist v | _ \<Rightarrow> True)
     (save_access_dialog (run_events access_step init_access_page es)) \<and>
   save_access_dialog (run_events access_step init_access_page
       [EvSwitch Allow, EvOpen, EvEdit (AxName ''office''), EvEdit (AxInput ''10.0.0.1''), EvEdit AxAddIp]) =
     [PostAccess \<lparr>av_ips = [''10.0.0.1''], av_regions = [], av_name = ''office'', av_description = [],
        av_enable = True, av_isBlacklist = True\<rparr> None]"
proof
  have "av_isBlacklist (af_value (ac_dialog (run_events access_step init_access_page es)))"
    using access_pages.inv_reachable [of es] by (simp add: access_page_inv_def)
  then show "list_all (\<lambda>e. case e of PostAccess v rs \<Rightarrow> av_isBlacklist v | _ \<Rightarrow> True)
      (save_access_dialog (run_events access_step init_access_page es))"
    by (simp add: save_access_dialog_def save_access_def Let_def)
  show "save_access_dialog (run_events access_step init_access_page
       [EvSwitch Allow, EvOpen, EvEdit (AxName ''office''), EvEdit (AxInput ''10.0.0.1''), EvEdit AxAddIp]) =
     [PostAccess \<lparr>av_ips = [''10.0.0.1''], av_regions = [], av_name = ''office'', av_description = [],
        av_enable = True, av_isBlacklist = True\<rparr> None]"
    by code_simp
qed

text \<open>
  C29. In every state of the access page the addresses of the dialog are distinct and each is four
  groups of one to three digits joined by dots. The groups are not bounded by 255.
\<close>

theorem access_addresses_wellformed:
  "distinct (av_ips (af_value (ac_dialog (run_events access_step init_access_page es)))) \<and>
   list_all (\<lambda>ip. \<exists>a b c d. ip = a @ ''.'' @ b @ ''.'' @ c @ ''.'' @ d \<and> octets a \<and> octets b \<and> octets c \<and> octets d)
     (av_ips (af_value (ac_dialog (run_events access_step init_access_page es)))) \<and>
   rx_test ip_rx ''999.999.999.999''"
proof (intro conjI)
  have inv: "access_inv (ac_dialog (run_events access_step init_access_page es))"
    using access_pages.inv_reachable [of es] by (simp add: access_page_inv_def)
  then show "distinct (av_ips (af_value (ac_dialog (run_events access_step init_access_page es))))"
    by (simp add: access_inv_def)
  show "list_all (\<lambda>ip. \<exists>a b c d. ip = a @ ''.'' @ b @ ''.'' @ c @ ''.'' @ d \<and> octets a \<and> octets b \<and> octets c \<and> octets d)
     (av_ips (af_value (ac_dialog (run_events access_step init_access_page es))))"
    using inv unfolding access_inv_def list_all_iff ip_iff by blast
  show "rx_test ip_rx ''999.999.999.999''" by code_simp
qed

text \<open>
  No second line can be typed into the white lists of a rate limit: in every state of the form,
  typing a line break at the end of a list that is not empty leaves the form as it was.
\<close>

theorem rate_newline_lost:
  assumes v: "v = run_events edit_rate init_rate_limit es"
  shows "(if rt_ipWhitelist v = [] then True
      else edit_rate v (RtIps (join_lines (rt_ipWhitelist v) @ [newline])) = v) \<and>
    (if rt_endpointWhitelist v = [] then True
      else edit_rate v (RtEndpoints (join_lines (rt_endpointWhitelist v) @ [newline])) = v)"
proof -
  have "rate_inv v" unfolding v by (rule rate_machine.inv_reachable)
  then show ?thesis by (simp add: rate_inv_def newline_lost)
qed

theorem rate_newline_lost_witness:
  "edit_rate (run_events edit_rate init_rate_limit [RtIps ''10.0.0.1'']) (RtIps (''10.0.0.1'' @ [newline])) =
   run_events edit_rate init_rate_limit [RtIps ''10.0.0.1'']"
proof -
  have "rt_ipWhitelist (run_events edit_rate init_rate_limit [RtIps ''10.0.0.1'']) = [''10.0.0.1'']" by code_simp
  then show ?thesis
    using rate_newline_lost [OF refl, of "[RtIps ''10.0.0.1'']"] by (simp add: join_lines_def)
qed

subsection \<open>Login and polling\<close>

text \<open>
  C23. Logging in is guarded. In every run of the page, with its requests answered at any time or
  never, the button is marked as loading exactly while a login request is out, there is at most
  one, and it carries the password of the form, which cannot change meanwhile and is not empty. In
  every state a request is sent by a submission only, with the password and the challenge token of
  the form, and never while another one runs, while the challenge configuration is loading, without
  a password, or with the challenge on and no token.
\<close>

theorem login_guarded:
  "(let w = run_events login_world_step init_login_world es in
      if lo_loading (lw_page w) then lw_out w = [lo_password (lw_page w)] \<and> lo_password (lw_page w) \<noteq> []
      else lw_out w = []) \<and>
   list_all (\<lambda>x. case x of
       PostAuth p t \<Rightarrow> e = EvSubmit \<and> p = lo_password st \<and> p \<noteq> [] \<and> t = lo_token st \<and>
         \<not> lo_loading st \<and> \<not> lo_configLoading st \<and> \<not> (challenge_on st \<and> no_token st)
     | _ \<Rightarrow> True) (snd (login_step st e))"
proof (rule conjI)
  show "let w = run_events login_world_step init_login_world es in
      if lo_loading (lw_page w) then lw_out w = [lo_password (lw_page w)] \<and> lo_password (lw_page w) \<noteq> []
      else lw_out w = []"
    using login_machine.inv_reachable [of es] by (simp add: login_world_inv_def Let_def)
  have "e = EvSubmit" if "PostAuth p t \<in> set (snd (login_step st e))" for p t
    using that by (cases e) (auto simp: handleLogin_done_def widget_event_def split: if_splits settled.splits widget_callback.splits)
  then show "list_all (\<lambda>x. case x of
       PostAuth p t \<Rightarrow> e = EvSubmit \<and> p = lo_password st \<and> p \<noteq> [] \<and> t = lo_token st \<and>
         \<not> lo_loading st \<and> \<not> lo_configLoading st \<and> \<not> (challenge_on st \<and> no_token st)
     | _ \<Rightarrow> True) (snd (login_step st e))"
    using auth_guarded [of _ _ st e] by (auto simp: list_all_iff split: login_effect.splits)
qed

text \<open>
  C4. The polling hook has at most one request whose signal is not aborted, whatever the order of
  timer, visibility and answers, and none after its cleanup.
\<close>

theorem polling_single_flight:
  "if pl_disposed (run_events polling_step (mount_polling hidden) es)
   then live_runs (run_events polling_step (mount_polling hidden) es) = []
   else length (live_runs (run_events polling_step (mount_polling hidden) es)) \<le> 1"
  using polling_machine.inv_reachable [of hidden es] live_le_one live_disposed by simp

subsection \<open>Further laws\<close>

text \<open>After a deletion the access page asks for its first page, whichever page is shown.\<close>

lemma access_delete_loads_first_page:
  assumes "st = run_events access_step init_access_page es"
  shows "\<exists>n. snd (handleDeleteEntry_done (ac_columns st) (Resolved (ok_response None)) st)
    = [EntryDeleted, RequestAccess (isBlacklist st) 1 n]"
proof -
  have "fst (ac_columns st) = isBlacklist st \<and> fst (snd (ac_columns st)) = 1"
    using access_pages.inv_reachable [of es] assms by (simp add: access_page_inv_def)
  then show ?thesis by (simp add: handleDeleteEntry_done_def loadAccess_def)
qed

text \<open>An answer to an older load moves the rate limits back to the page it was asked for.\<close>

lemma rate_page_snaps_back:
  "pd_paging (rp_list (fst (loadRates_done captured (Resolved (ok_response (Some d))) (set_rate_page p s st)))) = captured"
  by (simp add: loadRates_done_def set_rate_page_def pd_paging_def ok_response_def)

text \<open>The log of blocked requests always shows the rows of the page it names.\<close>

lemma logs_rows_match_page:
  "pd_paging (fst (loadLogs_done k (Resolved (ok_response (Some d))) st)) = k \<and>
   pd_data (fst (loadLogs_done k (Resolved (ok_response (Some d))) st)) = pa_items d"
  by (simp add: loadLogs_done_def pd_paging_def ok_response_def)

text \<open>After a refused login with the challenge on, nothing is sent until the widget calls back.\<close>

lemma login_blocked_after_refusal:
  assumes "challenge_on st" and "st' = fst (handleLogin_done (Resolved (fail_response m)) st)"
    and "list_all (\<lambda>e. \<not> is_widget e) es"
  shows "\<forall>p t. PostAuth p t \<notin> set (snd (login_run st' es))"
  using blocked_run [of st' es] assms
  by (simp add: handleLogin_done_def fail_response_def challenge_on_def no_token_def)

lemma create_form_keeps_https:
  "server_checks (run_events edit_server initialValue es) \<noteq> Some (ErrRedirect, t)"
  by (rule no_redirect_error [OF create_form.inv_reachable])

lemma stream_form_keeps_a_row:
  "st_upStreams (edit_stream_upstream e (tf_value (open_stream s))) \<noteq> []"
  by (rule upstream_rows_kept) (simp add: open_stream_def Let_def split: option.splits)

lemma invite_link_round_trip:
  "list_all code_char code \<Longrightarrow>
   cl_joinCode (init_cluster origin (map_of (query_of (''/cluster?code='' @ code)) ''code'')) = code"
  by (simp only: invite_link_query init_cluster_def cluster_page.simps) simp

end
