(* ===== verification/RouteViews.thy ===== *)
theory RouteViews
  imports RouteList
begin

text \<open>
  The controls of the route list
  (\<open>web/src/pages/server/info/features/DomainNamesList.tsx\<close>): the tool bar with the search
  field, the filters and the tags, the check boxes, the buttons of a row, and the dialog that
  confirms a deletion. A control that is not rendered, or is disabled, does nothing.
\<close>

datatype service_meta = MetaService | MetaCluster | MetaStatic

definition getServiceMeta :: "ServiceType \<Rightarrow> service_meta" where
  "getServiceMeta t = (case t of SvService \<Rightarrow> MetaService | SvCluster \<Rightarrow> MetaCluster | SvStatic \<Rightarrow> MetaStatic)"

subsection \<open>The tool bar\<close>

datatype filter_control = FcQuery string | FcEnabledOnly bool | FcClear | FcBatchMode | FcAllTags | FcTag string

fun change_filter :: "(string \<Rightarrow> string \<Rightarrow> int) \<Rightarrow> filter_control \<Rightarrow> route_list \<Rightarrow> route_list" where
  "change_filter cmp (FcQuery t) st = st\<lparr>rl_query := t\<rparr>"
| "change_filter cmp (FcEnabledOnly b) st = st\<lparr>rl_enabledOnly := b\<rparr>"
| "change_filter cmp FcClear st = clearFilters st"
| "change_filter cmp FcBatchMode st = toggleBatchMode st"
| "change_filter cmp FcAllTags st = (if tags cmp st = [] then st else st\<lparr>rl_tags := []\<rparr>)"
| "change_filter cmp (FcTag t) st = (if t \<in> set (tags cmp st) then toggleTag t st else st)"

record tool_bar =
  tb_shown :: nat
  tb_all :: nat
  tb_clear :: bool
  tb_done :: bool
  tb_tags :: "(string \<times> bool) list"
  tb_all_tags :: bool

definition tool_bar_of :: "(string \<Rightarrow> string \<Rightarrow> int) \<Rightarrow> route_list \<Rightarrow> tool_bar" where
  "tool_bar_of cmp st =
     \<lparr>tb_shown = length (filteredDomains cmp st), tb_all = length (rl_domains st),
      tb_clear = (rl_query st \<noteq> [] \<or> rl_enabledOnly st \<or> 0 < length (rl_tags st)),
      tb_done = rl_batch st, tb_tags = map (\<lambda>t. (t, t \<in> set (rl_tags st))) (tags cmp st),
      tb_all_tags = (rl_tags st = [])\<rparr>"

subsection \<open>The check boxes\<close>

datatype check_control = CcRow DomainName | CcAll bool | CcNone

fun change_check :: "(string \<Rightarrow> string \<Rightarrow> int) \<Rightarrow> check_control \<Rightarrow> route_list \<Rightarrow> route_list" where
  "change_check cmp (CcRow item) st =
     (if \<not> rl_batch st \<or> rl_loading st \<or> rl_acting st \<or> item \<notin> set (filteredDomains cmp st) then st
      else case route_id item of None \<Rightarrow> st | Some i \<Rightarrow> toggleSelected i st)"
| "change_check cmp (CcAll chk) st =
     (if \<not> rl_batch st \<or> rl_acting st \<or> selectableIds cmp st = [] then st else selectAll cmp chk st)"
| "change_check cmp CcNone st =
     (if \<not> rl_batch st \<or> rl_acting st \<or> rl_selected st = [] then st else st\<lparr>rl_selected := []\<rparr>)"

subsection \<open>The buttons of a row\<close>

definition row_there :: "(string \<Rightarrow> string \<Rightarrow> int) \<Rightarrow> route_list \<Rightarrow> DomainName \<Rightarrow> bool" where
  "row_there cmp st item \<longleftrightarrow> \<not> rl_loading st \<and> \<not> rl_batch st \<and> item \<in> set (filteredDomains cmp st)"

definition row_edit :: "DomainName \<Rightarrow> route_list \<Rightarrow> route_list" where
  "row_edit item st = st\<lparr>rl_updateDomain := Some item, rl_updateVisible := True\<rparr>"

text \<open>The id whose state the server is asked to flip; an answer loads the list again.\<close>

definition row_power :: "DomainName \<Rightarrow> string option" where
  "row_power item = route_id item"

definition row_delete :: "DomainName \<Rightarrow> route_list \<Rightarrow> route_list" where
  "row_delete item st =
     (case route_id item of None \<Rightarrow> st | Some i \<Rightarrow> st\<lparr>rl_deleteOpen := True, rl_deleteItems := [item]\<rparr>)"

subsection \<open>The deletion dialog\<close>

record delete_row =
  dr_path :: string
  dr_domains :: "string list"
  dr_hidden :: nat
  dr_running :: bool

record delete_view =
  dv_rows :: "delete_row list"
  dv_more :: nat
  dv_disabled :: bool

definition delete_row_of :: "DomainName \<Rightarrow> delete_row" where
  "delete_row_of item =
     \<lparr>dr_path = dn_path item, dr_domains = take 2 (dn_domains item),
      dr_hidden = (if 2 < length (dn_domains item) then length (dn_domains item) - 2 else 0),
      dr_running = dn_enable item\<rparr>"

definition delete_view_of :: "route_list \<Rightarrow> delete_view option" where
  "delete_view_of st =
     (if \<not> rl_deleteOpen st then None
      else Some
        \<lparr>dv_rows = map delete_row_of (take 3 (rl_deleteItems st)),
         dv_more = (if 3 < length (rl_deleteItems st) then length (rl_deleteItems st) - 3 else 0),
         dv_disabled = rl_deleting st\<rparr>)"

text \<open>The cancel button is disabled while the routes are deleted, the other ways to close are not.\<close>

definition cancel_delete :: "route_list \<Rightarrow> route_list" where
  "cancel_delete st = (if rl_deleting st then st else close_delete st)"

subsection \<open>Laws\<close>

text \<open>The selection stays within the shown routes, and is empty outside the batch mode.\<close>

definition selection_inv :: "(string \<Rightarrow> string \<Rightarrow> int) \<Rightarrow> route_list \<Rightarrow> bool" where
  "selection_inv cmp st \<longleftrightarrow>
     (if rl_batch st then set (rl_selected st) \<subseteq> set (selectableIds cmp st) else rl_selected st = [])"

lemma selectableIds_cong:
  "rl_domains s = rl_domains t \<Longrightarrow> rl_query s = rl_query t \<Longrightarrow> rl_enabledOnly s = rl_enabledOnly t \<Longrightarrow>
   rl_tags s = rl_tags t \<Longrightarrow> selectableIds cmp s = selectableIds cmp t"
proof -
  assume d: "rl_domains s = rl_domains t" and f: "rl_query s = rl_query t"
    "rl_enabledOnly s = rl_enabledOnly t" "rl_tags s = rl_tags t"
  have "shows_route s = shows_route t" by (rule ext) (simp add: shows_route_def f)
  with d show "selectableIds cmp s = selectableIds cmp t" by (simp add: selectableIds_def filteredDomains_def)
qed

text \<open>The effect restores the invariant of any state whose selection is empty outside the mode.\<close>

lemma effect_selection: "(\<not> rl_batch st \<Longrightarrow> rl_selected st = []) \<Longrightarrow> selection_inv cmp (batch_effect cmp st)"
proof (cases "rl_batch st")
  case True
  then have "set (rl_selected (batch_effect cmp st)) \<subseteq> set (selectableIds cmp st)" by (auto simp: batch_effect_def)
  moreover have "rl_batch (batch_effect cmp st)" using True by (simp add: batch_effect_def)
  ultimately show ?thesis by (simp add: selection_inv_def)
qed (simp add: selection_inv_def batch_effect_def)

lemma effect_frame [simp]:
  "rl_domains (batch_effect cmp st) = rl_domains st" "rl_loading (batch_effect cmp st) = rl_loading st"
  "rl_batch (batch_effect cmp st) = rl_batch st" "rl_acting (batch_effect cmp st) = rl_acting st"
  "rl_deleting (batch_effect cmp st) = rl_deleting st" "rl_deleteOpen (batch_effect cmp st) = rl_deleteOpen st"
  "rl_updateVisible (batch_effect cmp st) = rl_updateVisible st"
  by (simp_all add: batch_effect_def)

lemma row_delete_counts:
  "delete_view_of st = Some v \<Longrightarrow> length (dv_rows v) + dv_more v = length (rl_deleteItems st)"
  by (auto simp: delete_view_of_def split: if_splits)

end
