(* ===== verification/FormDialog.thy ===== *)
theory FormDialog
  imports FgPrelude
begin

text \<open>
  The dialog with a form and a save button that seven components of the console repeat: it is
  opened by its parent, is filled in, sends one request when it is saved and is closed by the
  \<open>onOk\<close> of its parent when the request resolves. \<open>form_ops\<close> are the parts in which they
  differ, \<open>dialog_step\<close> is what they have in common, and the locales state what a form has to
  keep to and what then holds of every run. The forms are put in by \<open>FormDialogs\<close>.
\<close>

text \<open>
  The effect on opening (\<open>'p\<close> is what the parent passes), the fields, the mark of a running
  save, the save button (\<open>None\<close> when it is disabled) with the requests it sends, the
  continuation with whether it calls \<open>onOk\<close>, and whether the cancel button is enabled.
\<close>

record ('p, 'f, 'e, 'r, 'a) form_ops =
  op_opened :: "'p \<Rightarrow> 'f"
  op_edit :: "'e \<Rightarrow> 'f \<Rightarrow> 'f"
  op_saving :: "'f \<Rightarrow> bool"
  op_submit :: "'f \<Rightarrow> ('f \<times> 'r list) option"
  op_settled :: "'a \<Rightarrow> 'f \<Rightarrow> 'f \<times> bool"
  op_cancel :: "'f \<Rightarrow> bool"

text \<open>A request that is out is kept with the number of the opening that sent it.\<close>

record ('f, 'r) form_window =
  dg_visible :: bool
  dg_form :: 'f
  dg_opening :: nat
  dg_out :: "(nat \<times> 'r) list"

datatype ('p, 'e, 'a) dialog_event = DgOpen 'p | DgEdit 'e | DgSave | DgCancel | DgDismiss | DgAnswer nat 'a

definition remove_nth :: "nat \<Rightarrow> 'a list \<Rightarrow> 'a list" where
  "remove_nth k xs = take k xs @ drop (Suc k) xs"

text \<open>
  \<open>DgCancel\<close> is the button in the footer, \<open>DgDismiss\<close> everything else that ends in
  \<open>onOpenChange(false)\<close>: the escape key, a click beside the dialog and its cross.
\<close>

fun dialog_step :: "('p, 'f, 'e, 'r, 'a) form_ops \<Rightarrow> ('f, 'r) form_window \<Rightarrow> ('p, 'e, 'a) dialog_event \<Rightarrow> ('f, 'r) form_window" where
  "dialog_step fo d (DgOpen p) =
     (if dg_visible d then d
      else d\<lparr>dg_visible := True, dg_form := op_opened fo p, dg_opening := Suc (dg_opening d)\<rparr>)"
| "dialog_step fo d (DgEdit e) =
     (if dg_visible d then d\<lparr>dg_form := op_edit fo e (dg_form d)\<rparr> else d)"
| "dialog_step fo d DgSave =
     (if \<not> dg_visible d then d
      else case op_submit fo (dg_form d) of None \<Rightarrow> d
        | Some (f, rs) \<Rightarrow> d\<lparr>dg_form := f, dg_out := dg_out d @ map (Pair (dg_opening d)) rs\<rparr>)"
| "dialog_step fo d DgCancel =
     (if dg_visible d \<and> op_cancel fo (dg_form d) then d\<lparr>dg_visible := False\<rparr> else d)"
| "dialog_step fo d DgDismiss = d\<lparr>dg_visible := False\<rparr>"
| "dialog_step fo d (DgAnswer k a) =
     (if length (dg_out d) \<le> k then d
      else case op_settled fo a (dg_form d) of (f, on_ok) \<Rightarrow>
        d\<lparr>dg_form := f, dg_out := remove_nth k (dg_out d), dg_visible := (dg_visible d \<and> \<not> on_ok)\<rparr>)"

definition closed_dialog :: "'f \<Rightarrow> ('f, 'r) form_window" where
  "closed_dialog f = \<lparr>dg_visible = False, dg_form = f, dg_opening = 0, dg_out = []\<rparr>"

text \<open>A save button: what the handler does, unless the button is disabled.\<close>

definition press :: "bool \<Rightarrow> ('x \<Rightarrow> bool) \<Rightarrow> 'f \<times> 'x list \<Rightarrow> ('f \<times> 'x list) option" where
  "press disabled sends r = (if disabled then None else Some (fst r, filter sends (snd r)))"

text \<open>No dismissal while a save is running.\<close>

fun patient :: "('p, 'f, 'e, 'r, 'a) form_ops \<Rightarrow> ('f, 'r) form_window \<Rightarrow> ('p, 'e, 'a) dialog_event list \<Rightarrow> bool" where
  "patient fo d [] = True"
| "patient fo d (e # es) \<longleftrightarrow>
     (e = DgDismiss \<longrightarrow> \<not> op_saving fo (dg_form d)) \<and> patient fo (dialog_step fo d e) es"

lemma set_remove_nth: "k < length xs \<Longrightarrow> set xs = insert (xs ! k) (set (remove_nth k xs))"
proof -
  assume "k < length xs"
  then have "xs = take k xs @ (xs ! k) # drop (Suc k) xs" by (rule id_take_nth_drop)
  then have "set xs = set (take k xs @ (xs ! k) # drop (Suc k) xs)" by simp
  then show ?thesis by (simp add: remove_nth_def)
qed

lemma set_remove_nthD: "x \<in> set (remove_nth k xs) \<Longrightarrow> x \<in> set xs"
  by (auto simp: remove_nth_def dest: in_set_takeD in_set_dropD)

lemma remove_nth_singleton [simp]: "remove_nth 0 [x] = []"
  by (simp add: remove_nth_def)

lemma remove_nth_one [simp]: "\<not> Suc 0 \<le> k \<Longrightarrow> remove_nth k [x] = []"
  by (simp add: not_le)

lemma length_remove_nth [simp]: "k < length xs \<Longrightarrow> length (remove_nth k xs) = length xs - 1"
  by (simp add: remove_nth_def)

subsection \<open>What a form keeps to\<close>

locale form_dialog =
  fixes fo :: "('p, 'f, 'e, 'r, 'a) form_ops"
  assumes opened_idle: "\<not> op_saving fo (op_opened fo p)"
    and edit_saving: "op_saving fo (op_edit fo e f) = op_saving fo f"
    and submit_marks: "op_submit fo f = Some (f', rs) \<Longrightarrow>
      \<not> op_saving fo f \<and> (if op_saving fo f' then \<exists>r. rs = [r] else rs = [])"
    and settled_idle: "\<not> op_saving fo (fst (op_settled fo a f))"
begin

text \<open>The mark is only set while a request of the present opening is out.\<close>

definition honest :: "('f, 'r) form_window \<Rightarrow> bool" where
  "honest d \<longleftrightarrow> (op_saving fo (dg_form d) \<longrightarrow> (\<exists>r. (dg_opening d, r) \<in> set (dg_out d))) \<and>
     (\<forall>x\<in>set (dg_out d). fst x \<le> dg_opening d)"

lemma honest_step: "honest d \<Longrightarrow> honest (dialog_step fo d e)"
proof (cases e)
  case (DgAnswer k a)
  then show "honest d \<Longrightarrow> ?thesis"
    using settled_idle [of a "dg_form d"]
    by (auto simp: honest_def split: prod.splits dest: set_remove_nthD)
next
  case DgSave
  then show "honest d \<Longrightarrow> ?thesis"
    by (fastforce simp: honest_def split: option.splits prod.splits if_splits dest: submit_marks)
qed (auto simp: honest_def opened_idle edit_saving)

lemma honest_run: "\<not> op_saving fo f \<Longrightarrow> honest (run_events (dialog_step fo) (closed_dialog f) es)"
proof (induction es rule: rev_induct)
  case Nil
  then show ?case by (simp add: honest_def closed_dialog_def)
next
  case (snoc e es)
  then show ?case by (simp add: run_events_append honest_step)
qed

text \<open>An answer, of whatever opening, ends the mark.\<close>

lemma answer_ends: "k < length (dg_out d) \<Longrightarrow> \<not> op_saving fo (dg_form (dialog_step fo d (DgAnswer k a)))"
  using settled_idle [of a "dg_form d"] by (auto split: prod.splits)

lemma save_adds: "length (dg_out (dialog_step fo d DgSave)) \<le> Suc (length (dg_out d))"
  by (auto split: option.splits prod.splits if_splits dest!: submit_marks)

end

text \<open>The cancel button of most is disabled while they save; then one request is out at a time.\<close>

locale locked_dialog = form_dialog fo for fo :: "('p, 'f, 'e, 'r, 'a) form_ops" +
  assumes locked: "op_saving fo f \<Longrightarrow> \<not> op_cancel fo f"
begin

definition orderly :: "('f, 'r) form_window \<Rightarrow> bool" where
  "orderly d \<longleftrightarrow> (if op_saving fo (dg_form d) then dg_visible d \<and> (\<exists>r. dg_out d = [(dg_opening d, r)])
     else dg_out d = [])"

lemma orderly_step:
  assumes d: "orderly d" and e: "e = DgDismiss \<Longrightarrow> \<not> op_saving fo (dg_form d)"
  shows "orderly (dialog_step fo d e)"
proof (cases e)
  case (DgAnswer k a)
  then show ?thesis using d settled_idle [of a "dg_form d"]
    by (auto simp: orderly_def split: prod.splits if_splits)
next
  case DgSave
  show ?thesis
  proof (cases "dg_visible d \<and> op_submit fo (dg_form d) \<noteq> None")
    case True
    then obtain f rs where s: "op_submit fo (dg_form d) = Some (f, rs)" by auto
    with submit_marks [OF s] show ?thesis
      using d DgSave True by (auto simp: orderly_def split: if_splits)
  next
    case False
    then show ?thesis using d DgSave by (auto split: option.splits)
  qed
qed (use d e locked opened_idle edit_saving in \<open>auto simp: orderly_def split: if_splits\<close>)

lemma orderly_run:
  "orderly d \<Longrightarrow> patient fo d es \<Longrightarrow> orderly (run_events (dialog_step fo) d es)"
  by (induction es arbitrary: d) (auto intro: orderly_step)

lemma orderly_closed: "\<not> op_saving fo f \<Longrightarrow> orderly (closed_dialog f)"
  by (simp add: orderly_def closed_dialog_def)

text \<open>The number of requests that are out is that of the mark.\<close>

lemma one_request:
  assumes "\<not> op_saving fo f" and "patient fo (closed_dialog f) es"
  shows "length (dg_out (run_events (dialog_step fo) (closed_dialog f) es)) =
      of_bool (op_saving fo (dg_form (run_events (dialog_step fo) (closed_dialog f) es)))"
  using orderly_run [OF orderly_closed [OF assms(1)] assms(2)]
  by (auto simp: orderly_def split: if_splits)

lemma all_shown:
  assumes "\<not> op_saving fo f" and "patient fo (closed_dialog f) es"
    and "dg_out (run_events (dialog_step fo) (closed_dialog f) es) \<noteq> []"
  shows "dg_visible (run_events (dialog_step fo) (closed_dialog f) es)"
  using orderly_run [OF orderly_closed [OF assms(1)] assms(2)] assms(3)
  by (auto simp: orderly_def split: if_splits)

end

end
