(* ===== verification/RoutePage.thy ===== *)
theory RoutePage
  imports RouteList ServerList HealthModel
begin

text \<open>
  The page of one server's routes around its list: the input of several values that the route
  forms use (\<open>web/src/components/ui/multi-select.tsx\<close>), the fields of those forms
  (\<open>pages/server/info/features/CreateDomain.tsx\<close>), the page with its health snapshot
  (\<open>pages/server/info/page.tsx\<close>), its header and the drawing of the pipeline.
\<close>

subsection \<open>Input of several values\<close>

record multi_select =
  ms_open :: bool
  ms_input :: string

definition init_multi :: multi_select where
  "init_multi = \<lparr>ms_open = False, ms_input = []\<rparr>"

definition handleUnselect :: "string \<Rightarrow> string list \<Rightarrow> string list" where
  "handleUnselect item v = filter (\<lambda>i. i \<noteq> item) v"

definition handleSelect :: "string \<Rightarrow> string list \<times> multi_select \<Rightarrow> string list \<times> multi_select" where
  "handleSelect item vs =
     (if item \<in> set (fst vs) then fst vs else fst vs @ [item], (snd vs)\<lparr>ms_input := []\<rparr>)"

text \<open>Delete or Backspace on an element whose \<open>value\<close> is the text given.\<close>

definition handleKeyDown :: "string \<Rightarrow> string list \<Rightarrow> string list" where
  "handleKeyDown target_value v = (if target_value = [] then butlast v else v)"

definition handleInputKeyDown :: "bool \<Rightarrow> string list \<times> multi_select \<Rightarrow> string list \<times> multi_select" where
  "handleInputKeyDown allowCustom vs =
     (let item = js_trim (ms_input (snd vs)) in
      if item \<noteq> [] \<and> allowCustom
      then (if item \<in> set (fst vs) then fst vs else fst vs @ [item], (snd vs)\<lparr>ms_input := []\<rparr>)
      else vs)"

definition selectables :: "(string \<times> string) list \<Rightarrow> string list \<Rightarrow> (string \<times> string) list" where
  "selectables options v = filter (\<lambda>(l, x). x \<notin> set v) options"

text \<open>The list below the input: the labels on offer, and the text that can be added.\<close>

definition multi_list ::
  "bool \<Rightarrow> (string \<times> string) list \<Rightarrow> string list \<times> multi_select \<Rightarrow> (string list \<times> string option) option" where
  "multi_list allowCustom options vs =
     (let item = js_trim (ms_input (snd vs)); sel = selectables options (fst vs) in
      if ms_open (snd vs) \<and> (sel \<noteq> [] \<or> allowCustom \<and> item \<noteq> [])
      then Some (map fst sel, if allowCustom \<and> item \<noteq> [] \<and> item \<notin> set (fst vs) then Some item else None)
      else None)"

datatype multi_event = MsType string | MsEnter | MsErase string | MsPick string | MsRemove string | MsFocus bool

text \<open>What the user can do; only what is on offer can be picked.\<close>

fun multi_step ::
  "bool \<Rightarrow> (string \<times> string) list \<Rightarrow> string list \<times> multi_select \<Rightarrow> multi_event \<Rightarrow> string list \<times> multi_select" where
  "multi_step cust options vs (MsType t) = (fst vs, (snd vs)\<lparr>ms_input := t\<rparr>)"
| "multi_step cust options vs MsEnter = handleInputKeyDown cust vs"
| "multi_step cust options vs (MsErase target) = (handleKeyDown target (fst vs), snd vs)"
| "multi_step cust options vs (MsPick x) =
     (if x \<in> snd ` set (selectables options (fst vs)) \<or> cust \<and> x \<noteq> [] \<and> x = js_trim (ms_input (snd vs))
      then handleSelect x vs else vs)"
| "multi_step cust options vs (MsRemove x) = (handleUnselect x (fst vs), snd vs)"
| "multi_step cust options vs (MsFocus b) = (fst vs, (snd vs)\<lparr>ms_open := b\<rparr>)"

subsection \<open>The fields of a route\<close>

datatype route_basic_edit = RbDomains "string list" | RbPath string | RbType ServiceType | RbBot bool

fun edit_route_basic :: "route_basic_edit \<Rightarrow> DomainName \<Rightarrow> DomainName" where
  "edit_route_basic (RbDomains ds) v = v\<lparr>dn_domains := ds\<rparr>"
| "edit_route_basic (RbPath t) v = v\<lparr>dn_path := t\<rparr>"
| "edit_route_basic (RbType t) v = v\<lparr>dn_serviceType := t\<rparr>"
| "edit_route_basic (RbBot b) v = v\<lparr>dn_enableBotProtection := b\<rparr>"

datatype route_target_edit = RtAccess "string option" | RtService string | RtRoot string
  | RtTryFiles "string list" | RtUpstream nat string | RtUpRemove nat | RtUpAdd

text \<open>The cards of the target tab: each is there for one service type.\<close>

fun edit_route_target :: "route_target_edit \<Rightarrow> DomainName \<Rightarrow> DomainName" where
  "edit_route_target (RtAccess i) v = v\<lparr>dn_accessNodeId := i\<rparr>"
| "edit_route_target (RtService t) v = (if dn_serviceType v = SvService then v\<lparr>dn_service := Some t\<rparr> else v)"
| "edit_route_target (RtRoot t) v = (if dn_serviceType v = SvStatic then v\<lparr>dn_root := Some t\<rparr> else v)"
| "edit_route_target (RtTryFiles fs) v = (if dn_serviceType v = SvStatic then v\<lparr>dn_tryFiles := fs\<rparr> else v)"
| "edit_route_target (RtUpstream k t) v = (if dn_serviceType v = SvCluster then updateUpstreamService k t v else v)"
| "edit_route_target (RtUpRemove k) v = (if dn_serviceType v = SvCluster then removeUpstream k v else v)"
| "edit_route_target RtUpAdd v = (if dn_serviceType v = SvCluster then addUpstream v else v)"

datatype route_health_edit = RhEnable bool | RhPath string | RhInterval "rat option" | RhTimeout "rat option"

text \<open>The health card is there for services and clusters; its fields are disabled without the check.\<close>

definition health_fields :: "DomainName \<Rightarrow> bool" where
  "health_fields v \<longleftrightarrow> dn_serviceType v = SvService \<or> dn_serviceType v = SvCluster"

fun edit_route_health :: "route_health_edit \<Rightarrow> DomainName \<Rightarrow> DomainName" where
  "edit_route_health (RhEnable b) v = (if health_fields v then v\<lparr>dn_enableHealthCheck := b\<rparr> else v)"
| "edit_route_health (RhPath t) v =
     (if health_fields v \<and> dn_enableHealthCheck v then v\<lparr>dn_healthCheckPath := Some t\<rparr> else v)"
| "edit_route_health (RhInterval t) v =
     (if health_fields v \<and> dn_enableHealthCheck v then v\<lparr>dn_interval := Some (js_Number t)\<rparr> else v)"
| "edit_route_health (RhTimeout t) v =
     (if health_fields v \<and> dn_enableHealthCheck v then v\<lparr>dn_timeout := Some (js_Number t)\<rparr> else v)"

datatype route_header_edit = ReAdd | ReRemove nat | ReKey nat string | ReValue nat string

fun edit_route_headers :: "route_header_edit \<Rightarrow> DomainName \<Rightarrow> DomainName" where
  "edit_route_headers ReAdd v = addHeader v"
| "edit_route_headers (ReRemove k) v = removeHeader k v"
| "edit_route_headers (ReKey k t) v = updateHeader k (Some t) None v"
| "edit_route_headers (ReValue k t) v = updateHeader k None (Some t) v"

text \<open>The buttons that probe an address or a directory; a rejected call has no handler.\<close>

datatype probe_effect = CheckService string | CheckPath string | ServiceUp | ServiceDown "string option"
  | PathThere | PathMissing | ProbeUnhandled

definition probe_service :: "string option \<Rightarrow> probe_effect list" where
  "probe_service v = (case v of None \<Rightarrow> [] | Some t \<Rightarrow> if js_trim t = [] then [] else [CheckService t])"

definition probe_service_done :: "'a settled \<Rightarrow> probe_effect list" where
  "probe_service_done s =
     (case s of Resolved r \<Rightarrow> if success r then [ServiceUp] else [ServiceDown (resp_message r)]
      | Rejected e \<Rightarrow> [ProbeUnhandled])"

definition probe_root :: "string option \<Rightarrow> probe_effect list" where
  "probe_root v = (case v of None \<Rightarrow> [] | Some t \<Rightarrow> if js_trim t = [] then [] else [CheckPath t])"

definition probe_root_done :: "bool settled \<Rightarrow> probe_effect list" where
  "probe_root_done s =
     (case s of Resolved r \<Rightarrow> if resp_data r = Some True then [PathThere] else [PathMissing]
      | Rejected e \<Rightarrow> [ProbeUnhandled])"

datatype route_edit = ReBasic route_basic_edit | ReTarget route_target_edit | ReHealth route_health_edit
  | ReHeader route_header_edit

fun edit_route :: "DomainName \<Rightarrow> route_edit \<Rightarrow> DomainName" where
  "edit_route v (ReBasic e) = edit_route_basic e v"
| "edit_route v (ReTarget e) = edit_route_target e v"
| "edit_route v (ReHealth e) = edit_route_health e v"
| "edit_route v (ReHeader e) = edit_route_headers e v"

subsection \<open>The health of the server\<close>

record info_page =
  ip_health :: "ServerHealthSnapshot option"
  ip_loading :: bool

definition init_info :: info_page where
  "init_info = \<lparr>ip_health = None, ip_loading = False\<rparr>"

datatype info_effect = RequestHealth string | HealthFailed

text \<open>The handler, the mount effect and each turn of the ten-second timer.\<close>

definition loadHealth :: "string option \<Rightarrow> info_page \<Rightarrow> info_page \<times> info_effect list" where
  "loadHealth i st =
     (case i of None \<Rightarrow> (st, [])
      | Some x \<Rightarrow> if x = [] then (st, []) else (st\<lparr>ip_loading := True\<rparr>, [RequestHealth x]))"

definition loadHealth_done :: "ServerHealthSnapshot settled \<Rightarrow> info_page \<Rightarrow> info_page \<times> info_effect list" where
  "loadHealth_done s st =
     (case s of
        Resolved r \<Rightarrow> (st\<lparr>ip_health := resp_data r, ip_loading := False\<rparr>, [])
      | Rejected e \<Rightarrow> (st\<lparr>ip_loading := False\<rparr>, [HealthFailed]))"

text \<open>The button; the timer calls the handler whether or not a request is out.\<close>

definition click_load_health :: "string option \<Rightarrow> info_page \<Rightarrow> info_page \<times> info_effect list" where
  "click_load_health i st = (if i = None \<or> i = Some [] \<or> ip_loading st then (st, []) else loadHealth i st)"

definition currentServer :: "string option \<Rightarrow> server_store \<Rightarrow> Server option" where
  "currentServer i store = List.find (\<lambda>s. sv_id s = i) (ss_servers store)"

record health_card =
  hk_all_ok :: bool
  hk_total :: nat
  hk_clusters :: "nat \<times> nat"
  hk_path :: "string option"
  hk_counts :: "nat \<times> nat \<times> nat"
  hk_targets :: "(string option \<times> probe_label \<times> proxy_label) list"

datatype info_view = NoServerId | NoHealth | HealthOffline | HealthCard health_card

definition UnhealthyTargetRow :: "DestinationHealthInfo \<Rightarrow> string option \<times> probe_label \<times> proxy_label" where
  "UnhealthyTargetRow d =
     (address d, getProbeLabel True (parseDestinationHealth (dh_active d)),
      getProxyLabel (parseDestinationHealth (dh_passive d)))"

definition info_view_of :: "string option \<Rightarrow> info_page \<Rightarrow> info_view" where
  "info_view_of i st =
     (if i = None \<or> i = Some [] then NoServerId
      else case ip_health st of None \<Rightarrow> NoHealth
        | Some h \<Rightarrow>
            if \<not> online h then HealthOffline
            else let s = health_summary (Some h) in HealthCard
              \<lparr>hk_all_ok = (hc_unhealthy (hs_counts s) = 0), hk_total = hc_total (hs_counts s),
               hk_clusters = (hs_enabled s, hs_clusters s),
               hk_path = (case hs_paths s of [p] \<Rightarrow> Some p | _ \<Rightarrow> None),
               hk_counts = (hc_healthy (hs_counts s), hc_unhealthy (hs_counts s), hc_unknown (hs_counts s)),
               hk_targets = map UnhealthyTargetRow (hs_targets s)\<rparr>)"

subsection \<open>The pipeline\<close>

datatype policy_badge = PolBlacklist | PolWhitelist | PolTunnel | PolStandard

record pipeline_view =
  pv_online :: bool
  pv_port :: "string option"
  pv_https :: bool
  pv_routes :: nat
  pv_policy :: "policy_badge list"
  pv_total :: nat
  pv_unhealthy :: "nat option"
  pv_counts :: "nat \<times> nat"

definition policy_badges :: "Server option \<Rightarrow> policy_badge list" where
  "policy_badges server =
     (case server of None \<Rightarrow> [PolStandard]
      | Some s \<Rightarrow> (if sv_enableBlacklist s then [PolBlacklist] else []) @
          (if sv_enableWhitelist s then [PolWhitelist] else []) @ (if sv_enableTunnel s then [PolTunnel] else []) @
          (if \<not> sv_enableBlacklist s \<and> \<not> sv_enableWhitelist s \<and> \<not> sv_enableTunnel s then [PolStandard] else []))"

definition TrafficPipelineVisualizer :: "Server option \<Rightarrow> nat \<Rightarrow> nat \<Rightarrow> nat \<Rightarrow> nat \<Rightarrow> pipeline_view" where
  "TrafficPipelineVisualizer server domainCount healthyCount unhealthyCount totalDestinations =
     \<lparr>pv_online = (case server of None \<Rightarrow> False | Some s \<Rightarrow> sv_onLine s),
      pv_port = map_option (\<lambda>s. port_text (sv_listen s)) server,
      pv_https = (case server of None \<Rightarrow> False | Some s \<Rightarrow> sv_isHttps s),
      pv_routes = domainCount, pv_policy = policy_badges server, pv_total = totalDestinations,
      pv_unhealthy = (if unhealthyCount = 0 then None else Some unhealthyCount),
      pv_counts = (healthyCount, unhealthyCount)\<rparr>"

definition info_pipeline :: "string option \<Rightarrow> server_store \<Rightarrow> nat \<Rightarrow> info_page \<Rightarrow> pipeline_view" where
  "info_pipeline i store domainCount st =
     (let c = hs_counts (health_summary (ip_health st)) in
      TrafficPipelineVisualizer (currentServer i store) domainCount (hc_healthy c) (hc_unhealthy c) (hc_total c))"

subsection \<open>The header\<close>

record route_stores =
  rs_loading :: bool
  rs_loadingDomains :: bool

record route_header =
  rh_stores :: route_stores
  rh_create :: bool

datatype header_effect = BadServerId | RequestReload string | RoutesReloaded | RoutesReloadFailed

definition handleRefreshRoute :: "string option \<Rightarrow> route_header \<Rightarrow> route_header \<times> header_effect list" where
  "handleRefreshRoute i st =
     (case i of None \<Rightarrow> (st, [BadServerId])
      | Some x \<Rightarrow> if x = [] then (st, [BadServerId])
          else (st\<lparr>rh_stores := (rh_stores st)\<lparr>rs_loading := True\<rparr>\<rparr>, [RequestReload x]))"

text \<open>\<open>captured\<close> is the flag of the render of the handler.\<close>

definition handleRefreshRoute_done :: "bool \<Rightarrow> 'a settled \<Rightarrow> route_header \<Rightarrow> route_header \<times> header_effect list" where
  "handleRefreshRoute_done captured s st =
     (let st' = st\<lparr>rh_stores := (rh_stores st)\<lparr>rs_loading := False\<rparr>\<rparr> in
      case s of
        Resolved r \<Rightarrow> (st'\<lparr>rh_stores := (rh_stores st')\<lparr>rs_loadingDomains := \<not> captured\<rparr>\<rparr>, [RoutesReloaded])
      | Rejected e \<Rightarrow> (st', [RoutesReloadFailed]))"

text \<open>The buttons: refreshing is disabled while it runs, and both without an id.\<close>

definition click_refresh_route :: "string option \<Rightarrow> route_header \<Rightarrow> route_header \<times> header_effect list" where
  "click_refresh_route i st =
     (if rs_loading (rh_stores st) \<or> i = None \<or> i = Some [] then (st, []) else handleRefreshRoute i st)"

definition open_create_route :: "string option \<Rightarrow> route_header \<Rightarrow> route_header" where
  "open_create_route i st = (if i = None \<or> i = Some [] then st else st\<lparr>rh_create := True\<rparr>)"

definition close_create_route :: "route_header \<Rightarrow> route_header" where
  "close_create_route st = st\<lparr>rh_create := False\<rparr>"

subsection \<open>Laws\<close>

text \<open>Whatever is typed, pasted or picked, the values are distinct and none is blank.\<close>

definition multi_inv :: "bool \<Rightarrow> (string \<times> string) list \<Rightarrow> string list \<times> multi_select \<Rightarrow> bool" where
  "multi_inv cust options vs \<longleftrightarrow> distinct (fst vs) \<and>
     (\<forall>x\<in>set (fst vs). x \<in> snd ` set options \<or> cust \<and> x \<noteq> [] \<and> js_trim x = x)"

lemma multi_inv_step: "multi_inv cust options vs \<Longrightarrow> multi_inv cust options (multi_step cust options vs e)"
proof (cases e)
  case (MsErase t)
  then show "multi_inv cust options vs \<Longrightarrow> ?thesis"
    by (auto simp: multi_inv_def handleKeyDown_def distinct_butlast dest: in_set_butlastD)
qed (auto simp: multi_inv_def handleInputKeyDown_def handleSelect_def handleUnselect_def selectables_def Let_def)

interpretation multi: invariant_machine "multi_step cust options" "multi_inv cust options" "([], init_multi)"
  for cust options
proof
  show "multi_inv cust options ([], init_multi)" by (simp add: multi_inv_def)
  show "multi_inv cust options s \<Longrightarrow> multi_inv cust options (multi_step cust options s e)" for s e
    by (rule multi_inv_step)
qed

text \<open>The numbers of a new route are numbers in every state of the form.\<close>

definition route_form_inv :: "DomainName \<Rightarrow> bool" where
  "route_form_inv v \<longleftrightarrow> dn_interval v \<noteq> None \<and> dn_timeout v \<noteq> None \<and> dn_id v = None"

interpretation route_fields: invariant_machine edit_route route_form_inv "fallbackValue i" for i
proof
  show "route_form_inv (fallbackValue i)" by (simp add: route_form_inv_def fallbackValue_def)
  show "route_form_inv v \<Longrightarrow> route_form_inv (edit_route v e)" for v e
  proof (cases e)
    case (ReBasic x) then show "route_form_inv v \<Longrightarrow> ?thesis" by (cases x) (simp_all add: route_form_inv_def)
  next
    case (ReTarget x) then show "route_form_inv v \<Longrightarrow> ?thesis"
      by (cases x) (simp_all add: route_form_inv_def updateUpstreamService_def removeUpstream_def addUpstream_def)
  next
    case (ReHealth x) then show "route_form_inv v \<Longrightarrow> ?thesis" by (cases x) (simp_all add: route_form_inv_def)
  next
    case (ReHeader x) then show "route_form_inv v \<Longrightarrow> ?thesis"
      by (cases x) (simp_all add: route_form_inv_def addHeader_def removeHeader_def updateHeader_def)
  qed
qed

text \<open>Answers are not matched with requests: the last one to arrive is shown.\<close>

lemma last_answer_shown:
  "ip_health (fst (loadHealth_done (Resolved (ok_response (Some old)))
     (fst (loadHealth_done (Resolved (ok_response (Some new))) st)))) = Some old"
  by (simp add: loadHealth_done_def ok_response_def)

text \<open>A reload that succeeds turns the flag of the routes, so that the list loads again.\<close>

lemma reload_turns_flag:
  "rs_loadingDomains (rh_stores (fst (handleRefreshRoute_done (rs_loadingDomains (rh_stores st)) (Resolved r) st)))
     = (\<not> rs_loadingDomains (rh_stores st))"
  by (simp add: handleRefreshRoute_done_def Let_def)

lemma policy_badges_nonempty: "policy_badges s \<noteq> []"
  by (auto simp: policy_badges_def split: option.splits)

end
