(* ===== verification/FormDialogs.thy ===== *)
theory FormDialogs
  imports FormDialog ServerForm RoutePage StreamPage CertForms
begin

text \<open>
  The dialogs of the console that follow \<open>FormDialog\<close>: a server is created or edited
  (\<open>web/src/pages/server/features/CreateServer.tsx\<close>, \<open>UpdateServer.tsx\<close>), a route is
  (\<open>server/info/features/CreateDomain.tsx\<close>, \<open>UpdateDomain.tsx\<close>), a forwarding rule
  (\<open>stream-forward/features/StreamForwardDialog.tsx\<close>), a certificate is requested or uploaded
  (\<open>cert/features/CreateCert.tsx\<close>, \<open>UploadCert.tsx\<close>). The fields of the editing dialogs are
  written out again in the code, so they have definitions of their own.
\<close>

subsection \<open>Servers\<close>

fun server_sends :: "server_effect \<Rightarrow> bool" where
  "server_sends (PostServer v) = True"
| "server_sends (PutServer i v) = True"
| "server_sends _ = False"

datatype server_form_edit = SfTab server_tab | SfEdit server_edit

fun edit_create_form :: "server_form_edit \<Rightarrow> server_form \<Rightarrow> server_form" where
  "edit_create_form (SfTab t) st = st\<lparr>sf_tab := t\<rparr>"
| "edit_create_form (SfEdit e) st = st\<lparr>sf_value := edit_server (sf_value st) e\<rparr>"

definition create_server_ops :: "(unit, server_form, server_form_edit, server_effect, 'a settled) form_ops" where
  "create_server_ops =
     \<lparr>op_opened = \<lambda>_. open_create_server, op_edit = edit_create_form, op_saving = sf_saving,
      op_submit = \<lambda>f. press (sf_saving f) server_sends (create_server_save f),
      op_settled = \<lambda>a f. (fst (create_server_done a f), ServerOnOk \<in> set (snd (create_server_done a f))),
      op_cancel = \<lambda>f. \<not> sf_saving f\<rparr>"

text \<open>The three tabs of the editing dialog.\<close>

definition update_server_basic :: "basic_edit \<Rightarrow> server_form \<Rightarrow> server_form" where
  "update_server_basic e st = st\<lparr>sf_value := edit_basic e (sf_value st)\<rparr>"

definition update_server_limits :: "limit_edit \<Rightarrow> server_form \<Rightarrow> server_form" where
  "update_server_limits e st = st\<lparr>sf_value := edit_limits e (sf_value st)\<rparr>"

definition update_server_features :: "feature_edit \<Rightarrow> server_form \<Rightarrow> server_form" where
  "update_server_features e st = st\<lparr>sf_value := edit_features e (sf_value st)\<rparr>"

fun edit_update_form :: "server_form_edit \<Rightarrow> server_form \<Rightarrow> server_form" where
  "edit_update_form (SfTab t) st = st\<lparr>sf_tab := t\<rparr>"
| "edit_update_form (SfEdit (EdB e)) st = update_server_basic e st"
| "edit_update_form (SfEdit (EdL e)) st = update_server_limits e st"
| "edit_update_form (SfEdit (EdF e)) st = update_server_features e st"

definition update_server_ops :: "(Server option, server_form, server_form_edit, server_effect, 'a settled) form_ops" where
  "update_server_ops =
     \<lparr>op_opened = open_update_server, op_edit = edit_update_form, op_saving = sf_saving,
      op_submit = \<lambda>f. press (sf_saving f) server_sends (update_server_save f),
      op_settled = \<lambda>a f. (fst (create_server_done a f), ServerOnOk \<in> set (snd (create_server_done a f))),
      op_cancel = \<lambda>f. \<not> sf_saving f\<rparr>"

subsection \<open>Routes\<close>

fun route_sends :: "form_effect \<Rightarrow> bool" where
  "route_sends (RequestCreate d) = True"
| "route_sends (RequestUpdate i d) = True"
| "route_sends _ = False"

datatype route_form_edit = RfTab form_tab | RfEdit route_edit

fun edit_create_route :: "route_form_edit \<Rightarrow> route_form \<Rightarrow> route_form" where
  "edit_create_route (RfTab t) st = st\<lparr>rf_tab := t\<rparr>"
| "edit_create_route (RfEdit e) st = st\<lparr>rf_value := edit_route (rf_value st) e\<rparr>"

text \<open>
  The save button of a new route is also disabled without the id of its server. A request is
  kept with the flag \<open>loadingDomains\<close> of the render whose handler sent it: the continuation
  writes the opposite of it to the store.
\<close>

definition create_route_ops ::
  "string option \<Rightarrow> bool \<Rightarrow> (unit, route_form, route_form_edit, bool \<times> form_effect, 'a settled) form_ops" where
  "create_route_ops i loadingDomains =
     \<lparr>op_opened = \<lambda>_. open_create i, op_edit = edit_create_route, op_saving = rf_saving,
      op_submit = \<lambda>f. map_option (apsnd (map (Pair loadingDomains)))
        (press (rf_saving f \<or> i = None \<or> i = Some []) route_sends (create_save i f)),
      op_settled = \<lambda>a f. (fst (save_done a f), CallOnOk \<in> set (snd (save_done a f))),
      op_cancel = \<lambda>f. \<not> rf_saving f\<rparr>"

text \<open>The fields of the editing dialog, in the order of its tabs.\<close>

definition update_route_basic :: "route_basic_edit \<Rightarrow> route_form \<Rightarrow> route_form" where
  "update_route_basic e st = st\<lparr>rf_value := edit_route_basic e (rf_value st)\<rparr>"

definition update_route_target :: "route_target_edit \<Rightarrow> route_form \<Rightarrow> route_form" where
  "update_route_target e st =
     st\<lparr>rf_value := (let v = rf_value st in case e of
         RtAccess i \<Rightarrow> v\<lparr>dn_accessNodeId := i\<rparr>
       | RtService t \<Rightarrow> if dn_serviceType v = SvService then v\<lparr>dn_service := Some t\<rparr> else v
       | RtRoot t \<Rightarrow> if dn_serviceType v = SvStatic then v\<lparr>dn_root := Some t\<rparr> else v
       | RtTryFiles fs \<Rightarrow> if dn_serviceType v = SvStatic then v\<lparr>dn_tryFiles := fs\<rparr> else v
       | _ \<Rightarrow> v)\<rparr>"

definition update_route_upstreams :: "route_target_edit \<Rightarrow> route_form \<Rightarrow> route_form" where
  "update_route_upstreams e st =
     (if dn_serviceType (rf_value st) \<noteq> SvCluster then st
      else st\<lparr>rf_value := (case e of
          RtUpstream k t \<Rightarrow> updateUpstreamService k t (rf_value st)
        | RtUpRemove k \<Rightarrow> removeUpstream k (rf_value st)
        | RtUpAdd \<Rightarrow> addUpstream (rf_value st)
        | _ \<Rightarrow> rf_value st)\<rparr>)"

definition update_route_health :: "route_health_edit \<Rightarrow> route_form \<Rightarrow> route_form" where
  "update_route_health e st = st\<lparr>rf_value := edit_route_health e (rf_value st)\<rparr>"

definition update_route_headers :: "route_header_edit \<Rightarrow> route_form \<Rightarrow> route_form" where
  "update_route_headers e st = st\<lparr>rf_value := edit_route_headers e (rf_value st)\<rparr>"

fun edit_update_route :: "route_form_edit \<Rightarrow> route_form \<Rightarrow> route_form" where
  "edit_update_route (RfTab t) st = st\<lparr>rf_tab := t\<rparr>"
| "edit_update_route (RfEdit (ReBasic e)) st = update_route_basic e st"
| "edit_update_route (RfEdit (ReTarget e)) st = update_route_upstreams e (update_route_target e st)"
| "edit_update_route (RfEdit (ReHealth e)) st = update_route_health e st"
| "edit_update_route (RfEdit (ReHeader e)) st = update_route_headers e st"

definition update_route_ops ::
  "string option \<Rightarrow> bool \<Rightarrow> (DomainName option, route_form, route_form_edit, bool \<times> form_effect, 'a settled) form_ops" where
  "update_route_ops i loadingDomains =
     \<lparr>op_opened = open_update i, op_edit = edit_update_route, op_saving = rf_saving,
      op_submit = \<lambda>f. map_option (apsnd (map (Pair loadingDomains)))
        (press (rf_saving f) route_sends (update_save f)),
      op_settled = \<lambda>a f. (fst (save_done a f), CallOnOk \<in> set (snd (save_done a f))),
      op_cancel = \<lambda>f. \<not> rf_saving f\<rparr>"

subsection \<open>Port forwarding\<close>

fun stream_sends :: "stream_effect \<Rightarrow> bool" where
  "stream_sends (PostStream v) = True"
| "stream_sends (PutStream i v) = True"
| "stream_sends _ = False"

datatype stream_form_edit = TfTab stream_tab | TfBasic stream_edit | TfUpstream stream_up_edit
  | TfAdvanced stream_adv_edit

fun edit_stream_form :: "stream_form_edit \<Rightarrow> stream_form \<Rightarrow> stream_form" where
  "edit_stream_form (TfTab t) st = st\<lparr>tf_tab := t\<rparr>"
| "edit_stream_form (TfBasic e) st = st\<lparr>tf_value := edit_stream_basic e (tf_value st)\<rparr>"
| "edit_stream_form (TfUpstream e) st = st\<lparr>tf_value := edit_stream_upstream e (tf_value st)\<rparr>"
| "edit_stream_form (TfAdvanced e) st = st\<lparr>tf_value := edit_stream_advanced e (tf_value st)\<rparr>"

text \<open>Whether it created or updated only changes the text of the toast.\<close>

definition stream_ops :: "(StreamForward option, stream_form, stream_form_edit, stream_effect, 'a settled) form_ops" where
  "stream_ops =
     \<lparr>op_opened = open_stream, op_edit = edit_stream_form, op_saving = tf_saving,
      op_submit = \<lambda>f. press (tf_saving f) stream_sends (stream_save f),
      op_settled = \<lambda>a f. (let r = stream_save_done a (update_target f \<noteq> None) f in (fst r, StreamOnOk \<in> set (snd r))),
      op_cancel = \<lambda>f. \<not> tf_saving f\<rparr>"

subsection \<open>Certificates\<close>

fun create_cert_sends :: "create_cert_effect \<Rightarrow> bool" where
  "create_cert_sends (PostCert v) = True"
| "create_cert_sends _ = False"

text \<open>The handlers return at once while they submit; the cancel buttons stay enabled.\<close>

definition create_cert_ops :: "(unit, create_cert, cert_edit, create_cert_effect, 'a settled) form_ops" where
  "create_cert_ops =
     \<lparr>op_opened = \<lambda>_. open_create_cert, op_edit = \<lambda>e st. st\<lparr>cc_value := edit_cert e (cc_value st)\<rparr>,
      op_saving = cc_submitting,
      op_submit = \<lambda>f. press (cc_submitting f) create_cert_sends (create_cert_ok f),
      op_settled = \<lambda>a f. (fst (create_cert_done a f), CertOnOk \<in> set (snd (create_cert_done a f))),
      op_cancel = \<lambda>f. True\<rparr>"

fun upload_cert_sends :: "upload_cert_effect \<Rightarrow> bool" where
  "upload_cert_sends (PostUpload ps) = True"
| "upload_cert_sends _ = False"

definition upload_cert_ops ::
  "(edit_item, edit_item \<times> upload_cert, upload_edit, upload_cert_effect, 'a cert_answer) form_ops" where
  "upload_cert_ops =
     \<lparr>op_opened = \<lambda>item. (item, open_upload_cert item),
      op_edit = \<lambda>e f. (fst f, edit_upload (fst f) e (snd f)),
      op_saving = \<lambda>f. uc_submitting (snd f),
      op_submit = \<lambda>f. press (uc_submitting (snd f)) upload_cert_sends
        (Pair (fst f) (fst (upload_cert_ok (fst f) (snd f))), snd (upload_cert_ok (fst f) (snd f))),
      op_settled = \<lambda>a f. (Pair (fst f) (fst (upload_cert_done a (snd f))),
        UploadOnOk \<in> set (snd (upload_cert_done a (snd f)))),
      op_cancel = \<lambda>f. True\<rparr>"

subsection \<open>They keep to the contract\<close>

lemma edit_create_form_saving [simp]: "sf_saving (edit_create_form e st) = sf_saving st"
  by (cases "(e, st)" rule: edit_create_form.cases) simp_all

lemma edit_update_form_saving [simp]: "sf_saving (edit_update_form e st) = sf_saving st"
  by (cases "(e, st)" rule: edit_update_form.cases)
    (simp_all add: update_server_basic_def update_server_limits_def update_server_features_def)

interpretation create_server: locked_dialog create_server_ops
  by unfold_locales
    (auto simp: create_server_ops_def open_create_server_def press_def create_server_save_def
      create_server_done_def split: if_splits option.splits settled.splits)

interpretation update_server: locked_dialog update_server_ops
  by unfold_locales
    (auto simp: update_server_ops_def open_update_server_def press_def update_server_save_def
      create_server_done_def split: if_splits option.splits settled.splits)

lemma edit_create_route_saving [simp]: "rf_saving (edit_create_route e st) = rf_saving st"
  by (cases "(e, st)" rule: edit_create_route.cases) simp_all

lemma edit_update_route_saving [simp]: "rf_saving (edit_update_route e st) = rf_saving st"
  by (cases "(e, st)" rule: edit_update_route.cases)
    (simp_all add: update_route_basic_def update_route_target_def update_route_upstreams_def update_route_health_def
      update_route_headers_def)

interpretation create_route: locked_dialog "create_route_ops i b" for i b
  by unfold_locales
    (auto simp: create_route_ops_def open_create_def press_def create_save_def save_done_def
      split: if_splits option.splits settled.splits)

interpretation update_route: locked_dialog "update_route_ops i b" for i b
  by unfold_locales
    (auto simp: update_route_ops_def open_update_def press_def update_save_def save_done_def
      split: if_splits option.splits settled.splits)

lemma edit_stream_form_saving [simp]: "tf_saving (edit_stream_form e st) = tf_saving st"
  by (cases "(e, st)" rule: edit_stream_form.cases) simp_all

interpretation stream_dialog: locked_dialog stream_ops
  by unfold_locales
    (auto simp: stream_ops_def open_stream_def press_def stream_save_def stream_save_done_def Let_def
      split: if_splits option.splits settled.splits)

interpretation create_cert_dialog: form_dialog create_cert_ops
  by unfold_locales
    (auto simp: create_cert_ops_def open_create_cert_def press_def create_cert_ok_def create_cert_done_def
      split: if_splits option.splits settled.splits)

lemma edit_upload_submitting [simp]: "uc_submitting (edit_upload item e st) = uc_submitting st"
  by (cases "(item, e, st)" rule: edit_upload.cases) simp_all

interpretation upload_cert_dialog: form_dialog upload_cert_ops
  by unfold_locales
    (auto simp: upload_cert_ops_def open_upload_cert_def press_def upload_cert_ok_def upload_cert_done_def
      split: if_splits option.splits)

text \<open>The two editors of a server change a value alike.\<close>

lemma update_fields_as_create: "edit_update_form e st = edit_create_form e st"
  by (cases "(e, st)" rule: edit_update_form.cases)
    (simp_all add: update_server_basic_def update_server_limits_def update_server_features_def)

lemma update_target_as_create: "update_route_upstreams e (update_route_target e st) = edit_create_route (RfEdit (ReTarget e)) st"
  by (cases e) (simp_all add: update_route_upstreams_def update_route_target_def Let_def)

lemma update_route_as_create: "edit_update_route e st = edit_create_route e st"
proof (cases e)
  case (RfEdit x)
  then show ?thesis
    by (cases x) (use update_target_as_create [of _ st] in
      \<open>simp_all add: update_route_basic_def update_route_health_def update_route_headers_def\<close>)
qed simp

text \<open>
  The probing buttons of the editing dialog send what is in the field, blank or not, where those of
  the other do nothing.
\<close>

datatype update_probe = UpCheckService "string option" | UpCheckPath "string option"

definition update_probe_service :: "DomainName \<Rightarrow> update_probe list" where
  "update_probe_service v = (if dn_serviceType v = SvService then [UpCheckService (dn_service v)] else [])"

definition update_probe_upstream :: "nat \<Rightarrow> DomainName \<Rightarrow> update_probe list" where
  "update_probe_upstream k v =
     (if dn_serviceType v = SvCluster \<and> k < length (dn_upStreams v)
      then [UpCheckService (Some (us_service (dn_upStreams v ! k)))] else [])"

definition update_probe_root :: "DomainName \<Rightarrow> update_probe list" where
  "update_probe_root v = (if dn_serviceType v = SvStatic then [UpCheckPath (dn_root v)] else [])"

lemma update_probes_blank:
  "dn_serviceType v = SvService \<Longrightarrow> dn_service v = Some [] \<Longrightarrow>
     update_probe_service v = [UpCheckService (Some [])] \<and> probe_service (dn_service v) = []"
  by (simp add: update_probe_service_def probe_service_def js_trim_def)

end
