(* ===== verification/RouteSystem.thy ===== *)
theory RouteSystem
  imports RouteViews FormDialogs
begin

text \<open>
  The page of a server's routes as one machine: the header and its dialog
  (\<open>web/src/pages/server/info/features/Header.tsx\<close>, \<open>CreateDomain.tsx\<close>), the list with its
  dialogs (\<open>DomainNamesList.tsx\<close>, \<open>UpdateDomain.tsx\<close>) and the stores they share
  (\<open>store/server\<close>). The routes themselves are in the store \<open>useDomainStore\<close>, so they outlive
  the page; so do the requests that are out when the page is left. Answers come in any order:
  an event names the request it answers by its position. The store is broken (\<open>sy_broken\<close>) while it
  holds \<open>undefined\<close> in place of a list, from an answer without data: then the page cannot be rendered.
\<close>

text \<open>
  What was called by a page that has been left: its continuations still write to the stores,
  while writes to the states of its components are lost. The server is the one it was opened for.
\<close>

datatype old_call = OldLoad string | OldCreate bool | OldUpdate bool "string option"
  | OldCalls "string option" "string list" | OldPower "string option"

record route_sys =
  sy_id :: "string option"
  sy_mounted :: bool
  sy_broken :: bool
  sy_stores :: route_stores
  sy_list :: route_list
  sy_create :: "(route_form, bool \<times> form_effect) form_window"
  sy_update :: "(route_form, bool \<times> form_effect) form_window"
  sy_loads :: "string list"
  sy_reloads :: "bool list"
  sy_power :: "string list"
  sy_batches :: "(batch_label \<times> string list \<times> nat \<times> nat) list"
  sy_deletes :: "(string list \<times> string list \<times> nat \<times> nat) list"
  sy_old :: "old_call list"

datatype route_event =
    RsVisit "string option" | RsLeave
  | RsRefresh | RsReload nat "unit settled"
  | RsCreate "(unit, route_form_edit, unit settled) dialog_event"
  | RsUpdate "(DomainName option, route_form_edit, unit settled) dialog_event"
  | RsEdit DomainName | RsPower DomainName | RsPowered nat "unit settled"
  | RsFilter filter_control | RsCheck check_control
  | RsBatch batch_label | RsBatched nat bool
  | RsAskRow DomainName | RsAsk | RsCancelDelete | RsDismissDelete | RsConfirm | RsDeleted nat bool
  | RsLoaded nat "DomainName list settled"
  | RsOld nat "DomainName list settled"

definition init_route_list :: "DomainName list \<Rightarrow> route_list" where
  "init_route_list ds =
     \<lparr>rl_domains = ds, rl_loading = False, rl_query = [], rl_enabledOnly = False, rl_tags = [],
      rl_batch = False, rl_selected = [], rl_acting = False, rl_deleteOpen = False, rl_deleteItems = [],
      rl_deleting = False, rl_updateVisible = False, rl_updateDomain = None\<rparr>"

definition init_route_sys :: route_sys where
  "init_route_sys =
     \<lparr>sy_id = None, sy_mounted = False, sy_broken = False, sy_stores = \<lparr>rs_loading = False, rs_loadingDomains = False\<rparr>,
      sy_list = init_route_list [], sy_create = closed_dialog (open_create None),
      sy_update = closed_dialog (open_update None None), sy_loads = [], sy_reloads = [], sy_power = [],
      sy_batches = [], sy_deletes = [], sy_old = []\<rparr>"

abbreviation flag :: "route_sys \<Rightarrow> bool" where
  "flag s \<equiv> rs_loadingDomains (sy_stores s)"

subsection \<open>Loading the list\<close>

fun load_request :: "list_effect \<Rightarrow> string option" where
  "load_request (RequestDomains i) = Some i"
| "load_request _ = None"

definition put_list :: "list_result \<Rightarrow> route_sys \<Rightarrow> route_sys" where
  "put_list r s = s\<lparr>sy_list := fst r, sy_loads := sy_loads s @ List.map_filter load_request (snd r)\<rparr>"

definition load_list :: "route_sys \<Rightarrow> route_sys" where
  "load_list s = put_list (loadDomainName (sy_id s) (sy_list s)) s"

text \<open>The effect of the list on \<open>loadingDomains\<close>: it loads when the flag has changed.\<close>

definition put_stores :: "route_stores \<Rightarrow> route_sys \<Rightarrow> route_sys" where
  "put_stores st s =
     (let s' = s\<lparr>sy_stores := st\<rparr> in
      if sy_mounted s \<and> rs_loadingDomains st \<noteq> flag s then load_list s' else s')"

definition set_flag :: "bool \<Rightarrow> route_sys \<Rightarrow> route_sys" where
  "set_flag b s = put_stores ((sy_stores s)\<lparr>rs_loadingDomains := b\<rparr>) s"

subsection \<open>Coming and going\<close>

text \<open>The router mounts the page for another server only after it has left the present one.\<close>

definition visit :: "string option \<Rightarrow> route_sys \<Rightarrow> route_sys" where
  "visit i s =
     (if sy_broken s then s else
     load_list (s\<lparr>sy_id := i, sy_mounted := True, sy_list := init_route_list (rl_domains (sy_list s)),
       sy_create := closed_dialog (open_create i), sy_update := closed_dialog (open_update i None)\<rparr>))"

definition left_calls :: "route_sys \<Rightarrow> old_call list" where
  "left_calls s =
     map OldLoad (sy_loads s) @ map (\<lambda>x. OldCreate (fst (snd x))) (dg_out (sy_create s)) @
     map (\<lambda>x. OldUpdate (fst (snd x)) (sy_id s)) (dg_out (sy_update s)) @
     map (\<lambda>i. OldPower (sy_id s)) (sy_power s) @
     map (\<lambda>b. OldCalls (sy_id s) (fst (snd b))) (sy_batches s) @
     map (\<lambda>d. OldCalls (sy_id s) (fst (snd d))) (sy_deletes s)"

definition leave :: "route_sys \<Rightarrow> route_sys" where
  "leave s =
     s\<lparr>sy_mounted := False, sy_list := init_route_list (rl_domains (sy_list s)),
       sy_create := closed_dialog (open_create None), sy_update := closed_dialog (open_update None None),
       sy_loads := [], sy_power := [], sy_batches := [], sy_deletes := [], sy_old := sy_old s @ left_calls s\<rparr>"

text \<open>
  The store gets \<open>undefined\<close>: \<open>domains.flatMap\<close> throws in the next render of a page that is there, so
  that the router shows its error page in place of it.
\<close>

definition lose_list :: "route_sys \<Rightarrow> route_sys" where
  "lose_list s =
     (let s' = (if sy_mounted s then leave s else s)
      in s'\<lparr>sy_broken := True, sy_list := (sy_list s')\<lparr>rl_domains := []\<rparr>\<rparr>)"

definition old_load :: "string option \<Rightarrow> old_call list" where
  "old_load i = (case i of None \<Rightarrow> [] | Some x \<Rightarrow> if x = [] then [] else [OldLoad x])"

fun answer_old :: "DomainName list settled \<Rightarrow> old_call \<Rightarrow> route_sys \<Rightarrow> route_sys" where
  "answer_old a (OldLoad i) s =
     (case a of Rejected e \<Rightarrow> s
      | Resolved r \<Rightarrow>
          (case resp_data r of
             None \<Rightarrow> lose_list s
           | Some ds \<Rightarrow> s\<lparr>sy_broken := False, sy_list := (sy_list s)\<lparr>rl_domains := ds\<rparr>\<rparr>))"
| "answer_old a (OldCreate b) s = (case a of Rejected e \<Rightarrow> s | Resolved r \<Rightarrow> set_flag (\<not> b) s)"
| "answer_old a (OldUpdate b i) s =
     (case a of Rejected e \<Rightarrow> s | Resolved r \<Rightarrow> set_flag (\<not> b) (s\<lparr>sy_old := sy_old s @ old_load i\<rparr>))"
| "answer_old a (OldCalls i ids) s =
     s\<lparr>sy_old := sy_old s @ (if tl ids = [] then old_load i else [OldCalls i (tl ids)])\<rparr>"
| "answer_old a (OldPower i) s =
     (case a of Rejected e \<Rightarrow> s | Resolved r \<Rightarrow> s\<lparr>sy_old := sy_old s @ old_load i\<rparr>)"

subsection \<open>The handlers\<close>

definition header_of :: "route_sys \<Rightarrow> route_header" where
  "header_of s = \<lparr>rh_stores = sy_stores s, rh_create = dg_visible (sy_create s)\<rparr>"

definition refresh_routes :: "route_sys \<Rightarrow> route_sys" where
  "refresh_routes s =
     (let r = click_refresh_route (sy_id s) (header_of s) in
      s\<lparr>sy_stores := rh_stores (fst r),
        sy_reloads := sy_reloads s @ (if snd r = [] then [] else [flag s])\<rparr>)"

definition answer_reload :: "nat \<Rightarrow> unit settled \<Rightarrow> route_sys \<Rightarrow> route_sys" where
  "answer_reload k a s =
     (if length (sy_reloads s) \<le> k then s
      else put_stores (rh_stores (fst (handleRefreshRoute_done (sy_reloads s ! k) a (header_of s))))
        (s\<lparr>sy_reloads := remove_nth k (sy_reloads s)\<rparr>))"

text \<open>The dialog of the header; when a creation resolves the flag is turned.\<close>

definition create_event :: "(unit, route_form_edit, unit settled) dialog_event \<Rightarrow> route_sys \<Rightarrow> route_sys" where
  "create_event ev s =
     (let s' = s\<lparr>sy_create := dialog_step (create_route_ops (sy_id s) (flag s)) (sy_create s) ev\<rparr> in
      case ev of
        DgOpen u \<Rightarrow> if rh_create (open_create_route (sy_id s) (header_of s)) then s' else s
      | DgAnswer k (Resolved r) \<Rightarrow>
          if length (dg_out (sy_create s)) \<le> k then s
          else set_flag (\<not> fst (snd (dg_out (sy_create s) ! k))) s'
      | _ \<Rightarrow> s')"

definition put_update :: "(route_form, bool \<times> form_effect) form_window \<Rightarrow> route_sys \<Rightarrow> route_sys" where
  "put_update d s = s\<lparr>sy_update := d, sy_list := (sy_list s)\<lparr>rl_updateVisible := dg_visible d\<rparr>\<rparr>"

text \<open>The dialog of the list: its \<open>onOk\<close> loads the list, and then the flag is turned as well.\<close>

definition update_event :: "(DomainName option, route_form_edit, unit settled) dialog_event \<Rightarrow> route_sys \<Rightarrow> route_sys" where
  "update_event ev s =
     (let s' = put_update (dialog_step (update_route_ops (sy_id s) (flag s)) (sy_update s) ev) s in
      case ev of
        DgOpen u \<Rightarrow> s
      | DgAnswer k (Resolved r) \<Rightarrow>
          if length (dg_out (sy_update s)) \<le> k then s
          else set_flag (\<not> fst (snd (dg_out (sy_update s) ! k))) (load_list s')
      | _ \<Rightarrow> s')"

definition edit_row :: "(string \<Rightarrow> string \<Rightarrow> int) \<Rightarrow> DomainName \<Rightarrow> route_sys \<Rightarrow> route_sys" where
  "edit_row cmp item s =
     (if \<not> row_there cmp (sy_list s) item then s
      else put_update (dialog_step (update_route_ops (sy_id s) (flag s) ::
               (DomainName option, route_form, route_form_edit, bool \<times> form_effect, unit settled) form_ops)
               (sy_update s) (DgOpen (Some item)))
             (s\<lparr>sy_list := row_edit item (sy_list s)\<rparr>))"

definition press_power :: "(string \<Rightarrow> string \<Rightarrow> int) \<Rightarrow> DomainName \<Rightarrow> route_sys \<Rightarrow> route_sys" where
  "press_power cmp item s =
     (if \<not> row_there cmp (sy_list s) item then s
      else case row_power item of None \<Rightarrow> s | Some i \<Rightarrow> s\<lparr>sy_power := sy_power s @ [i]\<rparr>)"

definition answer_power :: "nat \<Rightarrow> unit settled \<Rightarrow> route_sys \<Rightarrow> route_sys" where
  "answer_power k a s =
     (if length (sy_power s) \<le> k then s
      else let s' = s\<lparr>sy_power := remove_nth k (sy_power s)\<rparr> in
        case a of Rejected e \<Rightarrow> s' | Resolved r \<Rightarrow> load_list s')"

text \<open>The buttons of the batch are disabled while one runs or nothing is selected.\<close>

definition start_batch :: "batch_label \<Rightarrow> route_sys \<Rightarrow> route_sys" where
  "start_batch l s =
     (if \<not> rl_batch (sy_list s) \<or> rl_selected (sy_list s) = [] \<or> rl_acting (sy_list s) then s
      else case runBatchAction l (batch_targets l (sy_list s)) (sy_list s) of (r, ids) \<Rightarrow>
        (put_list r s)\<lparr>sy_batches := sy_batches s @ (if ids = [] then [] else [(l, ids, 0, 0)])\<rparr>)"

fun count_call :: "bool \<Rightarrow> nat \<times> nat \<Rightarrow> nat \<times> nat" where
  "count_call ok (a, b) = (if ok then (a + 1, b) else (a, b + 1))"

definition answer_batch :: "nat \<Rightarrow> bool \<Rightarrow> route_sys \<Rightarrow> route_sys" where
  "answer_batch k ok s =
     (if length (sy_batches s) \<le> k then s
      else case sy_batches s ! k of (l, ids, n) \<Rightarrow>
        if tl ids \<noteq> [] then s\<lparr>sy_batches := (sy_batches s)[k := (l, tl ids, count_call ok n)]\<rparr>
        else (put_list (runBatchAction_done (sy_id s) l (count_call ok n) (sy_list s)) s)
               \<lparr>sy_batches := remove_nth k (sy_batches s)\<rparr>)"

definition start_delete :: "route_sys \<Rightarrow> route_sys" where
  "start_delete s =
     (if \<not> rl_deleteOpen (sy_list s) \<or> rl_deleting (sy_list s) then s
      else case handleConfirmDelete (sy_list s) of (r, ids) \<Rightarrow>
        (put_list r s)\<lparr>sy_deletes := sy_deletes s @ (if ids = [] then [] else [(ids, ids, 0, 0)])\<rparr>)"

definition answer_delete :: "nat \<Rightarrow> bool \<Rightarrow> route_sys \<Rightarrow> route_sys" where
  "answer_delete k ok s =
     (if length (sy_deletes s) \<le> k then s
      else case sy_deletes s ! k of (targets, ids, n) \<Rightarrow>
        if tl ids \<noteq> [] then s\<lparr>sy_deletes := (sy_deletes s)[k := (targets, tl ids, count_call ok n)]\<rparr>
        else (put_list (handleConfirmDelete_done (sy_id s) targets (count_call ok n) (sy_list s)) s)
               \<lparr>sy_deletes := remove_nth k (sy_deletes s)\<rparr>)"

definition ask_batch_delete :: "route_sys \<Rightarrow> route_sys" where
  "ask_batch_delete s =
     (let l = sy_list s in
      if \<not> rl_batch l \<or> rl_selected l = [] \<or> rl_deleting l \<or> rl_acting l then s
      else s\<lparr>sy_list := fst (askDelete l)\<rparr>)"

definition answer_load :: "nat \<Rightarrow> DomainName list settled \<Rightarrow> route_sys \<Rightarrow> route_sys" where
  "answer_load k a s =
     (if length (sy_loads s) \<le> k then s
      else let s' = s\<lparr>sy_loads := remove_nth k (sy_loads s)\<rparr> in
        case loadDomainName_done a (sy_list s) of None \<Rightarrow> lose_list s' | Some r \<Rightarrow> put_list r s')"

subsection \<open>One step\<close>

fun page_event :: "(string \<Rightarrow> string \<Rightarrow> int) \<Rightarrow> route_event \<Rightarrow> route_sys \<Rightarrow> route_sys" where
  "page_event cmp RsRefresh s = refresh_routes s"
| "page_event cmp (RsCreate ev) s = create_event ev s"
| "page_event cmp (RsUpdate ev) s = update_event ev s"
| "page_event cmp (RsEdit item) s = edit_row cmp item s"
| "page_event cmp (RsPower item) s = press_power cmp item s"
| "page_event cmp (RsPowered k a) s = answer_power k a s"
| "page_event cmp (RsFilter c) s = s\<lparr>sy_list := change_filter cmp c (sy_list s)\<rparr>"
| "page_event cmp (RsCheck c) s = s\<lparr>sy_list := change_check cmp c (sy_list s)\<rparr>"
| "page_event cmp (RsBatch l) s = start_batch l s"
| "page_event cmp (RsBatched k ok) s = answer_batch k ok s"
| "page_event cmp (RsAskRow item) s =
     (if row_there cmp (sy_list s) item then s\<lparr>sy_list := row_delete item (sy_list s)\<rparr> else s)"
| "page_event cmp RsAsk s = ask_batch_delete s"
| "page_event cmp RsCancelDelete s = s\<lparr>sy_list := cancel_delete (sy_list s)\<rparr>"
| "page_event cmp RsDismissDelete s = s\<lparr>sy_list := close_delete (sy_list s)\<rparr>"
| "page_event cmp RsConfirm s = start_delete s"
| "page_event cmp (RsDeleted k ok) s = answer_delete k ok s"
| "page_event cmp (RsLoaded k a) s = answer_load k a s"
| "page_event cmp RsLeave s = leave s"
| "page_event cmp _ s = s"

text \<open>What happens with and without the page; then the effect of the list that follows a commit.\<close>

definition route_dispatch :: "(string \<Rightarrow> string \<Rightarrow> int) \<Rightarrow> route_event \<Rightarrow> route_sys \<Rightarrow> route_sys" where
  "route_dispatch cmp e s =
     (case e of
        RsVisit i \<Rightarrow> if sy_mounted s then s else visit i s
      | RsReload k a \<Rightarrow> answer_reload k a s
      | RsOld k a \<Rightarrow>
          if length (sy_old s) \<le> k then s
          else answer_old a (sy_old s ! k) (s\<lparr>sy_old := remove_nth k (sy_old s)\<rparr>)
      | _ \<Rightarrow> if sy_mounted s then page_event cmp e s else s)"

definition route_step :: "(string \<Rightarrow> string \<Rightarrow> int) \<Rightarrow> route_sys \<Rightarrow> route_event \<Rightarrow> route_sys" where
  "route_step cmp s e = (route_dispatch cmp e s)\<lparr>sy_list := batch_effect cmp (sy_list (route_dispatch cmp e s))\<rparr>"

end
