(* ===== verification/RouteMarks.thy ===== *)
theory RouteMarks
  imports RouteSystem
begin

text \<open>
  The invariant of the page of a server's routes: a mark that says that something runs is set
  exactly while its request is out, every load is one of the page's own server, and the
  selection stays within what is shown.
\<close>

definition route_dialog_honest :: "(route_form, 'r) form_window \<Rightarrow> bool" where
  "route_dialog_honest d \<longleftrightarrow> (rf_saving (dg_form d) \<longrightarrow> (\<exists>r. (dg_opening d, r) \<in> set (dg_out d))) \<and>
     (\<forall>x\<in>set (dg_out d). fst x \<le> dg_opening d)"

definition calls_inv :: "route_sys \<Rightarrow> bool" where
  "calls_inv s \<longleftrightarrow>
     (rl_loading (sy_list s) \<longrightarrow> sy_loads s \<noteq> []) \<and>
     set (sy_loads s) \<subseteq> {i. sy_id s = Some i \<and> i \<noteq> []} \<and>
     length (sy_reloads s) = of_bool (rs_loading (sy_stores s)) \<and>
     length (sy_batches s) = of_bool (rl_acting (sy_list s)) \<and>
     length (sy_deletes s) = of_bool (rl_deleting (sy_list s))"

definition dialogs_inv :: "route_sys \<Rightarrow> bool" where
  "dialogs_inv s \<longleftrightarrow> route_dialog_honest (sy_create s) \<and> route_dialog_honest (sy_update s)"

definition store_inv :: "route_sys \<Rightarrow> bool" where
  "store_inv s \<longleftrightarrow> (sy_mounted s \<longrightarrow> \<not> sy_broken s)"

definition page_inv :: "(string \<Rightarrow> string \<Rightarrow> int) \<Rightarrow> route_sys \<Rightarrow> bool" where
  "page_inv cmp s \<longleftrightarrow> calls_inv s \<and> store_inv s \<and> dialogs_inv s \<and> selection_inv cmp (sy_list s)"

definition unselected :: "route_sys \<Rightarrow> bool" where
  "unselected s \<longleftrightarrow> (\<not> rl_batch (sy_list s) \<longrightarrow> rl_selected (sy_list s) = [])"

subsection \<open>The dialogs\<close>

lemma closed_honest: "\<not> rf_saving f \<Longrightarrow> route_dialog_honest (closed_dialog f)"
  by (simp add: route_dialog_honest_def closed_dialog_def)

lemma create_honest:
  fixes ev :: "(unit, route_form_edit, unit settled) dialog_event"
  shows "route_dialog_honest d \<Longrightarrow> route_dialog_honest (dialog_step (create_route_ops i b) d ev)"
  using create_route.honest_step [of i b d ev]
  unfolding create_route.honest_def route_dialog_honest_def by (simp add: create_route_ops_def)

lemma update_honest:
  fixes ev :: "(DomainName option, route_form_edit, unit settled) dialog_event"
  shows "route_dialog_honest d \<Longrightarrow> route_dialog_honest (dialog_step (update_route_ops i b) d ev)"
  using update_route.honest_step [of i b d ev]
  unfolding update_route.honest_def route_dialog_honest_def by (simp add: update_route_ops_def)

lemma open_not_saving [simp]: "\<not> rf_saving (open_create i)" "\<not> rf_saving (open_update i d)"
  by (simp_all add: open_create_def open_update_def)

subsection \<open>What the helpers leave alone\<close>

lemma put_list_simps [simp]:
  "sy_id (put_list r s) = sy_id s" "sy_stores (put_list r s) = sy_stores s" "sy_mounted (put_list r s) = sy_mounted s"
  "sy_create (put_list r s) = sy_create s" "sy_update (put_list r s) = sy_update s"
  "sy_reloads (put_list r s) = sy_reloads s" "sy_batches (put_list r s) = sy_batches s"
  "sy_deletes (put_list r s) = sy_deletes s" "sy_list (put_list r s) = fst r" "sy_old (put_list r s) = sy_old s"
  "sy_power (put_list r s) = sy_power s"
  "sy_loads (put_list r s) = sy_loads s @ List.map_filter load_request (snd r)"
  by (simp_all add: put_list_def)

lemma load_list_frame [simp]:
  "sy_id (load_list s) = sy_id s" "sy_stores (load_list s) = sy_stores s" "sy_mounted (load_list s) = sy_mounted s"
  "sy_create (load_list s) = sy_create s" "sy_update (load_list s) = sy_update s"
  "sy_reloads (load_list s) = sy_reloads s" "sy_batches (load_list s) = sy_batches s"
  "sy_deletes (load_list s) = sy_deletes s" "sy_old (load_list s) = sy_old s"
  by (simp_all add: load_list_def)

lemma loadDomainName_batch [simp]: "rl_batch (fst (loadDomainName i st)) = rl_batch st"
  by (simp add: loadDomainName_def split: option.splits)

lemma load_list_list [simp]:
  "rl_batch (sy_list (load_list s)) = rl_batch (sy_list s)" "rl_selected (sy_list (load_list s)) = rl_selected (sy_list s)"
  "rl_acting (sy_list (load_list s)) = rl_acting (sy_list s)" "rl_deleting (sy_list (load_list s)) = rl_deleting (sy_list s)"
  by (simp_all add: load_list_def)

text \<open>A load is one request for the page's server, with the mark.\<close>

definition own_server :: "string option \<Rightarrow> string list" where
  "own_server i = (case i of None \<Rightarrow> [] | Some x \<Rightarrow> if x = [] then [] else [x])"

lemma own_server_sub: "set (own_server i) \<subseteq> {x. i = Some x \<and> x \<noteq> []}"
  by (auto simp: own_server_def split: option.splits)

lemma broken_frame [simp]:
  "sy_broken (put_list r s) = sy_broken s" "sy_broken (load_list s) = sy_broken s"
  by (simp_all add: put_list_def load_list_def)

lemma load_requests: "List.map_filter load_request (snd (loadDomainName i st)) = own_server i"
  by (simp add: loadDomainName_def own_server_def List.map_filter_simps split: option.splits)

lemma load_marks: "rl_loading (fst (loadDomainName i st)) \<longleftrightarrow> rl_loading st \<or> own_server i \<noteq> []"
  by (simp add: loadDomainName_def own_server_def split: option.splits)

lemma load_list_loads: "sy_loads (load_list s) = sy_loads s @ own_server (sy_id s)"
  by (simp add: load_list_def load_requests)

lemma load_list_calls: "calls_inv s \<Longrightarrow> calls_inv (load_list s)"
  using own_server_sub [of "sy_id s"]
  by (auto simp: calls_inv_def load_list_loads) (auto simp: load_list_def load_marks)

lemma put_stores_calls:
  assumes "calls_inv (s\<lparr>sy_stores := st\<rparr>)"
  shows "calls_inv (put_stores st s)"
  using load_list_calls [OF assms] assms by (simp add: put_stores_def Let_def)

lemma set_flag_calls: "calls_inv s \<Longrightarrow> calls_inv (set_flag b s)"
  unfolding set_flag_def by (rule put_stores_calls) (simp add: calls_inv_def)

lemma put_stores_frame [simp]:
  "sy_create (put_stores st s) = sy_create s" "sy_update (put_stores st s) = sy_update s"
  "rl_batch (sy_list (put_stores st s)) = rl_batch (sy_list s)"
  "rl_selected (sy_list (put_stores st s)) = rl_selected (sy_list s)"
  "sy_broken (put_stores st s) = sy_broken s" "sy_id (put_stores st s) = sy_id s" "sy_mounted (put_stores st s) = sy_mounted s" "sy_old (put_stores st s) = sy_old s"
  by (simp_all add: put_stores_def Let_def)

lemma set_flag_frame [simp]:
  "sy_create (set_flag b s) = sy_create s" "sy_update (set_flag b s) = sy_update s"
  "rl_batch (sy_list (set_flag b s)) = rl_batch (sy_list s)"
  "rl_selected (sy_list (set_flag b s)) = rl_selected (sy_list s)"
  "sy_broken (set_flag b s) = sy_broken s" "sy_id (set_flag b s) = sy_id s" "sy_mounted (set_flag b s) = sy_mounted s" "sy_old (set_flag b s) = sy_old s"
  by (simp_all add: set_flag_def)

subsection \<open>The handlers keep the marks\<close>

lemma calls_list: "calls_inv s \<Longrightarrow> rl_loading l = rl_loading (sy_list s) \<Longrightarrow> rl_acting l = rl_acting (sy_list s) \<Longrightarrow>
   rl_deleting l = rl_deleting (sy_list s) \<Longrightarrow> calls_inv (s\<lparr>sy_list := l\<rparr>)"
  by (simp add: calls_inv_def)

lemma calls_dialogs [simp]:
  "calls_inv (s\<lparr>sy_create := d\<rparr>) = calls_inv s" "calls_inv (put_update d' s) = calls_inv s"
  "calls_inv (s\<lparr>sy_old := os\<rparr>) = calls_inv s" "calls_inv (s\<lparr>sy_power := ps\<rparr>) = calls_inv s"
  by (simp_all add: calls_inv_def put_update_def)

lemma change_filter_marks [simp]:
  "rl_loading (change_filter cmp c st) = rl_loading st" "rl_acting (change_filter cmp c st) = rl_acting st"
  "rl_deleting (change_filter cmp c st) = rl_deleting st"
  by (cases c; simp add: clearFilters_def toggleBatchMode_def toggleTag_def Let_def)+

lemma change_check_marks [simp]:
  "rl_loading (change_check cmp c st) = rl_loading st" "rl_acting (change_check cmp c st) = rl_acting st"
  "rl_deleting (change_check cmp c st) = rl_deleting st"
  by (cases c; simp add: toggleSelected_def selectAll_def split: option.split)+

lemma change_check_batch [simp]: "rl_batch (change_check cmp c st) = rl_batch st"
  by (cases c; simp add: toggleSelected_def selectAll_def split: option.split)

lemma row_delete_marks [simp]:
  "rl_loading (row_delete d st) = rl_loading st" "rl_acting (row_delete d st) = rl_acting st"
  "rl_deleting (row_delete d st) = rl_deleting st" "rl_batch (row_delete d st) = rl_batch st"
  "rl_selected (row_delete d st) = rl_selected st"
  by (simp_all add: row_delete_def split: option.split)

lemma close_delete_marks [simp]:
  "rl_loading (close_delete st) = rl_loading st" "rl_acting (close_delete st) = rl_acting st"
  "rl_deleting (close_delete st) = rl_deleting st" "rl_batch (close_delete st) = rl_batch st"
  "rl_selected (close_delete st) = rl_selected st"
  by (simp_all add: close_delete_def)

lemma cancel_delete_marks [simp]:
  "rl_loading (cancel_delete st) = rl_loading st" "rl_acting (cancel_delete st) = rl_acting st"
  "rl_deleting (cancel_delete st) = rl_deleting st" "rl_batch (cancel_delete st) = rl_batch st"
  "rl_selected (cancel_delete st) = rl_selected st"
  by (simp_all add: cancel_delete_def)

lemma askDelete_marks [simp]:
  "rl_loading (fst (askDelete st)) = rl_loading st" "rl_acting (fst (askDelete st)) = rl_acting st"
  "rl_deleting (fst (askDelete st)) = rl_deleting st" "rl_batch (fst (askDelete st)) = rl_batch st"
  "rl_selected (fst (askDelete st)) = rl_selected st"
  by (simp_all add: askDelete_def)

lemma row_edit_marks [simp]:
  "rl_loading (row_edit d st) = rl_loading st" "rl_acting (row_edit d st) = rl_acting st"
  "rl_deleting (row_edit d st) = rl_deleting st" "rl_batch (row_edit d st) = rl_batch st"
  "rl_selected (row_edit d st) = rl_selected st"
  by (simp_all add: row_edit_def)

lemma edit_row_calls: "calls_inv s \<Longrightarrow> calls_inv (edit_row cmp item s)"
  unfolding edit_row_def by (simp add: calls_list)

lemma refresh_calls: "calls_inv s \<Longrightarrow> calls_inv (refresh_routes s)"
  by (auto simp: refresh_routes_def Let_def click_refresh_route_def handleRefreshRoute_def header_of_def calls_inv_def
      split: option.split)

lemma answer_reload_calls:
  assumes "calls_inv s"
  shows "calls_inv (answer_reload k a s)"
proof (cases "k < length (sy_reloads s)")
  case True
  have "rs_loading (rh_stores (fst (handleRefreshRoute_done c a h))) = False" for c h
    by (simp add: handleRefreshRoute_done_def Let_def split: settled.split)
  moreover have "length (remove_nth k (sy_reloads s)) = 0"
    using True assms by (simp add: calls_inv_def of_bool_def split: if_splits)
  ultimately show ?thesis
    unfolding answer_reload_def using True assms
    by (simp, intro put_stores_calls) (auto simp: calls_inv_def)
qed (simp add: answer_reload_def assms)

lemma create_calls: "calls_inv s \<Longrightarrow> calls_inv (create_event ev s)"
  by (auto simp: create_event_def Let_def split: dialog_event.split settled.split intro!: set_flag_calls)

lemma update_calls: "calls_inv s \<Longrightarrow> calls_inv (update_event ev s)"
  by (auto simp: update_event_def Let_def split: dialog_event.split settled.split intro!: set_flag_calls load_list_calls)

lemma answer_power_calls: "calls_inv s \<Longrightarrow> calls_inv (answer_power k a s)"
  by (auto simp: answer_power_def Let_def split: settled.split intro!: load_list_calls)

lemma press_power_calls: "calls_inv s \<Longrightarrow> calls_inv (press_power cmp item s)"
  by (simp add: press_power_def split: option.split)

lemma leave_calls: "calls_inv s \<Longrightarrow> calls_inv (leave s)"
  by (simp add: calls_inv_def leave_def init_route_list_def)

lemma lose_list_simps [simp]:
  "\<not> sy_mounted (lose_list s)" "sy_broken (lose_list s)" "sy_id (lose_list s) = sy_id s"
  by (simp_all add: lose_list_def leave_def Let_def)

lemma lose_list_calls: "calls_inv s \<Longrightarrow> calls_inv (lose_list s)"
  by (simp add: calls_inv_def lose_list_def leave_def init_route_list_def Let_def)

lemma answer_load_calls:
  assumes s: "calls_inv s" and mounted: "sy_mounted s"
  shows "calls_inv (answer_load k a s)"
proof (cases "k < length (sy_loads s)")
  case True
  let ?s = "s\<lparr>sy_loads := remove_nth k (sy_loads s)\<rparr>"
  show ?thesis
  proof (cases "loadDomainName_done a (sy_list s)")
    case None
    moreover have "calls_inv (lose_list ?s)" if "sy_mounted s"
      using s that by (simp add: calls_inv_def lose_list_def leave_def init_route_list_def Let_def)
    ultimately show ?thesis using True mounted by (simp add: answer_load_def)
  next
    case (Some r)
    then have "List.map_filter load_request (snd r) = []" "\<not> rl_loading (fst r)"
        "rl_acting (fst r) = rl_acting (sy_list s)" "rl_deleting (fst r) = rl_deleting (sy_list s)"
      by (auto simp: loadDomainName_done_def List.map_filter_simps split: settled.splits option.splits)
    then show ?thesis
      using True s Some by (auto simp: answer_load_def calls_inv_def dest: set_remove_nthD)
  qed
qed (simp add: answer_load_def s)

lemma map_filter_append: "List.map_filter f (xs @ ys) = List.map_filter f xs @ List.map_filter f ys"
  by (simp add: List.map_filter_def)

lemma calls_put_list:
  assumes "calls_inv s" and "List.map_filter load_request (snd r) = (if ld then own_server (sy_id s) else [])"
    and "rl_loading (fst r) \<longleftrightarrow> rl_loading (sy_list s) \<or> ld \<and> own_server (sy_id s) \<noteq> []"
    and "length bs = of_bool (rl_acting (fst r))" and "length ds = of_bool (rl_deleting (fst r))"
  shows "calls_inv ((put_list r s)\<lparr>sy_batches := bs, sy_deletes := ds\<rparr>)"
  using assms own_server_sub [of "sy_id s"] by (auto simp: calls_inv_def split: if_splits)

lemma start_batch_calls:
  assumes s: "calls_inv s"
  shows "calls_inv (start_batch l s)"
proof (cases "\<not> rl_batch (sy_list s) \<or> rl_selected (sy_list s) = [] \<or> rl_acting (sy_list s)")
  case False
  obtain r ids where r: "runBatchAction l (batch_targets l (sy_list s)) (sy_list s) = (r, ids)" by fastforce
  have "calls_inv ((put_list r s)\<lparr>sy_batches := sy_batches s @ (if ids = [] then [] else [(l, ids, 0, 0)]),
      sy_deletes := sy_deletes s\<rparr>)"
    using r False s
    by (intro calls_put_list [where ld = False])
      (auto simp: runBatchAction_def Let_def List.map_filter_simps calls_inv_def split: if_splits)
  then show ?thesis using r False by (simp add: start_batch_def calls_inv_def)
qed (simp add: start_batch_def s)

lemma answer_batch_calls:
  assumes s: "calls_inv s"
  shows "calls_inv (answer_batch k ok s)"
proof (cases "k < length (sy_batches s)")
  case True
  obtain l ids n where b: "sy_batches s ! k = (l, ids, n)" by (cases "sy_batches s ! k") auto
  let ?r = "runBatchAction_done (sy_id s) l (count_call ok n) (sy_list s)"
  have len: "length (sy_batches s) = Suc 0" using True s by (auto simp: calls_inv_def of_bool_def split: if_splits)
  then have gone: "remove_nth k (sy_batches s) = []" using True by (cases "sy_batches s") auto
  have "calls_inv ((put_list ?r s)\<lparr>sy_batches := remove_nth k (sy_batches s), sy_deletes := sy_deletes s\<rparr>)"
    using True len gone s
    by (intro calls_put_list [where ld = True])
      (auto simp: runBatchAction_done_def Let_def map_filter_append load_requests load_marks calls_inv_def
        List.map_filter_simps)
  then show ?thesis using True b s by (simp add: answer_batch_def calls_inv_def)
qed (simp add: answer_batch_def s)

lemma start_delete_calls:
  assumes s: "calls_inv s"
  shows "calls_inv (start_delete s)"
proof (cases "\<not> rl_deleteOpen (sy_list s) \<or> rl_deleting (sy_list s)")
  case False
  obtain r ids where r: "handleConfirmDelete (sy_list s) = (r, ids)" by fastforce
  have "calls_inv ((put_list r s)\<lparr>sy_batches := sy_batches s,
      sy_deletes := sy_deletes s @ (if ids = [] then [] else [(ids, ids, 0, 0)])\<rparr>)"
    using r False s
    by (intro calls_put_list [where ld = False])
      (auto simp: handleConfirmDelete_def Let_def List.map_filter_simps calls_inv_def split: if_splits)
  then show ?thesis using r False by (simp add: start_delete_def calls_inv_def)
qed (simp add: start_delete_def s)

lemma answer_delete_calls:
  assumes s: "calls_inv s"
  shows "calls_inv (answer_delete k ok s)"
proof (cases "k < length (sy_deletes s)")
  case True
  obtain ts ids n where b: "sy_deletes s ! k = (ts, ids, n)" by (cases "sy_deletes s ! k") auto
  let ?r = "handleConfirmDelete_done (sy_id s) ts (count_call ok n) (sy_list s)"
  have len: "length (sy_deletes s) = Suc 0" using True s by (auto simp: calls_inv_def of_bool_def split: if_splits)
  then have gone: "remove_nth k (sy_deletes s) = []" using True by (cases "sy_deletes s") auto
  have "calls_inv ((put_list ?r s)\<lparr>sy_batches := sy_batches s, sy_deletes := remove_nth k (sy_deletes s)\<rparr>)"
    using True len gone s
    by (intro calls_put_list [where ld = True])
      (auto simp: handleConfirmDelete_done_def Let_def map_filter_append load_requests load_marks calls_inv_def
        List.map_filter_simps)
  then show ?thesis using True b s by (simp add: answer_delete_def calls_inv_def)
qed (simp add: answer_delete_def s)

lemma page_event_calls: "calls_inv s \<Longrightarrow> sy_mounted s \<Longrightarrow> calls_inv (page_event cmp e s)"
  by (cases "(cmp, e, s)" rule: page_event.cases)
    (auto simp: ask_batch_delete_def Let_def calls_list
      intro: leave_calls refresh_calls create_calls update_calls edit_row_calls press_power_calls answer_power_calls
        start_batch_calls answer_batch_calls start_delete_calls answer_delete_calls answer_load_calls)

lemma visit_calls:
  assumes s: "calls_inv s" and idle: "sy_loads s = []" "sy_batches s = []" "sy_deletes s = []"
  shows "calls_inv (visit i s)"
proof (cases "sy_broken s")
  case False
  show ?thesis
    unfolding visit_def if_not_P [OF False]
    by (rule load_list_calls) (use s idle in \<open>simp add: calls_inv_def init_route_list_def\<close>)
qed (simp add: visit_def s)

lemma answer_old_calls: "calls_inv s \<Longrightarrow> calls_inv (answer_old a c s)"
  by (cases "(a, c, s)" rule: answer_old.cases)
    (auto split: settled.split option.split intro!: set_flag_calls calls_list lose_list_calls
      simp: calls_inv_def [of "_\<lparr>sy_broken := _, sy_list := _\<rparr>"] calls_inv_def [of s])

subsection \<open>The selection and the dialogs\<close>

lemma unselected_list: "unselected s \<Longrightarrow> rl_batch l = rl_batch (sy_list s) \<Longrightarrow>
   rl_selected l = rl_selected (sy_list s) \<Longrightarrow> unselected (s\<lparr>sy_list := l\<rparr>)"
  by (simp add: unselected_def)

lemma change_filter_unselected:
  "(\<not> rl_batch st \<longrightarrow> rl_selected st = []) \<Longrightarrow> \<not> rl_batch (change_filter cmp c st) \<longrightarrow> rl_selected (change_filter cmp c st) = []"
  by (cases c) (auto simp: clearFilters_def toggleBatchMode_def toggleTag_def Let_def)

lemma change_check_unselected:
  "(\<not> rl_batch st \<longrightarrow> rl_selected st = []) \<Longrightarrow> \<not> rl_batch (change_check cmp c st) \<longrightarrow> rl_selected (change_check cmp c st) = []"
  by (cases c) (auto simp: toggleSelected_def selectAll_def split: option.split)

lemma page_event_unselected: "unselected s \<Longrightarrow> unselected (page_event cmp e s)"
proof (cases "(cmp, e, s)" rule: page_event.cases)
  case (7 c f st)
  then show "unselected s \<Longrightarrow> ?thesis" using change_filter_unselected [of "sy_list s" cmp f] by (simp add: unselected_def)
next
  case (8 c f st)
  then show "unselected s \<Longrightarrow> ?thesis" using change_check_unselected [of "sy_list s" cmp f] by (simp add: unselected_def)
qed (auto simp: unselected_def refresh_routes_def create_event_def update_event_def edit_row_def put_update_def
    press_power_def answer_power_def start_batch_def answer_batch_def ask_batch_delete_def start_delete_def
    answer_delete_def answer_load_def leave_def init_route_list_def Let_def runBatchAction_def
    runBatchAction_done_def handleConfirmDelete_def handleConfirmDelete_done_def loadDomainName_done_def lose_list_def
    split: dialog_event.split settled.split option.split prod.split)

lemma page_event_dialogs: "dialogs_inv s \<Longrightarrow> dialogs_inv (page_event cmp e s)"
  by (cases "(cmp, e, s)" rule: page_event.cases)
    (auto simp: dialogs_inv_def refresh_routes_def create_event_def update_event_def edit_row_def put_update_def
      press_power_def answer_power_def start_batch_def answer_batch_def ask_batch_delete_def start_delete_def
      answer_delete_def answer_load_def leave_def lose_list_def Let_def closed_honest
      simp del: dialog_step.simps
      split: dialog_event.split settled.split option.split prod.split
      intro!: create_honest update_honest)

lemma answer_old_unselected: "unselected s \<Longrightarrow> unselected (answer_old a c s)"
  by (cases "(a, c, s)" rule: answer_old.cases) (auto simp: unselected_def lose_list_def leave_def init_route_list_def Let_def split: settled.split option.split)

lemma answer_old_dialogs: "dialogs_inv s \<Longrightarrow> dialogs_inv (answer_old a c s)"
  by (cases "(a, c, s)" rule: answer_old.cases) (auto simp: dialogs_inv_def lose_list_def leave_def closed_honest Let_def split: settled.split option.split)

subsection \<open>Every run\<close>

text \<open>Without the page there is nothing of it.\<close>

definition absent :: "route_sys \<Rightarrow> bool" where
  "absent s \<longleftrightarrow> (\<not> sy_mounted s \<longrightarrow> sy_loads s = [] \<and> sy_batches s = [] \<and> sy_deletes s = [])"

definition step_inv :: "route_sys \<Rightarrow> bool" where
  "step_inv s \<longleftrightarrow> calls_inv s \<and> dialogs_inv s \<and> unselected s \<and> absent s \<and> store_inv s"

lemma lose_list_absent: "absent s \<Longrightarrow> absent (lose_list s)"
  by (simp add: absent_def lose_list_def leave_def Let_def)

text \<open>A page that is there stays, unless it is left or its store is broken.\<close>

lemma answer_load_mounted:
  assumes "sy_mounted s"
  shows "sy_mounted (answer_load k a s) \<and> sy_broken (answer_load k a s) = sy_broken s \<or>
   (\<exists>s'. sy_mounted s' \<and> answer_load k a s = lose_list s')"
proof (cases "length (sy_loads s) \<le> k \<or> loadDomainName_done a (sy_list s) \<noteq> None")
  case False
  then have "\<not> length (sy_loads s) \<le> k" "loadDomainName_done a (sy_list s) = None" by blast+
  then have "answer_load k a s = lose_list (s\<lparr>sy_loads := remove_nth k (sy_loads s)\<rparr>)"
    by (simp add: answer_load_def)
  then show ?thesis using assms by (intro disjI2 exI [of _ "s\<lparr>sy_loads := remove_nth k (sy_loads s)\<rparr>"]) simp
qed (use assms in \<open>auto simp: answer_load_def Let_def\<close>)

lemma page_event_mounted:
  "sy_mounted s \<Longrightarrow> sy_mounted (page_event cmp e s) \<and> sy_broken (page_event cmp e s) = sy_broken s \<or>
   page_event cmp e s = leave s \<or> (\<exists>s'. sy_mounted s' \<and> page_event cmp e s = lose_list s')"
  using answer_load_mounted [of s]
  by (cases "(cmp, e, s)" rule: page_event.cases)
    (auto simp: refresh_routes_def create_event_def update_event_def edit_row_def put_update_def
      press_power_def answer_power_def start_batch_def answer_batch_def ask_batch_delete_def start_delete_def
      answer_delete_def Let_def
      split: dialog_event.split settled.split option.split prod.split)

lemma page_event_step:
  assumes s: "step_inv s" "sy_mounted s"
  shows "step_inv (page_event cmp e s)"
proof -
  have "absent (page_event cmp e s) \<and> store_inv (page_event cmp e s)"
    using page_event_mounted [OF s(2), of cmp e] s
    by (elim disjE exE conjE) (auto simp: step_inv_def absent_def store_inv_def leave_def lose_list_def Let_def
        simp del: page_event.simps)
  then show ?thesis
    using s page_event_calls page_event_dialogs page_event_unselected by (auto simp: step_inv_def)
qed

lemma visit_step:
  assumes s: "step_inv s" "\<not> sy_mounted s"
  shows "step_inv (visit i s)"
proof -
  have "calls_inv (visit i s)" using s by (intro visit_calls) (auto simp: step_inv_def absent_def)
  then show ?thesis
    using s
    by (simp add: step_inv_def visit_def absent_def dialogs_inv_def closed_honest unselected_def init_route_list_def
        store_inv_def)
qed

lemma put_stores_absent: "absent s \<Longrightarrow> absent (put_stores st s)"
  by (simp add: absent_def put_stores_def Let_def)

lemma answer_old_absent: "absent s \<Longrightarrow> absent (answer_old a c s)"
  by (cases "(a, c, s)" rule: answer_old.cases)
    (auto simp: set_flag_def absent_def put_stores_def lose_list_def leave_def Let_def
      split: settled.split option.split)

lemma answer_old_store: "store_inv s \<Longrightarrow> store_inv (answer_old a c s)"
  by (cases "(a, c, s)" rule: answer_old.cases) (auto simp: store_inv_def split: settled.split option.split)

lemma answer_old_step: "step_inv s \<Longrightarrow> step_inv (answer_old a c s)"
  by (simp add: step_inv_def answer_old_calls answer_old_dialogs answer_old_unselected answer_old_absent
      answer_old_store)

lemma answer_reload_step:
  assumes s: "step_inv s"
  shows "step_inv (answer_reload k a s)"
proof (cases "k < length (sy_reloads s)")
  case True
  have "absent (s\<lparr>sy_reloads := remove_nth k (sy_reloads s)\<rparr>)" using s by (simp add: step_inv_def absent_def)
  then have "absent (answer_reload k a s)" using True by (simp add: answer_reload_def put_stores_absent)
  then show ?thesis
    using s answer_reload_calls [of s k a] True
    by (simp add: step_inv_def dialogs_inv_def unselected_def store_inv_def answer_reload_def)
qed (simp add: answer_reload_def s)

lemma step_inv_old: "step_inv s \<Longrightarrow> step_inv (s\<lparr>sy_old := os\<rparr>)"
  by (simp add: step_inv_def dialogs_inv_def unselected_def absent_def store_inv_def)

lemma effect_selected: "rl_selected (batch_effect cmp st) =
    (if rl_batch st then filter (\<lambda>i. i \<in> set (selectableIds cmp st)) (rl_selected st) else rl_selected st)"
  by (simp add: batch_effect_def)

lemma effect_step: "step_inv s \<Longrightarrow> step_inv (s\<lparr>sy_list := batch_effect cmp (sy_list s)\<rparr>)"
  by (simp add: step_inv_def dialogs_inv_def absent_def unselected_def store_inv_def calls_list effect_selected)

lemma route_dispatch_inv: "step_inv s \<Longrightarrow> step_inv (route_dispatch cmp e s)"
  using page_event_step [of s cmp e]
  by (cases e) (simp_all add: route_dispatch_def visit_step answer_reload_step answer_old_step step_inv_old
      del: page_event.simps)

lemma route_step_inv: "step_inv s \<Longrightarrow> step_inv (route_step cmp s e)"
  unfolding route_step_def by (intro effect_step route_dispatch_inv)

lemma route_step_selection: "step_inv s \<Longrightarrow> selection_inv cmp (sy_list (route_step cmp s e))"
  using route_dispatch_inv [of s cmp e] effect_selection [of "sy_list (route_dispatch cmp e s)" cmp]
  by (simp add: route_step_def step_inv_def unselected_def)

lemma init_step_inv: "step_inv init_route_sys"
  by (simp add: step_inv_def calls_inv_def dialogs_inv_def unselected_def absent_def store_inv_def init_route_sys_def
      init_route_list_def closed_honest)

interpretation route_page: invariant_machine "route_step cmp"
    "\<lambda>s. step_inv s \<and> selection_inv cmp (sy_list s)" init_route_sys
  for cmp
proof
  show "step_inv init_route_sys \<and> selection_inv cmp (sy_list init_route_sys)"
    by (simp add: init_step_inv selection_inv_def) (simp add: init_route_sys_def init_route_list_def)
  show "step_inv (route_step cmp s e) \<and> selection_inv cmp (sy_list (route_step cmp s e))"
    if "step_inv s \<and> selection_inv cmp (sy_list s)" for s e
    using that route_step_inv route_step_selection by blast
qed

lemma page_inv_run: "page_inv cmp (run_events (route_step cmp) init_route_sys es)"
  using route_page.inv_reachable [of cmp es] by (simp add: page_inv_def step_inv_def)

end
