(* ===== verification/RouteProperties.thy ===== *)
theory RouteProperties
  imports RouteMarks
begin

text \<open>
  The properties of the page of a server's routes and of the form dialogs: the marks of the
  page, what follows a creation, and three orders of events in which the page loses a route,
  shows the routes of another server, or closes the wrong dialog.
\<close>

text \<open>
  C38. In every run of the page of a server's routes, with any order of the answers, what it marks
  is true. While the list shows its placeholders a load is out, and every load that is out is for
  the server of the page; the refresh button, the batch buttons and the deletion are locked exactly
  while their one request is out; while a form dialog is saving a request of its present opening is
  out; the selection is empty outside the batch mode and part of what is shown in it; and the page
  is only there while the store holds a list. (The converse of the first and of the form dialogs
  fails: an answer clears the mark while another load is out, and a dialog that is dismissed and
  opened again has requests of its former opening out.)
\<close>

theorem route_page_honest:
  "page_inv cmp (run_events (route_step cmp) init_route_sys es)"
  by (rule page_inv_run)

lemma create_answer_loads:
  assumes "sy_mounted s" and "sy_id s = Some i" and "i \<noteq> []" and "k < length (dg_out (sy_create s))"
  shows "sy_loads (route_step cmp s (RsCreate (DgAnswer k (Resolved r)))) =
      sy_loads s @ (if fst (snd (dg_out (sy_create s) ! k)) = flag s then [i] else [])"
  using assms
  by (simp add: route_step_def route_dispatch_def create_event_def Let_def set_flag_def put_stores_def load_list_def
      load_requests own_server_def del: dialog_step.simps)

text \<open>
  When the creation of a route is answered the list is loaded again exactly when the store's
  flag is still the one that was captured when the route was sent.
\<close>

theorem route_create_reloads_iff:
  assumes "sy_mounted s" and "sy_id s = Some i" and "i \<noteq> []" and "k < length (dg_out (sy_create s))"
  shows "sy_loads (route_step cmp s (RsCreate (DgAnswer k (Resolved r)))) = sy_loads s @ [i] \<longleftrightarrow>
      fst (snd (dg_out (sy_create s) ! k)) = flag s"
  using create_answer_loads [OF assms, of cmp r] by simp

definition yes :: "'a settled" where "yes = Resolved (ok_response None)"

definition listed :: "DomainName list \<Rightarrow> DomainName list settled" where
  "listed ds = Resolved (ok_response (Some ds))"

definition new_route :: "string \<Rightarrow> route_event list" where
  "new_route addr =
     [RsCreate (DgOpen ()), RsCreate (DgEdit (RfEdit (ReTarget (RtService addr)))), RsCreate DgSave]"

definition sent_route :: "string \<Rightarrow> DomainName" where
  "sent_route addr = create_payload ''s'' ((fallbackValue (Some ''s''))\<lparr>dn_service := Some addr\<rparr>)"

definition sent_state :: route_sys where
  "sent_state =
     run_events (route_step (\<lambda>a b. 0)) init_route_sys ([RsVisit (Some ''s''), RsLoaded 0 (listed [])] @ new_route ''http://a'')"

definition race_run :: "DomainName list \<Rightarrow> route_event list" where
  "race_run ds =
     [RsVisit (Some ''s''), RsLoaded 0 (listed ds), RsRefresh] @ new_route ''http://a'' @
     [RsReload 0 yes, RsLoaded 0 (listed ds)]"

lemmas run_simps = route_step_def route_dispatch_def create_event_def Let_def set_flag_def put_stores_def load_list_def
  loadDomainName_def put_list_def List.map_filter_simps visit_def init_route_sys_def init_route_list_def
  closed_dialog_def batch_effect_def answer_load_def loadDomainName_done_def answer_reload_def refresh_routes_def
  click_refresh_route_def handleRefreshRoute_def handleRefreshRoute_done_def header_of_def open_create_route_def
  ok_response_def yes_def listed_def remove_nth_def

lemma demo_ops:
  "op_opened (create_route_ops i b) u = open_create i"
  "op_edit (create_route_ops i b) e st = edit_create_route e st"
  "op_settled (create_route_ops i b) a f = (fst (save_done a f), CallOnOk \<in> set (snd (save_done a f)))"
  by (simp_all add: create_route_ops_def)

definition filled :: "string \<Rightarrow> route_form" where
  "filled addr = (open_create (Some ''s''))\<lparr>rf_value := (fallbackValue (Some ''s''))\<lparr>dn_service := Some addr\<rparr>\<rparr>"

lemma fill_form: "edit_create_route (RfEdit (ReTarget (RtService addr))) (open_create (Some ''s'')) = filled addr"
  by (simp add: filled_def open_create_def fallbackValue_def)

lemma filled_simps [simp]: "rf_value (filled addr) = (fallbackValue (Some ''s''))\<lparr>dn_service := Some addr\<rparr>"
  "\<not> rf_saving (filled addr)"
  by (simp_all add: filled_def open_create_def)

lemma filled_idle [simp]: "(filled addr)\<lparr>rf_saving := False\<rparr> = filled addr"
  by (simp add: filled_def open_create_def)

lemma demo_submit:
  assumes "js_trim addr \<noteq> []"
  shows "op_submit (create_route_ops (Some ''s'') b) (filled addr) =
    Some ((filled addr)\<lparr>rf_saving := True\<rparr>, [(b, RequestCreate (sent_route addr))])"
proof -
  have path: "js_trim ''/'' = ''/''" by code_simp
  have "route_error ((fallbackValue (Some ''s''))\<lparr>dn_service := Some addr\<rparr>) = None"
    using assms by (simp add: route_error_def fallbackValue_def Let_def js_falsy_text_def path health_error_def
        health_wanted_def starts_with_def)
  then show ?thesis
    by (simp add: create_route_ops_def press_def create_save_def sent_route_def)
qed

lemma trim_demo: "js_trim ''http://a'' \<noteq> []" "js_trim ''http://b'' \<noteq> []"
  by code_simp+

lemma sent_state_facts:
  "sy_mounted sent_state" "sy_id sent_state = Some ''s''" "sy_loads sent_state = []" "\<not> flag sent_state"
  "dg_out (sy_create sent_state) = [(1, False, RequestCreate (sent_route ''http://a''))]"
  by (simp_all add: sent_state_def new_route_def run_simps demo_ops fill_form demo_submit trim_demo save_done_def
      del: edit_create_route.simps)

theorem route_create_reloads_iff_witness:
  "sy_loads (route_step (\<lambda>a b. 0) sent_state (RsCreate (DgAnswer 0 yes))) = [''s'']"
  using route_create_reloads_iff [of sent_state "''s''" 0 "\<lambda>a b. 0" "ok_response None"] sent_state_facts
  by (simp add: yes_def)

text \<open>
  A route that was created can be missing from the list for good: the routes are refreshed, and
  before the answer a route is sent; both have captured the same flag. When the refresh is
  answered first and the list is loaded before the creation is answered, that answer writes the
  value the flag already has, so nothing is loaded: no request is out, the dialog is closed and
  the list is the one from before the creation, whatever it was.
\<close>

theorem route_created_not_listed:
  "let s = run_events (route_step cmp) init_route_sys (race_run ds);
       s' = route_step cmp s (RsCreate (DgAnswer 0 yes))
   in dg_out (sy_create s) = [(1, False, RequestCreate (sent_route ''http://a''))] \<and>
      dg_out (sy_create s') = [] \<and> \<not> dg_visible (sy_create s') \<and> rl_domains (sy_list s') = ds \<and>
      sy_loads s' = [] \<and> sy_reloads s' = [] \<and> sy_old s' = []"
  by (simp add: race_run_def new_route_def run_simps demo_ops fill_form demo_submit trim_demo save_done_def
      del: edit_create_route.simps)

definition route_of_a :: DomainName where
  "route_of_a = (fallbackValue (Some ''a''))\<lparr>dn_id := Some ''1''\<rparr>"

definition route_of_b :: DomainName where
  "route_of_b = (fallbackValue (Some ''b''))\<lparr>dn_id := Some ''2''\<rparr>"

definition stale_run :: "DomainName list \<Rightarrow> route_event list" where
  "stale_run ds = [RsVisit (Some ''a''), RsLeave, RsVisit (Some ''b''), RsLoaded 0 (listed ds)]"

text \<open>A load that is out when its page is left is among the calls that the page has left behind.\<close>

lemma left_load_is_old: "i \<in> set (sy_loads s) \<Longrightarrow> OldLoad i \<in> set (sy_old (leave s))"
  by (simp add: leave_def left_calls_def)

lemma shows_route_store [simp]: "shows_route (st\<lparr>rl_domains := ds\<rparr>) = shows_route st"
  by (rule ext) (simp add: shows_route_def)

lemma shown_after_effect: "row_there cmp (batch_effect cmp st) d = row_there cmp st d"
  by (simp add: row_there_def batch_effect_def filteredDomains_def shows_route_def)

text \<open>
  C39. The page of one server shows the routes of another and acts on them. In every run, when a
  load that the page of server a left behind is answered with routes while the page of server b is
  there, those routes are the list of the page of b, whatever it was: the only thing that changes
  besides is the call that is answered, so if no load of b is out nothing puts the list right. And
  as long as rows are shown, the button of each of these routes asks the gateway to flip it.
\<close>

theorem route_list_of_other_server:
  assumes s: "s = run_events (route_step cmp) init_route_sys es" and b: "sy_mounted s" "sy_id s = Some b"
    and old: "k < length (sy_old s)" "sy_old s ! k = OldLoad a" "a \<noteq> b"
    and ds: "resp_data r = Some ds" and t: "t = route_step cmp s (RsOld k (Resolved r))"
  shows "sy_mounted t \<and> sy_id t = Some b \<and> rl_domains (sy_list t) = ds \<and>
    sy_loads t = sy_loads s \<and> list_all (\<lambda>i. i = b) (sy_loads t) \<and>
    rl_loading (sy_list t) = rl_loading (sy_list s) \<and> sy_old t = remove_nth k (sy_old s) \<and>
    list_all (\<lambda>d. sy_power (route_step cmp t (RsPower d)) = sy_power s @ (case route_id d of None \<Rightarrow> [] | Some i \<Rightarrow> [i]))
      (if rl_loading (sy_list s) \<or> rl_batch (sy_list s) then [] else filter (shows_route (sy_list s)) ds)"
proof -
  let ?u = "s\<lparr>sy_old := remove_nth k (sy_old s), sy_broken := False, sy_list := (sy_list s)\<lparr>rl_domains := ds\<rparr>\<rparr>"
  have t': "t = ?u\<lparr>sy_list := batch_effect cmp (sy_list ?u)\<rparr>"
    using old ds by (simp add: t route_step_def route_dispatch_def)
  have "sy_power (route_step cmp t (RsPower d)) = sy_power s @ (case route_id d of None \<Rightarrow> [] | Some i \<Rightarrow> [i])"
    if "\<not> rl_loading (sy_list s)" "\<not> rl_batch (sy_list s)" "d \<in> set ds" "shows_route (sy_list s) d" for d
  proof -
    have "row_there cmp (sy_list t) d"
      using that by (simp add: t' shown_after_effect) (simp add: row_there_def)
    then show ?thesis
      using b by (simp add: route_step_def route_dispatch_def press_power_def row_power_def t' split: option.split)
  qed
  moreover have "list_all (\<lambda>i. i = b) (sy_loads s)"
    using page_inv_run [of cmp es] s b by (auto simp: page_inv_def calls_inv_def list_all_iff)
  ultimately show ?thesis using b by (auto simp: t' list_all_iff batch_effect_def)
qed

theorem route_list_of_other_server_witness:
  "let s = run_events (route_step (\<lambda>a b. 0)) init_route_sys (stale_run [route_of_b]);
       t = route_step (\<lambda>a b. 0) s (RsOld 0 (listed [route_of_a]))
   in sy_id t = Some ''b'' \<and> rl_domains (sy_list t) = [route_of_a] \<and> \<not> rl_loading (sy_list t) \<and>
      sy_loads t = [] \<and> sy_old t = [] \<and> sy_power (route_step (\<lambda>a b. 0) t (RsPower route_of_a)) = [''1'']"
proof -
  let ?s = "run_events (route_step (\<lambda>a b. 0)) init_route_sys (stale_run [route_of_b])"
  have blank: "js_lower [] = []" "js_trim [] = []" by code_simp+
  have s: "sy_mounted ?s" "sy_id ?s = Some ''b''" "sy_old ?s = [OldLoad ''a'']" "sy_loads ?s = []"
    "sy_power ?s = []" "\<not> rl_loading (sy_list ?s)" "\<not> rl_batch (sy_list ?s)" "shows_route (sy_list ?s) route_of_a"
    by (simp_all add: stale_run_def run_simps leave_def left_calls_def shows_route_def blank)
  have "route_id route_of_a = Some ''1''" by (simp add: route_of_a_def route_id_def)
  then show ?thesis
    using route_list_of_other_server [OF refl, of "\<lambda>a b. 0" "stale_run [route_of_b]" "''b''" 0 "''a''" "ok_response (Some [route_of_a])"
        "[route_of_a]"] s
    by (simp add: listed_def ok_response_def remove_nth_def Let_def)
qed

text \<open>An answer without data takes the page away; a later visit fails as well, until a late answer has a list.\<close>

lemma route_page_lost:
  assumes "k < length (sy_loads s)" and "sy_mounted s" and "resp_data r = None"
  shows "\<not> sy_mounted (route_step cmp s (RsLoaded k (Resolved r)))"
    and "\<not> sy_mounted (route_step cmp (route_step cmp s (RsLoaded k (Resolved r))) (RsVisit i))"
  using assms
  by (simp_all add: route_step_def route_dispatch_def answer_load_def loadDomainName_done_def visit_def Let_def
      lose_list_def leave_def)

lemma create_route_idle: "\<not> op_saving (create_route_ops i b) (open_create i)"
  by (simp add: create_route_ops_def)

text \<open>
  The dialog of a new route sends one request at a time, as long as it is not dismissed while it
  saves: the number of requests that are out is that of the mark on the save button.
\<close>

theorem route_dialog_single_request:
  fixes es :: "(unit, route_form_edit, unit settled) dialog_event list"
  assumes "patient (create_route_ops i b) (closed_dialog (open_create i)) es"
  shows "length (dg_out (run_events (dialog_step (create_route_ops i b)) (closed_dialog (open_create i)) es)) =
      of_bool (rf_saving (dg_form (run_events (dialog_step (create_route_ops i b)) (closed_dialog (open_create i)) es)))"
  using create_route.one_request [OF create_route_idle assms] by (simp add: create_route_ops_def)

definition fill_and_save :: "string \<Rightarrow> (unit, route_form_edit, unit settled) dialog_event list" where
  "fill_and_save addr = [DgOpen (), DgEdit (RfEdit (ReTarget (RtService addr))), DgSave]"

definition no :: "'a settled" where "no = Rejected AbortText"

abbreviation new_route_dialog ::
  "(unit, route_form_edit, unit settled) dialog_event list \<Rightarrow> (route_form, bool \<times> form_effect) form_window" where
  "new_route_dialog es \<equiv>
     run_events (dialog_step (create_route_ops (Some ''s'') False)) (closed_dialog (open_create (Some ''s''))) es"

lemmas dialog_run_simps = fill_and_save_def closed_dialog_def demo_ops fill_form demo_submit trim_demo save_done_def
  yes_def no_def remove_nth_def

theorem route_dialog_single_request_witness:
  "length (dg_out (new_route_dialog (fill_and_save ''http://a''))) = 1 \<and>
   rf_saving (dg_form (new_route_dialog (fill_and_save ''http://a'')))"
proof -
  have p: "patient (create_route_ops (Some ''s'') False) (closed_dialog (open_create (Some ''s''))) (fill_and_save ''http://a'')"
    by (simp add: fill_and_save_def)
  have s: "rf_saving (dg_form (new_route_dialog (fill_and_save ''http://a'')))"
    by (simp add: dialog_run_simps del: edit_create_route.simps)
  show ?thesis using route_dialog_single_request [OF p] s by simp
qed

text \<open>
  Dismissing the dialog while it saves confuses it with the next one. A route a is sent, the
  dialog is dismissed, opened again, and a route b is sent. When a is created the dialog of b is
  closed, so that what was entered is lost when b is then refused; and when a is refused the
  button of b is free again although b is out, and a second click sends b twice.
\<close>

theorem route_dialog_mixes_saves:
  "let es = fill_and_save ''http://a'' @ [DgDismiss] @ fill_and_save ''http://b'';
       b = (2, False, RequestCreate (sent_route ''http://b''))
   in dg_visible (new_route_dialog es) \<and>
      \<not> dg_visible (new_route_dialog (es @ [DgAnswer 0 yes])) \<and>
      dg_out (new_route_dialog (es @ [DgAnswer 0 yes])) = [b] \<and>
      \<not> dg_visible (new_route_dialog (es @ [DgAnswer 0 yes, DgAnswer 0 no])) \<and>
      dg_out (new_route_dialog (es @ [DgAnswer 0 yes, DgAnswer 0 no])) = [] \<and>
      dg_out (new_route_dialog (es @ [DgAnswer 0 no, DgSave])) = [b, b]"
  by (simp add: dialog_run_simps del: edit_create_route.simps)

end
