(* ===== verification/GatewayServers.thy ===== *)
theory GatewayServers
  imports ServerList
begin

text \<open>
  What the gateway does to its servers when the console calls it: the handlers of
  \<open>src/FastGateway/Services/ServerService.cs\<close> over the list of
  \<open>ConfigurationService.cs\<close> and the table of running servers. Adding and updating take a server
  that passed the checks; a start that fails is an outcome of the caller's model.
\<close>

record gateway =
  gw_config :: "Server list"
  gw_running :: "string list"

text \<open>The list it answers: the stored servers with whether they run.\<close>

definition with_online :: "string list \<Rightarrow> Server \<Rightarrow> Server" where
  "with_online run s = s\<lparr>sv_onLine := (case sv_id s of None \<Rightarrow> False | Some i \<Rightarrow> i \<in> set run)\<rparr>"

definition gw_list :: "gateway \<Rightarrow> Server list" where
  "gw_list g = map (with_online (gw_running g)) (gw_config g)"

definition GetServer :: "string \<Rightarrow> gateway \<Rightarrow> Server option" where
  "GetServer i g = List.find (\<lambda>s. sv_id s = Some i) (gw_config g)"

fun replace_first :: "string \<Rightarrow> Server \<Rightarrow> Server list \<Rightarrow> Server list" where
  "replace_first i v [] = []"
| "replace_first i v (s # ss) = (if sv_id s = Some i then v # ss else s # replace_first i v ss)"

definition UpdateServer :: "Server \<Rightarrow> gateway \<Rightarrow> gateway" where
  "UpdateServer v g =
     (case sv_id v of None \<Rightarrow> g | Some i \<Rightarrow> g\<lparr>gw_config := replace_first i v (gw_config g)\<rparr>)"

definition AddServer :: "string \<Rightarrow> Server \<Rightarrow> gateway \<Rightarrow> gateway" where
  "AddServer guid v g =
     g\<lparr>gw_config := gw_config g @ [case server_id v of None \<Rightarrow> v\<lparr>sv_id := Some guid\<rparr> | Some i \<Rightarrow> v]\<rparr>"

text \<open>Deleting closes the server; switching writes back the first one of the id; a disabled server does not start.\<close>

definition DeleteServer :: "string \<Rightarrow> gateway \<Rightarrow> gateway" where
  "DeleteServer i g =
     g\<lparr>gw_config := filter (\<lambda>s. sv_id s \<noteq> Some i) (gw_config g), gw_running := filter (\<lambda>j. j \<noteq> i) (gw_running g)\<rparr>"

definition switch_enable :: "string \<Rightarrow> gateway \<Rightarrow> gateway" where
  "switch_enable i g =
     (case GetServer i g of None \<Rightarrow> g | Some s \<Rightarrow> UpdateServer (s\<lparr>sv_enable := \<not> sv_enable s\<rparr>) g)"

definition switch_online :: "string \<Rightarrow> gateway \<Rightarrow> gateway" where
  "switch_online i g =
     (if i \<in> set (gw_running g) then g\<lparr>gw_running := filter (\<lambda>j. j \<noteq> i) (gw_running g)\<rparr>
      else case GetServer i g of None \<Rightarrow> g
        | Some s \<Rightarrow> if sv_enable s then g\<lparr>gw_running := gw_running g @ [i]\<rparr> else g)"

datatype gw_request = GwList | GwEnable string | GwOnline string | GwReload string | GwDelete string

definition gw_apply :: "gw_request \<Rightarrow> gateway \<Rightarrow> gateway" where
  "gw_apply r g =
     (case r of GwList \<Rightarrow> g | GwEnable i \<Rightarrow> switch_enable i g | GwOnline i \<Rightarrow> switch_online i g
      | GwReload i \<Rightarrow> g | GwDelete i \<Rightarrow> DeleteServer i g)"

subsection \<open>Laws\<close>

definition gateway_inv :: "gateway \<Rightarrow> bool" where
  "gateway_inv g \<longleftrightarrow> distinct (map sv_id (gw_config g)) \<and> None \<notin> set (map sv_id (gw_config g)) \<and>
     Some [] \<notin> set (map sv_id (gw_config g))"

lemma with_online_id [simp]: "sv_id (with_online run s) = sv_id s" "sv_enable (with_online run s) = sv_enable s"
  by (simp_all add: with_online_def)

lemma GetServer_SomeD: "GetServer i g = Some s \<Longrightarrow> s \<in> set (gw_config g) \<and> sv_id s = Some i"
  by (auto simp: GetServer_def find_Some_iff)

lemma replace_first_ids: "sv_id v = Some i \<Longrightarrow> map sv_id (replace_first i v ss) = map sv_id ss"
  by (induction ss) auto

text \<open>With distinct ids replacing the first server of an id is mapping over all of them.\<close>

lemma replace_first_map:
  "distinct (map sv_id ss) \<Longrightarrow> replace_first i v ss = map (\<lambda>s. if sv_id s = Some i then v else s) ss"
proof (induction ss)
  case (Cons s ss)
  show ?case
  proof (cases "sv_id s = Some i")
    case True
    with Cons.prems have "sv_id t \<noteq> Some i" if "t \<in> set ss" for t using that by force
    then show ?thesis using True by (simp add: map_idI)
  qed (use Cons in simp)
qed simp

lemma switch_enable_config:
  assumes "gateway_inv g"
  shows "gw_config (switch_enable i g) = map (\<lambda>s. if sv_id s = Some i then s\<lparr>sv_enable := \<not> sv_enable s\<rparr> else s) (gw_config g)"
proof (cases "GetServer i g")
  case None
  then have "\<forall>s\<in>set (gw_config g). sv_id s \<noteq> Some i" by (auto simp: GetServer_def find_None_iff)
  with None show ?thesis by (simp add: switch_enable_def map_idI)
next
  case (Some v)
  then have v: "v \<in> set (gw_config g)" "sv_id v = Some i" by (auto dest: GetServer_SomeD)
  have only: "s = v" if "s \<in> set (gw_config g)" "sv_id s = Some i" for s
    using assms that v unfolding gateway_inv_def by (metis distinct_map inj_onD)
  let ?v = "v\<lparr>sv_enable := \<not> sv_enable v\<rparr>"
  have "gw_config (switch_enable i g) = map (\<lambda>s. if sv_id s = Some i then ?v else s) (gw_config g)"
    using assms v(2) Some by (simp add: switch_enable_def UpdateServer_def replace_first_map gateway_inv_def)
  also have "\<dots> = map (\<lambda>s. if sv_id s = Some i then s\<lparr>sv_enable := \<not> sv_enable s\<rparr> else s) (gw_config g)"
    by (rule map_cong [OF refl]) (auto dest: only)
  finally show ?thesis .
qed

lemma switch_enable_running [simp]: "gw_running (switch_enable i g) = gw_running g"
  by (simp add: switch_enable_def UpdateServer_def split: option.split)

lemma switch_online_config [simp]: "gw_config (switch_online i g) = gw_config g"
  by (simp add: switch_online_def split: option.split)

lemma switch_enable_ids: "gateway_inv g \<Longrightarrow> map sv_id (gw_config (switch_enable i g)) = map sv_id (gw_config g)"
  by (simp add: switch_enable_config)

lemma gateway_inv_apply: "gateway_inv g \<Longrightarrow> gateway_inv (gw_apply r g)"
proof (cases r)
  case (GwEnable i)
  then show "gateway_inv g \<Longrightarrow> ?thesis"
    using switch_enable_ids [of g i] by (simp add: gw_apply_def gateway_inv_def)
qed (auto simp: gw_apply_def gateway_inv_def DeleteServer_def distinct_map_filter)

text \<open>One request changes the switch of its own server only.\<close>

lemma enable_after:
  assumes "gateway_inv g" and "s \<in> set (gw_list g)"
  shows "\<exists>t\<in>set (gw_list (switch_enable i g)). sv_id t = sv_id s \<and> sv_onLine t = sv_onLine s \<and>
    sv_enable t = (if sv_id s = Some i then \<not> sv_enable s else sv_enable s)"
  using assms(2) by (force simp: gw_list_def switch_enable_config [OF assms(1)] with_online_def)

end
