(* ===== verification/ServerSystem.thy ===== *)
theory ServerSystem
  imports GatewayServers FormDialogs
begin

text \<open>
  The page of the gateway's servers as one machine, with the gateway behind it: the header and its
  dialog (\<open>web/src/pages/server/features/Header.tsx\<close>, \<open>CreateServer.tsx\<close>), the list with its
  dialogs (\<open>ProxyList.tsx\<close>, \<open>UpdateServer.tsx\<close>), the store they share (\<open>store/server\<close>) and the
  requests. A request is carried out by the gateway at some time after it is sent and answered at
  some time after that, in any order; it may fail before or after it was carried out. Calls outlive
  the page. What else happens to the gateway, the saves of the two dialogs included, is an event.
\<close>

subsection \<open>Calls\<close>

text \<open>What a call is for: the continuation that its answer resumes, with what the loop has left.\<close>

datatype purpose = PLoad | PRow row_click
  | PBatch server_action "string list" "nat \<times> nat" | PDelete "string list" "string list" "nat \<times> nat"

record gateway_call =
  ca_purpose :: purpose
  ca_request :: gw_request
  ca_answer :: "Server list settled option"
  ca_old :: bool

text \<open>A save of a dialog that was left: the flag a creation captured, or an edit, which loads the list.\<close>

datatype lost_save = LostCreate bool | LostEdit

record server_sys =
  vs_gateway :: gateway
  vs_past :: "Server list list"
  vs_mounted :: bool
  vs_list :: server_list
  vs_create :: "(server_form, bool \<times> server_effect) form_window"
  vs_update :: "(server_form, server_effect) form_window"
  vs_calls :: "gateway_call list"
  vs_lost :: "lost_save list"

definition init_server_sys :: "gateway \<Rightarrow> server_sys" where
  "init_server_sys g =
     \<lparr>vs_gateway = g, vs_past = [gw_list g], vs_mounted = False, vs_list = init_server_list init_server_store,
      vs_create = closed_dialog open_create_server, vs_update = closed_dialog (open_update_server None), vs_calls = [], vs_lost = []\<rparr>"

abbreviation reload_flag :: "server_sys \<Rightarrow> bool" where
  "reload_flag s \<equiv> ss_loadingServers (sl_store (vs_list s))"

text \<open>The request of an effect; the others are messages and navigation.\<close>

fun effect_request :: "sl_effect \<Rightarrow> gw_request option" where
  "effect_request RequestServers = Some GwList"
| "effect_request (PutEnable i) = Some (GwEnable i)"
| "effect_request (PutOnline i) = Some (GwOnline i)"
| "effect_request (PutReload i) = Some (GwReload i)"
| "effect_request _ = None"

definition new_call :: "bool \<Rightarrow> purpose \<Rightarrow> gw_request \<Rightarrow> gateway_call" where
  "new_call old p r = \<lparr>ca_purpose = p, ca_request = r, ca_answer = None, ca_old = old\<rparr>"

definition effect_calls :: "bool \<Rightarrow> purpose \<Rightarrow> sl_effect list \<Rightarrow> gateway_call list" where
  "effect_calls old p es = map (new_call old p) (List.map_filter effect_request es)"

text \<open>A result of a handler: its state and its calls; only a handler of a row makes others than loads.\<close>

definition put_result :: "purpose \<Rightarrow> sl_result \<Rightarrow> server_sys \<Rightarrow> server_sys" where
  "put_result p r s = s\<lparr>vs_list := fst r, vs_calls := vs_calls s @ effect_calls False p (snd r)\<rparr>"

definition load_servers :: "server_sys \<Rightarrow> server_sys" where
  "load_servers s = put_result PLoad (loadServers (vs_list s)) s"

text \<open>The effect of the list on the flag of the store.\<close>

definition set_reload_flag :: "bool \<Rightarrow> server_sys \<Rightarrow> server_sys" where
  "set_reload_flag b s =
     (let l = (vs_list s)\<lparr>sl_store := setLoadingServers b (sl_store (vs_list s))\<rparr> in
      if vs_mounted s \<and> b \<noteq> reload_flag s then load_servers (s\<lparr>vs_list := l\<rparr>) else s\<lparr>vs_list := l\<rparr>)"

subsection \<open>The gateway's side\<close>

definition nobody :: "err_text" where "nobody = AbortText"

text \<open>A request that is carried out (\<open>applied\<close>) and answered (\<open>ok\<close>); both may fail.\<close>

definition answer_of :: "bool \<Rightarrow> gw_request \<Rightarrow> gateway \<Rightarrow> Server list settled" where
  "answer_of ok r g =
     (if \<not> ok then Rejected nobody
      else Resolved (ok_response (if r = GwList then Some (gw_list g) else None)))"

definition put_gateway :: "gateway \<Rightarrow> server_sys \<Rightarrow> server_sys" where
  "put_gateway g s = s\<lparr>vs_gateway := g, vs_past := vs_past s @ [gw_list g]\<rparr>"

definition serve :: "nat \<Rightarrow> bool \<Rightarrow> bool \<Rightarrow> server_sys \<Rightarrow> server_sys" where
  "serve k applied ok s =
     (if length (vs_calls s) \<le> k then s
      else let c = vs_calls s ! k in
        if ca_answer c \<noteq> None then s
        else let g = (if applied then gw_apply (ca_request c) (vs_gateway s) else vs_gateway s)
          in (put_gateway g s)\<lparr>vs_calls := (vs_calls s)[k := c\<lparr>ca_answer := Some (answer_of ok (ca_request c) g)\<rparr>]\<rparr>)"

subsection \<open>Answers\<close>

fun answered_ok :: "'a settled \<Rightarrow> bool" where
  "answered_ok (Resolved r) = True"
| "answered_ok (Rejected e) = False"

fun tally :: "bool \<Rightarrow> nat \<times> nat \<Rightarrow> nat \<times> nat" where
  "tally ok (a, b) = (if ok then (Suc a, b) else (a, Suc b))"

text \<open>The request of a batch call for one server.\<close>

definition action_request :: "server_action \<Rightarrow> string \<Rightarrow> gw_request" where
  "action_request a i = (case effect_request (server_call a i) of Some r \<Rightarrow> r | None \<Rightarrow> GwList)"

text \<open>
  The continuation of a call: the result of the handler, and the next request of a loop. An answer
  without data does not come from this gateway.
\<close>

fun finish :: "purpose \<Rightarrow> Server list settled \<Rightarrow> server_list \<Rightarrow> sl_result \<times> (purpose \<times> gw_request) list" where
  "finish PLoad a st = (case loadServers_done a st of None \<Rightarrow> (st, []) | Some r \<Rightarrow> r, [])"
| "finish (PRow c) a st = (row_done c a st, [])"
| "finish (PBatch act ids n) a st =
     (case tl ids of
        [] \<Rightarrow> (sl_runBatchAction_done act (tally (answered_ok a) n) st, [])
      | i # is \<Rightarrow> ((st, []), [(PBatch act (i # is) (tally (answered_ok a) n), action_request act i)]))"
| "finish (PDelete targets ids n) a st =
     (case tl ids of
        [] \<Rightarrow> (sl_handleConfirmDelete_done targets (tally (answered_ok a) n) st, [])
      | i # is \<Rightarrow> ((st, []), [(PDelete targets (i # is) (tally (answered_ok a) n), GwDelete i)]))"

text \<open>
  A call of a page that was left writes to the store only: its handler runs on a state that nobody
  shows.
\<close>

definition answer_call :: "nat \<Rightarrow> server_sys \<Rightarrow> server_sys" where
  "answer_call k s =
     (if length (vs_calls s) \<le> k then s
      else let c = vs_calls s ! k in
        case ca_answer c of None \<Rightarrow> s
        | Some a \<Rightarrow>
            (let s1 = s\<lparr>vs_calls := remove_nth k (vs_calls s)\<rparr>;
                 st = (if ca_old c then init_server_list (sl_store (vs_list s)) else vs_list s);
                 (r, next_calls) = finish (ca_purpose c) a st;
                 l = (if ca_old c then (vs_list s)\<lparr>sl_store := sl_store (fst r)\<rparr> else fst r)
             in s1\<lparr>vs_list := l, vs_calls := vs_calls s1 @ effect_calls (ca_old c) PLoad (snd r)
                     @ map (\<lambda>(p, q). new_call (ca_old c) p q) next_calls\<rparr>))"

subsection \<open>The page\<close>

definition visit_servers :: "server_sys \<Rightarrow> server_sys" where
  "visit_servers s =
     load_servers (s\<lparr>vs_mounted := True, vs_list := init_server_list (sl_store (vs_list s)),
       vs_create := closed_dialog open_create_server, vs_update := closed_dialog (open_update_server None)\<rparr>)"

definition leave_servers :: "server_sys \<Rightarrow> server_sys" where
  "leave_servers s =
     s\<lparr>vs_mounted := False, vs_list := init_server_list (sl_store (vs_list s)),
       vs_create := closed_dialog open_create_server, vs_update := closed_dialog (open_update_server None),
       vs_calls := map (\<lambda>c. c\<lparr>ca_old := True\<rparr>) (vs_calls s),
       vs_lost := vs_lost s @ map (\<lambda>x. LostCreate (fst (snd x))) (dg_out (vs_create s)) @
         map (\<lambda>x. LostEdit) (dg_out (vs_update s))\<rparr>"

definition answer_lost :: "nat \<Rightarrow> bool \<Rightarrow> server_sys \<Rightarrow> server_sys" where
  "answer_lost k ok s =
     (if length (vs_lost s) \<le> k then s
      else let s1 = s\<lparr>vs_lost := remove_nth k (vs_lost s)\<rparr> in
        if \<not> ok then s1
        else case vs_lost s ! k of
          LostCreate b \<Rightarrow> set_reload_flag (\<not> b) s1
        | LostEdit \<Rightarrow> s1\<lparr>vs_calls := vs_calls s1 @ [new_call True PLoad GwList]\<rparr>)"

text \<open>The dialog of the header keeps the flag of the render that sent the server.\<close>

definition create_listed_ops :: "bool \<Rightarrow> (unit, server_form, server_form_edit, bool \<times> server_effect, unit settled) form_ops" where
  "create_listed_ops loadingServers =
     \<lparr>op_opened = op_opened (create_server_ops :: (unit, server_form, server_form_edit, server_effect, unit settled) form_ops),
      op_edit = edit_create_form, op_saving = sf_saving,
      op_submit = \<lambda>f. map_option (apsnd (map (Pair loadingServers)))
        (op_submit (create_server_ops :: (unit, server_form, server_form_edit, server_effect, unit settled) form_ops) f),
      op_settled = op_settled (create_server_ops :: (unit, server_form, server_form_edit, server_effect, unit settled) form_ops),
      op_cancel = \<lambda>f. \<not> sf_saving f\<rparr>"

interpretation create_listed: locked_dialog "create_listed_ops b" for b
  by unfold_locales
    (auto simp: create_listed_ops_def create_server_ops_def open_create_server_def press_def create_server_save_def
      create_server_done_def split: if_splits option.splits settled.splits)

definition create_window :: "(unit, server_form_edit, unit settled) dialog_event \<Rightarrow> server_sys \<Rightarrow> server_sys" where
  "create_window ev s =
     (let s' = s\<lparr>vs_create := dialog_step (create_listed_ops (reload_flag s)) (vs_create s) ev\<rparr> in
      case ev of
        DgAnswer k (Resolved r) \<Rightarrow>
          if length (dg_out (vs_create s)) \<le> k then s
          else set_reload_flag (\<not> fst (snd (dg_out (vs_create s) ! k))) s'
      | _ \<Rightarrow> s')"

definition put_edit :: "(server_form, server_effect) form_window \<Rightarrow> server_sys \<Rightarrow> server_sys" where
  "put_edit d s = s\<lparr>vs_update := d, vs_list := (vs_list s)\<lparr>sl_editVisible := dg_visible d\<rparr>\<rparr>"

definition edit_window :: "(Server option, server_form_edit, unit settled) dialog_event \<Rightarrow> server_sys \<Rightarrow> server_sys" where
  "edit_window ev s =
     (let s' = put_edit (dialog_step update_server_ops (vs_update s) ev) s in
      case ev of
        DgOpen p \<Rightarrow> s
      | DgAnswer k (Resolved r) \<Rightarrow> if length (dg_out (vs_update s)) \<le> k then s else load_servers s'
      | _ \<Rightarrow> s')"

text \<open>A row is there while nothing loads; its buttons are, outside of the batch mode.\<close>

definition server_there :: "(string \<Rightarrow> string \<Rightarrow> int) \<Rightarrow> server_list \<Rightarrow> Server \<Rightarrow> bool" where
  "server_there cmp st v \<longleftrightarrow> \<not> sl_isLoading st \<and> v \<in> set (filteredServers cmp st)"

definition press_row :: "(string \<Rightarrow> string \<Rightarrow> int) \<Rightarrow> row_click \<Rightarrow> Server \<Rightarrow> server_sys \<Rightarrow> server_sys" where
  "press_row cmp c v s =
     (if \<not> server_there cmp (vs_list s) v \<or> sl_batch (vs_list s) then s
      else case c of
        RowOpen \<Rightarrow> if server_id v = None then s else leave_servers s
      | RowEdit \<Rightarrow>
          put_edit (dialog_step (update_server_ops :: (Server option, server_form, server_form_edit, server_effect, unit settled) form_ops)
              (vs_update s) (DgOpen (Some v)))
            (put_result (PRow c) (click_row c v (vs_list s)) s)
      | _ \<Rightarrow> put_result (PRow c) (click_row c v (vs_list s)) s)"

text \<open>The buttons of the batch are disabled while one runs or nothing is selected.\<close>

definition press_batch :: "server_action \<Rightarrow> server_sys \<Rightarrow> server_sys" where
  "press_batch a s =
     (if \<not> sl_batch (vs_list s) \<or> sl_selected (vs_list s) = [] \<or> sl_acting (vs_list s) then s
      else
        (let (r, calls) = sl_runBatchAction a (server_targets a (vs_list s)) (vs_list s);
             ids = List.map_filter server_id (server_targets a (vs_list s))
         in (put_result PLoad r s)\<lparr>vs_calls := vs_calls s @
               (if calls = [] then [] else [new_call False (PBatch a ids (0, 0)) (action_request a (hd ids))])\<rparr>))"

definition ask_delete_servers :: "server_sys \<Rightarrow> server_sys" where
  "ask_delete_servers s =
     (let l = vs_list s in
      if \<not> sl_batch l \<or> sl_selected l = [] \<or> sl_deleting l \<or> sl_acting l then s
      else s\<lparr>vs_list := fst (sl_askDelete l)\<rparr>)"

definition confirm_delete :: "server_sys \<Rightarrow> server_sys" where
  "confirm_delete s =
     (if \<not> sl_deleteOpen (vs_list s) \<or> sl_deleting (vs_list s) then s
      else case sl_handleConfirmDelete (vs_list s) of (r, ids) \<Rightarrow>
        (put_result PLoad r s)\<lparr>vs_calls := vs_calls s @
           (if ids = [] then [] else [new_call False (PDelete ids ids (0, 0)) (GwDelete (hd ids))])\<rparr>)"

text \<open>The boxes and filters, the cancel button and the dismissal of the deletion.\<close>

datatype server_control = ScControl sl_control | ScFilters | ScBatchMode | ScBox Server | ScAll bool
  | ScCancelDelete | ScDismissDelete

fun server_change :: "(string \<Rightarrow> string \<Rightarrow> int) \<Rightarrow> server_control \<Rightarrow> server_list \<Rightarrow> server_list" where
  "server_change cmp (ScControl c) st =
     (case c of
        SlClear \<Rightarrow> if \<not> sl_batch st \<or> sl_selected st = [] \<or> sl_acting st then st else sl_change c st
      | SlCloseEdit \<Rightarrow> st
      | _ \<Rightarrow> sl_change c st)"
| "server_change cmp ScFilters st = sl_clearFilters st"
| "server_change cmp ScBatchMode st = sl_toggleBatchMode st"
| "server_change cmp (ScBox v) st =
     (if \<not> sl_batch st \<or> sl_acting st \<or> \<not> server_there cmp st v then st
      else case server_id v of None \<Rightarrow> st | Some i \<Rightarrow> sl_toggleSelected i st)"
| "server_change cmp (ScAll chk) st =
     (if \<not> sl_batch st \<or> sl_acting st \<or> sl_selectableIds cmp st = [] then st else sl_selectAll cmp chk st)"
| "server_change cmp ScCancelDelete st = (if sl_deleting st then st else sl_close_delete st)"
| "server_change cmp ScDismissDelete st = sl_close_delete st"

subsection \<open>One step\<close>

datatype server_event =
    SeVisit | SeLeave | SeRefresh
  | SeCreate "(unit, server_form_edit, unit settled) dialog_event"
  | SeUpdate "(Server option, server_form_edit, unit settled) dialog_event"
  | SeRow row_click Server | SeControl server_control | SeBatch server_action | SeAsk | SeConfirm
  | SeServe nat bool bool | SeAnswer nat | SeGateway gateway | SeLost nat bool

fun servers_event :: "(string \<Rightarrow> string \<Rightarrow> int) \<Rightarrow> server_event \<Rightarrow> server_sys \<Rightarrow> server_sys" where
  "servers_event cmp SeLeave s = leave_servers s"
| "servers_event cmp SeRefresh s = set_reload_flag (\<not> reload_flag s) s"
| "servers_event cmp (SeCreate ev) s = create_window ev s"
| "servers_event cmp (SeUpdate ev) s = edit_window ev s"
| "servers_event cmp (SeRow c v) s = press_row cmp c v s"
| "servers_event cmp (SeControl c) s = s\<lparr>vs_list := server_change cmp c (vs_list s)\<rparr>"
| "servers_event cmp (SeBatch a) s = press_batch a s"
| "servers_event cmp SeAsk s = ask_delete_servers s"
| "servers_event cmp SeConfirm s = confirm_delete s"
| "servers_event cmp _ s = s"

definition server_dispatch :: "(string \<Rightarrow> string \<Rightarrow> int) \<Rightarrow> server_event \<Rightarrow> server_sys \<Rightarrow> server_sys" where
  "server_dispatch cmp e s =
     (case e of
        SeVisit \<Rightarrow> if vs_mounted s then s else visit_servers s
      | SeServe k applied ok \<Rightarrow> serve k applied ok s
      | SeAnswer k \<Rightarrow> answer_call k s
      | SeGateway g \<Rightarrow> put_gateway g s
      | SeLost k ok \<Rightarrow> answer_lost k ok s
      | _ \<Rightarrow> if vs_mounted s then servers_event cmp e s else s)"

definition server_step :: "(string \<Rightarrow> string \<Rightarrow> int) \<Rightarrow> server_sys \<Rightarrow> server_event \<Rightarrow> server_sys" where
  "server_step cmp s e =
     (let s' = server_dispatch cmp e s in s'\<lparr>vs_list := sl_batch_effect cmp (vs_list s')\<rparr>)"

end
