(* ===== verification/ServerMarks.thy ===== *)
theory ServerMarks
  imports ServerSystem
begin

text \<open>
  The invariant of the page of the gateway's servers: a mark that says that something runs is set
  exactly while its call is out, what is shown was the gateway's list at some time, the selection
  stays within what is shown.
\<close>

fun is_load :: "purpose \<Rightarrow> bool" where
  "is_load PLoad = True"
| "is_load _ = False"

fun is_batch :: "purpose \<Rightarrow> bool" where
  "is_batch (PBatch a ids n) = True"
| "is_batch _ = False"

fun is_delete :: "purpose \<Rightarrow> bool" where
  "is_delete (PDelete t ids n) = True"
| "is_delete _ = False"

text \<open>The calls of the present page that are for something.\<close>

definition live :: "(purpose \<Rightarrow> bool) \<Rightarrow> gateway_call list \<Rightarrow> nat" where
  "live P cs = length (filter (\<lambda>c. \<not> ca_old c \<and> P (ca_purpose c)) cs)"

definition marks_ok :: "gateway_call list \<Rightarrow> server_list \<Rightarrow> bool" where
  "marks_ok cs st \<longleftrightarrow> (sl_isLoading st \<longrightarrow> 0 < live is_load cs) \<and>
     live is_batch cs = of_bool (sl_acting st) \<and> live is_delete cs = of_bool (sl_deleting st)"

fun purpose_ok :: "purpose \<Rightarrow> gw_request \<Rightarrow> bool" where
  "purpose_ok PLoad r \<longleftrightarrow> r = GwList"
| "purpose_ok (PRow c) r \<longleftrightarrow>
     (\<exists>i. (c, r) \<in> {(RowOnline, GwOnline i), (RowEnable, GwEnable i), (RowReload, GwReload i)})"
| "purpose_ok (PBatch a ids n) r \<longleftrightarrow> ids \<noteq> [] \<and> r = action_request a (hd ids)"
| "purpose_ok (PDelete t ids n) r \<longleftrightarrow> ids \<noteq> [] \<and> r = GwDelete (hd ids)"

definition call_ok :: "Server list list \<Rightarrow> gateway_call \<Rightarrow> bool" where
  "call_ok past c \<longleftrightarrow> purpose_ok (ca_purpose c) (ca_request c) \<and>
     (\<forall>r. ca_answer c = Some (Resolved r) \<longrightarrow> ca_request c = GwList \<longrightarrow> (\<exists>d\<in>set past. resp_data r = Some d))"

definition core :: "server_sys \<Rightarrow> bool" where
  "core s \<longleftrightarrow> marks_ok (vs_calls s) (vs_list s) \<and> (\<forall>c\<in>set (vs_calls s). call_ok (vs_past s) c) \<and>
     sl_servers (vs_list s) \<in> insert [] (set (vs_past s)) \<and>
     (\<not> vs_mounted s \<longrightarrow> (\<forall>c\<in>set (vs_calls s). ca_old c))"

definition server_dialog_honest :: "(server_form, 'r) form_window \<Rightarrow> bool" where
  "server_dialog_honest d \<longleftrightarrow> (sf_saving (dg_form d) \<longrightarrow> (\<exists>r. (dg_opening d, r) \<in> set (dg_out d))) \<and>
     (\<forall>x\<in>set (dg_out d). fst x \<le> dg_opening d)"

definition server_dialogs :: "server_sys \<Rightarrow> bool" where
  "server_dialogs s \<longleftrightarrow> server_dialog_honest (vs_create s) \<and> server_dialog_honest (vs_update s)"

text \<open>The selection is empty outside of the batch mode.\<close>

definition unchosen :: "server_list \<Rightarrow> bool" where
  "unchosen st \<longleftrightarrow> (\<not> sl_batch st \<longrightarrow> sl_selected st = [])"

subsection \<open>Counting calls\<close>

lemma live_append [simp]: "live P (xs @ ys) = live P xs + live P ys"
  by (simp add: live_def)

lemma live_simps [simp]: "live P [] = 0" "live P (c # cs) = of_bool (\<not> ca_old c \<and> P (ca_purpose c)) + live P cs"
  by (simp_all add: live_def)

lemma live_old: "\<forall>c\<in>set cs. ca_old c \<Longrightarrow> live P cs = 0"
  by (simp add: live_def filter_empty_conv)

lemma live_aged [simp]: "live P (map (\<lambda>c. c\<lparr>ca_old := True\<rparr>) cs) = 0"
  by (rule live_old) simp

lemma live_remove_nth:
  assumes "k < length cs"
  shows "live P cs = of_bool (\<not> ca_old (cs ! k) \<and> P (ca_purpose (cs ! k))) + live P (remove_nth k cs)"
proof -
  have "live P cs = live P (take k cs @ (cs ! k) # drop (Suc k) cs)" using assms by (simp flip: id_take_nth_drop)
  then show ?thesis by (simp add: remove_nth_def)
qed

lemma live_update:
  assumes "k < length cs" and "ca_old c = ca_old (cs ! k)" and "ca_purpose c = ca_purpose (cs ! k)"
  shows "live P (cs[k := c]) = live P cs"
proof -
  have "live P cs = live P (take k cs @ (cs ! k) # drop (Suc k) cs)" using assms(1) by (simp flip: id_take_nth_drop)
  then show ?thesis using assms by (simp add: upd_conv_take_nth_drop)
qed

lemma live_effects:
  "live P (effect_calls old p es) = (if \<not> old \<and> P p then length (List.map_filter effect_request es) else 0)"
  by (simp add: effect_calls_def new_call_def live_def filter_map o_def)

lemma load_requests_servers: "List.map_filter effect_request (snd (loadServers st)) = [GwList]"
  by (simp add: loadServers_def List.map_filter_simps)

lemma load_state: "fst (loadServers st) = st\<lparr>sl_isLoading := True\<rparr>"
  by (simp add: loadServers_def)

lemma new_call_simps [simp]:
  "ca_purpose (new_call b p r) = p" "ca_request (new_call b p r) = r" "ca_old (new_call b p r) = b"
  "ca_answer (new_call b p r) = None"
  by (simp_all add: new_call_def)

lemma effect_calls_mem: "c \<in> set (effect_calls b p es) \<Longrightarrow>
    ca_purpose c = p \<and> ca_old c = b \<and> ca_answer c = None \<and> ca_request c \<in> set (List.map_filter effect_request es)"
  by (auto simp: effect_calls_def)

lemma call_ok_mono: "call_ok past c \<Longrightarrow> set past \<subseteq> set past' \<Longrightarrow> call_ok past' c"
  by (fastforce simp: call_ok_def)

subsection \<open>Calls and marks\<close>

text \<open>What a handler of the mounted page does: a new list, new calls of its own.\<close>

lemma core_put:
  assumes "core s" and "vs_mounted s" and "sl_servers l = sl_servers (vs_list s)"
    and "\<And>c. c \<in> set ns \<Longrightarrow> purpose_ok (ca_purpose c) (ca_request c) \<and> ca_answer c = None"
    and "sl_isLoading l \<Longrightarrow> sl_isLoading (vs_list s) \<or> 0 < live is_load ns"
    and "of_bool (sl_acting l) = of_bool (sl_acting (vs_list s)) + live is_batch ns"
    and "of_bool (sl_deleting l) = of_bool (sl_deleting (vs_list s)) + live is_delete ns"
  shows "core (s\<lparr>vs_list := l, vs_calls := vs_calls s @ ns\<rparr>)"
  using assms by (auto simp: core_def marks_ok_def call_ok_def)

lemma core_list:
  assumes "core s" and "sl_servers l = sl_servers (vs_list s)" and "sl_isLoading l = sl_isLoading (vs_list s)"
    and "sl_acting l = sl_acting (vs_list s)" and "sl_deleting l = sl_deleting (vs_list s)"
  shows "core (s\<lparr>vs_list := l\<rparr>)"
  using assms by (auto simp: core_def marks_ok_def)

lemma core_frame [simp]:
  "core (s\<lparr>vs_create := d\<rparr>) = core s" "core (s\<lparr>vs_update := d'\<rparr>) = core s" "core (s\<lparr>vs_lost := xs\<rparr>) = core s"
  by (simp_all add: core_def)

lemma core_load: "core s \<Longrightarrow> vs_mounted s \<Longrightarrow> core (load_servers s)"
  unfolding load_servers_def put_result_def
  by (rule core_put) (auto simp: load_state live_effects load_requests_servers sl_servers_def dest: effect_calls_mem)

lemma core_flag: "core s \<Longrightarrow> core (set_reload_flag b s)"
proof -
  assume s: "core s"
  let ?l = "(vs_list s)\<lparr>sl_store := setLoadingServers b (sl_store (vs_list s))\<rparr>"
  have l: "core (s\<lparr>vs_list := ?l\<rparr>)" by (rule core_list [OF s]) (simp_all add: sl_servers_def setLoadingServers_def)
  show "core (set_reload_flag b s)"
  proof (cases "vs_mounted s \<and> b \<noteq> reload_flag s")
    case True
    then have "set_reload_flag b s = load_servers (s\<lparr>vs_list := ?l\<rparr>)"
      unfolding set_reload_flag_def Let_def by (rule if_P)
    then show ?thesis using core_load [OF l] True by simp
  next
    case False
    then have "set_reload_flag b s = s\<lparr>vs_list := ?l\<rparr>" unfolding set_reload_flag_def Let_def by (rule if_not_P)
    then show ?thesis using l by simp
  qed
qed

lemma core_edit: "core s \<Longrightarrow> core (put_edit d s)"
  unfolding put_edit_def by (simp add: core_list sl_servers_def)

lemma core_leave: "core s \<Longrightarrow> core (leave_servers s)"
  by (auto simp: core_def leave_servers_def marks_ok_def init_server_list_def call_ok_def sl_servers_def)

lemma core_visit:
  assumes "core s" and "\<not> vs_mounted s"
  shows "core (visit_servers s)"
  unfolding visit_servers_def
  by (rule core_load) (use assms in \<open>auto simp: core_def marks_ok_def init_server_list_def sl_servers_def live_old\<close>)

lemma core_create: "core s \<Longrightarrow> core (create_window ev s)"
  by (auto simp: create_window_def Let_def split: dialog_event.split settled.split intro!: core_flag)

lemma core_update: "core s \<Longrightarrow> vs_mounted s \<Longrightarrow> core (edit_window ev s)"
  by (auto simp: edit_window_def Let_def put_edit_def split: dialog_event.split settled.split
      intro!: core_load core_list simp: sl_servers_def)

text \<open>A row has at most one request, of its own kind.\<close>

lemma click_row_frame:
  "sl_servers (fst (click_row c v st)) = sl_servers st" "sl_isLoading (fst (click_row c v st)) = sl_isLoading st"
  "sl_acting (fst (click_row c v st)) = sl_acting st" "sl_deleting (fst (click_row c v st)) = sl_deleting st"
  by (cases c; simp add: sl_servers_def split: option.split)+

lemma click_row_requests:
  "r \<in> set (List.map_filter effect_request (snd (click_row c v st))) \<Longrightarrow> purpose_ok (PRow c) r"
  by (cases c) (auto simp: List.map_filter_simps split: option.splits)

lemma core_row:
  assumes "core s" and "vs_mounted s"
  shows "core (put_result (PRow c) (click_row c v (vs_list s)) s)"
  unfolding put_result_def
  by (rule core_put [OF assms])
    (use click_row_requests [of _ c v "vs_list s"] in
      \<open>auto simp: click_row_frame live_effects simp del: purpose_ok.simps click_row.simps dest!: effect_calls_mem\<close>)

lemma core_press_row: "core s \<Longrightarrow> vs_mounted s \<Longrightarrow> core (press_row cmp c v s)"
  by (cases c) (simp_all add: press_row_def core_leave core_edit core_row del: click_row.simps dialog_step.simps)

text \<open>Starting the batch and the deletion.\<close>

lemma core_press_batch:
  assumes s: "core s" "vs_mounted s"
  shows "core (press_batch a s)"
proof (cases "\<not> sl_batch (vs_list s) \<or> sl_selected (vs_list s) = [] \<or> sl_acting (vs_list s)")
  case False
  let ?ids = "List.map_filter server_id (server_targets a (vs_list s))"
  show ?thesis
  proof (cases "?ids = []")
    case True
    have "core (s\<lparr>vs_list := vs_list s, vs_calls := vs_calls s @ []\<rparr>)" by (rule core_put [OF s]) simp_all
    with True False show ?thesis
      by (simp add: press_batch_def sl_runBatchAction_def put_result_def effect_calls_def List.map_filter_simps)
  next
    case ids: False
    have "core (s\<lparr>vs_list := (vs_list s)\<lparr>sl_acting := True\<rparr>,
        vs_calls := vs_calls s @ [new_call False (PBatch a ?ids (0, 0)) (action_request a (hd ?ids))]\<rparr>)"
      by (rule core_put [OF s]) (use ids False in \<open>auto simp: sl_servers_def\<close>)
    with ids False show ?thesis
      by (simp add: press_batch_def sl_runBatchAction_def put_result_def Let_def)
  qed
qed (simp add: press_batch_def s)

lemma core_confirm:
  assumes s: "core s" "vs_mounted s"
  shows "core (confirm_delete s)"
proof (cases "\<not> sl_deleteOpen (vs_list s) \<or> sl_deleting (vs_list s)")
  case False
  let ?ids = "List.map_filter server_id (sl_deleteItems (vs_list s))"
  show ?thesis
  proof (cases "?ids = []")
    case True
    have "core (s\<lparr>vs_list := sl_close_delete (vs_list s), vs_calls := vs_calls s @ []\<rparr>)"
      by (rule core_put [OF s]) (simp_all add: sl_close_delete_def sl_servers_def)
    with True False show ?thesis
      by (simp add: confirm_delete_def sl_handleConfirmDelete_def put_result_def effect_calls_def List.map_filter_simps)
  next
    case ids: False
    have "core (s\<lparr>vs_list := (vs_list s)\<lparr>sl_deleting := True\<rparr>,
        vs_calls := vs_calls s @ [new_call False (PDelete ?ids ?ids (0, 0)) (GwDelete (hd ?ids))]\<rparr>)"
      by (rule core_put [OF s]) (use ids False in \<open>auto simp: sl_servers_def\<close>)
    with ids False show ?thesis
      by (simp add: confirm_delete_def sl_handleConfirmDelete_def put_result_def Let_def)
  qed
qed (simp add: confirm_delete_def s)

lemma server_change_frame:
  "sl_servers (server_change cmp c st) = sl_servers st" "sl_isLoading (server_change cmp c st) = sl_isLoading st"
  "sl_acting (server_change cmp c st) = sl_acting st" "sl_deleting (server_change cmp c st) = sl_deleting st"
  by (cases "(cmp, c, st)" rule: server_change.cases;
      simp add: sl_servers_def sl_clearFilters_def sl_toggleBatchMode_def sl_toggleSelected_def sl_selectAll_def
        sl_close_delete_def Let_def split: sl_control.split option.split)+

lemma ask_frame: "core s \<Longrightarrow> core (ask_delete_servers s)"
  by (simp add: ask_delete_servers_def sl_askDelete_def Let_def core_list sl_servers_def)

lemma core_event: "core s \<Longrightarrow> vs_mounted s \<Longrightarrow> core (servers_event cmp e s)"
  by (cases "(cmp, e, s)" rule: servers_event.cases)
    (simp_all add: core_leave core_flag core_create core_update core_press_row core_press_batch core_confirm ask_frame
      core_list server_change_frame)

subsection \<open>The gateway and its answers\<close>

lemma core_gateway: "core s \<Longrightarrow> core (put_gateway g s)"
  unfolding core_def put_gateway_def by (auto intro: call_ok_mono)

lemma core_serve:
  assumes s: "core s"
  shows "core (serve k applied ok s)"
proof (cases "k < length (vs_calls s) \<and> ca_answer (vs_calls s ! k) = None")
  case True
  let ?c = "vs_calls s ! k"
  define g where "g = (if applied then gw_apply (ca_request ?c) (vs_gateway s) else vs_gateway s)"
  let ?c' = "?c\<lparr>ca_answer := Some (answer_of ok (ca_request ?c) g)\<rparr>"
  have c: "?c \<in> set (vs_calls s)" using True by simp
  have g': "core (put_gateway g s)" using s by (rule core_gateway)
  have "call_ok (vs_past s) ?c" using s c by (simp add: core_def)
  then have "call_ok (vs_past s @ [gw_list g]) ?c'" by (auto simp: call_ok_def answer_of_def ok_response_def)
  moreover have "set ((vs_calls s)[k := ?c']) \<subseteq> insert ?c' (set (vs_calls s))" by (rule set_update_subset_insert)
  ultimately have "\<forall>d\<in>set ((vs_calls s)[k := ?c']). call_ok (vs_past s @ [gw_list g]) d"
    using g' by (auto simp: core_def put_gateway_def)
  moreover have "live P ((vs_calls s)[k := ?c']) = live P (vs_calls s)" for P by (rule live_update) (use True in auto)
  moreover have "\<not> vs_mounted s \<Longrightarrow> \<forall>d\<in>set ((vs_calls s)[k := ?c']). ca_old d"
    using s c \<open>set ((vs_calls s)[k := ?c']) \<subseteq> _\<close> by (auto simp: core_def)
  ultimately have "core ((put_gateway g s)\<lparr>vs_calls := (vs_calls s)[k := ?c']\<rparr>)"
    using g' by (simp add: core_def put_gateway_def marks_ok_def)
  then show ?thesis using True by (simp add: serve_def Let_def g_def)
qed (auto simp: serve_def Let_def s)

lemma finish_requests: "set (List.map_filter effect_request (snd (fst (finish p a st)))) \<subseteq> {GwList}"
  by (cases "(p, a, st)" rule: finish.cases)
    (auto simp: loadServers_done_def row_done_def loadServers_def sl_runBatchAction_done_def sl_handleConfirmDelete_done_def
      List.map_filter_simps Let_def split: settled.splits option.splits row_click.splits list.splits if_splits)

lemma finish_next: "x \<in> set (snd (finish p a st)) \<Longrightarrow> purpose_ok (fst x) (snd x)"
  by (cases "(p, a, st)" rule: finish.cases) (auto split: list.splits)

text \<open>What a continuation leaves: a list and calls. Each case is one of the lemmas below.\<close>

definition continued :: "bool \<Rightarrow> purpose \<Rightarrow> Server list settled \<Rightarrow> server_list \<Rightarrow> server_list \<times> gateway_call list" where
  "continued old p a st =
     (case finish p a st of (r, nx) \<Rightarrow> (fst r, effect_calls old PLoad (snd r) @ map (\<lambda>(p, q). new_call old p q) nx))"

lemma finish_load_state:
  "sl_acting (fst (fst (finish PLoad a st))) = sl_acting st" "sl_deleting (fst (fst (finish PLoad a st))) = sl_deleting st"
  "effect_calls old PLoad (snd (fst (finish PLoad a st))) = []" "snd (finish PLoad a st) = []"
  "(\<forall>r. a = Resolved r \<longrightarrow> resp_data r \<noteq> None) \<Longrightarrow> \<not> sl_isLoading (fst (fst (finish PLoad a st)))"
  by (auto simp: loadServers_done_def effect_calls_def List.map_filter_simps split: settled.split option.split)

lemma load_effect_calls: "effect_calls old PLoad (snd (loadServers st)) = [new_call old PLoad GwList]"
  by (simp add: effect_calls_def load_requests_servers)

lemma row_done_cases:
  "(row_done c a st = loadServers st) \<or> (fst (row_done c a st) = st \<and> effect_calls old p (snd (row_done c a st)) = [])"
  by (cases c; cases a) (simp_all add: row_done_def effect_calls_def List.map_filter_simps)

lemma batch_done_calls: "effect_calls old p (snd (sl_runBatchAction_done act n st)) = [new_call old p GwList]"
  by (simp add: sl_runBatchAction_done_def loadServers_def effect_calls_def List.map_filter_simps Let_def)

lemma delete_done_calls: "effect_calls old p (snd (sl_handleConfirmDelete_done ts n st)) = [new_call old p GwList]"
  by (simp add: sl_handleConfirmDelete_done_def loadServers_def effect_calls_def List.map_filter_simps Let_def)

lemma batch_done_state: "fst (sl_runBatchAction_done act n st) = st\<lparr>sl_acting := False, sl_selected := [], sl_isLoading := True\<rparr>"
  by (simp add: sl_runBatchAction_done_def loadServers_def Let_def)

lemma delete_done_state:
  "fst (sl_handleConfirmDelete_done ts n st) = st\<lparr>sl_deleting := False, sl_deleteOpen := False, sl_deleteItems := [],
     sl_selected := filter (\<lambda>i. i \<notin> set ts) (sl_selected st), sl_isLoading := True\<rparr>"
  by (simp add: sl_handleConfirmDelete_done_def loadServers_def sl_close_delete_def Let_def)

text \<open>The ways in which a call of this gateway goes on.\<close>

lemma continued_cases:
  assumes "p = PLoad \<longrightarrow> (\<forall>r. a = Resolved r \<longrightarrow> resp_data r \<noteq> None)"
  obtains (shown) l where "p = PLoad" "continued old p a st = (l, [])" "\<not> sl_isLoading l"
      "sl_acting l = sl_acting st" "sl_deleting l = sl_deleting st"
      "sl_servers l = sl_servers st \<or> (\<exists>r. a = Resolved r \<and> resp_data r = Some (sl_servers l))"
  | (quiet) c where "p = PRow c" "continued old p a st = (st, [])"
  | (reload) l where "\<not> is_load p" "continued old p a st = (l, [new_call old PLoad GwList])"
      "sl_servers l = sl_servers st" "sl_acting l = (sl_acting st \<and> \<not> is_batch p)"
      "sl_deleting l = (sl_deleting st \<and> \<not> is_delete p)"
  | (another) q r where "continued old p a st = (st, [new_call old q r])" "is_batch q = is_batch p"
      "is_delete q = is_delete p" "\<not> is_load p" "\<not> is_load q" "is_batch q \<or> is_delete q" "purpose_ok q r"
proof (cases p)
  case PLoad
  let ?l = "fst (fst (finish PLoad a st))"
  have c: "continued old p a st = (?l, [])"
    by (simp add: continued_def PLoad finish_load_state case_prod_beta del: finish.simps)
  have v: "sl_servers ?l = sl_servers st \<or> (\<exists>r. a = Resolved r \<and> resp_data r = Some (sl_servers ?l))"
    by (auto simp: loadServers_done_def sl_servers_def setServers_def split: settled.split option.split)
  show ?thesis
    using PLoad c _ _ _ v by (rule shown) (use assms PLoad in \<open>simp_all add: finish_load_state del: finish.simps\<close>)
next
  case (PRow c)
  show ?thesis
  proof (cases "row_done c a st = loadServers st")
    case True
    then have "continued old p a st = (fst (loadServers st), [new_call old PLoad GwList])"
      by (simp add: continued_def PRow load_effect_calls)
    then show ?thesis
      by (rule reload [rotated]) (simp_all add: PRow load_state sl_servers_def)
  next
    case False
    then have "fst (row_done c a st) = st \<and> effect_calls old PLoad (snd (row_done c a st)) = []"
      using row_done_cases by blast
    then have "continued old p a st = (st, [])" by (simp add: continued_def PRow)
    with PRow show ?thesis by (rule quiet)
  qed
next
  case (PBatch act ids n)
  let ?n = "tally (answered_ok a) n"
  show ?thesis
  proof (cases "tl ids")
    case Nil
    then have "continued old p a st = (fst (sl_runBatchAction_done act ?n st), [new_call old PLoad GwList])"
      by (simp add: continued_def PBatch batch_done_calls)
    then show ?thesis
      by (rule reload [rotated]) (simp_all add: PBatch batch_done_state sl_servers_def)
  next
    case (Cons i js)
    then have "continued old p a st = (st, [new_call old (PBatch act (i # js) ?n) (action_request act i)])"
      by (simp add: continued_def PBatch effect_calls_def List.map_filter_simps)
    then show ?thesis by (rule another) (simp_all add: PBatch)
  qed
next
  case (PDelete ts ids n)
  let ?n = "tally (answered_ok a) n"
  show ?thesis
  proof (cases "tl ids")
    case Nil
    then have "continued old p a st = (fst (sl_handleConfirmDelete_done ts ?n st), [new_call old PLoad GwList])"
      by (simp add: continued_def PDelete delete_done_calls)
    then show ?thesis
      by (rule reload [rotated]) (simp_all add: PDelete delete_done_state sl_servers_def)
  next
    case (Cons i js)
    then have "continued old p a st = (st, [new_call old (PDelete ts (i # js) ?n) (GwDelete i)])"
      by (simp add: continued_def PDelete effect_calls_def List.map_filter_simps)
    then show ?thesis by (rule another) (simp_all add: PDelete)
  qed
qed

lemma answer_call_alt:
  "answer_call k s =
     (if length (vs_calls s) \<le> k then s
      else case ca_answer (vs_calls s ! k) of None \<Rightarrow> s
        | Some a \<Rightarrow>
            (let c = vs_calls s ! k; st = (if ca_old c then init_server_list (sl_store (vs_list s)) else vs_list s);
                 x = continued (ca_old c) (ca_purpose c) a st
             in s\<lparr>vs_list := if ca_old c then (vs_list s)\<lparr>sl_store := sl_store (fst x)\<rparr> else fst x,
                  vs_calls := remove_nth k (vs_calls s) @ snd x\<rparr>))"
  by (simp add: answer_call_def continued_def Let_def case_prod_beta split: option.split)

text \<open>An answer keeps the marks honest: of the page that is shown, and of one that was left.\<close>

lemma call_answer_data:
  assumes "call_ok past c" and "ca_answer c = Some (Resolved r)" and "ca_purpose c = PLoad"
  obtains d where "d \<in> set past" "resp_data r = Some d"
  using assms unfolding call_ok_def by auto

lemma core_answer_here:
  assumes s: "core s" and k: "k < length (vs_calls s)" and a: "ca_answer (vs_calls s ! k) = Some a"
    and here: "\<not> ca_old (vs_calls s ! k)" and x: "continued False (ca_purpose (vs_calls s ! k)) a (vs_list s) = (l, ns)"
  shows "core (s\<lparr>vs_list := l, vs_calls := remove_nth k (vs_calls s) @ ns\<rparr>)"
proof -
  let ?c = "vs_calls s ! k" and ?cs = "remove_nth k (vs_calls s)"
  have c: "?c \<in> set (vs_calls s)" using k by simp
  have ok: "call_ok (vs_past s) ?c" and m: "marks_ok (vs_calls s) (vs_list s)" and mounted: "vs_mounted s"
    using s c here by (auto simp: core_def)
  have sub: "set ?cs \<subseteq> set (vs_calls s)" by (auto dest: set_remove_nthD)
  have live: "live P (vs_calls s) = of_bool (P (ca_purpose ?c)) + live P ?cs" for P
    using live_remove_nth [OF k, of P] here by simp
  have past: "sl_servers (vs_list s) \<in> insert [] (set (vs_past s))" using s by (simp add: core_def)
  have data: "ca_purpose ?c = PLoad \<longrightarrow> (\<forall>r. a = Resolved r \<longrightarrow> resp_data r \<noteq> None)"
    using call_answer_data [OF ok] a by (metis option.distinct(1))
  have inpast: "d \<in> set (vs_past s)" if "ca_purpose ?c = PLoad" "a = Resolved r" "resp_data r = Some d" for r d
    using call_answer_data [OF ok] a that by (metis option.inject)
  have goal: "core (s\<lparr>vs_list := l, vs_calls := ?cs @ ns\<rparr>)"
    if "marks_ok (?cs @ ns) l" "\<forall>c\<in>set ns. call_ok (vs_past s) c" "sl_servers l \<in> insert [] (set (vs_past s))"
    using that s sub mounted by (auto simp: core_def)
  show ?thesis
  proof (cases rule: continued_cases [where p = "ca_purpose ?c" and a = a and old = False and st = "vs_list s", OF data, consumes 0, case_names shown quiet reload another])
    case (shown l')
    have "sl_servers l' \<in> insert [] (set (vs_past s))" using shown past inpast by auto
    then show ?thesis using x shown m live [of is_load] live [of is_batch] live [of is_delete]
      by (intro goal) (auto simp: marks_ok_def)
  next
    case (quiet c)
    then show ?thesis using x past m live [of is_load] live [of is_batch] live [of is_delete]
      by (intro goal) (auto simp: marks_ok_def)
  next
    case (reload l')
    then show ?thesis using x past m live [of is_load] live [of is_batch] live [of is_delete]
      by (intro goal) (auto simp: marks_ok_def call_ok_def of_bool_def split: if_splits)
  next
    case (another q r)
    then show ?thesis using x past m live [of is_load] live [of is_batch] live [of is_delete]
      by (intro goal) (auto simp: marks_ok_def call_ok_def of_bool_def split: if_splits)
  qed
qed

lemma continued_requests: "c \<in> set (snd (continued old p a st)) \<Longrightarrow>
    purpose_ok (ca_purpose c) (ca_request c) \<and> ca_answer c = None \<and> ca_old c = old"
  using finish_requests [of p a st]
  by (auto simp: continued_def case_prod_beta dest!: effect_calls_mem dest: finish_next)

lemma core_answer_gone:
  assumes s: "core s" and k: "k < length (vs_calls s)" and a: "ca_answer (vs_calls s ! k) = Some a"
    and gone: "ca_old (vs_calls s ! k)" and x: "continued True (ca_purpose (vs_calls s ! k)) a (init_server_list (sl_store (vs_list s))) = (l, ns)"
  shows "core (s\<lparr>vs_list := (vs_list s)\<lparr>sl_store := sl_store l\<rparr>, vs_calls := remove_nth k (vs_calls s) @ ns\<rparr>)"
proof -
  let ?c = "vs_calls s ! k" and ?cs = "remove_nth k (vs_calls s)" and ?st = "init_server_list (sl_store (vs_list s))"
  have c: "?c \<in> set (vs_calls s)" using k by simp
  have ok: "call_ok (vs_past s) ?c" using s c by (auto simp: core_def)
  have old: "ca_old d" "call_ok (vs_past s) d" if "d \<in> set ns" for d
    using continued_requests [of d True "ca_purpose ?c" a ?st] that x by (auto simp: call_ok_def)
  have live: "live P (?cs @ ns) = live P (vs_calls s)" for P
    using live_remove_nth [OF k, of P] gone live_old [of ns P] old by simp
  have data: "ca_purpose ?c = PLoad \<longrightarrow> (\<forall>r. a = Resolved r \<longrightarrow> resp_data r \<noteq> None)"
    using call_answer_data [OF ok] a by (metis option.distinct(1))
  have inpast: "d \<in> set (vs_past s)" if "ca_purpose ?c = PLoad" "a = Resolved r" "resp_data r = Some d" for r d
    using call_answer_data [OF ok] a that by (metis option.inject)
  have st: "sl_servers ?st = sl_servers (vs_list s)" by (simp add: init_server_list_def sl_servers_def)
  have past: "sl_servers (vs_list s) \<in> insert [] (set (vs_past s))" using s by (simp add: core_def)
  have "sl_servers l \<in> insert [] (set (vs_past s))"
    by (cases rule: continued_cases [where p = "ca_purpose ?c" and a = a and old = True and st = ?st, OF data,
          consumes 0, case_names shown quiet reload another])
      (use x past inpast st in auto)
  then have "sl_servers ((vs_list s)\<lparr>sl_store := sl_store l\<rparr>) \<in> insert [] (set (vs_past s))" by (simp add: sl_servers_def)
  moreover have "marks_ok (?cs @ ns) ((vs_list s)\<lparr>sl_store := sl_store l\<rparr>)"
    using s live by (simp add: core_def marks_ok_def del: live_append)
  moreover have "\<forall>d\<in>set (?cs @ ns). call_ok (vs_past s) d"
    using s old by (auto simp: core_def dest: set_remove_nthD)
  ultimately show ?thesis using s old by (auto simp: core_def dest: set_remove_nthD)
qed

lemma core_answer: "core s \<Longrightarrow> core (answer_call k s)"
  using core_answer_here [of s k] core_answer_gone [of s k]
  by (auto simp: answer_call_alt Let_def prod_eq_iff split: option.split)

lemma core_lost: "core s \<Longrightarrow> core (answer_lost k ok s)"
proof -
  assume s: "core s"
  have "core (s\<lparr>vs_lost := xs, vs_calls := vs_calls s @ [new_call True PLoad GwList]\<rparr>)" for xs
    using s by (auto simp: core_def marks_ok_def call_ok_def)
  then show ?thesis
    by (simp add: answer_lost_def Let_def core_flag s split: lost_save.split)
qed

lemma core_dispatch: "core s \<Longrightarrow> core (server_dispatch cmp e s)"
  using core_event [of s cmp e]
  by (cases e) (simp_all add: server_dispatch_def core_visit core_serve core_answer core_gateway core_lost
      del: servers_event.simps)

subsection \<open>Dialogs and selection\<close>

lemma closed_server_dialog: "\<not> sf_saving f \<Longrightarrow> server_dialog_honest (closed_dialog f)"
  by (simp add: server_dialog_honest_def closed_dialog_def)

lemma create_server_honest:
  fixes ev :: "(unit, server_form_edit, unit settled) dialog_event"
  shows "server_dialog_honest d \<Longrightarrow> server_dialog_honest (dialog_step (create_listed_ops b) d ev)"
  using create_listed.honest_step [of b d ev]
  unfolding create_listed.honest_def server_dialog_honest_def by (simp add: create_listed_ops_def)

lemma update_server_honest:
  fixes ev :: "(Server option, server_form_edit, unit settled) dialog_event"
  shows "server_dialog_honest d \<Longrightarrow> server_dialog_honest (dialog_step update_server_ops d ev)"
  using update_server.honest_step [of d ev]
  unfolding update_server.honest_def server_dialog_honest_def by (simp add: update_server_ops_def)

lemma window_frames [simp]:
  "vs_create (put_result p r s) = vs_create s" "vs_update (put_result p r s) = vs_update s"
  "vs_list (put_result p r s) = fst r"
  "vs_create (put_edit d s) = vs_create s" "vs_update (put_edit d s) = d"
  by (simp_all add: put_result_def put_edit_def)

lemma load_frames [simp]:
  "vs_create (load_servers s) = vs_create s" "vs_update (load_servers s) = vs_update s"
  "sl_batch (vs_list (load_servers s)) = sl_batch (vs_list s)"
  "sl_selected (vs_list (load_servers s)) = sl_selected (vs_list s)"
  by (simp_all add: load_servers_def load_state)

lemma flag_frames [simp]:
  "vs_create (set_reload_flag b s) = vs_create s" "vs_update (set_reload_flag b s) = vs_update s"
  "sl_batch (vs_list (set_reload_flag b s)) = sl_batch (vs_list s)"
  "sl_selected (vs_list (set_reload_flag b s)) = sl_selected (vs_list s)"
  by (simp_all add: set_reload_flag_def Let_def)

lemma gateway_frames [simp]:
  "vs_create (put_gateway g s) = vs_create s" "vs_update (put_gateway g s) = vs_update s"
  "vs_list (put_gateway g s) = vs_list s"
  "vs_create (serve k ap ok s) = vs_create s" "vs_update (serve k ap ok s) = vs_update s"
  "vs_list (serve k ap ok s) = vs_list s"
  by (simp_all add: serve_def put_gateway_def Let_def)

lemma answer_frames [simp]:
  "vs_create (answer_call k s) = vs_create s" "vs_update (answer_call k s) = vs_update s"
  "vs_create (answer_lost k ok s) = vs_create s" "vs_update (answer_lost k ok s) = vs_update s"
  by (simp_all add: answer_call_alt answer_lost_def Let_def split: option.split lost_save.split)

lemma event_dialogs: "server_dialogs s \<Longrightarrow> server_dialogs (servers_event cmp e s)"
  by (cases "(cmp, e, s)" rule: servers_event.cases)
    (auto simp: server_dialogs_def create_window_def edit_window_def press_row_def press_batch_def ask_delete_servers_def
      confirm_delete_def leave_servers_def Let_def closed_server_dialog open_create_server_def open_update_server_def
      simp del: dialog_step.simps click_row.simps
      split: dialog_event.split settled.split option.split prod.split row_click.split
      intro!: create_server_honest update_server_honest)

lemma dispatch_dialogs: "server_dialogs s \<Longrightarrow> server_dialogs (server_dispatch cmp e s)"
  using event_dialogs [of s cmp e]
  by (cases e) (simp_all add: server_dispatch_def visit_servers_def server_dialogs_def closed_server_dialog
      open_create_server_def open_update_server_def del: servers_event.simps)

lemma change_unchosen: "unchosen st \<Longrightarrow> unchosen (server_change cmp c st)"
  by (cases "(cmp, c, st)" rule: server_change.cases)
    (simp_all add: unchosen_def sl_clearFilters_def sl_toggleBatchMode_def sl_toggleSelected_def sl_selectAll_def
      sl_close_delete_def Let_def split: sl_control.split option.split)

lemma click_unchosen: "unchosen st \<Longrightarrow> unchosen (fst (click_row c v st))"
  by (cases c) (simp_all add: unchosen_def split: option.split)

lemma event_unchosen: "unchosen (vs_list s) \<Longrightarrow> unchosen (vs_list (servers_event cmp e s))"
proof (cases "(cmp, e, s)" rule: servers_event.cases)
  case (5 cmp' c v s')
  then show "unchosen (vs_list s) \<Longrightarrow> ?thesis" using click_unchosen [of "vs_list s" c v]
    by (cases c) (simp_all add: press_row_def put_edit_def leave_servers_def init_server_list_def unchosen_def
        del: click_row.simps dialog_step.simps)
next
  case (6 cmp' c s')
  then show "unchosen (vs_list s) \<Longrightarrow> ?thesis" using change_unchosen [of "vs_list s" cmp c] by simp
qed (auto simp: unchosen_def create_window_def edit_window_def press_batch_def ask_delete_servers_def put_edit_def
    confirm_delete_def leave_servers_def init_server_list_def Let_def sl_runBatchAction_def sl_askDelete_def
    sl_handleConfirmDelete_def sl_close_delete_def
    simp del: dialog_step.simps
    split: dialog_event.split settled.split option.split)

lemma finish_unchosen: "unchosen st \<Longrightarrow> unchosen (fst (fst (finish p a st)))"
proof (cases "(p, a, st)" rule: finish.cases)
  case (2 c a' st')
  then show "unchosen st \<Longrightarrow> ?thesis"
    by (cases c; cases a') (simp_all add: unchosen_def row_done_def loadServers_def)
qed (auto simp: unchosen_def loadServers_done_def batch_done_state delete_done_state
    split: settled.split option.split list.split)

lemma dispatch_unchosen: "unchosen (vs_list s) \<Longrightarrow> unchosen (vs_list (server_dispatch cmp e s))"
proof -
  assume s: "unchosen (vs_list s)"
  have "unchosen (vs_list (answer_call k s))" for k
    using s finish_unchosen
    by (auto simp: answer_call_alt continued_def case_prod_beta Let_def unchosen_def split: option.split)
  moreover have "unchosen (vs_list (answer_lost k ok s))" for k ok
    using s by (simp add: answer_lost_def unchosen_def Let_def split: lost_save.split)
  moreover have "unchosen (vs_list (visit_servers s))"
    by (simp add: visit_servers_def unchosen_def init_server_list_def)
  ultimately show ?thesis using event_unchosen [OF s, of cmp e] s
    by (cases e) (simp_all add: server_dispatch_def del: servers_event.simps)
qed

subsection \<open>Every run\<close>

definition server_selection :: "(string \<Rightarrow> string \<Rightarrow> int) \<Rightarrow> server_list \<Rightarrow> bool" where
  "server_selection cmp st \<longleftrightarrow>
     (if sl_batch st then set (sl_selected st) \<subseteq> set (sl_selectableIds cmp st) else sl_selected st = [])"

definition server_inv :: "(string \<Rightarrow> string \<Rightarrow> int) \<Rightarrow> server_sys \<Rightarrow> bool" where
  "server_inv cmp s \<longleftrightarrow> core s \<and> server_dialogs s \<and> server_selection cmp (vs_list s)"

lemma selectable_cong:
  assumes "sl_servers s = sl_servers t" and "sl_query s = sl_query t" and "sl_status s = sl_status t"
    and "sl_enabledOnly s = sl_enabledOnly t"
  shows "sl_selectableIds cmp s = sl_selectableIds cmp t"
proof -
  have "shows_server s = shows_server t" using assms by (intro ext) (simp add: shows_server_def)
  with assms show ?thesis by (simp add: sl_selectableIds_def filteredServers_def)
qed

lemma effect_server_selection: "unchosen st \<Longrightarrow> server_selection cmp (sl_batch_effect cmp st)"
proof (cases "sl_batch st")
  case True
  have "sl_selectableIds cmp (sl_batch_effect cmp st) = sl_selectableIds cmp st"
    by (rule selectable_cong) (simp_all add: sl_batch_effect_def sl_servers_def)
  moreover have "sl_batch (sl_batch_effect cmp st)" using True by (simp add: sl_batch_effect_def)
  ultimately show ?thesis using srvs.settled_selected [OF True, of cmp] by (simp add: server_selection_def)
qed (simp add: server_selection_def sl_batch_effect_def unchosen_def)

lemma selection_unchosen: "server_selection cmp st \<Longrightarrow> unchosen st"
  by (simp add: server_selection_def unchosen_def split: if_splits)

lemma server_inv_step: "server_inv cmp s \<Longrightarrow> server_inv cmp (server_step cmp s e)"
proof -
  assume s: "server_inv cmp s"
  let ?t = "server_dispatch cmp e s"
  have "core (?t\<lparr>vs_list := sl_batch_effect cmp (vs_list ?t)\<rparr>)"
    using s by (intro core_list core_dispatch) (simp_all add: server_inv_def sl_batch_effect_def sl_servers_def)
  moreover have "server_dialogs ?t" using s by (intro dispatch_dialogs) (simp add: server_inv_def)
  moreover have "unchosen (vs_list ?t)"
    using s by (intro dispatch_unchosen selection_unchosen [of cmp]) (simp add: server_inv_def)
  ultimately show ?thesis
    by (simp add: server_inv_def server_step_def Let_def effect_server_selection server_dialogs_def)
qed

interpretation server_page: invariant_machine "server_step cmp" "server_inv cmp" "init_server_sys g" for cmp g
proof
  show "server_inv cmp (init_server_sys g)"
    by (simp add: server_inv_def core_def marks_ok_def server_dialogs_def closed_server_dialog server_selection_def
        init_server_sys_def init_server_list_def init_server_store_def sl_servers_def open_create_server_def
        open_update_server_def)
qed (rule server_inv_step)

end
