(* ===== verification/ServerSettle.thy ===== *)
theory ServerSettle
  imports ServerMarks
begin

text \<open>
  What becomes of the page of the gateway's servers when its calls are carried out and answered one
  after the other: the calls run out, and the list is then the gateway's.
\<close>

definition drain_rounds :: "nat \<Rightarrow> server_event list" where
  "drain_rounds n = concat (replicate n [SeServe 0 True True, SeAnswer 0])"

definition settled_round :: "(string \<Rightarrow> string \<Rightarrow> int) \<Rightarrow> server_sys \<Rightarrow> server_sys" where
  "settled_round cmp s = server_step cmp (server_step cmp s (SeServe 0 True True)) (SeAnswer 0)"

lemma drain_Suc: "run_events (server_step cmp) s (drain_rounds (Suc n)) =
    run_events (server_step cmp) (settled_round cmp s) (drain_rounds n)"
  by (simp add: drain_rounds_def settled_round_def)

lemma drain_0 [simp]: "run_events (server_step cmp) s (drain_rounds 0) = s"
  by (simp add: drain_rounds_def)

lemma round_inv: "server_inv cmp s \<Longrightarrow> server_inv cmp (settled_round cmp s)"
  unfolding settled_round_def by (intro server_inv_step)

lemma effect_servers [simp]: "sl_servers (sl_batch_effect cmp st) = sl_servers st"
  by (simp add: sl_batch_effect_def sl_servers_def)

lemma store_servers [simp]:
  "sl_servers (st\<lparr>sl_store := sl_store l\<rparr>) = sl_servers l" "sl_servers (init_server_list (sl_store l)) = sl_servers l"
  by (simp_all add: sl_servers_def init_server_list_def)

subsection \<open>One round\<close>

text \<open>The gateway after the first call is carried out, if it was not yet, and its answer.\<close>

definition carried :: "gateway_call \<Rightarrow> gateway \<Rightarrow> gateway" where
  "carried c g = (if ca_answer c = None then gw_apply (ca_request c) g else g)"

definition its_answer :: "gateway_call \<Rightarrow> gateway \<Rightarrow> Server list settled" where
  "its_answer c g = (case ca_answer c of None \<Rightarrow> answer_of True (ca_request c) (carried c g) | Some a \<Rightarrow> a)"

lemma served_first:
  assumes "vs_calls s = c # cs"
  shows "vs_calls (server_step cmp s (SeServe 0 True True)) = c\<lparr>ca_answer := Some (its_answer c (vs_gateway s))\<rparr> # cs"
    "vs_gateway (server_step cmp s (SeServe 0 True True)) = carried c (vs_gateway s)"
    "vs_list (server_step cmp s (SeServe 0 True True)) = sl_batch_effect cmp (vs_list s)"
    "vs_mounted (server_step cmp s (SeServe 0 True True)) = vs_mounted s"
  using assms
  by (auto simp: server_step_def server_dispatch_def serve_def put_gateway_def Let_def its_answer_def carried_def)

lemma answered_first:
  assumes "vs_calls s = c # cs" and "ca_answer c = Some a"
  shows "vs_calls (server_step cmp s (SeAnswer 0)) = cs @ snd (continued (ca_old c) (ca_purpose c) a
      (if ca_old c then init_server_list (sl_store (vs_list s)) else vs_list s))"
    "vs_gateway (server_step cmp s (SeAnswer 0)) = vs_gateway s" "vs_mounted (server_step cmp s (SeAnswer 0)) = vs_mounted s"
    "vs_list (server_step cmp s (SeAnswer 0)) = sl_batch_effect cmp (let l = fst (continued (ca_old c) (ca_purpose c) a
      (if ca_old c then init_server_list (sl_store (vs_list s)) else vs_list s))
      in if ca_old c then (vs_list s)\<lparr>sl_store := sl_store l\<rparr> else l)"
  using assms
  by (simp_all add: server_step_def server_dispatch_def answer_call_alt Let_def remove_nth_def)

lemma round_facts:
  assumes c: "vs_calls s = c # cs"
    and st: "st = (if ca_old c then init_server_list (sl_store (sl_batch_effect cmp (vs_list s))) else sl_batch_effect cmp (vs_list s))"
  shows "vs_calls (settled_round cmp s) = cs @ snd (continued (ca_old c) (ca_purpose c) (its_answer c (vs_gateway s)) st)"
    and "vs_gateway (settled_round cmp s) = carried c (vs_gateway s)"
    and "vs_mounted (settled_round cmp s) = vs_mounted s"
    and "sl_servers (vs_list (settled_round cmp s)) =
      sl_servers (fst (continued (ca_old c) (ca_purpose c) (its_answer c (vs_gateway s)) st))"
    and "\<not> ca_old c \<Longrightarrow> vs_list (settled_round cmp s) =
      sl_batch_effect cmp (fst (continued False (ca_purpose c) (its_answer c (vs_gateway s)) st))"
    and "sl_servers st = sl_servers (vs_list s)"
  using served_first [OF c, of cmp] answered_first [OF served_first(1) [OF c, of cmp], of _ cmp]
  by (simp_all add: settled_round_def st Let_def)

lemma round_none: "vs_calls s = [] \<Longrightarrow> vs_calls (settled_round cmp s) = []"
  by (simp add: settled_round_def server_step_def server_dispatch_def serve_def answer_call_def)

subsection \<open>The calls run out\<close>

fun weight :: "purpose \<Rightarrow> nat" where
  "weight PLoad = 1"
| "weight (PRow c) = 2"
| "weight (PBatch a ids n) = Suc (length ids)"
| "weight (PDelete t ids n) = Suc (length ids)"

definition calls_weight :: "gateway_call list \<Rightarrow> nat" where
  "calls_weight cs = sum_list (map (\<lambda>c. weight (ca_purpose c)) cs)"

lemma no_effect_calls [simp]: "effect_calls old p [] = []"
  by (simp add: effect_calls_def List.map_filter_simps)

lemma continued_weight:
  assumes "purpose_ok p r"
  shows "calls_weight (snd (continued old p a st)) < weight p"
proof (cases "(p, a, st)" rule: finish.cases)
  case (2 c a' st')
  then show ?thesis using row_done_cases [of c a st old PLoad]
    by (auto simp: continued_def calls_weight_def load_effect_calls)
next
  case (3 act ids n a' st')
  then show ?thesis using assms
    by (cases ids; cases "tl ids") (auto simp: continued_def calls_weight_def batch_done_calls)
next
  case (4 ts ids n a' st')
  then show ?thesis using assms
    by (cases ids; cases "tl ids") (auto simp: continued_def calls_weight_def delete_done_calls)
qed (simp add: continued_def finish_load_state calls_weight_def case_prod_beta del: finish.simps)

lemma weight_round:
  assumes "core s" and "vs_calls s = c # cs"
  shows "calls_weight (vs_calls (settled_round cmp s)) < calls_weight (vs_calls s)"
proof -
  have "purpose_ok (ca_purpose c) (ca_request c)" using assms by (simp add: core_def call_ok_def)
  then show ?thesis
    using continued_weight assms(2) round_facts(1) [OF assms(2) refl, of cmp] by (simp add: calls_weight_def)
qed

lemma calls_run_out:
  "server_inv cmp s \<Longrightarrow> calls_weight (vs_calls s) \<le> n \<Longrightarrow>
   vs_calls (run_events (server_step cmp) s (drain_rounds n)) = []"
proof (induction n arbitrary: s)
  case 0
  then have "vs_calls s = []" by (cases "vs_calls s"; cases "ca_purpose (hd (vs_calls s))") (auto simp: calls_weight_def)
  then show ?case by simp
next
  case (Suc n)
  have "calls_weight (vs_calls (settled_round cmp s)) \<le> n"
  proof (cases "vs_calls s")
    case Nil
    then show ?thesis using round_none [of s cmp] by (simp add: calls_weight_def)
  next
    case (Cons c cs)
    then show ?thesis using weight_round [of s c cs cmp] Suc.prems by (simp add: server_inv_def)
  qed
  then show ?case unfolding drain_Suc by (intro Suc.IH round_inv Suc.prems)
qed

subsection \<open>The list is the gateway's\<close>

definition stale_answer :: "gateway_call \<Rightarrow> bool" where
  "stale_answer c \<longleftrightarrow> ca_purpose c = PLoad \<and> ca_answer c \<noteq> None"

text \<open>A call after which the list is loaded.\<close>

definition reloads :: "gateway_call \<Rightarrow> bool" where
  "reloads c \<longleftrightarrow> is_batch (ca_purpose c) \<or> is_delete (ca_purpose c) \<or>
     ca_answer c = None \<and> ca_purpose c \<in> {PLoad, PRow RowOnline, PRow RowEnable}"

definition list_fresh :: "server_sys \<Rightarrow> bool" where
  "list_fresh s \<longleftrightarrow> sl_servers (vs_list s) = gw_list (vs_gateway s)"

definition converging :: "server_sys \<Rightarrow> bool" where
  "converging s \<longleftrightarrow> (list_fresh s \<and> (\<forall>c\<in>set (vs_calls s). \<not> stale_answer c)) \<or>
     (\<exists>xs c ys. vs_calls s = xs @ c # ys \<and> reloads c \<and> (\<forall>d\<in>set ys. \<not> stale_answer d))"

lemma new_not_stale: "d \<in> set (snd (continued old p a st)) \<Longrightarrow> \<not> stale_answer d"
  by (auto simp: stale_answer_def dest: continued_requests)

lemma converging_new:
  assumes "vs_calls s = cs @ ns" and "n \<in> set ns" and "reloads n" and "\<forall>d\<in>set ns. \<not> stale_answer d"
  shows "converging s"
proof -
  obtain us vs where "ns = us @ n # vs" using assms(2) by (auto dest: split_list)
  then have "vs_calls s = (cs @ us) @ n # vs \<and> reloads n \<and> (\<forall>d\<in>set vs. \<not> stale_answer d)"
    using assms by simp
  then show ?thesis unfolding converging_def by blast
qed

text \<open>The first call is answered: the list is then the gateway's, or a load is on its way, or nothing changed.\<close>

lemma first_answered:
  assumes ok: "call_ok past c" and stale: "\<not> stale_answer c"
    and x: "continued (ca_old c) (ca_purpose c) (its_answer c g) st = (l, ns)"
  shows "(\<exists>n\<in>set ns. reloads n) \<or> sl_servers l = gw_list (carried c g) \<or>
     (sl_servers l = sl_servers st \<and> carried c g = g \<and> \<not> reloads c)"
proof (cases "ca_purpose c")
  case PLoad
  then have none: "ca_answer c = None" and req: "ca_request c = GwList"
    using ok stale by (auto simp: stale_answer_def call_ok_def)
  then have "its_answer c g = Resolved (ok_response (Some (gw_list (carried c g))))"
    by (simp add: its_answer_def answer_of_def)
  then have "sl_servers l = gw_list (carried c g)"
    using x PLoad by (auto simp: continued_def loadServers_done_def ok_response_def sl_servers_def setServers_def)
  then show ?thesis by simp
next
  case (PRow b)
  show ?thesis
  proof (cases "row_done b (its_answer c g) st = loadServers st")
    case True
    then have "ns = [new_call (ca_old c) PLoad GwList]"
      using x PRow by (simp add: continued_def load_effect_calls)
    then show ?thesis by (simp add: reloads_def)
  next
    case False
    then have l: "l = st" using x PRow row_done_cases [of b "its_answer c g" st] by (auto simp: continued_def)
    obtain i where i: "(b, ca_request c) \<in> {(RowOnline, GwOnline i), (RowEnable, GwEnable i), (RowReload, GwReload i)}"
      using ok PRow by (auto simp: call_ok_def)
    have "ca_answer c \<noteq> None \<or> b = RowReload"
      using False i by (auto simp: its_answer_def answer_of_def row_done_def split: option.splits)
    then have "carried c g = g \<and> \<not> reloads c" using i PRow by (auto simp: carried_def reloads_def gw_apply_def)
    then show ?thesis using l by simp
  qed
next
  case (PBatch act ids n)
  then have "ns \<noteq> [] \<and> (\<forall>m\<in>set ns. reloads m)"
    using x by (auto simp: continued_def batch_done_calls reloads_def
        split: list.splits prod.splits)
  then show ?thesis by (metis list.set_sel(1))
next
  case (PDelete ts ids n)
  then have "ns \<noteq> [] \<and> (\<forall>m\<in>set ns. reloads m)"
    using x by (auto simp: continued_def delete_done_calls reloads_def
        split: list.splits prod.splits)
  then show ?thesis by (metis list.set_sel(1))
qed

lemma converging_round:
  assumes s: "core s" "converging s" and c: "vs_calls s = c # cs"
  shows "converging (settled_round cmp s)"
proof -
  define st where "st = (if ca_old c then init_server_list (sl_store (sl_batch_effect cmp (vs_list s)))
    else sl_batch_effect cmp (vs_list s))"
  note f = round_facts [OF c st_def]
  obtain l ns where x: "continued (ca_old c) (ca_purpose c) (its_answer c (vs_gateway s)) st = (l, ns)" by fastforce
  have new: "\<forall>d\<in>set ns. \<not> stale_answer d" using new_not_stale x by (metis snd_conv)
  have calls: "vs_calls (settled_round cmp s) = cs @ ns" using f(1) x by simp
  show ?thesis
  proof (cases "\<exists>xs d ys. cs = xs @ d # ys \<and> reloads d \<and> (\<forall>e\<in>set ys. \<not> stale_answer e)")
    case True
    then obtain xs d ys where "cs = xs @ d # ys" "reloads d" "\<forall>e\<in>set ys. \<not> stale_answer e" by blast
    then have "vs_calls (settled_round cmp s) = xs @ d # (ys @ ns) \<and> reloads d \<and> (\<forall>e\<in>set (ys @ ns). \<not> stale_answer e)"
      using calls new by auto
    then show ?thesis unfolding converging_def by blast
  next
    case False
    have here: "(list_fresh s \<and> \<not> stale_answer c \<or> reloads c) \<and> (\<forall>d\<in>set cs. \<not> stale_answer d)"
      using s(2) False unfolding converging_def c by (auto simp: Cons_eq_append_conv)
    then have stale: "\<not> stale_answer c" by (auto simp: stale_answer_def reloads_def)
    have ok: "call_ok (vs_past s) c" using s(1) c by (simp add: core_def)
    from first_answered [OF ok stale x] show ?thesis
    proof (elim disjE)
      assume "\<exists>n\<in>set ns. reloads n"
      then show ?thesis using converging_new [OF calls] new by blast
    next
      assume "sl_servers l = gw_list (carried c (vs_gateway s))"
      then have "list_fresh (settled_round cmp s)" using f(2,4) x by (simp add: list_fresh_def)
      then show ?thesis using here new calls unfolding converging_def by auto
    next
      assume "sl_servers l = sl_servers st \<and> carried c (vs_gateway s) = vs_gateway s \<and> \<not> reloads c"
      then have "list_fresh (settled_round cmp s)" using here f(2,4,6) x by (simp add: list_fresh_def)
      then show ?thesis using here new calls unfolding converging_def by auto
    qed
  qed
qed

lemma converging_drain:
  "server_inv cmp s \<Longrightarrow> converging s \<Longrightarrow> converging (run_events (server_step cmp) s (drain_rounds n))"
proof (induction n arbitrary: s)
  case (Suc n)
  have "converging (settled_round cmp s)"
  proof (cases "vs_calls s")
    case Nil
    then have "list_fresh s" using Suc.prems(2) by (simp add: converging_def)
    then have "list_fresh (settled_round cmp s)"
      using Nil by (simp add: list_fresh_def settled_round_def server_step_def server_dispatch_def serve_def answer_call_def)
    then show ?thesis using round_none [OF Nil, of cmp] by (simp add: converging_def)
  next
    case (Cons c cs)
    then show ?thesis using converging_round [OF _ Suc.prems(2) Cons] Suc.prems(1) by (simp add: server_inv_def)
  qed
  then show ?case unfolding drain_Suc by (intro Suc.IH round_inv Suc.prems)
qed simp

text \<open>Nothing is marked when nothing is out.\<close>

lemma quiet_marks: "server_inv cmp s \<Longrightarrow> vs_calls s = [] \<Longrightarrow>
    \<not> sl_isLoading (vs_list s) \<and> \<not> sl_acting (vs_list s) \<and> \<not> sl_deleting (vs_list s)"
  by (auto simp: server_inv_def core_def marks_ok_def of_bool_def split: if_splits)

lemma drain_settles:
  assumes s: "server_inv cmp s" "converging s" and n: "calls_weight (vs_calls s) \<le> n"
    and t: "t = run_events (server_step cmp) s (drain_rounds n)"
  shows "vs_calls t = [] \<and> list_fresh t \<and> \<not> sl_isLoading (vs_list t) \<and> \<not> sl_acting (vs_list t) \<and> \<not> sl_deleting (vs_list t)"
proof -
  have none: "vs_calls t = []" unfolding t by (rule calls_run_out [OF s(1) n])
  have "converging t" unfolding t by (rule converging_drain [OF s])
  then have "list_fresh t" using none by (simp add: converging_def)
  moreover have "server_inv cmp t" unfolding t by (rule server_page.inv_run [OF s(1)])
  ultimately show ?thesis using none quiet_marks by blast
qed

lemma refresh_converging:
  assumes "vs_mounted s"
  shows "converging (server_step cmp s SeRefresh)"
    "calls_weight (vs_calls (server_step cmp s SeRefresh)) = Suc (calls_weight (vs_calls s))"
proof -
  have calls: "vs_calls (server_step cmp s SeRefresh) = vs_calls s @ [new_call False PLoad GwList]"
    using assms by (simp add: server_step_def server_dispatch_def set_reload_flag_def load_servers_def put_result_def
        load_effect_calls Let_def)
  then show "calls_weight (vs_calls (server_step cmp s SeRefresh)) = Suc (calls_weight (vs_calls s))"
    by (simp add: calls_weight_def)
  show "converging (server_step cmp s SeRefresh)"
    by (rule converging_new [OF calls, where n = "new_call False PLoad GwList"])
      (simp_all add: reloads_def stale_answer_def)
qed

end
