(* ===== verification/ServerBatch.thy ===== *)
theory ServerBatch
  imports ServerSettle
begin

text \<open>
  What a batch action of the page of the gateway's servers does to the gateway: its requests go out
  one after the other, each is a toggle, and the servers that were selected end up as wanted.
\<close>

subsection \<open>The loop\<close>

definition running_batch :: "server_action \<Rightarrow> string list \<Rightarrow> server_sys \<Rightarrow> bool" where
  "running_batch a ids s \<longleftrightarrow> vs_mounted s \<and> ids \<noteq> [] \<and>
     (\<exists>n. vs_calls s = [new_call False (PBatch a ids n) (action_request a (hd ids))])"

definition gw_actions :: "server_action \<Rightarrow> string list \<Rightarrow> gateway \<Rightarrow> gateway" where
  "gw_actions a ids g = fold (\<lambda>i. gw_apply (action_request a i)) ids g"

lemma batch_more:
  assumes "running_batch a (i # j # ids) s"
  shows "running_batch a (j # ids) (settled_round cmp s)"
    and "vs_gateway (settled_round cmp s) = gw_apply (action_request a i) (vs_gateway s)"
proof -
  obtain n where c: "vs_calls s = [new_call False (PBatch a (i # j # ids) n) (action_request a i)]"
    using assms by (auto simp: running_batch_def)
  note f = round_facts [OF c refl, of cmp]
  show "running_batch a (j # ids) (settled_round cmp s)"
    using f(1,3) assms by (auto simp: running_batch_def continued_def simp del: split_paired_Ex)
  show "vs_gateway (settled_round cmp s) = gw_apply (action_request a i) (vs_gateway s)"
    using f(2) by (simp add: carried_def)
qed

lemma batch_last:
  assumes "running_batch a [i] s"
  shows "vs_calls (settled_round cmp s) = [new_call False PLoad GwList]"
    and "vs_gateway (settled_round cmp s) = gw_apply (action_request a i) (vs_gateway s)"
    and "sl_selected (vs_list (settled_round cmp s)) = []"
proof -
  obtain n where c: "vs_calls s = [new_call False (PBatch a [i] n) (action_request a i)]"
    using assms by (auto simp: running_batch_def)
  note f = round_facts [OF c refl, of cmp]
  show "vs_calls (settled_round cmp s) = [new_call False PLoad GwList]"
    using f(1) by (simp add: continued_def batch_done_calls)
  show "vs_gateway (settled_round cmp s) = gw_apply (action_request a i) (vs_gateway s)"
    using f(2) by (simp add: carried_def)
  show "sl_selected (vs_list (settled_round cmp s)) = []"
    using f(5) by (simp add: continued_def batch_done_state sl_batch_effect_def)
qed

lemma load_last:
  assumes c: "vs_calls s = [new_call False PLoad GwList]" and sel: "sl_selected (vs_list s) = []"
  shows "vs_gateway (settled_round cmp s) = vs_gateway s" "sl_selected (vs_list (settled_round cmp s)) = []"
proof -
  note f = round_facts [OF c refl, of cmp]
  show "vs_gateway (settled_round cmp s) = vs_gateway s"
    using f(2) by (simp add: carried_def gw_apply_def)
  have "sl_selected (fst (continued False PLoad a st)) = sl_selected st" for a st
    by (auto simp: continued_def loadServers_done_def split: settled.split option.split)
  then show "sl_selected (vs_list (settled_round cmp s)) = []"
    using f(5) sel by (simp add: sl_batch_effect_def)
qed

lemma batch_drains:
  "running_batch a ids s \<Longrightarrow>
   vs_gateway (run_events (server_step cmp) s (drain_rounds (Suc (length ids)))) = gw_actions a ids (vs_gateway s) \<and>
   sl_selected (vs_list (run_events (server_step cmp) s (drain_rounds (Suc (length ids))))) = []"
proof (induction ids arbitrary: s)
  case (Cons i ids)
  show ?case
  proof (cases ids)
    case Nil
    then have r: "running_batch a [i] s" using Cons.prems by simp
    show ?thesis
      using batch_last [OF r, of cmp] load_last [OF batch_last(1,3) [OF r, of cmp], of cmp] Nil
      by (simp add: drain_Suc gw_actions_def)
  next
    case (Cons j js)
    then have r: "running_batch a (i # j # js) s" using Cons.prems by simp
    show ?thesis
      using Cons.IH [of "settled_round cmp s"] batch_more [OF r, of cmp] Cons
      by (simp add: drain_Suc [of cmp s] gw_actions_def)
  qed
qed (simp add: running_batch_def)

lemma press_runs:
  assumes mounted: "vs_mounted s" and idle: "vs_calls s = []" "\<not> sl_acting (vs_list s)"
    and batch: "sl_batch (vs_list s)"
    and ids: "ids = List.map_filter server_id (server_targets a (vs_list s))" "ids \<noteq> []"
  shows "running_batch a ids (server_step cmp s (SeBatch a))"
    and "vs_gateway (server_step cmp s (SeBatch a)) = vs_gateway s"
proof -
  have "server_targets a (vs_list s) \<noteq> []" using ids by (auto simp: List.map_filter_simps)
  then have sel: "sl_selected (vs_list s) \<noteq> []"
    using set_server_targets [of a "vs_list s"] by (intro notI) (simp add: selectedServers_def server_selected_iff)
  show "running_batch a ids (server_step cmp s (SeBatch a))" "vs_gateway (server_step cmp s (SeBatch a)) = vs_gateway s"
    using assms sel
    by (simp_all add: server_step_def server_dispatch_def press_batch_def sl_runBatchAction_def put_result_def Let_def
        running_batch_def del: split_paired_Ex, blast)
qed

subsection \<open>What the requests do\<close>

definition has_id :: "string list \<Rightarrow> Server \<Rightarrow> bool" where
  "has_id ids v \<longleftrightarrow> (case sv_id v of None \<Rightarrow> False | Some i \<Rightarrow> i \<in> set ids)"

lemma has_id_simps [simp]:
  "has_id ids (v\<lparr>sv_onLine := b\<rparr>) = has_id ids v" "has_id ids (v\<lparr>sv_enable := b\<rparr>) = has_id ids v"
  by (simp_all add: has_id_def)

lemma enable_fold:
  assumes "gateway_inv g" and "distinct ids"
  shows "gateway_inv (fold switch_enable ids g) \<and> gw_running (fold switch_enable ids g) = gw_running g \<and>
     gw_config (fold switch_enable ids g) = map (\<lambda>v. if has_id ids v then v\<lparr>sv_enable := \<not> sv_enable v\<rparr> else v) (gw_config g)"
  using assms
proof (induction ids arbitrary: g)
  case Nil
  have "has_id [] v = False" for v by (simp add: has_id_def split: option.split)
  with Nil show ?case by simp
next
  case (Cons i ids)
  have g: "gateway_inv (switch_enable i g)" using gateway_inv_apply [OF Cons.prems(1), of "GwEnable i"] by (simp add: gw_apply_def)
  have "(\<lambda>v. if has_id ids v then v\<lparr>sv_enable := \<not> sv_enable v\<rparr> else v) \<circ>
      (\<lambda>v. if sv_id v = Some i then v\<lparr>sv_enable := \<not> sv_enable v\<rparr> else v) =
      (\<lambda>v. if has_id (i # ids) v then v\<lparr>sv_enable := \<not> sv_enable v\<rparr> else v)"
    using Cons.prems(2) by (auto simp: has_id_def fun_eq_iff split: option.splits)
  then show ?case
    using Cons.IH [OF g] Cons.prems by (simp add: switch_enable_config)
qed

lemma online_fold:
  assumes "distinct ids"
  shows "gw_config (fold switch_online ids g) = gw_config g \<and>
     set (gw_running (fold switch_online ids g)) = {i. if i \<in> set ids
       then i \<notin> set (gw_running g) \<and> (\<exists>v. GetServer i g = Some v \<and> sv_enable v) else i \<in> set (gw_running g)}"
  using assms
proof (induction ids arbitrary: g)
  case (Cons i ids)
  have get: "GetServer j (switch_online i g) = GetServer j g" for j by (simp add: GetServer_def)
  have "set (gw_running (switch_online i g)) = {j. if j = i
      then i \<notin> set (gw_running g) \<and> (\<exists>v. GetServer i g = Some v \<and> sv_enable v) else j \<in> set (gw_running g)}"
    by (auto simp: switch_online_def split: option.split)
  with Cons.IH [of "switch_online i g"] Cons.prems show ?case by (auto simp: get)
qed simp

text \<open>A batch action on a list that is the gateway's.\<close>

fun batch_outcome :: "server_action \<Rightarrow> Server \<Rightarrow> Server" where
  "batch_outcome ActEnable v = v\<lparr>sv_enable := True\<rparr>"
| "batch_outcome ActDisable v = v\<lparr>sv_enable := False\<rparr>"
| "batch_outcome ActStart v = v\<lparr>sv_onLine := sv_onLine v \<or> sv_enable v\<rparr>"
| "batch_outcome ActStop v = v\<lparr>sv_onLine := False\<rparr>"
| "batch_outcome ActReload v = v"

lemma listed_ids:
  assumes "gateway_inv g"
  shows "List.map_filter server_id (gw_list g) = map (\<lambda>v. the (sv_id v)) (gw_config g)"
    and "v \<in> set (gw_list g) \<Longrightarrow> server_id v = sv_id v"
    and "distinct (List.map_filter server_id (gw_list g))"
proof -
  have id: "\<exists>i. sv_id v = Some i \<and> i \<noteq> []" if "v \<in> set (gw_config g)" for v
  proof -
    have "sv_id v \<in> set (map sv_id (gw_config g))" using that by simp
    then show ?thesis using assms unfolding gateway_inv_def by (metis option.exhaust)
  qed
  have "List.map_filter server_id (map (with_online run) vs) = map (\<lambda>v. the (sv_id v)) vs"
    if "\<forall>v\<in>set vs. \<exists>i. sv_id v = Some i \<and> i \<noteq> []" for run vs
    using that by (induction vs) (auto simp: List.map_filter_simps server_id_def)
  then show m: "List.map_filter server_id (gw_list g) = map (\<lambda>v. the (sv_id v)) (gw_config g)"
    using id by (simp add: gw_list_def)
  show "v \<in> set (gw_list g) \<Longrightarrow> server_id v = sv_id v"
    using id by (fastforce simp: gw_list_def server_id_def)
  have "distinct (map sv_id (gw_config g))" using assms by (simp add: gateway_inv_def)
  moreover have "inj_on the (set (map sv_id (gw_config g)))" using id by (auto intro!: inj_onI) (metis id option.sel)
  ultimately have "distinct (map the (map sv_id (gw_config g)))" by (simp only: distinct_map)
  then show "distinct (List.map_filter server_id (gw_list g))" by (simp add: m o_def)
qed

lemma target_has_id:
  assumes g: "gateway_inv g" and l: "sl_servers st = gw_list g" and v: "v \<in> set (gw_list g)"
  shows "has_id (List.map_filter server_id (server_targets a st)) v \<longleftrightarrow> v \<in> set (server_targets a st)"
proof
  assume "has_id (List.map_filter server_id (server_targets a st)) v"
  then obtain i w where i: "sv_id v = Some i" "w \<in> set (server_targets a st)" "server_id w = Some i"
    by (auto simp: has_id_def map_filter_Some_mem split: option.splits)
  have "w \<in> set (sl_servers st)" using i(2) set_server_targets by (auto simp: selectedServers_def)
  moreover have "server_id v = Some i" using listed_ids(2) [OF g v] i(1) by simp
  ultimately have "v = w" using map_filter_unique [OF listed_ids(3) [OF g] v _ _ i(3)] l by simp
  then show "v \<in> set (server_targets a st)" using i(2) by simp
next
  assume t: "v \<in> set (server_targets a st)"
  then have "server_selected st v" using set_server_targets by (auto simp: selectedServers_def)
  then obtain i where i: "server_id v = Some i" by (auto simp: server_selected_def split: option.splits)
  then have "sv_id v = Some i" using listed_ids(2) [OF g v] by simp
  then show "has_id (List.map_filter server_id (server_targets a st)) v"
    using i t by (auto simp: has_id_def map_filter_Some_mem)
qed

lemma distinct_targets:
  assumes "gateway_inv g" and "sl_servers st = gw_list g"
  shows "distinct (List.map_filter server_id (server_targets a st))"
proof -
  have "distinct (List.map_filter server_id (filter P (selectedServers st)))" for P
    by (rule srvs.distinct_chosen_ids) (use listed_ids(3) [OF assms(1)] assms(2) in simp)
  from this this [of "\<lambda>v. True"] show ?thesis by (cases a) (simp_all add: server_targets_def)
qed

text \<open>Each action, server by server.\<close>

lemma gw_apply_switch: "gw_apply (GwEnable i) = switch_enable i" "gw_apply (GwOnline i) = switch_online i"
  by (intro ext, simp add: gw_apply_def)+

lemma action_folds:
  "gw_actions ActEnable ids g = fold switch_enable ids g" "gw_actions ActDisable ids g = fold switch_enable ids g"
  "gw_actions ActStart ids g = fold switch_online ids g" "gw_actions ActStop ids g = fold switch_online ids g"
  "gw_actions ActReload ids g = g"
proof -
  show "gw_actions ActReload ids g = g"
    by (induction ids) (simp_all add: gw_actions_def action_request_def server_call_def gw_apply_def)
qed (simp_all add: gw_actions_def action_request_def server_call_def gw_apply_switch)

lemma target_cond:
  assumes g: "gateway_inv g" and l: "sl_servers st = gw_list g" and v: "v \<in> set (gw_list g)"
  shows "v \<in> set (server_targets a st) \<longleftrightarrow> has_id (sl_selected st) v \<and> (case a of ActEnable \<Rightarrow> \<not> sv_enable v
    | ActDisable \<Rightarrow> sv_enable v | ActStart \<Rightarrow> \<not> sv_onLine v | ActStop \<Rightarrow> sv_onLine v | ActReload \<Rightarrow> True)"
proof -
  have "v \<in> set (selectedServers st) \<longleftrightarrow> has_id (sl_selected st) v"
    using v l listed_ids(2) [OF g v] by (simp add: selectedServers_def server_selected_def has_id_def)
  then show ?thesis by (cases a) (auto simp: server_targets_def)
qed

lemma get_listed:
  assumes g: "gateway_inv g" and v: "v \<in> set (gw_config g)" and i: "sv_id v = Some i"
  shows "GetServer i g = Some v"
proof -
  have "GetServer i g \<noteq> None" using v i by (auto simp: GetServer_def find_None_iff)
  then obtain w where w: "GetServer i g = Some w" by blast
  then have "w \<in> set (gw_config g)" "sv_id w = Some i" by (auto dest: GetServer_SomeD)
  then have "w = v" using g v i unfolding gateway_inv_def by (metis distinct_map inj_onD)
  with w show ?thesis by simp
qed

lemma batch_effect_gateway:
  assumes g: "gateway_inv g" and l: "sl_servers st = gw_list g"
    and ids: "ids = List.map_filter server_id (server_targets a st)"
  shows "gw_list (gw_actions a ids g) =
      map (\<lambda>v. if has_id (sl_selected st) v then batch_outcome a v else v) (gw_list g)"
proof -
  have dist: "distinct ids" unfolding ids by (rule distinct_targets [OF g l])
  have sel: "has_id (sl_selected st) (with_online (gw_running g) v) = has_id (sl_selected st) v" for v
    by (simp add: has_id_def)
  have wo: "with_online r v = v\<lparr>sv_onLine := has_id r v\<rparr>" for r v by (simp add: with_online_def has_id_def)
  have t: "has_id ids v \<longleftrightarrow> has_id (sl_selected st) v \<and> (case a of ActEnable \<Rightarrow> \<not> sv_enable v
      | ActDisable \<Rightarrow> sv_enable v | ActStart \<Rightarrow> \<not> has_id (gw_running g) v | ActStop \<Rightarrow> has_id (gw_running g) v
      | ActReload \<Rightarrow> True)" if "v \<in> set (gw_config g)" for v
  proof -
    let ?w = "with_online (gw_running g) v"
    have w: "?w \<in> set (gw_list g)" using that by (simp add: gw_list_def)
    have "has_id ids v = has_id ids ?w" by (simp add: has_id_def)
    also have "\<dots> = (?w \<in> set (server_targets a st))" unfolding ids by (rule target_has_id [OF g l w])
    finally show ?thesis unfolding target_cond [OF g l w] sel by (cases a) (simp_all add: wo)
  qed
  have flip: "gw_list (fold switch_enable ids g) =
      map (with_online (gw_running g) \<circ> (\<lambda>v. if has_id ids v then v\<lparr>sv_enable := \<not> sv_enable v\<rparr> else v)) (gw_config g)"
    using enable_fold [OF g dist] by (simp add: gw_list_def)
  have run: "has_id (gw_running (fold switch_online ids g)) v =
      (if has_id ids v then \<not> has_id (gw_running g) v \<and> sv_enable v else has_id (gw_running g) v)"
    if "v \<in> set (gw_config g)" for v
    using online_fold [OF dist, of g] get_listed [OF g that]
    by (auto simp: has_id_def split: option.splits)
  have power: "gw_list (fold switch_online ids g) = map (with_online (gw_running (fold switch_online ids g))) (gw_config g)"
    using online_fold [OF dist, of g] by (simp add: gw_list_def)
  show ?thesis
  proof (cases a)
    case ActEnable
    show ?thesis unfolding ActEnable action_folds flip unfolding gw_list_def map_map
      by (intro map_cong refl) (auto simp: t wo \<open>a = _\<close>)
  next
    case ActDisable
    show ?thesis unfolding ActDisable action_folds flip unfolding gw_list_def map_map
      by (intro map_cong refl) (auto simp: t wo \<open>a = _\<close>)
  next
    case ActStart
    show ?thesis unfolding ActStart action_folds power unfolding gw_list_def map_map
      by (intro map_cong refl) (auto simp: t wo run \<open>a = _\<close>)
  next
    case ActStop
    show ?thesis unfolding ActStop action_folds power unfolding gw_list_def map_map
      by (intro map_cong refl) (auto simp: t wo run \<open>a = _\<close>)
  next
    case ActReload
    then show ?thesis by (simp add: action_folds map_idI)
  qed
qed

end
