(* ===== verification/ServerProperties.thy ===== *)
theory ServerProperties
  imports ServerBatch
begin

text \<open>
  The properties of the page of the gateway's servers together with the gateway: what is shown is
  true in every run, the page comes to agree with the gateway, what a batch action achieves, and
  two ways in which it misleads its user.
\<close>

text \<open>
  C5. In every run of the page of the gateway's servers, with requests carried out and answered in
  any order, failing or not, with the page left and visited and the gateway changed by others: the
  list only shows its placeholders while a load of its own is out; the batch buttons and the
  deletion are locked exactly while their one request is out; the list is empty or one that the
  gateway had; a form dialog that is saving has a request of its present opening out; and the
  selection is empty outside the batch mode and part of what is shown in it.
\<close>

theorem server_page_honest:
  "server_inv cmp (run_events (server_step cmp) (init_server_sys g) es)"
  by (rule server_page.inv_reachable)

text \<open>
  C6. A batch action of the server list does what its name says. From a page that agrees with the
  gateway and has nothing out, when the requests of the action and the load after them are carried
  out and answered, the list is that of the gateway before with the selected servers enabled,
  disabled, started if they are enabled, or stopped, and the others as they were; although each
  request only flips a switch. Then nothing is out, locked or selected.
\<close>

theorem server_batch_settles:
  assumes s: "s = run_events (server_step cmp) (init_server_sys g) es"
    and mounted: "vs_mounted s" and idle: "vs_calls s = []" and batch: "sl_batch (vs_list s)"
    and g: "gateway_inv (vs_gateway s)" and fresh: "sl_servers (vs_list s) = gw_list (vs_gateway s)"
    and ids: "ids = List.map_filter server_id (server_targets a (vs_list s))" "ids \<noteq> []"
    and t: "t = run_events (server_step cmp) s (SeBatch a # drain_rounds (Suc (length ids)))"
  shows "vs_calls t = [] \<and> sl_selected (vs_list t) = [] \<and> \<not> sl_acting (vs_list t) \<and> \<not> sl_isLoading (vs_list t) \<and>
    sl_servers (vs_list t) = gw_list (vs_gateway t) \<and>
    gw_list (vs_gateway t) =
      map (\<lambda>v. if has_id (sl_selected (vs_list s)) v then batch_outcome a v else v) (gw_list (vs_gateway s))"
proof -
  have inv: "server_inv cmp s" unfolding s by (rule server_page.inv_reachable)
  let ?u = "server_step cmp s (SeBatch a)"
  have acting: "\<not> sl_acting (vs_list s)" using quiet_marks [OF inv idle] by simp
  note run = press_runs [OF mounted idle acting batch ids, of cmp]
  obtain n where c: "vs_calls ?u = [new_call False (PBatch a ids n) (action_request a (hd ids))]"
    using run(1) by (auto simp: running_batch_def)
  have "converging ?u" by (rule converging_new [of _ "[]"]) (auto simp: c reloads_def stale_answer_def)
  then have "vs_calls t = [] \<and> list_fresh t \<and> \<not> sl_isLoading (vs_list t) \<and> \<not> sl_acting (vs_list t) \<and> \<not> sl_deleting (vs_list t)"
    by (rule drain_settles [OF server_inv_step [OF inv]]) (simp_all add: c calls_weight_def t)
  moreover have "vs_gateway t = gw_actions a ids (vs_gateway s) \<and> sl_selected (vs_list t) = []"
    using batch_drains [OF run(1), of cmp] run(2) by (simp add: t)
  ultimately show ?thesis using batch_effect_gateway [OF g fresh ids(1)] by (simp add: list_fresh_def)
qed

text \<open>
  C7. The page of the gateway's servers comes to agree with the gateway, whatever is out when it is
  refreshed: once the requests that are out, those that their continuations send and the load of
  the refresh are carried out and answered in the order in which they were sent, of which there are
  no more than the weight of the calls, nothing is out or marked and the list is the gateway's.
\<close>

theorem server_page_converges:
  assumes s: "s = run_events (server_step cmp) (init_server_sys g) es" and mounted: "vs_mounted s"
    and n: "calls_weight (vs_calls s) < n" and t: "t = run_events (server_step cmp) s (SeRefresh # drain_rounds n)"
  shows "vs_calls t = [] \<and> sl_servers (vs_list t) = gw_list (vs_gateway t) \<and>
    \<not> sl_isLoading (vs_list t) \<and> \<not> sl_acting (vs_list t) \<and> \<not> sl_deleting (vs_list t)"
proof -
  have inv: "server_inv cmp (server_step cmp s SeRefresh)"
    unfolding s by (intro server_inv_step server_page.inv_reachable)
  have "vs_calls t = [] \<and> list_fresh t \<and> \<not> sl_isLoading (vs_list t) \<and> \<not> sl_acting (vs_list t) \<and> \<not> sl_deleting (vs_list t)"
    by (rule drain_settles [OF inv refresh_converging(1) [OF mounted]])
      (use n refresh_converging(2) [OF mounted, of cmp] in \<open>simp_all add: t\<close>)
  then show ?thesis by (simp add: list_fresh_def)
qed

text \<open>
  C40. The entry of a row that enables or disables it is not locked while its request is out: used twice before the first
  answer it sends two requests, each of which flips the switch at the gateway, so that both are
  answered as successes and the gateway is as it was.
\<close>

theorem server_switch_pressed_twice:
  assumes mounted: "vs_mounted s" and idle: "vs_calls s = []" and row: "server_there cmp (vs_list s) v" "\<not> sl_batch (vs_list s)"
    and i: "server_id v = Some i" and g: "gateway_inv (vs_gateway s)"
    and t: "t = run_events (server_step cmp) s [SeRow RowEnable v, SeRow RowEnable v, SeServe 0 True True, SeServe 1 True True]"
  shows "map ca_request (vs_calls t) = [GwEnable i, GwEnable i] \<and>
    (\<forall>c\<in>set (vs_calls t). ca_answer c = Some (Resolved (ok_response None))) \<and> vs_gateway t = vs_gateway s"
proof -
  have press: "server_step cmp u (SeRow RowEnable v) = u\<lparr>vs_calls := vs_calls u @ [new_call False (PRow RowEnable) (GwEnable i)]\<rparr>"
    if "vs_mounted u" "vs_list u = vs_list s" for u
    using that row i
    by (simp add: server_step_def server_dispatch_def press_row_def put_result_def effect_calls_def List.map_filter_simps
        sl_batch_effect_def)
  have twice: "switch_enable i (switch_enable i (vs_gateway s)) = vs_gateway s"
  proof (rule gateway.equality)
    have g': "gateway_inv (switch_enable i (vs_gateway s))"
      using gateway_inv_apply [OF g, of "GwEnable i"] by (simp add: gw_apply_def)
    show "gw_config (switch_enable i (switch_enable i (vs_gateway s))) = gw_config (vs_gateway s)"
      by (simp add: switch_enable_config [OF g'] switch_enable_config [OF g] o_def map_idI)
  qed simp_all
  show ?thesis
    using idle mounted
    by (simp add: t press server_step_def [of cmp _ "SeServe _ _ _"] server_dispatch_def serve_def put_gateway_def
        gw_apply_def answer_of_def twice new_call_def Let_def sl_batch_effect_def row(2))
qed

text \<open>A gateway with a disabled server and one that runs.\<close>

definition demo_server :: "string \<Rightarrow> bool \<Rightarrow> Server" where
  "demo_server i e = initialValue\<lparr>sv_id := Some i, sv_name := i, sv_enable := e\<rparr>"

definition demo_gateway :: gateway where
  "demo_gateway = \<lparr>gw_config = [demo_server ''1'' False, demo_server ''2'' True], gw_running = [''2'']\<rparr>"

definition visited :: "server_event list" where
  "visited = [SeVisit, SeServe 0 True True, SeAnswer 0]"

definition all_chosen :: "server_event list" where
  "all_chosen = visited @ [SeControl ScBatchMode, SeControl (ScAll True)]"

abbreviation demo_run :: "server_event list \<Rightarrow> server_sys" where
  "demo_run es \<equiv> run_events (server_step (\<lambda>a b. 0)) (init_server_sys demo_gateway) es"

lemma demo_gateway_inv: "gateway_inv demo_gateway"
  by (simp add: gateway_inv_def demo_gateway_def demo_server_def)

lemma visited_facts:
  "demo_run visited = (init_server_sys demo_gateway)\<lparr>vs_mounted := True, vs_past := replicate 2 (gw_list demo_gateway),
     vs_list := init_server_list (setServers (gw_list demo_gateway) init_server_store)\<rparr>"
  by (simp add: visited_def server_step_def server_dispatch_def visit_servers_def load_servers_def put_result_def
      load_state load_effect_calls init_server_sys_def serve_def put_gateway_def gw_apply_def answer_call_def
      answer_of_def ok_response_def loadServers_done_def init_server_list_def sl_batch_effect_def remove_nth_def numeral_2_eq_2)

lemma chosen_facts:
  "vs_mounted (demo_run all_chosen) \<and> vs_calls (demo_run all_chosen) = [] \<and>
   sl_batch (vs_list (demo_run all_chosen)) \<and> sl_selected (vs_list (demo_run all_chosen)) = [''2'', ''1'']"
  "vs_gateway (demo_run all_chosen) = demo_gateway" "sl_servers (vs_list (demo_run all_chosen)) = gw_list demo_gateway"
  by code_simp+

theorem server_batch_settles_witness:
  "gw_list (vs_gateway (demo_run (all_chosen @ SeBatch ActEnable # drain_rounds 2))) =
     [demo_server ''1'' True, (demo_server ''2'' True)\<lparr>sv_onLine := True\<rparr>]"
proof -
  have ids: "[''1''] = List.map_filter server_id (server_targets ActEnable (vs_list (demo_run all_chosen)))" by code_simp
  have "gw_list (vs_gateway (demo_run (all_chosen @ SeBatch ActEnable # drain_rounds 2))) =
      map (\<lambda>v. if has_id [''2'', ''1''] v then batch_outcome ActEnable v else v) (gw_list demo_gateway)"
    using server_batch_settles [OF refl, of "\<lambda>a b. 0" demo_gateway all_chosen "[''1'']" ActEnable, OF _ _ _ _ _ ids _ refl]
      chosen_facts demo_gateway_inv by (simp add: run_events_append numeral_2_eq_2)
  also have "\<dots> = [demo_server ''1'' True, (demo_server ''2'' True)\<lparr>sv_onLine := True\<rparr>]"
    by (simp add: gw_list_def demo_gateway_def with_online_def has_id_def demo_server_def initialValue_def)
  finally show ?thesis .
qed

text \<open>A load of the first visit that is answered after that of a refresh: the list is stale until the next one.\<close>

definition overtaken :: "server_event list" where
  "overtaken = [SeVisit, SeServe 0 True True, SeRefresh, SeGateway (demo_gateway\<lparr>gw_config := []\<rparr>), SeServe 1 True True,
     SeAnswer 1, SeAnswer 0]"

theorem server_page_converges_witness:
  "sl_servers (vs_list (demo_run overtaken)) = gw_list demo_gateway \<and>
   sl_servers (vs_list (demo_run (overtaken @ SeRefresh # drain_rounds 1))) = []"
proof -
  have facts: "vs_mounted (demo_run overtaken)" "vs_calls (demo_run overtaken) = []"
      "sl_servers (vs_list (demo_run overtaken)) = gw_list demo_gateway"
    by code_simp+
  have "gw_list (vs_gateway (demo_run (overtaken @ SeRefresh # drain_rounds 1))) = []" by code_simp
  then show ?thesis
    using server_page_converges [OF refl facts(1), of 1] facts by (simp add: calls_weight_def run_events_append)
qed

theorem server_switch_pressed_twice_witness:
  "let v = demo_server ''1'' False;
       t = demo_run (visited @ [SeRow RowEnable v, SeRow RowEnable v, SeServe 0 True True, SeServe 1 True True])
   in map ca_request (vs_calls t) = [GwEnable ''1'', GwEnable ''1''] \<and> vs_gateway t = demo_gateway"
proof -
  let ?v = "demo_server ''1'' False"
  have v: "?v \<in> set (gw_list demo_gateway)" by (simp add: gw_list_def demo_gateway_def with_online_def demo_server_def initialValue_def)
  have blank: "js_lower [] = []" by code_simp
  have there: "server_there (\<lambda>a b. 0) (vs_list (demo_run visited)) ?v"
    using v by (simp add: visited_facts server_there_def shows_server_def init_server_list_def sl_servers_def setServers_def blank Let_def)
  have i: "server_id ?v = Some ''1''" by (simp add: server_id_def demo_server_def)
  have facts: "vs_mounted (demo_run visited)" "vs_calls (demo_run visited) = []" "\<not> sl_batch (vs_list (demo_run visited))"
      "vs_gateway (demo_run visited) = demo_gateway"
    unfolding visited_facts by (simp_all add: init_server_list_def init_server_sys_def)
  have g: "gateway_inv (vs_gateway (demo_run visited))" unfolding facts(4) by (rule demo_gateway_inv)
  show ?thesis
    using server_switch_pressed_twice [OF facts(1,2) there facts(3) i g refl] facts(4)
    by (simp only: run_events_append Let_def)
qed

end
