(* ===== verification/DashDetail.thy ===== *)
theory DashDetail
  imports SecurityPages ApiServices "HOL-Library.Code_Target_Nat"
begin

text \<open>
  What the boards of the dashboard are built from: its types and number formats
  (\<open>web/src/pages/dashboard/types.ts\<close>), the lists, tiles and colours of \<open>shared/\<close>, the detail of a
  metric (\<open>shared/MetricDetail.tsx\<close>), the dialog of a whole ranking (\<open>shared/RankListDialog.tsx\<close>) and the
  card of requests per second (\<open>shared/QpsSparkCard.tsx\<close>). Quotients of a row's bar are exact.
\<close>

subsection \<open>Types\<close>

record StatisticsOverview =
  so_available :: "bool option"
  so_unavailableReason :: "string option"
  so_requests :: nat
  so_pageViews :: nat
  so_uniqueVisitors :: nat
  so_uniqueIps :: nat
  so_blocked :: nat
  so_blocked403 :: nat
  so_blocked429 :: nat
  so_blockedBot :: nat
  so_blockRate :: rat
  so_attackIps :: nat
  so_abnormalIpsLive :: nat
  so_error4xx :: nat
  so_error4xxRate :: rat
  so_error5xx :: nat
  so_error5xxRate :: rat
  so_avgElapsedMs :: rat
  so_droppedEntries :: nat

record TimeseriesPoint =
  tp_time :: nat
  tp_requests :: nat
  tp_pageViews :: nat
  tp_blocked :: nat
  tp_error4xx :: nat
  tp_error5xx :: nat

record RankingItem =
  rk_key :: string
  rk_count :: nat
  rk_blocked :: nat
  rk_percent :: rat

datatype RankingType = RankHost | RankPath | RankRefererHost | RankRefererUrl | RankOs | RankBrowser | RankStatus

definition ranking_text :: "RankingType \<Rightarrow> string" where
  "ranking_text t = (case t of RankHost \<Rightarrow> ''host'' | RankPath \<Rightarrow> ''path'' | RankRefererHost \<Rightarrow> ''referer_host''
     | RankRefererUrl \<Rightarrow> ''referer_url'' | RankOs \<Rightarrow> ''os'' | RankBrowser \<Rightarrow> ''browser'' | RankStatus \<Rightarrow> ''status'')"

type_synonym rankings = "RankingType \<Rightarrow> RankingItem list option"

definition ranked :: "rankings \<Rightarrow> RankingType \<Rightarrow> RankingItem list" where
  "ranked r t = (case r t of None \<Rightarrow> [] | Some xs \<Rightarrow> xs)"

subsection \<open>Formats\<close>

text \<open>
  Counts are whole numbers; below a thousand \<open>toLocaleString\<close> prints the digits. The quotients
  are rounded to a double before \<open>toFixed\<close>.
\<close>

definition formatCount :: "nat \<Rightarrow> string" where
  "formatCount v =
     (if 1000000 \<le> v then to_fixed 1 (dbl (of_nat v / 1000000)) @ ''M''
      else if 10000 \<le> v then to_fixed 1 (dbl (of_nat v / 1000)) @ ''k''
      else if 1000 \<le> v then to_fixed 2 (dbl (of_nat v / 1000)) @ ''k''
      else nat_to_string v)"

definition formatPercent2 :: "rat \<Rightarrow> string" where
  "formatPercent2 v = to_fixed 2 v @ ''%''"

definition formatMs :: "rat \<Rightarrow> string" where
  "formatMs v = nat_to_string (nat (math_round v)) @ '' ms''"

datatype clock_text = ClockTime nat | MonthDayHour nat | MonthDay nat

text \<open>Which of the three local formats the time of a point has.\<close>

definition formatSeriesTime :: "nat \<Rightarrow> StatRange \<Rightarrow> clock_text" where
  "formatSeriesTime ts rng =
     (if rng = R1h \<or> rng = R24h then ClockTime ts else if rng = R7d then MonthDayHour ts else MonthDay ts)"

subsection \<open>Lists\<close>

datatype rank_list = RankSkeleton | RankEmpty | RankRows "(string \<times> string \<times> rat) list"

definition RankList :: "bool \<Rightarrow> nat option \<Rightarrow> RankingItem list \<Rightarrow> rank_list" where
  "RankList loading maxRows items =
     (let rows = (case maxRows of None \<Rightarrow> items | Some k \<Rightarrow> if k = 0 then items else take k items);
          m = foldl max 1 (map rk_count rows) in
      if loading then RankSkeleton
      else if rows = [] then RankEmpty
      else RankRows (map (\<lambda>x. (rk_key x, formatCount (rk_count x), of_nat (rk_count x) / of_nat m)) rows))"

datatype donut_list = DonutSkeleton | DonutEmpty | DonutRows "(string \<times> nat \<times> string \<times> string option) list"

text \<open>A row with the value of its slice, the printed count and its colour; no colour when there is none.\<close>

definition DonutLegendList ::
  "bool \<Rightarrow> nat \<Rightarrow> string list \<Rightarrow> (string \<times> nat) list \<Rightarrow> donut_list" where
  "DonutLegendList loading maxRows colors items =
     (let rows = take maxRows items in
      if loading then DonutSkeleton
      else if rows = [] then DonutEmpty
      else DonutRows (map (\<lambda>(i, k, n). (k, n, formatCount n,
             if colors = [] then None else Some (colors ! (i mod length colors)))) (enumerate 0 rows)))"

definition CATEGORICAL_LIGHT :: "string list" where
  "CATEGORICAL_LIGHT = [''#2a78d6'', ''#008300'', ''#e87ba4'', ''#eda100'', ''#1baf7a'', ''#eb6834'',
     ''#4a3aa7'', ''#e34948'']"

definition CATEGORICAL_DARK :: "string list" where
  "CATEGORICAL_DARK = [''#3987e5'', ''#008300'', ''#d55181'', ''#c98500'', ''#199e70'', ''#d95926'',
     ''#9085e9'', ''#e66767'']"

definition getCategorical :: "bool \<Rightarrow> string list" where
  "getCategorical isDark = (if isDark then CATEGORICAL_DARK else CATEGORICAL_LIGHT)"

definition STATUS_COLORS :: "(string \<times> string) list" where
  "STATUS_COLORS = [(''2xx'', ''#0ca30c''), (''3xx'', ''#2a78d6''), (''4xx'', ''#fab219''), (''5xx'', ''#d03b3b''),
     (''other'', ''#898781'')]"

definition statusColorOf :: "string \<Rightarrow> string" where
  "statusColorOf statusCode =
     (case map_of STATUS_COLORS (take 1 statusCode @ ''xx'') of Some c \<Rightarrow> c | None \<Rightarrow> ''#898781'')"

subsection \<open>The detail of a metric\<close>

datatype MetricId = MRequests | MPv | MUv | MIp | MError4xx | MError4xxRate | MError5xx | MAvgMs | MBlocked
  | MBlockRate | MAttackIps | MAbnormalLive | MBlocked403 | MBlocked429

definition filterStatus :: "RankingItem list option \<Rightarrow> string \<Rightarrow> RankingItem list" where
  "filterStatus items pre = filter (\<lambda>x. starts_with (rk_key x) pre) (case items of None \<Rightarrow> [] | Some xs \<Rightarrow> xs)"

definition needBlockedLogs :: "MetricId \<Rightarrow> bool" where
  "needBlockedLogs i \<longleftrightarrow> i = MBlocked \<or> i = MBlockRate \<or> i = MBlocked403 \<or> i = MBlocked429"

definition needAbnormal :: "MetricId \<Rightarrow> bool" where
  "needAbnormal i \<longleftrightarrow> i = MAttackIps \<or> i = MAbnormalLive"

definition showTrafficChart :: "MetricId \<Rightarrow> bool" where
  "showTrafficChart i \<longleftrightarrow> i = MRequests \<or> i = MPv \<or> i = MUv \<or> i = MIp \<or> i = MAvgMs"

definition show4xxChart :: "MetricId \<Rightarrow> bool" where
  "show4xxChart i \<longleftrightarrow> i = MError4xx \<or> i = MError4xxRate"

definition show5xxChart :: "MetricId \<Rightarrow> bool" where
  "show5xxChart i \<longleftrightarrow> i = MError5xx"

definition showBlockChart :: "MetricId \<Rightarrow> bool" where
  "showBlockChart i \<longleftrightarrow> i = MBlocked \<or> i = MBlockRate \<or> i = MBlocked403 \<or> i = MBlocked429"

type_synonym metric_args = "MetricId \<times> StatRange \<times> string option"

text \<open>
  Runs of the effect are numbered; \<open>md_live\<close> is the run whose \<open>live\<close> is still true, and it is out
  until its answer arrives.
\<close>

record metric_detail =
  md_args :: metric_args
  md_logs :: "log_item list"
  md_abnormal :: "AbnormalIp list"
  md_loadingExtra :: bool
  md_live :: nat
  md_out :: "(nat \<times> MetricId) list"

datatype metric_effect = RequestBlocked StatRange "string option" | RequestAbnormal

definition detail_effect :: "metric_detail \<Rightarrow> metric_detail \<times> metric_effect list" where
  "detail_effect st =
     (let (i, rng, host) = md_args st in
      if \<not> needBlockedLogs i \<and> \<not> needAbnormal i then (st, [])
      else (st\<lparr>md_loadingExtra := True, md_out := md_out st @ [(md_live st, i)]\<rparr>,
            (if needBlockedLogs i then [RequestBlocked rng host] else []) @
            (if needAbnormal i then [RequestAbnormal] else [])))"

definition mount_detail :: "metric_args \<Rightarrow> metric_detail \<times> metric_effect list" where
  "mount_detail a =
     detail_effect \<lparr>md_args = a, md_logs = [], md_abnormal = [], md_loadingExtra = False, md_live = 0, md_out = []\<rparr>"

text \<open>Other arguments: the cleanup ends the old run, then the effect begins the next.\<close>

definition change_detail :: "metric_args \<Rightarrow> metric_detail \<Rightarrow> metric_detail \<times> metric_effect list" where
  "change_detail a st =
     (if a = md_args st then (st, []) else detail_effect (st\<lparr>md_args := a, md_live := md_live st + 1\<rparr>))"

datatype extra_answer = LogsAnswer "log_item list option" | AbnormalAnswer "AbnormalIp list option" | ExtraFailed

text \<open>The answer of run \<open>k\<close>; what is no list counts as none, and a failure leaves the old rows.\<close>

definition detail_done :: "nat \<Rightarrow> extra_answer \<Rightarrow> metric_detail \<Rightarrow> metric_detail" where
  "detail_done k a st =
     (if k \<notin> fst ` set (md_out st) then st
      else let st' = st\<lparr>md_out := filter (\<lambda>(n, i). n \<noteq> k) (md_out st)\<rparr> in
        if k \<noteq> md_live st then st'
        else (case a of
            LogsAnswer xs \<Rightarrow> st'\<lparr>md_logs := (case xs of None \<Rightarrow> [] | Some l \<Rightarrow> l)\<rparr>
          | AbnormalAnswer xs \<Rightarrow> st'\<lparr>md_abnormal := (case xs of None \<Rightarrow> [] | Some l \<Rightarrow> l)\<rparr>
          | ExtraFailed \<Rightarrow> st')\<lparr>md_loadingExtra := False\<rparr>)"

datatype extra_rows = ExtraLoading | ExtraNone | ExtraLogs "(string \<times> string \<times> nat) list"
  | ExtraIps "(string \<times> nat \<times> string option) list"

text \<open>The part of the detail that is loaded by the effect, where the metric has one.\<close>

definition detail_extra :: "metric_detail \<Rightarrow> extra_rows option" where
  "detail_extra st =
     (if showBlockChart (fst (md_args st))
      then Some (if md_loadingExtra st then ExtraLoading else if md_logs st = [] then ExtraNone
        else ExtraLogs (map (\<lambda>r. (lg_path r, lg_ip r, lg_status r)) (md_logs st)))
      else if needAbnormal (fst (md_args st))
      then Some (if md_loadingExtra st then ExtraLoading else if md_abnormal st = [] then ExtraNone
        else ExtraIps (map (\<lambda>r. (ab_ip r, ab_windowErrorCount r, text_of (ab_topError r))) (md_abnormal st)))
      else None)"

datatype metric_chart = ChartRequests | Chart4xx | Chart5xx | ChartBlocked | NumbersOfAttack

definition detail_charts :: "MetricId \<Rightarrow> metric_chart list" where
  "detail_charts i =
     (if showTrafficChart i then [ChartRequests] else []) @ (if show4xxChart i then [Chart4xx] else []) @
     (if show5xxChart i then [Chart5xx] else []) @ (if showBlockChart i then [ChartBlocked] else []) @
     (if i = MAttackIps \<or> i = MAbnormalLive then [NumbersOfAttack] else [])"

text \<open>The lists beside the chart: the paths, the 5xx statuses and the badges of the 4xx ones.\<close>

definition detail_lists :: "rankings \<Rightarrow> MetricId \<Rightarrow> rank_list list \<times> (string \<times> string) list" where
  "detail_lists r i =
     ((if showTrafficChart i \<or> show4xxChart i then [RankList False (Some 5) (ranked r RankPath)] else []) @
      (if show5xxChart i then [RankList False (Some 5) (filterStatus (r RankStatus) ''5'')] else []),
      if show4xxChart i
      then map (\<lambda>x. (rk_key x, formatCount (rk_count x))) (take 6 (filterStatus (r RankStatus) ''4'')) else [])"

datatype detail_event = DeChange metric_args | DeAnswer nat extra_answer

fun detail_step :: "metric_detail \<Rightarrow> detail_event \<Rightarrow> metric_detail" where
  "detail_step st (DeChange a) = fst (change_detail a st)"
| "detail_step st (DeAnswer k a) = detail_done k a st"

subsection \<open>The dialog of a ranking\<close>

definition PAGE_SIZE :: nat where "PAGE_SIZE = 20"

record rank_dialog =
  rd_items :: "RankingItem list"
  rd_total :: nat
  rd_page :: nat
  rd_loading :: bool

definition init_rank_dialog :: rank_dialog where
  "init_rank_dialog = \<lparr>rd_items = [], rd_total = 0, rd_page = 1, rd_loading = False\<rparr>"

definition rank_load :: "nat \<Rightarrow> rank_dialog \<Rightarrow> rank_dialog \<times> nat list" where
  "rank_load nextPage st = (st\<lparr>rd_loading := True\<rparr>, [nextPage])"

text \<open>The answer: \<open>None\<close> for a rejected request; a missing list is empty, a missing total is zero.\<close>

definition rank_load_done ::
  "nat \<Rightarrow> (RankingItem list option \<times> nat option) option \<Rightarrow> rank_dialog \<Rightarrow> rank_dialog" where
  "rank_load_done nextPage ans st =
     (case ans of
        None \<Rightarrow> st\<lparr>rd_loading := False\<rparr>
      | Some (items, n) \<Rightarrow>
          st\<lparr>rd_items := (case items of None \<Rightarrow> [] | Some xs \<Rightarrow> xs), rd_total := (case n of None \<Rightarrow> 0 | Some k \<Rightarrow> k),
             rd_page := nextPage, rd_loading := False\<rparr>)"

definition rank_pages :: "rank_dialog \<Rightarrow> nat" where
  "rank_pages st = max 1 (nat \<lceil>(of_nat (rd_total st) :: rat) / of_nat PAGE_SIZE\<rceil>)"

definition rank_prev :: "rank_dialog \<Rightarrow> rank_dialog \<times> nat list" where
  "rank_prev st = (if rd_page st \<le> 1 \<or> rd_loading st then (st, []) else rank_load (rd_page st - 1) st)"

definition rank_next :: "rank_dialog \<Rightarrow> rank_dialog \<times> nat list" where
  "rank_next st = (if rank_pages st \<le> rd_page st \<or> rd_loading st then (st, []) else rank_load (rd_page st + 1) st)"

datatype rank_rows = DialogSkeleton | DialogEmpty | DialogRows "(nat \<times> string \<times> string \<times> string) list"

definition rank_dialog_rows :: "rank_dialog \<Rightarrow> rank_rows" where
  "rank_dialog_rows st =
     (if rd_loading st then DialogSkeleton
      else if rd_items st = [] then DialogEmpty
      else DialogRows (map (\<lambda>(i, x). ((rd_page st - 1) * PAGE_SIZE + i + 1, rk_key x, formatCount (rk_count x),
             to_fixed 1 (rk_percent x) @ ''%'')) (enumerate 0 (rd_items st))))"

subsection \<open>Requests per second\<close>

record qps_card =
  qc_qps :: nat
  qc_history :: "(string \<times> nat) list"

text \<open>An answer: nothing, or the rate and the history where they are there.\<close>

definition qps_polled :: "(nat option \<times> (string \<times> nat) list option) option \<Rightarrow> qps_card \<Rightarrow> qps_card" where
  "qps_polled ans st =
     (case ans of
        None \<Rightarrow> st
      | Some (q, h) \<Rightarrow>
          st\<lparr>qc_qps := (case q of None \<Rightarrow> 0 | Some n \<Rightarrow> n),
             qc_history := (case h of None \<Rightarrow> qc_history st | Some xs \<Rightarrow> xs)\<rparr>)"

definition qps_view :: "qps_card \<Rightarrow> bool \<times> nat \<times> nat" where
  "qps_view st = (0 < qc_qps st, foldl max 0 (map snd (qc_history st)), qc_qps st)"

subsection \<open>Laws\<close>

text \<open>The spinner that is in view has a request out, whatever was pressed and whatever was late.\<close>

definition detail_inv :: "metric_detail \<Rightarrow> bool" where
  "detail_inv st \<longleftrightarrow> (\<forall>(n, i)\<in>set (md_out st). n \<le> md_live st) \<and>
     (\<forall>i. (md_live st, i) \<in> set (md_out st) \<longrightarrow> i = fst (md_args st) \<and> md_loadingExtra st) \<and>
     (md_loadingExtra st \<and> (needBlockedLogs (fst (md_args st)) \<or> needAbnormal (fst (md_args st))) \<longrightarrow>
       (md_live st, fst (md_args st)) \<in> set (md_out st))"

lemma detail_inv_effect:
  assumes "\<forall>(n, i)\<in>set (md_out st). n < md_live st"
  shows "detail_inv (fst (detail_effect st))"
proof -
  obtain i rng host where a: "md_args st = (i, rng, host)" by (cases "md_args st")
  have fresh: "(md_live st, j) \<notin> set (md_out st)" for j using assms by auto
  show ?thesis
    using assms fresh by (auto simp: detail_inv_def detail_effect_def a)
qed

lemma detail_inv_change:
  assumes "detail_inv st"
  shows "detail_inv (fst (change_detail a st))"
proof (cases "a = md_args st")
  case False
  have "\<forall>(n, i)\<in>set (md_out st). n < md_live st + 1" using assms by (auto simp: detail_inv_def)
  then show ?thesis using False detail_inv_effect [of "st\<lparr>md_args := a, md_live := md_live st + 1\<rparr>"]
    by (simp add: change_detail_def)
qed (simp add: change_detail_def assms)

lemma detail_inv_done: "detail_inv st \<Longrightarrow> detail_inv (detail_done k a st)"
  by (cases a) (auto simp: detail_inv_def detail_done_def Let_def)

interpretation details: invariant_machine detail_step detail_inv "fst (mount_detail a)" for a
proof
  show "detail_inv (fst (mount_detail a))" unfolding mount_detail_def by (rule detail_inv_effect) simp
  show "detail_inv s \<Longrightarrow> detail_inv (detail_step s e)" for s e
    by (cases e) (simp_all add: detail_inv_change detail_inv_done)
qed

lemma loading_has_request:
  assumes "detail_inv st" and "detail_extra st = Some ExtraLoading"
  shows "(md_live st, fst (md_args st)) \<in> set (md_out st)"
proof -
  have "md_loadingExtra st \<and> (needBlockedLogs (fst (md_args st)) \<or> needAbnormal (fst (md_args st)))"
    using assms(2) unfolding detail_extra_def needBlockedLogs_def showBlockChart_def by (auto split: if_splits)
  then show ?thesis using assms(1) unfolding detail_inv_def by blast
qed

lemma spinner_has_request:
  assumes "st = run_events detail_step (fst (mount_detail a)) es" and "detail_extra st = Some ExtraLoading"
  shows "(md_live st, fst (md_args st)) \<in> set (md_out st)"
  using details.inv_reachable [of a es] assms loading_has_request by blast

text \<open>Every metric has exactly one chart.\<close>

lemma one_chart: "length (detail_charts i) = 1"
  by (cases i) (simp_all add: detail_charts_def showTrafficChart_def show4xxChart_def show5xxChart_def showBlockChart_def)

text \<open>The dialog with the page it waits for.\<close>

datatype rank_event = RdPrev | RdNext | RdAnswer "(RankingItem list option \<times> nat option) option"

definition asked :: "rank_dialog \<times> nat list \<Rightarrow> nat option \<Rightarrow> rank_dialog \<times> nat option" where
  "asked r old = (fst r, if snd r = [] then old else Some (last (snd r)))"

fun rank_step :: "rank_dialog \<times> nat option \<Rightarrow> rank_event \<Rightarrow> rank_dialog \<times> nat option" where
  "rank_step (st, out) RdPrev = asked (rank_prev st) out"
| "rank_step (st, out) RdNext = asked (rank_next st) out"
| "rank_step (st, out) (RdAnswer ans) =
     (case out of None \<Rightarrow> (st, None) | Some k \<Rightarrow> (rank_load_done k ans st, None))"

definition rank_inv :: "rank_dialog \<times> nat option \<Rightarrow> bool" where
  "rank_inv s \<longleftrightarrow> 1 \<le> rd_page (fst s) \<and> (rd_loading (fst s) \<longleftrightarrow> snd s \<noteq> None) \<and>
     (\<forall>k. snd s = Some k \<longrightarrow> 1 \<le> k \<and> (k \<le> rd_page (fst s) \<or> k \<le> rank_pages (fst s)))"

lemma rank_pages_loading [simp]: "rank_pages (st\<lparr>rd_loading := b\<rparr>) = rank_pages st"
  by (simp add: rank_pages_def)

lemma rank_inv_step: "rank_inv s \<Longrightarrow> rank_inv (rank_step s e)"
proof (cases s)
  case (Pair st out)
  assume inv: "rank_inv s"
  show ?thesis
  proof (cases e)
    case RdPrev
    then show ?thesis using inv Pair
      by (cases "rd_page st \<le> 1 \<or> rd_loading st") (auto simp: rank_inv_def asked_def rank_prev_def rank_load_def)
  next
    case RdNext
    then show ?thesis using inv Pair
      by (cases "rank_pages st \<le> rd_page st \<or> rd_loading st")
        (auto simp: rank_inv_def asked_def rank_next_def rank_load_def)
  next
    case (RdAnswer ans)
    show ?thesis
    proof (cases out)
      case None
      then show ?thesis using RdAnswer inv Pair by (simp add: rank_inv_def)
    next
      case (Some k)
      then show ?thesis using RdAnswer inv Pair
        by (cases ans) (auto simp: rank_inv_def rank_load_done_def)
    qed
  qed
qed

interpretation rank_dialogs: invariant_machine rank_step rank_inv "asked (rank_load 1 init_rank_dialog) None"
  by unfold_locales (simp add: rank_inv_def asked_def rank_load_def init_rank_dialog_def, rule rank_inv_step)

text \<open>The rows are numbered on from the pages before.\<close>

lemma row_numbers:
  assumes "rank_dialog_rows st = DialogRows rows" and "k < length rows"
  shows "fst (rows ! k) = (rd_page st - 1) * PAGE_SIZE + k + 1"
  using assms by (auto simp: rank_dialog_rows_def nth_enumerate_eq split: if_splits)

lemma formatCount_small: "v < 1000 \<Longrightarrow> formatCount v = nat_to_string v"
  by (simp add: formatCount_def)

text \<open>Just below the next unit the rounding reaches it.\<close>

lemma formatCount_unit_edge: "formatCount 999999 = ''1000.0k'' \<and> formatCount 1000000 = ''1.0M''"
proof -
  have "dbl (of_nat 31999 / 2 ^ 5) \<le> dbl (of_nat 999999 / 1000)" by (rule dbl_mono) simp_all
  then have low: "31999 / 32 \<le> dbl (of_nat 999999 / 1000)"
    using dbl_div_power2 [of 31999 5] by simp
  have "dbl (of_nat 999999 / 1000) \<le> dbl (of_nat 1000)" by (rule dbl_mono) simp_all
  then have "dbl (of_nat 999999 / 1000) \<le> 1000" by simp
  then have "\<lfloor>dbl (of_nat 999999 / 1000) * 10 ^ 1 + 1/2\<rfloor> = 10000"
    using low by (simp add: floor_eq_iff)
  then have "fixed_units 1 (dbl (of_nat 999999 / 1000)) = 10000" by (simp add: fixed_units_def)
  moreover have "\<lfloor>21 / 2 :: rat\<rfloor> = 10" by (simp add: floor_eq_iff)
  then have "fixed_units 1 1 = 10" by (simp add: fixed_units_def)
  moreover have "nat_to_string 1000 = ''1000''" "nat_to_string 1 = ''1''" "pad_zeros 1 (nat_to_string 0) = ''0''"
    by code_simp+
  ultimately show ?thesis by (simp add: formatCount_def to_fixed_def)
qed

lemma donut_colours:
  assumes "DonutLegendList loading k cs items = DonutRows rows" and "cs \<noteq> []" and "(n, v, t, c) \<in> set rows"
  shows "\<exists>x\<in>set cs. c = Some x"
proof -
  obtain i where "c = Some (cs ! (i mod length cs))"
    using assms by (auto simp: DonutLegendList_def Let_def split: if_splits)
  then show ?thesis using assms(2) by auto
qed

text \<open>A failed poll of the rate changes nothing; an answer sets it whatever the order.\<close>

lemma qps_last_answer: "qc_qps (qps_polled (Some (Some n, h)) st) = n"
  by (simp add: qps_polled_def)

end
