(* ===== verification/GeoNames.thy ===== *)
theory GeoNames
  imports FgPrelude JsNumber "HOL-Library.Code_Target_Nat"
begin

text \<open>
  Place names and the card of places of the dashboard
  (\<open>web/src/pages/dashboard/features/traffic/map-utils.ts\<close>, \<open>GeoCard.tsx\<close>, \<open>ChinaMap.tsx\<close>,
  \<open>WorldMap2D.tsx\<close>). A name is the list of its UTF-16 code units, since most names are Chinese;
  \<open>us\<close> reads an ASCII literal as code units. The keys of \<open>Object.prototype\<close> are taken to be no names.
\<close>

type_synonym units = "nat list"

definition us :: "string \<Rightarrow> units" where
  "us s = map of_char s"

subsection \<open>Names\<close>

definition PROVINCE_ALIASES :: "(units \<times> units) list" where
  "PROVINCE_ALIASES =
   [
    ([0x5317, 0x4EAC], [0x5317, 0x4EAC, 0x5E02]), ([0x5929, 0x6D25], [0x5929, 0x6D25, 0x5E02]),
    ([0x4E0A, 0x6D77], [0x4E0A, 0x6D77, 0x5E02]), ([0x91CD, 0x5E86], [0x91CD, 0x5E86, 0x5E02]),
    ([0x5185, 0x8499, 0x53E4], [0x5185, 0x8499, 0x53E4, 0x81EA, 0x6CBB, 0x533A]),
    ([0x5E7F, 0x897F], [0x5E7F, 0x897F, 0x58EE, 0x65CF, 0x81EA, 0x6CBB, 0x533A]),
    ([0x897F, 0x85CF], [0x897F, 0x85CF, 0x81EA, 0x6CBB, 0x533A]),
    ([0x5B81, 0x590F], [0x5B81, 0x590F, 0x56DE, 0x65CF, 0x81EA, 0x6CBB, 0x533A]),
    ([0x65B0, 0x7586], [0x65B0, 0x7586, 0x7EF4, 0x543E, 0x5C14, 0x81EA, 0x6CBB, 0x533A]),
    ([0x9999, 0x6E2F], [0x9999, 0x6E2F, 0x7279, 0x522B, 0x884C, 0x653F, 0x533A]),
    ([0x6FB3, 0x95E8], [0x6FB3, 0x95E8, 0x7279, 0x522B, 0x884C, 0x653F, 0x533A]),
    ([0x53F0, 0x6E7E], [0x53F0, 0x6E7E, 0x7701])]"

definition province_suffixes :: "units list" where
  "province_suffixes = [[0x7701], [0x5E02], [0x81EA, 0x6CBB, 0x533A], [0x7279, 0x522B, 0x884C, 0x653F, 0x533A]]"

definition ends_with_units :: "units \<Rightarrow> units \<Rightarrow> bool" where
  "ends_with_units x suf \<longleftrightarrow> length suf \<le> length x \<and> drop (length x - length suf) x = suf"

definition normalizeProvince :: "units \<Rightarrow> units" where
  "normalizeProvince x =
     (if x = [] then x
      else case map_of PROVINCE_ALIASES x of
          Some y \<Rightarrow> y
        | None \<Rightarrow> if list_ex (ends_with_units x) province_suffixes then x else x @ [0x7701])"

definition COUNTRY_ALIASES :: "(units \<times> units) list" where
  "COUNTRY_ALIASES =
   [
    (us ''China'', [0x4E2D, 0x56FD]), (us ''United States'', [0x7F8E, 0x56FD]),
    (us ''United States of America'', [0x7F8E, 0x56FD]), (us ''USA'', [0x7F8E, 0x56FD]),
    (us ''US'', [0x7F8E, 0x56FD]), (us ''Japan'', [0x65E5, 0x672C]),
    (us ''United Kingdom'', [0x82F1, 0x56FD]), (us ''UK'', [0x82F1, 0x56FD]),
    (us ''Singapore'', [0x65B0, 0x52A0, 0x5761]), (us ''Netherlands'', [0x8377, 0x5170]),
    (us ''Germany'', [0x5FB7, 0x56FD]), (us ''France'', [0x6CD5, 0x56FD]),
    (us ''Russia'', [0x4FC4, 0x7F57, 0x65AF]), (us ''Russian Federation'', [0x4FC4, 0x7F57, 0x65AF]),
    (us ''Canada'', [0x52A0, 0x62FF, 0x5927]), (us ''Australia'', [0x6FB3, 0x5927, 0x5229, 0x4E9A]),
    (us ''India'', [0x5370, 0x5EA6]), (us ''South Korea'', [0x97E9, 0x56FD]),
    (us ''Korea'', [0x97E9, 0x56FD]), (us ''Republic of Korea'', [0x97E9, 0x56FD]),
    (us ''Hong Kong'', [0x4E2D, 0x56FD, 0x9999, 0x6E2F]),
    (us ''Taiwan'', [0x4E2D, 0x56FD, 0x53F0, 0x6E7E]),
    (us ''Macao'', [0x4E2D, 0x56FD, 0x6FB3, 0x95E8]), (us ''Macau'', [0x4E2D, 0x56FD, 0x6FB3, 0x95E8]),
    (us ''Brazil'', [0x5DF4, 0x897F]), (us ''Italy'', [0x610F, 0x5927, 0x5229]),
    (us ''Spain'', [0x897F, 0x73ED, 0x7259]), (us ''Mexico'', [0x58A8, 0x897F, 0x54E5]),
    (us ''Indonesia'', [0x5370, 0x5EA6, 0x5C3C, 0x897F, 0x4E9A]),
    (us ''Turkey'', [0x571F, 0x8033, 0x5176]),
    (us ''Saudi Arabia'', [0x6C99, 0x7279, 0x963F, 0x62C9, 0x4F2F]),
    (us ''United Arab Emirates'', [0x963F, 0x8054, 0x914B]), (us ''UAE'', [0x963F, 0x8054, 0x914B]),
    (us ''Vietnam'', [0x8D8A, 0x5357]), (us ''Viet Nam'', [0x8D8A, 0x5357]),
    (us ''Thailand'', [0x6CF0, 0x56FD]), (us ''Malaysia'', [0x9A6C, 0x6765, 0x897F, 0x4E9A]),
    (us ''Philippines'', [0x83F2, 0x5F8B, 0x5BBE]), (us ''Poland'', [0x6CE2, 0x5170]),
    (us ''Sweden'', [0x745E, 0x5178]), (us ''Switzerland'', [0x745E, 0x58EB]),
    (us ''Belgium'', [0x6BD4, 0x5229, 0x65F6]), (us ''Ireland'', [0x7231, 0x5C14, 0x5170]),
    (us ''Norway'', [0x632A, 0x5A01]), (us ''Denmark'', [0x4E39, 0x9EA6]),
    (us ''Finland'', [0x82AC, 0x5170]), (us ''Austria'', [0x5965, 0x5730, 0x5229]),
    (us ''New Zealand'', [0x65B0, 0x897F, 0x5170]), (us ''South Africa'', [0x5357, 0x975E]),
    (us ''Argentina'', [0x963F, 0x6839, 0x5EF7]), (us ''Chile'', [0x667A, 0x5229]),
    (us ''Israel'', [0x4EE5, 0x8272, 0x5217]), (us ''Ukraine'', [0x4E4C, 0x514B, 0x5170]),
    (us ''Portugal'', [0x8461, 0x8404, 0x7259]), (us ''Greece'', [0x5E0C, 0x814A]),
    (us ''Czech Republic'', [0x6377, 0x514B]), (us ''Czechia'', [0x6377, 0x514B]),
    (us ''Romania'', [0x7F57, 0x9A6C, 0x5C3C, 0x4E9A]), (us ''Hungary'', [0x5308, 0x7259, 0x5229]),
    (us ''Egypt'', [0x57C3, 0x53CA]), (us ''Pakistan'', [0x5DF4, 0x57FA, 0x65AF, 0x5766]),
    (us ''Bangladesh'', [0x5B5F, 0x52A0, 0x62C9, 0x56FD]),
    (us ''Nigeria'', [0x5C3C, 0x65E5, 0x5229, 0x4E9A]),
    (us ''Colombia'', [0x54E5, 0x4F26, 0x6BD4, 0x4E9A]), (us ''Peru'', [0x79D8, 0x9C81]),
    (us ''Sri Lanka'', [0x65AF, 0x91CC, 0x5170, 0x5361]), (us ''Cambodia'', [0x67EC, 0x57D4, 0x5BE8]),
    (us ''Myanmar'', [0x7F05, 0x7538]), (us ''Laos'', [0x8001, 0x631D]),
    (us ''Mongolia'', [0x8499, 0x53E4]), (us ''Kazakhstan'', [0x54C8, 0x8428, 0x514B, 0x65AF, 0x5766]),
    (us ''Uzbekistan'', [0x4E4C, 0x5179, 0x522B, 0x514B, 0x65AF, 0x5766]),
    (us ''Iran'', [0x4F0A, 0x6717]), (us ''Iraq'', [0x4F0A, 0x62C9, 0x514B]),
    (us ''Qatar'', [0x5361, 0x5854, 0x5C14]), (us ''Kuwait'', [0x79D1, 0x5A01, 0x7279]),
    (us ''Oman'', [0x963F, 0x66FC]), (us ''Bahrain'', [0x5DF4, 0x6797]),
    (us ''Jordan'', [0x7EA6, 0x65E6]), (us ''Lebanon'', [0x9ECE, 0x5DF4, 0x5AE9]),
    (us ''Syria'', [0x53D9, 0x5229, 0x4E9A]), (us ''Georgia'', [0x683C, 0x9C81, 0x5409, 0x4E9A])]"

text \<open>\<open>lower\<close> is \<open>toLowerCase\<close>; the map of names is the one of \<open>assets/map/world.json\<close>.\<close>

definition normalizeCountry :: "(units \<Rightarrow> units) \<Rightarrow> (units \<times> units) list option \<Rightarrow> units \<Rightarrow> units" where
  "normalizeCountry lower nameMap x =
     (if x = [] then x
      else case map_of COUNTRY_ALIASES x of
          Some y \<Rightarrow> y
        | None \<Rightarrow>
            (case nameMap of
               None \<Rightarrow> x
             | Some m \<Rightarrow>
                 (case map_of m x of
                    Some y \<Rightarrow> if y \<noteq> [] then y else
                      (case List.find (\<lambda>(en, zh). lower en = lower x) m of Some (en, zh) \<Rightarrow> zh | None \<Rightarrow> x)
                  | None \<Rightarrow>
                      (case List.find (\<lambda>(en, zh). lower en = lower x) m of Some (en, zh) \<Rightarrow> zh | None \<Rightarrow> x))))"

text \<open>The maps are loaded once; \<open>namemap\<close> is what the asset has under that key.\<close>

record map_registry =
  mr_china :: bool
  mr_world :: bool
  mr_names :: "(units \<times> units) list option"

datatype map_effect = ImportChina | ImportWorld | RegisterChina | RegisterWorld

definition ensureChinaMap :: "map_registry \<Rightarrow> map_effect list" where
  "ensureChinaMap r = (if mr_china r then [] else [ImportChina])"

definition ensureChinaMap_loaded :: "map_registry \<Rightarrow> map_registry \<times> map_effect list" where
  "ensureChinaMap_loaded r = (r\<lparr>mr_china := True\<rparr>, [RegisterChina])"

definition ensureWorldMap :: "map_registry \<Rightarrow> (units \<times> units) list option \<times> map_effect list" where
  "ensureWorldMap r =
     (if mr_world r \<and> mr_names r \<noteq> None then (mr_names r, []) else (None, [ImportWorld]))"

definition ensureWorldMap_loaded ::
  "(units \<times> units) list option \<Rightarrow> map_registry \<Rightarrow> map_registry \<times> (units \<times> units) list \<times> map_effect list" where
  "ensureWorldMap_loaded namemap r =
     (let m = (case namemap of None \<Rightarrow> [] | Some m \<Rightarrow> m) in
      (r\<lparr>mr_world := True, mr_names := Some m\<rparr>, m, [RegisterWorld]))"

subsection \<open>The card\<close>

datatype geo_scope = World | China
datatype geo_mode = ModeAll | ModeBlocked
datatype geo_dimension = Dim3 | Dim2

record GeoItem =
  gi_name :: units
  gi_count :: nat
  gi_blocked :: nat
  gi_percent :: rat

record geo_card =
  gc_scope :: geo_scope
  gc_mode :: geo_mode
  gc_dimension :: geo_dimension
  gc_items :: "GeoItem list"
  gc_loading :: bool

definition init_geo :: geo_card where
  "init_geo = \<lparr>gc_scope = World, gc_mode = ModeAll, gc_dimension = Dim3, gc_items = [], gc_loading = True\<rparr>"

text \<open>A poll that came through, with the items when they are a list; one that fails changes nothing.\<close>

definition geo_polled :: "GeoItem list option \<Rightarrow> geo_card \<Rightarrow> geo_card" where
  "geo_polled items st =
     st\<lparr>gc_items := (case items of None \<Rightarrow> [] | Some xs \<Rightarrow> xs), gc_loading := False\<rparr>"

definition add_geo :: "GeoItem \<Rightarrow> GeoItem list \<Rightarrow> GeoItem list" where
  "add_geo item merged =
     (let name = normalizeCountry id None (gi_name item) in
      if name \<in> gi_name ` set merged
      then patch_by gi_name name
             (\<lambda>p. p\<lparr>gi_count := gi_count p + gi_count item, gi_blocked := gi_blocked p + gi_blocked item\<rparr>) merged
      else merged @ [item\<lparr>gi_name := name\<rparr>])"

definition merge_geo :: "GeoItem list \<Rightarrow> GeoItem list" where
  "merge_geo items = foldl (\<lambda>m x. add_geo x m) [] items"

definition valueOf :: "geo_mode \<Rightarrow> GeoItem \<Rightarrow> nat" where
  "valueOf mode x = (if mode = ModeBlocked then gi_blocked x else gi_count x)"

definition displayItems :: "geo_card \<Rightarrow> GeoItem list" where
  "displayItems st =
     (if gc_scope st \<noteq> World then gc_items st
      else js_sort (\<lambda>a b. int (valueOf (gc_mode st) b) - int (valueOf (gc_mode st) a)) (merge_geo (gc_items st)))"

definition topItems :: "geo_card \<Rightarrow> GeoItem list" where
  "topItems st = take 8 (displayItems st)"

definition maxValue :: "geo_card \<Rightarrow> nat" where
  "maxValue st = foldl max 1 (map (valueOf (gc_mode st)) (topItems st))"

datatype geo_list = GeoSkeleton | GeoEmpty | GeoRows "(units \<times> nat \<times> rat) list"

definition geo_rows :: "geo_card \<Rightarrow> geo_list" where
  "geo_rows st =
     (if gc_loading st then GeoSkeleton
      else if topItems st = [] then GeoEmpty
      else GeoRows (map (\<lambda>x. (gi_name x, valueOf (gc_mode st) x,
             of_nat (valueOf (gc_mode st) x) / of_nat (maxValue st))) (topItems st)))"

text \<open>What the map draws: the name and the value of a region, and the upper end of the scale.\<close>

definition china_data :: "geo_mode \<Rightarrow> GeoItem list \<Rightarrow> (units \<times> nat) list \<times> nat" where
  "china_data mode items =
     (let data = map (\<lambda>x. (normalizeProvince (gi_name x), valueOf mode x)) items in
      (data, foldl max 1 (map snd data)))"

definition world_data :: "geo_mode \<Rightarrow> GeoItem list \<Rightarrow> (units \<times> nat) list \<times> nat" where
  "world_data mode items =
     (let data = map (\<lambda>x. (gi_name x, valueOf mode x)) items in (data, foldl max 1 (map snd data)))"

datatype geo_map = ChinaMap "(units \<times> nat) list \<times> nat" | Globe3D "GeoItem list" | WorldMap2D "(units \<times> nat) list \<times> nat"

definition geo_drawn :: "geo_card \<Rightarrow> geo_map" where
  "geo_drawn st =
     (if gc_scope st = China then ChinaMap (china_data (gc_mode st) (gc_items st))
      else if gc_dimension st = Dim3 then Globe3D (displayItems st)
      else WorldMap2D (world_data (gc_mode st) (displayItems st)))"

text \<open>The groups give nothing when the chosen value is pressed again, which is ignored; that of the
  dimension is there in the scope of the world only.\<close>

datatype geo_event = GeoScope "geo_scope option" | GeoMode "geo_mode option"
  | GeoDimension "geo_dimension option" | GeoPolled "GeoItem list option"

fun geo_step :: "geo_card \<Rightarrow> geo_event \<Rightarrow> geo_card" where
  "geo_step st (GeoScope v) = (case v of None \<Rightarrow> st | Some s \<Rightarrow> st\<lparr>gc_scope := s\<rparr>)"
| "geo_step st (GeoMode v) = (case v of None \<Rightarrow> st | Some m \<Rightarrow> st\<lparr>gc_mode := m\<rparr>)"
| "geo_step st (GeoDimension v) =
     (if gc_scope st \<noteq> World then st else case v of None \<Rightarrow> st | Some d \<Rightarrow> st\<lparr>gc_dimension := d\<rparr>)"
| "geo_step st (GeoPolled items) = geo_polled items st"

subsection \<open>Laws\<close>

lemma provinces_ok:
  "list_all (\<lambda>(k, v). \<not> list_ex (ends_with_units k) province_suffixes \<and>
     list_ex (ends_with_units v) province_suffixes) PROVINCE_ALIASES"
  by code_simp

lemma countries_ok: "list_all (\<lambda>(k, v). hd k < 128 \<and> v \<noteq> [] \<and> 128 \<le> hd v) COUNTRY_ALIASES"
  by code_simp

text \<open>A name that is normal stays as it is, so that merging twice changes nothing.\<close>

lemma country_stable: "normalizeCountry lw None (normalizeCountry lw' None x) = normalizeCountry lw' None x"
proof (cases "map_of COUNTRY_ALIASES x")
  case (Some y)
  then have "(x, y) \<in> set COUNTRY_ALIASES" by (rule map_of_SomeD)
  then have y: "y \<noteq> []" "128 \<le> hd y" using countries_ok by (auto simp: list_all_iff)
  have "map_of COUNTRY_ALIASES y = None"
  proof (cases "map_of COUNTRY_ALIASES y")
    case (Some z)
    then have "(y, z) \<in> set COUNTRY_ALIASES" by (rule map_of_SomeD)
    then have "hd y < 128" using countries_ok by (auto simp: list_all_iff)
    then show ?thesis using y(2) by simp
  qed
  then show ?thesis using Some y(1) by (simp add: normalizeCountry_def)
qed (simp add: normalizeCountry_def)

lemma ends_with_append: "ends_with_units (x @ s) s"
  by (simp add: ends_with_units_def)

lemma province_suffix:
  assumes "x \<noteq> []"
  shows "list_ex (ends_with_units (normalizeProvince x)) province_suffixes"
proof (cases "map_of PROVINCE_ALIASES x")
  case (Some y)
  then have "list_ex (ends_with_units y) province_suffixes" using provinces_ok map_of_SomeD [OF Some] by (auto simp: list_all_iff)
  then show ?thesis using Some assms by (simp add: normalizeProvince_def)
next
  case None
  have "list_ex (ends_with_units (x @ [0x7701])) province_suffixes"
    using ends_with_append [of x "[0x7701]"] by (simp add: province_suffixes_def)
  then show ?thesis using None assms by (simp add: normalizeProvince_def)
qed

lemma province_stable: "normalizeProvince (normalizeProvince x) = normalizeProvince x"
proof (cases "x = []")
  case False
  let ?y = "normalizeProvince x"
  have suf: "list_ex (ends_with_units ?y) province_suffixes" by (rule province_suffix [OF False])
  have "map_of PROVINCE_ALIASES ?y = None"
  proof (cases "map_of PROVINCE_ALIASES ?y")
    case (Some z)
    then have "(?y, z) \<in> set PROVINCE_ALIASES" by (rule map_of_SomeD)
    then have "\<not> list_ex (ends_with_units ?y) province_suffixes" using provinces_ok by (auto simp: list_all_iff)
    then show ?thesis using suf by simp
  qed
  then show ?thesis using suf by (simp add: normalizeProvince_def [of ?y])
qed (simp add: normalizeProvince_def)

text \<open>The merged list has each name once and keeps the totals of every name.\<close>

lemma distinct_add_geo: "distinct (map gi_name m) \<Longrightarrow> distinct (map gi_name (add_geo x m))"
proof -
  let ?f = "\<lambda>p. p\<lparr>gi_count := gi_count p + gi_count x, gi_blocked := gi_blocked p + gi_blocked x\<rparr>"
  have "map gi_name (patch_by gi_name k ?f m) = map gi_name m" for k by (simp add: patch_by_def)
  then show "distinct (map gi_name m) \<Longrightarrow> ?thesis" by (auto simp: add_geo_def Let_def)
qed

definition geo_sum :: "(GeoItem \<Rightarrow> nat) \<Rightarrow> units \<Rightarrow> GeoItem list \<Rightarrow> nat" where
  "geo_sum f name xs = sum_list (map f (filter (\<lambda>x. gi_name x = name) xs))"

definition geo_sum_raw :: "(GeoItem \<Rightarrow> nat) \<Rightarrow> units \<Rightarrow> GeoItem list \<Rightarrow> nat" where
  "geo_sum_raw f name xs = sum_list (map f (filter (\<lambda>x. normalizeCountry id None (gi_name x) = name) xs))"

lemma geo_sum_absent: "name \<notin> gi_name ` set m \<Longrightarrow> geo_sum f name m = 0"
  by (induction m) (auto simp: geo_sum_def)

lemma geo_sum_patch:
  assumes "distinct (map gi_name m)" and "k \<in> gi_name ` set m"
    and "\<And>p. gi_name (g p) = gi_name p" and "\<And>p. f (g p) = f p + d"
  shows "geo_sum f name (patch_by gi_name k g m) = geo_sum f name m + (if name = k then d else 0)"
  using assms(1,2)
proof (induction m)
  case (Cons p m)
  show ?case
  proof (cases "gi_name p = k")
    case True
    then have absent: "k \<notin> gi_name ` set m" using Cons.prems by auto
    have id: "patch_by gi_name k g m = m" by (rule patch_by_absent [OF absent])
    show ?thesis using True id assms(3,4) by (auto simp: geo_sum_def)
  next
    case False
    then have "geo_sum f name (patch_by gi_name k g m) = geo_sum f name m + (if name = k then d else 0)"
      using Cons by auto
    moreover have "geo_sum f name (q # xs) = (if gi_name q = name then f q else 0) + geo_sum f name xs" for q xs
      by (simp add: geo_sum_def)
    ultimately show ?thesis using False by simp
  qed
qed simp

definition geo_values :: "(GeoItem \<Rightarrow> nat) \<Rightarrow> bool" where
  "geo_values f \<longleftrightarrow> f = gi_count \<or> f = gi_blocked"

lemma geo_sum_add:
  assumes "distinct (map gi_name m)" and "geo_values f"
  shows "geo_sum f name (add_geo x m) =
    geo_sum f name m + (if name = normalizeCountry id None (gi_name x) then f x else 0)"
proof (cases "normalizeCountry id None (gi_name x) \<in> gi_name ` set m")
  case True
  then have a: "add_geo x m = patch_by gi_name (normalizeCountry id None (gi_name x))
      (\<lambda>p. p\<lparr>gi_count := gi_count p + gi_count x, gi_blocked := gi_blocked p + gi_blocked x\<rparr>) m"
    by (simp add: add_geo_def)
  show ?thesis unfolding a
    using assms(2) by (intro geo_sum_patch [OF assms(1) True]) (auto simp: geo_values_def)
next
  case False
  then show ?thesis using assms(2) by (auto simp: add_geo_def geo_sum_def geo_values_def)
qed

lemma merge_geo_acc:
  assumes "distinct (map gi_name m)" and "geo_values f"
  shows "distinct (map gi_name (foldl (\<lambda>m x. add_geo x m) m xs)) \<and>
    geo_sum f name (foldl (\<lambda>m x. add_geo x m) m xs) = geo_sum f name m + geo_sum_raw f name xs"
  using assms(1)
proof (induction xs arbitrary: m)
  case (Cons x xs)
  show ?case using Cons.IH [OF distinct_add_geo [OF Cons.prems]]
    by (simp add: geo_sum_add [OF Cons.prems assms(2)] geo_sum_raw_def)
qed (simp add: geo_sum_raw_def)

lemma merge_geo_exact:
  assumes "geo_values f"
  shows "distinct (map gi_name (merge_geo items))"
    and "geo_sum f name (merge_geo items) = geo_sum_raw f name items"
  using merge_geo_acc [OF _ assms, of "[]"] by (simp_all add: merge_geo_def geo_sum_def)

lemma consistent_desc: "consistent_cmp (\<lambda>a b. int (v b) - int (v a))"
  unfolding consistent_cmp_def by auto

text \<open>What is shown of the world: the greatest values come first, and no hidden one is above a shown one.\<close>

lemma top_geo:
  assumes "gc_scope st = World" and "x \<in> set (topItems st)" and "y \<in> set (drop 8 (displayItems st))"
  shows "valueOf (gc_mode st) y \<le> valueOf (gc_mode st) x"
proof -
  let ?cmp = "\<lambda>a b. int (valueOf (gc_mode st) b) - int (valueOf (gc_mode st) a)"
  have "sorted_wrt (\<lambda>a b. ?cmp a b \<le> 0) (displayItems st)"
    unfolding displayItems_def using sorted_wrt_js_sort [OF consistent_desc, of "valueOf (gc_mode st)"] assms(1) by auto
  then have "sorted_wrt (\<lambda>a b. ?cmp a b \<le> 0) (take 8 (displayItems st) @ drop 8 (displayItems st))"
    by (simp only: append_take_drop_id)
  then have "?cmp x y \<le> 0" unfolding sorted_wrt_append using assms(2,3) by (simp add: topItems_def)
  then show ?thesis by simp
qed

lemma foldl_max_ge: "(a::nat) \<le> foldl max a xs \<and> (\<forall>x\<in>set xs. x \<le> foldl max a xs)"
proof (induction xs arbitrary: a)
  case (Cons x xs)
  have "max a x \<le> foldl max (max a x) xs" "\<forall>y\<in>set xs. y \<le> foldl max (max a x) xs"
    using Cons.IH [of "max a x"] by blast+
  then show ?case by (simp add: max.bounded_iff)
qed simp

lemma bars_in_scale:
  assumes "geo_rows st = GeoRows rows" and "(name, v, ratio) \<in> set rows"
  shows "0 \<le> ratio \<and> ratio \<le> 1"
proof -
  obtain x where x: "x \<in> set (topItems st)" "v = valueOf (gc_mode st) x" "ratio = of_nat v / of_nat (maxValue st)"
    using assms by (auto simp: geo_rows_def split: if_splits)
  have "v \<le> maxValue st" "1 \<le> maxValue st"
    using x foldl_max_ge [of 1 "map (valueOf (gc_mode st)) (topItems st)"] by (auto simp: maxValue_def)
  then have "(of_nat v :: rat) \<le> of_nat (maxValue st)" "(0::rat) < of_nat (maxValue st)" by simp_all
  then show ?thesis unfolding x(3) by (simp add: divide_le_eq)
qed

end
