(* ===== verification/Dashboard.thy ===== *)
theory Dashboard
  imports DashDetail GeoNames TablePager
begin

text \<open>
  The boards of the dashboard: the page with its hosts and its tabs
  (\<open>web/src/pages/dashboard/page.tsx\<close>), the board of the traffic (\<open>features/traffic/index.tsx\<close>) and the
  board of the security (\<open>features/security/index.tsx\<close>), which is also the overview of the security
  pages (\<open>pages/security/overview/index.tsx\<close>). Polling is the hook of theory \<open>Hooks\<close>; here is what the
  answers of one poll do. A poll that is rejected changes nothing.
\<close>

subsection \<open>The page\<close>

datatype dashboard_tab = TabTraffic | TabSecurity

record dashboard_page =
  dp_tab :: dashboard_tab
  dp_domains :: "string list"
  dp_alive :: bool

definition init_dashboard_page :: dashboard_page where
  "init_dashboard_page = \<lparr>dp_tab = TabTraffic, dp_domains = [], dp_alive = True\<rparr>"

text \<open>The servers whose routes are asked for: those with an id.\<close>

definition servers_asked :: "string option list option \<Rightarrow> string list" where
  "servers_asked ans =
     (case ans of None \<Rightarrow> [] | Some ids \<Rightarrow> map the (filter (\<lambda>i. i \<noteq> None \<and> i \<noteq> Some []) ids))"

text \<open>The answers, one list of lists of domains per server; a missing list counts as empty.\<close>

definition dashboard_domains :: "string list option list option list \<Rightarrow> dashboard_page \<Rightarrow> dashboard_page" where
  "dashboard_domains answers st =
     (if \<not> dp_alive st then st
      else st\<lparr>dp_domains := domain_options (map (\<lambda>a. case a of None \<Rightarrow> []
             | Some rs \<Rightarrow> concat (map (\<lambda>d. case d of None \<Rightarrow> [] | Some xs \<Rightarrow> xs) rs)) answers)\<rparr>)"

definition leave_dashboard :: "dashboard_page \<Rightarrow> dashboard_page" where
  "leave_dashboard st = st\<lparr>dp_alive := False\<rparr>"

definition set_dashboard_tab :: "dashboard_tab \<Rightarrow> dashboard_page \<Rightarrow> dashboard_page" where
  "set_dashboard_tab t st = st\<lparr>dp_tab := t\<rparr>"

text \<open>The menu of the hosts: the value of all of them, then the domains.\<close>

definition host_menu :: "dashboard_page \<Rightarrow> string list" where
  "host_menu st = ALL_HOSTS # dp_domains st"

subsection \<open>Traffic\<close>

record traffic_tab =
  tt_overview :: "StatisticsOverview option"
  tt_series :: "TimeseriesPoint list"
  tt_rankings :: rankings
  tt_loading :: bool
  tt_dialog :: "RankingType option"
  tt_metric :: "MetricId option"
  tt_openClient :: bool
  tt_openStatus :: bool
  tt_openRank :: "RankingType option"

definition init_traffic :: traffic_tab where
  "init_traffic = \<lparr>tt_overview = None, tt_series = [], tt_rankings = (\<lambda>t. None), tt_loading = True,
     tt_dialog = None, tt_metric = None, tt_openClient = False, tt_openStatus = False, tt_openRank = None\<rparr>"

definition keep_or :: "'a option \<Rightarrow> 'a option \<Rightarrow> 'a option" where
  "keep_or nxt old = (case nxt of None \<Rightarrow> old | Some x \<Rightarrow> Some x)"

definition traffic_polled ::
  "StatisticsOverview settled \<Rightarrow> TimeseriesPoint list settled \<Rightarrow> traffic_tab \<Rightarrow> traffic_tab" where
  "traffic_polled a b st =
     (case (a, b) of
        (Resolved x, Resolved y) \<Rightarrow>
          st\<lparr>tt_overview := keep_or (resp_data x) (tt_overview st),
             tt_series := (case resp_data y of None \<Rightarrow> tt_series st | Some xs \<Rightarrow> xs), tt_loading := False\<rparr>
      | _ \<Rightarrow> st)"

text \<open>The calls of one poll; the options carry the signal.\<close>

definition traffic_requests :: "StatRange \<Rightarrow> string option \<Rightarrow> http_options \<Rightarrow> api_call list" where
  "traffic_requests rng host opts = [getStatisticsOverview rng host opts, getStatisticsTimeseries rng host opts]"

definition RANK_TYPES :: "RankingType list" where
  "RANK_TYPES = [RankOs, RankBrowser, RankStatus, RankRefererHost, RankRefererUrl, RankHost, RankPath]"

definition ranking_requests :: "StatRange \<Rightarrow> string option \<Rightarrow> http_options \<Rightarrow> api_call list" where
  "ranking_requests rng host opts =
     map (\<lambda>t. getStatisticsRankings rng (ranking_text t) host (Some 10) (Some ''all'') opts) RANK_TYPES"

text \<open>The answers in the order of \<open>RANK_TYPES\<close>: none when one of them was rejected.\<close>

definition rankings_polled :: "RankingItem list option list option \<Rightarrow> traffic_tab \<Rightarrow> traffic_tab" where
  "rankings_polled answers st =
     (case answers of
        None \<Rightarrow> st
      | Some rs \<Rightarrow>
          st\<lparr>tt_rankings := map_of (zip RANK_TYPES (map (\<lambda>a. case a of None \<Rightarrow> [] | Some xs \<Rightarrow> xs) rs))\<rparr>)"

definition chartData :: "StatRange \<Rightarrow> TimeseriesPoint list \<Rightarrow> (clock_text \<times> nat \<times> nat) list" where
  "chartData rng series = map (\<lambda>p. (formatSeriesTime (tp_time p) rng, tp_requests p, tp_blocked p)) series"

definition requestsPeak :: "TimeseriesPoint list \<Rightarrow> nat" where
  "requestsPeak series = foldl max 0 (map tp_requests series)"

definition blockedPeak :: "TimeseriesPoint list \<Rightarrow> nat" where
  "blockedPeak series = foldl max 0 (map tp_blocked series)"

definition toggleMetric :: "MetricId \<Rightarrow> MetricId option \<Rightarrow> MetricId option" where
  "toggleMetric i prev = (if prev = Some i then None else Some i)"

definition detailFor :: "MetricId list \<Rightarrow> MetricId option \<Rightarrow> MetricId option" where
  "detailFor ids m = (case m of None \<Rightarrow> None | Some i \<Rightarrow> if i \<in> set ids then Some i else None)"

datatype alert_text = ReasonText string | ReasonUnknown

definition traffic_alert :: "traffic_tab \<Rightarrow> alert_text option" where
  "traffic_alert st =
     (case tt_overview st of
        None \<Rightarrow> None
      | Some o' \<Rightarrow>
          if so_available o' \<noteq> Some False then None
          else Some (case so_unavailableReason o' of
               None \<Rightarrow> ReasonUnknown | Some t \<Rightarrow> if js_trim t = [] then ReasonUnknown else ReasonText t))"

definition group_traffic :: "MetricId list" where "group_traffic = [MRequests, MPv, MUv, MIp]"
definition group_health :: "MetricId list" where "group_health = [MError4xx, MError4xxRate, MError5xx, MAvgMs]"
definition group_protection :: "MetricId list" where "group_protection = [MBlocked, MBlockRate, MAttackIps]"

definition stat :: "('a \<Rightarrow> 'b) \<Rightarrow> 'b \<Rightarrow> 'a option \<Rightarrow> 'b" where
  "stat f z ov = (case ov of None \<Rightarrow> z | Some x \<Rightarrow> f x)"

text \<open>The value a tile comes to rest on.\<close>

definition tile_text :: "StatisticsOverview option \<Rightarrow> MetricId \<Rightarrow> string" where
  "tile_text ov i =
     (case i of
        MRequests \<Rightarrow> formatCount (stat so_requests 0 ov)
      | MPv \<Rightarrow> formatCount (stat so_pageViews 0 ov)
      | MUv \<Rightarrow> formatCount (stat so_uniqueVisitors 0 ov)
      | MIp \<Rightarrow> formatCount (stat so_uniqueIps 0 ov)
      | MError4xx \<Rightarrow> formatCount (stat so_error4xx 0 ov)
      | MError4xxRate \<Rightarrow> formatPercent2 (stat so_error4xxRate 0 ov)
      | MError5xx \<Rightarrow> formatCount (stat so_error5xx 0 ov)
      | MAvgMs \<Rightarrow> formatMs (stat so_avgElapsedMs 0 ov)
      | MBlocked \<Rightarrow> formatCount (stat so_blocked 0 ov)
      | MBlockRate \<Rightarrow> formatPercent2 (stat so_blockRate 0 ov)
      | MAttackIps \<Rightarrow> formatCount (stat so_attackIps 0 ov)
      | MAbnormalLive \<Rightarrow> nat_to_string (stat so_abnormalIpsLive 0 ov)
      | MBlocked403 \<Rightarrow> formatCount (stat so_blocked403 0 ov)
      | MBlocked429 \<Rightarrow> formatCount (stat so_blocked429 0 ov))"

definition traffic_tiles :: "traffic_tab \<Rightarrow> (MetricId \<times> string \<times> bool) list list" where
  "traffic_tiles st =
     map (map (\<lambda>i. (i, tile_text (tt_overview st) i, tt_metric st = Some i)))
       [group_traffic, group_health, group_protection]"

text \<open>What each group shows below its tiles.\<close>

definition traffic_groups :: "traffic_tab \<Rightarrow> MetricId option list" where
  "traffic_groups st =
     map (\<lambda>ids. detailFor ids (tt_metric st)) [group_traffic, group_health, group_protection]"

definition statusItems :: "traffic_tab \<Rightarrow> RankingItem list" where
  "statusItems st = ranked (tt_rankings st) RankStatus"

definition donut_items :: "RankingItem list \<Rightarrow> (string \<times> nat) list" where
  "donut_items xs = map (\<lambda>x. (rk_key x, rk_count x)) xs"

text \<open>The cards of the clients and of the statuses: what is in sight and what unfolds.\<close>

definition client_card :: "bool \<Rightarrow> traffic_tab \<Rightarrow> donut_list \<times> donut_list option" where
  "client_card isDark st =
     (DonutLegendList (tt_loading st) 6 (getCategorical isDark) (donut_items (ranked (tt_rankings st) RankOs)),
      if tt_openClient st
      then Some (DonutLegendList (tt_loading st) 6 (getCategorical isDark)
        (donut_items (ranked (tt_rankings st) RankBrowser)))
      else None)"

definition status_card :: "traffic_tab \<Rightarrow> donut_list \<times> nat option \<times> donut_list option" where
  "status_card st =
     (let xs = statusItems st; cs = map (\<lambda>x. statusColorOf (rk_key x)) in
      (DonutLegendList (tt_loading st) 4 (cs xs) (donut_items xs),
       if 4 < length xs then Some (length xs) else None,
       if tt_openStatus st
       then Some (DonutLegendList (tt_loading st) 8 (cs (drop 4 xs)) (donut_items (drop 4 xs))) else None))"

definition rank_cards :: "RankingType list" where
  "rank_cards = [RankRefererHost, RankRefererUrl, RankHost, RankPath]"

definition rank_card :: "RankingType \<Rightarrow> traffic_tab \<Rightarrow> rank_list \<times> rank_list option" where
  "rank_card t st =
     (RankList (tt_loading st) (Some 5) (ranked (tt_rankings st) t),
      if tt_openRank st = Some t
      then Some (RankList (tt_loading st) (Some 5) (drop 5 (ranked (tt_rankings st) t))) else None)"

datatype traffic_event = TeMetric MetricId | TeClient | TeStatus | TeRank RankingType | TeDialog RankingType
  | TeCloseDialog | TePolled "StatisticsOverview settled" "TimeseriesPoint list settled"
  | TeRankings "RankingItem list option list option"

fun traffic_step :: "traffic_tab \<Rightarrow> traffic_event \<Rightarrow> traffic_tab" where
  "traffic_step st (TeMetric i) =
     (if i \<in> set (concat [group_traffic, group_health, group_protection])
      then st\<lparr>tt_metric := toggleMetric i (tt_metric st)\<rparr> else st)"
| "traffic_step st TeClient = st\<lparr>tt_openClient := \<not> tt_openClient st\<rparr>"
| "traffic_step st TeStatus = st\<lparr>tt_openStatus := \<not> tt_openStatus st\<rparr>"
| "traffic_step st (TeRank t) = st\<lparr>tt_openRank := (if tt_openRank st = Some t then None else Some t)\<rparr>"
| "traffic_step st (TeDialog t) = (if t \<in> set rank_cards then st\<lparr>tt_dialog := Some t\<rparr> else st)"
| "traffic_step st TeCloseDialog = st\<lparr>tt_dialog := None\<rparr>"
| "traffic_step st (TePolled a b) = traffic_polled a b st"
| "traffic_step st (TeRankings rs) = rankings_polled rs st"

subsection \<open>Security\<close>

record security_tab =
  sc_overview :: "StatisticsOverview option"
  sc_series :: "TimeseriesPoint list"
  sc_abnormalIps :: "AbnormalIp list"
  sc_blockedRequests :: "log_item list"
  sc_loading :: bool
  sc_metric :: "MetricId option"
  sc_openAbnormal :: bool
  sc_openBlocked :: bool

definition init_security :: security_tab where
  "init_security = \<lparr>sc_overview = None, sc_series = [], sc_abnormalIps = [], sc_blockedRequests = [],
     sc_loading = True, sc_metric = None, sc_openAbnormal = False, sc_openBlocked = False\<rparr>"

text \<open>The list of abnormal addresses is asked for without the signal.\<close>

definition security_requests :: "StatRange \<Rightarrow> string option \<Rightarrow> http_options \<Rightarrow> api_call list" where
  "security_requests rng host opts =
     [getStatisticsOverview rng host opts, getStatisticsTimeseries rng host opts, GetAbnormalIps 1 10,
      getStatisticsRequests rng [(''host'', opt_str host), (''blocked'', QBool True), (''page'', QNum 1),
        (''pageSize'', QNum 10)] opts]"

definition security_polled ::
  "StatisticsOverview settled \<Rightarrow> TimeseriesPoint list settled \<Rightarrow> AbnormalIp list settled \<Rightarrow>
   log_item list settled \<Rightarrow> security_tab \<Rightarrow> security_tab" where
  "security_polled a b c d st =
     (case (a, b, c, d) of
        (Resolved w, Resolved x, Resolved y, Resolved z) \<Rightarrow>
          st\<lparr>sc_overview := keep_or (resp_data w) (sc_overview st),
             sc_series := (case resp_data x of None \<Rightarrow> sc_series st | Some xs \<Rightarrow> xs),
             sc_abnormalIps := (case resp_data y of None \<Rightarrow> sc_abnormalIps st | Some xs \<Rightarrow> xs),
             sc_blockedRequests := (case resp_data z of None \<Rightarrow> sc_blockedRequests st | Some xs \<Rightarrow> xs),
             sc_loading := False\<rparr>
      | _ \<Rightarrow> st)"

definition security_chart :: "StatRange \<Rightarrow> TimeseriesPoint list \<Rightarrow> (clock_text \<times> nat \<times> nat) list" where
  "security_chart rng series = map (\<lambda>p. (formatSeriesTime (tp_time p) rng, tp_blocked p, tp_error5xx p)) series"

datatype block_reason = OtherPolicies | BotChallenge | RateLimited

definition reasonItems :: "StatisticsOverview option \<Rightarrow> (block_reason \<times> nat \<times> rat) list" where
  "reasonItems ov =
     (let blocked403 = stat so_blocked403 0 ov; blocked429 = stat so_blocked429 0 ov;
          blockedBot = stat so_blockedBot 0 ov; t = blocked403 + blocked429;
          item = (\<lambda>k n. (k, n, dbl (dbl (of_nat n / of_nat t) * 100)))
      in if t = 0 then []
         else filter (\<lambda>(k, n, p). 0 < n)
           [item OtherPolicies (blocked403 - blockedBot), item BotChallenge blockedBot, item RateLimited blocked429])"

datatype security_effect = PostAbnormal string | AbnormalBlocked string | AbnormalFailed

definition addToBlacklist :: "string \<Rightarrow> security_effect list" where
  "addToBlacklist ip = [PostAbnormal ip]"

definition addToBlacklist_done :: "string \<Rightarrow> 'a settled \<Rightarrow> security_effect list" where
  "addToBlacklist_done ip s = (case s of Resolved r \<Rightarrow> [AbnormalBlocked ip] | Rejected e \<Rightarrow> [AbnormalFailed])"

definition metricIds :: "MetricId list" where
  "metricIds = [MBlocked, MBlockRate, MBlocked403, MBlocked429, MAttackIps, MAbnormalLive]"

definition security_tiles :: "security_tab \<Rightarrow> (MetricId \<times> string \<times> bool) list" where
  "security_tiles st = map (\<lambda>i. (i, tile_text (sc_overview st) i, sc_metric st = Some i)) metricIds"

text \<open>Rows of the two tables, the first four in sight and the rest below when unfolded.\<close>

definition AbnormalTable :: "AbnormalIp list \<Rightarrow> (string \<times> nat \<times> nat \<times> string) list" where
  "AbnormalTable rows = map (\<lambda>r. (ab_ip r, ab_windowErrorCount r, ab_totalErrorCount r,
     case text_of (ab_topError r) of None \<Rightarrow> ''-'' | Some t \<Rightarrow> t)) rows"

definition BlockedTable :: "log_item list \<Rightarrow> (string \<times> string list \<times> string \<times> block_label \<times> nat) list" where
  "BlockedTable rows = map (\<lambda>r. (lg_ip r, lg_country r # (if lg_province r = [] then [] else [lg_province r]),
     lg_path r, BLOCK_LABELS (lg_blocked r), lg_status r)) rows"

text \<open>\<open>None\<close> stands for the line that there is nothing more.\<close>

definition folded :: "'a list \<Rightarrow> 'a list \<times> 'a list option" where
  "folded xs = (take 4 xs, if 4 < length xs then Some (drop 4 xs) else None)"

datatype security_event = SeMetric MetricId | SeAbnormal | SeBlocked
  | SePolled "StatisticsOverview settled" "TimeseriesPoint list settled" "AbnormalIp list settled" "log_item list settled"

fun security_step :: "security_tab \<Rightarrow> security_event \<Rightarrow> security_tab" where
  "security_step st (SeMetric i) =
     (if i \<in> set metricIds then st\<lparr>sc_metric := toggleMetric i (sc_metric st)\<rparr> else st)"
| "security_step st SeAbnormal = st\<lparr>sc_openAbnormal := \<not> sc_openAbnormal st\<rparr>"
| "security_step st SeBlocked = st\<lparr>sc_openBlocked := \<not> sc_openBlocked st\<rparr>"
| "security_step st (SePolled a b c d) = security_polled a b c d st"

subsection \<open>Laws\<close>

lemma requests_per_poll:
  "length (traffic_requests r h opts) = 2" "length (ranking_requests r h opts) = length RANK_TYPES"
  "length (security_requests r h opts) = 4"
  by (simp_all add: traffic_requests_def ranking_requests_def security_requests_def)

text \<open>Every ranking that was answered is found under its own type.\<close>

lemma rankings_in_order:
  assumes "length rs = length RANK_TYPES" and "k < length RANK_TYPES"
  shows "ranked (tt_rankings (rankings_polled (Some rs) st)) (RANK_TYPES ! k)
    = (case rs ! k of None \<Rightarrow> [] | Some xs \<Rightarrow> xs)"
proof -
  have d: "distinct RANK_TYPES" by (simp add: RANK_TYPES_def)
  let ?ys = "map (\<lambda>a. case a of None \<Rightarrow> [] | Some xs \<Rightarrow> xs) rs"
  have "map_of (zip RANK_TYPES ?ys) (RANK_TYPES ! k) = Some (?ys ! k)"
    using assms d by (intro map_of_zip_nth) simp_all
  then show ?thesis using assms by (simp add: rankings_polled_def ranked_def)
qed

text \<open>At most one group of tiles is unfolded, the one of the metric.\<close>

definition traffic_inv :: "traffic_tab \<Rightarrow> bool" where
  "traffic_inv st \<longleftrightarrow>
     (\<forall>i. tt_metric st = Some i \<longrightarrow> i \<in> set (concat [group_traffic, group_health, group_protection])) \<and>
     (\<forall>t. tt_dialog st = Some t \<longrightarrow> t \<in> set rank_cards)"

interpretation traffic_boards: invariant_machine traffic_step traffic_inv init_traffic
proof
  show "traffic_inv init_traffic" by (simp add: traffic_inv_def init_traffic_def)
  show "traffic_inv s \<Longrightarrow> traffic_inv (traffic_step s e)" for s e
  proof (cases e)
    case (TePolled a b)
    then show "traffic_inv s \<Longrightarrow> ?thesis"
      by (cases a; cases b) (simp_all add: traffic_inv_def traffic_polled_def)
  next
    case (TeRankings rs)
    then show "traffic_inv s \<Longrightarrow> ?thesis" by (cases rs) (simp_all add: traffic_inv_def rankings_polled_def)
  qed (auto simp: traffic_inv_def toggleMetric_def)
qed

lemma groups_disjoint: "distinct (concat [group_traffic, group_health, group_protection])"
  by (simp add: group_traffic_def group_health_def group_protection_def)

lemma one_group:
  assumes "traffic_inv st"
  shows "length (filter (\<lambda>g. g \<noteq> None) (traffic_groups st)) = (if tt_metric st = None then 0 else 1)"
proof (cases "tt_metric st")
  case None
  then show ?thesis by (simp add: traffic_groups_def detailFor_def)
next
  case (Some i)
  then have "i \<in> set group_traffic \<union> set group_health \<union> set group_protection"
    using assms by (simp add: traffic_inv_def)
  moreover have "set group_traffic \<inter> set group_health = {}" "set group_traffic \<inter> set group_protection = {}"
    "set group_health \<inter> set group_protection = {}"
    using groups_disjoint by auto
  ultimately show ?thesis using Some by (auto simp: traffic_groups_def detailFor_def)
qed

lemma toggle_metric_twice: "toggleMetric i (toggleMetric i prev) = (if prev = Some i then Some i else None)"
  by (simp add: toggleMetric_def)

text \<open>A ranking of ten, as it is asked for, is shown whole once its card is unfolded.\<close>

lemma ranking_shown:
  assumes "length xs \<le> 10"
  shows "take 5 xs @ take 5 (drop 5 xs) = xs" and "take 4 xs @ take 8 (drop 4 xs) = xs"
  using assms by simp_all

text \<open>The peak is the greatest point of the chart.\<close>

lemma peaks:
  "p \<in> set series \<Longrightarrow> tp_requests p \<le> requestsPeak series"
  "p \<in> set series \<Longrightarrow> tp_blocked p \<le> blockedPeak series"
  using foldl_max_ge [of 0 "map tp_requests series"] foldl_max_ge [of 0 "map tp_blocked series"]
  by (auto simp: requestsPeak_def blockedPeak_def)

text \<open>
  The reasons add up to the blocked requests as long as the challenges are among the 403 answers;
  otherwise they exceed them.
\<close>

lemma reasons_total:
  "sum_list (map (\<lambda>r. fst (snd r)) (reasonItems (Some ov)))
     = (if so_blocked403 ov + so_blocked429 ov = 0 then 0
        else max (so_blocked403 ov) (so_blockedBot ov) + so_blocked429 ov)"
  by (simp add: reasonItems_def stat_def Let_def)

lemma folded_all: "fst (folded xs) @ (case snd (folded xs) of None \<Rightarrow> [] | Some ys \<Rightarrow> ys) = xs"
  by (simp add: folded_def)

definition security_inv :: "security_tab \<Rightarrow> bool" where
  "security_inv st \<longleftrightarrow> (\<forall>i. sc_metric st = Some i \<longrightarrow> i \<in> set metricIds) \<and>
     (sc_overview st \<noteq> None \<longrightarrow> \<not> sc_loading st)"

interpretation security_boards: invariant_machine security_step security_inv init_security
proof
  show "security_inv init_security" by (simp add: security_inv_def init_security_def)
  show "security_inv s \<Longrightarrow> security_inv (security_step s e)" for s e
  proof (cases e)
    case (SePolled a b c d)
    then show "security_inv s \<Longrightarrow> ?thesis"
      by (cases a; cases b; cases c; cases d) (simp_all add: security_inv_def security_polled_def)
  qed (auto simp: security_inv_def toggleMetric_def)
qed

text \<open>The menu of the hosts lists each domain of an answered server once, in order.\<close>

lemma menu_hosts:
  assumes "dp_alive st"
  shows "sorted (dp_domains (dashboard_domains ans st)) \<and> distinct (dp_domains (dashboard_domains ans st))"
  using assms domain_options_props by (simp add: dashboard_domains_def)

lemma left_dashboard: "dashboard_domains ans (leave_dashboard st) = leave_dashboard st"
  by (simp add: dashboard_domains_def leave_dashboard_def)

end
