(* ===== verification/AppShell.thy ===== *)
theory AppShell
  imports LoginPages UrlEncoding
begin

text \<open>
  The frame around the pages: the table of routes (\<open>web/src/App.tsx\<close>), the loaders of their chunks
  (\<open>routes/lazy-pages.ts\<close>), the side bar (\<open>components/app-sidebar.tsx\<close>), the layout with its title and
  its guard (\<open>pages/_layout/Desktop/index.tsx\<close>), the palette of commands
  (\<open>components/CommandPalette.tsx\<close>) and the theme (\<open>components/theme-provider.tsx\<close>,
  \<open>components/ui/theme-switch.tsx\<close>). Which route a path matches is the router's affair; the targets
  below are paths of the table as they stand.
\<close>

subsection \<open>Routes\<close>

datatype route_element = Page string | RedirectTo string | NotFoundPage | LoginPage

text \<open>The children of the layout with their full paths; a page is named by the key of its loader.\<close>

definition router :: "(string \<times> route_element) list" where
  "router =
     [(''/server'', Page ''/server''), (''/server/:id'', Page ''/server/:id''),
      (''/security/overview'', Page ''/security/overview''), (''/security/access'', Page ''/security/access''),
      (''/security/rate-limit'', Page ''/security/rate-limit''),
      (''/security/threats'', Page ''/security/threats''), (''/security/logs'', Page ''/security/logs''),
      (''/protect-config/blacklist'', RedirectTo ''/security/access''),
      (''/protect-config/whitelist'', RedirectTo ''/security/access''),
      (''/protect-config/rate-limit'', RedirectTo ''/security/rate-limit''),
      (''/protect-config/abnormal-ip'', RedirectTo ''/security/threats''),
      (''/dashboard'', Page ''/dashboard''), (''/'', Page ''/dashboard''), (''/cert'', Page ''/cert''),
      (''/about'', Page ''/about''), (''/setting'', Page ''/setting''), (''/filestorage'', Page ''/filestorage''),
      (''/tunnel'', Page ''/tunnel''), (''/cluster'', Page ''/cluster''),
      (''/stream-forward'', Page ''/stream-forward''), (''/*'', NotFoundPage), (''/login'', LoginPage)]"

definition PAGE_LOADERS :: "string list" where
  "PAGE_LOADERS = [''/dashboard'', ''/server'', ''/server/:id'', ''/stream-forward'', ''/tunnel'', ''/cluster'',
     ''/security/overview'', ''/security/access'', ''/security/rate-limit'', ''/security/threats'',
     ''/security/logs'', ''/cert'', ''/filestorage'', ''/setting'', ''/about'']"

text \<open>The paths whose chunk was asked for, and the calls of a loader that are out.\<close>

record preloads =
  pr_triggered :: "string list"
  pr_out :: "string list"

definition preloadRoute :: "string \<Rightarrow> preloads \<Rightarrow> preloads" where
  "preloadRoute path st =
     (if path \<in> set (pr_triggered st) then st
      else if path \<notin> set PAGE_LOADERS then st
      else st\<lparr>pr_triggered := pr_triggered st @ [path], pr_out := pr_out st @ [path]\<rparr>)"

text \<open>A loader settles; a failure makes the path new again.\<close>

definition preload_done :: "string \<Rightarrow> bool \<Rightarrow> preloads \<Rightarrow> preloads" where
  "preload_done path ok st =
     (if path \<notin> set (pr_out st) then st
      else st\<lparr>pr_out := remove1 path (pr_out st),
              pr_triggered := (if ok then pr_triggered st else removeAll path (pr_triggered st))\<rparr>)"

datatype preload_event = Hover string | Loaded string bool

fun preload_step :: "preloads \<Rightarrow> preload_event \<Rightarrow> preloads" where
  "preload_step st (Hover p) = preloadRoute p st"
| "preload_step st (Loaded p ok) = preload_done p ok st"

subsection \<open>The side bar\<close>

definition NAV_GROUPS :: "(string \<times> string) list list" where
  "NAV_GROUPS =
     [[(''dashboard'', ''/dashboard'')],
      [(''server'', ''/server''), (''stream-forward'', ''/stream-forward''), (''tunnel'', ''/tunnel''),
       (''cluster'', ''/cluster'')],
      [(''security-overview'', ''/security/overview''), (''security-access'', ''/security/access''),
       (''security-rate-limit'', ''/security/rate-limit''), (''security-threats'', ''/security/threats''),
       (''security-logs'', ''/security/logs''), (''cert'', ''/cert'')],
      [(''filestorage'', ''/filestorage'')],
      [(''setting'', ''/setting''), (''about'', ''/about'')]]"

definition normalizePath :: "string \<Rightarrow> string" where
  "normalizePath path =
     (if path = [] then ''/''
      else let n = rev (dropWhile (\<lambda>c. c = CHR ''/'') (rev path)) in if n \<noteq> [] then n else ''/'')"

definition isActivePath :: "string \<Rightarrow> string \<Rightarrow> bool" where
  "isActivePath pathname target_path =
     (let current = normalizePath pathname; target = normalizePath target_path in
      if target = ''/dashboard''
      then current = ''/'' \<or> current = ''/dashboard'' \<or> starts_with current ''/dashboard/''
      else current = target \<or> starts_with current (target @ ''/''))"

definition nav_targets :: "string list" where
  "nav_targets = map snd (concat NAV_GROUPS)"

definition active_items :: "string \<Rightarrow> string list" where
  "active_items pathname = filter (isActivePath pathname) nav_targets"

subsection \<open>The title\<close>

datatype page_title = TiReport | TiServer | TiStream | TiTunnel | TiCluster | TiCert | TiOverview | TiAccess
  | TiRate | TiThreats | TiLogs | TiFiles | TiSetting | TiAbout | TiSecurity | TiConsole

definition PAGE_TITLES :: "(string \<times> page_title) list" where
  "PAGE_TITLES =
     [(''dashboard'', TiReport), (''server'', TiServer), (''stream-forward'', TiStream), (''tunnel'', TiTunnel),
      (''cluster'', TiCluster), (''cert'', TiCert), (''security/overview'', TiOverview),
      (''security/access'', TiAccess), (''security/rate-limit'', TiRate), (''security/threats'', TiThreats),
      (''security/logs'', TiLogs), (''filestorage'', TiFiles), (''setting'', TiSetting), (''about'', TiAbout)]"

definition getPageTitle :: "string \<Rightarrow> page_title" where
  "getPageTitle pathname =
     (let key = dropWhile (\<lambda>c. c = CHR ''/'') pathname in
      if key = [] \<or> key = ''dashboard'' then TiReport
      else if starts_with key ''server/'' then TiServer
      else if starts_with key ''security/''
      then (case map_of PAGE_TITLES (join_with (CHR ''/'') (take 2 (split_on (CHR ''/'') key))) of
              Some t \<Rightarrow> t | None \<Rightarrow> TiSecurity)
      else (case map_of PAGE_TITLES key of
              Some t \<Rightarrow> t
            | None \<Rightarrow> (case map_of PAGE_TITLES (hd (split_on (CHR ''/'') key)) of
                Some t \<Rightarrow> t | None \<Rightarrow> TiConsole)))"

subsection \<open>The theme\<close>

datatype CtxTheme = CtxDark | CtxLight | CtxSystem

datatype theme_class = ClassLight | ClassDark

text \<open>The class the document root gets; \<open>dark\<close> is what the media query answers.\<close>

definition root_class :: "bool \<Rightarrow> CtxTheme \<Rightarrow> theme_class" where
  "root_class dark t =
     (case t of CtxSystem \<Rightarrow> if dark then ClassDark else ClassLight | CtxDark \<Rightarrow> ClassDark | CtxLight \<Rightarrow> ClassLight)"

definition ctx_of :: "Theme \<Rightarrow> CtxTheme" where
  "ctx_of t = (case t of Auto \<Rightarrow> CtxSystem | Light \<Rightarrow> CtxLight | Dark \<Rightarrow> CtxDark)"

text \<open>The mode the switch shows.\<close>

definition mode_of :: "CtxTheme \<Rightarrow> Theme" where
  "mode_of t = (case t of CtxSystem \<Rightarrow> Auto | CtxLight \<Rightarrow> Light | CtxDark \<Rightarrow> Dark)"

subsection \<open>The layout\<close>

record shell =
  sh_user :: user_store
  sh_ctx :: CtxTheme
  sh_ctx_stored :: "CtxTheme option"
  sh_class :: theme_class
  sh_command :: bool
  sh_token :: "string option"
  sh_path :: string

text \<open>\<open>setTheme\<close> of the provider, with the effect that follows.\<close>

definition set_ctx_theme :: "bool \<Rightarrow> CtxTheme \<Rightarrow> shell \<Rightarrow> shell" where
  "set_ctx_theme dark t st =
     st\<lparr>sh_ctx_stored := Some t, sh_ctx := t, sh_class := (if t = sh_ctx st then sh_class st else root_class dark t)\<rparr>"

definition set_user_theme :: "Theme \<Rightarrow> shell \<Rightarrow> shell" where
  "set_user_theme t st = st\<lparr>sh_user := setTheme t (sh_user st)\<rparr>"

text \<open>The effect on the theme of the user, and the guard on the token.\<close>

definition theme_effect :: "bool \<Rightarrow> shell \<Rightarrow> shell" where
  "theme_effect dark st = set_ctx_theme dark (ctx_of (us_theme (sh_user st))) st"

definition guard_effect :: "shell \<Rightarrow> shell" where
  "guard_effect st = (if sh_token st = None \<or> sh_token st = Some [] then st\<lparr>sh_path := ''/login''\<rparr> else st)"

definition mount_shell :: "bool \<Rightarrow> Theme option \<Rightarrow> CtxTheme option \<Rightarrow> string option \<Rightarrow> string \<Rightarrow> shell" where
  "mount_shell dark stored ctx_stored tok path =
     (let ctx = (case ctx_stored of None \<Rightarrow> CtxSystem | Some t \<Rightarrow> t) in
      guard_effect (theme_effect dark
        \<lparr>sh_user = init_user_store stored, sh_ctx = ctx, sh_ctx_stored = ctx_stored, sh_class = root_class dark ctx,
         sh_command = False, sh_token = tok, sh_path = path\<rparr>))"

definition handleLogout :: "shell \<Rightarrow> shell" where
  "handleLogout st = st\<lparr>sh_token := None, sh_path := ''/login''\<rparr>"

text \<open>The switch sets the provider first, then both again.\<close>

definition themeSwitch :: "bool \<Rightarrow> Theme \<Rightarrow> shell \<Rightarrow> shell" where
  "themeSwitch dark v st = set_ctx_theme dark (ctx_of v) (set_user_theme v (set_ctx_theme dark (ctx_of v) st))"

subsection \<open>The palette\<close>

datatype palette_command = GoTo string | PickTheme Theme | PaletteLogout

definition palette :: "palette_command list" where
  "palette =
     map GoTo [''/dashboard'', ''/server'', ''/stream-forward'', ''/tunnel'', ''/cluster'', ''/cert'', ''/filestorage''] @
     map GoTo [''/security/overview'', ''/security/access'', ''/security/rate-limit'', ''/security/threats'',
       ''/security/logs''] @
     [PickTheme Light, PickTheme Dark, PickTheme Auto, GoTo ''/setting'', GoTo ''/about'', PaletteLogout]"

definition runCommand :: "bool \<Rightarrow> palette_command \<Rightarrow> shell \<Rightarrow> shell" where
  "runCommand dark c st =
     (let st' = st\<lparr>sh_command := False\<rparr> in
      case c of
        GoTo p \<Rightarrow> st'\<lparr>sh_path := p\<rparr>
      | PickTheme t \<Rightarrow> set_ctx_theme dark (ctx_of t) (set_user_theme t st')
      | PaletteLogout \<Rightarrow> handleLogout st')"

datatype shell_event = ShKey bool char | ShSearch | ShPalette palette_command | ShDismiss | ShSwitch Theme
  | ShLogout | ShLink string

text \<open>\<open>dark\<close> is the media query at the event. A key is pressed with or without the modifier.\<close>

fun shell_step :: "shell \<Rightarrow> bool \<times> shell_event \<Rightarrow> shell" where
  "shell_step st (dark, ShKey modifier c) =
     (if modifier \<and> js_lower_char c = CHR ''k'' then st\<lparr>sh_command := \<not> sh_command st\<rparr> else st)"
| "shell_step st (dark, ShSearch) = st\<lparr>sh_command := True\<rparr>"
| "shell_step st (dark, ShPalette c) =
     (if sh_command st \<and> c \<in> set palette then runCommand dark c st else st)"
| "shell_step st (dark, ShDismiss) = st\<lparr>sh_command := False\<rparr>"
| "shell_step st (dark, ShSwitch t) = themeSwitch dark t st"
| "shell_step st (dark, ShLogout) = handleLogout st"
| "shell_step st (dark, ShLink p) = (if p \<in> set nav_targets then st\<lparr>sh_path := p\<rparr> else st)"

subsection \<open>Laws\<close>

text \<open>Every target of the side bar, of the palette and of a redirect is a route with a page and a loader.\<close>

definition leads_to_page :: "string \<Rightarrow> bool" where
  "leads_to_page p \<longleftrightarrow> map_of router p = Some (Page p) \<and> p \<in> set PAGE_LOADERS"

lemma no_dead_links:
  "list_all leads_to_page nav_targets"
  "list_all (\<lambda>c. case c of GoTo p \<Rightarrow> leads_to_page p | _ \<Rightarrow> True) palette"
  "list_all (\<lambda>(p, e). case e of RedirectTo q \<Rightarrow> leads_to_page q | Page k \<Rightarrow> k \<in> set PAGE_LOADERS | _ \<Rightarrow> True) router"
  by code_simp+

lemma routes_distinct: "distinct (map fst router)" "distinct PAGE_LOADERS" "distinct nav_targets"
  by code_simp+

text \<open>One call per path at a time, and none for a path that is loaded.\<close>

definition preload_inv :: "preloads \<Rightarrow> bool" where
  "preload_inv st \<longleftrightarrow> distinct (pr_out st) \<and> distinct (pr_triggered st) \<and>
     set (pr_out st) \<subseteq> set (pr_triggered st) \<and> set (pr_triggered st) \<subseteq> set PAGE_LOADERS"

interpretation preloading: invariant_machine preload_step preload_inv "\<lparr>pr_triggered = [], pr_out = []\<rparr>"
proof
  show "preload_inv \<lparr>pr_triggered = [], pr_out = []\<rparr>" by (simp add: preload_inv_def)
  show "preload_inv s \<Longrightarrow> preload_inv (preload_step s e)" for s e
    by (cases e) (auto simp: preload_inv_def preloadRoute_def preload_done_def distinct_removeAll)
qed

lemma starts_with_same_end:
  assumes "starts_with (a @ [c]) (b @ [c])"
  shows "a = b \<or> starts_with a (b @ [c])"
proof -
  obtain r where r: "a @ [c] = (b @ [c]) @ r" using assms by (auto simp: starts_with_iff)
  show ?thesis
  proof (cases r rule: rev_cases)
    case Nil
    then show ?thesis using r by simp
  next
    case (snoc r' x)
    then have "a = (b @ [c]) @ r'" using r by auto
    then show ?thesis using starts_with_append [of "b @ [c]" r'] by simp
  qed
qed

text \<open>On no path are two entries of the side bar marked.\<close>

lemma active_two:
  assumes "isActivePath p a" and "isActivePath p b"
    and "normalizePath a = a" and "normalizePath b = b" and "a \<noteq> ''/dashboard''" and "b \<noteq> ''/dashboard''"
  shows "a = b \<or> starts_with a (b @ ''/'') \<or> starts_with b (a @ ''/'')"
proof -
  let ?c = "normalizePath p"
  have a: "?c = a \<or> starts_with ?c (a @ ''/'')" and b: "?c = b \<or> starts_with ?c (b @ ''/'')"
    using assms by (simp_all add: isActivePath_def Let_def)
  show ?thesis
  proof (cases "?c = a \<or> ?c = b")
    case True
    then show ?thesis using a b by auto
  next
    case False
    then have "starts_with ?c (a @ ''/'')" "starts_with ?c (b @ ''/'')" using a b by auto
    then have "starts_with (a @ ''/'') (b @ ''/'') \<or> starts_with (b @ ''/'') (a @ ''/'')"
      by (rule starts_with_linear)
    then show ?thesis using starts_with_same_end [of a "CHR ''/''" b] starts_with_same_end [of b "CHR ''/''" a] by blast
  qed
qed

lemma targets_apart:
  "list_all (\<lambda>a. normalizePath a = a) nav_targets"
  "list_all (\<lambda>a. list_all (\<lambda>b. \<not> starts_with a (b @ ''/'')) nav_targets) nav_targets"
  "list_all (\<lambda>b. b = ''/dashboard'' \<or> \<not> starts_with ''/'' (b @ ''/'') \<and> \<not> starts_with ''/dashboard'' (b @ ''/'') \<and>
     \<not> starts_with (b @ ''/'') ''/dashboard/'' \<and> \<not> starts_with ''/dashboard/'' (b @ ''/'') \<and> b \<noteq> ''/'' \<and>
     \<not> starts_with b ''/dashboard/'') nav_targets"
  by code_simp+

lemma dashboard_alone:
  assumes "isActivePath p ''/dashboard''" and "isActivePath p b" and "b \<in> set nav_targets"
  shows "b = ''/dashboard''"
proof (rule ccontr)
  assume nb: "b \<noteq> ''/dashboard''"
  let ?c = "normalizePath p"
  have n: "normalizePath b = b" "normalizePath ''/dashboard'' = ''/dashboard''"
    using assms(3) targets_apart(1) by (auto simp: list_all_iff nav_targets_def NAV_GROUPS_def)
  have c: "?c = ''/'' \<or> ?c = ''/dashboard'' \<or> starts_with ?c ''/dashboard/''"
    using assms(1) n(2) by (simp add: isActivePath_def Let_def)
  have d: "?c = b \<or> starts_with ?c (b @ ''/'')"
    using assms(2) n(1) nb by (simp add: isActivePath_def Let_def)
  have f: "\<not> starts_with ''/'' (b @ ''/'')" "\<not> starts_with ''/dashboard'' (b @ ''/'')"
    "\<not> starts_with (b @ ''/'') ''/dashboard/''" "\<not> starts_with ''/dashboard/'' (b @ ''/'')" "b \<noteq> ''/''"
    "\<not> starts_with b ''/dashboard/''"
    using assms(3) nb targets_apart(3) unfolding list_all_iff by blast+
  show False using c d f nb starts_with_linear [of ?c "b @ ''/''" "''/dashboard/''"] by auto
qed

lemma one_active: "length (active_items p) \<le> 1"
proof -
  have same: "a = b" if a: "a \<in> set (active_items p)" and b: "b \<in> set (active_items p)" for a b
  proof -
    have ab: "a \<in> set nav_targets" "b \<in> set nav_targets" "isActivePath p a" "isActivePath p b"
      using a b by (simp_all add: active_items_def)
    show "a = b"
    proof (cases "a = ''/dashboard'' \<or> b = ''/dashboard''")
      case True
      then show ?thesis using dashboard_alone ab by blast
    next
      case False
      have "\<not> starts_with a (b @ ''/'')" "\<not> starts_with b (a @ ''/'')" "normalizePath a = a" "normalizePath b = b"
        using ab targets_apart(1,2) by (simp_all add: list_all_iff)
      then show ?thesis using active_two [OF ab(3,4)] False by blast
    qed
  qed
  have "distinct (active_items p)" unfolding active_items_def by (intro distinct_filter routes_distinct(3))
  then show ?thesis
  proof (cases "active_items p")
    case (Cons a xs)
    have "xs = []"
    proof (rule ccontr)
      assume "xs \<noteq> []"
      then obtain b ys where "xs = b # ys" by (cases xs) auto
      then show False using Cons same [of a b] \<open>distinct (active_items p)\<close> by auto
    qed
    then show ?thesis using Cons by simp
  qed simp
qed

text \<open>The theme of the provider is that of the user once the effect has run, and stays so.\<close>

definition shell_inv :: "shell \<Rightarrow> bool" where
  "shell_inv st \<longleftrightarrow> sh_ctx st = ctx_of (us_theme (sh_user st)) \<and> sh_ctx_stored st = Some (sh_ctx st) \<and>
     (sh_ctx st \<noteq> CtxSystem \<longrightarrow> sh_class st = root_class False (sh_ctx st))"

interpretation shells: invariant_machine shell_step shell_inv "mount_shell dark stored ctx_stored tok path"
  for dark stored ctx_stored tok path
proof
  show "shell_inv (mount_shell dark stored ctx_stored tok path)"
    by (auto simp: shell_inv_def mount_shell_def guard_effect_def theme_effect_def set_ctx_theme_def root_class_def
        Let_def split: CtxTheme.splits)
  show "shell_inv s \<Longrightarrow> shell_inv (shell_step s e)" for s e
  proof (cases e)
    case (Pair d ev)
    show "shell_inv s \<Longrightarrow> ?thesis"
    proof (cases ev)
      case (ShPalette c)
      then show "shell_inv s \<Longrightarrow> ?thesis" using Pair
        by (cases c) (auto simp: shell_inv_def runCommand_def set_ctx_theme_def set_user_theme_def setTheme_def
            handleLogout_def root_class_def Let_def split: CtxTheme.splits)
    next
      case (ShSwitch t)
      then show "shell_inv s \<Longrightarrow> ?thesis" using Pair
        by (auto simp: shell_inv_def themeSwitch_def set_ctx_theme_def set_user_theme_def setTheme_def root_class_def
            split: CtxTheme.splits)
    qed (use Pair in \<open>auto simp: shell_inv_def handleLogout_def\<close>)
  qed
qed

lemma switch_shows_choice: "mode_of (sh_ctx (themeSwitch d v st)) = v"
  by (cases v) (simp_all add: themeSwitch_def set_ctx_theme_def set_user_theme_def ctx_of_def mode_of_def)

text \<open>Without a token the layout leaves for the login, and logging out takes the token away.\<close>

lemma no_token_leaves: "sh_token st = None \<Longrightarrow> sh_path (guard_effect st) = ''/login''"
  by (simp add: guard_effect_def)

lemma logged_out: "guard_effect (handleLogout st) = handleLogout st"
  by (simp add: guard_effect_def handleLogout_def)

lemma title_examples:
  "getPageTitle ''/'' = TiReport" "getPageTitle ''/server/7'' = TiServer"
  "getPageTitle ''/security/logs/x'' = TiLogs" "getPageTitle ''/security/other'' = TiSecurity"
  "getPageTitle ''/nowhere'' = TiConsole"
  by code_simp+

end
