(* ===== verification/AboutPage.thy ===== *)
theory AboutPage
  imports LoginPages ServiceResult JsNumber
begin

text \<open>
  The page about the gateway (\<open>web/src/pages/about/page.tsx\<close>): the facts of the running process, the
  text of its uptime, and the list of contributors with its cache of six hours. \<open>JSON.parse\<close> of the
  cached text is a parameter: an event carries what it gave.
\<close>

subsection \<open>Formats\<close>

text \<open>A fact is missing, a text or a number; \<open>''-''\<close> stands for none.\<close>

datatype fact = NoFact | TextFact string | NumberFact nat

definition formatValue :: "fact \<Rightarrow> string" where
  "formatValue v =
     (case v of NoFact \<Rightarrow> ''-'' | TextFact s \<Rightarrow> if js_trim s \<noteq> [] then s else ''-'' | NumberFact n \<Rightarrow> nat_to_string n)"

datatype uptime_part = Days nat | Hours nat | Minutes nat

datatype uptime = UptimeNone | UptimeSeconds nat | UptimeParts "uptime_part list"

definition uptime_parts :: "nat \<Rightarrow> nat \<Rightarrow> nat \<Rightarrow> uptime_part list" where
  "uptime_parts d h m =
     (let ps = (if d \<noteq> 0 then [Days d] else []) @ (if h \<noteq> 0 then [Hours h] else []) in
      ps @ (if m \<noteq> 0 \<or> ps = [] then [Minutes m] else []))"

definition formatUptime :: "rat option \<Rightarrow> uptime" where
  "formatUptime seconds =
     (case seconds of
        None \<Rightarrow> UptimeNone
      | Some q \<Rightarrow>
          let t = nat (max 0 \<lfloor>q\<rfloor>) in
          if t < 60 then UptimeSeconds t
          else UptimeParts (uptime_parts (t div 86400) ((t mod 86400) div 3600) ((t mod 3600) div 60)))"

subsection \<open>The gateway\<close>

record GatewayInfo =
  gw_version :: "string option"
  gw_framework :: "string option"
  gw_os :: "string option"
  gw_name :: "string option"
  gw_informationalVersion :: "string option"
  gw_fileVersion :: "string option"
  gw_product :: "string option"
  gw_description :: "string option"
  gw_yarpVersion :: "string option"
  gw_osArchitecture :: "string option"
  gw_processArchitecture :: "string option"
  gw_machineName :: "string option"
  gw_environmentName :: "string option"
  gw_serverTime :: "string option"
  gw_processId :: "nat option"
  gw_processStartTime :: "string option"
  gw_uptimeSeconds :: "rat option"

datatype info_error = InfoRefused "string option" | InfoThrown err_text

record about_page =
  ab_info :: "GatewayInfo option"
  ab_loading :: bool
  ab_error :: "info_error option"
  ab_lastUpdated :: "nat option"

definition init_about :: about_page where
  "init_about = \<lparr>ab_info = None, ab_loading = True, ab_error = None, ab_lastUpdated = None\<rparr>"

definition loadGatewayInfo :: "about_page \<Rightarrow> about_page" where
  "loadGatewayInfo st = st\<lparr>ab_loading := True, ab_error := None\<rparr>"

text \<open>\<open>now\<close> is the clock when the answer arrives.\<close>

definition loadGatewayInfo_done :: "nat \<Rightarrow> GatewayInfo settled \<Rightarrow> about_page \<Rightarrow> about_page" where
  "loadGatewayInfo_done now s st =
     (case s of
        Resolved r \<Rightarrow>
          if success r then st\<lparr>ab_info := resp_data r, ab_lastUpdated := Some now, ab_loading := False\<rparr>
          else st\<lparr>ab_info := None, ab_loading := False,
                  ab_error := Some (InfoRefused (case resp_message r of None \<Rightarrow> None
                    | Some m \<Rightarrow> if m = [] then None else Some m))\<rparr>
      | Rejected e \<Rightarrow> st\<lparr>ab_info := None, ab_error := Some (InfoThrown e), ab_loading := False\<rparr>)"

definition refresh_info :: "about_page \<Rightarrow> about_page" where
  "refresh_info st = (if ab_loading st then st else loadGatewayInfo st)"

definition text_fact :: "(GatewayInfo \<Rightarrow> string option) \<Rightarrow> about_page \<Rightarrow> fact" where
  "text_fact f st =
     (case ab_info st of None \<Rightarrow> NoFact | Some i \<Rightarrow> (case f i of None \<Rightarrow> NoFact | Some t \<Rightarrow> TextFact t))"

definition buildRows :: "about_page \<Rightarrow> string list" where
  "buildRows st = map (\<lambda>f. formatValue (text_fact f st))
     [gw_version, gw_name, gw_product, gw_informationalVersion, gw_fileVersion, gw_yarpVersion]"

definition runtimeRows :: "about_page \<Rightarrow> string list \<times> uptime" where
  "runtimeRows st =
     (map (\<lambda>f. formatValue (text_fact f st))
        [gw_framework, gw_os, gw_osArchitecture, gw_processArchitecture, gw_environmentName, gw_machineName] @
      [formatValue (case ab_info st of None \<Rightarrow> NoFact
         | Some i \<Rightarrow> (case gw_processId i of None \<Rightarrow> NoFact | Some n \<Rightarrow> NumberFact n))] @
      map (\<lambda>f. formatValue (text_fact f st)) [gw_serverTime, gw_processStartTime],
      formatUptime (case ab_info st of None \<Rightarrow> None | Some i \<Rightarrow> gw_uptimeSeconds i))"

text \<open>A table: rows, or as many placeholders, six at least, while loading.\<close>

definition InfoTable :: "'r list \<Rightarrow> bool \<Rightarrow> nat + 'r list" where
  "InfoTable rows loading =
     (if loading then Inl (max 6 (if length rows = 0 then 6 else length rows)) else Inr rows)"

subsection \<open>Contributors\<close>

record GitHubContributor =
  gc_login :: string
  gc_avatar_url :: string
  gc_html_url :: string
  gc_contributions :: nat

record github_item =
  gh_login :: "string option"
  gh_avatar_url :: "string option"
  gh_html_url :: "string option"
  gh_contributions :: "nat option"

datatype contributors_error = GithubStatus nat | GithubShape | GithubThrown

text \<open>The cache: the parsed entry, where there is one that parses.\<close>

type_synonym contributors_cache = "(nat \<times> GitHubContributor list option) option"

record community =
  cm_list :: "GitHubContributor list"
  cm_loading :: bool
  cm_error :: "contributors_error option"
  cm_cache :: contributors_cache

definition CONTRIBUTORS_CACHE_TTL_MS :: nat where "CONTRIBUTORS_CACHE_TTL_MS = 6 * 60 * 60 * 1000"
definition CONTRIBUTORS_DISPLAY_LIMIT :: nat where "CONTRIBUTORS_DISPLAY_LIMIT = 12"

definition init_community :: "contributors_cache \<Rightarrow> community" where
  "init_community cache = \<lparr>cm_list = [], cm_loading = True, cm_error = None, cm_cache = cache\<rparr>"

definition cached_contributors :: "nat \<Rightarrow> contributors_cache \<Rightarrow> GitHubContributor list option" where
  "cached_contributors now cache =
     (case cache of
        Some (t, Some xs) \<Rightarrow>
          if t \<noteq> 0 \<and> int now - int t < int CONTRIBUTORS_CACHE_TTL_MS then Some xs else None
      | _ \<Rightarrow> None)"

text \<open>The flag says whether the API is asked.\<close>

definition loadContributors :: "bool \<Rightarrow> nat \<Rightarrow> community \<Rightarrow> community \<times> bool" where
  "loadContributors force now st =
     (case (if force then None else cached_contributors now (cm_cache st)) of
        Some xs \<Rightarrow> (st\<lparr>cm_list := xs, cm_error := None, cm_loading := False\<rparr>, False)
      | None \<Rightarrow> (st\<lparr>cm_loading := True, cm_error := None\<rparr>, True))"

definition truthy :: "string option \<Rightarrow> bool" where
  "truthy s \<longleftrightarrow> s \<noteq> None \<and> s \<noteq> Some []"

definition normalize_contributors :: "github_item list \<Rightarrow> GitHubContributor list" where
  "normalize_contributors items =
     map (\<lambda>i. \<lparr>gc_login = the (gh_login i), gc_avatar_url = the (gh_avatar_url i), gc_html_url = the (gh_html_url i),
           gc_contributions = (case gh_contributions i of None \<Rightarrow> 0 | Some n \<Rightarrow> n)\<rparr>)
       (filter (\<lambda>i. truthy (gh_login i) \<and> truthy (gh_avatar_url i) \<and> truthy (gh_html_url i)) items)"

datatype github_answer = GhRejected | GhStatus nat | GhOther | GhItems "github_item list"

text \<open>\<open>stored\<close> says whether the storage took the new entry, \<open>now\<close> is the clock then.\<close>

definition loadContributors_done :: "bool \<Rightarrow> nat \<Rightarrow> github_answer \<Rightarrow> community \<Rightarrow> community" where
  "loadContributors_done stored now a st =
     (case a of
        GhItems items \<Rightarrow>
          let xs = normalize_contributors items in
          st\<lparr>cm_list := xs, cm_loading := False, cm_cache := (if stored then Some (now, Some xs) else cm_cache st)\<rparr>
      | GhStatus c \<Rightarrow> st\<lparr>cm_list := [], cm_error := Some (GithubStatus c), cm_loading := False\<rparr>
      | GhOther \<Rightarrow> st\<lparr>cm_list := [], cm_error := Some GithubShape, cm_loading := False\<rparr>
      | GhRejected \<Rightarrow> st\<lparr>cm_list := [], cm_error := Some GithubThrown, cm_loading := False\<rparr>)"

definition visibleContributors :: "community \<Rightarrow> GitHubContributor list" where
  "visibleContributors st = take CONTRIBUTORS_DISPLAY_LIMIT (cm_list st)"

definition remainingContributors :: "community \<Rightarrow> nat" where
  "remainingContributors st = length (cm_list st) - length (visibleContributors st)"

datatype community_view = CommunityLoading | CommunityNone
  | CommunityShown "(string \<times> string \<times> nat) list" "nat option"

text \<open>The refresh button is part of the shown list only.\<close>

definition community_view_of :: "community \<Rightarrow> community_view" where
  "community_view_of st =
     (if cm_loading st then CommunityLoading
      else if visibleContributors st = [] then CommunityNone
      else CommunityShown (map (\<lambda>c. (gc_login c, gc_html_url c, gc_contributions c)) (visibleContributors st))
             (if 0 < remainingContributors st then Some (remainingContributors st) else None))"

definition refresh_community :: "nat \<Rightarrow> community \<Rightarrow> community \<times> bool" where
  "refresh_community now st =
     (case community_view_of st of CommunityShown xs n \<Rightarrow> loadContributors True now st | _ \<Rightarrow> (st, False))"

subsection \<open>Laws\<close>

fun part_minutes :: "uptime_part \<Rightarrow> nat" where
  "part_minutes (Days d) = 1440 * d"
| "part_minutes (Hours h) = 60 * h"
| "part_minutes (Minutes m) = m"

lemma uptime_parts_sum: "sum_list (map part_minutes (uptime_parts d h m)) = 1440 * d + 60 * h + m \<and> uptime_parts d h m \<noteq> []"
  by (simp add: uptime_parts_def)

text \<open>The parts of an uptime add up to its whole minutes.\<close>

lemma uptime_exact:
  assumes "formatUptime (Some q) = UptimeParts ps"
  shows "sum_list (map part_minutes ps) = nat \<lfloor>q\<rfloor> div 60 \<and> ps \<noteq> []"
proof -
  let ?t = "nat \<lfloor>q\<rfloor>"
  have "nat (max 0 \<lfloor>q\<rfloor>) = ?t" by simp
  then have ps: "ps = uptime_parts (?t div 86400) ((?t mod 86400) div 3600) ((?t mod 3600) div 60)"
    using assms by (simp only: formatUptime_def option.case Let_def uptime.inject split: if_splits) simp_all
  have "?t div 60 = 1440 * (?t div 86400) + 60 * ((?t mod 86400) div 3600) + (?t mod 3600) div 60"
  proof -
    have "?t = 86400 * (?t div 86400) + ?t mod 86400" by simp
    also have "?t mod 86400 = 3600 * (?t mod 86400 div 3600) + ?t mod 86400 mod 3600" by simp
    also have "?t mod 86400 mod 3600 = ?t mod 3600" by (rule mod_mod_cancel) simp
    finally have t_eq: "?t = 86400 * (?t div 86400) + (3600 * (?t mod 86400 div 3600) + ?t mod 3600)" .
    have "x = 86400 * d + (3600 * h + r) \<Longrightarrow> x = r + 60 * (1440 * d + 60 * h)" for x d h r :: nat by simp
    then have "?t = ?t mod 3600 + 60 * (1440 * (?t div 86400) + 60 * (?t mod 86400 div 3600))" using t_eq .
    then have "?t div 60 = (?t mod 3600 + 60 * (1440 * (?t div 86400) + 60 * (?t mod 86400 div 3600))) div 60"
      by (rule arg_cong)
    also have "\<dots> = (1440 * (?t div 86400) + 60 * (?t mod 86400 div 3600)) + ?t mod 3600 div 60"
      by (rule div_mult_self2) simp
    finally show ?thesis .
  qed
  then show ?thesis
    using uptime_parts_sum [of "?t div 86400" "(?t mod 86400) div 3600" "(?t mod 3600) div 60"]
    unfolding ps by (simp only:) blast
qed

lemma uptime_small: "\<lfloor>q\<rfloor> < 60 \<Longrightarrow> formatUptime (Some q) = UptimeSeconds (nat \<lfloor>q\<rfloor>)"
proof -
  assume "\<lfloor>q\<rfloor> < 60"
  then have "nat (max 0 \<lfloor>q\<rfloor>) = nat \<lfloor>q\<rfloor>" and "nat \<lfloor>q\<rfloor> < 60" by linarith+
  then show ?thesis by (simp only: formatUptime_def option.case Let_def if_True)
qed

text \<open>Within six hours of an answer the page shows it again without asking.\<close>

lemma cache_hit:
  assumes "0 < t" and "t \<le> now" and "now < t + CONTRIBUTORS_CACHE_TTL_MS"
    and "cm_cache st' = cm_cache (loadContributors_done True t (GhItems items) st)"
  shows "snd (loadContributors False now st') = False"
    and "cm_list (fst (loadContributors False now st')) = normalize_contributors items"
  using assms by (simp_all add: loadContributors_def loadContributors_done_def cached_contributors_def Let_def)

lemma cache_expired:
  assumes "cm_cache st = Some (t, d)" and "t + CONTRIBUTORS_CACHE_TTL_MS \<le> now"
  shows "snd (loadContributors False now st)"
  using assms by (auto simp: loadContributors_def cached_contributors_def split: option.splits)

text \<open>What is shown has a name, a picture and a page, and nobody is lost from the count.\<close>

lemma normalized_complete:
  "c \<in> set (normalize_contributors items) \<Longrightarrow> gc_login c \<noteq> [] \<and> gc_avatar_url c \<noteq> [] \<and> gc_html_url c \<noteq> []"
  by (auto simp: normalize_contributors_def truthy_def)

lemma all_counted: "length (visibleContributors st) + remainingContributors st = length (cm_list st)"
  by (simp add: visibleContributors_def remainingContributors_def)

text \<open>After a failure the view has no button: the list comes back with the next visit only.\<close>

lemma failure_has_no_refresh:
  assumes "a = GhRejected \<or> a = GhStatus c \<or> a = GhOther"
  shows "refresh_community now (loadContributors_done s n a st) = (loadContributors_done s n a st, False)"
  using assms by (auto simp: refresh_community_def community_view_of_def loadContributors_done_def visibleContributors_def)

text \<open>An error is shown only without facts, and loading ends either way.\<close>

definition about_inv :: "about_page \<Rightarrow> bool" where
  "about_inv st \<longleftrightarrow> (ab_error st \<noteq> None \<longrightarrow> ab_info st = None \<and> \<not> ab_loading st)"

datatype about_event = AbRefresh | AbAnswer nat "GatewayInfo settled"

fun about_step :: "about_page \<Rightarrow> about_event \<Rightarrow> about_page" where
  "about_step st AbRefresh = refresh_info st"
| "about_step st (AbAnswer n s) = (if ab_loading st then loadGatewayInfo_done n s st else st)"

interpretation abouts: invariant_machine about_step about_inv "loadGatewayInfo init_about"
proof
  show "about_inv (loadGatewayInfo init_about)" by (simp add: about_inv_def loadGatewayInfo_def)
  show "about_inv s \<Longrightarrow> about_inv (about_step s e)" for s e
  proof (cases e)
    case AbRefresh
    then show "about_inv s \<Longrightarrow> ?thesis" by (auto simp: about_inv_def refresh_info_def loadGatewayInfo_def)
  next
    case (AbAnswer n a)
    then show "about_inv s \<Longrightarrow> ?thesis" by (cases a) (auto simp: about_inv_def loadGatewayInfo_done_def)
  qed
qed

end
