(* ===== verification/BoardProperties.thy ===== *)
theory BoardProperties
  imports Dashboard RoutePage AppShell AboutPage
begin

text \<open>
  The properties of the dashboard's boards and of the frame around the pages.
\<close>

lemma geo_sum_of_mset:
  "geo_sum f name xs = sum_mset (image_mset f (filter_mset (\<lambda>x. gi_name x = name) (mset xs)))"
  by (induction xs) (simp_all add: geo_sum_def)

lemma geo_sum_mset: "mset xs = mset ys \<Longrightarrow> geo_sum f name xs = geo_sum f name ys"
  by (simp add: geo_sum_of_mset)

lemma displayItems_world:
  "gc_scope st = World \<Longrightarrow> mset (displayItems st) = mset (merge_geo (gc_items st))"
  by (simp add: displayItems_def)

lemma displayItems_sorted:
  assumes "gc_scope st = World"
  shows "sorted_wrt (\<lambda>a b. valueOf (gc_mode st) b \<le> valueOf (gc_mode st) a) (displayItems st)"
proof -
  have "sorted_wrt (\<lambda>a b. int (valueOf (gc_mode st) b) - int (valueOf (gc_mode st) a) \<le> 0) (displayItems st)"
    unfolding displayItems_def using sorted_wrt_js_sort [OF consistent_desc, of "valueOf (gc_mode st)"] assms by auto
  then show ?thesis by (rule sorted_wrt_mono_rel [rotated]) simp
qed

text \<open>
  C37. In the scope of the world every place is shown once: the names are those of the answer after
  normalisation, each with exactly the sum of its counts and of its blocked requests; the places
  come in descending order of the value of the mode, and the list holds the first eight of them.
\<close>

theorem dashboard_places_exact:
  assumes "gc_scope st = World"
  shows "distinct (map gi_name (displayItems st)) \<and>
    geo_sum gi_count name (displayItems st) = geo_sum_raw gi_count name (gc_items st) \<and>
    geo_sum gi_blocked name (displayItems st) = geo_sum_raw gi_blocked name (gc_items st) \<and>
    sorted_wrt (\<lambda>a b. valueOf (gc_mode st) b \<le> valueOf (gc_mode st) a) (displayItems st) \<and>
    topItems st = take 8 (displayItems st)"
proof -
  have m: "mset (displayItems st) = mset (merge_geo (gc_items st))" by (rule displayItems_world [OF assms])
  then have "mset (map gi_name (displayItems st)) = mset (map gi_name (merge_geo (gc_items st)))" by simp
  from mset_eq_imp_distinct_iff [OF this] have "distinct (map gi_name (displayItems st))"
    using merge_geo_exact(1) [of gi_count "gc_items st"] by (simp add: geo_values_def)
  moreover have "geo_sum f name (displayItems st) = geo_sum_raw f name (gc_items st)" if "geo_values f" for f
    using geo_sum_mset [OF m] merge_geo_exact(2) [OF that] by simp
  ultimately show ?thesis
    using displayItems_sorted [OF assms] by (simp add: geo_values_def topItems_def)
qed

definition demo_places :: "GeoItem list" where
  "demo_places =
     [\<lparr>gi_name = us ''USA'', gi_count = 3, gi_blocked = 1, gi_percent = 0\<rparr>,
      \<lparr>gi_name = us ''China'', gi_count = 4, gi_blocked = 0, gi_percent = 0\<rparr>,
      \<lparr>gi_name = us ''US'', gi_count = 2, gi_blocked = 2, gi_percent = 0\<rparr>]"

theorem dashboard_places_exact_witness:
  "geo_sum gi_count [0x7F8E, 0x56FD] (displayItems (geo_polled (Some demo_places) init_geo)) = 5 \<and>
   map gi_count (topItems (geo_polled (Some demo_places) init_geo)) = [5, 4]"
proof -
  let ?st = "geo_polled (Some demo_places) init_geo"
  have "gc_scope ?st = World" by (simp add: geo_polled_def init_geo_def)
  from dashboard_places_exact [OF this, of "[0x7F8E, 0x56FD]"]
  have "geo_sum gi_count [0x7F8E, 0x56FD] (displayItems ?st) = geo_sum_raw gi_count [0x7F8E, 0x56FD] demo_places"
    by (simp add: geo_polled_def)
  moreover have "geo_sum_raw gi_count [0x7F8E, 0x56FD] demo_places = 5" by code_simp
  moreover have "map gi_count (topItems ?st) = [5, 4]" by code_simp
  ultimately show ?thesis by simp
qed

end
