(* ===== verification/PagedLoads.thy ===== *)
theory PagedLoads
  imports FormDialog
begin

text \<open>
  A page that shows one page of a list at a time. Its effect sends a load whenever what it asks for
  (the key: the page number, its size, a kind) is another after a commit; handlers and their
  continuations send further loads, with the key of the render in which they were made. The loads
  that are out are answered in any order. \<open>paged_list\<close> is the contract of such a page;
  \<open>steady_list\<close> of one whose answers leave the key alone, \<open>following_list\<close> of one whose answers set
  the key to the one that was asked for.
\<close>

text \<open>A user event changes the page and sends loads of its own; an answer comes with the key of its load.\<close>

record ('s, 'k, 'u, 'a) paged_ops =
  pg_key :: "'s \<Rightarrow> 'k"
  pg_start :: "'k \<Rightarrow> 's \<Rightarrow> 's"
  pg_act :: "'u \<Rightarrow> 's \<Rightarrow> 's \<times> 'k list"
  pg_arrive :: "'k \<Rightarrow> 'a \<Rightarrow> 's \<Rightarrow> 's"

record ('s, 'k) paged_sys =
  ps_page :: 's
  ps_loads :: "'k list"

datatype ('u, 'a) paged_event = PgUser 'u | PgAnswer nat 'a

text \<open>The effect after a commit.\<close>

definition pg_commit ::
  "('s, 'k, 'u, 'a) paged_ops \<Rightarrow> 's \<Rightarrow> ('s, 'k) paged_sys \<Rightarrow> ('s, 'k) paged_sys" where
  "pg_commit po before s =
     (let k = pg_key po (ps_page s) in
      if pg_key po before = k then s
      else s\<lparr>ps_page := pg_start po k (ps_page s), ps_loads := ps_loads s @ [k]\<rparr>)"

fun paged_step ::
  "('s, 'k, 'u, 'a) paged_ops \<Rightarrow> ('s, 'k) paged_sys \<Rightarrow> ('u, 'a) paged_event \<Rightarrow> ('s, 'k) paged_sys" where
  "paged_step po s (PgUser u) =
     (case pg_act po u (ps_page s) of
        (p, ks) \<Rightarrow> pg_commit po (ps_page s) (s\<lparr>ps_page := p, ps_loads := ps_loads s @ ks\<rparr>))"
| "paged_step po s (PgAnswer n a) =
     (if length (ps_loads s) \<le> n then s
      else pg_commit po (ps_page s)
        (s\<lparr>ps_page := pg_arrive po (ps_loads s ! n) a (ps_page s), ps_loads := remove_nth n (ps_loads s)\<rparr>))"

text \<open>The first render loads.\<close>

definition pg_mount :: "('s, 'k, 'u, 'a) paged_ops \<Rightarrow> 's \<Rightarrow> ('s, 'k) paged_sys" where
  "pg_mount po p = \<lparr>ps_page = pg_start po (pg_key po p) p, ps_loads = [pg_key po p]\<rparr>"

text \<open>
  A course in which answers come in order, continuations load what the page asks for by then, and
  the answer to a load after which nothing is out is good; the others may fail.
\<close>

fun in_turn ::
  "('s, 'k, 'u, 'a) paged_ops \<Rightarrow> ('k \<Rightarrow> 'a \<Rightarrow> bool) \<Rightarrow> ('s, 'k) paged_sys \<Rightarrow> ('u, 'a) paged_event \<Rightarrow> bool" where
  "in_turn po good s (PgUser u) \<longleftrightarrow>
     (case pg_act po u (ps_page s) of (p, ks) \<Rightarrow> \<forall>k\<in>set ks. k = pg_key po p)"
| "in_turn po good s (PgAnswer n a) \<longleftrightarrow> n = 0 \<and> (case ps_loads s of [k] \<Rightarrow> good k a | _ \<Rightarrow> True)"

fun in_turn_run ::
  "('s, 'k, 'u, 'a) paged_ops \<Rightarrow> ('k \<Rightarrow> 'a \<Rightarrow> bool) \<Rightarrow> ('s, 'k) paged_sys \<Rightarrow> ('u, 'a) paged_event list \<Rightarrow> bool" where
  "in_turn_run po good s [] = True"
| "in_turn_run po good s (e # es) \<longleftrightarrow> in_turn po good s e \<and> in_turn_run po good (paged_step po s e) es"

subsection \<open>The mark of a load\<close>

locale paged_list =
  fixes po :: "('s, 'k, 'u, 'a) paged_ops" and loading :: "'s \<Rightarrow> bool"
  assumes start_key: "pg_key po (pg_start po k p) = pg_key po p"
    and act_loading: "loading (fst (pg_act po u p)) \<Longrightarrow> loading p \<or> snd (pg_act po u p) \<noteq> []"
    and arrive_loading: "\<not> loading (pg_arrive po k a p)"
begin

definition marked :: "('s, 'k) paged_sys \<Rightarrow> bool" where
  "marked s \<longleftrightarrow> (loading (ps_page s) \<longrightarrow> ps_loads s \<noteq> [])"

lemma marked_step: "marked s \<Longrightarrow> marked (paged_step po s e)"
proof (cases e)
  case (PgUser u)
  then show "marked s \<Longrightarrow> ?thesis"
    using act_loading [of u "ps_page s"] by (cases "pg_act po u (ps_page s)") (auto simp: marked_def pg_commit_def Let_def)
next
  case (PgAnswer n a)
  then show "marked s \<Longrightarrow> ?thesis"
    by (auto simp: marked_def pg_commit_def Let_def arrive_loading)
qed

lemma marked_run: "marked (run_events (paged_step po) (pg_mount po p) es)"
proof (induction es rule: rev_induct)
  case Nil
  then show ?case by (simp add: marked_def pg_mount_def)
next
  case (snoc e es)
  then show ?case by (simp add: run_events_append marked_step)
qed

end

subsection \<open>Answers that leave the key alone\<close>

text \<open>
  \<open>good k a\<close>: \<open>a\<close> is a successful answer of the service to a request for \<open>k\<close>; \<open>rows\<close> is what is shown
  of the list and \<open>holds a\<close> the rows of an answer.
\<close>

locale steady_list = paged_list po loading
  for po :: "('s, 'k, 'u, 'a) paged_ops" and loading :: "'s \<Rightarrow> bool" +
  fixes good :: "'k \<Rightarrow> 'a \<Rightarrow> bool" and rows :: "'s \<Rightarrow> 'r" and holds :: "'a \<Rightarrow> 'r"
  assumes arrive_key: "pg_key po (pg_arrive po k a p) = pg_key po p"
    and act_rows: "rows (fst (pg_act po u p)) = rows p"
    and start_rows: "rows (pg_start po k p) = rows p"
    and arrive_rows: "good k a \<Longrightarrow> rows (pg_arrive po k a p) = holds a"
begin

definition agrees :: "('s, 'k) paged_sys \<Rightarrow> bool" where
  "agrees s \<longleftrightarrow> (if ps_loads s = [] then \<exists>a. good (pg_key po (ps_page s)) a \<and> rows (ps_page s) = holds a
     else last (ps_loads s) = pg_key po (ps_page s))"

lemma agrees_step:
  assumes s: "agrees s" and e: "in_turn po good s e"
  shows "agrees (paged_step po s e)"
proof (cases e)
  case (PgUser u)
  obtain p ks where u: "pg_act po u (ps_page s) = (p, ks)" by fastforce
  have ks: "ks \<noteq> [] \<Longrightarrow> last ks = pg_key po p" using e PgUser u by simp
  have "rows p = rows (ps_page s)" using act_rows [of u "ps_page s"] u by simp
  then show ?thesis using s u ks PgUser
    by (cases "ks = []") (auto simp: agrees_def pg_commit_def Let_def start_key)
next
  case (PgAnswer n a)
  show ?thesis
  proof (cases "ps_loads s")
    case Nil
    then show ?thesis using s PgAnswer by simp
  next
    case (Cons k ks)
    have "n = 0" "ks = [] \<Longrightarrow> good k a" using e PgAnswer Cons by simp_all
    then show ?thesis using s Cons PgAnswer arrive_rows [of k a "ps_page s"]
      by (cases "ks = []") (auto simp: agrees_def pg_commit_def remove_nth_def arrive_key)
  qed
qed

lemma agrees_run: "agrees s \<Longrightarrow> in_turn_run po good s es \<Longrightarrow> agrees (run_events (paged_step po) s es)"
  by (induction es arbitrary: s) (auto intro: agrees_step simp del: paged_step.simps in_turn.simps)

text \<open>When nothing is out, the rows are an answer to what the page asks for.\<close>

lemma rows_of_key:
  assumes "in_turn_run po good (pg_mount po p) es" and s: "s = run_events (paged_step po) (pg_mount po p) es"
    and "ps_loads s = []"
  shows "\<exists>a. good (pg_key po (ps_page s)) a \<and> rows (ps_page s) = holds a"
proof -
  have "agrees (pg_mount po p)" by (simp add: agrees_def pg_mount_def start_key)
  then have "agrees s" unfolding s using assms(1) by (rule agrees_run)
  then show ?thesis using assms(3) by (simp add: agrees_def)
qed

end

subsection \<open>Answers that set the key\<close>

locale following_list = paged_list po loading
  for po :: "('s, 'k, 'u, 'a) paged_ops" and loading :: "'s \<Rightarrow> bool" +
  fixes good :: "'a \<Rightarrow> bool"
  assumes arrive_follows: "good a \<Longrightarrow> pg_key po (pg_arrive po k a p) = k"
begin

text \<open>Two loads with different keys chase each other: each answer sends the other one again.\<close>

definition chasing :: "'k \<Rightarrow> 'k \<Rightarrow> ('s, 'k) paged_sys \<Rightarrow> bool" where
  "chasing i j s \<longleftrightarrow> ps_loads s = [i, j] \<and> pg_key po (ps_page s) = j"

lemma chasing_step: "i \<noteq> j \<Longrightarrow> chasing i j s \<Longrightarrow> good a \<Longrightarrow> chasing j i (paged_step po s (PgAnswer 0 a))"
  by (simp add: chasing_def pg_commit_def remove_nth_def arrive_follows start_key)

lemma chasing_forever:
  "i \<noteq> j \<Longrightarrow> chasing i j s \<Longrightarrow> \<forall>a\<in>set as. good a \<Longrightarrow>
   (if even (length as) then chasing i j else chasing j i)
     (run_events (paged_step po) s (map (PgAnswer 0) as))"
proof (induction as arbitrary: i j s)
  case (Cons a as)
  have "(if even (length as) then chasing j i else chasing i j)
      (run_events (paged_step po) (paged_step po s (PgAnswer 0 a)) (map (PgAnswer 0) as))"
    using Cons.prems by (intro Cons.IH chasing_step) auto
  then show ?case by (simp split: if_splits del: paged_step.simps)
qed simp

end

end
