(* ===== verification/PagedPages.thy ===== *)
theory PagedPages
  imports PagedLoads SecurityPages CertPage
begin

text \<open>
  The paged pages of the console as instances of \<open>paged_ops\<close>: access control
  (\<open>security/access/index.tsx\<close>), threats (\<open>security/threats/index.tsx\<close>), certificates
  (\<open>cert/page.tsx\<close>) and rate limits (\<open>protect-config/rate-limit/index.tsx\<close>). A continuation that
  loads carries the key of the render in which its handler was made, which is an argument of its
  event.
\<close>

text \<open>The arrows of the table: the page and size they ask for, where they are enabled.\<close>

definition pager_turn :: "bool \<Rightarrow> 'r paged \<Rightarrow> (nat \<times> nat) option" where
  "pager_turn nxt l =
     (case snd (DataTable ([] :: ('r \<Rightarrow> unit) list) (pd_data l) (pd_loading l) (pd_pageSize l) (pd_total l) (pd_page l)) of
        None \<Rightarrow> None
      | Some d \<Rightarrow> map_option (apfst nat) (if nxt then dp_next d else dp_prev d))"

text \<open>What an answer holds, where it is one.\<close>

definition answer_page :: "'r page_answer settled \<Rightarrow> ('r list \<times> nat) option" where
  "answer_page a =
     (case a of Rejected e \<Rightarrow> None
      | Resolved r \<Rightarrow> map_option (\<lambda>d. (pa_items d, pa_total d)) (resp_data r))"

definition good_page :: "('k \<Rightarrow> 'r list \<times> nat \<Rightarrow> bool) \<Rightarrow> 'k \<Rightarrow> 'r page_answer settled \<Rightarrow> bool" where
  "good_page svc k a \<longleftrightarrow> (\<exists>d. answer_page a = Some d \<and> svc k d)"

definition paged_rows :: "'r paged \<Rightarrow> 'r list \<times> nat" where
  "paged_rows l = (pd_data l, pd_total l)"

lemma good_pageE:
  assumes "good_page svc k a"
  obtains r d where "a = Resolved r" "resp_data r = Some d" "svc k (pa_items d, pa_total d)"
  using assms by (auto simp: good_page_def answer_page_def split: settled.splits)

subsection \<open>Access control\<close>

datatype access_user = AuSwitch AccessKind | AuTurn bool | AuOpen | AuEdit access_edit | AuClose
  | AuSaved "bool \<times> nat \<times> nat" | AuDelete string | AuDeleted "bool \<times> nat \<times> nat" "unit settled"

fun access_asked :: "page_effect \<Rightarrow> (bool \<times> nat \<times> nat) option" where
  "access_asked (RequestAccess b p s) = Some (b, p, s)"
| "access_asked _ = None"

fun access_act :: "access_user \<Rightarrow> access_page \<Rightarrow> access_page_result" where
  "access_act (AuSwitch k) st = (switchKind k st, [])"
| "access_act (AuTurn nxt) st =
     (case pager_turn nxt (ac_list st) of None \<Rightarrow> (st, []) | Some (p, s) \<Rightarrow> (set_access_page p s st, []))"
| "access_act AuOpen st = (open_access_dialog st, [])"
| "access_act (AuEdit e) st = (if ac_createVisible st then edit_access_dialog e st else st, [])"
| "access_act AuClose st = (close_access_dialog st, [])"
| "access_act (AuSaved k) st = access_dialog_ok k st"
| "access_act (AuDelete i) st = handleDeleteEntry i st"
| "access_act (AuDeleted k a) st = handleDeleteEntry_done k a st"

definition access_ops :: "(access_page, bool \<times> nat \<times> nat, access_user, access_row page_answer settled) paged_ops" where
  "access_ops =
     \<lparr>pg_key = access_args, pg_start = \<lambda>k st. fst (loadAccess k st),
      pg_act = \<lambda>u st. (case access_act u st of (st', es) \<Rightarrow> (st', List.map_filter access_asked es)),
      pg_arrive = \<lambda>k a st. fst (loadAccess_done a st)\<rparr>"

subsection \<open>Threats\<close>

datatype threat_user = TuTurn bool | TuRefresh | TuBlock string | TuBlocked "nat \<times> nat" "unit settled"
  | TuUnblock string | TuUnblocked "nat \<times> nat" "unit settled"

fun threats_asked :: "threat_effect \<Rightarrow> (nat \<times> nat) option" where
  "threats_asked (RequestThreats p s) = Some (p, s)"
| "threats_asked _ = None"

definition set_threat_page :: "nat \<Rightarrow> nat \<Rightarrow> threat_page \<Rightarrow> threat_page" where
  "set_threat_page p s st = st\<lparr>th_list := (th_list st)\<lparr>pd_page := p, pd_pageSize := s\<rparr>\<rparr>"

text \<open>The buttons of a row are disabled while its address is marked.\<close>

fun threat_act :: "threat_user \<Rightarrow> threat_page \<Rightarrow> threat_result" where
  "threat_act (TuTurn nxt) st =
     (case pager_turn nxt (th_list st) of None \<Rightarrow> (st, []) | Some (p, s) \<Rightarrow> (set_threat_page p s st, []))"
| "threat_act TuRefresh st = loadThreats (pd_paging (th_list st)) st"
| "threat_act (TuBlock ip) st =
     (if th_blacklisting st = Some ip \<or> th_unblacklisting st = Some ip then (st, []) else handleAddToBlacklist ip st)"
| "threat_act (TuBlocked k a) st = handleAddToBlacklist_done k a st"
| "threat_act (TuUnblock ip) st =
     (if th_blacklisting st = Some ip \<or> th_unblacklisting st = Some ip then (st, []) else handleRemoveFromBlacklist ip st)"
| "threat_act (TuUnblocked k a) st = handleRemoveFromBlacklist_done k a st"

definition threat_ops :: "(threat_page, nat \<times> nat, threat_user, AbnormalIp page_answer settled) paged_ops" where
  "threat_ops =
     \<lparr>pg_key = \<lambda>st. pd_paging (th_list st), pg_start = \<lambda>k st. fst (loadThreats k st),
      pg_act = \<lambda>u st. (case threat_act u st of (st', es) \<Rightarrow> (st', List.map_filter threats_asked es)),
      pg_arrive = \<lambda>k a st. fst (loadThreats_done a st)\<rparr>"

definition init_threat_page :: threat_page where
  "init_threat_page = \<lparr>th_list = init_paged, th_blacklisting = None, th_unblacklisting = None\<rparr>"

subsection \<open>Certificates\<close>

datatype cert_user = CuPage nat nat | CuSize nat | CuControl cp_control | CuDialog cert_click
  | CuSaved "nat \<times> nat" cert_dialog | CuApply CertItem | CuApplied "nat \<times> nat" CertItem "unit settled"
  | CuAsk CertItem | CuClose | CuConfirm | CuDeleted nat "nat \<times> nat" "unit settled"

fun certs_asked :: "cp_effect \<Rightarrow> (nat \<times> nat) option" where
  "certs_asked (RequestCerts p s) = Some (p, s)"
| "certs_asked _ = None"

fun cert_act :: "cert_user \<Rightarrow> cert_page \<Rightarrow> cp_result" where
  "cert_act (CuPage p s) st = (set_page p s st, [])"
| "cert_act (CuSize s) st = (set_page_size s st, [])"
| "cert_act (CuControl c) st = (cp_change c st, [])"
| "cert_act (CuDialog c) st = (cert_dialogs c st, [])"
| "cert_act (CuSaved k d) st = dialog_ok k d st"
| "cert_act (CuApply i) st = handleApply i st"
| "cert_act (CuApplied k i a) st = handleApply_done k i a st"
| "cert_act (CuAsk i) st = (ask_delete i st, [])"
| "cert_act CuClose st = (close_cert_delete st, [])"
| "cert_act CuConfirm st = (if cp_deleting st then (st, []) else confirm_cert_delete st)"
| "cert_act (CuDeleted n k a) st = confirm_cert_delete_done n k a st"

definition cert_ops :: "(cert_page, nat \<times> nat, cert_user, cert_answer_page settled) paged_ops" where
  "cert_ops =
     \<lparr>pg_key = paging, pg_start = \<lambda>k st. fst (loadData k st),
      pg_act = \<lambda>u st. (case cert_act u st of (st', es) \<Rightarrow> (st', List.map_filter certs_asked es)),
      pg_arrive = \<lambda>k a st. fst (loadData_done a st)\<rparr>"

definition cert_rows :: "cert_page \<Rightarrow> CertItem list \<times> nat" where
  "cert_rows st = (cp_data st, cp_total st)"

definition cert_answer_rows :: "cert_answer_page settled \<Rightarrow> CertItem list \<times> nat" where
  "cert_answer_rows a = cert_rows (fst (loadData_done a init_cert_page))"

definition good_certs :: "(nat \<times> nat \<Rightarrow> CertItem list \<times> nat \<Rightarrow> bool) \<Rightarrow> nat \<times> nat \<Rightarrow> cert_answer_page settled \<Rightarrow> bool" where
  "good_certs svc k a \<longleftrightarrow> (\<exists>r. a = Resolved r) \<and> svc k (cert_answer_rows a)"

subsection \<open>Rate limits\<close>

datatype rate_user = RuTurn bool | RuOpen | RuClose | RuCreated "nat \<times> nat"

fun rates_asked :: "rate_page_effect \<Rightarrow> (nat \<times> nat) option" where
  "rates_asked (RequestRates p s) = Some (p, s)"
| "rates_asked _ = None"

fun rate_act :: "rate_user \<Rightarrow> rate_page \<Rightarrow> rate_page \<times> rate_page_effect list" where
  "rate_act (RuTurn nxt) st =
     (case pager_turn nxt (rp_list st) of None \<Rightarrow> (st, []) | Some (p, s) \<Rightarrow> (set_rate_page p s st, []))"
| "rate_act RuOpen st = (st\<lparr>rp_createVisible := True\<rparr>, [])"
| "rate_act RuClose st = (st\<lparr>rp_createVisible := False\<rparr>, [])"
| "rate_act (RuCreated k) st = rate_created k st"

definition rate_ops :: "(rate_page, nat \<times> nat, rate_user, RateLimit page_answer settled) paged_ops" where
  "rate_ops =
     \<lparr>pg_key = \<lambda>st. pd_paging (rp_list st), pg_start = \<lambda>k st. fst (loadRates k st),
      pg_act = \<lambda>u st. (case rate_act u st of (st', es) \<Rightarrow> (st', List.map_filter rates_asked es)),
      pg_arrive = \<lambda>k a st. fst (loadRates_done k a st)\<rparr>"

definition init_rate_page :: rate_page where
  "init_rate_page = \<lparr>rp_list = init_paged, rp_createVisible = False\<rparr>"

subsection \<open>The contracts\<close>

lemma access_ops_simps:
  "pg_key access_ops = access_args" "pg_start access_ops k st = fst (loadAccess k st)"
  "pg_act access_ops u st = (fst (access_act u st), List.map_filter access_asked (snd (access_act u st)))"
  "pg_arrive access_ops k a st = fst (loadAccess_done a st)"
  by (simp_all add: access_ops_def case_prod_beta)

lemma access_args_load [simp]:
  "access_args (fst (loadAccess k st)) = access_args st" "access_args (fst (loadAccess_done a st)) = access_args st"
  by (simp_all add: access_args_def isBlacklist_def loadAccess_def loadAccess_done_def pd_paging_def
      split: settled.split option.split)

lemma rate_ops_simps:
  "pg_key rate_ops st = pd_paging (rp_list st)" "pg_start rate_ops k st = fst (loadRates k st)"
  "pg_act rate_ops u st = (fst (rate_act u st), List.map_filter rates_asked (snd (rate_act u st)))"
  "pg_arrive rate_ops k b st = fst (loadRates_done k b st)"
  by (simp_all add: rate_ops_def case_prod_beta)

lemma access_frame:
  "paged_rows (ac_list (fst (access_act u st))) = paged_rows (ac_list st) \<and>
   (pd_loading (ac_list (fst (access_act u st))) \<longrightarrow> pd_loading (ac_list st) \<or>
     List.map_filter access_asked (snd (access_act u st)) \<noteq> [])"
  by (cases "(u, st)" rule: access_act.cases)
    (auto simp: paged_rows_def switchKind_def set_access_page_def open_access_dialog_def edit_access_dialog_def
      close_access_dialog_def access_dialog_ok_def handleDeleteEntry_def handleDeleteEntry_done_def loadAccess_def
      List.map_filter_simps Let_def split: option.split settled.split)

interpretation access_list: steady_list access_ops "\<lambda>st. pd_loading (ac_list st)" "good_page svc"
    "\<lambda>st. paged_rows (ac_list st)" "\<lambda>a. the (answer_page a)" for svc
proof
  fix k a p u
  show "pg_key access_ops (pg_start access_ops k p) = pg_key access_ops p"
    "paged_rows (ac_list (pg_start access_ops k p)) = paged_rows (ac_list p)"
    by (simp_all add: access_ops_def loadAccess_def access_args_def isBlacklist_def pd_paging_def paged_rows_def)
  show "pg_key access_ops (pg_arrive access_ops k a p) = pg_key access_ops p" "\<not> pd_loading (ac_list (pg_arrive access_ops k a p))"
    by (auto simp: access_ops_def loadAccess_done_def access_args_def isBlacklist_def pd_paging_def
        split: settled.split option.split)
  show "good_page svc k a \<Longrightarrow> paged_rows (ac_list (pg_arrive access_ops k a p)) = the (answer_page a)"
    by (erule good_pageE) (simp add: access_ops_def loadAccess_done_def paged_rows_def answer_page_def)
  show "pd_loading (ac_list (fst (pg_act access_ops u p))) \<Longrightarrow> pd_loading (ac_list p) \<or> snd (pg_act access_ops u p) \<noteq> []"
    "paged_rows (ac_list (fst (pg_act access_ops u p))) = paged_rows (ac_list p)"
    using access_frame [of u p] by (auto simp: access_ops_def split: prod.split)
qed

lemma threat_frame:
  "paged_rows (th_list (fst (threat_act u st))) = paged_rows (th_list st) \<and>
   (pd_loading (th_list (fst (threat_act u st))) \<longrightarrow> pd_loading (th_list st) \<or>
     List.map_filter threats_asked (snd (threat_act u st)) \<noteq> [])"
  by (cases "(u, st)" rule: threat_act.cases)
    (auto simp: paged_rows_def set_threat_page_def loadThreats_def handleAddToBlacklist_def handleAddToBlacklist_done_def
      handleRemoveFromBlacklist_def handleRemoveFromBlacklist_done_def List.map_filter_simps
      split: option.split settled.split)

interpretation threat_list: steady_list threat_ops "\<lambda>st. pd_loading (th_list st)" "good_page svc"
    "\<lambda>st. paged_rows (th_list st)" "\<lambda>a. the (answer_page a)" for svc
proof
  fix k a p u
  show "pg_key threat_ops (pg_start threat_ops k p) = pg_key threat_ops p"
    "paged_rows (th_list (pg_start threat_ops k p)) = paged_rows (th_list p)"
    by (simp_all add: threat_ops_def loadThreats_def pd_paging_def paged_rows_def)
  show "pg_key threat_ops (pg_arrive threat_ops k a p) = pg_key threat_ops p" "\<not> pd_loading (th_list (pg_arrive threat_ops k a p))"
    by (auto simp: threat_ops_def loadThreats_done_def pd_paging_def split: settled.split option.split)
  show "good_page svc k a \<Longrightarrow> paged_rows (th_list (pg_arrive threat_ops k a p)) = the (answer_page a)"
    by (erule good_pageE) (simp add: threat_ops_def loadThreats_done_def paged_rows_def answer_page_def)
  show "pd_loading (th_list (fst (pg_act threat_ops u p))) \<Longrightarrow> pd_loading (th_list p) \<or> snd (pg_act threat_ops u p) \<noteq> []"
    "paged_rows (th_list (fst (pg_act threat_ops u p))) = paged_rows (th_list p)"
    using threat_frame [of u p] by (auto simp: threat_ops_def split: prod.split)
qed

lemma cp_change_frame: "cp_data (cp_change c st) = cp_data st" "cp_total (cp_change c st) = cp_total st"
  "cp_loading (cp_change c st) = cp_loading st"
  by (cases "(c, st)" rule: cp_change.cases; simp)+

lemma cert_dialogs_frame: "cp_data (cert_dialogs c st) = cp_data st" "cp_total (cert_dialogs c st) = cp_total st"
  "cp_loading (cert_dialogs c st) = cp_loading st"
  by (cases c; simp)+

lemma cert_frame:
  "cert_rows (fst (cert_act u st)) = cert_rows st \<and>
   (cp_loading (fst (cert_act u st)) \<longrightarrow> cp_loading st \<or> List.map_filter certs_asked (snd (cert_act u st)) \<noteq> [])"
  by (cases "(u, st)" rule: cert_act.cases)
    (auto simp: cert_rows_def set_page_def set_page_size_def cp_change_frame cert_dialogs_frame dialog_ok_def loadData_def
      handleApply_def handleApply_done_def ask_delete_def close_cert_delete_def confirm_cert_delete_def
      confirm_cert_delete_done_def List.map_filter_simps Let_def
      split: option.split settled.split cert_dialog.split)

interpretation cert_list: steady_list cert_ops cp_loading "good_certs svc" cert_rows cert_answer_rows for svc
proof
  fix k a p u
  show "pg_key cert_ops (pg_start cert_ops k p) = pg_key cert_ops p"
    "cert_rows (pg_start cert_ops k p) = cert_rows p"
    by (simp_all add: cert_ops_def loadData_def paging_def cert_rows_def)
  show "pg_key cert_ops (pg_arrive cert_ops k a p) = pg_key cert_ops p" "\<not> cp_loading (pg_arrive cert_ops k a p)"
    by (auto simp: cert_ops_def loadData_done_def paging_def Let_def split: settled.split option.split)
  show "good_certs svc k a \<Longrightarrow> cert_rows (pg_arrive cert_ops k a p) = cert_answer_rows a"
    by (auto simp: cert_ops_def loadData_done_def cert_rows_def cert_answer_rows_def good_certs_def Let_def)
  show "cp_loading (fst (pg_act cert_ops u p)) \<Longrightarrow> cp_loading p \<or> snd (pg_act cert_ops u p) \<noteq> []"
    "cert_rows (fst (pg_act cert_ops u p)) = cert_rows p"
    using cert_frame [of u p] by (auto simp: cert_ops_def split: prod.split)
qed

lemma rate_frame: "pd_loading (rp_list (fst (rate_act u st))) \<longrightarrow> pd_loading (rp_list st) \<or>
    List.map_filter rates_asked (snd (rate_act u st)) \<noteq> []"
  by (cases "(u, st)" rule: rate_act.cases)
    (auto simp: set_rate_page_def rate_created_def loadRates_def List.map_filter_simps split: option.split)

interpretation rate_list: following_list rate_ops "\<lambda>st. pd_loading (rp_list st)" "\<lambda>a. answer_page a \<noteq> None"
proof
  fix k a p u
  show "pg_key rate_ops (pg_start rate_ops k p) = pg_key rate_ops p"
    by (simp add: rate_ops_def loadRates_def pd_paging_def)
  show "\<not> pd_loading (rp_list (pg_arrive rate_ops k a p))"
    by (auto simp: rate_ops_def loadRates_done_def split: settled.split option.split)
  show "answer_page a \<noteq> None \<Longrightarrow> pg_key rate_ops (pg_arrive rate_ops k a p) = k"
    by (auto simp: rate_ops_def loadRates_done_def answer_page_def pd_paging_def split: settled.split option.split)
  show "pd_loading (rp_list (fst (pg_act rate_ops u p))) \<Longrightarrow> pd_loading (rp_list p) \<or> snd (pg_act rate_ops u p) \<noteq> []"
    using rate_frame [of u p] by (auto simp: rate_ops_def split: prod.split)
qed

end
