(* ===== verification/PagedProperties.thy ===== *)
theory PagedProperties
  imports PagedPages
begin

text \<open>
  The properties of the paged pages: when what is shown is what the page asks for, the page that
  never comes to rest, and the deletion that shows another page.
\<close>

text \<open>
  C8. The list of access control shows what its heading says, in every course in which
  (\<open>in_turn_run\<close>) the answers come in the order of the requests, an answer after which nothing is out
  is a success (the others may fail), and every load that follows a deletion or a creation asks for
  the kind, page and size shown by then. When nothing is out the rows are an answer to a request for
  the kind, the page and the size that the page shows; and the table only shows its spinner while a
  load is out. A deletion on a later page breaks the last condition, with the consequence of C27.
\<close>

theorem access_list_of_its_kind:
  assumes "in_turn_run access_ops (good_page svc) (pg_mount access_ops init_access_page) es"
    and s: "s = run_events (paged_step access_ops) (pg_mount access_ops init_access_page) es"
  shows "(ps_loads s = [] \<longrightarrow> svc (access_args (ps_page s)) (paged_rows (ac_list (ps_page s)))) \<and>
    (pd_loading (ac_list (ps_page s)) \<longrightarrow> ps_loads s \<noteq> [])"
proof (intro conjI impI)
  assume "ps_loads s = []"
  then obtain a where a: "good_page svc (pg_key access_ops (ps_page s)) a"
      "paged_rows (ac_list (ps_page s)) = the (answer_page a)"
    using access_list.rows_of_key [OF assms] by blast
  then show "svc (access_args (ps_page s)) (paged_rows (ac_list (ps_page s)))"
    by (auto simp: good_page_def access_ops_def)
next
  show "pd_loading (ac_list (ps_page s)) \<Longrightarrow> ps_loads s \<noteq> []"
    using access_list.marked_run [of init_access_page es] by (simp add: access_list.marked_def s)
qed

text \<open>
  C9. The certificate page shows the page that its pager names, in every course in which
  (\<open>in_turn_run\<close>) the answers come in the order of the requests, an answer after which nothing is out
  is a success (the others may fail), and every load that follows an application, a deletion or an
  upload asks for the page shown by then. When nothing is out the rows and the number of
  certificates are an answer to a request for that page, and nothing is marked as loading. An
  application, deletion or upload during which the page is turned breaks the last condition: its
  load asks for the page that was shown when it was begun.
\<close>

theorem cert_list_of_its_page:
  assumes "in_turn_run cert_ops (good_certs svc) (pg_mount cert_ops init_cert_page) es"
    and s: "s = run_events (paged_step cert_ops) (pg_mount cert_ops init_cert_page) es" and "ps_loads s = []"
  shows "svc (paging (ps_page s)) (cert_rows (ps_page s)) \<and> \<not> cp_loading (ps_page s)"
proof -
  obtain a where a: "good_certs svc (pg_key cert_ops (ps_page s)) a" "cert_rows (ps_page s) = cert_answer_rows a"
    using cert_list.rows_of_key [OF assms] by blast
  moreover have "\<not> cp_loading (ps_page s)"
    using cert_list.marked_run [of init_cert_page es] assms(3) by (simp add: cert_list.marked_def s)
  ultimately show ?thesis by (simp add: good_certs_def cert_ops_def)
qed

lemma access_act_inv: "access_page_inv st \<Longrightarrow> access_page_inv (fst (access_act u st))"
proof (cases "(u, st)" rule: access_act.cases)
  case (1 k st')
  then show "access_page_inv st \<Longrightarrow> ?thesis" using access_pages.inv_step [of st "EvSwitch k"] by simp
next
  case (2 nxt st')
  then show "access_page_inv st \<Longrightarrow> ?thesis"
    using access_pages.inv_step [of st "EvPage _ _"] by (auto split: option.split)
next
  case (3 st')
  then show "access_page_inv st \<Longrightarrow> ?thesis" using access_pages.inv_step [of st EvOpen] by simp
next
  case (4 e st')
  then show "access_page_inv st \<Longrightarrow> ?thesis" using access_pages.inv_step [of st "EvEdit e"] by simp
next
  case (5 st')
  then show "access_page_inv st \<Longrightarrow> ?thesis" using access_pages.inv_step [of st EvClose] by simp
next
  case (6 k st')
  then show "access_page_inv st \<Longrightarrow> ?thesis" using access_pages.inv_step [of st "EvSaved k"] by simp
next
  case (7 i st')
  then show "access_page_inv st \<Longrightarrow> ?thesis" by (simp add: handleDeleteEntry_def)
next
  case (8 k a st')
  then show "access_page_inv st \<Longrightarrow> ?thesis" using access_pages.inv_step [of st "EvDeleted k a"] by simp
qed

lemma access_load_inv: "access_page_inv st \<Longrightarrow> access_page_inv (pg_start access_ops k st)"
  using access_pages.inv_step [of st "EvLoad k"] by (simp add: access_ops_def)

lemma access_arrive_inv: "access_page_inv st \<Longrightarrow> access_page_inv (pg_arrive access_ops k a st)"
  using access_pages.inv_step [of st "EvAnswer a"] by (simp add: access_ops_def)

interpretation access_courses: invariant_machine "paged_step access_ops" "\<lambda>s. access_page_inv (ps_page s)"
    "pg_mount access_ops init_access_page"
proof
  show "access_page_inv (ps_page (pg_mount access_ops init_access_page))"
    by (simp add: pg_mount_def access_load_inv access_pages.inv_start)
  fix s :: "(access_page, bool \<times> nat \<times> nat) paged_sys" and e
  assume s: "access_page_inv (ps_page s)"
  have commit: "access_page_inv (ps_page (pg_commit access_ops b t))" if "access_page_inv (ps_page t)" for b and t :: "(access_page, bool \<times> nat \<times> nat) paged_sys"
    using that by (simp add: pg_commit_def Let_def access_load_inv)
  show "access_page_inv (ps_page (paged_step access_ops s e))"
  proof (cases e)
    case (PgUser u)
    then show ?thesis using access_act_inv [OF s, of u]
      by (simp add: access_ops_simps commit)
  next
    case (PgAnswer n a)
    then show ?thesis using s by (auto intro!: commit access_arrive_inv)
  qed
qed

lemma access_asked_load: "List.map_filter access_asked (snd (loadAccess k st)) = [k]"
  by (simp add: loadAccess_def List.map_filter_simps)

text \<open>
  C27. Deleting an entry on a later page of access control shows the first page under the number of
  the later one: the delete buttons keep the paging of the render in which their kind was chosen.
  In every run, when nothing is out and an entry was deleted, the load that follows asks for page
  1, and when it is answered nothing is out, the pager is where it was, and the rows are those of
  page 1.
\<close>

theorem access_delete_shows_first_page:
  assumes s: "s = run_events (paged_step access_ops) (pg_mount access_ops init_access_page) es" and idle: "ps_loads s = []"
    and a: "answer_page a = Some d"
    and del: "t = paged_step access_ops s (PgUser (AuDeleted (ac_columns (ps_page s)) (Resolved r)))"
    and ans: "u = paged_step access_ops t (PgAnswer 0 a)"
  shows "(\<exists>size. ps_loads t = [(isBlacklist (ps_page s), 1, size)]) \<and> ps_loads u = [] \<and>
    pd_paging (ac_list (ps_page u)) = pd_paging (ac_list (ps_page s)) \<and> paged_rows (ac_list (ps_page u)) = d"
proof -
  have inv: "access_page_inv (ps_page s)" unfolding s by (rule access_courses.inv_reachable)
  obtain size where cols: "ac_columns (ps_page s) = (isBlacklist (ps_page s), 1, size)"
    using inv by (cases "ac_columns (ps_page s)") (auto simp: access_page_inv_def)
  have act: "pg_act access_ops (AuDeleted k (Resolved r)) p = (fst (loadAccess k p), [k])" for k p
    by (simp add: access_ops_simps handleDeleteEntry_done_def case_prod_beta access_asked_load List.map_filter_simps)
  have t: "t = s\<lparr>ps_page := fst (loadAccess (ac_columns (ps_page s)) (ps_page s)), ps_loads := [ac_columns (ps_page s)]\<rparr>"
    using idle by (simp add: del act pg_commit_def access_ops_simps(1))
  have loads: "ps_loads t = [(isBlacklist (ps_page s), 1, size)]" by (simp add: t cols)
  obtain r d' where r: "a = Resolved r" "resp_data r = Some d'" "d = (pa_items d', pa_total d')"
    using a by (auto simp: answer_page_def split: settled.splits)
  have u: "u = t\<lparr>ps_page := fst (loadAccess_done a (ps_page t)), ps_loads := []\<rparr>"
    using loads unfolding ans
    by (simp add: access_ops_simps pg_commit_def remove_nth_def)
  show ?thesis unfolding loads u by (simp add: t r loadAccess_done_def loadAccess_def pd_paging_def paged_rows_def)
qed

text \<open>
  C28. The page of the rate limits can load for ever. An answer sets the page back to the one it was
  asked for, which is a change that loads that page again. When the next page is turned to twice,
  before the first of the two loads is answered, then after any number of answers, in order and
  all successful, two loads are out, and the table changes its page with each.
\<close>

theorem rate_pages_chase:
  assumes a: "answer_page a = Some (rows, n)" and n: "20 < n" and as: "\<forall>b\<in>set as. answer_page b \<noteq> None"
    and s: "s = run_events (paged_step rate_ops) (pg_mount rate_ops init_rate_page)
      ([PgAnswer 0 a, PgUser (RuTurn True), PgUser (RuTurn True)] @ map (PgAnswer 0) as)"
  shows "length (ps_loads s) = 2 \<and> pd_page (rp_list (ps_page s)) = (if even (length as) then 3 else 2)"
proof -
  let ?t = "run_events (paged_step rate_ops) (pg_mount rate_ops init_rate_page)
      [PgAnswer 0 a, PgUser (RuTurn True), PgUser (RuTurn True)]"
  obtain r d where r: "a = Resolved r" "resp_data r = Some d" "pa_items d = rows" "pa_total d = n"
    using a by (auto simp: answer_page_def split: settled.splits)
  have pages: "\<not> totalPages n 10 \<le> 2" "\<not> totalPages n 10 \<le> 1"
    using n by (simp_all add: totalPages_def not_le nat_less_iff[symmetric] less_ceiling_iff zless_nat_eq_int_zless)
  have "rate_list.chasing (2, 10) (3, 10) ?t"
    using pages r n
    by (simp add: rate_list.chasing_def pg_mount_def rate_ops_simps pg_commit_def pager_turn_def DataTable_def
        set_rate_page_def loadRates_def loadRates_done_def init_rate_page_def init_paged_def pd_paging_def remove_nth_def
        List.map_filter_simps Let_def)
  then have "(if even (length as) then rate_list.chasing (2, 10) (3, 10) else rate_list.chasing (3, 10) (2, 10)) s"
    using rate_list.chasing_forever [of "(2, 10)" "(3, 10)" ?t as] as by (simp only: s run_events_append) simp
  then show ?thesis
    by (auto simp: rate_list.chasing_def rate_ops_simps pd_paging_def split: if_splits)
qed

text \<open>Courses of the pages with a service whose totals tell the page that was asked for.\<close>

definition told :: "nat \<Rightarrow> 'r page_answer settled" where
  "told n = Resolved (ok_response (Some \<lparr>pa_items = [], pa_total = n\<rparr>))"

definition telling :: "bool \<times> nat \<times> nat \<Rightarrow> access_row list \<times> nat \<Rightarrow> bool" where
  "telling k d \<longleftrightarrow> d = ([], 20 + fst (snd k))"

definition access_course :: "(access_user, access_row page_answer settled) paged_event list" where
  "access_course = [PgAnswer 0 (told 21), PgUser (AuTurn True), PgAnswer 0 (told 22)]"

lemma told_page [simp]: "answer_page (told n) = Some ([], n)"
  by (simp add: answer_page_def told_def ok_response_def)

lemma turn_of_pages [simp]: "totalPages 21 10 = 3" "totalPages 22 10 = 3"
proof -
  have "\<lceil>21 / 10 :: rat\<rceil> = 3" "\<lceil>11 / 5 :: rat\<rceil> = 3" by (rule ceiling_unique; simp)+
  then show "totalPages 21 10 = 3" "totalPages 22 10 = 3" by (simp_all add: totalPages_def)
qed

lemmas course_simps = pg_mount_def access_ops_simps pg_commit_def pager_turn_def DataTable_def set_access_page_def
  loadAccess_def loadAccess_done_def init_access_page_def init_paged_def pd_paging_def remove_nth_def access_args_def
  isBlacklist_def List.map_filter_simps told_def ok_response_def

theorem access_list_of_its_kind_witness:
  "let s = run_events (paged_step access_ops) (pg_mount access_ops init_access_page) access_course
   in access_args (ps_page s) = (True, 2, 10) \<and> paged_rows (ac_list (ps_page s)) = ([], 22)"
proof -
  let ?s = "run_events (paged_step access_ops) (pg_mount access_ops init_access_page) access_course"
  have "in_turn_run access_ops (good_page telling) (pg_mount access_ops init_access_page) access_course"
    by (simp add: access_course_def course_simps good_page_def answer_page_def telling_def)
  moreover have "ps_loads ?s = []" "access_args (ps_page ?s) = (True, 2, 10)" by (simp_all add: access_course_def course_simps)
  ultimately show ?thesis using access_list_of_its_kind [of telling access_course, OF _ refl] by (simp add: telling_def)
qed

theorem access_delete_shows_first_page_witness:
  "let s = run_events (paged_step access_ops) (pg_mount access_ops init_access_page) access_course;
       t = paged_step access_ops s (PgUser (AuDeleted (ac_columns (ps_page s)) (Resolved (ok_response None))));
       u = paged_step access_ops t (PgAnswer 0 (told 21))
   in pd_paging (ac_list (ps_page u)) = (2, 10) \<and> paged_rows (ac_list (ps_page u)) = ([], 21)"
proof -
  let ?s = "run_events (paged_step access_ops) (pg_mount access_ops init_access_page) access_course"
  have "ps_loads ?s = []" "pd_paging (ac_list (ps_page ?s)) = (2, 10)" by (simp_all add: access_course_def course_simps)
  then show ?thesis
    using access_delete_shows_first_page [OF refl, of access_course "told 21" "([], 21)" _ "ok_response None", OF _ _ refl refl]
    by (simp add: Let_def del: paged_step.simps)
qed

definition told_certs :: "nat \<Rightarrow> cert_answer_page settled" where
  "told_certs n = Resolved (ok_response (Some \<lparr>ca_items = Some [], ca_total = Some n\<rparr>))"

theorem cert_list_of_its_page_witness:
  "let s = run_events (paged_step cert_ops) (pg_mount cert_ops init_cert_page)
       [PgAnswer 0 (told_certs 21), PgUser (CuPage 2 10), PgAnswer 0 (told_certs 22)]
   in paging (ps_page s) = (2, 10) \<and> cert_rows (ps_page s) = ([], 22)"
proof -
  let ?svc = "\<lambda>k d. d = ([], 20 + fst k)"
  let ?es = "[PgAnswer 0 (told_certs 21), PgUser (CuPage 2 10), PgAnswer 0 (told_certs 22)]"
  let ?s = "run_events (paged_step cert_ops) (pg_mount cert_ops init_cert_page) ?es"
  note run = pg_mount_def cert_ops_def pg_commit_def set_page_def loadData_def loadData_done_def init_cert_page_def
    paging_def remove_nth_def List.map_filter_simps told_certs_def ok_response_def
  have "in_turn_run cert_ops (good_certs ?svc) (pg_mount cert_ops init_cert_page) ?es"
    by (simp add: run good_certs_def cert_answer_rows_def cert_rows_def)
  moreover have "ps_loads ?s = []" "paging (ps_page ?s) = (2, 10)" by (simp_all add: run)
  ultimately show ?thesis using cert_list_of_its_page [of ?svc ?es, OF _ refl] by (simp add: Let_def)
qed

theorem rate_pages_chase_witness:
  "let s = run_events (paged_step rate_ops) (pg_mount rate_ops init_rate_page)
       ([PgAnswer 0 (told 21), PgUser (RuTurn True), PgUser (RuTurn True)] @ map (PgAnswer 0) [told 21])
   in length (ps_loads s) = 2 \<and> pd_page (rp_list (ps_page s)) = 2"
  using rate_pages_chase [of "told 21" "[]" 21 "[told 21]", OF _ _ _ refl] by (simp add: Let_def)

end
