(* ===== verification/UiTooltip.thy ===== *)
theory UiTooltip
  imports JsNumber
begin

text \<open>
  The tooltips of the console
  (\<open>web/src/components/animate-ui/primitives/animate/tooltip.tsx\<close>): one provider keeps the tooltip
  that is shown and one timer, the triggers open and close it, an overlay renders it with its
  animations. The browser's timers are a list of armed timers; \<open>now\<close> is the clock in
  milliseconds. The properties of the content are a list of keys with their values.
\<close>

datatype tip_side = TipTop | TipBottom | TipLeft | TipRight

datatype tip_align = TipStart | TipCenter | TipEnd

record 'c tip_data =
  td_content :: 'c
  td_asChild :: bool
  td_rect :: "rat \<times> rat \<times> rat \<times> rat"
  td_side :: tip_side
  td_sideOffset :: rat
  td_align :: tip_align
  td_alignOffset :: rat
  td_id :: string

subsection \<open>Placement\<close>

definition side_text :: "tip_side \<Rightarrow> string" where
  "side_text s = (case s of TipTop \<Rightarrow> ''top'' | TipBottom \<Rightarrow> ''bottom'' | TipLeft \<Rightarrow> ''left'' | TipRight \<Rightarrow> ''right'')"

definition align_text :: "tip_align \<Rightarrow> string" where
  "align_text a = (case a of TipStart \<Rightarrow> ''start'' | TipCenter \<Rightarrow> ''center'' | TipEnd \<Rightarrow> ''end'')"

definition tip_placement :: "tip_side \<Rightarrow> tip_align \<Rightarrow> string" where
  "tip_placement s a = (if a = TipCenter then side_text s else side_text s @ ''-'' @ align_text a)"

definition getResolvedSide :: "string \<Rightarrow> string" where
  "getResolvedSide placement =
     (if CHR ''-'' \<in> set placement then takeWhile (\<lambda>c. c \<noteq> CHR ''-'') placement else placement)"

text \<open>The offset from which it slides in, and the turn of the arrow.\<close>

definition initialFromSide :: "tip_side \<Rightarrow> int option \<times> int option" where
  "initialFromSide s =
     (case s of TipTop \<Rightarrow> (None, Some 15) | TipBottom \<Rightarrow> (None, Some (- 15))
      | TipLeft \<Rightarrow> (Some 15, None) | TipRight \<Rightarrow> (Some (- 15), None))"

definition arrow_degrees :: "tip_side \<Rightarrow> int" where
  "arrow_degrees s = (case s of TipTop \<Rightarrow> 0 | TipRight \<Rightarrow> 90 | TipBottom \<Rightarrow> 180 | TipLeft \<Rightarrow> - 90)"

subsection \<open>The provider\<close>

datatype 'c tip_action = TipShow "'c tip_data" | TipHide

record 'c tip_timer =
  tm_id :: nat
  tm_due :: int
  tm_action :: "'c tip_action"

record 'c tip_provider =
  tp_current :: "'c tip_data option"
  tp_ref :: "nat option"
  tp_timers :: "'c tip_timer list"
  tp_next :: nat
  tp_lastClose :: int
  tp_reference :: "string option"
  tp_suppressed :: "string list"

definition init_tips :: "'c tip_provider" where
  "init_tips =
     \<lparr>tp_current = None, tp_ref = None, tp_timers = [], tp_next = 1, tp_lastClose = 0,
      tp_reference = None, tp_suppressed = []\<rparr>"

definition clear_timer :: "'c tip_provider \<Rightarrow> 'c tip_provider" where
  "clear_timer st = st\<lparr>tp_timers := filter (\<lambda>t. Some (tm_id t) \<noteq> tp_ref st) (tp_timers st)\<rparr>"

definition arm_timer :: "int \<Rightarrow> int \<Rightarrow> 'c tip_action \<Rightarrow> 'c tip_provider \<Rightarrow> 'c tip_provider" where
  "arm_timer now delay a st =
     st\<lparr>tp_timers := tp_timers st @ [\<lparr>tm_id = tp_next st, tm_due = now + delay, tm_action = a\<rparr>],
        tp_ref := Some (tp_next st), tp_next := Suc (tp_next st)\<rparr>"

definition showTooltip :: "int \<Rightarrow> int \<Rightarrow> int \<Rightarrow> 'c tip_data \<Rightarrow> 'c tip_provider \<Rightarrow> 'c tip_provider" where
  "showTooltip openDelay closeDelay now d st =
     (let st1 = clear_timer st in
      if tp_current st1 \<noteq> None then st1\<lparr>tp_current := Some d\<rparr>
      else arm_timer now (if now - tp_lastClose st1 < closeDelay then 0 else openDelay) (TipShow d) st1)"

definition hideTooltip :: "int \<Rightarrow> int \<Rightarrow> 'c tip_provider \<Rightarrow> 'c tip_provider" where
  "hideTooltip closeDelay now st = arm_timer now closeDelay TipHide (clear_timer st)"

definition hideImmediate :: "int \<Rightarrow> 'c tip_provider \<Rightarrow> 'c tip_provider" where
  "hideImmediate now st = (clear_timer st)\<lparr>tp_current := None, tp_lastClose := now\<rparr>"

text \<open>A timer that is due runs once.\<close>

definition fire_timer :: "int \<Rightarrow> nat \<Rightarrow> 'c tip_provider \<Rightarrow> 'c tip_provider" where
  "fire_timer now k st =
     (case List.find (\<lambda>t. tm_id t = k \<and> tm_due t \<le> now) (tp_timers st) of
        None \<Rightarrow> st
      | Some t \<Rightarrow>
          (let st1 = st\<lparr>tp_timers := filter (\<lambda>t. tm_id t \<noteq> k) (tp_timers st)\<rparr> in
           case tm_action t of
             TipShow d \<Rightarrow> st1\<lparr>tp_current := Some d\<rparr>
           | TipHide \<Rightarrow> st1\<lparr>tp_current := None, tp_lastClose := now\<rparr>))"

subsection \<open>The triggers\<close>

definition handleOpen :: "int \<Rightarrow> int \<Rightarrow> int \<Rightarrow> 'c tip_data \<Rightarrow> 'c tip_provider \<Rightarrow> 'c tip_provider" where
  "handleOpen openDelay closeDelay now d st =
     showTooltip openDelay closeDelay now d (st\<lparr>tp_reference := Some (td_id d)\<rparr>)"

text \<open>A press marks its trigger so that the focus that follows does not open it again.\<close>

definition handlePointerDown :: "int \<Rightarrow> string \<Rightarrow> 'c tip_provider \<Rightarrow> 'c tip_provider" where
  "handlePointerDown now i st =
     (if map_option td_id (tp_current st) = Some i
      then hideImmediate now (st\<lparr>tp_suppressed := i # tp_suppressed st\<rparr>) else st)"

text \<open>The callback of the resolved promise, which takes the mark away.\<close>

definition unsuppress :: "string \<Rightarrow> 'c tip_provider \<Rightarrow> 'c tip_provider" where
  "unsuppress i st = st\<lparr>tp_suppressed := filter (\<lambda>j. j \<noteq> i) (tp_suppressed st)\<rparr>"

definition handleFocus :: "int \<Rightarrow> int \<Rightarrow> int \<Rightarrow> 'c tip_data \<Rightarrow> 'c tip_provider \<Rightarrow> 'c tip_provider" where
  "handleFocus openDelay closeDelay now d st =
     (if td_id d \<in> set (tp_suppressed st) then st else handleOpen openDelay closeDelay now d st)"

datatype 'c tip_event = TeEnter "'c tip_data" | TeFocus "'c tip_data" | TeLeave | TeBlur | TePress string
  | TeResolved string | TeDismiss | TeFire nat

text \<open>Escape, scrolling and resizing dismiss at once.\<close>

fun tip_step :: "int \<Rightarrow> int \<Rightarrow> 'c tip_provider \<Rightarrow> int \<times> 'c tip_event \<Rightarrow> 'c tip_provider" where
  "tip_step od cd st (now, TeEnter d) = handleOpen od cd now d st"
| "tip_step od cd st (now, TeFocus d) = handleFocus od cd now d st"
| "tip_step od cd st (now, TeLeave) = hideTooltip cd now st"
| "tip_step od cd st (now, TeBlur) = hideTooltip cd now st"
| "tip_step od cd st (now, TePress i) = handlePointerDown now i st"
| "tip_step od cd st (now, TeResolved i) = unsuppress i st"
| "tip_step od cd st (now, TeDismiss) = hideImmediate now st"
| "tip_step od cd st (now, TeFire k) = fire_timer now k st"

definition trigger_open :: "string \<Rightarrow> 'c tip_provider \<Rightarrow> bool" where
  "trigger_open i st \<longleftrightarrow> map_option td_id (tp_current st) = Some i"

subsection \<open>The overlay\<close>

record 'c tip_overlay =
  ov_data :: "'c tip_data option"
  ov_open :: bool

definition init_overlay :: "'c tip_overlay" where
  "init_overlay = \<lparr>ov_data = None, ov_open = False\<rparr>"

definition overlay_effect :: "'c tip_data option \<Rightarrow> 'c tip_overlay \<Rightarrow> 'c tip_overlay" where
  "overlay_effect cur ov =
     (case cur of Some d \<Rightarrow> \<lparr>ov_data = Some d, ov_open = True\<rparr>
      | None \<Rightarrow> if ov_data ov \<noteq> None then ov\<lparr>ov_open := False\<rparr> else ov)"

definition animation_done :: "'c tip_overlay \<Rightarrow> 'c tip_overlay" where
  "animation_done ov = (if \<not> ov_open ov then \<lparr>ov_data = None, ov_open = False\<rparr> else ov)"

record 'c overlay_view =
  vw_data :: "'c tip_data"
  vw_open :: bool
  vw_side :: string
  vw_opacity :: nat
  vw_offset :: "int option \<times> int option"

text \<open>\<open>placed\<close> is the placement the positioning library settled on, \<open>ready\<close> that it has a position.\<close>

definition overlay_view_of :: "string \<Rightarrow> bool \<Rightarrow> 'c tip_overlay \<Rightarrow> 'c overlay_view option" where
  "overlay_view_of placed ready ov =
     (case ov_data ov of None \<Rightarrow> None
      | Some d \<Rightarrow> if \<not> ready then None
          else Some \<lparr>vw_data = d, vw_open = ov_open ov, vw_side = getResolvedSide placed,
            vw_opacity = (if ov_open ov then 1 else 0),
            vw_offset = (if ov_open ov then (Some 0, Some 0) else initialFromSide (td_side d))\<rparr>)"

subsection \<open>The content\<close>

text \<open>A property that is present with the value undefined is \<open>(k, None)\<close>.\<close>

type_synonym 'v props = "(string \<times> 'v option) list"

definition prop_at :: "'v props \<Rightarrow> string \<Rightarrow> 'v option" where
  "prop_at ps k = (case map_of ps k of None \<Rightarrow> None | Some v \<Rightarrow> v)"

definition prop_keys :: "'v props \<Rightarrow> string list" where
  "prop_keys ps = filter (\<lambda>k. k \<noteq> ''children'') (map fst ps)"

definition shallowEqualWithoutChildren :: "'v props option \<Rightarrow> 'v props option \<Rightarrow> bool" where
  "shallowEqualWithoutChildren a b =
     (case (a, b) of
        (None, None) \<Rightarrow> True
      | (Some p, Some q) \<Rightarrow> length (prop_keys p) = length (prop_keys q) \<and>
          list_all (\<lambda>k. prop_at p k = prop_at q k) (prop_keys p)
      | _ \<Rightarrow> False)"

text \<open>The content of a tooltip and the last properties it handed on; it does so after a commit.\<close>

definition content_effect :: "'v props \<Rightarrow> 'v props option \<times> 'v props \<Rightarrow> 'v props option \<times> 'v props" where
  "content_effect ps st = (if shallowEqualWithoutChildren (fst st) (Some ps) then st else (Some ps, ps))"

subsection \<open>Laws\<close>

lemma resolved_side: "getResolvedSide (tip_placement s a) = side_text s"
  by (cases s; cases a) (simp_all add: getResolvedSide_def tip_placement_def side_text_def align_text_def)

text \<open>
  At most one timer is armed, it is the remembered one, a showing timer waits only while nothing is
  shown, and what is shown, or will be, belongs to the trigger at which the overlay is placed.
\<close>

definition tip_inv :: "'c tip_provider \<Rightarrow> bool" where
  "tip_inv st \<longleftrightarrow>
     (\<forall>t\<in>set (tp_timers st). tp_ref st = Some (tm_id t)) \<and> length (tp_timers st) \<le> 1 \<and>
     (\<forall>t d. t \<in> set (tp_timers st) \<longrightarrow> tm_action t = TipShow d \<longrightarrow>
        tp_current st = None \<and> tp_reference st = Some (td_id d)) \<and>
     (\<forall>d. tp_current st = Some d \<longrightarrow> tp_reference st = Some (td_id d))"

lemma cleared: "tip_inv st \<Longrightarrow> tp_timers (clear_timer st) = []"
  by (auto simp: tip_inv_def clear_timer_def filter_empty_conv)

lemma clear_timer_frame [simp]:
  "tp_current (clear_timer st) = tp_current st" "tp_lastClose (clear_timer st) = tp_lastClose st"
  "tp_reference (clear_timer st) = tp_reference st" "tp_ref (clear_timer st) = tp_ref st"
  "tp_next (clear_timer st) = tp_next st"
  by (simp_all add: clear_timer_def)

lemma clear_reference: "tp_timers (clear_timer (st\<lparr>tp_reference := r\<rparr>)) = tp_timers (clear_timer st)"
  "tp_timers (clear_timer (st\<lparr>tp_suppressed := ss\<rparr>)) = tp_timers (clear_timer st)"
  by (simp_all add: clear_timer_def)

lemma handleOpen_inv: "tip_inv st \<Longrightarrow> tip_inv (handleOpen od cd now d st)"
  using cleared [of st]
  by (auto simp: handleOpen_def showTooltip_def arm_timer_def Let_def tip_inv_def clear_reference)

lemma hide_inv: "tip_inv st \<Longrightarrow> tip_inv (hideTooltip cd now st)"
  using cleared [of st] by (auto simp: hideTooltip_def arm_timer_def tip_inv_def)

lemma immediate_inv: "tip_inv st \<Longrightarrow> tip_inv (hideImmediate now st)"
  using cleared [of st] by (auto simp: hideImmediate_def tip_inv_def)

lemma fire_inv:
  assumes st: "tip_inv st"
  shows "tip_inv (fire_timer now k st)"
proof (cases "List.find (\<lambda>t. tm_id t = k \<and> tm_due t \<le> now) (tp_timers st)")
  case (Some t)
  then have t: "t \<in> set (tp_timers st)" and k: "tm_id t = k" by (auto simp: find_Some_iff)
  then have "tp_timers st = [t]" using st by (cases "tp_timers st") (auto simp: tip_inv_def)
  then show ?thesis using st Some k
    by (cases "tm_action t") (auto simp: fire_timer_def tip_inv_def Let_def)
qed (simp add: fire_timer_def st)

lemma suppressed_inv: "tip_inv (st\<lparr>tp_suppressed := ss\<rparr>) = tip_inv st"
  by (simp add: tip_inv_def)

lemma tip_inv_step: "tip_inv st \<Longrightarrow> tip_inv (tip_step od cd st e)"
  by (cases "(od, cd, st, e)" rule: tip_step.cases)
    (simp_all add: handleOpen_inv hide_inv immediate_inv fire_inv handleFocus_def unsuppress_def
      handlePointerDown_def suppressed_inv)

interpretation tooltips: invariant_machine "tip_step od cd" tip_inv init_tips for od cd
proof
  show "tip_inv init_tips" by (simp add: tip_inv_def init_tips_def)
  show "tip_inv (tip_step od cd s e)" if "tip_inv s" for s e using that by (rule tip_inv_step)
qed

text \<open>What is left is gone when its timer has run, and at once after escape.\<close>

lemma left_is_gone:
  assumes "tip_inv st" and "now + cd \<le> later"
  shows "tp_current (fire_timer later (tp_next st) (hideTooltip cd now st)) = None"
  using assms cleared [OF assms(1)]
  by (simp add: fire_timer_def hideTooltip_def arm_timer_def Let_def)

text \<open>
  The press is answered before the focus that it causes arrives, and the promise is resolved between
  the two: the tooltip comes back at once.
\<close>

lemma press_reopens:
  assumes st: "tip_inv st" and d: "tp_current st = Some d" and s: "td_id d \<notin> set (tp_suppressed st)" and cd: "0 < cd"
  shows "tp_current (run_events (tip_step od cd) st
      [(now, TePress (td_id d)), (now, TeResolved (td_id d)), (now, TeFocus d), (now, TeFire (tp_next st))]) = Some d"
  using cleared [OF st] d cd
  by (simp add: handlePointerDown_def hideImmediate_def unsuppress_def handleFocus_def handleOpen_def showTooltip_def
      arm_timer_def fire_timer_def Let_def clear_timer_def)

text \<open>Properties that only differ in what is inside count as equal, so a changed text is not handed on.\<close>

lemma changed_text_lost:
  "map_of p ''children'' = Some x \<Longrightarrow> q = map (\<lambda>(k, v). (k, if k = ''children'' then y else v)) p \<Longrightarrow>
   content_effect q (Some p, p) = (Some p, p)"
proof -
  assume q: "q = map (\<lambda>(k, v). (k, if k = ''children'' then y else v)) p"
  have keys: "map fst q = map fst p" unfolding q by (induction p) auto
  have "map_of q k = map_of p k" if "k \<noteq> ''children''" for k
    unfolding q using that by (induction p) auto
  then have "list_all (\<lambda>k. prop_at p k = prop_at q k) (prop_keys p)"
    by (auto simp: list_all_iff prop_keys_def prop_at_def)
  then show "content_effect q (Some p, p) = (Some p, p)"
    by (simp add: content_effect_def shallowEqualWithoutChildren_def prop_keys_def keys)
qed

text \<open>The overlay shows what the provider has, and keeps its data until the animation is over.\<close>

lemma overlay_follows: "cur = Some d \<Longrightarrow> overlay_effect cur ov = \<lparr>ov_data = Some d, ov_open = True\<rparr>"
  by (simp add: overlay_effect_def)

lemma overlay_closes: "ov_data (animation_done (overlay_effect None ov)) = None \<or> ov_open ov \<and> ov_data ov = None"
  by (auto simp: overlay_effect_def animation_done_def)

end
