(* ===== verification/UiSidebar.thy ===== *)
theory UiSidebar
  imports AppShell UiTooltip
begin

text \<open>
  The side bar of the console (\<open>web/src/components/ui/sidebar.tsx\<close>): the provider with its two
  states (wide screen and phone), the cookie it writes, the shortcut, and what the bar and its
  entries show; the screen probe (\<open>web/src/hooks/use-mobile.tsx\<close>) and the menu of the user
  (\<open>web/src/components/nav-user.tsx\<close>). Class names are kept where a choice depends on the state.
\<close>

subsection \<open>The screen\<close>

definition MOBILE_BREAKPOINT :: nat where "MOBILE_BREAKPOINT = 768"

text \<open>Nothing is known before the effect; the listener hears the query \<open>max-width: 767px\<close> change.\<close>

definition mobile_query :: "nat \<Rightarrow> bool" where
  "mobile_query width \<longleftrightarrow> width \<le> MOBILE_BREAKPOINT - 1"

definition mobile_probe :: "nat \<Rightarrow> bool option" where
  "mobile_probe width = Some (width < MOBILE_BREAKPOINT)"

definition mobile_resize :: "nat \<Rightarrow> nat \<Rightarrow> bool option \<Rightarrow> bool option" where
  "mobile_resize old new m = (if mobile_query old \<noteq> mobile_query new then mobile_probe new else m)"

definition useIsMobile :: "bool option \<Rightarrow> bool" where
  "useIsMobile m \<longleftrightarrow> m = Some True"

subsection \<open>The provider\<close>

definition SIDEBAR_COOKIE_NAME :: string where "SIDEBAR_COOKIE_NAME = ''sidebar_state''"
definition SIDEBAR_COOKIE_MAX_AGE :: nat where "SIDEBAR_COOKIE_MAX_AGE = 60 * 60 * 24 * 7"
definition SIDEBAR_KEYBOARD_SHORTCUT :: string where "SIDEBAR_KEYBOARD_SHORTCUT = ''b''"

text \<open>
  \<open>sb_prop\<close> is the property \<open>open\<close>, \<open>sb_handler\<close> whether \<open>onOpenChange\<close> is given, \<open>sb_told\<close> what it was
  told; cookies are the values written, the last one first.
\<close>

record sidebar =
  sb_prop :: "bool option"
  sb_handler :: bool
  sb_open :: bool
  sb_open_mobile :: bool
  sb_width :: nat
  sb_mobile :: "bool option"
  sb_cookies :: "bool list"
  sb_told :: "bool list"

definition cookie_text :: "bool \<Rightarrow> string" where
  "cookie_text b = SIDEBAR_COOKIE_NAME @ ''='' @ (if b then ''true'' else ''false'') @ ''; path=/; max-age=''
     @ nat_to_string SIDEBAR_COOKIE_MAX_AGE"

definition init_sidebar :: "bool option \<Rightarrow> bool \<Rightarrow> bool option \<Rightarrow> nat \<Rightarrow> sidebar" where
  "init_sidebar prop handler defaultOpen width =
     \<lparr>sb_prop = prop, sb_handler = handler, sb_open = (case defaultOpen of None \<Rightarrow> True | Some b \<Rightarrow> b),
      sb_open_mobile = False, sb_width = width, sb_mobile = None, sb_cookies = [], sb_told = []\<rparr>"

definition sidebar_open :: "sidebar \<Rightarrow> bool" where
  "sidebar_open st = (case sb_prop st of None \<Rightarrow> sb_open st | Some b \<Rightarrow> b)"

datatype open_value = OpenTo bool | OpenBy "bool \<Rightarrow> bool"

definition setOpen :: "open_value \<Rightarrow> sidebar \<Rightarrow> sidebar" where
  "setOpen v st =
     (let openState = (case v of OpenBy f \<Rightarrow> f (sidebar_open st) | OpenTo b \<Rightarrow> b);
          st1 = (if sb_handler st then st\<lparr>sb_told := openState # sb_told st\<rparr> else st\<lparr>sb_open := openState\<rparr>)
      in st1\<lparr>sb_cookies := openState # sb_cookies st1\<rparr>)"

definition toggleSidebar :: "sidebar \<Rightarrow> sidebar" where
  "toggleSidebar st =
     (if useIsMobile (sb_mobile st) then st\<lparr>sb_open_mobile := \<not> sb_open_mobile st\<rparr> else setOpen (OpenBy Not) st)"

text \<open>A key pressed: whether the browser's own action is prevented, and the state.\<close>

definition sidebar_key :: "string \<Rightarrow> bool \<Rightarrow> bool \<Rightarrow> sidebar \<Rightarrow> bool \<times> sidebar" where
  "sidebar_key key meta ctrl st =
     (if key = SIDEBAR_KEYBOARD_SHORTCUT \<and> (meta \<or> ctrl) then (True, toggleSidebar st) else (False, st))"

definition sidebar_state :: "sidebar \<Rightarrow> string" where
  "sidebar_state st = (if sidebar_open st then ''expanded'' else ''collapsed'')"

text \<open>
  The trigger and the rail toggle; the sheet of a phone reports its changes; the window is resized;
  the effect after mounting; a parent that controls the bar renders it with another value.
\<close>

datatype sidebar_event = SbMounted | SbToggle | SbKey string bool bool | SbSheet bool | SbResize nat | SbParent bool

fun sidebar_step :: "sidebar \<Rightarrow> sidebar_event \<Rightarrow> sidebar" where
  "sidebar_step st SbMounted = st\<lparr>sb_mobile := mobile_probe (sb_width st)\<rparr>"
| "sidebar_step st SbToggle = toggleSidebar st"
| "sidebar_step st (SbKey k meta ctrl) = snd (sidebar_key k meta ctrl st)"
| "sidebar_step st (SbSheet b) = st\<lparr>sb_open_mobile := b\<rparr>"
| "sidebar_step st (SbResize w) =
     st\<lparr>sb_width := w, sb_mobile := (if sb_mobile st = None then None else mobile_resize (sb_width st) w (sb_mobile st))\<rparr>"
| "sidebar_step st (SbParent b) = (if sb_prop st = None then st else st\<lparr>sb_prop := Some b\<rparr>)"

subsection \<open>The bar\<close>

datatype bar_side = BarLeft | BarRight
datatype bar_variant = BarSidebar | BarFloating | BarInset
datatype bar_collapsible = CollapseOffcanvas | CollapseIcon | CollapseNone

definition collapsible_text :: "bar_collapsible \<Rightarrow> string" where
  "collapsible_text c = (case c of CollapseOffcanvas \<Rightarrow> ''offcanvas'' | CollapseIcon \<Rightarrow> ''icon'' | CollapseNone \<Rightarrow> ''none'')"

datatype bar_view = PlainBar
  | SheetBar (sheet_open: bool) (sheet_side: bar_side)
  | DesktopBar (bar_state: string) (bar_data_collapsible: string) (bar_kind: bar_variant) (bar_at: bar_side)

definition bar_view_of :: "bar_side \<Rightarrow> bar_variant \<Rightarrow> bar_collapsible \<Rightarrow> sidebar \<Rightarrow> bar_view" where
  "bar_view_of side vrt coll st =
     (if coll = CollapseNone then PlainBar
      else if useIsMobile (sb_mobile st) then SheetBar (sb_open_mobile st) side
      else DesktopBar (sidebar_state st)
             (if sidebar_state st = ''collapsed'' then collapsible_text coll else []) vrt side)"

text \<open>The width of the gap: the classes that depend on \<open>data-collapsible\<close>, then the full width.\<close>

definition gap_width :: "bar_variant \<Rightarrow> string \<Rightarrow> string" where
  "gap_width vrt coll =
     (if coll = ''offcanvas'' then ''w-0''
      else if coll = ''icon'' then
        (if vrt = BarFloating \<or> vrt = BarInset then ''w-[calc(var(--sidebar-width-icon)_+_theme(spacing.4))]''
         else ''w-[var(--sidebar-width-icon)]'')
      else ''w-[var(--sidebar-width)]'')"

subsection \<open>The entries\<close>

datatype menu_button_variant = ButtonDefault | ButtonOutline
datatype menu_button_size = ButtonMedium | ButtonSm | ButtonLg

definition menu_variant_class :: "menu_button_variant \<Rightarrow> string" where
  "menu_variant_class v =
     (case v of ButtonDefault \<Rightarrow> ''hover:bg-sidebar-accent hover:text-sidebar-accent-foreground''
      | ButtonOutline \<Rightarrow> ''bg-background shadow-[0_0_0_1px_hsl(var(--sidebar-border))] '' @
          ''hover:bg-sidebar-accent hover:text-sidebar-accent-foreground '' @
          ''hover:shadow-[0_0_0_1px_hsl(var(--sidebar-accent))]'')"

definition menu_size_class :: "menu_button_size \<Rightarrow> string" where
  "menu_size_class s =
     (case s of ButtonMedium \<Rightarrow> ''h-8 text-sm'' | ButtonSm \<Rightarrow> ''h-7 text-xs''
      | ButtonLg \<Rightarrow> ''h-12 text-sm group-data-[collapsible=icon]:!p-0'')"

text \<open>A tooltip is a text or properties of the content; the properties come last.\<close>

datatype menu_tooltip = TipText string | TipProps "string props"

record menu_button_view =
  mb_active :: bool
  mb_tooltip :: "string props option"

definition js_flag :: "bool \<Rightarrow> string" where
  "js_flag b = (if b then ''true'' else ''false'')"

definition menu_button_view_of :: "bool \<Rightarrow> menu_tooltip option \<Rightarrow> sidebar \<Rightarrow> menu_button_view" where
  "menu_button_view_of active tip st =
     \<lparr>mb_active = active,
      mb_tooltip =
        (case tip of None \<Rightarrow> None
         | Some t \<Rightarrow>
             if t = TipText [] then None
             else
               (let own = (case t of TipText s \<Rightarrow> [(''children'', Some s)] | TipProps ps \<Rightarrow> ps)
                in Some (own @ [(''side'', Some ''right''), (''align'', Some ''center''),
                     (''hidden'', Some (js_flag (sidebar_state st \<noteq> ''collapsed'' \<or> useIsMobile (sb_mobile st))))])))\<rparr>"

text \<open>The element and the mark \<open>data-sidebar\<close> of the parts without state; \<open>asChild\<close> hands on to the child.\<close>

datatype bar_part = PartInput | PartHeader | PartFooter | PartSeparator | PartContent | PartGroup
  | PartGroupLabel | PartGroupAction | PartGroupContent | PartMenu | PartMenuItem

definition bar_part_of :: "bool \<Rightarrow> bar_part \<Rightarrow> string \<times> string" where
  "bar_part_of asChild p =
     (case p of PartInput \<Rightarrow> (''Input'', ''input'') | PartHeader \<Rightarrow> (''div'', ''header'')
      | PartFooter \<Rightarrow> (''div'', ''footer'') | PartSeparator \<Rightarrow> (''Separator'', ''separator'')
      | PartContent \<Rightarrow> (''div'', ''content'') | PartGroup \<Rightarrow> (''div'', ''group'')
      | PartGroupLabel \<Rightarrow> (if asChild then ''Slot'' else ''div'', ''group-label'')
      | PartGroupAction \<Rightarrow> (if asChild then ''Slot'' else ''button'', ''group-action'')
      | PartGroupContent \<Rightarrow> (''div'', ''group-content'') | PartMenu \<Rightarrow> (''ul'', ''menu'')
      | PartMenuItem \<Rightarrow> (''li'', ''menu-item''))"

text \<open>The width of a skeleton in percent, from a random number.\<close>

definition skeleton_width :: "rat \<Rightarrow> int" where
  "skeleton_width r = \<lfloor>dbl (r * 40)\<rfloor> + 50"

record menu_sub_button =
  ms_element :: string
  ms_size :: string
  ms_text_class :: "string option"

definition menu_sub_button_of :: "bool \<Rightarrow> string option \<Rightarrow> menu_sub_button" where
  "menu_sub_button_of asChild sz =
     (let s = (case sz of None \<Rightarrow> ''md'' | Some x \<Rightarrow> x)
      in \<lparr>ms_element = (if asChild then ''Slot'' else ''a''), ms_size = s,
          ms_text_class = (if s = ''sm'' then Some ''text-xs'' else if s = ''md'' then Some ''text-sm'' else None)\<rparr>)"

subsection \<open>The bar of the console\<close>

text \<open>
  \<open>AppSidebar\<close> in the layout: uncontrolled, open at first, folding to icons; every entry has its title
  as a tooltip and is active by its path.
\<close>

definition console_sidebar :: "nat \<Rightarrow> sidebar" where
  "console_sidebar width = init_sidebar None False (Some True) width"

definition console_bar :: "sidebar \<Rightarrow> bar_view" where
  "console_bar st = bar_view_of BarLeft BarSidebar CollapseIcon st"

definition console_entry :: "string \<Rightarrow> string \<times> string \<Rightarrow> sidebar \<Rightarrow> menu_button_view" where
  "console_entry path item st = menu_button_view_of (isActivePath path (snd item)) (Some (TipText (fst item))) st"

text \<open>The menu of the user opens below on a phone; leaving keeps it open and calls the layout.\<close>

definition user_menu_side :: "sidebar \<Rightarrow> string" where
  "user_menu_side st = (if useIsMobile (sb_mobile st) then ''bottom'' else ''right'')"

definition user_menu_select :: "bool \<Rightarrow> bool \<times> shell \<Rightarrow> bool \<times> shell" where
  "user_menu_select has_logout s = (case s of (menu_open, st) \<Rightarrow> (menu_open, if has_logout then handleLogout st else st))"

subsection \<open>Laws\<close>

text \<open>
  Once mounted the probe agrees with the window; the bar without a parent shows what the cookie says;
  a parent that is told hears exactly what the cookie gets.
\<close>

definition sidebar_inv :: "sidebar \<Rightarrow> bool" where
  "sidebar_inv st \<longleftrightarrow>
     (\<forall>m. sb_mobile st = Some m \<longrightarrow> m = (sb_width st < MOBILE_BREAKPOINT)) \<and>
     (sb_handler st \<longrightarrow> sb_told st = sb_cookies st) \<and>
     (\<not> sb_handler st \<longrightarrow> sb_told st = [] \<and> (sb_cookies st \<noteq> [] \<longrightarrow> hd (sb_cookies st) = sb_open st))"

lemma query_probe: "mobile_query w \<longleftrightarrow> w < MOBILE_BREAKPOINT"
  by (auto simp: mobile_query_def MOBILE_BREAKPOINT_def)

lemma sidebar_inv_setOpen: "sidebar_inv st \<Longrightarrow> sidebar_inv (setOpen v st)"
  by (cases "sb_handler st") (simp_all add: sidebar_inv_def setOpen_def Let_def)

lemma sidebar_inv_toggle: "sidebar_inv st \<Longrightarrow> sidebar_inv (toggleSidebar st)"
  by (cases "useIsMobile (sb_mobile st)") (simp_all add: toggleSidebar_def sidebar_inv_setOpen, simp add: sidebar_inv_def)

lemma sidebar_inv_step:
  assumes "sidebar_inv st"
  shows "sidebar_inv (sidebar_step st e)"
proof (cases e)
  case (SbKey k m c)
  with assms show ?thesis by (simp add: sidebar_key_def sidebar_inv_toggle)
next
  case (SbResize w)
  with assms show ?thesis
    by (auto simp: sidebar_inv_def mobile_resize_def mobile_probe_def query_probe)
qed (use assms sidebar_inv_toggle in \<open>auto simp: sidebar_inv_def mobile_probe_def\<close>)

interpretation sidebars: invariant_machine sidebar_step sidebar_inv "init_sidebar p h d w" for p h d w
proof
  show "sidebar_inv (init_sidebar p h d w)" by (simp add: sidebar_inv_def init_sidebar_def)
qed (rule sidebar_inv_step)

text \<open>Toggling twice is nothing on the wide screen without a parent, but for the cookie; always on a phone.\<close>

lemma toggle_phone: "useIsMobile (sb_mobile st) \<Longrightarrow> toggleSidebar (toggleSidebar st) = st"
  by (simp add: toggleSidebar_def)

lemma toggle_wide:
  "\<not> useIsMobile (sb_mobile st) \<Longrightarrow> sb_prop st = None \<Longrightarrow> \<not> sb_handler st \<Longrightarrow>
   toggleSidebar (toggleSidebar st) = st\<lparr>sb_cookies := sb_open st # (\<not> sb_open st) # sb_cookies st\<rparr>"
  by (simp add: toggleSidebar_def setOpen_def sidebar_open_def Let_def)

text \<open>The two states are apart: the phone's flag does not touch the wide bar and the reverse.\<close>

lemma toggle_apart:
  "if useIsMobile (sb_mobile st) then sidebar_open (toggleSidebar st) = sidebar_open st \<and> sb_cookies (toggleSidebar st) = sb_cookies st
   else sb_open_mobile (toggleSidebar st) = sb_open_mobile st"
  by (auto simp: toggleSidebar_def sidebar_open_def setOpen_def Let_def split: option.splits)

text \<open>A parent that gives \<open>open\<close> and does not answer leaves the bar as it is; the cookie says otherwise.\<close>

lemma unanswered_toggle:
  "\<not> useIsMobile (sb_mobile st) \<Longrightarrow> sb_prop st = Some b \<Longrightarrow>
   sidebar_open (toggleSidebar st) = b \<and> hd (sb_cookies (toggleSidebar st)) = (\<not> b)"
  by (simp add: toggleSidebar_def setOpen_def sidebar_open_def Let_def)

text \<open>The cookie is never read: whatever was left there, a new page is open.\<close>

lemma cookie_never_read:
  assumes "MOBILE_BREAKPOINT \<le> w"
  shows "sb_cookies (run_events sidebar_step (console_sidebar w) [SbMounted, SbToggle]) = [False] \<and>
    \<not> sidebar_open (run_events sidebar_step (console_sidebar w) [SbMounted, SbToggle]) \<and> sidebar_open (console_sidebar w)"
proof -
  let ?st = "(console_sidebar w)\<lparr>sb_mobile := Some False\<rparr>"
  have "sidebar_step (console_sidebar w) SbMounted = ?st"
    using assms by (simp add: console_sidebar_def init_sidebar_def mobile_probe_def)
  moreover have "toggleSidebar ?st = setOpen (OpenBy Not) ?st"
    by (simp add: toggleSidebar_def useIsMobile_def)
  moreover have "sb_cookies (setOpen (OpenBy Not) ?st) = [False] \<and> \<not> sidebar_open (setOpen (OpenBy Not) ?st)"
    by (simp add: setOpen_def console_sidebar_def init_sidebar_def sidebar_open_def)
  moreover have "sidebar_open (console_sidebar w)" by (simp add: console_sidebar_def init_sidebar_def sidebar_open_def)
  ultimately show ?thesis by simp
qed

lemma cookie_text_value: "cookie_text False = ''sidebar_state=false; path=/; max-age=604800''"
  by (simp add: cookie_text_def SIDEBAR_COOKIE_NAME_def SIDEBAR_COOKIE_MAX_AGE_def nat_to_string.simps) code_simp

text \<open>The shortcut is the small letter: with the capitals it does nothing.\<close>

lemma shortcut_small: "sidebar_key ''B'' m c st = (False, st)"
  by (simp add: sidebar_key_def SIDEBAR_KEYBOARD_SHORTCUT_def)

text \<open>The gap has no room exactly when the bar slides away, the room of icons when it folds to them.\<close>

lemma console_gap:
  "\<not> useIsMobile (sb_mobile st) \<Longrightarrow>
   gap_width BarSidebar (bar_data_collapsible (console_bar st)) =
     (if sidebar_open st then ''w-[var(--sidebar-width)]'' else ''w-[var(--sidebar-width-icon)]'')"
  by (simp add: console_bar_def bar_view_of_def sidebar_state_def collapsible_text_def gap_width_def)

text \<open>A text tooltip shows exactly over a folded bar on a wide screen.\<close>

lemma tooltip_hidden:
  assumes "s \<noteq> []"
  shows "\<exists>ps. mb_tooltip (menu_button_view_of a (Some (TipText s)) st) = Some ps \<and>
    (prop_at ps ''hidden'' = Some ''false'' \<longleftrightarrow> \<not> sidebar_open st \<and> \<not> useIsMobile (sb_mobile st))"
  using assms by (simp add: menu_button_view_of_def prop_at_def js_flag_def sidebar_state_def)

lemma own_props_win:
  "mb_tooltip (menu_button_view_of a (Some (TipProps [(''hidden'', Some ''false'')])) st) = Some ps \<Longrightarrow>
   prop_at ps ''hidden'' = Some ''false''"
  by (auto simp: menu_button_view_of_def prop_at_def)

text \<open>A skeleton takes 50 to 89 percent; the random number is a multiple of $2^{-53}$ below 1.\<close>

lemma skeleton_bounds:
  assumes "0 \<le> r" and "r \<le> 1 - 1 / 2^53"
  shows "50 \<le> skeleton_width r \<and> skeleton_width r \<le> 89"
proof -
  have "r * 40 \<le> (1 - 1 / 2^53) * 40" using assms(2) by (intro mult_right_mono) auto
  then have "dbl (r * 40) \<le> dbl ((1 - 1 / 2^53) * 40)" using assms(1) by (intro dbl_mono) auto
  moreover have "\<lfloor>45035996273704955 / 8 :: rat\<rfloor> = 5629499534213119" by (rule floor_unique) simp_all
  then have "dbl ((1 - 1 / 2^53) * 40) < 40"
    by (simp add: dbl_def scale_of.simps round_half_even_def Let_def)
  ultimately have "dbl (r * 40) < 40" by simp
  then have upper: "\<lfloor>dbl (r * 40)\<rfloor> < 40" by (simp add: floor_less_iff)
  have "0 \<le> dbl (r * 40)" by (rule dbl_nonneg)
  then have "0 \<le> \<lfloor>dbl (r * 40)\<rfloor>" by simp
  with upper show ?thesis by (simp add: skeleton_width_def)
qed

text \<open>Leaving through the menu is the logout of the layout, and the menu stays open.\<close>

lemma user_menu_logout:
  "user_menu_select True (b, st) = (b, handleLogout st) \<and> sh_token (snd (user_menu_select True (b, st))) = None"
  by (simp add: user_menu_select_def handleLogout_def)

end
