(* ===== verification/UiHighlight.thy ===== *)
theory UiHighlight
  imports UiTooltip Hooks
begin

text \<open>
  The moving highlight behind tabs, menu entries and choices
  (\<open>web/src/components/animate-ui/primitives/effects/highlight.tsx\<close>): the active value with the
  report to the parent, the bounds of the mark in the container, and what an item does and shows.
  A property that may be undefined or null is an option of an option; coordinates are rationals,
  with exact sums.
\<close>

datatype highlight_mode = ModeChildren | ModeParent

record bounds =
  bd_top :: rat
  bd_left :: rat
  bd_width :: rat
  bd_height :: rat

definition DEFAULT_BOUNDS_OFFSET :: bounds where
  "DEFAULT_BOUNDS_OFFSET = \<lparr>bd_top = 0, bd_left = 0, bd_width = 0, bd_height = 0\<rparr>"

record highlight =
  hl_active :: "string option"
  hl_bounds :: "bounds option"
  hl_class :: string

type_synonym value_prop = "string option option"

subsection \<open>The container\<close>

text \<open>\<open>value ?? defaultValue ?? null\<close>\<close>

definition init_highlight :: "value_prop \<Rightarrow> value_prop \<Rightarrow> highlight" where
  "init_highlight v d =
     \<lparr>hl_active = (case v of Some (Some x) \<Rightarrow> Some x
        | _ \<Rightarrow> (case d of Some (Some x) \<Rightarrow> Some x | _ \<Rightarrow> None)), hl_bounds = None, hl_class = []\<rparr>"

text \<open>A new value is stored and reported, the same one is not.\<close>

definition safeSetActiveValue :: "string option \<Rightarrow> highlight \<Rightarrow> highlight \<times> string option list" where
  "safeSetActiveValue i st = (if hl_active st \<noteq> i then (st\<lparr>hl_active := i\<rparr>, [i]) else (st, []))"

text \<open>The effect on the two properties.\<close>

definition value_effect :: "value_prop \<Rightarrow> value_prop \<Rightarrow> highlight \<Rightarrow> highlight" where
  "value_effect v d st =
     (case v of Some x \<Rightarrow> st\<lparr>hl_active := x\<rparr>
      | None \<Rightarrow> (case d of Some x \<Rightarrow> st\<lparr>hl_active := x\<rparr> | None \<Rightarrow> st))"

definition boundsOffset :: "bounds option \<Rightarrow> bounds" where
  "boundsOffset p = (case p of None \<Rightarrow> DEFAULT_BOUNDS_OFFSET | Some b \<Rightarrow> b)"

text \<open>\<open>container\<close> is the box of the container, when it is mounted.\<close>

definition safeSetBounds :: "bounds option \<Rightarrow> bounds \<Rightarrow> bounds \<Rightarrow> highlight \<Rightarrow> highlight" where
  "safeSetBounds container off b st =
     (case container of None \<Rightarrow> st
      | Some c \<Rightarrow>
          (let newBounds = \<lparr>bd_top = bd_top b - bd_top c + bd_top off, bd_left = bd_left b - bd_left c + bd_left off,
                 bd_width = bd_width b + bd_width off, bd_height = bd_height b + bd_height off\<rparr>
           in if hl_bounds st = Some newBounds then st else st\<lparr>hl_bounds := Some newBounds\<rparr>))"

definition clearBounds :: "highlight \<Rightarrow> highlight" where
  "clearBounds st = (if hl_bounds st = None then st else st\<lparr>hl_bounds := None\<rparr>)"

definition falsy :: "string option \<Rightarrow> bool" where
  "falsy v = (case v of None \<Rightarrow> True | Some s \<Rightarrow> s = [])"

text \<open>Scrolling measures the active element again; \<open>measure\<close> finds it in the container.\<close>

definition on_scroll :: "highlight_mode \<Rightarrow> bounds option \<Rightarrow> bounds \<Rightarrow> (string \<Rightarrow> bounds option) \<Rightarrow> highlight \<Rightarrow> highlight" where
  "on_scroll mode container off find_box st =
     (if mode \<noteq> ModeParent \<or> container = None \<or> falsy (hl_active st) then st
      else case find_box (the (hl_active st)) of None \<Rightarrow> st | Some b \<Rightarrow> safeSetBounds container off b st)"

text \<open>In the parent mode the container draws one mark, at its bounds; the way out may be delayed.\<close>

definition parent_mark :: "highlight_mode \<Rightarrow> bool \<Rightarrow> highlight \<Rightarrow> bounds option" where
  "parent_mark mode enbl st = (if mode = ModeParent \<and> enbl then hl_bounds st else None)"

definition exit_delay :: "rat option \<Rightarrow> rat option \<Rightarrow> rat" where
  "exit_delay base d = (case base of None \<Rightarrow> 0 | Some b \<Rightarrow> b) + (case d of None \<Rightarrow> 0 | Some x \<Rightarrow> x) / 1000"

subsection \<open>The items\<close>

record highlight_item =
  hi_id :: "string option"
  hi_value :: "string option"
  hi_data_value :: "string option"
  hi_child_id :: "string option"
  hi_own_id :: string
  hi_disabled :: "bool option"
  hi_class :: "string option"
  hi_force :: "bool option"

definition or_else :: "'a option \<Rightarrow> 'a option \<Rightarrow> 'a option" where
  "or_else a b = (case a of None \<Rightarrow> b | Some x \<Rightarrow> Some x)"

definition childValue :: "highlight_item \<Rightarrow> string" where
  "childValue it =
     (case or_else (hi_id it) (or_else (hi_value it) (or_else (hi_data_value it) (hi_child_id it))) of
        None \<Rightarrow> hi_own_id it | Some v \<Rightarrow> v)"

definition isActive :: "highlight \<Rightarrow> highlight_item \<Rightarrow> bool" where
  "isActive st it \<longleftrightarrow> hl_active st = Some (childValue it)"

text \<open>\<open>disabled\<close> has a default, so that the one of the context is never taken.\<close>

definition isDisabled :: "bool \<Rightarrow> highlight_item \<Rightarrow> bool" where
  "isDisabled contextDisabled it =
     (let disabled = Some (case hi_disabled it of None \<Rightarrow> False | Some b \<Rightarrow> b) in
      case disabled of None \<Rightarrow> contextDisabled | Some b \<Rightarrow> b)"

definition shouldUpdateBounds :: "bool \<Rightarrow> highlight_item \<Rightarrow> bool" where
  "shouldUpdateBounds contextForce it \<longleftrightarrow> hi_force it = Some True \<or> contextForce \<and> hi_force it \<noteq> Some False"

text \<open>
  One run of \<open>updateBounds\<close>: the box of the element (when it is mounted) and the previous one give
  the bounds to set, the next previous ones and whether another frame is requested.
\<close>

definition updateBounds :: "bool \<Rightarrow> bounds option \<Rightarrow> bounds option \<Rightarrow> bounds option \<times> bounds option \<times> bool" where
  "updateBounds should box previous =
     (case box of None \<Rightarrow> (None, previous, False)
      | Some b \<Rightarrow>
          if should then (if previous = Some b then (None, previous, True) else (Some b, Some b, True))
          else (Some b, previous, False))"

text \<open>The effect of an item in the parent mode: an active one places the mark, no value removes it.\<close>

definition item_effect ::
  "highlight_mode \<Rightarrow> bool \<Rightarrow> bounds option \<Rightarrow> bounds \<Rightarrow> bounds option \<Rightarrow> highlight_item \<Rightarrow> highlight \<Rightarrow> highlight" where
  "item_effect mode contextForce container off box it st =
     (if mode \<noteq> ModeParent then st
      else if isActive st it then
        (let st1 = (case fst (updateBounds (shouldUpdateBounds contextForce it) box None) of
             None \<Rightarrow> st | Some b \<Rightarrow> safeSetBounds container off b st)
         in st1\<lparr>hl_class := (case hi_class it of None \<Rightarrow> [] | Some c \<Rightarrow> c)\<rparr>)
      else if falsy (hl_active st) then clearBounds st
      else st)"

datatype pointer_event = PointerEnter | PointerLeave | PointerClick

text \<open>With \<open>hover\<close> an item follows the pointer, otherwise, with \<open>click\<close>, the clicks.\<close>

definition item_handler :: "bool \<Rightarrow> bool \<Rightarrow> highlight_item \<Rightarrow> pointer_event \<Rightarrow> highlight \<Rightarrow> highlight \<times> string option list" where
  "item_handler hover click it e st =
     (case e of
        PointerEnter \<Rightarrow> if hover then safeSetActiveValue (Some (childValue it)) st else (st, [])
      | PointerLeave \<Rightarrow> if hover then safeSetActiveValue None st else (st, [])
      | PointerClick \<Rightarrow> if \<not> hover \<and> click then safeSetActiveValue (Some (childValue it)) st else (st, []))"

record item_view =
  iv_attrs :: "string props"
  iv_mark :: bool

definition flag_text :: "bool \<Rightarrow> string" where
  "flag_text b = (if b then ''true'' else ''false'')"

definition dataAttributes :: "bool \<Rightarrow> highlight \<Rightarrow> highlight_item \<Rightarrow> string props" where
  "dataAttributes contextDisabled st it =
     [(''data-active'', Some (flag_text (isActive st it))), (''aria-selected'', Some (flag_text (isActive st it))),
      (''data-disabled'', Some (flag_text (isDisabled contextDisabled it))), (''data-value'', Some (childValue it)),
      (''data-highlight'', Some (flag_text True))]"

text \<open>The attributes the element does not set itself.\<close>

definition getNonOverridingDataAttributes :: "string props \<Rightarrow> string props \<Rightarrow> string props" where
  "getNonOverridingDataAttributes element attrs = filter (\<lambda>(k, v). prop_at element k = None) attrs"

definition item_view_of :: "highlight_mode \<Rightarrow> bool \<Rightarrow> bool \<Rightarrow> string props \<Rightarrow> highlight \<Rightarrow> highlight_item \<Rightarrow> item_view option" where
  "item_view_of mode enbl contextDisabled element st it =
     (if \<not> enbl then None
      else Some \<lparr>iv_attrs = getNonOverridingDataAttributes element
             (dataAttributes contextDisabled st it @ [(''data-slot'', Some ''motion-highlight-item'')]),
           iv_mark = (mode = ModeChildren \<and> isActive st it \<and> \<not> isDisabled contextDisabled it)\<rparr>)"

text \<open>With \<open>asChild\<close> the element itself is the item; \<open>enabled\<close> is not asked.\<close>

definition as_child_view_of :: "highlight_mode \<Rightarrow> bool \<Rightarrow> string props \<Rightarrow> highlight \<Rightarrow> highlight_item \<Rightarrow> item_view" where
  "as_child_view_of mode contextDisabled element st it =
     \<lparr>iv_attrs = getNonOverridingDataAttributes element (dataAttributes contextDisabled st it @
        [(''data-slot'', Some (if mode = ModeChildren then ''motion-highlight-item-container'' else ''motion-highlight-item''))]),
      iv_mark = (mode = ModeChildren \<and> isActive st it \<and> \<not> isDisabled contextDisabled it)\<rparr>"

text \<open>
  How often the element's own handler runs for one event on it. A container around it calls the handler
  and the element keeps it; with \<open>asChild\<close> the clone calls it in place of its own, and in the children mode
  holds the element once more.
\<close>

definition installed :: "bool \<Rightarrow> bool \<Rightarrow> pointer_event \<Rightarrow> bool" where
  "installed hover click e = (case e of PointerClick \<Rightarrow> \<not> hover \<and> click | _ \<Rightarrow> hover)"

definition child_calls :: "bool \<Rightarrow> highlight_mode \<Rightarrow> bool \<Rightarrow> bool \<Rightarrow> bool \<Rightarrow> pointer_event \<Rightarrow> nat" where
  "child_calls asChild mode enbl hover click e =
     (if asChild then (if mode = ModeChildren then 2 else 1)
      else if enbl \<and> installed hover click e then 2 else 1)"

subsection \<open>Its users\<close>

text \<open>
  A parent that stores what it is told: items are used, or the parent sets another value, which the
  effect hands down. (\<open>web/src/pages/cert/page.tsx\<close> and its dialogs.)
\<close>

datatype choice_event = ChItem highlight_item pointer_event | ChParent string

fun choice_step :: "bool \<Rightarrow> highlight \<times> string option \<Rightarrow> choice_event \<Rightarrow> highlight \<times> string option" where
  "choice_step hover (st, p) (ChItem it e) =
     (case item_handler hover True it e st of (st', told) \<Rightarrow> (st', if told = [] then p else last told))"
| "choice_step hover (st, p) (ChParent v) = (value_effect (Some (Some v)) None st, Some v)"

subsection \<open>Laws\<close>

text \<open>At most one item is active when their values differ.\<close>

lemma one_item_active:
  assumes "distinct (map childValue its)"
  shows "length (filter (isActive st) its) \<le> 1"
proof (cases "hl_active st")
  case None
  then have "filter (isActive st) its = []" by (simp add: isActive_def filter_empty_conv)
  then show ?thesis by (metis bot_nat_0.extremum list.size(3))
next
  case (Some v)
  have "length (filter (\<lambda>i. childValue i = v) its) \<le> 1" using assms
  proof (induction its)
    case (Cons i its)
    have "childValue i = v \<Longrightarrow> filter (\<lambda>j. childValue j = v) its = []"
      using Cons.prems by (force simp: filter_empty_conv image_iff)
    then show ?case using Cons by auto
  qed simp
  moreover have "isActive st = (\<lambda>i. childValue i = v)" using Some by (auto simp: isActive_def)
  ultimately show ?thesis by simp
qed

lemma told_active: "fst (safeSetActiveValue i st) = st\<lparr>hl_active := i\<rparr> \<and>
    (snd (safeSetActiveValue i st) = [] \<and> hl_active st = i \<or> snd (safeSetActiveValue i st) = [i])"
  by (auto simp: safeSetActiveValue_def)

text \<open>A highlight and a parent that stores what it is told never disagree.\<close>

lemma choice_agrees: "hl_active (fst s) = snd s \<Longrightarrow> hl_active (fst (choice_step hover s e)) = snd (choice_step hover s e)"
proof (cases "(hover, s, e)" rule: choice_step.cases)
  case (1 h st p it ev)
  then show "hl_active (fst s) = snd s \<Longrightarrow> ?thesis"
    using told_active [of "Some (childValue it)" st] told_active [of None st]
    by (cases ev) (auto simp: item_handler_def split: prod.splits)
qed (simp add: value_effect_def)

interpretation choices: invariant_machine "choice_step hover" "\<lambda>s. hl_active (fst s) = snd s"
    "(init_highlight (Some (Some v)) None, Some v)" for hover v
proof
  show "hl_active (fst (init_highlight (Some (Some v)) None, Some v)) = snd (init_highlight (Some (Some v)) None, Some v)"
    by (simp add: init_highlight_def)
  show "hl_active (fst (choice_step hover s e)) = snd (choice_step hover s e)" if "hl_active (fst s) = snd s" for s e
    using that by (rule choice_agrees)
qed

text \<open>The property \<open>disabled\<close> of the container reaches no item, and a disabled item can be chosen.\<close>

lemma context_disabled_ignored: "isDisabled b it = isDisabled c it"
  by (simp add: isDisabled_def)

lemma disabled_item_chosen:
  "hi_disabled it = Some True \<Longrightarrow> isActive (fst (item_handler False True it PointerClick st)) it"
  by (simp add: item_handler_def isActive_def safeSetActiveValue_def)

text \<open>A click chooses once and calls the element's own handler twice, but for an element that is the item of a parent.\<close>

lemma click_calls_twice:
  "child_calls asChild mode True False True PointerClick = 1 \<longleftrightarrow> asChild \<and> mode = ModeParent"
  by (cases mode) (simp_all add: child_calls_def installed_def)

lemma disabled_highlight_marks:
  "item_view_of mode False d el st it = None \<and>
   (isActive st it \<longrightarrow> \<not> isDisabled d it \<longrightarrow> iv_mark (as_child_view_of ModeChildren d el st it))"
  by (simp add: item_view_of_def as_child_view_of_def)

text \<open>The mark lies over the active element, shifted by the offset.\<close>

lemma mark_over_active:
  assumes "isActive st it" and "container = Some c" and "box = Some b"
  shows "parent_mark ModeParent True (item_effect ModeParent f container off box it st) =
    Some \<lparr>bd_top = bd_top b - bd_top c + bd_top off, bd_left = bd_left b - bd_left c + bd_left off,
          bd_width = bd_width b + bd_width off, bd_height = bd_height b + bd_height off\<rparr>"
  using assms by (simp add: parent_mark_def item_effect_def updateBounds_def safeSetBounds_def Let_def)

lemma no_value_no_mark:
  "hl_active st = None \<Longrightarrow> parent_mark m e (item_effect ModeParent f container off box it st) = None"
  by (simp add: parent_mark_def item_effect_def isActive_def falsy_def clearBounds_def)

lemma bounds_settle:
  "updateBounds True (Some b) (Some b) = (None, Some b, True)"
  by (simp add: updateBounds_def)

end
