(* ===== verification/UiParts.thy ===== *)
theory UiParts
  imports UiHighlight JsString "HOL-Library.Sublist"
begin

text \<open>
  The remaining parts of the interface library: attributes watched on an element
  (\<open>web/src/hooks/use-data-state.tsx\<close>), the height that follows the contents
  (\<open>web/src/hooks/use-auto-height.tsx\<close>), accordions, file trees, tabs and menus
  (\<open>web/src/components/animate-ui/primitives/radix\<close>), the slot and the group of avatars
  (\<open>web/src/components/animate-ui/primitives/animate\<close>). An element is the list of its attributes;
  heights are rationals with exact sums.
\<close>

subsection \<open>Watched attributes\<close>

datatype dataset_value = DataNull | DataFlag bool | DataText string

type_synonym dom_attrs = "(string \<times> string) list"

definition parseDatasetValue :: "string option \<Rightarrow> dataset_value" where
  "parseDatasetValue v =
     (case v of None \<Rightarrow> DataNull
      | Some s \<Rightarrow> if s = [] \<or> s = ''true'' then DataFlag True else if s = ''false'' then DataFlag False else DataText s)"

definition getSnapshot :: "string \<Rightarrow> dom_attrs option \<Rightarrow> dataset_value" where
  "getSnapshot key el = (case el of None \<Rightarrow> DataNull | Some as \<Rightarrow> parseDatasetValue (map_of as (''data-'' @ key)))"

text \<open>The observer reports the names of the changed attributes; one of the key calls back.\<close>

definition observer_hears :: "string \<Rightarrow> string list \<Rightarrow> bool" where
  "observer_hears key changed \<longleftrightarrow> list_ex (\<lambda>a. a = ''data-'' @ key) changed"

subsection \<open>Menus\<close>

text \<open>\<open>el?.dataset.value || el?.id || null\<close> of a highlighted entry; nothing is set otherwise.\<close>

definition entry_value :: "dom_attrs \<Rightarrow> string option" where
  "entry_value as =
     (case map_of as ''data-value'' of
        Some v \<Rightarrow> if v \<noteq> [] then Some v else (case map_of as ''id'' of Some i \<Rightarrow> if i \<noteq> [] then Some i else None | None \<Rightarrow> None)
      | None \<Rightarrow> (case map_of as ''id'' of Some i \<Rightarrow> if i \<noteq> [] then Some i else None | None \<Rightarrow> None))"

definition on_highlighted :: "dataset_value \<Rightarrow> dom_attrs option \<Rightarrow> string option \<Rightarrow> string option" where
  "on_highlighted v el cur =
     (if v = DataFlag True then
        (case el of None \<Rightarrow> cur | Some as \<Rightarrow> (case entry_value as of None \<Rightarrow> cur | Some x \<Rightarrow> Some x))
      else cur)"

record dropdown =
  dm_open :: "bool option controlled"
  dm_highlighted :: "string option"
  dm_entries :: "dom_attrs list"

text \<open>
  Every render runs the effects of the entries, in their order: the callback is a new one each time.
\<close>

definition entry_effect :: "string option \<Rightarrow> dom_attrs \<Rightarrow> string option" where
  "entry_effect cur as = on_highlighted (getSnapshot ''highlighted'' (Some as)) (Some as) cur"

definition entry_effects :: "dropdown \<Rightarrow> dropdown" where
  "entry_effects st =
     st\<lparr>dm_highlighted := foldl entry_effect (dm_highlighted st) (dm_entries st)\<rparr>"

datatype menu_event = MenuOpens bool | MenuEntries "dom_attrs list" | MenuRender

text \<open>The menu library opens and closes the menu and marks an entry with \<open>data-highlighted\<close>.\<close>

fun menu_step :: "dropdown \<Rightarrow> menu_event \<Rightarrow> dropdown" where
  "menu_step st (MenuOpens b) =
     entry_effects (st\<lparr>dm_open := fst (set_controlled (Some b) (dm_open st)), dm_entries := (if b then dm_entries st else [])\<rparr>)"
| "menu_step st (MenuEntries es) = entry_effects (st\<lparr>dm_entries := es\<rparr>)"
| "menu_step st MenuRender = entry_effects st"

definition init_dropdown :: "bool option \<Rightarrow> dropdown" where
  "init_dropdown d = \<lparr>dm_open = init_controlled None d, dm_highlighted = None, dm_entries = []\<rparr>"

text \<open>The contents are rendered while the menu is open; the mark is the highlight of its value.\<close>

definition menu_shown :: "dropdown \<Rightarrow> bool" where
  "menu_shown st \<longleftrightarrow> ct_state (dm_open st) = Some True"

definition menu_mark :: "dropdown \<Rightarrow> highlight \<Rightarrow> highlight" where
  "menu_mark st h = value_effect (Some (dm_highlighted st)) None h"

definition highlighted_entry :: "dom_attrs \<Rightarrow> bool" where
  "highlighted_entry as \<longleftrightarrow> getSnapshot ''highlighted'' (Some as) = DataFlag True"

subsection \<open>Accordions\<close>

datatype accordion_value = AccText string | AccList "string list"

text \<open>\<open>value?.includes(item) ?? false\<close>, which looks into a text for a part of it.\<close>

definition item_is_open :: "accordion_value option \<Rightarrow> string \<Rightarrow> bool" where
  "item_is_open v item =
     (case v of None \<Rightarrow> False | Some (AccText s) \<Rightarrow> sublist item s | Some (AccList l) \<Rightarrow> item \<in> set l)"

record accordion_item =
  ai_value :: string
  ai_open :: bool

definition mount_item :: "accordion_value option \<Rightarrow> string \<Rightarrow> accordion_item" where
  "mount_item v item = \<lparr>ai_value = item, ai_open = item_is_open v item\<rparr>"

definition item_open_effect :: "accordion_value option \<Rightarrow> accordion_item \<Rightarrow> accordion_item" where
  "item_open_effect v it = it\<lparr>ai_open := item_is_open v (ai_value it)\<rparr>"

record content_target =
  cg_auto :: bool
  cg_opacity :: nat
  cg_mask_stop :: nat
  cg_y :: nat

definition content_target_of :: "bool \<Rightarrow> content_target" where
  "content_target_of opened =
     (if opened then \<lparr>cg_auto = True, cg_opacity = 1, cg_mask_stop = 100, cg_y = 0\<rparr>
      else \<lparr>cg_auto = False, cg_opacity = 0, cg_mask_stop = 0, cg_y = 20\<rparr>)"

definition accordion_content :: "bool \<Rightarrow> accordion_item \<Rightarrow> content_target option" where
  "accordion_content keepRendered it =
     (if keepRendered then Some (content_target_of (ai_open it))
      else if ai_open it then Some (content_target_of True) else None)"

subsection \<open>File trees\<close>

text \<open>
  The tree and the accordion in it keep a controlled state each, of the same property; \<open>ft_parent\<close> is
  what the parent stores.
\<close>

record file_tree =
  ft_open :: "string list controlled"
  ft_accordion :: "accordion_value option controlled"
  ft_parent :: "string list option"

definition tree_render :: "string list option \<Rightarrow> file_tree \<Rightarrow> file_tree" where
  "tree_render p st =
     st\<lparr>ft_open := render_controlled p (ft_open st),
        ft_accordion := render_controlled (map_option (Some \<circ> AccList) p) (ft_accordion st), ft_parent := p\<rparr>"

definition init_tree :: "string list option \<Rightarrow> string list \<Rightarrow> file_tree" where
  "init_tree p d =
     \<lparr>ft_open = init_controlled p d, ft_accordion = init_controlled (map_option (Some \<circ> AccList) p) (Some (AccList d)),
      ft_parent = p\<rparr>"

text \<open>The library opens or closes folders: both states are set, the parent answers with \<open>accept\<close>.\<close>

definition tree_change :: "(string list \<Rightarrow> string list option) \<Rightarrow> string list \<Rightarrow> file_tree \<Rightarrow> file_tree" where
  "tree_change accept l st =
     tree_render (accept l)
       (st\<lparr>ft_accordion := fst (set_controlled (Some (AccList l)) (ft_accordion st)),
           ft_open := fst (set_controlled l (ft_open st))\<rparr>)"

definition folder_open :: "file_tree \<Rightarrow> string \<Rightarrow> bool" where
  "folder_open st f \<longleftrightarrow> f \<in> set (ct_state (ft_open st))"

definition folder_icon :: "file_tree \<Rightarrow> string \<Rightarrow> string" where
  "folder_icon st f = (if folder_open st f then ''open'' else ''close'')"

subsection \<open>Tabs\<close>

definition tabs_change :: "string \<Rightarrow> string option controlled \<Rightarrow> string option controlled \<times> string option" where
  "tabs_change v st = set_controlled (Some v) st"

definition tabs_mark :: "string option controlled \<Rightarrow> highlight \<Rightarrow> highlight" where
  "tabs_mark st h = value_effect (map_option Some (ct_state st)) None h"

text \<open>\<open>mode\<close> may be absent, given without a value, or one of two texts.\<close>

definition isAutoMode :: "string option option \<Rightarrow> bool" where
  "isAutoMode mode \<longleftrightarrow> (case mode of None \<Rightarrow> True | Some m \<Rightarrow> m = Some ''auto-height'')"

subsection \<open>Height of the contents\<close>

record box_style =
  bs_padding_top :: "rat option"
  bs_padding_bottom :: "rat option"
  bs_border_top :: "rat option"
  bs_border_bottom :: "rat option"
  bs_border_box :: bool

record measured =
  me_height :: rat
  me_style :: box_style
  me_parent :: "box_style option"

text \<open>\<open>None\<close> is a style that is no number.\<close>

definition css_number :: "rat option \<Rightarrow> rat" where
  "css_number v = (case v of None \<Rightarrow> 0 | Some x \<Rightarrow> x)"

definition box_extra :: "box_style \<Rightarrow> rat" where
  "box_extra s =
     (if bs_border_box s
      then css_number (bs_padding_top s) + css_number (bs_padding_bottom s)
         + (css_number (bs_border_top s) + css_number (bs_border_bottom s))
      else 0)"

definition measure_height :: "bool \<Rightarrow> bool \<Rightarrow> rat \<Rightarrow> measured option \<Rightarrow> rat" where
  "measure_height parentBox selfBox ratio el =
     (case el of None \<Rightarrow> 0
      | Some m \<Rightarrow>
          (let extra = (if parentBox then (case me_parent m of None \<Rightarrow> 0 | Some p \<Rightarrow> box_extra p) else 0)
                 + (if selfBox then box_extra (me_style m) else 0);
               dpr = (if ratio = 0 then 1 else ratio)
           in of_int \<lceil>(me_height m + extra) * dpr\<rceil> / dpr))"

record auto_height =
  ah_el :: "measured option"
  ah_height :: rat
  ah_observed :: bool
  ah_frames :: "rat list"

definition init_height :: auto_height where
  "init_height = \<lparr>ah_el = None, ah_height = 0, ah_observed = False, ah_frames = []\<rparr>"

text \<open>The second effect measures again while the height is 0.\<close>

definition zero_effect :: "rat \<Rightarrow> auto_height \<Rightarrow> auto_height" where
  "zero_effect ratio st =
     (if ah_height st = 0 then
        (let nxt = measure_height True False ratio (ah_el st) in if nxt \<noteq> 0 then st\<lparr>ah_height := nxt\<rparr> else st)
      else st)"

datatype height_event = HeMount measured | HeDeps | HeResize measured | HeFrame | HeUnmount

text \<open>Mounting starts anew. The observer measures at once and sets the height in the next frame.\<close>

fun height_step :: "rat \<Rightarrow> auto_height \<Rightarrow> height_event \<Rightarrow> auto_height" where
  "height_step r st (HeMount m) =
     zero_effect r (init_height\<lparr>ah_el := Some m, ah_height := measure_height True False r (Some m), ah_observed := True\<rparr>)"
| "height_step r st HeDeps =
     (if ah_el st = None then st
      else zero_effect r (st\<lparr>ah_height := measure_height True False r (ah_el st), ah_observed := True\<rparr>))"
| "height_step r st (HeResize m) =
     (if ah_observed st
      then st\<lparr>ah_el := Some m, ah_frames := ah_frames st @ [measure_height True False r (Some m)]\<rparr>
      else st)"
| "height_step r st HeFrame =
     (case ah_frames st of [] \<Rightarrow> st
      | h # hs \<Rightarrow> if ah_el st = None then st\<lparr>ah_frames := hs\<rparr> else zero_effect r (st\<lparr>ah_height := h, ah_frames := hs\<rparr>))"
| "height_step r st HeUnmount = st\<lparr>ah_el := None, ah_observed := False\<rparr>"

subsection \<open>Slots and avatars\<close>

datatype node_ref = NoRef | CallRef nat | ObjectRef nat

text \<open>The callbacks called and the objects set, in the order of the references.\<close>

fun mergeRefs :: "node_ref list \<Rightarrow> 'n \<Rightarrow> (nat \<times> 'n) list \<times> (nat \<Rightarrow> 'n option) \<Rightarrow> (nat \<times> 'n) list \<times> (nat \<Rightarrow> 'n option)" where
  "mergeRefs [] n s = s"
| "mergeRefs (NoRef # rs) n s = mergeRefs rs n s"
| "mergeRefs (CallRef k # rs) n (calls, objs) = mergeRefs rs n (calls @ [(k, n)], objs)"
| "mergeRefs (ObjectRef k # rs) n (calls, objs) = mergeRefs rs n (calls, objs(k \<mapsto> n))"

text \<open>\<open>className\<close> and \<open>style\<close> apart, the other properties spread over those of the child.\<close>

record 'v slot_props =
  sp_class :: "string option"
  sp_style :: "'v props option"
  sp_other :: "'v props"

definition truthy_text :: "string option \<Rightarrow> bool" where
  "truthy_text s \<longleftrightarrow> s \<noteq> None \<and> s \<noteq> Some []"

definition style_of :: "'v props option \<Rightarrow> 'v props" where
  "style_of s = (case s of None \<Rightarrow> [] | Some ps \<Rightarrow> ps)"

definition mergeProps ::
  "(string option \<Rightarrow> string option \<Rightarrow> string) \<Rightarrow> 'v slot_props \<Rightarrow> 'v slot_props \<Rightarrow> 'v slot_props" where
  "mergeProps cn child slot =
     \<lparr>sp_class = (if truthy_text (sp_class child) \<or> truthy_text (sp_class slot) then Some (cn (sp_class child) (sp_class slot))
        else or_else (sp_class slot) (sp_class child)),
      sp_style = (if sp_style child \<noteq> None \<or> sp_style slot \<noteq> None
        then Some (style_of (sp_style slot) @ style_of (sp_style child)) else None),
      sp_other = sp_other slot @ sp_other child\<rparr>"

definition avatar_z :: "bool \<Rightarrow> nat \<Rightarrow> nat \<Rightarrow> nat" where
  "avatar_z invertOverlap n i = (if invertOverlap then n - i else i)"

definition avatar_layers :: "bool option \<Rightarrow> 'a list \<Rightarrow> (nat \<times> 'a) list" where
  "avatar_layers invertOverlap xs =
     map (\<lambda>(i, x). (avatar_z (case invertOverlap of None \<Rightarrow> True | Some b \<Rightarrow> b) (length xs) i, x)) (enumerate 0 xs)"

subsection \<open>Laws\<close>

text \<open>A mutation that is not heard does not change the value.\<close>

lemma unheard_snapshot:
  assumes "\<not> observer_hears key changed"
    and "\<And>a. a \<notin> set changed \<Longrightarrow> map_of as a = map_of bs a"
  shows "getSnapshot key (Some as) = getSnapshot key (Some bs)"
proof -
  have "''data-'' @ key \<notin> set changed" using assms(1) by (auto simp: observer_hears_def list_ex_iff)
  then show ?thesis using assms(2) by (simp add: getSnapshot_def)
qed

lemma entry_effect_off: "\<not> highlighted_entry as \<Longrightarrow> entry_effect cur as = cur"
  by (simp add: entry_effect_def on_highlighted_def highlighted_entry_def)

lemma entry_effect_on: "highlighted_entry as \<Longrightarrow> entry_value as = Some v \<Longrightarrow> entry_effect cur as = Some v"
  by (simp add: entry_effect_def on_highlighted_def highlighted_entry_def)

lemma effects_none: "\<forall>as\<in>set es. \<not> highlighted_entry as \<Longrightarrow> foldl entry_effect c es = c"
  by (induction es arbitrary: c) (simp_all add: entry_effect_off)

text \<open>With one entry highlighted the menu holds its value; with none it keeps the last one.\<close>

lemma menu_follows:
  assumes "es = as @ e # bs" and "highlighted_entry e" and "\<forall>x\<in>set as \<union> set bs. \<not> highlighted_entry x"
    and "entry_value e = Some v"
  shows "dm_highlighted (menu_step st (MenuEntries es)) = Some v"
  using assms by (simp add: entry_effects_def effects_none entry_effect_on)

lemma menu_keeps:
  "\<forall>x\<in>set es. \<not> highlighted_entry x \<Longrightarrow> dm_highlighted (menu_step st (MenuEntries es)) = dm_highlighted st"
  by (simp add: entry_effects_def effects_none)

lemma menu_reopened_marked:
  "dm_highlighted (menu_step st (MenuOpens False)) = dm_highlighted st"
  by (simp add: entry_effects_def)

text \<open>An entry inside a highlight item carries its value, so that the mark comes to it.\<close>

lemma menu_mark_arrives:
  assumes "highlighted_entry e" and "map_of e ''data-value'' = Some (childValue it)" and "childValue it \<noteq> []"
  shows "isActive (menu_mark (menu_step st (MenuEntries [e])) h) it"
proof -
  have "entry_value e = Some (childValue it)" using assms by (simp add: entry_value_def)
  then have "dm_highlighted (menu_step st (MenuEntries [e])) = Some (childValue it)"
    using menu_follows [of "[e]" "[]" e "[]" "childValue it" st] assms(1) by simp
  then show ?thesis by (simp add: menu_mark_def value_effect_def isActive_def)
qed

text \<open>What the menu holds was the value of an entry.\<close>

definition menu_inv :: "string set \<Rightarrow> dropdown \<Rightarrow> bool" where
  "menu_inv vs st \<longleftrightarrow> (\<forall>v. dm_highlighted st = Some v \<longrightarrow> v \<in> vs) \<and>
     (\<forall>e\<in>set (dm_entries st). \<forall>v. entry_value e = Some v \<longrightarrow> v \<in> vs)"

lemma effects_values:
  assumes "\<forall>e\<in>set es. \<forall>v. entry_value e = Some v \<longrightarrow> v \<in> vs" and "\<forall>v. c = Some v \<longrightarrow> v \<in> vs"
  shows "foldl entry_effect c es = Some x \<Longrightarrow> x \<in> vs"
  using assms
proof (induction es arbitrary: c)
  case (Cons e es)
  have "\<forall>v. entry_effect c e = Some v \<longrightarrow> v \<in> vs"
    using Cons.prems by (auto simp: entry_effect_def on_highlighted_def split: option.splits if_splits)
  with Cons show ?case by simp
qed simp

lemma menu_inv_effects: "menu_inv vs st \<Longrightarrow> menu_inv vs (entry_effects st)"
  unfolding menu_inv_def entry_effects_def using effects_values [of "dm_entries st" vs "dm_highlighted st"] by simp

lemma menu_inv_step:
  assumes "menu_inv vs st"
    and "case e of MenuEntries es \<Rightarrow> \<forall>x\<in>set es. \<forall>v. entry_value x = Some v \<longrightarrow> v \<in> vs | _ \<Rightarrow> True"
  shows "menu_inv vs (menu_step st e)"
proof (cases e)
  case (MenuOpens b)
  show ?thesis unfolding MenuOpens menu_step.simps
    by (rule menu_inv_effects) (use assms in \<open>auto simp: menu_inv_def\<close>)
next
  case (MenuEntries es)
  show ?thesis unfolding MenuEntries menu_step.simps
    by (rule menu_inv_effects) (use assms MenuEntries in \<open>simp add: menu_inv_def\<close>)
qed (use assms menu_inv_effects in simp)

text \<open>A value of a list opens exactly its items; a text also opens the items that are parts of it.\<close>

lemma list_items_exact: "ai_open (item_open_effect (Some (AccList l)) it) \<longleftrightarrow> ai_value it \<in> set l"
  by (simp add: item_open_effect_def item_is_open_def)

lemma text_item_open: "ai_open (item_open_effect (Some (AccText s)) (mount_item v s))"
  by (simp add: item_open_effect_def item_is_open_def mount_item_def)

lemma text_part_open:
  "accordion_content False (mount_item (Some (AccText ''network'')) ''net'') = Some (content_target_of True)"
  by (simp add: accordion_content_def mount_item_def item_is_open_def sublist_code)

text \<open>Tree and accordion agree on the open folders, whatever the parent answers.\<close>

definition tree_inv :: "file_tree \<Rightarrow> bool" where
  "tree_inv st \<longleftrightarrow> ct_state (ft_accordion st) = Some (AccList (ct_state (ft_open st))) \<and>
     ct_prop (ft_accordion st) = map_option (Some \<circ> AccList) (ct_prop (ft_open st))"

lemma tree_inv_render: "tree_inv st \<Longrightarrow> tree_inv (tree_render p st)"
  by (cases p; cases "ct_prop (ft_open st)") (auto simp: tree_inv_def tree_render_def render_controlled_def)

lemma tree_inv_change: "tree_inv st \<Longrightarrow> tree_inv (tree_change accept l st)"
  unfolding tree_change_def by (rule tree_inv_render) (simp add: tree_inv_def set_controlled_def)

interpretation trees: invariant_machine "\<lambda>st (accept, l). tree_change accept l st" tree_inv "init_tree p d" for p d
proof
  show "tree_inv (init_tree p d)" by (cases p) (simp_all add: tree_inv_def init_tree_def init_controlled_def)
  show "tree_inv (case e of (accept, l) \<Rightarrow> tree_change accept l s)" if "tree_inv s" for s e
    using that by (cases e) (simp add: tree_inv_change)
qed

text \<open>
  A parent that stores what it is told is followed; one that keeps its value is not: the tree shows
  what the parent refused.
\<close>

lemma tree_follows: "folder_open (tree_change Some l st) f \<longleftrightarrow> f \<in> set l"
  by (simp add: folder_open_def tree_change_def tree_render_def render_controlled_def set_controlled_def)

lemma tree_shows_refused:
  "ct_prop (ft_open st) = Some p \<Longrightarrow> folder_open (tree_change (\<lambda>_. Some p) l st) f \<longleftrightarrow> f \<in> set l"
  by (simp add: folder_open_def tree_change_def tree_render_def render_controlled_def set_controlled_def)

lemma tab_mark_arrives:
  "childValue it = v \<Longrightarrow> isActive (tabs_mark (fst (tabs_change v st)) h) it"
  by (simp add: tabs_mark_def tabs_change_def set_controlled_def value_effect_def isActive_def)

text \<open>The height is never less than the contents and less than a pixel of the device more.\<close>

lemma measured_fits:
  assumes "0 < r" and "me_parent m = Some p" and "bs_border_box p"
  shows "me_height m + box_extra p \<le> measure_height True False r (Some m) \<and>
    measure_height True False r (Some m) < me_height m + box_extra p + 1 / r"
proof -
  let ?x = "(me_height m + box_extra p) * r"
  have eq: "measure_height True False r (Some m) = of_int \<lceil>?x\<rceil> / r"
    using assms by (simp add: measure_height_def Let_def)
  have "?x \<le> of_int \<lceil>?x\<rceil>" and "of_int \<lceil>?x\<rceil> < ?x + 1" by linarith+
  then show ?thesis unfolding eq using assms(1) by (simp add: field_simps)
qed

text \<open>
  A mounted element has the height measured last, or a frame that sets it is on its way; a frame of
  a former measure may come between.
\<close>

definition height_inv :: "rat \<Rightarrow> auto_height \<Rightarrow> bool" where
  "height_inv r st \<longleftrightarrow> (\<forall>m. ah_el st = Some m \<longrightarrow> ah_observed st \<and>
     (if ah_frames st = [] then ah_height st = measure_height True False r (Some m)
      else last (ah_frames st) = measure_height True False r (Some m)))"

lemma zero_effect_keeps [simp]: "ah_el (zero_effect r st) = ah_el st" "ah_frames (zero_effect r st) = ah_frames st"
    "ah_observed (zero_effect r st) = ah_observed st"
  by (simp_all add: zero_effect_def Let_def)

lemma zero_effect_measured:
  "ah_height st = measure_height True False r (ah_el st) \<Longrightarrow> ah_height (zero_effect r st) = ah_height st"
  by (simp add: zero_effect_def Let_def)

lemma height_inv_frame:
  assumes "height_inv r st"
  shows "height_inv r (height_step r st HeFrame)"
proof (cases "ah_frames st")
  case (Cons h hs)
  show ?thesis
  proof (cases "ah_el st")
    case (Some m)
    with Cons assms show ?thesis
      by (cases hs) (auto simp: height_inv_def zero_effect_measured)
  qed (use Cons in \<open>simp add: height_inv_def\<close>)
qed (use assms in simp)

interpretation heights: invariant_machine "height_step r" "height_inv r" init_height for r
proof
  show "height_inv r init_height" by (simp add: height_inv_def init_height_def)
  show "height_inv r (height_step r s e)" if "height_inv r s" for s e
  proof (cases e)
    case HeFrame
    with that show ?thesis using height_inv_frame by blast
  qed (use that in \<open>auto simp: height_inv_def init_height_def zero_effect_measured\<close>)
qed

lemma settled_height:
  fixes r es defines "st \<equiv> run_events (height_step r) init_height es"
  assumes "ah_frames st = []" and "ah_el st = Some m"
  shows "ah_height st = measure_height True False r (Some m)"
  using heights.inv_reachable [of r es] assms by (simp add: height_inv_def)

text \<open>Every reference gets the node; handlers of the slot replace those of the child.\<close>

lemma merge_refs_objects: "snd (mergeRefs rs n s) k = (if ObjectRef k \<in> set rs then Some n else snd s k)"
  by (induction rs n s rule: mergeRefs.induct) auto

lemma merge_refs_calls: "fst (mergeRefs rs n s) = fst s @ map (\<lambda>r. (case r of CallRef k \<Rightarrow> k | _ \<Rightarrow> 0, n))
    (filter (\<lambda>r. case r of CallRef k \<Rightarrow> True | _ \<Rightarrow> False) rs)"
  by (induction rs n s rule: mergeRefs.induct) auto

lemma slot_wins:
  "map_of (sp_other (mergeProps cn child slot)) k =
     (case map_of (sp_other slot) k of None \<Rightarrow> map_of (sp_other child) k | Some v \<Rightarrow> Some v)"
  by (simp add: mergeProps_def map_add_def split: option.splits)

text \<open>Avatars overlap in one direction: earlier ones lie above, unless the overlap is not inverted.\<close>

lemma avatar_order:
  "i < j \<Longrightarrow> j < n \<Longrightarrow> avatar_z True n j < avatar_z True n i \<and> avatar_z False n i < avatar_z False n j"
  by (simp add: avatar_z_def)

lemma avatar_distinct: "distinct (map fst (avatar_layers b xs))"
  by (auto simp: avatar_layers_def distinct_conv_nth avatar_z_def nth_enumerate_eq split: option.splits)

end
