(* ===== verification/UiMotion.thy ===== *)
theory UiMotion
  imports JsNumber JsString FgPrelude
begin

text \<open>
  The motion wrappers of the console (\<open>web/src/components/motion\<close>) and the container of the charts
  (\<open>web/src/pages/dashboard/shared/EChart.tsx\<close>, \<open>web/src/pages/dashboard/hooks/useIsDark.ts\<close>):
  delays, rounding of a running number, the clamped bar, first renders, the copy button with its
  timers, the transition of pages, the instances of a chart. The animation and chart libraries report by
  events; times are milliseconds or rational seconds, sums and products are exact.
\<close>

subsection \<open>Delays\<close>

definition STAGGER_STEP :: rat where "STAGGER_STEP = 4 / 100"
definition STAGGER_MAX :: int where "STAGGER_MAX = 8"
definition OFFSET_Y :: rat where "OFFSET_Y = 8"

text \<open>The index, the step and the largest number of items may be left out.\<close>

definition delayFor :: "int option \<Rightarrow> rat option \<Rightarrow> int option \<Rightarrow> rat" where
  "delayFor index step mx =
     (let i = (case index of None \<Rightarrow> 0 | Some i \<Rightarrow> i);
          s = (case step of None \<Rightarrow> STAGGER_STEP | Some s \<Rightarrow> s);
          m = (case mx of None \<Rightarrow> STAGGER_MAX | Some m \<Rightarrow> m)
      in of_int (min i (m - 1)) * s)"

record reveal_motion =
  rv_from_y :: rat
  rv_delay :: rat

text \<open>\<open>None\<close> is the plain element.\<close>

definition reveal :: "int \<Rightarrow> rat \<Rightarrow> rat option \<Rightarrow> bool \<Rightarrow> reveal_motion option" where
  "reveal index delay y disabled =
     (if disabled then None
      else Some \<lparr>rv_from_y = (case y of None \<Rightarrow> OFFSET_Y | Some v \<Rightarrow> v), rv_delay = delay + delayFor (Some index) None None\<rparr>)"

subsection \<open>First renders\<close>

text \<open>The reference is read by the render and cleared by the effect of the first one.\<close>

datatype mount_event = MtRender | MtEffect

fun first_mount_step :: "bool \<times> bool list \<Rightarrow> mount_event \<Rightarrow> bool \<times> bool list" where
  "first_mount_step (ref, seen) MtRender = (ref, seen @ [ref])"
| "first_mount_step (ref, seen) MtEffect = (False, seen)"

definition stagger_initial :: "bool \<Rightarrow> string option" where
  "stagger_initial firstMount = (if firstMount then Some ''hidden'' else None)"

text \<open>An item leaves its start to the group (\<open>undefined\<close>) or stands at once (\<open>false\<close>).\<close>

definition stagger_item_initial :: "bool \<Rightarrow> bool option" where
  "stagger_item_initial firstMount = (if firstMount then None else Some False)"

text \<open>Outside of a group the context says that it is the first render.\<close>

definition stagger_context :: "bool option \<Rightarrow> bool" where
  "stagger_context provided = (case provided of None \<Rightarrow> True | Some b \<Rightarrow> b)"

subsection \<open>Bars and numbers\<close>

text \<open>\<open>None\<close> is a ratio that is not finite.\<close>

definition clamped :: "rat option \<Rightarrow> rat" where
  "clamped ratio = min (max (case ratio of None \<Rightarrow> 0 | Some r \<Rightarrow> r) (2 / 100)) 1"

record bar_motion =
  bm_from :: "rat option"
  bm_to :: rat
  bm_delay :: "rat option"

definition progress_bar :: "rat option \<Rightarrow> int \<Rightarrow> bool option \<Rightarrow> bar_motion" where
  "progress_bar ratio index provided =
     (let firstMount = stagger_context provided
      in \<lparr>bm_from = (if firstMount then Some 0 else None), bm_to = clamped ratio,
          bm_delay = (if firstMount then Some (delayFor (Some index) None None) else None)\<rparr>)"

definition quantize :: "rat \<Rightarrow> int \<Rightarrow> rat" where
  "quantize n digits =
     (if digits \<le> 0 then of_int (math_round n)
      else (let factor = 10 ^ nat digits in of_int (math_round (n * factor)) / factor))"

record running_number =
  rn_reduced :: bool
  rn_value :: rat
  rn_current :: rat
  rn_target :: "rat option"

definition number_effect :: "running_number \<Rightarrow> running_number" where
  "number_effect st =
     (if rn_reduced st then st\<lparr>rn_current := rn_value st, rn_target := None\<rparr> else st\<lparr>rn_target := Some (rn_value st)\<rparr>)"

definition mount_number :: "bool \<Rightarrow> bool \<Rightarrow> rat \<Rightarrow> running_number" where
  "mount_number animateOnMount reduced v =
     number_effect \<lparr>rn_reduced = reduced, rn_value = v, rn_current = (if animateOnMount \<and> \<not> reduced then 0 else v),
       rn_target = None\<rparr>"

text \<open>The animation writes values between and ends at its target; a new value or preference starts the effect again.\<close>

datatype number_event = NuFrame rat | NuDone | NuValue rat | NuReduced bool

fun number_step :: "running_number \<Rightarrow> number_event \<Rightarrow> running_number" where
  "number_step st (NuFrame q) = (if rn_target st = None then st else st\<lparr>rn_current := q\<rparr>)"
| "number_step st NuDone =
     (case rn_target st of None \<Rightarrow> st | Some t \<Rightarrow> st\<lparr>rn_current := t, rn_target := None\<rparr>)"
| "number_step st (NuValue v) = (if v = rn_value st then st else number_effect (st\<lparr>rn_value := v\<rparr>))"
| "number_step st (NuReduced b) = (if b = rn_reduced st then st else number_effect (st\<lparr>rn_reduced := b\<rparr>))"

definition number_shown :: "int \<Rightarrow> running_number \<Rightarrow> rat" where
  "number_shown digits st = quantize (rn_current st) digits"

subsection \<open>Status marks and steps\<close>

datatype status_type = StOnline | StOffline | StWarning | StBusy

datatype status_label = LblOnline | LblWarning | LblBusy | LblOffline

record status_config =
  sc_dot :: string
  sc_ping :: string
  sc_label :: status_label

definition STATUS_CONFIG :: "status_type \<Rightarrow> status_config" where
  "STATUS_CONFIG s =
     (case s of
        StOnline \<Rightarrow> \<lparr>sc_dot = ''bg-emerald-500'', sc_ping = ''bg-emerald-400'', sc_label = LblOnline\<rparr>
      | StWarning \<Rightarrow> \<lparr>sc_dot = ''bg-amber-500'', sc_ping = ''bg-amber-400'', sc_label = LblWarning\<rparr>
      | StBusy \<Rightarrow> \<lparr>sc_dot = ''bg-sky-500'', sc_ping = ''bg-sky-400'', sc_label = LblBusy\<rparr>
      | StOffline \<Rightarrow> \<lparr>sc_dot = ''bg-muted-foreground/50'', sc_ping = [], sc_label = LblOffline\<rparr>)"

record status_view =
  sv_dot :: string
  sv_ping :: "string option"
  sv_text :: "status_label + string"

text \<open>A status that is none of the four (\<open>None\<close>) takes the looks of \<open>offline\<close>, but pings.\<close>

definition status_indicator :: "status_type option \<Rightarrow> string option \<Rightarrow> bool \<Rightarrow> status_view" where
  "status_indicator s label ping =
     (let cfg = (case s of None \<Rightarrow> STATUS_CONFIG StOffline | Some x \<Rightarrow> STATUS_CONFIG x);
          showPing = (ping \<and> s \<noteq> Some StOffline)
      in \<lparr>sv_dot = sc_dot cfg, sv_ping = (if showPing then Some (sc_ping cfg) else None),
          sv_text = (case label of None \<Rightarrow> Inl (sc_label cfg) | Some l \<Rightarrow> if l = [] then Inl (sc_label cfg) else Inr l)\<rparr>)"

datatype step_direction = StepForward | StepBackward

definition step_enter_x :: "step_direction \<Rightarrow> int" where
  "step_enter_x d = (if d = StepForward then 20 else - 20)"

definition step_exit_x :: "step_direction \<Rightarrow> int" where
  "step_exit_x d = (if d = StepForward then - 20 else 20)"

text \<open>The key under which a page is mounted is its path; \<open>query\<close> does not count. A page that left scrolls up.\<close>

record page_slot =
  ps_path :: string
  ps_query :: string
  ps_scroll :: nat
  ps_mounts :: nat

datatype slot_event = SlNavigate string string | SlExited | SlScroll nat

fun page_slot_step :: "page_slot \<Rightarrow> slot_event \<Rightarrow> page_slot" where
  "page_slot_step st (SlNavigate p q) =
     (if p = ps_path st then st\<lparr>ps_query := q\<rparr> else st\<lparr>ps_path := p, ps_query := q, ps_mounts := ps_mounts st + 1\<rparr>)"
| "page_slot_step st SlExited = st\<lparr>ps_scroll := 0\<rparr>"
| "page_slot_step st (SlScroll n) = st\<lparr>ps_scroll := n\<rparr>"

subsection \<open>The copy button\<close>

datatype copy_toast = CopySuccess string | CopyFailed

record copy_button =
  cb_copied :: bool
  cb_now :: nat
  cb_timers :: "nat list"
  cb_writes :: "(nat \<times> string) list"
  cb_next :: nat
  cb_board :: "string option"
  cb_toasts :: "copy_toast list"
  cb_told :: nat

definition COPIED_MS :: nat where "COPIED_MS = 1600"

definition init_copy :: copy_button where
  "init_copy = \<lparr>cb_copied = False, cb_now = 0, cb_timers = [], cb_writes = [], cb_next = 0, cb_board = None,
     cb_toasts = [], cb_told = 0\<rparr>"

text \<open>After the text is handed over: the mark, the message (unless it is empty), the callback, a timer.\<close>

definition copy_done :: "string \<Rightarrow> copy_button \<Rightarrow> copy_button" where
  "copy_done msg st =
     st\<lparr>cb_copied := True, cb_toasts := cb_toasts st @ (if msg = [] then [] else [CopySuccess msg]),
        cb_told := cb_told st + 1, cb_timers := cb_timers st @ [cb_now st + COPIED_MS]\<rparr>"

text \<open>
  A click: with the clipboard of the browser a write starts; without, a text area is copied from, and
  whether that worked (\<open>exec\<close>: it did, it did not, it threw) is only asked by its exception.
\<close>

datatype exec_result = ExecTrue | ExecFalse | ExecThrows

definition handleCopy :: "bool \<Rightarrow> exec_result \<Rightarrow> string \<Rightarrow> string option \<Rightarrow> copy_button \<Rightarrow> copy_button" where
  "handleCopy has_clipboard exec msg txt st =
     (let val = (case txt of None \<Rightarrow> [] | Some t \<Rightarrow> js_trim t) in
      if val = [] then st
      else if has_clipboard then st\<lparr>cb_writes := cb_writes st @ [(cb_next st, val)], cb_next := cb_next st + 1\<rparr>
      else (case exec of
          ExecTrue \<Rightarrow> copy_done msg (st\<lparr>cb_board := Some val\<rparr>)
        | ExecFalse \<Rightarrow> copy_done msg st
        | ExecThrows \<Rightarrow> st\<lparr>cb_toasts := cb_toasts st @ [CopyFailed]\<rparr>))"

datatype copy_event = CyClick bool exec_result "string option" | CyWritten nat bool | CyTime nat

definition fire_copy_timers :: "copy_button \<Rightarrow> copy_button" where
  "fire_copy_timers st =
     st\<lparr>cb_copied := (cb_copied st \<and> list_all (\<lambda>d. cb_now st < d) (cb_timers st)),
        cb_timers := filter (\<lambda>d. cb_now st < d) (cb_timers st)\<rparr>"

fun copy_step :: "string \<Rightarrow> copy_button \<Rightarrow> copy_event \<Rightarrow> copy_button" where
  "copy_step msg st (CyClick clip exec txt) = handleCopy clip exec msg txt st"
| "copy_step msg st (CyWritten k ok) =
     (case map_of (cb_writes st) k of None \<Rightarrow> st
      | Some val \<Rightarrow>
          (let st1 = st\<lparr>cb_writes := filter (\<lambda>(j, v). j \<noteq> k) (cb_writes st)\<rparr>
           in if ok then copy_done msg (st1\<lparr>cb_board := Some val\<rparr>)
              else st1\<lparr>cb_toasts := cb_toasts st1 @ [CopyFailed]\<rparr>))"
| "copy_step msg st (CyTime dt) = fire_copy_timers (st\<lparr>cb_now := cb_now st + dt\<rparr>)"

subsection \<open>Charts\<close>

datatype chart_theme = ChartDark | ChartLight | ChartSystem

text \<open>The query is asked once at the start and followed afterwards.\<close>

definition useIsDark :: "chart_theme \<Rightarrow> bool \<Rightarrow> bool" where
  "useIsDark theme systemDark =
     (if theme = ChartDark then True else if theme = ChartLight then False else systemDark)"

record 'o chart =
  ch_key :: "string option"
  ch_option :: 'o
  ch_instance :: "(nat \<times> 'o option) option"
  ch_inits :: nat
  ch_disposed :: "nat list"

text \<open>The two effects: a changed key disposes and starts the chart, a changed key or option sets the option.\<close>

definition chart_open :: "'o chart \<Rightarrow> 'o chart" where
  "chart_open st = st\<lparr>ch_instance := Some (ch_inits st, None), ch_inits := ch_inits st + 1\<rparr>"

definition chart_dispose :: "'o chart \<Rightarrow> 'o chart" where
  "chart_dispose st =
     (case ch_instance st of None \<Rightarrow> st
      | Some (k, d) \<Rightarrow> st\<lparr>ch_instance := None, ch_disposed := ch_disposed st @ [k]\<rparr>)"

definition chart_set_option :: "'o chart \<Rightarrow> 'o chart" where
  "chart_set_option st =
     (case ch_instance st of None \<Rightarrow> st | Some (k, d) \<Rightarrow> st\<lparr>ch_instance := Some (k, Some (ch_option st))\<rparr>)"

definition mount_chart :: "string option \<Rightarrow> 'o \<Rightarrow> 'o chart" where
  "mount_chart key opt =
     chart_set_option (chart_open
       \<lparr>ch_key = key, ch_option = opt, ch_instance = None, ch_inits = 0, ch_disposed = []\<rparr>)"

datatype 'o chart_event = ChartRender "string option" 'o | ChartUnmount

fun chart_step :: "'o chart \<Rightarrow> 'o chart_event \<Rightarrow> 'o chart" where
  "chart_step st (ChartRender key opt) =
     (if ch_instance st = None then st
      else
        (let st1 = st\<lparr>ch_key := key, ch_option := opt\<rparr>;
             st2 = (if key \<noteq> ch_key st then chart_open (chart_dispose st1) else st1)
         in if key \<noteq> ch_key st \<or> opt \<noteq> ch_option st then chart_set_option st2 else st2))"
| "chart_step st ChartUnmount = chart_dispose st"

text \<open>A card that unfolds: whether it has the button, and what its panel holds when it is open.\<close>

definition expandable_card :: "'d option \<Rightarrow> bool \<Rightarrow> bool \<times> 'd option option" where
  "expandable_card detail expanded = (detail \<noteq> None, if expanded then Some detail else None)"

subsection \<open>Laws\<close>

text \<open>No item waits longer than seven steps; later ones wait no less.\<close>

lemma delay_bounded: "0 \<le> i \<Longrightarrow> 0 \<le> delayFor (Some i) None None \<and> delayFor (Some i) None None \<le> 28 / 100"
proof -
  assume "0 \<le> i"
  then have "0 \<le> min i 7" and "min i 7 \<le> 7" by auto
  then have "(of_int 0 :: rat) \<le> of_int (min i 7)" and "(of_int (min i 7) :: rat) \<le> of_int 7"
    by (blast intro: of_int_le_iff [THEN iffD2])+
  then show ?thesis by (simp add: delayFor_def STAGGER_STEP_def STAGGER_MAX_def Let_def)
qed

lemma delay_mono: "i \<le> j \<Longrightarrow> delayFor (Some i) None None \<le> delayFor (Some j) None None"
  by (simp add: delayFor_def STAGGER_STEP_def STAGGER_MAX_def Let_def min_def)

text \<open>Only a render before the effect sees the first one.\<close>

lemma first_mount_after: "first_mount_step (first_mount_step (r, seen) MtEffect) MtRender = (False, seen @ [False])"
  by simp

lemma first_mount_stays:
  "r = False \<Longrightarrow> set (snd (run_events first_mount_step (r, seen) es)) \<subseteq> insert False (set seen)"
proof (induction es arbitrary: r seen)
  case (Cons e es)
  from Cons.prems have "run_events first_mount_step (r, seen) (e # es) = run_events first_mount_step (False, seen) es \<or>
      run_events first_mount_step (r, seen) (e # es) = run_events first_mount_step (False, seen @ [False]) es"
    by (cases e) simp_all
  with Cons.IH [of False seen] Cons.IH [of False "seen @ [False]"] show ?case by auto
qed auto

text \<open>A bar is always visible and never longer than its track; a ratio that is no number is the least one.\<close>

lemma clamped_bounds: "2 / 100 \<le> clamped r \<and> clamped r \<le> 1"
  by (simp add: clamped_def)

lemma clamped_exact: "2 / 100 \<le> r \<Longrightarrow> r \<le> 1 \<Longrightarrow> clamped (Some r) = r"
  by (simp add: clamped_def)

lemma clamped_mono: "r \<le> s \<Longrightarrow> clamped (Some r) \<le> clamped (Some s)"
  by (auto simp: clamped_def)

lemma bar_outside_group: "bm_from (progress_bar r i None) = Some 0"
  by (simp add: progress_bar_def stagger_context_def Let_def)

text \<open>Rounding is nearest, monotone, and does nothing the second time.\<close>

lemma quantize_near: "\<bar>quantize n d - n\<bar> \<le> 1 / (2 * 10 ^ nat d)"
proof (cases "d \<le> 0")
  case True
  have "\<bar>of_int (math_round n) - n\<bar> \<le> 1 / 2" unfolding math_round_def by linarith
  with True show ?thesis by (simp add: quantize_def)
next
  case False
  define f :: rat where "f = 10 ^ nat d"
  have f: "0 < f" by (simp add: f_def)
  have "\<bar>of_int (math_round (n * f)) - n * f\<bar> \<le> 1 / 2" unfolding math_round_def by linarith
  then have "\<bar>of_int (math_round (n * f)) - n * f\<bar> / f \<le> 1 / 2 / f" using f by (intro divide_right_mono) auto
  also have "of_int (math_round (n * f)) - n * f = f * (of_int (math_round (n * f)) / f - n)"
    using f by (simp add: field_simps)
  also have "\<bar>f * (of_int (math_round (n * f)) / f - n)\<bar> / f = \<bar>of_int (math_round (n * f)) / f - n\<bar>"
    using f by (simp add: abs_mult)
  finally show ?thesis using False by (simp add: quantize_def Let_def f_def)
qed

lemma quantize_mono: "m \<le> n \<Longrightarrow> quantize m d \<le> quantize n d"
  by (auto simp: quantize_def Let_def intro!: divide_right_mono math_round_mono mult_right_mono)

lemma quantize_idem: "quantize (quantize n d) d = quantize n d"
  by (simp add: quantize_def Let_def math_round_of_int)

text \<open>A number that is not running shows its value; a running one runs to it.\<close>

definition number_inv :: "running_number \<Rightarrow> bool" where
  "number_inv st \<longleftrightarrow> (case rn_target st of None \<Rightarrow> rn_current st = rn_value st
     | Some t \<Rightarrow> t = rn_value st \<and> \<not> rn_reduced st)"

lemma number_inv_effect: "number_inv (number_effect st)"
  by (simp add: number_inv_def number_effect_def)

interpretation numbers: invariant_machine number_step number_inv "mount_number a r v" for a r v
proof
  show "number_inv (mount_number a r v)" by (simp add: mount_number_def number_inv_effect)
  show "number_inv (number_step s e)" if "number_inv s" for s e
    using that by (cases e) (auto simp: number_inv_effect, auto simp: number_inv_def split: option.splits)
qed

lemma number_settles: "number_inv st \<Longrightarrow> number_shown d (number_step st NuDone) = quantize (rn_value st) d"
  by (auto simp: number_inv_def number_shown_def split: option.splits)

lemma reduced_at_once:
  "number_inv st \<Longrightarrow> rn_reduced st \<Longrightarrow> number_shown d (number_step st (NuValue v)) = quantize v d"
  by (auto simp: number_inv_def number_shown_def number_effect_def split: option.splits)

text \<open>A status the table does not know looks offline, and still pings.\<close>

lemma unknown_status_pings:
  "sv_dot (status_indicator None l True) = sv_dot (status_indicator (Some StOffline) l True) \<and>
   sv_ping (status_indicator None l True) \<noteq> None \<and> sv_ping (status_indicator (Some StOffline) l True) = None"
  by (simp add: status_indicator_def STATUS_CONFIG_def Let_def)

lemma steps_mirror: "step_exit_x d = - step_enter_x d"
  by (simp add: step_exit_x_def step_enter_x_def)

text \<open>Paging keeps the page mounted and where it was.\<close>

lemma same_path_keeps:
  "ps_mounts (page_slot_step st (SlNavigate (ps_path st) q)) = ps_mounts st \<and>
   ps_scroll (page_slot_step st (SlNavigate (ps_path st) q)) = ps_scroll st"
  by simp

text \<open>A chart that is mounted has exactly one live instance, with the last option.\<close>

definition chart_inv :: "'o chart \<Rightarrow> bool" where
  "chart_inv st \<longleftrightarrow> distinct (ch_disposed st) \<and>
     (case ch_instance st of
        None \<Rightarrow> set (ch_disposed st) = {0..<ch_inits st}
      | Some (k, d) \<Rightarrow> d = Some (ch_option st) \<and> Suc k = ch_inits st \<and> set (ch_disposed st) = {0..<k})"

lemma chart_inv_dispose: "chart_inv st \<Longrightarrow> chart_inv (chart_dispose st)"
  by (auto simp: chart_inv_def chart_dispose_def split: option.splits)

lemma chart_inv_renew:
  assumes "chart_inv st" and "ch_instance st \<noteq> None"
  shows "chart_inv (chart_set_option (chart_open (chart_dispose (st\<lparr>ch_key := key, ch_option := opt\<rparr>))))"
  using assms by (auto simp: chart_inv_def chart_dispose_def chart_open_def chart_set_option_def)

lemma chart_inv_option:
  assumes "chart_inv st" and "ch_instance st \<noteq> None"
  shows "chart_inv (chart_set_option (st\<lparr>ch_option := opt\<rparr>))"
  using assms by (auto simp: chart_inv_def chart_set_option_def)

interpretation charts: invariant_machine chart_step chart_inv "mount_chart key opt" for key opt
proof
  show "chart_inv (mount_chart key opt)"
    by (simp add: chart_inv_def mount_chart_def chart_open_def chart_set_option_def)
  show "chart_inv (chart_step s e)" if inv: "chart_inv s" for s e
  proof (cases e)
    case (ChartRender key opt)
    show ?thesis
    proof (cases "ch_instance s = None")
      case False
      have same: "chart_inv (s\<lparr>ch_key := ch_key s, ch_option := ch_option s\<rparr>)" using inv by simp
      from False ChartRender inv same show ?thesis
        by (auto simp: Let_def chart_inv_renew chart_inv_option)
    qed (use ChartRender inv in simp)
  qed (use inv chart_inv_dispose in simp)
qed

text \<open>
  The copy button: an empty text does nothing; a mark goes away with the first timer, also when the text
  was copied again since; the way without the clipboard reports a success that did not happen.
\<close>

lemma blank_not_copied: "js_trim t = [] \<Longrightarrow> handleCopy c x msg (Some t) st = st"
  by (simp add: handleCopy_def)

definition copy_inv :: "copy_button \<Rightarrow> bool" where
  "copy_inv st \<longleftrightarrow> distinct (map fst (cb_writes st)) \<and> (\<forall>(k, v)\<in>set (cb_writes st). k < cb_next st \<and> v \<noteq> []) \<and>
     (cb_copied st \<longrightarrow> cb_timers st \<noteq> []) \<and> (\<forall>d\<in>set (cb_timers st). cb_now st < d \<and> d \<le> cb_now st + COPIED_MS) \<and>
     cb_board st \<noteq> Some []"

lemma copy_inv_done: "copy_inv st \<Longrightarrow> copy_inv (copy_done msg st)"
  by (simp add: copy_inv_def copy_done_def COPIED_MS_def)

lemma copy_inv_board: "copy_inv st \<Longrightarrow> v \<noteq> [] \<Longrightarrow> copy_inv (st\<lparr>cb_board := Some v\<rparr>)"
  by (simp add: copy_inv_def)

lemma copy_inv_toast: "copy_inv (st\<lparr>cb_toasts := ts\<rparr>) \<longleftrightarrow> copy_inv st"
  by (simp add: copy_inv_def)

lemma copy_inv_write:
  "copy_inv st \<Longrightarrow> v \<noteq> [] \<Longrightarrow> copy_inv (st\<lparr>cb_writes := cb_writes st @ [(cb_next st, v)], cb_next := Suc (cb_next st)\<rparr>)"
  by (fastforce simp: copy_inv_def)

lemma copy_inv_handle: "copy_inv st \<Longrightarrow> copy_inv (handleCopy c x msg t st)"
  by (cases x) (simp_all add: handleCopy_def Let_def copy_inv_write copy_inv_done copy_inv_board copy_inv_toast)

lemma copy_inv_written:
  assumes "copy_inv st"
  shows "copy_inv (copy_step msg st (CyWritten k ok))"
proof (cases "map_of (cb_writes st) k")
  case (Some val)
  let ?st = "st\<lparr>cb_writes := filter (\<lambda>(j, v). j \<noteq> k) (cb_writes st)\<rparr>"
  from Some have "(k, val) \<in> set (cb_writes st)" by (rule map_of_SomeD)
  with assms have "val \<noteq> []" by (auto simp: copy_inv_def)
  moreover have "copy_inv ?st"
    using assms by (auto simp: copy_inv_def distinct_map_filter)
  ultimately show ?thesis using Some
    by (simp add: Let_def copy_inv_done copy_inv_board copy_inv_toast del: cb_copied_update_def)
qed (use assms in simp)

lemma copy_inv_time:
  assumes "copy_inv st"
  shows "copy_inv (copy_step msg st (CyTime dt))"
proof -
  have "filter (\<lambda>d. cb_now st + dt < d) (cb_timers st) \<noteq> []"
    if "cb_copied st" "list_all (\<lambda>d. cb_now st + dt < d) (cb_timers st)"
    using that assms by (cases "cb_timers st") (auto simp: copy_inv_def)
  with assms show ?thesis by (fastforce simp: copy_inv_def fire_copy_timers_def)
qed

interpretation copies: invariant_machine "copy_step msg" copy_inv init_copy for msg
proof
  show "copy_inv init_copy" by (simp add: copy_inv_def init_copy_def)
  show "copy_inv (copy_step msg s e)" if "copy_inv s" for s e
  proof (cases e)
    case (CyClick c x t)
    with that show ?thesis by (simp add: copy_inv_handle)
  next
    case (CyWritten k ok)
    with that show ?thesis using copy_inv_written by blast
  next
    case (CyTime dt)
    with that show ?thesis using copy_inv_time by blast
  qed
qed

lemma mark_goes_early:
  "js_trim t \<noteq> [] \<Longrightarrow>
   cb_copied (run_events (copy_step m) init_copy
     [CyClick False ExecTrue (Some t), CyTime 1000, CyClick False ExecTrue (Some t), CyTime 600]) = False"
  by (simp add: handleCopy_def copy_done_def init_copy_def fire_copy_timers_def COPIED_MS_def Let_def)

lemma fallback_reports_success:
  "js_trim t \<noteq> [] \<Longrightarrow> m \<noteq> [] \<Longrightarrow>
   cb_toasts (handleCopy False ExecFalse m (Some t) init_copy) = [CopySuccess m] \<and>
   cb_board (handleCopy False ExecFalse m (Some t) init_copy) = None"
  by (simp add: handleCopy_def copy_done_def init_copy_def Let_def)

end
