(* ===== verification/UiCharts.thy ===== *)
theory UiCharts
  imports JsNumber "HOL-Library.AList"
begin

text \<open>
  The charts of the boards over the chart library: \<open>components/ui/chart.tsx\<close> (configuration, style
  sheet, tooltip, legend), \<open>bar-chart.tsx\<close>, \<open>line-chart.tsx\<close>, \<open>area-chart.tsx\<close>, \<open>donut-chart.tsx\<close>
  and the bar of \<open>progress-bar.tsx\<close>. What a chart hands to the library is a value; drawing is the
  library's. An object is its list of entries in order (keys that are array indices or names of
  \<open>Object.prototype\<close> aside); labels are texts, an icon is a name.
\<close>

subsection \<open>Configuration\<close>

record chart_entry =
  ct_label :: "string option"
  ct_icon :: "string option"
  ct_color :: "string option"
  ct_theme :: "(string \<times> string) option"

type_synonym chart_config = "(string \<times> chart_entry) list"

definition nonblank :: "string option \<Rightarrow> string option" where
  "nonblank s = (case s of None \<Rightarrow> None | Some t \<Rightarrow> if t = [] then None else Some t)"

definition or_text :: "string option \<Rightarrow> string option \<Rightarrow> string option" where
  "or_text a b = (case nonblank a of Some t \<Rightarrow> Some t | None \<Rightarrow> nonblank b)"

subsection \<open>The style sheet\<close>

datatype css_theme = LightTheme | DarkTheme

definition theme_prefix :: "css_theme \<Rightarrow> string" where
  "theme_prefix t = (case t of LightTheme \<Rightarrow> [] | DarkTheme \<Rightarrow> ''.dark'')"

definition themed :: "css_theme \<Rightarrow> chart_entry \<Rightarrow> string option" where
  "themed t e = map_option (case t of LightTheme \<Rightarrow> fst | DarkTheme \<Rightarrow> snd) (ct_theme e)"

definition entry_color :: "css_theme \<Rightarrow> chart_entry \<Rightarrow> string option" where
  "entry_color t e = or_text (themed t e) (ct_color e)"

definition colorConfig :: "chart_config \<Rightarrow> chart_config" where
  "colorConfig config = filter (\<lambda>(k, e). ct_theme e \<noteq> None \<or> nonblank (ct_color e) \<noteq> None) config"

definition line_feed :: string where "line_feed = [char_of (10 :: nat)]"

fun join_text :: "string \<Rightarrow> string list \<Rightarrow> string" where
  "join_text sep [] = []"
| "join_text sep [s] = s"
| "join_text sep (s # ss) = s @ sep @ join_text sep ss"

definition color_line :: "css_theme \<Rightarrow> string \<times> chart_entry \<Rightarrow> string" where
  "color_line t ke =
     (case entry_color t (snd ke) of None \<Rightarrow> []
      | Some c \<Rightarrow> ''  --color-'' @ fst ke @ '': '' @ c @ '';'')"

definition theme_block :: "string \<Rightarrow> chart_config \<Rightarrow> css_theme \<Rightarrow> string" where
  "theme_block i cc t =
     line_feed @ theme_prefix t @ '' [data-chart='' @ i @ ''] {'' @ line_feed @
     join_text line_feed (map (color_line t) cc) @ line_feed @ ''}'' @ line_feed"

definition ChartStyle :: "string \<Rightarrow> chart_config \<Rightarrow> string option" where
  "ChartStyle i config =
     (let cc = colorConfig config in
      if cc = [] then None else Some (join_text line_feed (map (theme_block i cc) [LightTheme, DarkTheme])))"

text \<open>The configuration of the chart around a part of it, or the error.\<close>

definition useChart :: "chart_config option \<Rightarrow> string + chart_config" where
  "useChart ctx = (case ctx of Some c \<Rightarrow> Inr c | None \<Rightarrow> Inl ''useChart must be used within a <ChartContainer />'')"

text \<open>The id of a chart: its own, or the one of the hook without colons.\<close>

definition chart_id :: "string option \<Rightarrow> string \<Rightarrow> string" where
  "chart_id i unique = ''chart-'' @ (case nonblank i of Some t \<Rightarrow> t | None \<Rightarrow> filter (\<lambda>c. c \<noteq> CHR '':'') unique)"

subsection \<open>The entry of a payload\<close>

datatype payload_value = PvText string | PvNumber rat | PvNull | PvObject "(string \<times> payload_value) list"

type_synonym payload = "(string \<times> payload_value) list"

definition text_of_field :: "payload \<Rightarrow> string \<Rightarrow> string option" where
  "text_of_field p k = (case map_of p k of Some (PvText t) \<Rightarrow> Some t | _ \<Rightarrow> None)"

definition inner_payload :: "payload \<Rightarrow> payload option" where
  "inner_payload p = (case map_of p ''payload'' of Some (PvObject q) \<Rightarrow> Some q | _ \<Rightarrow> None)"

definition getPayloadConfigFromPayload :: "chart_config \<Rightarrow> payload_value \<Rightarrow> string \<Rightarrow> chart_entry option" where
  "getPayloadConfigFromPayload config v key =
     (case v of
        PvObject p \<Rightarrow>
          (let name = (case text_of_field p key of Some t \<Rightarrow> t
               | None \<Rightarrow> (case inner_payload p of None \<Rightarrow> key
                   | Some q \<Rightarrow> (case text_of_field q key of Some t \<Rightarrow> t | None \<Rightarrow> key)))
           in case map_of config name of Some e \<Rightarrow> Some e | None \<Rightarrow> map_of config key)
      | _ \<Rightarrow> None)"

subsection \<open>The tooltip\<close>

datatype indicator = IndLine | IndDot | IndDashed

text \<open>\<open>tt_label\<close> is the label of the library where it is a text; \<open>tt_format_label\<close>, \<open>tt_format\<close> are the formatters.\<close>

record tooltip_props =
  tt_active :: bool
  tt_payload :: "payload list"
  tt_indicator :: indicator
  tt_hideLabel :: bool
  tt_hideIndicator :: bool
  tt_label :: "string option"
  tt_format_label :: "(string option \<Rightarrow> string) option"
  tt_format :: "(payload_value \<Rightarrow> string \<Rightarrow> string list) option"
  tt_color :: "string option"
  tt_nameKey :: "string option"
  tt_labelKey :: "string option"

definition first_text :: "string option list \<Rightarrow> string" where
  "first_text ts = (case List.map_filter nonblank ts of [] \<Rightarrow> ''value'' | t # _ \<Rightarrow> t)"

definition label_of :: "chart_entry option \<Rightarrow> string option" where
  "label_of e = (case e of None \<Rightarrow> None | Some x \<Rightarrow> ct_label x)"

definition tooltipLabel :: "chart_config \<Rightarrow> tooltip_props \<Rightarrow> string option" where
  "tooltipLabel config tp =
     (case tt_payload tp of
        [] \<Rightarrow> None
      | item # _ \<Rightarrow>
          if tt_hideLabel tp then None
          else
            (let key = first_text [tt_labelKey tp, text_of_field item ''dataKey'', text_of_field item ''name''];
                 value = (case (nonblank (tt_labelKey tp), tt_label tp) of
                     (None, Some l) \<Rightarrow> Some (case nonblank (label_of (map_of config l)) of Some t \<Rightarrow> t | None \<Rightarrow> l)
                   | _ \<Rightarrow> label_of (getPayloadConfigFromPayload config (PvObject item) key))
             in case tt_format_label tp of Some f \<Rightarrow> Some (f value) | None \<Rightarrow> nonblank value))"

datatype tooltip_mark = MarkIcon string | MarkBox "string option" | NoMark

text \<open>A formatted row is what the formatter gives; a plain one has a mark, a label and a value.\<close>

datatype tooltip_row = FormattedRow "string list"
  | PlainRow tooltip_mark "string option" "string option" "payload_value option"

definition shown_items :: "payload list \<Rightarrow> payload list" where
  "shown_items ps = filter (\<lambda>p. text_of_field p ''type'' \<noteq> Some ''none'') ps"

definition indicator_color :: "tooltip_props \<Rightarrow> payload \<Rightarrow> string option" where
  "indicator_color tp item =
     or_text (tt_color tp)
       (or_text (case inner_payload item of None \<Rightarrow> None | Some q \<Rightarrow> text_of_field q ''fill'') (text_of_field item ''color''))"

text \<open>A value that is falsy is not drawn as one, but the number zero leaves a bare 0: it is kept here.\<close>

definition shown_value :: "payload_value option \<Rightarrow> payload_value option" where
  "shown_value v = (case v of Some PvNull \<Rightarrow> None | Some (PvText []) \<Rightarrow> None | _ \<Rightarrow> v)"

definition nestLabel :: "tooltip_props \<Rightarrow> bool" where
  "nestLabel tp \<longleftrightarrow> length (tt_payload tp) = 1 \<and> tt_indicator tp \<noteq> IndDot"

definition tooltip_row_of :: "chart_config \<Rightarrow> tooltip_props \<Rightarrow> payload \<Rightarrow> tooltip_row" where
  "tooltip_row_of config tp item =
     (let key = first_text [tt_nameKey tp, text_of_field item ''name'', text_of_field item ''dataKey''];
          e = getPayloadConfigFromPayload config (PvObject item) key;
          plain = PlainRow
            (case e of Some x \<Rightarrow> (case ct_icon x of Some i \<Rightarrow> MarkIcon i
                 | None \<Rightarrow> if tt_hideIndicator tp then NoMark else MarkBox (indicator_color tp item))
             | None \<Rightarrow> if tt_hideIndicator tp then NoMark else MarkBox (indicator_color tp item))
            (if nestLabel tp then tooltipLabel config tp else None)
            (or_text (label_of e) (text_of_field item ''name''))
            (shown_value (map_of item ''value''))
      in case (tt_format tp, map_of item ''value'', nonblank (text_of_field item ''name'')) of
           (Some f, Some v, Some n) \<Rightarrow> FormattedRow (f v n)
         | _ \<Rightarrow> plain)"

definition ChartTooltipContent :: "chart_config \<Rightarrow> tooltip_props \<Rightarrow> (string option \<times> tooltip_row list) option" where
  "ChartTooltipContent config tp =
     (if \<not> tt_active tp \<or> tt_payload tp = [] then None
      else Some (if nestLabel tp then None else tooltipLabel config tp,
             map (tooltip_row_of config tp) (shown_items (tt_payload tp))))"

subsection \<open>The legend\<close>

definition ChartLegendContent ::
  "chart_config \<Rightarrow> bool \<Rightarrow> string option \<Rightarrow> payload list \<Rightarrow> (tooltip_mark \<times> string option) list option" where
  "ChartLegendContent config hideIcon nameKey ps =
     (if ps = [] then None
      else Some (map (\<lambda>item.
        let e = getPayloadConfigFromPayload config (PvObject item) (first_text [nameKey, text_of_field item ''dataKey''])
        in ((case e of Some x \<Rightarrow> (case ct_icon x of Some i \<Rightarrow> if hideIcon then MarkBox (text_of_field item ''color'') else MarkIcon i
               | None \<Rightarrow> MarkBox (text_of_field item ''color''))
             | None \<Rightarrow> MarkBox (text_of_field item ''color'')), label_of e)) (shown_items ps)))"

subsection \<open>Charts by category\<close>

definition chart_colors :: "string list" where
  "chart_colors = [''hsl(var(--primary))'', ''#68adee'', ''#1395ec'', ''#0099ff'', ''#00497a'']"

definition area_colors :: "string list" where
  "area_colors = [''#2a78d6'', ''#eb6834'', ''#008300'', ''#eda100'']"

definition color_at :: "string list \<Rightarrow> nat \<Rightarrow> string option" where
  "color_at colors i = (if colors = [] then None else Some (colors ! (i mod length colors)))"

text \<open>The reduction over the categories: a category that comes again takes the place of the first.\<close>

definition category_entry :: "string list \<Rightarrow> (string \<Rightarrow> string option) \<Rightarrow> nat \<times> string \<Rightarrow> chart_entry" where
  "category_entry colors labels ic =
     \<lparr>ct_label = Some (case labels (snd ic) of Some l \<Rightarrow> l | None \<Rightarrow> snd ic), ct_icon = None,
      ct_color = color_at colors (fst ic), ct_theme = None\<rparr>"

definition category_config :: "string list \<Rightarrow> (string \<Rightarrow> string option) \<Rightarrow> string list \<Rightarrow> chart_config" where
  "category_config colors labels cats =
     fold (\<lambda>ic. AList.update (snd ic) (category_entry colors labels ic)) (enumerate 0 cats) []"

record 'x axis_chart =
  ax_config :: chart_config
  ax_grid :: bool
  ax_x :: "string option"
  ax_y :: bool
  ax_series :: "'x list"

record chart_bar =
  br_key :: string
  br_fill :: "string option"
  br_stack :: "string option"
  br_min :: nat

definition bar_of :: "string list \<Rightarrow> string option \<Rightarrow> nat \<times> string \<Rightarrow> chart_bar" where
  "bar_of colors stackId ic =
     \<lparr>br_key = snd ic, br_fill = color_at colors (fst ic), br_stack = stackId,
      br_min = (if nonblank stackId = None then 5 else 0)\<rparr>"

text \<open>Without rows the bar and the line chart show a text instead: \<open>None\<close>.\<close>

definition BarChart ::
  "payload list \<Rightarrow> string list \<Rightarrow> string \<Rightarrow> string list \<Rightarrow> (string \<Rightarrow> string option) \<Rightarrow> bool \<times> bool \<times> bool \<Rightarrow> string option \<Rightarrow> chart_bar axis_chart option" where
  "BarChart rows cats index colors labels shows_parts stackId =
     (if rows = [] then None
      else case shows_parts of (grid, x, y) \<Rightarrow>
        Some \<lparr>ax_config = category_config colors labels cats, ax_grid = grid, ax_x = (if x then Some index else None),
              ax_y = y, ax_series = map (bar_of colors stackId) (enumerate 0 cats)\<rparr>)"

definition LineChart ::
  "payload list \<Rightarrow> string list \<Rightarrow> string \<Rightarrow> string list \<Rightarrow> bool \<times> bool \<times> bool \<Rightarrow> (string \<times> string option) axis_chart option" where
  "LineChart rows cats index colors shows_parts =
     (if rows = [] then None
      else case shows_parts of (grid, x, y) \<Rightarrow>
        Some \<lparr>ax_config = category_config colors (\<lambda>c. None) cats, ax_grid = grid,
              ax_x = (if x then Some index else None), ax_y = y,
              ax_series = map (\<lambda>(i, c). (c, color_at colors i)) (enumerate 0 cats)\<rparr>)"

text \<open>The formatters of the tooltip of a bar and a line chart.\<close>

text \<open>\<open>Number\<close> of a value: \<open>parse\<close> is \<open>Number\<close> of a text; \<open>NaN\<close> is \<open>None\<close>.\<close>

definition payload_number :: "(string \<Rightarrow> rat option) \<Rightarrow> payload_value option \<Rightarrow> rat option" where
  "payload_number parse v =
     (case v of Some (PvNumber q) \<Rightarrow> Some q | Some (PvText t) \<Rightarrow> parse t | Some PvNull \<Rightarrow> Some 0 | _ \<Rightarrow> None)"

definition bar_format :: "(string \<Rightarrow> rat option) \<Rightarrow> (rat option \<Rightarrow> string) \<Rightarrow> payload_value \<Rightarrow> string \<Rightarrow> string list" where
  "bar_format parse valueFormatter v name = [valueFormatter (payload_number parse (Some v)), name]"

definition bar_label :: "string \<Rightarrow> string option \<Rightarrow> string" where
  "bar_label index l = index @ '': '' @ (case l of None \<Rightarrow> ''undefined'' | Some t \<Rightarrow> t)"

subsection \<open>The area chart\<close>

definition row_value :: "(string \<Rightarrow> rat option) \<Rightarrow> string \<Rightarrow> payload \<Rightarrow> rat" where
  "row_value parse c row = (case payload_number parse (map_of row c) of None \<Rightarrow> 0 | Some q \<Rightarrow> q)"

text \<open>The peak of a single series: the first row with the greatest value, where that is positive.\<close>

fun peak_of ::
  "(payload \<Rightarrow> rat) \<Rightarrow> string \<Rightarrow> payload list \<Rightarrow> (payload_value option \<times> rat) option \<Rightarrow> (payload_value option \<times> rat) option" where
  "peak_of val index [] p = p"
| "peak_of val index (row # rows) p =
     peak_of val index rows
       (case p of None \<Rightarrow> Some (map_of row index, val row)
        | Some q \<Rightarrow> if snd q < val row then Some (map_of row index, val row) else p)"

definition chart_peak ::
  "(string \<Rightarrow> rat option) \<Rightarrow> bool \<Rightarrow> string list \<Rightarrow> string \<Rightarrow> payload list \<Rightarrow> (payload_value option \<times> rat) option" where
  "chart_peak parse markPeak cats index rows =
     (case cats of
        [c] \<Rightarrow>
          if \<not> markPeak then None
          else (case peak_of (row_value parse c) index rows None of None \<Rightarrow> None | Some q \<Rightarrow> if snd q \<le> 0 then None else Some q)
      | _ \<Rightarrow> None)"

record area_series =
  ar_key :: string
  ar_stroke :: "string option"
  ar_gradient :: string

definition gradientId :: "string \<Rightarrow> string" where
  "gradientId c = ''area-fill-'' @ c"

record area_chart = "area_series axis_chart" +
  at_peak :: "(payload_value option \<times> rat) option"
  at_peak_fill :: "string option"

definition AreaChart ::
  "(string \<Rightarrow> rat option) \<Rightarrow> payload list \<Rightarrow> string list \<Rightarrow> string \<Rightarrow> string list \<Rightarrow> (string \<Rightarrow> string option) \<Rightarrow> bool \<times> bool \<times> bool \<Rightarrow> bool \<Rightarrow> area_chart" where
  "AreaChart parse rows cats index colors labels shows_parts markPeak =
     (case shows_parts of (grid, x, y) \<Rightarrow>
       \<lparr>ax_config = category_config colors labels cats, ax_grid = grid, ax_x = (if x then Some index else None), ax_y = y,
        ax_series = map (\<lambda>(i, c). \<lparr>ar_key = c, ar_stroke = color_at colors i, ar_gradient = gradientId c\<rparr>) (enumerate 0 cats),
        at_peak = chart_peak parse markPeak cats index rows, at_peak_fill = color_at colors 0\<rparr>)"

definition area_format ::
  "(string \<Rightarrow> rat option) \<Rightarrow> chart_config \<Rightarrow> (rat option \<Rightarrow> string) \<Rightarrow> payload_value \<Rightarrow> string \<Rightarrow> string list" where
  "area_format parse config valueFormatter v name =
     [valueFormatter (payload_number parse (Some v)),
      (case label_of (map_of config name) of Some l \<Rightarrow> l | None \<Rightarrow> name)]"

subsection \<open>The donut\<close>

record donut_chart =
  dn_config :: chart_config
  dn_label :: "string option"
  dn_inner :: nat
  dn_slices :: "(string \<times> rat \<times> string option) list"
  dn_legend :: bool

text \<open>Without rows the text for no data is shown: \<open>None\<close>. \<open>dn_inner\<close> is a percentage.\<close>

definition DonutChart ::
  "(string \<times> rat) list \<Rightarrow> string option \<Rightarrow> bool \<Rightarrow> string list \<Rightarrow> bool \<Rightarrow> donut_chart option" where
  "DonutChart rows label donut colors showLegend =
     (if rows = [] then None
      else Some
        \<lparr>dn_config = category_config colors (\<lambda>c. None) (map fst rows), dn_label = nonblank label,
         dn_inner = (if donut then 58 else 0),
         dn_slices = map (\<lambda>(i, n, v). (n, v, color_at colors i)) (enumerate 0 rows), dn_legend = showLegend\<rparr>)"

subsection \<open>The progress bar\<close>

datatype bar_color = BarBlue | BarGreen | BarRed | BarYellow | BarPurple | BarPrimary

definition colorVariants :: "bar_color \<Rightarrow> string" where
  "colorVariants c =
     (case c of BarBlue \<Rightarrow> ''bg-blue-500'' | BarGreen \<Rightarrow> ''bg-green-500'' | BarRed \<Rightarrow> ''bg-red-500''
      | BarYellow \<Rightarrow> ''bg-yellow-500'' | BarPurple \<Rightarrow> ''bg-purple-500'' | BarPrimary \<Rightarrow> ''bg-[#42C4C1]'')"

datatype bar_size = BarSm | BarMd | BarLg

definition sizeVariants :: "bar_size \<Rightarrow> string" where
  "sizeVariants s = (case s of BarSm \<Rightarrow> ''h-2'' | BarMd \<Rightarrow> ''h-3'' | BarLg \<Rightarrow> ''h-4'')"

record simple_progress =
  sp_width :: rat
  sp_text :: "string option"
  sp_tooltip :: "string option"
  sp_track :: string
  sp_fill :: string

definition ProgressBar :: "rat \<Rightarrow> bool \<Rightarrow> string option \<Rightarrow> bar_color \<Rightarrow> bar_size \<Rightarrow> simple_progress" where
  "ProgressBar value showValue tooltip color bsize =
     (let v = min (max value 0) 100 in
      \<lparr>sp_width = v, sp_text = (if showValue then Some (to_fixed 1 v @ ''%'') else None), sp_tooltip = nonblank tooltip,
       sp_track = sizeVariants bsize, sp_fill = colorVariants color\<rparr>)"

subsection \<open>Laws\<close>

lemma map_of_update: "map_of (AList.update k v xs) = (map_of xs)(k \<mapsto> v)"
  by (rule AList.update_conv')

text \<open>A series has in the legend and the tooltip the colour in which it is drawn, where the categories differ.\<close>

lemma category_config_at:
  "distinct cats \<Longrightarrow> i < length cats \<Longrightarrow>
   map_of (category_config colors labels cats) (cats ! i) = Some (category_entry colors labels (i, cats ! i))"
proof (induction cats rule: rev_induct)
  case (snoc c cats)
  have step: "category_config colors labels (cats @ [c]) =
      AList.update c (category_entry colors labels (length cats, c)) (category_config colors labels cats)"
    by (simp add: category_config_def enumerate_append_eq)
  show ?case
  proof (cases "i = length cats")
    case False
    then have i: "i < length cats" using snoc.prems by simp
    then have "cats ! i \<noteq> c" using snoc.prems(1) nth_mem [OF i] by auto
    then show ?thesis using snoc i by (simp add: step map_of_update nth_append)
  qed (simp add: step map_of_update)
qed simp

lemma bar_colors_agree:
  assumes "distinct cats" and "BarChart rows cats index colors labels p st = Some ch" and "b \<in> set (ax_series ch)"
  shows "map_option ct_color (map_of (ax_config ch) (br_key b)) = Some (br_fill b)"
proof -
  obtain i where i: "i < length cats" "b = bar_of colors st (i, cats ! i)"
    using assms(2,3) by (auto simp: BarChart_def in_set_enumerate_eq split: if_splits prod.splits)
  have "ax_config ch = category_config colors labels cats"
    using assms(2) by (auto simp: BarChart_def split: if_splits prod.splits)
  then show ?thesis using category_config_at [OF assms(1) i(1)] i(2) by (simp add: bar_of_def category_entry_def)
qed

lemma donut_colors_differ:
  "case DonutChart [(''a'', 1), (''b'', 1), (''a'', 2)] None True chart_colors True of None \<Rightarrow> False
   | Some ch \<Rightarrow> dn_slices ch ! 0 = (''a'', 1, Some ''hsl(var(--primary))'') \<and>
       map_option ct_color (map_of (dn_config ch) ''a'') = Some (Some ''#1395ec'')"
  by (simp add: DonutChart_def category_config_def category_entry_def color_at_def chart_colors_def)

lemma peak_of_from:
  assumes "p = Some (x, y)"
  shows "\<exists>x' y'. peak_of val index rows p = Some (x', y') \<and> y \<le> y' \<and>
    (\<forall>r\<in>set rows. val r \<le> y') \<and>
    ((x', y') = (x, y) \<or> y < y' \<and> (\<exists>i<length rows. x' = map_of (rows ! i) index \<and> y' = val (rows ! i) \<and>
      (\<forall>j<i. val (rows ! j) < y')))"
  using assms
proof (induction rows arbitrary: p x y)
  case (Cons r rows)
  let ?v = "val r"
  define q where "q = (if y < ?v then (map_of r index, ?v) else (x, y))"
  have step: "peak_of val index (r # rows) p = peak_of val index rows (Some q)"
    using Cons.prems by (simp add: q_def)
  obtain x' y' where ih: "peak_of val index rows (Some q) = Some (x', y')" "snd q \<le> y'"
      "\<forall>r\<in>set rows. val r \<le> y'"
      "(x', y') = q \<or> snd q < y' \<and> (\<exists>i<length rows. x' = map_of (rows ! i) index \<and>
         y' = val (rows ! i) \<and> (\<forall>j<i. val (rows ! j) < y'))"
    using Cons.IH [of "Some q" "fst q" "snd q"] by auto
  have le: "y \<le> snd q" "?v \<le> snd q" by (auto simp: q_def)
  have all: "\<forall>s\<in>set (r # rows). val s \<le> y'" using ih(2,3) le by auto
  have "(x', y') = (x, y) \<or> y < y' \<and> (\<exists>i<length (r # rows). x' = map_of ((r # rows) ! i) index \<and>
      y' = val ((r # rows) ! i) \<and> (\<forall>j<i. val ((r # rows) ! j) < y'))"
    using ih(4)
  proof (elim disjE conjE exE)
    assume q: "(x', y') = q"
    show ?thesis
    proof (cases "y < ?v")
      case True
      then have "x' = map_of r index" "y' = ?v" using q by (simp_all add: q_def)
      then show ?thesis using True by (intro disjI2 conjI exI [of _ 0]) auto
    qed (use q in \<open>simp add: q_def\<close>)
  next
    fix i
    assume i: "snd q < y'" "i < length rows" "x' = map_of (rows ! i) index" "y' = val (rows ! i)"
      "\<forall>j<i. val (rows ! j) < y'"
    have "\<forall>j<Suc i. val ((r # rows) ! j) < y'"
      using i(1,5) le by (auto simp: less_Suc_eq_0_disj)
    then show ?thesis using i le by (intro disjI2 conjI exI [of _ "Suc i"]) auto
  qed
  then show ?case using ih(1,2) all le by (auto simp: step simp del: peak_of.simps)
qed auto

text \<open>The peak that is marked is the first of the rows with the greatest value.\<close>

lemma chart_peak_first:
  assumes "chart_peak parse True [c] index rows = Some (x, y)"
  shows "0 < y \<and> (\<forall>r\<in>set rows. row_value parse c r \<le> y) \<and>
    (\<exists>i<length rows. x = map_of (rows ! i) index \<and> y = row_value parse c (rows ! i) \<and>
      (\<forall>j<i. row_value parse c (rows ! j) < y))"
proof (cases rows)
  case Nil
  then show ?thesis using assms by (simp add: chart_peak_def)
next
  case (Cons r rs)
  let ?v = "\<lambda>r. row_value parse c r"
  have p: "peak_of (row_value parse c) index rs (Some (map_of r index, ?v r)) = Some (x, y)" "0 < y"
    using assms Cons by (auto simp: chart_peak_def Let_def split: option.splits if_splits)
  obtain x' y' where q: "peak_of (row_value parse c) index rs (Some (map_of r index, ?v r)) = Some (x', y')" "?v r \<le> y'"
      "\<forall>s\<in>set rs. ?v s \<le> y'"
      "(x', y') = (map_of r index, ?v r) \<or> ?v r < y' \<and> (\<exists>i<length rs. x' = map_of (rs ! i) index \<and> y' = ?v (rs ! i) \<and> (\<forall>j<i. ?v (rs ! j) < y'))"
    using peak_of_from [OF refl, of "row_value parse c" index rs "map_of r index" "?v r"] by auto
  have xy: "x' = x" "y' = y" using p(1) q(1) by simp_all
  from q(4) have "\<exists>i<length rows. x = map_of (rows ! i) index \<and> y = ?v (rows ! i) \<and> (\<forall>j<i. ?v (rows ! j) < y)"
  proof (elim disjE conjE exE)
    assume "(x', y') = (map_of r index, ?v r)"
    then show ?thesis using Cons xy by (intro exI [of _ 0]) auto
  next
    fix i
    assume i: "?v r < y'" "i < length rs" "x' = map_of (rs ! i) index" "y' = ?v (rs ! i)" "\<forall>j<i. ?v (rs ! j) < y'"
    then have "\<forall>j<Suc i. ?v (rows ! j) < y" using Cons xy by (auto simp: less_Suc_eq_0_disj)
    then show ?thesis using i Cons xy by (intro exI [of _ "Suc i"]) auto
  qed
  then show ?thesis using q(2,3) p(2) Cons xy by auto
qed

text \<open>The style sheet gives each entry with a colour its variable, in both themes.\<close>

lemma ChartStyle_none: "ChartStyle i config = None \<longleftrightarrow>
    (\<forall>e\<in>set (map snd config). ct_theme e = None \<and> nonblank (ct_color e) = None)"
  by (simp del: not_None_eq add: ChartStyle_def colorConfig_def filter_empty_conv Let_def case_prod_beta')

lemma plain_color: "ct_theme e = None \<Longrightarrow> entry_color t e = nonblank (ct_color e)"
  by (simp add: entry_color_def themed_def or_text_def nonblank_def)

lemma progress_bounds: "0 \<le> sp_width (ProgressBar v b t c z)" "sp_width (ProgressBar v b t c z) \<le> 100"
  by (simp_all add: ProgressBar_def Let_def)

end
