(* ===== verification/FsDialogs.thy ===== *)
theory FsDialogs
  imports ServiceResult JsNumber
begin

text \<open>
  The small dialogs of \<open>web/src/pages/filestorage/features/\<close> (\<open>CreateDirectory.tsx\<close>, \<open>Rename.tsx\<close>,
  \<open>Property.tsx\<close>), which the page no longer mounts, and the helpers \<open>utils/byte.ts\<close>,
  \<open>utils/date.ts\<close> and \<open>lib/get-strict-context.tsx\<close>. The logarithm of the platform and the parsing
  of dates are parameters.
\<close>

subsection \<open>Helpers\<close>

definition size_units :: "string list" where
  "size_units = [''Bytes'', ''KB'', ''MB'', ''GB'', ''TB'', ''PB'']"

text \<open>
  \<open>lg\<close> is \<open>Math.log\<close>. The number is \<open>parseFloat\<close> of the fixed numeral: as a rational, the numeral's
  value. Beyond the last unit, and for a fraction of a byte, the unit is \<open>undefined\<close>: \<open>None\<close>.
\<close>

definition size_power :: "(rat \<Rightarrow> rat) \<Rightarrow> rat \<Rightarrow> int" where
  "size_power lg bytes = \<lfloor>dbl (lg bytes / lg 1024)\<rfloor>"

definition bytesToSize :: "(rat \<Rightarrow> rat) \<Rightarrow> rat \<Rightarrow> int \<Rightarrow> rat \<times> string option" where
  "bytesToSize lg bytes decimals =
     (if bytes = 0 then (0, Some ''Bytes'')
      else
        (let dm = (if decimals < 0 then 0 else nat decimals); i = size_power lg bytes;
             q = (if 0 \<le> i then dbl (bytes / 1024 ^ nat i) else dbl (bytes * 1024 ^ nat (- i)))
         in (of_nat (fixed_units dm q) / 10 ^ dm,
             if 0 \<le> i \<and> nat i < length size_units then Some (size_units ! nat i) else None)))"

record date_parts =
  dt_year :: nat
  dt_month :: nat
  dt_day :: nat
  dt_hours :: nat
  dt_minutes :: nat

definition padZero :: "nat \<Rightarrow> string" where
  "padZero n = (if n < 10 then ''0'' else []) @ nat_to_string n"

text \<open>\<open>dt_month\<close> is the month of \<open>getMonth\<close>, from 0.\<close>

definition formatDate :: "(string \<Rightarrow> date_parts) \<Rightarrow> string \<Rightarrow> string" where
  "formatDate parse value =
     (let d = parse value in
      nat_to_string (dt_year d) @ ''-'' @ padZero (dt_month d + 1) @ ''-'' @ padZero (dt_day d) @ '' '' @
      padZero (dt_hours d) @ '':'' @ padZero (dt_minutes d))"

text \<open>A context that must be provided: its value, or the error.\<close>

definition useSafeContext :: "string option \<Rightarrow> 'v option \<Rightarrow> string + 'v" where
  "useSafeContext name ctx =
     (case ctx of Some v \<Rightarrow> Inr v
      | None \<Rightarrow> Inl (''useContext must be used within '' @ (case name of Some n \<Rightarrow> n | None \<Rightarrow> ''a Provider'')))"

subsection \<open>A new directory\<close>

datatype directory_effect = RequestDirectory string string string | DirectoryMade | DirectoryOk | DirectoryUnhandled
  | DirectoryClose

definition directory_save :: "string \<Rightarrow> string \<Rightarrow> string \<Rightarrow> directory_effect list" where
  "directory_save path drives name = [RequestDirectory path drives name]"

definition directory_saved :: "'a settled \<Rightarrow> directory_effect list" where
  "directory_saved a = (case a of Resolved r \<Rightarrow> [DirectoryOk, DirectoryMade] | Rejected e \<Rightarrow> [DirectoryUnhandled])"

text \<open>A change of the dialog asks to close it, but nothing asks to open it.\<close>

definition directory_open_change :: "bool \<Rightarrow> directory_effect list" where
  "directory_open_change b = (if b then [] else [DirectoryClose])"

subsection \<open>Renaming\<close>

record rename_dialog =
  rn_input :: string
  rn_loading :: bool

datatype rename_effect = RequestRename string string string | RenameDone | RenameOk string | RenameLogged

definition init_rename :: "string \<Rightarrow> rename_dialog" where
  "init_rename name = \<lparr>rn_input = name, rn_loading = False\<rparr>"

definition rename_input :: "string \<Rightarrow> rename_dialog \<Rightarrow> rename_dialog" where
  "rename_input t st = st\<lparr>rn_input := t\<rparr>"

text \<open>The effect on the name sets the field to it.\<close>

definition rename_effect_name :: "string \<Rightarrow> string \<Rightarrow> rename_dialog \<Rightarrow> rename_dialog" where
  "rename_effect_name before name st = (if before = name then st else st\<lparr>rn_input := name\<rparr>)"

definition onOkClick :: "string \<Rightarrow> string \<Rightarrow> rename_dialog \<Rightarrow> rename_dialog \<times> rename_effect list" where
  "onOkClick path drives st =
     (if rn_loading st then (st, [])
      else (st\<lparr>rn_loading := True\<rparr>, [RequestRename path drives (rn_input st)]))"

text \<open>The new name told to the page is the one captured by the click.\<close>

definition onOkClick_done :: "string \<Rightarrow> 'a settled \<Rightarrow> rename_dialog \<Rightarrow> rename_dialog \<times> rename_effect list" where
  "onOkClick_done captured a st =
     (st\<lparr>rn_loading := False\<rparr>,
      case a of Resolved r \<Rightarrow> [RenameDone, RenameOk captured] | Rejected e \<Rightarrow> [RenameLogged])"

text \<open>The title, the button and its text.\<close>

definition rename_view :: "bool \<Rightarrow> rename_dialog \<Rightarrow> bool \<times> bool \<times> bool" where
  "rename_view of_file st = (of_file, rn_loading st, rn_loading st)"

subsection \<open>Properties\<close>

record file_property =
  fp_type :: string
  fp_name :: string
  fp_fullName :: string
  fp_length :: nat
  fp_creationTime :: string
  fp_lastAccessTime :: string
  fp_lastWriteTime :: string

datatype property_effect = RequestProperty string | PropertyRefused "string option" | PropertyLogged

text \<open>The effect on the path: nothing is asked for a blank one, and what was shown stays.\<close>

definition property_load :: "string \<Rightarrow> property_effect list" where
  "property_load path = (if js_trim path = [] then [] else [RequestProperty path])"

definition property_loaded ::
  "file_property option settled \<Rightarrow> file_property option \<Rightarrow> file_property option \<times> property_effect list" where
  "property_loaded a item =
     (case a of
        Rejected e \<Rightarrow> (item, [PropertyLogged])
      | Resolved r \<Rightarrow>
          if success r then (case resp_data r of None \<Rightarrow> (None, []) | Some d \<Rightarrow> (d, []))
          else (item, [PropertyRefused (case resp_message r of None \<Rightarrow> None | Some m \<Rightarrow> if m = [] then None else Some m)]))"

datatype property_line = PlName string | PlPath string | PlSize "rat \<times> string option" | PlCreated string
  | PlAccessed string | PlWritten string

definition renderProperty :: "(rat \<Rightarrow> rat) \<Rightarrow> file_property option \<Rightarrow> property_line list option" where
  "renderProperty lg item =
     (case item of None \<Rightarrow> None
      | Some p \<Rightarrow> Some ([PlName (fp_name p), PlPath (fp_fullName p)] @
          (if fp_type p = ''File'' then [PlSize (bytesToSize lg (of_nat (fp_length p)) 2)] else []) @
          [PlCreated (fp_creationTime p), PlAccessed (fp_lastAccessTime p), PlWritten (fp_lastWriteTime p)]))"

text \<open>The title: whether it is that of a file.\<close>

definition property_title :: "file_property option \<Rightarrow> bool" where
  "property_title item = (case item of None \<Rightarrow> False | Some p \<Rightarrow> fp_type p = ''File'')"

subsection \<open>Laws\<close>

lemma padZero_length: "n < 100 \<Longrightarrow> length (padZero n) = 2"
  by (auto simp: padZero_def nat_to_string.simps [of n] nat_to_string.simps [of "n div 10"])

lemma rename_once: "rn_loading st \<Longrightarrow> onOkClick path drives st = (st, [])"
  by (simp add: onOkClick_def)

text \<open>With a logarithm that is exact enough to tell the power, the unit is the greatest that fits.\<close>

lemma size_unit:
  assumes "size_power lg bytes = int i" and "1024 ^ i \<le> bytes" and "i < 6" and "bytes \<noteq> 0"
  shows "snd (bytesToSize lg bytes d) = Some (size_units ! i)"
  using assms by (simp add: bytesToSize_def Let_def size_units_def)

text \<open>A text that is at least an exbibyte has no unit.\<close>

lemma size_no_unit: "size_power lg bytes = 6 \<Longrightarrow> bytes \<noteq> 0 \<Longrightarrow> snd (bytesToSize lg bytes d) = None"
  by (simp add: bytesToSize_def Let_def size_units_def)

end
