(* ===== verification/GeoMaps.thy ===== *)
theory GeoMaps
  imports GeoNames
begin

text \<open>
  The maps of the dashboard (\<open>web/src/pages/dashboard/features/traffic/\<close>): what \<open>ChinaMap.tsx\<close> and
  \<open>WorldMap2D.tsx\<close> hand to the chart library, with the colours of \<open>shared/chart-colors.ts\<close>, and the
  globe of \<open>Globe3D.tsx\<close> as a machine. Each change of its arguments cleans up the run before and
  starts a new one, which awaits the globe library and the map; runs that were cleaned up still get
  their answers. Whether the browser has WebGL, the answers of the imports and where the chart
  library throws are arguments of the events.
\<close>

subsection \<open>Colours\<close>

record chart_palette =
  cl_text :: string
  cl_textStrong :: string
  cl_axis :: string
  cl_grid :: string
  cl_tooltipBg :: string
  cl_border :: string
  cl_mapBase :: string
  cl_ocean :: string

definition getChartTheme :: "bool \<Rightarrow> chart_palette" where
  "getChartTheme dark =
     (if dark then
        \<lparr>cl_text = ''#c3c2b7'', cl_textStrong = ''#ffffff'', cl_axis = ''#383835'', cl_grid = ''#2c2c2a'',
         cl_tooltipBg = ''#262624'', cl_border = ''rgba(255,255,255,0.10)'', cl_mapBase = ''#26262a'',
         cl_ocean = ''#0b1220''\<rparr>
      else
        \<lparr>cl_text = ''#52514e'', cl_textStrong = ''#0b0b0b'', cl_axis = ''#c3c2b7'', cl_grid = ''#e1e0d9'',
         cl_tooltipBg = ''#ffffff'', cl_border = ''rgba(11,11,11,0.10)'', cl_mapBase = ''#ececec'',
         cl_ocean = ''#e8eef7''\<rparr>)"

definition SEQUENTIAL_BLUE :: "string list" where
  "SEQUENTIAL_BLUE = [''#cde2fb'', ''#9ec5f4'', ''#6da7ec'', ''#3987e5'', ''#256abf'', ''#184f95'', ''#0d366b'']"

subsection \<open>The flat maps\<close>

text \<open>The option of a map: the label of its series is by the mode, its scale goes from 0 to \<open>mo_max\<close>.\<close>

record geo_option =
  mo_map :: string
  mo_mode :: geo_mode
  mo_colors :: chart_palette
  mo_scale :: "string list"
  mo_zoom :: rat
  mo_offset :: "nat option"
  mo_names :: "(units \<times> units) list option"
  mo_max :: nat
  mo_data :: "(units \<times> nat) list"

text \<open>Until its names are there the option of the world is an empty one.\<close>

definition WorldMap2D_option ::
  "(units \<times> units) list option \<Rightarrow> bool \<Rightarrow> geo_mode \<Rightarrow> GeoItem list \<Rightarrow> geo_option option" where
  "WorldMap2D_option nameMap dark mode items =
     (case nameMap of None \<Rightarrow> None
      | Some names \<Rightarrow> Some
          \<lparr>mo_map = ''world'', mo_mode = mode, mo_colors = getChartTheme dark, mo_scale = SEQUENTIAL_BLUE,
           mo_zoom = 14 / 10, mo_offset = Some 40, mo_names = Some names,
           mo_max = snd (world_data mode items), mo_data = fst (world_data mode items)\<rparr>)"

definition ChinaMap_option :: "bool \<Rightarrow> geo_mode \<Rightarrow> GeoItem list \<Rightarrow> geo_option" where
  "ChinaMap_option dark mode items =
     \<lparr>mo_map = ''china'', mo_mode = mode, mo_colors = getChartTheme dark, mo_scale = SEQUENTIAL_BLUE,
      mo_zoom = 12 / 10, mo_offset = None, mo_names = None,
      mo_max = snd (china_data mode items), mo_data = fst (china_data mode items)\<rparr>"

text \<open>The text over a place: a place without a value has 0.\<close>

definition map_tooltip :: "geo_mode \<Rightarrow> units \<Rightarrow> nat option \<Rightarrow> units \<times> geo_mode \<times> nat" where
  "map_tooltip mode name value = (name, mode, case value of None \<Rightarrow> 0 | Some v \<Rightarrow> v)"

text \<open>
  A flat map loads once, when it is mounted. \<open>fm_got\<close> is what its state holds: the names of the
  world, or for China that it is ready. A load that fails leaves the placeholder.
\<close>

record 'n flat_map =
  fm_live :: bool
  fm_got :: "'n option"

definition flat_mount :: "'n flat_map" where
  "flat_mount = \<lparr>fm_live = True, fm_got = None\<rparr>"

definition flat_answer :: "'n option \<Rightarrow> 'n flat_map \<Rightarrow> 'n flat_map" where
  "flat_answer a st = (case a of None \<Rightarrow> st | Some n \<Rightarrow> if fm_live st then st\<lparr>fm_got := Some n\<rparr> else st)"

definition flat_unmount :: "'n flat_map \<Rightarrow> 'n flat_map" where
  "flat_unmount st = st\<lparr>fm_live := False\<rparr>"

text \<open>The placeholder, or the chart and whether its theme is the dark one.\<close>

definition WorldMap2D_view ::
  "(units \<times> units) list flat_map \<Rightarrow> bool \<Rightarrow> geo_mode \<Rightarrow> GeoItem list \<Rightarrow> (geo_option \<times> bool) option" where
  "WorldMap2D_view st dark mode items =
     map_option (\<lambda>opt. (opt, dark)) (WorldMap2D_option (fm_got st) dark mode items)"

definition ChinaMap_view :: "unit flat_map \<Rightarrow> bool \<Rightarrow> geo_mode \<Rightarrow> GeoItem list \<Rightarrow> (geo_option \<times> bool) option" where
  "ChinaMap_view st dark mode items =
     (if fm_got st = None then None else Some (ChinaMap_option dark mode items, dark))"

subsection \<open>The globe\<close>

text \<open>The sky behind the globe: its gradient, and in the dark 400 stars from the numbers of \<open>Math.random\<close>.\<close>

record star =
  st_x :: rat
  st_y :: rat
  st_radius :: rat
  st_alpha :: rat

definition star_of :: "(nat \<Rightarrow> rat) \<Rightarrow> nat \<Rightarrow> star" where
  "star_of rnd i =
     \<lparr>st_x = rnd (4 * i) * 2048, st_y = rnd (4 * i + 1) * 1024,
      st_radius = dbl (dbl (rnd (4 * i + 2) * dbl (11 / 10)) + dbl (2 / 10)),
      st_alpha = dbl (dbl (rnd (4 * i + 3) * dbl (8 / 10)) + dbl (2 / 10))\<rparr>"

definition createStarfield :: "bool \<Rightarrow> (nat \<Rightarrow> rat) \<Rightarrow> (string \<times> string) \<times> star list" where
  "createStarfield dark rnd =
     (if dark then ((''#101624'', ''#05070d''), map (star_of rnd) [0..<400])
      else ((''#f2f6fc'', ''#dbe4f0''), []))"

text \<open>The picture on the globe, and the globe itself: the colour of its air and its sky.\<close>

record globe_picture =
  gp_background :: string
  gp_max :: nat
  gp_border :: string
  gp_area :: string
  gp_names :: "(units \<times> units) list"
  gp_data :: "(units \<times> nat) list"
  gp_atmosphere :: string
  gp_sky :: "(string \<times> string) \<times> star list"

definition globe_options ::
  "bool \<Rightarrow> geo_mode \<Rightarrow> GeoItem list \<Rightarrow> (units \<times> units) list \<Rightarrow> (nat \<Rightarrow> rat) \<Rightarrow> globe_picture" where
  "globe_options dark mode items nameMap rnd =
     \<lparr>gp_background = (if dark then ''#0b1220'' else ''#dbe7f5''), gp_max = snd (world_data mode items),
      gp_border = (if dark then ''#3d4a5c'' else ''#8fa3ba''), gp_area = (if dark then ''#1e2836'' else ''#f2f4f7''),
      gp_names = nameMap, gp_data = fst (world_data mode items), gp_atmosphere = cl_text (getChartTheme dark),
      gp_sky = createStarfield dark rnd\<rparr>"

text \<open>
  What a run waits for: the library, which is known to be there, known not to be, or imported; then
  the map, whose names are known or imported. \<open>gr_base\<close> is the chart of the picture, \<open>gr_chart\<close> that of the globe.
\<close>

datatype gl_wait = GlKnown bool | GlImport
datatype globe_phase = AwaitGl gl_wait | AwaitMap "(units \<times> units) list option" | RunEnded
datatype chart_life = NoChart | ChartAlive | ChartDisposed

text \<open>The items are compared by identity, which is a number.\<close>

type_synonym globe_args = "nat \<times> geo_mode \<times> bool"

record globe_run =
  gr_args :: globe_args
  gr_live :: bool
  gr_phase :: globe_phase
  gr_base :: chart_life
  gr_chart :: chart_life
  gr_observed :: bool

text \<open>\<open>gb_gl\<close> and \<open>gb_maps\<close> are variables of modules; the last run is that of the component.\<close>

record globe =
  gb_gl :: bool
  gb_maps :: map_registry
  gb_mounted :: bool
  gb_fallback :: bool
  gb_ready :: bool
  gb_runs :: "globe_run list"

definition init_globe :: globe where
  "init_globe = \<lparr>gb_gl = False, gb_maps = \<lparr>mr_china = False, mr_world = False, mr_names = None\<rparr>, gb_mounted = False,
     gb_fallback = False, gb_ready = False, gb_runs = []\<rparr>"

definition dispose_life :: "chart_life \<Rightarrow> chart_life" where
  "dispose_life c = (if c = ChartAlive then ChartDisposed else c)"

definition cleanup_run :: "globe_run \<Rightarrow> globe_run" where
  "cleanup_run r =
     r\<lparr>gr_live := False, gr_observed := False, gr_chart := dispose_life (gr_chart r), gr_base := dispose_life (gr_base r)\<rparr>"

definition cleanup_last :: "globe_run list \<Rightarrow> globe_run list" where
  "cleanup_last rs = (if rs = [] then [] else butlast rs @ [cleanup_run (last rs)])"

text \<open>The call of \<open>loadGl\<close> up to its first await; \<open>webgl\<close> is what the probe says.\<close>

definition loadGl :: "bool \<Rightarrow> bool \<Rightarrow> gl_wait" where
  "loadGl glLoaded webgl = (if glLoaded then GlKnown True else if \<not> webgl then GlKnown False else GlImport)"

definition globe_start :: "globe_args \<Rightarrow> bool \<Rightarrow> globe \<Rightarrow> globe" where
  "globe_start args webgl s =
     s\<lparr>gb_runs := gb_runs s @ [\<lparr>gr_args = args, gr_live = True, gr_phase = AwaitGl (loadGl (gb_gl s) webgl),
         gr_base = NoChart, gr_chart = NoChart, gr_observed = False\<rparr>]\<rparr>"

text \<open>A render: the first one mounts the component, a later one starts a run when an argument is another.\<close>

definition globe_render :: "globe_args \<Rightarrow> bool \<Rightarrow> globe \<Rightarrow> globe" where
  "globe_render args webgl s =
     (if \<not> gb_mounted s then globe_start args webgl (s\<lparr>gb_mounted := True, gb_fallback := False, gb_ready := False\<rparr>)
      else if gr_args (last (gb_runs s)) = args then s
      else globe_start args webgl (s\<lparr>gb_runs := cleanup_last (gb_runs s)\<rparr>))"

definition globe_unmount :: "globe \<Rightarrow> globe" where
  "globe_unmount s = (if gb_mounted s then s\<lparr>gb_mounted := False, gb_runs := cleanup_last (gb_runs s)\<rparr> else s)"

text \<open>\<open>ok\<close> is whether the import came through, where there is one.\<close>

definition gl_answer :: "bool \<Rightarrow> globe_run \<Rightarrow> globe \<Rightarrow> globe_run \<times> globe" where
  "gl_answer ok r s =
     (case gr_phase r of
        AwaitGl w \<Rightarrow>
          (let there = (case w of GlKnown b \<Rightarrow> b | GlImport \<Rightarrow> ok);
               s1 = s\<lparr>gb_gl := (gb_gl s \<or> w = GlImport \<and> ok)\<rparr> in
           if \<not> gr_live r then (r\<lparr>gr_phase := RunEnded\<rparr>, s1)
           else if \<not> there then (r\<lparr>gr_phase := RunEnded\<rparr>, s1\<lparr>gb_fallback := True\<rparr>)
           else (r\<lparr>gr_phase := AwaitMap (fst (ensureWorldMap (gb_maps s)))\<rparr>, s1))
      | _ \<Rightarrow> (r, s))"

text \<open>Where the chart library throws while the globe is made, if it does.\<close>

datatype draw_result = DrawDone | BaseInitFails | BaseOptionFails | ChartInitFails | ChartOptionFails

definition draw_globe :: "draw_result \<Rightarrow> globe_run \<Rightarrow> globe \<Rightarrow> globe_run \<times> globe" where
  "draw_globe d r s =
     (r\<lparr>gr_phase := RunEnded,
        gr_base := (if d = BaseInitFails then NoChart else ChartAlive),
        gr_chart := (if d \<in> {BaseInitFails, BaseOptionFails, ChartInitFails} then NoChart else ChartAlive),
        gr_observed := (d = DrawDone)\<rparr>,
      if d = DrawDone then s\<lparr>gb_ready := True\<rparr> else s\<lparr>gb_fallback := True\<rparr>)"

text \<open>
  The names of the map have come, or are refused: nothing catches that. The container is there
  while the component is mounted and does not show the flat map.
\<close>

definition map_answer :: "(units \<times> units) list option option \<Rightarrow> draw_result \<Rightarrow> globe_run \<Rightarrow> globe \<Rightarrow> globe_run \<times> globe" where
  "map_answer a d r s =
     (case gr_phase r of
        AwaitMap names \<Rightarrow>
          (case (names, a) of
             (None, None) \<Rightarrow> (r\<lparr>gr_phase := RunEnded\<rparr>, s)
           | _ \<Rightarrow>
               (let s1 = (case (names, a) of
                      (None, Some namemap) \<Rightarrow> s\<lparr>gb_maps := fst (ensureWorldMap_loaded namemap (gb_maps s))\<rparr> | _ \<Rightarrow> s) in
                if \<not> gr_live r \<or> gb_fallback s then (r\<lparr>gr_phase := RunEnded\<rparr>, s1)
                else draw_globe d r s1))
      | _ \<Rightarrow> (r, s))"

datatype globe_event = GeRender globe_args bool | GeUnmount | GeGl nat bool
  | GeMap nat "(units \<times> units) list option option" draw_result

definition on_run :: "nat \<Rightarrow> (globe_run \<Rightarrow> globe \<Rightarrow> globe_run \<times> globe) \<Rightarrow> globe \<Rightarrow> globe" where
  "on_run n f s =
     (if n < length (gb_runs s)
      then case f (gb_runs s ! n) s of (r, s') \<Rightarrow> s'\<lparr>gb_runs := (gb_runs s)[n := r]\<rparr> else s)"

fun globe_step :: "globe \<Rightarrow> globe_event \<Rightarrow> globe" where
  "globe_step s (GeRender args webgl) = globe_render args webgl s"
| "globe_step s GeUnmount = globe_unmount s"
| "globe_step s (GeGl n ok) = on_run n (gl_answer ok) s"
| "globe_step s (GeMap n a d) = on_run n (map_answer a d) s"

text \<open>What is shown: the flat map, or the container, with a placeholder over it until it is ready.\<close>

datatype globe_view = GlobeFlat | GlobeContainer bool

definition globe_shown :: "globe \<Rightarrow> globe_view" where
  "globe_shown s = (if gb_fallback s then GlobeFlat else GlobeContainer (\<not> gb_ready s))"

subsection \<open>Laws\<close>

text \<open>
  A chart belongs to the run that is shown: a run that was cleaned up has none, and makes none
  whatever answers it gets.
\<close>

definition calm_run :: "globe_run \<Rightarrow> bool" where
  "calm_run r \<longleftrightarrow> gr_base r \<noteq> ChartAlive \<and> gr_chart r \<noteq> ChartAlive \<and> \<not> gr_observed r"

definition shown_run :: "globe_run \<Rightarrow> bool" where
  "shown_run r \<longleftrightarrow> gr_live r \<and> (gr_phase r \<noteq> RunEnded \<longrightarrow> calm_run r)"

definition globe_inv :: "globe \<Rightarrow> bool" where
  "globe_inv s \<longleftrightarrow>
     (if gb_mounted s then gb_runs s \<noteq> [] \<and> shown_run (last (gb_runs s)) \<and>
        (\<forall>r\<in>set (butlast (gb_runs s)). \<not> gr_live r \<and> calm_run r)
      else \<forall>r\<in>set (gb_runs s). \<not> gr_live r \<and> calm_run r)"

lemma cleanup_run_calm: "\<not> gr_live (cleanup_run r) \<and> calm_run (cleanup_run r)"
  by (simp add: cleanup_run_def calm_run_def dispose_life_def)

lemma globe_start_inv:
  "gb_mounted s \<Longrightarrow> \<forall>r\<in>set (gb_runs s). \<not> gr_live r \<and> calm_run r \<Longrightarrow> globe_inv (globe_start args webgl s)"
  by (simp add: globe_inv_def globe_start_def shown_run_def calm_run_def)

lemma cleanup_last_inv:
  "globe_inv s \<Longrightarrow> gb_mounted s \<Longrightarrow> \<forall>r\<in>set (cleanup_last (gb_runs s)). \<not> gr_live r \<and> calm_run r"
  using cleanup_run_calm by (auto simp: globe_inv_def cleanup_last_def)

text \<open>What an answer may do to a run.\<close>

definition tame_answer :: "(globe_run \<Rightarrow> globe \<Rightarrow> globe_run \<times> globe) \<Rightarrow> bool" where
  "tame_answer f \<longleftrightarrow>
     (\<forall>r s. gb_mounted (snd (f r s)) = gb_mounted s \<and> gr_live (fst (f r s)) = gr_live r \<and>
        (\<not> gr_live r \<and> calm_run r \<longrightarrow> calm_run (fst (f r s))) \<and> (shown_run r \<longrightarrow> shown_run (fst (f r s))))"

lemma gl_answer_tame: "tame_answer (gl_answer ok)"
  by (auto simp: tame_answer_def gl_answer_def shown_run_def calm_run_def Let_def split: globe_phase.split gl_wait.split)

lemma map_answer_tame: "tame_answer (map_answer a d)"
  by (auto simp: tame_answer_def map_answer_def draw_globe_def shown_run_def calm_run_def Let_def
      split: globe_phase.split option.split)

lemma on_run_inv:
  assumes f: "tame_answer f" and s: "globe_inv s"
  shows "globe_inv (on_run n f s)"
proof (cases "n < length (gb_runs s)")
  case n: True
  let ?r = "gb_runs s ! n"
  have run: "on_run n f s = (snd (f ?r s))\<lparr>gb_runs := (gb_runs s)[n := fst (f ?r s)]\<rparr>"
    using n by (simp add: on_run_def case_prod_beta)
  have keep: "gb_mounted (snd (f ?r s)) = gb_mounted s" "gr_live (fst (f ?r s)) = gr_live ?r"
    "\<not> gr_live ?r \<and> calm_run ?r \<Longrightarrow> calm_run (fst (f ?r s))" "shown_run ?r \<Longrightarrow> shown_run (fst (f ?r s))"
    using f by (simp_all add: tame_answer_def)
  show ?thesis
  proof (cases "gb_mounted s")
    case True
    then have "gb_runs s \<noteq> []" using s by (simp add: globe_inv_def)
    then obtain rs l where runs: "gb_runs s = rs @ [l]" by (metis rev_exhaust)
    have rs: "\<forall>r\<in>set rs. \<not> gr_live r \<and> calm_run r" "shown_run l" using s True by (simp_all add: globe_inv_def runs)
    show ?thesis
    proof (cases "n = length rs")
      case True
      then show ?thesis unfolding run using keep rs \<open>gb_mounted s\<close> by (simp add: globe_inv_def runs)
    next
      case False
      then have m: "n < length rs" using n by (simp add: runs)
      then have "\<not> gr_live (fst (f ?r s)) \<and> calm_run (fst (f ?r s))"
        using keep(2,3) rs(1) by (simp add: runs nth_append)
      then show ?thesis using m keep(1) rs \<open>gb_mounted s\<close>
        by (auto simp: run globe_inv_def runs list_update_append dest!: set_update_subset_insert [THEN subsetD])
    qed
  next
    case False
    then have dead: "\<forall>r\<in>set (gb_runs s). \<not> gr_live r \<and> calm_run r" using s by (simp add: globe_inv_def)
    then have "\<not> gr_live (fst (f ?r s)) \<and> calm_run (fst (f ?r s))" using keep(2,3) n by simp
    then show ?thesis using dead keep(1) False
      by (auto simp: run globe_inv_def dest!: set_update_subset_insert [THEN subsetD])
  qed
qed (simp add: on_run_def s)

interpretation globe_runs: invariant_machine globe_step globe_inv init_globe
proof
  show "globe_inv init_globe" by (simp add: globe_inv_def init_globe_def)
  fix s e
  assume s: "globe_inv s"
  show "globe_inv (globe_step s e)"
  proof (cases e)
    case (GeRender args webgl)
    then show ?thesis
    proof (cases "gb_mounted s")
      case True
      then show ?thesis using s cleanup_last_inv [OF s] GeRender by (simp add: globe_render_def globe_start_inv)
    next
      case False
      then have "\<forall>r\<in>set (gb_runs s). \<not> gr_live r \<and> calm_run r" using s by (simp add: globe_inv_def)
      then show ?thesis using False GeRender by (simp add: globe_render_def globe_start_inv)
    qed
  next
    case GeUnmount
    then show ?thesis using s cleanup_last_inv [OF s] by (auto simp: globe_unmount_def globe_inv_def)
  next
    case (GeGl n ok)
    then show ?thesis using s by (simp add: on_run_inv gl_answer_tame)
  next
    case (GeMap n a d)
    then show ?thesis using s by (simp add: on_run_inv map_answer_tame)
  qed
qed

definition alive_charts :: "globe \<Rightarrow> nat" where
  "alive_charts s = (\<Sum>r\<leftarrow>gb_runs s. of_bool (gr_base r = ChartAlive) + of_bool (gr_chart r = ChartAlive))"

lemma alive_calm: "\<forall>r\<in>set rs. calm_run r \<Longrightarrow>
    (\<Sum>r\<leftarrow>rs. of_bool (gr_base r = ChartAlive) + of_bool (gr_chart r = ChartAlive)) = (0::nat)"
  by (induction rs) (auto simp: calm_run_def)

text \<open>No chart is lost: there are at most two, those of the run that is shown, and none without the component.\<close>

theorem globe_charts:
  assumes s: "s = run_events globe_step init_globe es"
  shows "alive_charts s \<le> 2 \<and> (\<not> gb_mounted s \<longrightarrow> alive_charts s = 0) \<and>
    (\<forall>r\<in>set (gb_runs s). gr_chart r = ChartAlive \<or> gr_base r = ChartAlive \<longrightarrow> gb_mounted s \<and> r = last (gb_runs s) \<and> gr_live r)"
proof -
  have inv: "globe_inv s" unfolding s by (rule globe_runs.inv_reachable)
  show ?thesis
  proof (cases "gb_mounted s")
    case True
    then have "gb_runs s \<noteq> []" using inv by (simp add: globe_inv_def)
    then obtain rs l where runs: "gb_runs s = rs @ [l]" by (metis rev_exhaust)
    have rs: "\<forall>r\<in>set rs. calm_run r" and l: "gr_live l" using inv True by (simp_all add: globe_inv_def runs shown_run_def)
    have "alive_charts s = of_bool (gr_base l = ChartAlive) + of_bool (gr_chart l = ChartAlive)"
      using alive_calm [OF rs] by (simp add: alive_charts_def runs)
    then show ?thesis using True rs l by (auto simp: runs calm_run_def)
  next
    case False
    then have calm: "\<forall>r\<in>set (gb_runs s). calm_run r" using inv by (simp add: globe_inv_def)
    have "alive_charts s = 0" using alive_calm [OF calm] by (simp add: alive_charts_def)
    then show ?thesis using False calm by (auto simp: calm_run_def)
  qed
qed

text \<open>A refused map leaves the placeholder over an empty container: no answer changes that.\<close>

lemma refused_map_shows_nothing:
  assumes "globe_inv s" and "gb_mounted s" and "\<not> gb_fallback s" and "\<not> gb_ready s"
    and r: "gr_phase (last (gb_runs s)) = AwaitMap None"
    and t: "t = globe_step s (GeMap (length (gb_runs s) - 1) None d)"
  shows "globe_shown t = GlobeContainer True \<and> gr_phase (last (gb_runs t)) = RunEnded \<and>
    calm_run (last (gb_runs t))"
proof -
  have "gb_runs s \<noteq> []" using assms(1,2) by (simp add: globe_inv_def)
  then obtain rs l where runs: "gb_runs s = rs @ [l]" by (metis rev_exhaust)
  have l: "gr_phase l = AwaitMap None" "calm_run l" using assms(1,2) r by (simp_all add: globe_inv_def runs shown_run_def)
  then show ?thesis using assms(3,4) by (simp add: t on_run_def runs map_answer_def globe_shown_def calm_run_def)
qed

text \<open>A run whose answers are good is drawn, with both of its charts.\<close>

lemma good_run_is_drawn:
  assumes "globe_inv s" and "gb_mounted s" and "\<not> gb_fallback s"
    and w: "gr_phase (last (gb_runs s)) = AwaitGl w" "w \<noteq> GlKnown False"
    and n: "n = length (gb_runs s) - 1"
    and t: "t = globe_step (globe_step s (GeGl n True)) (GeMap n (Some names) DrawDone)"
  shows "globe_shown t = GlobeContainer False \<and> gr_args (last (gb_runs t)) = gr_args (last (gb_runs s)) \<and>
    gr_base (last (gb_runs t)) = ChartAlive \<and> gr_chart (last (gb_runs t)) = ChartAlive"
proof -
  have "gb_runs s \<noteq> []" using assms(1,2) by (simp add: globe_inv_def)
  then obtain rs l where runs: "gb_runs s = rs @ [l]" by (metis rev_exhaust)
  have l: "gr_phase l = AwaitGl w" "gr_live l" using assms(1,2) w by (simp_all add: globe_inv_def runs shown_run_def)
  have gl: "gl_answer True l s = (l\<lparr>gr_phase := AwaitMap (fst (ensureWorldMap (gb_maps s)))\<rparr>, s\<lparr>gb_gl := gb_gl s \<or> w = GlImport\<rparr>)"
    using l w(2) by (auto simp: gl_answer_def Let_def split: gl_wait.split)
  show ?thesis using assms(3) l
    by (auto simp: t n on_run_def runs gl map_answer_def draw_globe_def globe_shown_def split: option.split)
qed

end
