(* ===== verification/TemplateDemo.thy ===== *)
theory TemplateDemo
  imports UiCharts "HOL-Library.Multiset"
begin

text \<open>
  The demonstration components of the template, which no page mounts:
  \<open>components/chart-area-interactive.tsx\<close> (a chart of visitors over a range of days) and
  \<open>components/data-table.tsx\<close> (a table whose rows are dragged). The table library keeps filters,
  order and pages: what it reports is a record (\<open>table_report\<close>), what is asked of it an action.
  \<open>arrayMove\<close> and the parsing and subtraction of days are parameters.
\<close>

subsection \<open>Visitors\<close>

definition visitor_data :: "(string \<times> nat \<times> nat) list" where
  "visitor_data =
    [(''2024-04-01'', 222, 150), (''2024-04-02'', 97, 180), (''2024-04-03'', 167, 120), (''2024-04-04'', 242, 260),
     (''2024-04-05'', 373, 290), (''2024-04-06'', 301, 340), (''2024-04-07'', 245, 180), (''2024-04-08'', 409, 320),
     (''2024-04-09'', 59, 110), (''2024-04-10'', 261, 190), (''2024-04-11'', 327, 350), (''2024-04-12'', 292, 210),
     (''2024-04-13'', 342, 380), (''2024-04-14'', 137, 220), (''2024-04-15'', 120, 170), (''2024-04-16'', 138, 190),
     (''2024-04-17'', 446, 360), (''2024-04-18'', 364, 410), (''2024-04-19'', 243, 180), (''2024-04-20'', 89, 150),
     (''2024-04-21'', 137, 200), (''2024-04-22'', 224, 170), (''2024-04-23'', 138, 230), (''2024-04-24'', 387, 290),
     (''2024-04-25'', 215, 250), (''2024-04-26'', 75, 130), (''2024-04-27'', 383, 420), (''2024-04-28'', 122, 180),
     (''2024-04-29'', 315, 240), (''2024-04-30'', 454, 380), (''2024-05-01'', 165, 220), (''2024-05-02'', 293, 310),
     (''2024-05-03'', 247, 190), (''2024-05-04'', 385, 420), (''2024-05-05'', 481, 390), (''2024-05-06'', 498, 520),
     (''2024-05-07'', 388, 300), (''2024-05-08'', 149, 210), (''2024-05-09'', 227, 180), (''2024-05-10'', 293, 330),
     (''2024-05-11'', 335, 270), (''2024-05-12'', 197, 240), (''2024-05-13'', 197, 160), (''2024-05-14'', 448, 490),
     (''2024-05-15'', 473, 380), (''2024-05-16'', 338, 400), (''2024-05-17'', 499, 420), (''2024-05-18'', 315, 350),
     (''2024-05-19'', 235, 180), (''2024-05-20'', 177, 230), (''2024-05-21'', 82, 140), (''2024-05-22'', 81, 120),
     (''2024-05-23'', 252, 290), (''2024-05-24'', 294, 220), (''2024-05-25'', 201, 250), (''2024-05-26'', 213, 170),
     (''2024-05-27'', 420, 460), (''2024-05-28'', 233, 190), (''2024-05-29'', 78, 130), (''2024-05-30'', 340, 280),
     (''2024-05-31'', 178, 230), (''2024-06-01'', 178, 200), (''2024-06-02'', 470, 410), (''2024-06-03'', 103, 160),
     (''2024-06-04'', 439, 380), (''2024-06-05'', 88, 140), (''2024-06-06'', 294, 250), (''2024-06-07'', 323, 370),
     (''2024-06-08'', 385, 320), (''2024-06-09'', 438, 480), (''2024-06-10'', 155, 200), (''2024-06-11'', 92, 150),
     (''2024-06-12'', 492, 420), (''2024-06-13'', 81, 130), (''2024-06-14'', 426, 380), (''2024-06-15'', 307, 350),
     (''2024-06-16'', 371, 310), (''2024-06-17'', 475, 520), (''2024-06-18'', 107, 170), (''2024-06-19'', 341, 290),
     (''2024-06-20'', 408, 450), (''2024-06-21'', 169, 210), (''2024-06-22'', 317, 270), (''2024-06-23'', 480, 530),
     (''2024-06-24'', 132, 180), (''2024-06-25'', 141, 190), (''2024-06-26'', 434, 380), (''2024-06-27'', 448, 490),
     (''2024-06-28'', 149, 200), (''2024-06-29'', 103, 160), (''2024-06-30'', 446, 400)]"

definition visitor_config :: chart_config where
  "visitor_config =
     [(''visitors'', \<lparr>ct_label = Some ''Visitors'', ct_icon = None, ct_color = None, ct_theme = None\<rparr>),
      (''desktop'', \<lparr>ct_label = Some ''Desktop'', ct_icon = None, ct_color = Some ''hsl(var(--chart-1))'', ct_theme = None\<rparr>),
      (''mobile'', \<lparr>ct_label = Some ''Mobile'', ct_icon = None, ct_color = Some ''hsl(var(--chart-2))'', ct_theme = None\<rparr>)]"

text \<open>The effect on the width of the screen; a group gives the empty text when its value is pressed again.\<close>

definition timeRange_init :: string where "timeRange_init = ''30d''"

definition timeRange_effect :: "bool \<Rightarrow> bool \<Rightarrow> string \<Rightarrow> string" where
  "timeRange_effect before isMobile r = (if before \<noteq> isMobile \<and> isMobile then ''7d'' else r)"

definition daysToSubtract :: "string \<Rightarrow> nat" where
  "daysToSubtract timeRange = (if timeRange = ''30d'' then 30 else if timeRange = ''7d'' then 7 else 90)"

text \<open>\<open>day\<close> parses a date, \<open>back\<close> goes back a number of days (\<open>setDate\<close>).\<close>

definition filteredVisitors :: "(string \<Rightarrow> int) \<Rightarrow> (int \<Rightarrow> nat \<Rightarrow> int) \<Rightarrow> string \<Rightarrow> (string \<times> nat \<times> nat) list" where
  "filteredVisitors day back timeRange =
     filter (\<lambda>item. back (day ''2024-06-30'') (daysToSubtract timeRange) \<le> day (fst item)) visitor_data"

record visitor_chart =
  vc_range :: string
  vc_config :: chart_config
  vc_rows :: "(string \<times> nat \<times> nat) list"
  vc_areas :: "(string \<times> string) list"

definition ChartAreaInteractive :: "(string \<Rightarrow> int) \<Rightarrow> (int \<Rightarrow> nat \<Rightarrow> int) \<Rightarrow> string \<Rightarrow> visitor_chart" where
  "ChartAreaInteractive day back timeRange =
     \<lparr>vc_range = timeRange, vc_config = visitor_config, vc_rows = filteredVisitors day back timeRange,
      vc_areas = [(''mobile'', ''url(#fillMobile)''), (''desktop'', ''url(#fillDesktop)'')]\<rparr>"

subsection \<open>The table of sections\<close>

record doc_section =
  ds_id :: nat
  ds_header :: string
  ds_type :: string
  ds_status :: string
  ds_target :: string
  ds_limit :: string
  ds_reviewer :: string

definition dataIds :: "doc_section list \<Rightarrow> nat list" where
  "dataIds rows = map ds_id rows"

fun find_index_from :: "nat \<Rightarrow> nat list \<Rightarrow> nat \<Rightarrow> nat option" where
  "find_index_from n [] i = None"
| "find_index_from n (x # xs) i = (if x = i then Some n else find_index_from (Suc n) xs i)"

lemma find_index_from_bound: "find_index_from n ids i = Some k \<Longrightarrow> n \<le> k \<and> k < n + length ids"
  by (induction n ids i rule: find_index_from.induct) (auto split: if_splits)

lemma find_index_from_mem: "i \<in> set ids \<Longrightarrow> find_index_from n ids i \<noteq> None"
  by (induction n ids i rule: find_index_from.induct) auto

definition js_index_of :: "nat list \<Rightarrow> nat \<Rightarrow> int" where
  "js_index_of ids i = (case find_index_from 0 ids i of None \<Rightarrow> -1 | Some n \<Rightarrow> int n)"

text \<open>The rows are moved by the places that the ids of the render have; the updater gets the present rows.\<close>

definition handleDragEnd ::
  "(doc_section list \<Rightarrow> int \<Rightarrow> int \<Rightarrow> doc_section list) \<Rightarrow> nat list \<Rightarrow> nat option \<Rightarrow> nat option \<Rightarrow> doc_section list \<Rightarrow> doc_section list" where
  "handleDragEnd arrayMove ids active over_row rows =
     (case (active, over_row) of
        (Some a, Some b) \<Rightarrow> if a \<noteq> b then arrayMove rows (js_index_of ids a) (js_index_of ids b) else rows
      | _ \<Rightarrow> rows)"

datatype box_state = Checked | Unchecked | Indeterminate

record table_report =
  tr_allSelected :: bool
  tr_someSelected :: bool
  tr_selected :: nat
  tr_filtered :: nat
  tr_pageIndex :: nat
  tr_pageSize :: nat
  tr_pageCount :: nat
  tr_canPrevious :: bool
  tr_canNext :: bool
  tr_rows :: "(doc_section \<times> bool) list"

datatype section_cell = DragCell nat | SelectCell bool | HeaderCell string | TypeCell string | StatusCell bool string
  | TargetCell string | LimitCell string | ReviewerCell string | ReviewerChoice "string list" | MenuCell "string list"

definition select_all :: "table_report \<Rightarrow> box_state" where
  "select_all t = (if tr_allSelected t then Checked else if tr_someSelected t then Indeterminate else Unchecked)"

definition section_cells :: "doc_section \<times> bool \<Rightarrow> section_cell list" where
  "section_cells rs =
     (case rs of (r, selected) \<Rightarrow>
       [DragCell (ds_id r), SelectCell selected, HeaderCell (ds_header r), TypeCell (ds_type r),
        StatusCell (ds_status r = ''Done'') (ds_status r), TargetCell (ds_target r), LimitCell (ds_limit r),
        (if ds_reviewer r \<noteq> ''Assign reviewer'' then ReviewerCell (ds_reviewer r)
         else ReviewerChoice [''Eddie Lake'', ''Jamik Tashpulatov'']),
        MenuCell [''Edit'', ''Make a copy'', ''Favorite'', ''Delete'']])"

text \<open>The columns that can be hidden, and those the menu offers: the ones with a value.\<close>

definition offered_columns :: "(string \<times> bool \<times> bool) list \<Rightarrow> string list" where
  "offered_columns cols = map fst (filter (\<lambda>(i, accessor, canHide). accessor \<and> canHide) cols)"

definition section_columns :: "(string \<times> bool \<times> bool) list" where
  "section_columns =
     [(''drag'', False, True), (''select'', False, False), (''header'', True, False), (''type'', True, True),
      (''status'', True, True), (''target'', True, True), (''limit'', True, True), (''reviewer'', True, True),
      (''actions'', False, True)]"

datatype table_action = SetPageIndex int | PreviousPage | NextPage | SetPageSize nat

text \<open>The foot: the selection, the page and the four arrows, each with what it asks for where it is enabled.\<close>

record table_foot =
  tf_selected :: "nat \<times> nat"
  tf_pageSize :: nat
  tf_sizes :: "nat list"
  tf_page :: "nat \<times> nat"
  tf_first :: "table_action option"
  tf_previous :: "table_action option"
  tf_next :: "table_action option"
  tf_last :: "table_action option"

definition section_foot :: "table_report \<Rightarrow> table_foot" where
  "section_foot t =
     \<lparr>tf_selected = (tr_selected t, tr_filtered t), tf_pageSize = tr_pageSize t, tf_sizes = [10, 20, 30, 40, 50],
      tf_page = (tr_pageIndex t + 1, tr_pageCount t),
      tf_first = (if tr_canPrevious t then Some (SetPageIndex 0) else None),
      tf_previous = (if tr_canPrevious t then Some PreviousPage else None),
      tf_next = (if tr_canNext t then Some NextPage else None),
      tf_last = (if tr_canNext t then Some (SetPageIndex (int (tr_pageCount t) - 1)) else None)\<rparr>"

text \<open>Without rows a text spans all columns: \<open>Inl\<close> their number.\<close>

definition section_body :: "table_report \<Rightarrow> nat + section_cell list list" where
  "section_body t = (if tr_rows t = [] then Inl (length section_columns) else Inr (map section_cells (tr_rows t)))"

subsection \<open>The sheet of a section\<close>

definition sheet_data :: "(string \<times> nat \<times> nat) list" where
  "sheet_data = [(''January'', 186, 80), (''February'', 305, 200), (''March'', 237, 120), (''April'', 73, 190),
     (''May'', 209, 130), (''June'', 214, 140)]"

definition sheet_config :: chart_config where
  "sheet_config =
     [(''desktop'', \<lparr>ct_label = Some ''Desktop'', ct_icon = None, ct_color = Some ''var(--primary)'', ct_theme = None\<rparr>),
      (''mobile'', \<lparr>ct_label = Some ''Mobile'', ct_icon = None, ct_color = Some ''var(--primary)'', ct_theme = None\<rparr>)]"

record section_sheet =
  sh_title :: string
  sh_chart :: "(chart_config \<times> (string \<times> nat \<times> nat) list) option"
  sh_header :: string
  sh_type :: "string \<times> string list"
  sh_status :: "string \<times> string list"
  sh_target :: string
  sh_limit :: string
  sh_reviewer :: "string \<times> string list"

definition TableCellViewer :: "bool \<Rightarrow> doc_section \<Rightarrow> section_sheet" where
  "TableCellViewer isMobile item =
     \<lparr>sh_title = ds_header item, sh_chart = (if isMobile then None else Some (sheet_config, sheet_data)),
      sh_header = ds_header item,
      sh_type = (ds_type item, [''Table of Contents'', ''Executive Summary'', ''Technical Approach'', ''Design'',
        ''Capabilities'', ''Focus Documents'', ''Narrative'', ''Cover Page'']),
      sh_status = (ds_status item, [''Done'', ''In Progress'', ''Not Started'']),
      sh_target = ds_target item, sh_limit = ds_limit item,
      sh_reviewer = (ds_reviewer item, [''Eddie Lake'', ''Jamik Tashpulatov'', ''Emily Whalen''])\<rparr>"

subsection \<open>Laws\<close>

text \<open>A move that keeps the rows keeps them all; only their order changes.\<close>

lemma drag_keeps_rows:
  assumes move: "\<And>xs i j. 0 \<le> i \<Longrightarrow> i < int (length xs) \<Longrightarrow> 0 \<le> j \<Longrightarrow> j < int (length xs) \<Longrightarrow> mset (arrayMove xs i j) = mset xs"
    and ids: "a \<in> ds_id ` set rows" "b \<in> ds_id ` set rows"
  shows "mset (handleDragEnd arrayMove (dataIds rows) (Some a) (Some b) rows) = mset rows"
proof -
  have at: "0 \<le> js_index_of (dataIds rows) i \<and> js_index_of (dataIds rows) i < int (length rows)"
    if "i \<in> ds_id ` set rows" for i
    using that find_index_from_bound [of 0 "dataIds rows" i] find_index_from_mem [of i "dataIds rows" 0]
    by (auto simp: js_index_of_def dataIds_def split: option.split)
  show ?thesis using move at ids by (simp add: handleDragEnd_def)
qed

lemma offered: "offered_columns section_columns = [''type'', ''status'', ''target'', ''limit'', ''reviewer'']"
  by (simp add: offered_columns_def section_columns_def)

text \<open>A wider range shows at least as much, where going back further gives an earlier day.\<close>

lemma wider_range:
  assumes "\<And>d m n. m \<le> n \<Longrightarrow> back d n \<le> back d m" and "daysToSubtract r \<le> daysToSubtract q"
  shows "set (filteredVisitors day back r) \<subseteq> set (filteredVisitors day back q)"
  using assms(1) [OF assms(2), of "day ''2024-06-30''"] by (auto simp: filteredVisitors_def)

end
