(* ===== verification/BoardViews.thy ===== *)
theory BoardViews
  imports UiCharts Dashboard GeoNames FsActions LoginPages
begin

text \<open>
  The charts of the boards: what \<open>pages/dashboard/features/traffic/index.tsx\<close>,
  \<open>features/security/index.tsx\<close>, \<open>shared/MetricDetail.tsx\<close>, \<open>shared/QpsSparkCard.tsx\<close> and
  \<open>shared/DonutLegendList.tsx\<close> hand to the charts of \<open>UiCharts\<close>, and that what is printed beside a
  chart is what the chart shows. The tables of the paged security pages
  (\<open>pages/security/logs/index.tsx\<close>, \<open>pages/security/threats/index.tsx\<close>,
  \<open>pages/protect-config/rate-limit/index.tsx\<close>) are instances of \<open>DataTable\<close>, with what their cells
  show of a row; then what \<open>pages/dashboard/page.tsx\<close> offers and mounts. \<open>clk\<close> is the text of a time, \<open>fmt\<close> that of a time in a table, \<open>lab\<close> the label of a category. At the
  end, two things at the edge to the browser: how a downloaded file is saved and what the page of
  the retention says.
\<close>

subsection \<open>Rows\<close>

definition count_cell :: "nat \<Rightarrow> payload_value" where
  "count_cell n = PvNumber (of_nat n)"

definition traffic_rows :: "(clock_text \<Rightarrow> string) \<Rightarrow> StatRange \<Rightarrow> TimeseriesPoint list \<Rightarrow> payload list" where
  "traffic_rows clk rng series =
     map (\<lambda>(t, r, b). [(''time'', PvText (clk t)), (''requests'', count_cell r), (''blocked'', count_cell b)])
       (chartData rng series)"

definition metric_rows :: "(clock_text \<Rightarrow> string) \<Rightarrow> StatRange \<Rightarrow> TimeseriesPoint list \<Rightarrow> payload list" where
  "metric_rows clk rng series =
     map (\<lambda>p. [(''time'', PvText (clk (formatSeriesTime (tp_time p) rng))), (''requests'', count_cell (tp_requests p)),
        (''blocked'', count_cell (tp_blocked p)), (''error4xx'', count_cell (tp_error4xx p)),
        (''error5xx'', count_cell (tp_error5xx p))]) series"

definition security_rows :: "(clock_text \<Rightarrow> string) \<Rightarrow> StatRange \<Rightarrow> TimeseriesPoint list \<Rightarrow> payload list" where
  "security_rows clk rng series =
     map (\<lambda>(t, b, e). [(''time'', PvText (clk t)), (''blocked'', count_cell b), (''error5xx'', count_cell e)])
       (security_chart rng series)"

subsection \<open>Charts\<close>

text \<open>The values are numbers: no text is parsed.\<close>

definition no_texts :: "string \<Rightarrow> rat option" where
  "no_texts s = None"

definition board_area :: "string list \<Rightarrow> string list \<Rightarrow> (string \<Rightarrow> string option) \<Rightarrow> payload list \<Rightarrow> bool \<Rightarrow> area_chart" where
  "board_area cats colors lab rows markPeak =
     AreaChart no_texts rows cats ''time'' colors lab (True, True, False) markPeak"

definition traffic_requests_chart ::
  "(clock_text \<Rightarrow> string) \<Rightarrow> (string \<Rightarrow> string option) \<Rightarrow> bool \<Rightarrow> StatRange \<Rightarrow> TimeseriesPoint list \<Rightarrow> area_chart" where
  "traffic_requests_chart clk lab dark rng series =
     board_area [''requests''] [if dark then ''#3987e5'' else ''#2a78d6''] lab (traffic_rows clk rng series) True"

definition traffic_blocked_chart ::
  "(clock_text \<Rightarrow> string) \<Rightarrow> (string \<Rightarrow> string option) \<Rightarrow> bool \<Rightarrow> StatRange \<Rightarrow> TimeseriesPoint list \<Rightarrow> area_chart" where
  "traffic_blocked_chart clk lab dark rng series =
     board_area [''blocked''] [if dark then ''#d95926'' else ''#eb6834''] lab (traffic_rows clk rng series) True"

definition security_area ::
  "(clock_text \<Rightarrow> string) \<Rightarrow> (string \<Rightarrow> string option) \<Rightarrow> bool \<Rightarrow> StatRange \<Rightarrow> TimeseriesPoint list \<Rightarrow> area_chart" where
  "security_area clk lab dark rng series =
     board_area [''blocked'', ''error5xx''] [if dark then ''#d95926'' else ''#eb6834'', ''#d03b3b''] lab
       (security_rows clk rng series) False"

text \<open>The chart of a metric; the two metrics of attackers have numbers instead.\<close>

definition metric_area ::
  "(clock_text \<Rightarrow> string) \<Rightarrow> (string \<Rightarrow> string option) \<Rightarrow> bool \<Rightarrow> StatRange \<Rightarrow> TimeseriesPoint list \<Rightarrow> metric_chart \<Rightarrow> area_chart option" where
  "metric_area clk lab dark rng series c =
     (let rows = metric_rows clk rng series in
      case c of
        ChartRequests \<Rightarrow> Some (board_area [''requests''] [if dark then ''#3987e5'' else ''#2a78d6''] lab rows True)
      | Chart4xx \<Rightarrow> Some (board_area [''error4xx''] [if dark then ''#c98500'' else ''#eda100''] lab rows True)
      | Chart5xx \<Rightarrow> Some (board_area [''error5xx''] [''#d03b3b''] lab rows True)
      | ChartBlocked \<Rightarrow> Some (board_area [''blocked''] [if dark then ''#d95926'' else ''#eb6834''] lab rows True)
      | NumbersOfAttack \<Rightarrow> None)"

text \<open>Those numbers: attackers, those of the last minute, and the blocked requests with their kinds.\<close>

definition attack_numbers :: "StatisticsOverview option \<Rightarrow> string list" where
  "attack_numbers ov =
     (let n = (\<lambda>f. formatCount (case ov of None \<Rightarrow> 0 | Some x \<Rightarrow> f x)) in
      [n so_attackIps, n so_abnormalIpsLive, n so_blocked, n so_blocked403, n so_blockedBot, n so_blocked429])"

definition qps_chart :: "qps_card \<Rightarrow> chart_bar axis_chart option" where
  "qps_chart st =
     BarChart (map (\<lambda>(t, n). [(''time'', PvText t), (''QPS'', count_cell n)]) (qc_history st)) [''QPS''] ''time''
       [''#eda100''] (\<lambda>c. None) (False, False, False) None"

definition legend_donut :: "nat \<Rightarrow> string list \<Rightarrow> (string \<times> nat) list \<Rightarrow> donut_chart option" where
  "legend_donut maxRows colors items =
     DonutChart (map (\<lambda>(k, n). (k, of_nat n)) (take maxRows items)) None True colors False"

subsection \<open>The chart and the number beside it\<close>

lemma peak_of_None: "peak_of val index rows p = None \<longleftrightarrow> rows = [] \<and> p = None"
  by (induction val index rows p rule: peak_of.induct) (auto split: option.splits)

lemma chart_peak_None:
  "chart_peak parse True [c] index rows = None \<longleftrightarrow> (\<forall>r\<in>set rows. row_value parse c r \<le> 0)"
proof (cases "peak_of (row_value parse c) index rows None")
  case None
  then show ?thesis by (simp add: chart_peak_def peak_of_None)
next
  case (Some q)
  obtain r rs where rows: "rows = r # rs" using Some by (cases rows) auto
  let ?v = "row_value parse c"
  obtain x y where q: "q = (x, y)" by (cases q)
  obtain x' y' where p: "peak_of ?v index rs (Some (map_of r index, ?v r)) = Some (x', y')" "?v r \<le> y'"
      "\<forall>s\<in>set rs. ?v s \<le> y'"
      "(x', y') = (map_of r index, ?v r) \<or> ?v r < y' \<and> (\<exists>i<length rs. x' = map_of (rs ! i) index \<and> y' = ?v (rs ! i) \<and> (\<forall>j<i. ?v (rs ! j) < y'))"
    using peak_of_from [OF refl, of ?v index rs "map_of r index" "?v r"] by auto
  have y: "y = y'" using Some p(1) q by (simp add: rows)
  have "y \<le> 0 \<longleftrightarrow> (\<forall>r\<in>set rows. ?v r \<le> 0)"
  proof
    assume "\<forall>r\<in>set rows. ?v r \<le> 0"
    then show "y \<le> 0" using p(4) y by (auto simp: rows)
  qed (use p(2,3) y in \<open>force simp: rows\<close>)
  then show ?thesis using Some q by (simp add: chart_peak_def)
qed

lemma foldl_max_eq: "(\<forall>x\<in>set xs. x \<le> m) \<Longrightarrow> m \<in> set xs \<Longrightarrow> foldl max 0 xs = (m::nat)"
proof -
  assume le: "\<forall>x\<in>set xs. x \<le> m" and m: "m \<in> set xs"
  have "foldl max a xs \<le> max a m" if "\<forall>x\<in>set xs. x \<le> m" for a :: nat and xs
    using that
  proof (induction xs arbitrary: a)
    case (Cons x xs)
    then have "foldl max (max a x) xs \<le> max (max a x) m" "x \<le> m" by simp_all
    then show ?case by simp
  qed simp
  from this [OF le, of 0] have "foldl max 0 xs \<le> m" by simp
  moreover have "m \<le> foldl max 0 xs" using foldl_max_ge [of 0 xs] m by blast
  ultimately show ?thesis by simp
qed

text \<open>
  For a chart of counts over the points of a series: the marked point is the first one with the
  greatest count, and none is marked when all are zero. \<open>foldl max 0\<close> is what is printed beside it.
\<close>

lemma marked_peak:
  assumes row: "\<And>p. map_of (row p) ''time'' = Some (PvText (tim p))" "\<And>p. map_of (row p) c = Some (count_cell (f p))"
  shows "chart_peak no_texts True [c] ''time'' (map row series) =
    (if foldl max 0 (map f series) = 0 then None
     else case find (\<lambda>p. f p = foldl max 0 (map f series)) series of
       None \<Rightarrow> None | Some p \<Rightarrow> Some (Some (PvText (tim p)), of_nat (f p)))"
proof (cases "chart_peak no_texts True [c] ''time'' (map row series)")
  case None
  have val: "row_value no_texts c (row p) = of_nat (f p)" for p by (simp add: row_value_def payload_number_def row(2) count_cell_def)
  have "\<forall>p\<in>set series. f p = 0" using None by (simp add: chart_peak_None val)
  then have "foldl max 0 (map f series) = 0" by (induction series) auto
  then show ?thesis using None by simp
next
  case (Some q)
  obtain x y where q: "q = (x, y)" by (cases q)
  have val: "row_value no_texts c (row p) = of_nat (f p)" for p by (simp add: row_value_def payload_number_def row(2) count_cell_def)
  from chart_peak_first [OF Some [unfolded q]] obtain i where y: "0 < y" "\<forall>p\<in>set series. of_nat (f p) \<le> y"
      and i: "i < length series" "x = Some (PvText (tim (series ! i)))" "y = of_nat (f (series ! i))"
        "\<forall>j<i. (of_nat (f (series ! j)) :: rat) < y"
    by (auto simp: val row(1))
  have m: "foldl max 0 (map f series) = f (series ! i)"
    using i(1,3) y(2) by (intro foldl_max_eq) auto
  have "find (\<lambda>p. f p = f (series ! i)) series = Some (series ! i)"
    unfolding find_Some_iff using i by (intro exI [of _ i]) auto
  then show ?thesis using y(1) i Some q m by simp
qed

lemma traffic_peak_agrees:
  "at_peak (traffic_requests_chart clk lab dark rng series) =
     (if requestsPeak series = 0 then None
      else case find (\<lambda>p. tp_requests p = requestsPeak series) series of None \<Rightarrow> None
        | Some p \<Rightarrow> Some (Some (PvText (clk (formatSeriesTime (tp_time p) rng))), of_nat (tp_requests p)))"
  "at_peak (traffic_blocked_chart clk lab dark rng series) =
     (if blockedPeak series = 0 then None
      else case find (\<lambda>p. tp_blocked p = blockedPeak series) series of None \<Rightarrow> None
        | Some p \<Rightarrow> Some (Some (PvText (clk (formatSeriesTime (tp_time p) rng))), of_nat (tp_blocked p)))"
  by (simp_all add: traffic_requests_chart_def traffic_blocked_chart_def board_area_def AreaChart_def traffic_rows_def
      chartData_def comp_def requestsPeak_def blockedPeak_def
      marked_peak [where tim = "\<lambda>p. clk (formatSeriesTime (tp_time p) rng)" and f = tp_requests]
      marked_peak [where tim = "\<lambda>p. clk (formatSeriesTime (tp_time p) rng)" and f = tp_blocked])

text \<open>A slice has the name, the value and the colour of its row in the list beside it.\<close>

lemma donut_is_its_list:
  "DonutLegendList False maxRows colors items = DonutRows rows \<Longrightarrow>
   map (\<lambda>(k, n, t, c). (k, of_nat n, c)) rows = dn_slices (the (legend_donut maxRows colors items))"
  by (auto simp: DonutLegendList_def legend_donut_def DonutChart_def color_at_def Let_def enumerate_map_upt
      enumerate_eq_zip map_zip_map2 zip_map2 split: if_splits)

subsection \<open>Saving a downloaded file\<close>

text \<open>
  The blob gets an address, which is given back a minute later whatever happens; an anchor with the
  name is added, pressed and taken away, up to the step that throws, if one does.
\<close>

datatype disk_step = MakeAnchor | AddAnchor string | ClickAnchor | RemoveAnchor
datatype disk_effect = ObjectUrl | DiskStep disk_step | RevokeAfter nat

definition save_steps :: "string \<Rightarrow> disk_step list" where
  "save_steps fileName = [MakeAnchor, AddAnchor fileName, ClickAnchor, RemoveAnchor]"

definition save_blob :: "string \<Rightarrow> nat option \<Rightarrow> disk_effect list" where
  "save_blob fileName throws =
     ObjectUrl # map DiskStep (case throws of None \<Rightarrow> save_steps fileName | Some k \<Rightarrow> take k (save_steps fileName)) @
     [RevokeAfter 60000]"

definition download_effects :: "string \<Rightarrow> fs_payload settled \<Rightarrow> nat option \<Rightarrow> disk_effect list" where
  "download_effects fileName s throws = (case downloadToDisk s of Inl e \<Rightarrow> [] | Inr _ \<Rightarrow> save_blob fileName throws)"

lemma url_given_back: "ObjectUrl \<in> set (download_effects n s t) \<longleftrightarrow> RevokeAfter 60000 \<in> set (download_effects n s t)"
  by (simp add: download_effects_def save_blob_def split: sum.split)

subsection \<open>What the page of the retention says\<close>

datatype setting_message = SettingRefused "string option" | SettingSaved | SettingFailed

definition save_setting_message :: "'a cert_answer \<Rightarrow> setting_message" where
  "save_setting_message a =
     (case a of Failed m \<Rightarrow> SettingRefused (case m of None \<Rightarrow> None | Some t \<Rightarrow> if t = [] then None else Some t)
      | Passed d \<Rightarrow> SettingSaved | Threw e \<Rightarrow> SettingFailed)"

text \<open>Where what counts as saved changes, the page says so.\<close>

lemma said_is_saved: "se_saved (save_setting_done sent a st) \<noteq> se_saved st \<Longrightarrow> save_setting_message a = SettingSaved"
  by (auto simp: save_setting_done_def save_setting_message_def split: cert_answer.splits)

subsection \<open>The log of blocked requests\<close>

definition BLOCK_CLASSES :: "nat \<Rightarrow> string option" where
  "BLOCK_CLASSES code =
     (if code = 1 then Some ''border-destructive/40 bg-destructive/10 text-destructive''
      else if code = 2 then Some ''border-amber-500/40 bg-amber-500/10 text-amber-600 dark:text-amber-400''
      else if code = 3 then Some ''border-primary/40 bg-primary/10 text-primary''
      else if code = 4 then Some ''border-orange-500/40 bg-orange-500/10 text-orange-600 dark:text-orange-400''
      else None)"

definition formatTs :: "(nat \<Rightarrow> string) \<Rightarrow> nat \<Rightarrow> string" where
  "formatTs fmt ts = fmt (ts * 1000)"

datatype log_cell = LogText string | LogPlace "string list" | LogStatus nat | LogReason block_label string

definition log_columns :: "(nat \<Rightarrow> string) \<Rightarrow> (log_item \<Rightarrow> log_cell) list" where
  "log_columns fmt =
     [\<lambda>r. LogText (formatTs fmt (lg_ts r)), \<lambda>r. LogText (lg_ip r),
      \<lambda>r. if geo_cell r = [] then LogText ''-'' else LogPlace (geo_cell r),
      \<lambda>r. LogText (if lg_host r = [] then ''-'' else lg_host r), \<lambda>r. LogText (lg_path r), \<lambda>r. LogText (lg_method r),
      \<lambda>r. LogStatus (lg_status r),
      \<lambda>r. LogReason (BLOCK_LABELS (lg_blocked r)) (case BLOCK_CLASSES (lg_blocked r) of None \<Rightarrow> [] | Some c \<Rightarrow> c)]"

text \<open>The number of records in the head, and the table with its arrows.\<close>

definition BlockedLogPage :: "(nat \<Rightarrow> string) \<Rightarrow> log_item paged \<Rightarrow> nat \<times> log_cell table_body \<times> data_pager option" where
  "BlockedLogPage fmt st =
     (pd_total st, DataTable (log_columns fmt) (pd_data st) (pd_loading st) (pd_pageSize st) (pd_total st) (pd_page st))"

subsection \<open>Threats\<close>

definition WINDOW_SECONDS :: nat where "WINDOW_SECONDS = 60"

definition RETENTION_MINUTES :: nat where "RETENTION_MINUTES = 30"

datatype threat_cell = ThreatText string | ThreatWindow nat bool | ThreatTotal nat
  | ThreatError "string \<times> string option \<times> string" | ThreatButtons "bool \<times> bool \<times> bool"

definition threat_columns :: "threat_page \<Rightarrow> (AbnormalIp \<Rightarrow> threat_cell) list" where
  "threat_columns st =
     [\<lambda>r. ThreatText (ab_ip r), \<lambda>r. ThreatWindow (ab_windowErrorCount r) (abnormal r),
      \<lambda>r. ThreatTotal (ab_totalErrorCount r), \<lambda>r. ThreatError (error_cell r), \<lambda>r. ThreatText (ab_lastSeen r),
      \<lambda>r. ThreatButtons (threat_buttons st r)]"

text \<open>The rules in the card beside the table, and the table.\<close>

definition ThreatDetectionPage ::
  "threat_page \<Rightarrow> (nat \<times> nat \<times> nat) \<times> threat_cell table_body \<times> data_pager option" where
  "ThreatDetectionPage st =
     ((WINDOW_SECONDS, ABNORMAL_THRESHOLD, RETENTION_MINUTES),
      (let l = th_list st in
       DataTable (threat_columns st) (pd_data l) (pd_loading l) (pd_pageSize l) (pd_total l) (pd_page l)))"

subsection \<open>Rate limits\<close>

text \<open>The rows have no \<open>createdAt\<close>; the buttons of the last cell have no handlers.\<close>

datatype rate_cell = RateText string | RateEnabled bool | RatePeriod period_label | RateLimitOf int | RateCreatedAt
  | RateButtons

definition rate_columns :: "(RateLimit \<Rightarrow> rate_cell) list" where
  "rate_columns =
     [\<lambda>r. RateText (rt_name r), \<lambda>r. RateEnabled (rt_enable r), \<lambda>r. RateText (rt_endpoint r),
      \<lambda>r. RatePeriod (formatPeriod (rt_period r)), \<lambda>r. RateLimitOf (rt_limit r), \<lambda>r. RateCreatedAt, \<lambda>r. RateButtons]"

definition RateLimitPage ::
  "rate_page \<Rightarrow> (nat \<times> nat \<times> nat) \<times> (rate_cell table_body \<times> data_pager option) \<times> bool" where
  "RateLimitPage st =
     (rate_counts st,
      (let l = rp_list st in
       DataTable rate_columns (pd_data l) (pd_loading l) (pd_pageSize l) (pd_total l) (pd_page l)),
      rp_createVisible st)"

subsection \<open>The dashboard\<close>

definition DASHBOARD_TABS :: "dashboard_tab list" where
  "DASHBOARD_TABS = [TabTraffic, TabSecurity]"

text \<open>
  The tabs with the mark of the chosen one, the menu and the shown value of the hosts, the range
  shown by the group and the menu, and what is mounted: one board, or its placeholder until its
  code is there (\<open>loaded\<close>).
\<close>

record dashboard_view =
  dv_tabs :: "(dashboard_tab \<times> bool) list"
  dv_hosts :: "string list"
  dv_host :: string
  dv_range :: string
  dv_board :: "dashboard_tab option"

definition DashboardPage :: "(dashboard_tab \<Rightarrow> bool) \<Rightarrow> dashboard_store \<Rightarrow> dashboard_page \<Rightarrow> dashboard_view" where
  "DashboardPage loaded store st =
     \<lparr>dv_tabs = map (\<lambda>t. (t, t = dp_tab st)) DASHBOARD_TABS, dv_hosts = host_menu st, dv_host = shown_host store,
      dv_range = ds_range store, dv_board = (if loaded (dp_tab st) then Some (dp_tab st) else None)\<rparr>"

text \<open>The three counters of the rate limits agree with the rows they are of.\<close>

lemma rate_counts_rows: "fst (snd (rate_counts st)) + snd (snd (rate_counts st)) = length (pd_data (rp_list st))"
  by (simp add: rate_counts_def sum_length_filter_compl)

text \<open>A chosen host is found in the menu when it is one of the routes'.\<close>

lemma host_in_menu: "ds_host store = None \<or> the (ds_host store) \<in> set (dp_domains st) \<Longrightarrow>
    dv_host (DashboardPage loaded store st) \<in> set (dv_hosts (DashboardPage loaded store st))"
  by (auto simp: DashboardPage_def shown_host_def host_menu_def split: option.splits)

lemma one_tab_marked: "\<exists>!t. (t, True) \<in> set (dv_tabs (DashboardPage loaded store st))"
  by (cases "dp_tab st") (auto simp: DashboardPage_def DASHBOARD_TABS_def)

text \<open>Every reason of a block but that of the challenge, and an unknown one, has a colour.\<close>

lemma reasons_coloured: "BLOCK_CLASSES code = None \<longleftrightarrow> BLOCK_LABELS code \<in> {LabBot, LabBlocked}"
  by (auto simp: BLOCK_CLASSES_def BLOCK_LABELS_def)

end
