(* ===== verification/Spec2Isabelle.thy ===== *)
theory Spec2Isabelle
  imports FsProperties UploadProperties WebProperties AdminProperties RouteProperties ServerProperties BoardProperties PagedProperties UiSidebar UiParts UiMotion UiCharts FsDialogs GeoMaps TemplateDemo BoardViews
begin

text \<open>
  The administration dashboard of FastGateway (\<open>web/src/\<close>, TypeScript and React), modelled from
  its source. The dashboard is a set of pages over one HTTP wrapper; each page keeps its state in
  React hooks, changes it in handlers that may await requests, and shows a view of it. The gateway
  itself is written in C# and is outside, except for its list of servers: what it answers is an
  argument of the continuations.

  \<^bold>\<open>How code becomes definitions.\<close> A page's hooks are one record. A handler is a function from the
  state to the new state and the list of its effects (requests, messages, navigation), with its
  guards in the order of the code. What follows an \<open>await\<close> is a function of its own, ending in
  \<open>_done\<close> (or named after the request), which takes the settled answer and the state at that
  later time, so that any other event may come between; what a JavaScript closure keeps of its
  render is an explicit argument (\<open>captured\<close>). An answer is \<open>Resolved r\<close> or \<open>Rejected e\<close>
  (\<open>ServiceResult\<close>). An effect hook is a function of the state before and after the commit.
  A view is a value computed from the state; texts are constructors. Sizes and counts are \<open>nat\<close>;
  where the code divides, the double is rounded as IEEE 754 does (\<open>JsNumber\<close>); text fields of
  numbers are rationals. Strings are lists of code units below 256.

  \<^bold>\<open>The platform.\<close>
  \<^item> \<open>FgPrelude\<close>: collections of rules, list operations of the code (patch by key, stable sort by a
    comparator, update and removal by index) and two interfaces: \<open>keyed_store\<close>, rows patched by a
    key, and \<open>invariant_machine\<close>, a machine with an invariant of its runs.
  \<^item> \<open>JsString\<close>, \<open>JsNumber\<close>, \<open>JsRegex\<close>: the operations of the language the code uses; \<open>rx_test\<close>
    decides a pattern by derivatives and is proved against the meaning \<open>rx_in\<close>.
  \<^item> \<open>UrlEncoding\<close>, \<open>HttpClient\<close> (\<open>utils/fetch.ts\<close>), \<open>ServiceResult\<close>: requests, the classification
    of answers, and what a page makes of them. JSON parsing and the network are parameters.
  \<^item> \<open>FileService\<close>, \<open>ApiServices\<close> (\<open>services/\<close>): one definition per exported call.

  \<^bold>\<open>The file page\<close> (\<open>pages/filestorage/page.tsx\<close>). \<open>FsPath\<close> has the path helpers (with the
  interface \<open>path_relocation\<close>), \<open>FsTree\<close> the directory tree, \<open>FsState\<close> the state and the requests
  in flight, \<open>FsTabs\<close> the editor tabs, \<open>FsActions\<close> the file operations, \<open>FsView\<close> what is shown.
  \<open>FsSystem\<close> composes them into the step relation \<open>fs_step\<close> over user events and answers, with the
  two effect hooks run after each; \<open>FsInvariants\<close> and \<open>FsSafety\<close> hold what every reachable state
  satisfies; \<open>FsRun\<close> executes runs; \<open>FsRefine\<close> states the abstract editor the tabs implement
  and proves the simulation. The properties are in \<open>FsProperties\<close>.

  \<^bold>\<open>The upload queue\<close> (\<open>hooks/useUpload.ts\<close>, \<open>features/UploadQueue.tsx\<close>). \<open>UploadEngine\<close> is the
  drain loop cut at its awaits: chunks of 5 MiB, at most three retries with a
  pause, cancel, retry, clear. \<open>UploadChunks\<close> has the arithmetic of the chunks,
  \<open>UploadInvariant\<close> the invariant that ties rows to requests, \<open>UploadProgress\<close> the measure that
  every answer makes smaller, \<open>UploadSuccess\<close> the normal course for every list of files, \<open>UploadView\<close>
  the rows. The properties are in \<open>UploadProperties\<close>.

  \<^bold>\<open>Toasts and routes.\<close> \<open>ToastStore\<close> (\<open>hooks/use-toast.ts\<close>, in which a component that shows toasts
  is rendered first and listens later); \<open>HealthModel\<close>
  (\<open>pages/server/info/health.ts\<close> and the badges); \<open>RouteForm\<close> and \<open>RouteList\<close> (the dialogs and the
  list of routes), \<open>RoutePage\<close> (\<open>pages/server/info/page.tsx\<close> with its header and pipeline, the fields
  of the route form and \<open>components/ui/multi-select.tsx\<close>). \<open>BatchSelection\<close> is the interface of
  the lists with a batch mode; \<open>RouteList\<close> and \<open>ServerList\<close> interpret it. The properties are in \<open>WebProperties\<close>.

  \<^bold>\<open>Dialogs and the route page as a system.\<close> \<open>FormDialog\<close> is the machine that the form dialogs
  share (\<open>dialog_step\<close>: opening, editing, saving, cancelling, dismissing, late answers) with the
  contract of a form as the locales \<open>form_dialog\<close> and \<open>locked_dialog\<close>; \<open>FormDialogs\<close> gives the seven
  forms of servers, routes, forwarding rules and certificates as instances. \<open>RouteViews\<close> has the
  controls of the route list, and \<open>RouteSystem\<close> composes header, list, dialogs and the stores of
  \<open>store/server\<close> into \<open>route_step\<close>, in which answers come in any order and also after the page was
  left, and an answer without a list takes the page away. \<open>RouteMarks\<close> has its invariant, \<open>RouteProperties\<close> the properties.

  \<^bold>\<open>The server page with the gateway behind it.\<close> \<open>GatewayServers\<close> models what the calls of the
  page do to the gateway (\<open>src/FastGateway/Services/ServerService.cs\<close>): the stored servers and those
  that run. \<open>ServerSystem\<close> composes header, list, dialogs, store and gateway into \<open>server_step\<close>: a
  request is carried out at one event and answered at another, in any order. \<open>ServerMarks\<close> has the
  invariant, \<open>ServerSettle\<close> the measure of the calls that are out and the convergence of the list,
  \<open>ServerBatch\<close> what a batch action does to the gateway, \<open>ServerProperties\<close> the properties. The
  number of rounds in them is the measure, which every round makes smaller. That a request is
  carried out at once, and that the start of an enabled server succeeds, are simplifications.

  \<^bold>\<open>Administration.\<close> \<open>ServerForm\<close> and \<open>ServerList\<close> (\<open>pages/server/features/\<close>, \<open>store/server\<close>), \<open>StreamPage\<close>
  (\<open>pages/stream-forward/\<close>), \<open>CertForms\<close>, \<open>CertPage\<close>, \<open>TablePager\<close> (\<open>pages/cert/\<close>), \<open>TunnelPage\<close>
  (\<open>pages/tunnel/\<close>), \<open>ClusterPage\<close>, \<open>ProtectForms\<close> and \<open>SecurityPages\<close> (\<open>pages/protect-config/\<close>,
  \<open>pages/security/\<close>), \<open>LoginPages\<close> (login, retention, theme), \<open>Hooks\<close> (\<open>usePolling\<close>,
  \<open>useControlledState\<close>). \<open>TablePager\<close> also has the table of the security pages
  (\<open>components/ui/data-table.tsx\<close>). The properties are in \<open>AdminProperties\<close>.

  \<^bold>\<open>The paged pages as systems.\<close> \<open>PagedLoads\<close> is the machine of a page that shows one page of a list
  at a time: its effect loads when the key of what is shown changes, continuations load with the
  key they captured, and answers come in any order. Its contract is \<open>paged_list\<close>, with
  \<open>steady_list\<close> for pages whose answers leave the key alone and \<open>following_list\<close> for one whose
  answers set it. \<open>PagedPages\<close> interprets them for access control, threats, certificates and rate
  limits; \<open>PagedProperties\<close> has the properties. A course is \<open>in_turn\<close> when answers come in
  order, continuations load what is shown by then, and an answer after which nothing is out is a
  success: without that a late answer may stay.

  \<^bold>\<open>Dashboard and frame.\<close> \<open>DashDetail\<close> (\<open>pages/dashboard/types.ts\<close> and \<open>shared/\<close>: formats, lists, the
  detail of a metric, the dialog of a ranking), \<open>GeoNames\<close> (\<open>features/traffic/map-utils.ts\<close> and the
  card of places; names are lists of UTF-16 code units), \<open>GeoMaps\<close> (the maps, and the globe with the
  life of its charts), \<open>Dashboard\<close> (the page and its two boards,
  one of which is also the security overview), \<open>AppShell\<close> (\<open>App.tsx\<close>, \<open>routes/\<close>, side bar, layout,
  palette, theme), \<open>AboutPage\<close> (\<open>pages/about/page.tsx\<close>). Their invariants are interpretations of
  \<open>invariant_machine\<close> in these theories; the property is in \<open>BoardProperties\<close>.

  \<^bold>\<open>What the groups of lemmas show.\<close> Invariants of every run: tabs addressed by path with exact
  dirty marks, no expanded folder left unloaded, marks that are only set while their request is in
  flight (of placeholders and savings; the others exactly then), upload rows that fit the engine, one toast, at most one polling request. Safety: no file
  operation without its guards and consent, no merge before all chunks, forms that send exactly
  the valid values, a login only with password and token and one at a time. Liveness and termination:
  any list of files whose requests succeed is delivered in order, and the queue ends whatever is answered. Refinement: the
  tabs implement a plain editor. Places are merged without loss, no link of the frame is dead and
  at most one entry of the side bar is marked. Equivalence and round trips: the mail pattern and
  its meaning, addresses and queries that decode to their arguments, chunks that put together are the file.
  Errors: the races and slips the code has, each with a run that shows it.

  \<^bold>\<open>Bounds and fuel.\<close> No definition is cut off by fuel: all recursion is structural or carries its
  measure. The statements about chunks hold for files below \<open>2^52\<close> bytes, far above what a
  browser file can hold, where the division by the chunk size rounds to the right ceiling; the
  retries are bounded by the code's own constant.

  \<^bold>\<open>Parameters.\<close> The order \<open>localeCompare\<close> (\<open>cmp\<close>), the parsing and formatting of dates and the
  clock (\<open>parse\<close>, \<open>fmt\<close>, \<open>days\<close>, \<open>now\<close>), the answers of dialogs of the browser (\<open>ask\<close>), upload
  ids, and all answers of the server.

  \<^bold>\<open>Interface library.\<close> \<open>UiTooltip\<close> (the provider with its timer, triggers, overlay), \<open>UiHighlight\<close>
  (the moving highlight), \<open>UiSidebar\<close> (the side bar, its cookie and shortcut), \<open>UiParts\<close> (watched
  attributes, accordions, file trees, tabs, menus, slots, measured heights) and \<open>UiMotion\<close> (delays,
  running numbers, the copy button, chart instances) model what \<open>components/animate-ui\<close>,
  \<open>components/ui/sidebar.tsx\<close>, \<open>components/motion\<close> and \<open>hooks\<close> decide on top of the libraries for
  menus, positions, animation and charts, which report by events. Each is an instance of
  \<open>invariant_machine\<close>; class names are kept only where a choice depends on the state.

  \<open>UiCharts\<close> (\<open>components/ui/chart.tsx\<close> and the bar, line, area and donut charts) has what is handed
  to the chart library, \<open>BoardViews\<close> the charts of the boards and their agreement with the numbers
  beside them, and the tables of the paged pages; \<open>FsDialogs\<close> the small dialogs of the files and \<open>utils/byte.ts\<close>,
  \<open>utils/date.ts\<close>; \<open>TemplateDemo\<close> the demonstration chart and table of the template.

  \<^bold>\<open>Not modelled.\<close> The styled elements of the UI kit (no state or choices of their own); the
  drawing of charts, globe and maps; which route the router picks for a path; the navigation
  lists of the template, which no page mounts; the probes of the browser; the loading of the
  challenge script. The gateway server is C#.
\<close>

end
